(* ===== verification/Prelude.thy ===== *)
theory Prelude
  imports Complex_Main "HOL-Library.Product_Lexorder" "HOL-Library.List_Lexorder"
    "HOL-Library.Char_ord"
begin

text \<open>
  The vocabulary every component of the development shares: Go's \<^verbatim>\<open>time.Time\<close>,
  \<^verbatim>\<open>time.Duration\<close> and the string functions the sources call, the result type of a
  state-changing operation, and the lemmas on maps, on \<^verbatim>\<open>range\<close> over a Go map and on
  slash-separated keys that the component theories use.

  Conventions.  An operation that may fail and may change its receiver returns an
  \<open>outcome\<close>: the error or the value, and the state the receiver has afterwards.  A clock
  reading (\<^verbatim>\<open>q.now()\<close>) and a freshly generated identifier (\<^verbatim>\<open>types.NewID\<close>) are
  arguments of the operation that takes them.  A \<^verbatim>\<open>range\<close> over a Go map visits its keys
  in an unspecified order; the order is an argument too (\<open>ord\<close>, with \<open>enumerates ord m\<close>),
  so that a theorem for every \<open>ord\<close> covers every run.
\<close>

section \<open>Results of operations\<close>

type_synonym ('e, 'a, 's) outcome = "('e + 'a) \<times> 's"

named_theorems store_defs "definitions of the operations of a store"
named_theorems inv_simps "unfolded invariants"

fun succeeded :: "('e + 'a) \<times> 's \<Rightarrow> bool" where
  "succeeded (Inl e, s) = False"
| "succeeded (Inr a, s) = True"

section \<open>Time and durations\<close>

text \<open>
  A \<^verbatim>\<open>time.Time\<close> is the number of nanoseconds since Go's zero time (1 January of year 1,
  UTC), so \<^verbatim>\<open>IsZero\<close> is \<open>t = 0\<close>.  A duration is its number of nanoseconds.
\<close>

type_synonym time = int
type_synonym duration = int

definition zero_time :: time where "zero_time = 0"

definition IsZero :: "time \<Rightarrow> bool" where "IsZero t \<longleftrightarrow> t = zero_time"

abbreviation After :: "time \<Rightarrow> time \<Rightarrow> bool" where "After t u \<equiv> u < t"
abbreviation Before :: "time \<Rightarrow> time \<Rightarrow> bool" where "Before t u \<equiv> t < u"

definition Millisecond :: duration where "Millisecond = 1000000"
definition Second :: duration where "Second = 1000000000"
definition Minute :: duration where "Minute = 60000000000"
definition Hour :: duration where "Hour = 3600000000000"

lemmas duration_defs = Millisecond_def Second_def Minute_def Hour_def

text \<open>\<^verbatim>\<open>Time.Sub\<close> saturates at the bounds of the 64-bit \<^verbatim>\<open>Duration\<close>.\<close>

definition maxDuration :: duration where "maxDuration = 9223372036854775807"
definition minDuration :: duration where "minDuration = - 9223372036854775808"

definition Sub :: "time \<Rightarrow> time \<Rightarrow> duration" where
  "Sub t u = max minDuration (min maxDuration (t - u))"

text \<open>\<^verbatim>\<open>Time.Truncate\<close> rounds down to a multiple of the duration since the zero time.\<close>

definition Truncate :: "time \<Rightarrow> duration \<Rightarrow> time" where
  "Truncate t d = (if d \<le> 0 then t else t - t mod d)"

lemma Truncate_le: "Truncate t d \<le> t"
  by (simp add: Truncate_def)

lemma Truncate_gt: "0 < d \<Longrightarrow> t < Truncate t d + d"
  by (simp add: Truncate_def)

lemma Truncate_div: "0 < d \<Longrightarrow> Truncate t d = t div d * d"
  by (simp add: Truncate_def minus_mod_eq_div_mult)

lemma Truncate_mono: "t \<le> u \<Longrightarrow> Truncate t d \<le> Truncate u d"
  by (cases "0 < d") (simp_all add: Truncate_div zdiv_mono1 mult_right_mono, simp add: Truncate_def)

lemma Sub_less_iff: "minDuration < d \<Longrightarrow> d \<le> maxDuration \<Longrightarrow> Sub t u < d \<longleftrightarrow> t < u + d"
  by (auto simp: Sub_def max_def min_def)

text \<open>Integer division of Go truncates towards zero.\<close>

definition go_div :: "int \<Rightarrow> int \<Rightarrow> int" where
  "go_div a b = sgn a * sgn b * (\<bar>a\<bar> div \<bar>b\<bar>)"

lemma go_div_nonneg: "0 \<le> a \<Longrightarrow> 0 < b \<Longrightarrow> go_div a b = a div b"
  by (cases "a = 0") (auto simp: go_div_def)

section \<open>Strings\<close>

text \<open>A Go string is its bytes.  \<open>Bytes.char\<close>s compare as bytes, lists lexicographically.\<close>

definition HasPrefix :: "string \<Rightarrow> string \<Rightarrow> bool" where
  "HasPrefix s p \<longleftrightarrow> take (length p) s = p"

definition TrimPrefix :: "string \<Rightarrow> string \<Rightarrow> string" where
  "TrimPrefix s p = (if HasPrefix s p then drop (length p) s else s)"

fun Contains :: "string \<Rightarrow> string \<Rightarrow> bool" where
  "Contains [] p \<longleftrightarrow> p = []"
| "Contains (c # s) p \<longleftrightarrow> HasPrefix (c # s) p \<or> Contains s p"

lemma HasPrefix_iff: "HasPrefix s p \<longleftrightarrow> (\<exists>t. s = p @ t)"
  by (auto simp: HasPrefix_def) (metis append_take_drop_id)

lemma HasPrefix_Nil [simp]: "HasPrefix s []"
  by (simp add: HasPrefix_def)

lemma HasPrefix_refl [simp]: "HasPrefix s s"
  by (simp add: HasPrefix_def)

lemma Contains_iff: "Contains s p \<longleftrightarrow> (\<exists>a b. s = a @ p @ b)"
proof (induction s)
  case Nil
  then show ?case by auto
next
  case (Cons c s)
  have "Contains (c # s) p \<longleftrightarrow> (\<exists>b. c # s = p @ b) \<or> (\<exists>a b. s = a @ p @ b)"
    by (simp add: HasPrefix_iff Cons.IH)
  also have "\<dots> \<longleftrightarrow> (\<exists>a b. c # s = a @ p @ b)"
  proof
    assume "(\<exists>b. c # s = p @ b) \<or> (\<exists>a b. s = a @ p @ b)"
    then show "\<exists>a b. c # s = a @ p @ b"
      by (metis append_Cons append_Nil)
  next
    assume "\<exists>a b. c # s = a @ p @ b"
    then obtain a b where ab: "c # s = a @ p @ b" by blast
    then show "(\<exists>b. c # s = p @ b) \<or> (\<exists>a b. s = a @ p @ b)"
      by (cases a) auto
  qed
  finally show ?case .
qed

text \<open>
  \<^verbatim>\<open>strings.TrimSpace\<close> and \<^verbatim>\<open>strings.Fields\<close> cut at the code points with Unicode's
  White\_Space property (\<^verbatim>\<open>unicode.IsSpace\<close>): the six ASCII ones and the encodings of
  U+0085, U+00A0, U+1680, U+2000 to U+200A, U+2028, U+2029, U+202F, U+205F and U+3000.
\<close>

definition space_seqs :: "string list" where
  "space_seqs =
     [[CHR 0x09], [CHR 0x0A], [CHR 0x0B], [CHR 0x0C], [CHR 0x0D], [CHR 0x20],
      [CHR 0xC2, CHR 0x85], [CHR 0xC2, CHR 0xA0], [CHR 0xE1, CHR 0x9A, CHR 0x80],
      [CHR 0xE2, CHR 0x80, CHR 0x80], [CHR 0xE2, CHR 0x80, CHR 0x81],
      [CHR 0xE2, CHR 0x80, CHR 0x82], [CHR 0xE2, CHR 0x80, CHR 0x83],
      [CHR 0xE2, CHR 0x80, CHR 0x84], [CHR 0xE2, CHR 0x80, CHR 0x85],
      [CHR 0xE2, CHR 0x80, CHR 0x86], [CHR 0xE2, CHR 0x80, CHR 0x87],
      [CHR 0xE2, CHR 0x80, CHR 0x88], [CHR 0xE2, CHR 0x80, CHR 0x89],
      [CHR 0xE2, CHR 0x80, CHR 0x8A], [CHR 0xE2, CHR 0x80, CHR 0xA8],
      [CHR 0xE2, CHR 0x80, CHR 0xA9], [CHR 0xE2, CHR 0x80, CHR 0xAF],
      [CHR 0xE2, CHR 0x81, CHR 0x9F], [CHR 0xE3, CHR 0x80, CHR 0x80]]"

text \<open>The length of the white space at the front of a byte string, 0 when there is none.\<close>

definition space_len :: "string list \<Rightarrow> string \<Rightarrow> nat" where
  "space_len seqs s = (case find (HasPrefix s) seqs of None \<Rightarrow> 0 | Some q \<Rightarrow> length q)"

function trim_front :: "string list \<Rightarrow> string \<Rightarrow> string" where
  "trim_front seqs s =
     (if s \<noteq> [] \<and> 0 < space_len seqs s then trim_front seqs (drop (space_len seqs s) s) else s)"
  by pat_completeness auto
termination
  by (relation "measure (\<lambda>(seqs, s). length s)") auto

declare trim_front.simps [simp del]

definition TrimSpace :: "string \<Rightarrow> string" where
  "TrimSpace s = rev (trim_front (map rev space_seqs) (rev (trim_front space_seqs s)))"

function fields_from :: "string \<Rightarrow> string \<Rightarrow> string list" where
  "fields_from acc s =
     (case s of
        [] \<Rightarrow> (if acc = [] then [] else [rev acc])
      | c # s' \<Rightarrow>
          (if 0 < space_len space_seqs s
           then (if acc = [] then [] else [rev acc]) @ fields_from [] (drop (space_len space_seqs s) s)
           else fields_from (c # acc) s'))"
  by pat_completeness auto
termination
  by (relation "measure (\<lambda>(acc, s). length s)") auto

declare fields_from.simps [simp del]

definition Fields :: "string \<Rightarrow> string list" where "Fields s = fields_from [] s"

text \<open>Key parts that hold no slash.\<close>

definition slash_free :: "string \<Rightarrow> bool" where
  "slash_free s \<longleftrightarrow> CHR ''/'' \<notin> set s"

text \<open>The decimal rendering of an integer, as the \<^verbatim>\<open>%d\<close> verb prints it.\<close>

fun digits_of :: "nat \<Rightarrow> string" where
  "digits_of n =
     (if n < 10 then [char_of (48 + n)] else digits_of (n div 10) @ [char_of (48 + n mod 10)])"

declare digits_of.simps [simp del]

definition format_int :: "int \<Rightarrow> string" where
  "format_int i = (if i < 0 then ''-'' @ digits_of (nat (- i)) else digits_of (nat i))"

text \<open>Reading the digits back, so that distinct integers print differently.\<close>

definition read_nat :: "string \<Rightarrow> nat" where
  "read_nat s = foldl (\<lambda>n c. 10 * n + (of_char c - 48)) 0 s"

lemma read_digits_of: "read_nat (digits_of n) = n"
proof (induction n rule: digits_of.induct)
  case (1 n)
  then show ?case
    by (subst digits_of.simps) (simp add: read_nat_def of_char_of take_bit_eq_mod)
qed

lemma digits_of_chars: "c \<in> set (digits_of n) \<Longrightarrow> CHR ''0'' \<le> c \<and> c \<le> CHR ''9''"
proof (induction n rule: digits_of.induct)
  case (1 n)
  have d: "CHR ''0'' \<le> (char_of (48 + m) :: char) \<and> (char_of (48 + m) :: char) \<le> CHR ''9''" if "m < 10" for m :: nat
    using that by (simp add: less_eq_char_def of_char_of take_bit_eq_mod)
  show ?case
  proof (cases "n < 10")
    case True
    with 1(2) d [of n] show ?thesis by (subst (asm) digits_of.simps) simp
  next
    case False
    with 1 d [of "n mod 10"] show ?thesis by (subst (asm) digits_of.simps) (auto split: if_splits)
  qed
qed

lemma format_int_slash_free: "slash_free (format_int i)"
proof -
  have "CHR ''/'' \<notin> set (digits_of n)" for n
    using digits_of_chars [of "CHR ''/''" n] by (auto simp: less_eq_char_def)
  then show ?thesis by (simp add: format_int_def slash_free_def)
qed

lemma digits_of_inject: "digits_of m = digits_of n \<longleftrightarrow> m = n"
  by (metis read_digits_of)

lemma format_int_inject: "format_int i = format_int j \<longleftrightarrow> i = j"
proof -
  have minus: "digits_of n \<noteq> CHR ''-'' # s" for n s
    using digits_of_chars [of "CHR ''-''" n] by (auto simp: less_eq_char_def)
  show ?thesis
    using minus minus [symmetric] by (auto simp: format_int_def digits_of_inject)
qed

text \<open>
  \<^verbatim>\<open>strings.ToLower\<close> as far as a search for an ASCII word can tell: ASCII capitals, and the
  two other code points whose lower case is an ASCII letter, the Kelvin sign U+212A and the
  dotted capital I U+0130.
\<close>

definition lower_char :: "char \<Rightarrow> char" where
  "lower_char c = (if CHR ''A'' \<le> c \<and> c \<le> CHR ''Z'' then char_of (of_char c + 32 :: nat) else c)"

function ToLower :: "string \<Rightarrow> string" where
  "ToLower s =
     (case s of
        [] \<Rightarrow> []
      | c # s' \<Rightarrow>
          (if HasPrefix s [CHR 0xE2, CHR 0x84, CHR 0xAA] then CHR ''k'' # ToLower (drop 3 s)
           else if HasPrefix s [CHR 0xC4, CHR 0xB0] then CHR ''i'' # ToLower (drop 2 s)
           else lower_char c # ToLower s'))"
  by pat_completeness auto
termination
  by (relation "measure length") auto

declare ToLower.simps [simp del]

text \<open>\<^verbatim>\<open>hex.EncodeToString\<close>.\<close>

definition hex_encode :: "string \<Rightarrow> string" where
  "hex_encode s = concat (map (\<lambda>c. let n = of_char c :: nat
                                  in [''0123456789abcdef'' ! (n div 16), ''0123456789abcdef'' ! (n mod 16)]) s)"

text \<open>
  \<^verbatim>\<open>Time.Format("2006-01")\<close> of a UTC time: the proleptic Gregorian year and month, counted from
  a 1 March so that the leap day is the last of its year.
\<close>

definition civil_month :: "time \<Rightarrow> int \<times> int" where
  "civil_month t =
     (let z = t div (24 * Hour) + 306; era = z div 146097; doe = z mod 146097;
          yoe = (doe - doe div 1460 + doe div 36524 - doe div 146096) div 365;
          doy = doe - (365 * yoe + yoe div 4 - yoe div 100); mp = (5 * doy + 2) div 153;
          m = (if mp < 10 then mp + 3 else mp - 9)
      in (yoe + era * 400 + (if m \<le> 2 then 1 else 0), m))"

definition pad_left :: "nat \<Rightarrow> string \<Rightarrow> string" where
  "pad_left n s = replicate (n - length s) CHR ''0'' @ s"

definition format_month :: "time \<Rightarrow> string" where
  "format_month t =
     (let ym = civil_month t in pad_left 4 (format_int (fst ym)) @ ''-'' @ pad_left 2 (format_int (snd ym)))"

section \<open>Maps and range loops\<close>

text \<open>
  A Go map is a partial function; reading an absent key gives the zero value of the
  element type, \<open>lookup_zero\<close>.  \<open>enumerates ord m\<close> says that \<open>ord\<close> is one of the orders
  in which \<^verbatim>\<open>range m\<close> may visit the keys; \<open>vals ord m\<close> are the values in that order.
\<close>

definition lookup_zero :: "'v \<Rightarrow> ('k \<rightharpoonup> 'v) \<Rightarrow> 'k \<Rightarrow> 'v" where
  "lookup_zero z m k = (case m k of None \<Rightarrow> z | Some v \<Rightarrow> v)"

definition enumerates :: "'k list \<Rightarrow> ('k \<rightharpoonup> 'v) \<Rightarrow> bool" where
  "enumerates ord m \<longleftrightarrow> distinct ord \<and> set ord = dom m"

definition vals :: "'k list \<Rightarrow> ('k \<rightharpoonup> 'v) \<Rightarrow> 'v list" where
  "vals ord m = List.map_filter m ord"

lemma lookup_zero_simps [simp]:
  "m k = Some v \<Longrightarrow> lookup_zero z m k = v"
  "m k = None \<Longrightarrow> lookup_zero z m k = z"
  "lookup_zero z (m(k \<mapsto> v)) k' = (if k' = k then v else lookup_zero z m k')"
  by (auto simp: lookup_zero_def)

lemma enumerates_mem: "enumerates ord m \<Longrightarrow> k \<in> set ord \<longleftrightarrow> m k \<noteq> None"
  by (auto simp: enumerates_def dom_def)

lemma enumeratesD: "enumerates ord m \<Longrightarrow> m k = Some v \<Longrightarrow> k \<in> set ord"
  by (simp add: enumerates_mem)

lemma set_vals: "set (vals ord m) = {v. \<exists>k \<in> set ord. m k = Some v}"
  by (auto simp: vals_def List.map_filter_def image_def)

lemma set_vals_enumerates: "enumerates ord m \<Longrightarrow> set (vals ord m) = ran m"
  by (auto simp: set_vals ran_def dest: enumeratesD)

lemma length_vals_enumerates:
  assumes "enumerates ord m"
  shows "length (vals ord m) = card (dom m)"
proof -
  have "length (vals ord m) = length (filter (\<lambda>k. m k \<noteq> None) ord)"
    by (simp add: vals_def List.map_filter_def)
  also have "filter (\<lambda>k. m k \<noteq> None) ord = ord"
    using assms by (auto simp: filter_id_conv enumerates_def)
  also have "length ord = card (dom m)"
    using assms distinct_card [of ord] by (simp add: enumerates_def)
  finally show ?thesis .
qed

lemma enumerates_update: "m k = Some v \<Longrightarrow> enumerates ord m \<Longrightarrow> enumerates ord (m(k \<mapsto> w))"
  by (auto simp: enumerates_def dom_def insert_absorb)

section \<open>Keys joined with slashes\<close>

text \<open>
  The stores index their maps with strings such as \<^verbatim>\<open>org + "/" + key\<close>.  Joining is
  injective when the leading parts hold no slash.
\<close>

lemma slash_split_unique:
  "slash_free a \<Longrightarrow> slash_free a' \<Longrightarrow> a @ CHR ''/'' # b = a' @ CHR ''/'' # b' \<Longrightarrow> a = a' \<and> b = b'"
proof (induction a arbitrary: a')
  case Nil
  then show ?case by (cases a') (auto simp: slash_free_def)
next
  case (Cons c a)
  then show ?case by (cases a') (auto simp: slash_free_def)
qed

lemma slash_key2:
  assumes "slash_free a" "slash_free a'"
  shows "a @ ''/'' @ b = a' @ ''/'' @ b' \<longleftrightarrow> a = a' \<and> b = b'"
  using slash_split_unique [OF assms, of b b'] by auto

section \<open>Sorting\<close>

text \<open>
  \<^verbatim>\<open>sort.Slice\<close> with a comparison of a key sorts by that key.  It is not stable, and the
  slices it is applied to come from \<^verbatim>\<open>range\<close> loops: since the enumeration is arbitrary, the
  stable \<open>sort_key\<close> over every enumeration gives every result the code can give.
\<close>

lemma sorted_first_min:
  assumes "sorted (map f (xs @ x # ys))" "y \<in> set (x # ys)"
  shows "f x \<le> f y"
  using assms by (auto simp: sorted_append)

end
