(* ===== verification/Types.thy ===== *)
theory Types
  imports Prelude
begin

text \<open>
  The storage-independent boundary types of \<^verbatim>\<open>types/\<close>: identifiers, Slack envelopes and
  their classification as human, integration or membership events, model profiles and
  routes, classification decisions, context candidates and packs, and the validated Slack
  result a job produces and a delivery carries.

  A JSON value of type \<^verbatim>\<open>any\<close> is a \<open>json\<close>; a \<^verbatim>\<open>float64\<close> is a rational (the code only
  compares floats); bytes are strings.  A pointer to a struct is an option.
\<close>

section \<open>Identifiers (types/ids.go)\<close>

text \<open>
  \<^verbatim>\<open>uuid.NewString\<close> is third-party code; its result is the argument \<open>uuid\<close>.  An empty
  prefix panics (\<open>None\<close>).
\<close>

definition NewID :: "string \<Rightarrow> string \<Rightarrow> string option" where
  "NewID prefix uuid =
     (let p = TrimSpace prefix
      in if p = '''' then None else Some (p @ ''_'' @ filter (\<lambda>c. c \<noteq> CHR ''-'') uuid))"

definition ValidateID :: "string \<Rightarrow> string \<Rightarrow> bool" where
  "ValidateID value prefix \<longleftrightarrow>
     HasPrefix value (prefix @ ''_'') \<and> length prefix + 1 < length value"

lemma NewID_validates:
  "NewID prefix uuid = Some i \<Longrightarrow> filter (\<lambda>c. c \<noteq> CHR ''-'') uuid \<noteq> [] \<Longrightarrow> ValidateID i (TrimSpace prefix)"
  by (auto simp: NewID_def ValidateID_def Let_def HasPrefix_def split: if_splits)

section \<open>Slack events (types/slack.go)\<close>

datatype ContextHistoryMode = HistoryUnset | ContextHistoryDurable | ContextHistorySessionOnly | HistoryOther string

datatype SlackEventKind = SlackEventMessage | SlackEventEdit | SlackEventDelete | SlackEventOther string

record SlackImageRef =
  img_FileID :: string
  img_Name :: string
  img_MediaType :: string
  img_Size :: int
  img_Width :: int
  img_Height :: int

record SlackEnvelope =
  env_OrganizationID :: string
  env_EnvelopeID :: string
  env_EventID :: string
  env_TeamID :: string
  env_ChannelID :: string
  env_ChannelKind :: string
  env_MessageTS :: string
  env_ThreadTS :: string
  env_UserID :: string
  env_BotID :: string
  env_Kind :: SlackEventKind
  env_Subtype :: string
  env_Text :: string
  env_Images :: "SlackImageRef list"
  env_TargetTS :: string
  env_EventTime :: time
  env_ReceivedAt :: time
  env_IsMention :: bool
  env_OriginTag :: string
  env_Restricted :: bool

definition RootThreadTS :: "SlackEnvelope \<Rightarrow> string" where
  "RootThreadTS e = (if env_ThreadTS e \<noteq> '''' then env_ThreadTS e else env_MessageTS e)"

definition IsSlackIntegrationMessage :: "string \<Rightarrow> string \<Rightarrow> bool" where
  "IsSlackIntegrationMessage botID subtype \<longleftrightarrow>
     botID \<noteq> '''' \<or> subtype \<in> {''bot_message'', ''assistant_app_thread''}"

definition IntegrationAuthored :: "SlackEnvelope \<Rightarrow> bool" where
  "IntegrationAuthored e \<longleftrightarrow> IsSlackIntegrationMessage (env_BotID e) (env_Subtype e)"

definition MembershipEvent :: "SlackEnvelope \<Rightarrow> bool" where
  "MembershipEvent e \<longleftrightarrow>
     env_Subtype e \<in> {''channel_join'', ''channel_leave'', ''group_join'', ''group_leave''}"

record SlackContextChannel =
  scc_OrganizationID :: string
  scc_TeamID :: string
  scc_ChannelID :: string
  scc_Name :: string
  scc_Restricted :: bool
  scc_RestrictionKnown :: bool
  scc_IsChannel :: bool
  scc_BotIsMember :: bool
  scc_BotMembershipKnown :: bool

section \<open>Models and routes (types/model.go)\<close>

datatype json =
    JNull
  | JBool bool
  | JNumber rat
  | JString string
  | JArray "json list"
  | JObject "(string \<times> json) list"

record ModelProfile =
  prof_ID :: string
  prof_ProviderID :: string
  prof_ModelID :: string
  prof_Variant :: string
  prof_ProviderOptions :: "(string \<times> json) list"
  prof_RequiredCapabilities :: "string list"
  prof_AllowedDataClasses :: "string list"
  prof_FallbackProfileIDs :: "string list"
  prof_MaxInputTokens :: int
  prof_MaxOutputTokens :: int
  prof_Enabled :: bool

record ModelRouteContext =
  route_OrganizationID :: string
  route_WorkspaceID :: string
  route_ChannelID :: string
  route_RoutineID :: string
  route_SkillName :: string
  route_Phase :: string
  route_Override :: string
  route_ChannelDefault :: string
  route_DataClasses :: "string list"
  route_Capabilities :: "string list"
  route_InputTokens :: int

record ResolvedModel =
  rm_ProfileID :: string
  rm_ProviderID :: string
  rm_ModelID :: string
  rm_Variant :: string
  rm_PolicyRev :: string

record DecisionTrace =
  trace_MatchedRule :: string
  trace_Tried :: "string list"
  trace_Rejected :: "string list"
  trace_Fallback :: bool

definition zero_ResolvedModel :: ResolvedModel where
  "zero_ResolvedModel =
     \<lparr>rm_ProfileID = '''', rm_ProviderID = '''', rm_ModelID = '''', rm_Variant = '''', rm_PolicyRev = ''''\<rparr>"

definition zero_DecisionTrace :: DecisionTrace where
  "zero_DecisionTrace =
     \<lparr>trace_MatchedRule = '''', trace_Tried = [], trace_Rejected = [], trace_Fallback = False\<rparr>"

section \<open>Classification decisions (types/classifier.go)\<close>

datatype ParticipationMode = ModeObserve | ModeMention | ModeAssist | ModeProactive | ModeOther string

datatype ClassificationOutcome =
    OutcomeSilent
  | OutcomeReact
  | OutcomeReplyInThread
  | OutcomeReplyInChannel
  | OutcomeStartBackgroundJob
  | OutcomeEscalateForApproval
  | OutcomeOther string

datatype DisclosureClass = DisclosureDestinationSafe | DisclosureRestrictedAwareness | DisclosureOther string

record ClassificationDecision =
  cd_Outcome :: ClassificationOutcome
  cd_Confidence :: rat
  cd_ReasonCodes :: "string list"
  cd_TopicIDs :: "string list"
  cd_ReleasableEvidenceIDs :: "string list"
  cd_RestrictedSignalIDs :: "string list"
  cd_ResponseIntent :: string
  cd_DirectReply :: string
  cd_SourceWriteRequested :: bool
  cd_ProductRetrievalRequired :: bool
  cd_DisclosureClass :: DisclosureClass
  cd_RequiresFullAgent :: bool
  cd_Reaction :: string
  cd_AgentModelProfile :: string
  cd_AgentModelStrength :: string
  cd_AgentReasoningEffort :: string
  cd_ClassifierModel :: string
  cd_ClassifierReasoningEffort :: string
  cd_ClassifierResponseID :: string
  cd_ClassifierInputTokens :: int
  cd_ClassifierOutputTokens :: int

section \<open>Context packs (types/context.go)\<close>

datatype ContextPartition =
    PartitionSystem
  | PartitionThread
  | PartitionChannel
  | PartitionRecentOrg
  | PartitionEvidence
  | PartitionSituation
  | PartitionOther string

record ContextCandidate =
  cand_ID :: string
  cand_Version :: int
  cand_OrganizationID :: string
  cand_ChannelID :: string
  cand_ChannelName :: string
  cand_AuthorID :: string
  cand_Partition :: ContextPartition
  cand_Provenance :: string
  cand_Text :: string
  cand_Priority :: int
  cand_ObservedAt :: time
  cand_DisclosureClass :: DisclosureClass
  cand_Required :: bool
  cand_SourceExpiresAt :: time

record ContextSource =
  src_ID :: string
  src_Version :: int
  src_ChannelID :: string
  src_ChannelName :: string
  src_AuthorID :: string
  src_Partition :: ContextPartition
  src_Provenance :: string
  src_TokenCount :: int
  src_DisclosureClass :: DisclosureClass
  src_Text :: string
  src_ObservedAt :: time

record ContextPackRevision =
  pack_ID :: string
  pack_OrganizationID :: string
  pack_TargetObservationID :: string
  pack_OrganizationWatermark :: int
  pack_PolicyRevision :: string
  pack_MembershipRevision :: string
  pack_TokenizerRevision :: string
  pack_Sources :: "ContextSource list"
  pack_PartitionTokens :: "ContextPartition \<Rightarrow> int"
  pack_TotalTokens :: int
  pack_ContentHash :: string
  pack_CreatedAt :: time
  pack_ExpiresAt :: time

section \<open>Slack results and destinations (types/delivery.go)\<close>

datatype SlackSegmentKind =
    SlackSegmentHeader
  | SlackSegmentMRKDWN
  | SlackSegmentContext
  | SlackSegmentDivider
  | SlackSegmentTable
  | SlackSegmentCard
  | SlackSegmentCarousel
  | SlackSegmentImage
  | SlackSegmentArtifact
  | SlackSegmentApproval
  | SlackSegmentNotice
  | SlackSegmentOther string

record SlackFileUpload =
  file_Name :: string
  file_Title :: string
  file_AltText :: string
  file_MediaType :: string
  file_Data :: string

record SlackMentionAllowlist =
  allow_UserIDs :: "string list"
  allow_ChannelIDs :: "string list"

record SlackAgentFooter =
  foot_ModelID :: string
  foot_ReasoningEffort :: string
  foot_InputTokens :: int
  foot_OutputTokens :: int
  foot_CachedInputTokens :: int
  foot_ReasoningOutputTokens :: int
  foot_TotalTokens :: int
  foot_DurationMS :: int
  foot_Activities :: "string list"

record SlackCardImage =
  cardimg_URL :: string
  cardimg_AltText :: string

record SlackCard =
  card_Title :: string
  card_Subtitle :: string
  card_Body :: string
  card_Subtext :: string
  card_Icon :: "SlackCardImage option"
  card_HeroImage :: "SlackCardImage option"

record SlackImage =
  image_URL :: string
  image_AltText :: string
  image_Title :: string

record SlackApproval =
  sap_ID :: string
  sap_ActionHash :: string
  sap_ToolID :: string
  sap_OperationID :: string
  sap_Risk :: string
  sap_Destination :: string
  sap_Arguments :: "(string \<times> json) list"
  sap_ExpiresAt :: time
  sap_Status :: string
  sap_ResolvedAt :: time

record SlackNotice =
  notice_Tone :: string
  notice_Title :: string
  notice_Message :: string
  notice_Context :: string

record SlackTableColumn =
  col_Header :: string
  col_Align :: string
  col_Wrapped :: bool

record SlackTableCell =
  cell_Type :: string
  cell_Text :: string
  cell_Number :: rat

record SlackTable =
  table_Columns :: "SlackTableColumn list"
  table_Rows :: "SlackTableCell list list"
  table_Caption :: string
  table_PageSize :: int
  table_RowHeaderColumnIndex :: int

record SlackArtifact =
  art_Name :: string
  art_MediaType :: string
  art_URL :: string

record SlackSegment =
  seg_Kind :: SlackSegmentKind
  seg_Text :: string
  seg_Table :: "SlackTable option"
  seg_Card :: "SlackCard option"
  seg_Carousel :: "SlackCard list option"
  seg_Image :: "SlackImage option"
  seg_Artifact :: "SlackArtifact option"
  seg_Approval :: "SlackApproval option"
  seg_Notice :: "SlackNotice option"

record SlackResult =
  res_Segments :: "SlackSegment list"
  res_Files :: "SlackFileUpload list"
  res_AllowedMentions :: SlackMentionAllowlist
  res_AgentFooter :: "SlackAgentFooter option"

definition zero_SlackSegment :: SlackSegment where
  "zero_SlackSegment =
     \<lparr>seg_Kind = SlackSegmentOther '''', seg_Text = '''', seg_Table = None, seg_Card = None,
      seg_Carousel = None, seg_Image = None, seg_Artifact = None, seg_Approval = None,
      seg_Notice = None\<rparr>"

definition zero_SlackResult :: SlackResult where
  "zero_SlackResult =
     \<lparr>res_Segments = [], res_Files = [],
      res_AllowedMentions = \<lparr>allow_UserIDs = [], allow_ChannelIDs = []\<rparr>,
      res_AgentFooter = None\<rparr>"

record SlackDestination =
  dest_TeamID :: string
  dest_ChannelID :: string
  dest_ThreadTS :: string
  dest_UpdateTS :: string
  dest_StreamTS :: string

record SlackDeliveryRequest =
  req_ID :: string
  req_IdempotencyKey :: string
  req_Destination :: SlackDestination
  req_Result :: SlackResult

record SlackDeliveryResult =
  sdr_MessageTS :: string
  sdr_DeliveredAt :: time
  sdr_Duplicate :: bool

end
