(* ===== verification/Interfaces.thy ===== *)
theory Interfaces
  imports Prelude
begin

text \<open>
  The contracts the stores of the program promise their callers, as locales.  Each is
  interpreted on every store of the model that provides it, in the theory of that store.

  \<^item> \<open>fenced_store\<close>: a write carries a lease token and succeeds only while the stored record
    holds that lease.  \<open>fenced_final\<close> adds writes that give the lease up.
  \<^item> \<open>idempotent_store\<close>: enqueueing under a key that is already stored returns the stored
    record and changes nothing.
\<close>

section \<open>Lease fencing\<close>

locale fenced_store =
  fixes lookup :: "'s \<Rightarrow> 'k \<Rightarrow> 'r option"
    and holds :: "'r \<Rightarrow> string \<Rightarrow> time \<Rightarrow> bool"
    and wr :: "'op \<Rightarrow> 'k \<Rightarrow> string \<Rightarrow> time \<Rightarrow> 's \<Rightarrow> ('e + 'a) \<times> 's"
  assumes write_needs_lease:
      "wr op k tok t s = (Inr a, s') \<Longrightarrow> \<exists>r. lookup s k = Some r \<and> holds r tok t"
    and write_error_clean: "wr op k tok t s = (Inl e, s') \<Longrightarrow> s' = s"
    and write_frame: "k' \<noteq> k \<Longrightarrow> lookup (snd (wr op k tok t s)) k' = lookup s k'"
begin

lemma stale_write_rejected:
  assumes "lookup s k = Some r" "\<not> holds r tok t"
  shows "\<exists>e. wr op k tok t s = (Inl e, s)"
proof (cases "wr op k tok t s")
  case (Pair res s')
  then show ?thesis
    using assms write_needs_lease write_error_clean by (cases res) fastforce+
qed

lemma absent_write_rejected:
  assumes "lookup s k = None"
  shows "\<exists>e. wr op k tok t s = (Inl e, s)"
proof (cases "wr op k tok t s")
  case (Pair res s')
  then show ?thesis
    using assms write_needs_lease write_error_clean by (cases res) fastforce+
qed

text \<open>A worker that lost its lease changes nothing, whatever it calls and however often.\<close>

lemma stale_run_no_effect:
  assumes "lookup s k = Some r" "\<forall>c \<in> set calls. \<not> holds r tok (snd c)"
  shows "foldl (\<lambda>s c. snd (wr (fst c) k tok (snd c) s)) s calls = s"
  using assms(2)
proof (induction calls)
  case (Cons c calls)
  from Cons.prems stale_write_rejected [OF assms(1), of tok "snd c" "fst c"]
  have "snd (wr (fst c) k tok (snd c) s) = s" by auto
  with Cons show ?case by simp
qed simp

end

locale fenced_final = fenced_store lookup holds wr
  for lookup :: "'s \<Rightarrow> 'k \<Rightarrow> 'r option"
    and holds :: "'r \<Rightarrow> string \<Rightarrow> time \<Rightarrow> bool"
    and wr :: "'op \<Rightarrow> 'k \<Rightarrow> string \<Rightarrow> time \<Rightarrow> 's \<Rightarrow> ('e + 'a) \<times> 's" +
  fixes final :: "'op \<Rightarrow> bool"
  assumes final_releases:
    "final op \<Longrightarrow> wr op k tok t s = (Inr a, s') \<Longrightarrow>
       \<exists>r. lookup s' k = Some r \<and> (\<forall>tok' t'. tok' \<noteq> '''' \<longrightarrow> \<not> holds r tok' t')"
begin

text \<open>After a write that gives the lease up, no further write of that worker succeeds.\<close>

lemma at_most_one_final:
  assumes "final op" "wr op k tok t s = (Inr a, s')" "tok \<noteq> ''''"
  shows "\<exists>e. wr op' k tok t' s' = (Inl e, s')"
  using final_releases [OF assms(1,2)] assms(3) stale_write_rejected by blast

end

section \<open>Idempotent enqueueing\<close>

locale idempotent_store =
  fixes enqueue :: "'spec \<Rightarrow> string \<Rightarrow> time \<Rightarrow> 's \<Rightarrow> ('e + 'r \<times> bool) \<times> 's"
    and stored :: "'s \<Rightarrow> 'key \<Rightarrow> 'r option"
    and key :: "'spec \<Rightarrow> 'key"
    and valid :: "'spec \<Rightarrow> bool"
    and invar :: "'s \<Rightarrow> bool"
    and fresh :: "'s \<Rightarrow> string \<Rightarrow> bool"
  assumes invalid_rejected: "\<not> valid sp \<Longrightarrow> \<exists>e. enqueue sp i t s = (Inl e, s)"
    and enqueue_existing:
      "invar s \<Longrightarrow> valid sp \<Longrightarrow> stored s (key sp) = Some r \<Longrightarrow> enqueue sp i t s = (Inr (r, False), s)"
    and enqueue_new:
      "invar s \<Longrightarrow> valid sp \<Longrightarrow> stored s (key sp) = None \<Longrightarrow> fresh s i \<Longrightarrow>
         \<exists>r s'. enqueue sp i t s = (Inr (r, True), s') \<and> invar s' \<and> stored s' (key sp) = Some r
              \<and> (\<forall>k. k \<noteq> key sp \<longrightarrow> stored s' k = stored s k)"
begin

lemma enqueue_cases [consumes 2, case_names rejected existing created]:
  assumes "invar s" "fresh s i"
  obtains e where "\<not> valid sp" "enqueue sp i t s = (Inl e, s)"
  | r where "valid sp" "stored s (key sp) = Some r" "enqueue sp i t s = (Inr (r, False), s)"
  | r s' where "valid sp" "stored s (key sp) = None" "enqueue sp i t s = (Inr (r, True), s')"
      "invar s'" "stored s' (key sp) = Some r" "\<And>k. k \<noteq> key sp \<Longrightarrow> stored s' k = stored s k"
proof (cases "valid sp")
  case False
  with invalid_rejected that(1) show ?thesis by blast
next
  case True
  show ?thesis
  proof (cases "stored s (key sp)")
    case None
    from enqueue_new [OF assms(1) True None assms(2), of t] obtain r s' where
      "enqueue sp i t s = (Inr (r, True), s')" "invar s'" "stored s' (key sp) = Some r"
      "\<forall>k. k \<noteq> key sp \<longrightarrow> stored s' k = stored s k" by blast
    with True None that(3) show ?thesis by blast
  next
    case (Some r)
    with enqueue_existing [OF assms(1) True Some] True that(2) show ?thesis by blast
  qed
qed

lemma enqueue_invar:
  assumes "invar s" "fresh s i"
  shows "invar (snd (enqueue sp i t s))"
  using assms by (cases rule: enqueue_cases [of s i sp t]) (simp_all add: assms)

lemma created_iff_absent:
  assumes "invar s" "fresh s i" "enqueue sp i t s = (Inr (r, created), s')"
  shows "created \<longleftrightarrow> stored s (key sp) = None"
  using assms(1,2) by (cases rule: enqueue_cases [of s i sp t]) (use assms(3) in simp_all)

lemma enqueue_stores:
  assumes "invar s" "fresh s i" "enqueue sp i t s = (Inr (r, created), s')"
  shows "invar s' \<and> stored s' (key sp) = Some r"
  using assms(1,2) by (cases rule: enqueue_cases [of s i sp t]) (use assms in simp_all)

text \<open>Retrying an enqueue returns the record of the first call and changes nothing.\<close>

lemma enqueue_again:
  assumes "invar s" "fresh s i" "enqueue sp i t s = (Inr (r, created), s')"
    and "key sp' = key sp" "valid sp'"
  shows "enqueue sp' i' t' s' = (Inr (r, False), s')"
  using enqueue_stores [OF assms(1-3)] enqueue_existing [of s' sp'] assms(4,5) by simp

lemma enqueue_frame:
  assumes "invar s" "fresh s i" "k \<noteq> key sp"
  shows "stored (snd (enqueue sp i t s)) k = stored s k"
  using assms(1,2) by (cases rule: enqueue_cases [of s i sp t]) (use assms(3) in simp_all)

end

end
