(* ===== verification/Jobs.thy ===== *)
theory Jobs
  imports Types Interfaces
begin

text \<open>
  The durable job queue of \<^verbatim>\<open>core/jobs\<close>: the states and the transition table of
  \<^verbatim>\<open>state.go\<close> and every operation of the in-memory queue of \<^verbatim>\<open>memory_queue.go\<close>.  A job is
  claimed by at most one worker at a time under a lease with a token; every later write of
  that worker is fenced by the token and the lease's expiry.
\<close>

section \<open>States, leases, jobs (state.go)\<close>

datatype State =
    StateQueued
  | StateLeased
  | StatePreparing
  | StateRunning
  | StateWaitingApproval
  | StateRetryWait
  | StateCancelling
  | StateNeedsReconciliation
  | StateSucceeded
  | StateCompletedUndelivered
  | StateFailed
  | StateCancelled
  | StateUnset \<comment> \<open>the zero value of \<^verbatim>\<open>State\<close>, the empty string\<close>

datatype job_error =
    ErrNoRunnableJob
  | ErrJobNotFound
  | ErrLeaseLost
  | ErrInvalidState
  | ErrInvalidSpec
  | ErrOrganizationRequired

record Lease =
  lease_Owner :: string
  lease_Token :: string
  lease_ExpiresAt :: time
  lease_Heartbeat :: time

definition no_lease :: Lease where
  "no_lease = \<lparr>lease_Owner = '''', lease_Token = '''', lease_ExpiresAt = zero_time, lease_Heartbeat = zero_time\<rparr>"

lemma no_lease_simps [simp]:
  "lease_Token no_lease = ''''" "lease_ExpiresAt no_lease = 0" "lease_Owner no_lease = ''''"
  "lease_Heartbeat no_lease = 0"
  by (simp_all add: no_lease_def zero_time_def)

record JobSpec =
  spec_OrganizationID :: string
  spec_WorkspaceID :: string
  spec_ChannelID :: string
  spec_RootThreadTS :: string
  spec_ReplyInChannel :: bool
  spec_SessionID :: string
  spec_Generation :: int
  spec_ObservationID :: string
  spec_RequesterID :: string
  spec_IdempotencyKey :: string
  spec_Kind :: string
  spec_Input :: string
  spec_Images :: "SlackImageRef list"
  spec_MaxAttempts :: int
  spec_AdmissionReservationID :: string
  spec_ResolvedModel :: ResolvedModel
  spec_RouteTrace :: DecisionTrace
  spec_ExpiresAt :: time

record Job =
  job_ID :: string
  job_OrganizationID :: string
  job_WorkspaceID :: string
  job_ChannelID :: string
  job_RootThreadTS :: string
  job_ReplyInChannel :: bool
  job_SessionID :: string
  job_Generation :: int
  job_ObservationID :: string
  job_RequesterID :: string
  job_IdempotencyKey :: string
  job_Kind :: string
  job_Input :: string
  job_Images :: "SlackImageRef list"
  job_State :: State
  job_Attempt :: int
  job_MaxAttempts :: int
  job_AdmissionReservationID :: string
  job_ResolvedModel :: ResolvedModel
  job_RouteTrace :: DecisionTrace
  job_SteeringEpoch :: int
  job_Lease :: Lease
  job_Result :: SlackResult
  job_FailureReason :: string
  job_ApprovalID :: string
  job_ApprovedActionHash :: string
  job_ProgressMessageTS :: string
  job_FinalDeliveryEnqueued :: bool
  job_AvailableAt :: time
  job_CreatedAt :: time
  job_UpdatedAt :: time
  job_ExpiresAt :: time
  job_Version :: int

text \<open>The zero value \<^verbatim>\<open>Job{}\<close>.\<close>

definition zero_Job :: Job where
  "zero_Job =
     \<lparr>job_ID = '''', job_OrganizationID = '''', job_WorkspaceID = '''', job_ChannelID = '''',
      job_RootThreadTS = '''', job_ReplyInChannel = False, job_SessionID = '''', job_Generation = 0,
      job_ObservationID = '''', job_RequesterID = '''', job_IdempotencyKey = '''', job_Kind = '''',
      job_Input = '''', job_Images = [], job_State = StateUnset, job_Attempt = 0, job_MaxAttempts = 0,
      job_AdmissionReservationID = '''', job_ResolvedModel = zero_ResolvedModel,
      job_RouteTrace = zero_DecisionTrace, job_SteeringEpoch = 0, job_Lease = no_lease,
      job_Result = zero_SlackResult, job_FailureReason = '''', job_ApprovalID = '''',
      job_ApprovedActionHash = '''', job_ProgressMessageTS = '''', job_FinalDeliveryEnqueued = False,
      job_AvailableAt = zero_time, job_CreatedAt = zero_time, job_UpdatedAt = zero_time,
      job_ExpiresAt = zero_time, job_Version = 0\<rparr>"

definition organizationListLimit :: nat where "organizationListLimit = 500"

fun CanTransition :: "State \<Rightarrow> State \<Rightarrow> bool" where
  "CanTransition StateQueued to \<longleftrightarrow> to \<in> {StateLeased, StateCancelled}"
| "CanTransition StateLeased to \<longleftrightarrow>
     to \<in> {StatePreparing, StateRunning, StateQueued, StateNeedsReconciliation, StateCancelled}"
| "CanTransition StatePreparing to \<longleftrightarrow> to \<in> {StateRunning, StateRetryWait, StateFailed, StateCancelled}"
| "CanTransition StateRunning to \<longleftrightarrow>
     to \<in> {StateRunning, StateWaitingApproval, StateRetryWait, StateSucceeded, StateFailed,
           StateCancelling, StateNeedsReconciliation}"
| "CanTransition StateWaitingApproval to \<longleftrightarrow> to \<in> {StateQueued, StateFailed, StateCancelled}"
| "CanTransition StateRetryWait to \<longleftrightarrow> to \<in> {StateQueued, StateFailed, StateCancelled}"
| "CanTransition StateCancelling to \<longleftrightarrow> to \<in> {StateCancelled, StateFailed}"
| "CanTransition StateNeedsReconciliation to \<longleftrightarrow> to \<in> {StateRetryWait, StateSucceeded, StateFailed}"
| "CanTransition StateSucceeded to \<longleftrightarrow> to \<in> {StateCompletedUndelivered}"
| "CanTransition StateCompletedUndelivered to \<longleftrightarrow> False"
| "CanTransition StateFailed to \<longleftrightarrow> False"
| "CanTransition StateCancelled to \<longleftrightarrow> False"
| "CanTransition StateUnset to \<longleftrightarrow> False"

definition jobs_ValidateSpec :: "JobSpec \<Rightarrow> job_error + unit" where
  "jobs_ValidateSpec spec =
     (if spec_OrganizationID spec = '''' \<or> spec_WorkspaceID spec = '''' \<or> spec_ChannelID spec = ''''
         \<or> (spec_RootThreadTS spec = '''' \<and> spec_Kind spec \<noteq> ''routine'' \<and> spec_Kind spec \<noteq> ''heartbeat'')
         \<or> spec_SessionID spec = '''' \<or> spec_Generation spec \<le> 0 \<or> spec_IdempotencyKey spec = ''''
         \<or> spec_Kind spec = '''' \<or> spec_MaxAttempts spec \<le> 0
      then Inl ErrInvalidSpec else Inr ())"

section \<open>The in-memory queue (memory_queue.go)\<close>

record JobQueue =
  q_jobs :: "string \<rightharpoonup> Job"
  q_byIdempotency :: "string \<rightharpoonup> string"

definition NewJobQueue :: JobQueue where
  "NewJobQueue = \<lparr>q_jobs = Map.empty, q_byIdempotency = Map.empty\<rparr>"

definition idempotency_index :: "string \<Rightarrow> string \<Rightarrow> string" where
  "idempotency_index org key = org @ ''/'' @ key"

abbreviation put_job :: "JobQueue \<Rightarrow> string \<Rightarrow> Job \<Rightarrow> JobQueue" where
  "put_job q i job \<equiv> q\<lparr>q_jobs := (q_jobs q)(i \<mapsto> job)\<rparr>"

definition job_of_spec :: "JobSpec \<Rightarrow> string \<Rightarrow> time \<Rightarrow> Job" where
  "job_of_spec spec i now =
     zero_Job
       \<lparr>job_ID := i, job_OrganizationID := spec_OrganizationID spec,
        job_WorkspaceID := spec_WorkspaceID spec, job_ChannelID := spec_ChannelID spec,
        job_RootThreadTS := spec_RootThreadTS spec, job_ReplyInChannel := spec_ReplyInChannel spec,
        job_SessionID := spec_SessionID spec, job_Generation := spec_Generation spec,
        job_ObservationID := spec_ObservationID spec, job_RequesterID := spec_RequesterID spec,
        job_IdempotencyKey := spec_IdempotencyKey spec, job_Kind := spec_Kind spec,
        job_Input := spec_Input spec, job_Images := spec_Images spec, job_State := StateQueued,
        job_MaxAttempts := spec_MaxAttempts spec, job_SteeringEpoch := 1, job_AvailableAt := now,
        job_CreatedAt := now, job_UpdatedAt := now,
        job_ExpiresAt := (if IsZero (spec_ExpiresAt spec) then now + 24 * Hour else spec_ExpiresAt spec),
        job_Version := 1, job_AdmissionReservationID := spec_AdmissionReservationID spec,
        job_ResolvedModel := spec_ResolvedModel spec, job_RouteTrace := spec_RouteTrace spec\<rparr>"

definition jobs_Enqueue :: "JobSpec \<Rightarrow> string \<Rightarrow> time \<Rightarrow> JobQueue \<Rightarrow> (job_error, Job \<times> bool, JobQueue) outcome" where
  "jobs_Enqueue spec i now q =
     (case jobs_ValidateSpec spec of
        Inl e \<Rightarrow> (Inl e, q)
      | Inr _ \<Rightarrow>
          let key = idempotency_index (spec_OrganizationID spec) (spec_IdempotencyKey spec)
          in case q_byIdempotency q key of
               Some existing \<Rightarrow> (Inr (lookup_zero zero_Job (q_jobs q) existing, False), q)
             | None \<Rightarrow>
                 let job = job_of_spec spec i now
                 in (Inr (job, True),
                     q\<lparr>q_jobs := (q_jobs q)(i \<mapsto> job),
                       q_byIdempotency := (q_byIdempotency q)(key \<mapsto> i)\<rparr>))"

text \<open>
  \<open>Claim\<close> first sorts the identifiers by availability and creation time, then walks them
  once: a job whose lease ran out is recovered, and the first runnable job whose session
  generation has no other writer is leased to the worker.
\<close>

definition is_writer :: "State \<Rightarrow> bool" where
  "is_writer s \<longleftrightarrow>
     s \<in> {StateLeased, StatePreparing, StateRunning, StateWaitingApproval, StateCancelling}"

definition same_generation :: "Job \<Rightarrow> Job \<Rightarrow> bool" where
  "same_generation a b \<longleftrightarrow>
     job_OrganizationID a = job_OrganizationID b \<and> job_SessionID a = job_SessionID b
     \<and> job_Generation a = job_Generation b"

definition recover_expired :: "time \<Rightarrow> Job \<Rightarrow> Job" where
  "recover_expired now job =
     (if job_State job \<in> {StateLeased, StatePreparing, StateRunning}
         \<and> \<not> After (lease_ExpiresAt (job_Lease job)) now
      then job\<lparr>job_State := (if job_State job = StateLeased then StateQueued else StateNeedsReconciliation),
               job_Lease := no_lease, job_Version := job_Version job + 1, job_UpdatedAt := now\<rparr>
      else job)"

definition runnable :: "time \<Rightarrow> Job \<Rightarrow> bool" where
  "runnable now job \<longleftrightarrow>
     job_State job = StateQueued \<and> \<not> After (job_AvailableAt job) now
     \<and> job_Attempt job < job_MaxAttempts job"

definition writer_busy :: "string list \<Rightarrow> (string \<rightharpoonup> Job) \<Rightarrow> string \<Rightarrow> Job \<Rightarrow> bool" where
  "writer_busy ord m i job \<longleftrightarrow>
     list_ex (\<lambda>j. j \<noteq> i \<and> (case m j of None \<Rightarrow> False
                           | Some other \<Rightarrow> same_generation other job \<and> is_writer (job_State other))) ord"

definition lease_to :: "string \<Rightarrow> string \<Rightarrow> duration \<Rightarrow> time \<Rightarrow> Job \<Rightarrow> Job" where
  "lease_to worker token d now job =
     job\<lparr>job_State := StateLeased, job_Attempt := job_Attempt job + 1,
         job_Lease := \<lparr>lease_Owner = worker, lease_Token = token, lease_ExpiresAt = now + d, lease_Heartbeat = now\<rparr>,
         job_UpdatedAt := now, job_Version := job_Version job + 1\<rparr>"

fun claim_loop ::
  "string list \<Rightarrow> string \<Rightarrow> string \<Rightarrow> duration \<Rightarrow> time \<Rightarrow> string list \<Rightarrow> (string \<rightharpoonup> Job)
     \<Rightarrow> (job_error, Job, string \<rightharpoonup> Job) outcome" where
  "claim_loop ord worker token d now [] m = (Inl ErrNoRunnableJob, m)"
| "claim_loop ord worker token d now (i # ids) m =
     (let job0 = lookup_zero zero_Job m i
      in if \<not> After (job_ExpiresAt job0) now then claim_loop ord worker token d now ids m
         else
           let job = recover_expired now job0; m' = m(i \<mapsto> job)
           in if \<not> runnable now job \<or> writer_busy ord m' i job
              then claim_loop ord worker token d now ids m'
              else let leased = lease_to worker token d now job in (Inr leased, m'(i \<mapsto> leased)))"

definition claim_order :: "string list \<Rightarrow> (string \<rightharpoonup> Job) \<Rightarrow> string list" where
  "claim_order ord m =
     sort_key (\<lambda>i. let job = lookup_zero zero_Job m i in (job_AvailableAt job, job_CreatedAt job)) ord"

definition jobs_Claim ::
  "string list \<Rightarrow> string \<Rightarrow> string \<Rightarrow> duration \<Rightarrow> time \<Rightarrow> JobQueue \<Rightarrow> (job_error, Job, JobQueue) outcome" where
  "jobs_Claim ord worker token d now q =
     (case claim_loop ord worker token d now (claim_order ord (q_jobs q)) (q_jobs q) of
        (r, m) \<Rightarrow> (r, q\<lparr>q_jobs := m\<rparr>))"

definition jobs_Cancel :: "string \<Rightarrow> string \<Rightarrow> time \<Rightarrow> JobQueue \<Rightarrow> (job_error, Job, JobQueue) outcome" where
  "jobs_Cancel i reason now q =
     (case q_jobs q i of
        None \<Rightarrow> (Inl ErrJobNotFound, q)
      | Some job \<Rightarrow>
          if job_State job \<in> {StateQueued, StateRetryWait, StateWaitingApproval}
          then let job' = job\<lparr>job_State := StateCancelled, job_Lease := no_lease, job_FailureReason := reason,
                              job_UpdatedAt := now, job_Version := job_Version job + 1\<rparr>
               in (Inr job', put_job q i job')
          else if job_State job \<in> {StateLeased, StatePreparing, StateRunning}
          then let job' = job\<lparr>job_State := StateCancelling, job_SteeringEpoch := job_SteeringEpoch job + 1,
                              job_FailureReason := reason, job_UpdatedAt := now,
                              job_Version := job_Version job + 1\<rparr>
               in (Inr job', put_job q i job')
          else (Inl ErrInvalidState, q))"

definition jobs_MarkCompletedUndelivered ::
  "string \<Rightarrow> string \<Rightarrow> time \<Rightarrow> JobQueue \<Rightarrow> (job_error, Job, JobQueue) outcome" where
  "jobs_MarkCompletedUndelivered i reason now q =
     (case q_jobs q i of
        None \<Rightarrow> (Inl ErrJobNotFound, q)
      | Some job \<Rightarrow>
          if job_State job \<noteq> StateSucceeded \<and> job_State job \<noteq> StateCompletedUndelivered
          then (Inl ErrInvalidState, q)
          else let job' = job\<lparr>job_State := StateCompletedUndelivered, job_FailureReason := reason,
                              job_UpdatedAt := now, job_Version := job_Version job + 1\<rparr>
               in (Inr job', put_job q i job'))"

text \<open>
  \<open>Transition\<close> reads the clock twice (\<open>t1\<close> for the fence, \<open>t2\<close> for \<^verbatim>\<open>UpdatedAt\<close>) and
  applies the caller's \<^verbatim>\<open>mutate\<close> after setting the state; \<^verbatim>\<open>nil\<close> is the identity.
\<close>

definition drops_lease :: "State \<Rightarrow> bool" where
  "drops_lease to \<longleftrightarrow>
     to \<in> {StateSucceeded, StateFailed, StateCancelled, StateRetryWait, StateNeedsReconciliation,
           StateWaitingApproval}"

definition holds_lease :: "Job \<Rightarrow> string \<Rightarrow> time \<Rightarrow> bool" where
  "holds_lease job token now \<longleftrightarrow>
     lease_Token (job_Lease job) = token \<and> After (lease_ExpiresAt (job_Lease job)) now"

definition jobs_Transition ::
  "string \<Rightarrow> string \<Rightarrow> State \<Rightarrow> (Job \<Rightarrow> Job) \<Rightarrow> time \<Rightarrow> time \<Rightarrow> JobQueue
     \<Rightarrow> (job_error, Job, JobQueue) outcome" where
  "jobs_Transition i token to mutate t1 t2 q =
     (case q_jobs q i of
        None \<Rightarrow> (Inl ErrJobNotFound, q)
      | Some job \<Rightarrow>
          if lease_Token (job_Lease job) = '''' \<or> \<not> holds_lease job token t1 then (Inl ErrLeaseLost, q)
          else if \<not> CanTransition (job_State job) to then (Inl ErrInvalidState, q)
          else
            let job1 = mutate (job\<lparr>job_State := to\<rparr>);
                job2 = (if drops_lease to then job1\<lparr>job_Lease := no_lease\<rparr> else job1);
                job3 = job2\<lparr>job_UpdatedAt := t2, job_Version := job_Version job2 + 1\<rparr>
            in (Inr job3, put_job q i job3))"

definition jobs_SetProgressMessageTS ::
  "string \<Rightarrow> string \<Rightarrow> string \<Rightarrow> time \<Rightarrow> time \<Rightarrow> JobQueue \<Rightarrow> (job_error, Job, JobQueue) outcome" where
  "jobs_SetProgressMessageTS i token messageTS t1 t2 q =
     (if messageTS = '''' then (Inl ErrInvalidState, q)
      else case q_jobs q i of
        None \<Rightarrow> (Inl ErrJobNotFound, q)
      | Some job \<Rightarrow>
          if job_State job \<noteq> StateRunning \<or> lease_Token (job_Lease job) = '''' \<or> \<not> holds_lease job token t1
          then (Inl ErrLeaseLost, q)
          else let job' = job\<lparr>job_ProgressMessageTS := messageTS, job_UpdatedAt := t2,
                              job_Version := job_Version job + 1\<rparr>
               in (Inr job', put_job q i job'))"

definition jobs_SuspendForApproval ::
  "string \<Rightarrow> string \<Rightarrow> string \<Rightarrow> time \<Rightarrow> time \<Rightarrow> JobQueue \<Rightarrow> (job_error, Job, JobQueue) outcome" where
  "jobs_SuspendForApproval i token approvalID t1 t2 q =
     (if approvalID = '''' then (Inl ErrInvalidState, q)
      else jobs_Transition i token StateWaitingApproval
             (\<lambda>job. job\<lparr>job_ApprovalID := approvalID, job_ApprovedActionHash := ''''\<rparr>) t1 t2 q)"

definition jobs_ResumeFromApproval ::
  "string \<Rightarrow> string \<Rightarrow> string \<Rightarrow> time \<Rightarrow> time \<Rightarrow> JobQueue \<Rightarrow> (job_error, Job, JobQueue) outcome" where
  "jobs_ResumeFromApproval i approvalID actionHash t1 t2 q =
     (case q_jobs q i of
        None \<Rightarrow> (Inl ErrJobNotFound, q)
      | Some job \<Rightarrow>
          if job_State job \<noteq> StateWaitingApproval \<or> job_ApprovalID job \<noteq> approvalID \<or> actionHash = ''''
          then (Inl ErrInvalidState, q)
          else let job' = job\<lparr>job_State := StateQueued, job_ApprovedActionHash := actionHash,
                              job_Attempt := (if 0 < job_Attempt job then job_Attempt job - 1 else job_Attempt job),
                              job_AvailableAt := t1, job_SteeringEpoch := job_SteeringEpoch job + 1,
                              job_UpdatedAt := t2, job_Version := job_Version job + 1\<rparr>
               in (Inr job', put_job q i job'))"

definition jobs_Heartbeat ::
  "string \<Rightarrow> string \<Rightarrow> duration \<Rightarrow> time \<Rightarrow> JobQueue \<Rightarrow> (job_error, unit, JobQueue) outcome" where
  "jobs_Heartbeat i token d now q =
     (case q_jobs q i of
        None \<Rightarrow> (Inl ErrJobNotFound, q)
      | Some job \<Rightarrow>
          if \<not> holds_lease job token now then (Inl ErrLeaseLost, q)
          else let job' = job\<lparr>job_Lease := (job_Lease job)\<lparr>lease_Heartbeat := now, lease_ExpiresAt := now + d\<rparr>,
                              job_UpdatedAt := now, job_Version := job_Version job + 1\<rparr>
               in (Inr (), put_job q i job'))"

definition jobs_Requeue ::
  "string \<Rightarrow> string \<Rightarrow> string \<Rightarrow> duration \<Rightarrow> time \<Rightarrow> time \<Rightarrow> time \<Rightarrow> JobQueue
     \<Rightarrow> (job_error, Job, JobQueue) outcome" where
  "jobs_Requeue i token reason delay t1 t2 t3 q =
     jobs_Transition i token StateRetryWait
       (\<lambda>job. job\<lparr>job_FailureReason := reason, job_AvailableAt := t2 + delay\<rparr>) t1 t3 q"

definition jobs_ReleaseRetryWait ::
  "string \<Rightarrow> time \<Rightarrow> time \<Rightarrow> JobQueue \<Rightarrow> (job_error, Job, JobQueue) outcome" where
  "jobs_ReleaseRetryWait i t1 t2 q =
     (case q_jobs q i of
        None \<Rightarrow> (Inl ErrJobNotFound, q)
      | Some job \<Rightarrow>
          if job_State job \<noteq> StateRetryWait \<or> After (job_AvailableAt job) t1 then (Inl ErrInvalidState, q)
          else
            let job1 = (if job_MaxAttempts job \<le> job_Attempt job
                        then job\<lparr>job_State := StateFailed, job_FailureReason := ''attempts_exhausted''\<rparr>
                        else job\<lparr>job_State := StateQueued\<rparr>);
                job2 = job1\<lparr>job_Version := job_Version job1 + 1, job_UpdatedAt := t2\<rparr>
            in (Inr job2, put_job q i job2))"

definition jobs_Get :: "string \<Rightarrow> JobQueue \<Rightarrow> job_error + Job" where
  "jobs_Get i q = (case q_jobs q i of None \<Rightarrow> Inl ErrJobNotFound | Some job \<Rightarrow> Inr job)"

definition jobs_Count :: "string list \<Rightarrow> JobQueue \<Rightarrow> nat" where
  "jobs_Count ord q = length (vals ord (q_jobs q))"

definition jobs_List :: "string list \<Rightarrow> JobQueue \<Rightarrow> Job list" where
  "jobs_List ord q = sort_key job_CreatedAt (vals ord (q_jobs q))"

definition needs_reconciliation :: "time \<Rightarrow> Job \<Rightarrow> bool" where
  "needs_reconciliation now job =
     (case job_State job of
        StateWaitingApproval \<Rightarrow> True
      | StateNeedsReconciliation \<Rightarrow> True
      | StateQueued \<Rightarrow> \<not> After (job_ExpiresAt job) now \<or> job_MaxAttempts job \<le> job_Attempt job
      | StateRetryWait \<Rightarrow> \<not> After (job_AvailableAt job) now
      | StateSucceeded \<Rightarrow> \<not> job_FinalDeliveryEnqueued job \<and> After (job_ExpiresAt job) now
      | _ \<Rightarrow> False)"

definition jobs_ListReconciliation :: "string list \<Rightarrow> time \<Rightarrow> JobQueue \<Rightarrow> Job list" where
  "jobs_ListReconciliation ord now q =
     sort_key job_CreatedAt (filter (needs_reconciliation now) (vals ord (q_jobs q)))"

definition jobs_MarkFinalDeliveryEnqueued ::
  "string \<Rightarrow> time \<Rightarrow> JobQueue \<Rightarrow> (job_error, unit, JobQueue) outcome" where
  "jobs_MarkFinalDeliveryEnqueued i now q =
     (case q_jobs q i of
        None \<Rightarrow> (Inl ErrJobNotFound, q)
      | Some job \<Rightarrow>
          if job_State job \<noteq> StateSucceeded then (Inl ErrInvalidState, q)
          else let job' = job\<lparr>job_FinalDeliveryEnqueued := True, job_UpdatedAt := now,
                              job_Version := job_Version job + 1\<rparr>
               in (Inr (), put_job q i job'))"

definition jobs_ListOrganization :: "string list \<Rightarrow> string \<Rightarrow> JobQueue \<Rightarrow> job_error + Job list" where
  "jobs_ListOrganization ord organizationID q =
     (if organizationID = '''' then Inl ErrOrganizationRequired
      else Inr (take organizationListLimit
                  (sort_key (\<lambda>job. - job_CreatedAt job)
                    (filter (\<lambda>job. job_OrganizationID job = organizationID) (vals ord (q_jobs q))))))"

end
