(* ===== verification/JobLifecycle.thy ===== *)
theory JobLifecycle
  imports Jobs
begin

text \<open>
  The runs of the job queue.  \<open>job_step\<close> is one call of an operation, with the arguments
  the callers supply: fresh identifiers, a non-empty lease token, and a \<^verbatim>\<open>mutate\<close> callback
  that writes no field but those \<^verbatim>\<open>transitionSet\<close> persists.  The target of \<^verbatim>\<open>Transition\<close> is any
  state but queued: \<^verbatim>\<open>CanTransition\<close> allows leased to queued, no code of the repository makes that
  call, and \<open>JobProperties\<close> treats it apart and shows what it would break.  Each step is described job by
  job (\<open>job_move\<close>), so that an invariant of single jobs needs one case analysis; the
  invariant that relates two jobs (one writer per session generation) adds an argument
  about \<open>jobs_Claim\<close> alone.
\<close>

section \<open>What one operation does to one job\<close>

definition mutation_ok :: "(Job \<Rightarrow> Job) \<Rightarrow> bool" where
  "mutation_ok f \<longleftrightarrow>
     (\<forall>j. job_ID (f j) = job_ID j \<and> job_OrganizationID (f j) = job_OrganizationID j
        \<and> job_WorkspaceID (f j) = job_WorkspaceID j \<and> job_ChannelID (f j) = job_ChannelID j
        \<and> job_RootThreadTS (f j) = job_RootThreadTS j \<and> job_ReplyInChannel (f j) = job_ReplyInChannel j
        \<and> job_SessionID (f j) = job_SessionID j \<and> job_Generation (f j) = job_Generation j
        \<and> job_ObservationID (f j) = job_ObservationID j \<and> job_RequesterID (f j) = job_RequesterID j
        \<and> job_IdempotencyKey (f j) = job_IdempotencyKey j \<and> job_Kind (f j) = job_Kind j
        \<and> job_Input (f j) = job_Input j \<and> job_Images (f j) = job_Images j
        \<and> job_State (f j) = job_State j \<and> job_Attempt (f j) = job_Attempt j
        \<and> job_MaxAttempts (f j) = job_MaxAttempts j
        \<and> job_AdmissionReservationID (f j) = job_AdmissionReservationID j
        \<and> job_SteeringEpoch (f j) = job_SteeringEpoch j \<and> job_Lease (f j) = job_Lease j
        \<and> job_FinalDeliveryEnqueued (f j) = job_FinalDeliveryEnqueued j
        \<and> job_CreatedAt (f j) = job_CreatedAt j \<and> job_ExpiresAt (f j) = job_ExpiresAt j
        \<and> job_Version (f j) = job_Version j)"

lemma mutation_ok_fields:
  assumes "mutation_ok f"
  shows "job_State (f j) = job_State j" "job_Lease (f j) = job_Lease j"
    "job_Attempt (f j) = job_Attempt j" "job_MaxAttempts (f j) = job_MaxAttempts j"
    "job_Version (f j) = job_Version j" "job_OrganizationID (f j) = job_OrganizationID j"
    "job_SessionID (f j) = job_SessionID j" "job_Generation (f j) = job_Generation j"
    "job_IdempotencyKey (f j) = job_IdempotencyKey j" "job_ID (f j) = job_ID j"
    "job_CreatedAt (f j) = job_CreatedAt j" "job_ExpiresAt (f j) = job_ExpiresAt j"
    "job_AdmissionReservationID (f j) = job_AdmissionReservationID j"
  using assms by (simp_all add: mutation_ok_def)

lemma mutation_ok_instances [simp]:
  "mutation_ok id"
  "mutation_ok (\<lambda>job. job)"
  "mutation_ok (\<lambda>job. job\<lparr>job_ApprovalID := a, job_ApprovedActionHash := h\<rparr>)"
  "mutation_ok (\<lambda>job. job\<lparr>job_FailureReason := r, job_AvailableAt := t\<rparr>)"
  "mutation_ok (\<lambda>job. job\<lparr>job_FailureReason := r\<rparr>)"
  "mutation_ok (\<lambda>job. job\<lparr>job_Result := res, job_FailureReason := r\<rparr>)"
  "mutation_ok (\<lambda>job. job\<lparr>job_ResolvedModel := m, job_RouteTrace := tr\<rparr>)"
  by (simp_all add: mutation_ok_def)

text \<open>
  \<open>job_write a b\<close>: one of the writes an operation other than \<open>jobs_Claim\<close> applies to the
  stored job \<open>a\<close>.
\<close>

inductive job_write :: "Job \<Rightarrow> Job \<Rightarrow> bool" where
  write_cancel:
    "job_State a \<in> {StateQueued, StateRetryWait, StateWaitingApproval} \<Longrightarrow>
     job_write a (a\<lparr>job_State := StateCancelled, job_Lease := no_lease, job_FailureReason := r,
                    job_UpdatedAt := t, job_Version := job_Version a + 1\<rparr>)"
| write_cancelling:
    "job_State a \<in> {StateLeased, StatePreparing, StateRunning} \<Longrightarrow>
     job_write a (a\<lparr>job_State := StateCancelling, job_SteeringEpoch := job_SteeringEpoch a + 1,
                    job_FailureReason := r, job_UpdatedAt := t, job_Version := job_Version a + 1\<rparr>)"
| write_undelivered:
    "job_State a \<in> {StateSucceeded, StateCompletedUndelivered} \<Longrightarrow>
     job_write a (a\<lparr>job_State := StateCompletedUndelivered, job_FailureReason := r,
                    job_UpdatedAt := t, job_Version := job_Version a + 1\<rparr>)"
| write_transition:
    "lease_Token (job_Lease a) \<noteq> '''' \<Longrightarrow> holds_lease a token t \<Longrightarrow> CanTransition (job_State a) to \<Longrightarrow>
     to \<noteq> StateQueued \<Longrightarrow> mutation_ok f \<Longrightarrow>
     job_write a ((if drops_lease to then (f (a\<lparr>job_State := to\<rparr>))\<lparr>job_Lease := no_lease\<rparr>
                   else f (a\<lparr>job_State := to\<rparr>))
                  \<lparr>job_UpdatedAt := t', job_Version := job_Version a + 1\<rparr>)"
| write_progress:
    "job_State a = StateRunning \<Longrightarrow>
     job_write a (a\<lparr>job_ProgressMessageTS := m, job_UpdatedAt := t, job_Version := job_Version a + 1\<rparr>)"
| write_resume:
    "job_State a = StateWaitingApproval \<Longrightarrow> job_ApprovalID a = approval \<Longrightarrow> hash \<noteq> '''' \<Longrightarrow>
     job_write a (a\<lparr>job_State := StateQueued, job_ApprovedActionHash := hash,
                    job_Attempt := (if 0 < job_Attempt a then job_Attempt a - 1 else job_Attempt a),
                    job_AvailableAt := t1, job_SteeringEpoch := job_SteeringEpoch a + 1,
                    job_UpdatedAt := t2, job_Version := job_Version a + 1\<rparr>)"
| write_heartbeat:
    "holds_lease a token t \<Longrightarrow>
     job_write a (a\<lparr>job_Lease := (job_Lease a)\<lparr>lease_Heartbeat := t, lease_ExpiresAt := t + d\<rparr>,
                    job_UpdatedAt := t, job_Version := job_Version a + 1\<rparr>)"
| write_exhausted:
    "job_State a = StateRetryWait \<Longrightarrow> job_MaxAttempts a \<le> job_Attempt a \<Longrightarrow>
     job_write a (a\<lparr>job_State := StateFailed, job_FailureReason := r,
                    job_Version := job_Version a + 1, job_UpdatedAt := t\<rparr>)"
| write_release:
    "job_State a = StateRetryWait \<Longrightarrow> job_Attempt a < job_MaxAttempts a \<Longrightarrow>
     job_write a (a\<lparr>job_State := StateQueued, job_Version := job_Version a + 1, job_UpdatedAt := t\<rparr>)"
| write_delivered:
    "job_State a = StateSucceeded \<Longrightarrow>
     job_write a (a\<lparr>job_FinalDeliveryEnqueued := True, job_UpdatedAt := t, job_Version := job_Version a + 1\<rparr>)"

text \<open>\<open>job_move a b\<close> adds what \<open>jobs_Claim\<close> does: recover an expired lease, then perhaps lease.\<close>

inductive job_move :: "Job \<Rightarrow> Job \<Rightarrow> bool" where
  move_stay: "job_move a a"
| move_write: "job_write a b \<Longrightarrow> job_move a b"
| move_recover: "job_move a (recover_expired now a)"
| move_lease:
    "runnable now (recover_expired now a) \<Longrightarrow> After (job_ExpiresAt a) now \<Longrightarrow> token \<noteq> '''' \<Longrightarrow>
     job_move a (lease_to worker token d now (recover_expired now a))"

section \<open>Steps and reachable queues\<close>

inductive job_step :: "JobQueue \<Rightarrow> JobQueue \<Rightarrow> bool" where
  step_enqueue: "q_jobs q i = None \<Longrightarrow> job_step q (snd (jobs_Enqueue spec i now q))"
| step_claim:
    "enumerates ord (q_jobs q) \<Longrightarrow> token \<noteq> '''' \<Longrightarrow> job_step q (snd (jobs_Claim ord worker token d now q))"
| step_cancel: "job_step q (snd (jobs_Cancel i reason now q))"
| step_undelivered: "job_step q (snd (jobs_MarkCompletedUndelivered i reason now q))"
| step_transition:
    "mutation_ok f \<Longrightarrow> to \<noteq> StateQueued \<Longrightarrow> job_step q (snd (jobs_Transition i token to f t1 t2 q))"
| step_progress: "job_step q (snd (jobs_SetProgressMessageTS i token ts t1 t2 q))"
| step_suspend: "job_step q (snd (jobs_SuspendForApproval i token approval t1 t2 q))"
| step_resume: "job_step q (snd (jobs_ResumeFromApproval i approval hash t1 t2 q))"
| step_heartbeat: "job_step q (snd (jobs_Heartbeat i token d now q))"
| step_requeue: "job_step q (snd (jobs_Requeue i token reason delay t1 t2 t3 q))"
| step_release: "job_step q (snd (jobs_ReleaseRetryWait i t1 t2 q))"
| step_delivered: "job_step q (snd (jobs_MarkFinalDeliveryEnqueued i now q))"

inductive job_reachable :: "JobQueue \<Rightarrow> bool" where
  reach_new: "job_reachable NewJobQueue"
| reach_step: "job_reachable q \<Longrightarrow> job_step q q' \<Longrightarrow> job_reachable q'"

text \<open>
  \<open>writes_one q q'\<close>: the queue is unchanged, or one stored job took a \<open>job_write\<close>.  Every
  operation but \<open>jobs_Enqueue\<close> and \<open>jobs_Claim\<close> has this shape.
\<close>

definition writes_one :: "JobQueue \<Rightarrow> JobQueue \<Rightarrow> bool" where
  "writes_one q q' \<longleftrightarrow> q' = q \<or> (\<exists>i a b. q_jobs q i = Some a \<and> job_write a b \<and> q' = put_job q i b)"

lemma writes_one_refl [simp]: "writes_one q q"
  by (simp add: writes_one_def)

lemma writes_oneI: "q_jobs q i = Some a \<Longrightarrow> job_write a b \<Longrightarrow> writes_one q (put_job q i b)"
  unfolding writes_one_def by blast

lemma writes_one_Cancel: "writes_one q (snd (jobs_Cancel i reason now q))"
  by (simp add: jobs_Cancel_def Let_def split: option.split)
     (auto intro!: writes_oneI intro: write_cancel write_cancelling)

lemma writes_one_Undelivered: "writes_one q (snd (jobs_MarkCompletedUndelivered i reason now q))"
  by (simp add: jobs_MarkCompletedUndelivered_def Let_def split: option.split)
     (auto intro!: writes_oneI intro: write_undelivered)

lemma writes_one_Transition:
  assumes "mutation_ok f" "to \<noteq> StateQueued"
  shows "writes_one q (snd (jobs_Transition i token to f t1 t2 q))"
proof (cases "\<exists>job. q_jobs q i = Some job \<and> lease_Token (job_Lease job) \<noteq> '''' \<and> holds_lease job token t1
                   \<and> CanTransition (job_State job) to")
  case True
  then obtain job where job: "q_jobs q i = Some job" "lease_Token (job_Lease job) \<noteq> ''''"
    "holds_lease job token t1" "CanTransition (job_State job) to" by blast
  have "snd (jobs_Transition i token to f t1 t2 q) =
      put_job q i ((if drops_lease to then (f (job\<lparr>job_State := to\<rparr>))\<lparr>job_Lease := no_lease\<rparr>
                    else f (job\<lparr>job_State := to\<rparr>))
                   \<lparr>job_UpdatedAt := t2, job_Version := job_Version job + 1\<rparr>)"
    using job by (simp add: jobs_Transition_def Let_def mutation_ok_fields [OF assms(1)])
  then show ?thesis
    using writes_oneI [OF job(1) write_transition [OF job(2-4) assms(2,1)]] by simp
next
  case False
  then show ?thesis
    by (auto simp: jobs_Transition_def Let_def split: option.split)
qed

lemma writes_one_Progress: "writes_one q (snd (jobs_SetProgressMessageTS i token ts t1 t2 q))"
  by (simp add: jobs_SetProgressMessageTS_def Let_def split: option.split)
     (auto intro!: writes_oneI intro: write_progress)

lemma writes_one_Suspend: "writes_one q (snd (jobs_SuspendForApproval i token approval t1 t2 q))"
  by (auto simp: jobs_SuspendForApproval_def intro!: writes_one_Transition)

lemma writes_one_Resume: "writes_one q (snd (jobs_ResumeFromApproval i approval hash t1 t2 q))"
proof (cases "\<exists>job. q_jobs q i = Some job \<and> job_State job = StateWaitingApproval
                   \<and> job_ApprovalID job = approval \<and> hash \<noteq> ''''")
  case True
  then obtain job where job: "q_jobs q i = Some job" "job_State job = StateWaitingApproval"
    "job_ApprovalID job = approval" "hash \<noteq> ''''" by blast
  from writes_oneI [OF job(1) write_resume [OF job(2-4), where ?t1.0 = t1 and ?t2.0 = t2]] job show ?thesis
    by (simp add: jobs_ResumeFromApproval_def Let_def)
next
  case False
  then show ?thesis by (auto simp: jobs_ResumeFromApproval_def split: option.split)
qed

lemma writes_one_Heartbeat: "writes_one q (snd (jobs_Heartbeat i token d now q))"
  by (simp add: jobs_Heartbeat_def Let_def split: option.split)
     (auto intro!: writes_oneI intro: write_heartbeat)

lemma writes_one_Requeue: "writes_one q (snd (jobs_Requeue i token reason delay t1 t2 t3 q))"
  by (simp add: jobs_Requeue_def writes_one_Transition)

lemma writes_one_Release: "writes_one q (snd (jobs_ReleaseRetryWait i t1 t2 q))"
  by (simp add: jobs_ReleaseRetryWait_def Let_def split: option.split)
     (auto intro!: writes_oneI intro: write_release write_exhausted)

lemma writes_one_Delivered: "writes_one q (snd (jobs_MarkFinalDeliveryEnqueued i now q))"
  by (simp add: jobs_MarkFinalDeliveryEnqueued_def Let_def split: option.split)
     (auto intro!: writes_oneI intro: write_delivered)

lemmas writes_one_intros =
  writes_one_Cancel writes_one_Undelivered writes_one_Transition writes_one_Progress
  writes_one_Suspend writes_one_Resume writes_one_Heartbeat writes_one_Requeue
  writes_one_Release writes_one_Delivered

text \<open>Every step is an enqueue, a claim, or one write.\<close>

lemma job_step_cases [consumes 1, case_names enqueue claim store]:
  assumes "job_step q q'"
    and "\<And>spec i now. q_jobs q i = None \<Longrightarrow> q' = snd (jobs_Enqueue spec i now q) \<Longrightarrow> P"
    and "\<And>ord worker token d now. enumerates ord (q_jobs q) \<Longrightarrow> token \<noteq> '''' \<Longrightarrow>
           q' = snd (jobs_Claim ord worker token d now q) \<Longrightarrow> P"
    and "writes_one q q' \<Longrightarrow> P"
  shows P
  using assms(1)
  by (cases rule: job_step.cases) (use assms(2-4) writes_one_intros in \<open>metis | blast\<close>)+

section \<open>The claim loop, job by job\<close>

lemma recover_expired_simps [simp]:
  "job_OrganizationID (recover_expired now j) = job_OrganizationID j"
  "job_SessionID (recover_expired now j) = job_SessionID j"
  "job_Generation (recover_expired now j) = job_Generation j"
  "job_ExpiresAt (recover_expired now j) = job_ExpiresAt j"
  "job_ID (recover_expired now j) = job_ID j"
  "job_Attempt (recover_expired now j) = job_Attempt j"
  "job_MaxAttempts (recover_expired now j) = job_MaxAttempts j"
  "job_IdempotencyKey (recover_expired now j) = job_IdempotencyKey j"
  "job_AvailableAt (recover_expired now j) = job_AvailableAt j"
  "job_CreatedAt (recover_expired now j) = job_CreatedAt j"
  by (simp_all add: recover_expired_def)

lemma is_writer_recover: "is_writer (job_State (recover_expired now j)) \<Longrightarrow> is_writer (job_State j)"
  by (auto simp: recover_expired_def is_writer_def split: if_splits)

lemma same_generation_recover [simp]:
  "same_generation (recover_expired now a) b = same_generation a b"
  "same_generation a (recover_expired now b) = same_generation a b"
  by (simp_all add: same_generation_def)

lemma same_generation_lease [simp]:
  "same_generation (lease_to w token d now a) b = same_generation a b"
  "same_generation a (lease_to w token d now b) = same_generation a b"
  by (simp_all add: same_generation_def lease_to_def)

lemma same_generation_refl [simp]: "same_generation a a"
  by (simp add: same_generation_def)

lemma same_generation_sym: "same_generation a b \<Longrightarrow> same_generation b a"
  by (simp add: same_generation_def)

text \<open>
  Each identifier is visited once, so the loop applies at most one \<open>job_move\<close> to a job:
  it leaves jobs outside the visited identifiers alone.
\<close>

lemma claim_loop_Cons:
  "claim_loop ord worker token d now (i # ids) m =
     (if \<not> After (job_ExpiresAt (lookup_zero zero_Job m i)) now
      then claim_loop ord worker token d now ids m
      else if \<not> runnable now (recover_expired now (lookup_zero zero_Job m i))
        \<or> writer_busy ord (m(i \<mapsto> recover_expired now (lookup_zero zero_Job m i))) i
             (recover_expired now (lookup_zero zero_Job m i))
      then claim_loop ord worker token d now ids (m(i \<mapsto> recover_expired now (lookup_zero zero_Job m i)))
      else (Inr (lease_to worker token d now (recover_expired now (lookup_zero zero_Job m i))),
            m(i \<mapsto> lease_to worker token d now (recover_expired now (lookup_zero zero_Job m i)))))"
  by (simp add: Let_def)

declare claim_loop.simps(2) [simp del]

lemma claim_loop_frame:
  "i \<notin> set ids \<Longrightarrow> snd (claim_loop ord worker token d now ids m) i = m i"
  by (induction ids arbitrary: m) (simp_all add: claim_loop_Cons)

lemma claim_loop_dom:
  "set ids \<subseteq> dom m \<Longrightarrow> dom (snd (claim_loop ord worker token d now ids m)) = dom m"
proof (induction ids arbitrary: m)
  case (Cons i ids)
  let ?m = "m(i \<mapsto> recover_expired now (lookup_zero zero_Job m i))"
  have same: "dom ?m = dom m" using Cons.prems by auto
  have "dom (snd (claim_loop ord worker token d now ids ?m)) = dom ?m"
    by (rule Cons.IH) (use Cons.prems in auto)
  moreover have "dom (snd (claim_loop ord worker token d now ids m)) = dom m"
    by (rule Cons.IH) (use Cons.prems in auto)
  ultimately show ?case
    using same Cons.prems by (simp add: claim_loop_Cons insert_absorb)
qed simp

lemma claim_loop_moves:
  assumes "distinct ids" "token \<noteq> ''''" "m i = Some a"
  shows "\<exists>b. snd (claim_loop ord worker token d now ids m) i = Some b \<and> job_move a b"
  using assms
proof (induction ids arbitrary: m)
  case Nil
  then show ?case by (auto intro: move_stay)
next
  case (Cons k ids)
  show ?case
  proof (cases "k = i")
    case True
    with Cons.prems show ?thesis
      by (simp add: claim_loop_Cons claim_loop_frame)
         (auto intro: move_stay move_recover move_lease)
  next
    case False
    with Cons show ?thesis
      by (simp add: claim_loop_Cons) (auto intro: move_stay)
  qed
qed

lemma set_claim_order [simp]: "set (claim_order ord m) = set ord"
  by (simp add: claim_order_def)

lemma distinct_claim_order [simp]: "distinct (claim_order ord m) = distinct ord"
  by (simp add: claim_order_def)

lemma jobs_Claim_snd [simp]:
  "q_jobs (snd (jobs_Claim ord worker token d now q)) =
     snd (claim_loop ord worker token d now (claim_order ord (q_jobs q)) (q_jobs q))"
  "q_byIdempotency (snd (jobs_Claim ord worker token d now q)) = q_byIdempotency q"
  by (simp_all add: jobs_Claim_def split: prod.split)

section \<open>Every step moves every stored job\<close>

lemma jobs_Enqueue_snd:
  "snd (jobs_Enqueue spec i now q) =
     (if jobs_ValidateSpec spec = Inr ()
         \<and> q_byIdempotency q (idempotency_index (spec_OrganizationID spec) (spec_IdempotencyKey spec)) = None
      then q\<lparr>q_jobs := (q_jobs q)(i \<mapsto> job_of_spec spec i now),
             q_byIdempotency := (q_byIdempotency q)
               (idempotency_index (spec_OrganizationID spec) (spec_IdempotencyKey spec) \<mapsto> i)\<rparr>
      else q)"
  by (auto simp: jobs_Enqueue_def Let_def split: sum.split option.split)

lemma job_step_moves:
  assumes "job_step q q'" "q_jobs q i = Some a"
  shows "\<exists>b. q_jobs q' i = Some b \<and> job_move a b"
  using assms(1)
proof (cases rule: job_step_cases)
  case (enqueue spec k now)
  then show ?thesis using assms(2)
    by (auto simp: jobs_Enqueue_snd intro: move_stay)
next
  case (claim ord worker token d now)
  then show ?thesis
    using claim_loop_moves [of "claim_order ord (q_jobs q)" token "q_jobs q" i a ord worker d now] assms(2)
    by (simp add: enumerates_def)
next
  case store
  then consider "q' = q" | k x y where "q_jobs q k = Some x" "job_write x y" "q' = put_job q k y"
    by (auto simp: writes_one_def)
  then show ?thesis
    using assms(2) by cases (auto intro: job_move.intros)
qed

lemma job_step_new:
  assumes "job_step q q'" "q_jobs q i = None" "q_jobs q' i = Some b"
  obtains spec now where "jobs_ValidateSpec spec = Inr ()" "b = job_of_spec spec i now"
    "q_jobs q' = (q_jobs q)(i \<mapsto> b)"
  using assms(1)
proof (cases rule: job_step_cases)
  case (enqueue spec k now)
  then show ?thesis using assms that
    by (auto simp: jobs_Enqueue_snd split: if_splits)
next
  case (claim ord worker token d now)
  then have "dom (q_jobs q') = dom (q_jobs q)"
    using claim_loop_dom [of "claim_order ord (q_jobs q)" "q_jobs q" ord worker token d now]
    by (simp add: enumerates_def)
  with assms(2,3) show ?thesis by auto
next
  case store
  then show ?thesis using assms(2,3) by (auto simp: writes_one_def split: if_splits)
qed

text \<open>
  The rule behind the invariants of single jobs: a predicate that holds of a fresh job and is
  kept by every write and by both halves of a claim holds of every job of a reachable queue.
\<close>

lemma job_reachable_forall:
  assumes "job_reachable q" "q_jobs q i = Some a"
    and new: "\<And>spec i now. jobs_ValidateSpec spec = Inr () \<Longrightarrow> P (job_of_spec spec i now)"
    and move: "\<And>a b. P a \<Longrightarrow> job_move a b \<Longrightarrow> P b"
  shows "P a"
  using assms(1,2)
proof (induction arbitrary: i a rule: job_reachable.induct)
  case reach_new
  then show ?case by (simp add: NewJobQueue_def)
next
  case (reach_step q q')
  show ?case
  proof (cases "q_jobs q i")
    case None
    with reach_step show ?thesis by (metis job_step_new new)
  next
    case (Some a0)
    then obtain b where "q_jobs q' i = Some b" "job_move a0 b"
      using job_step_moves reach_step.hyps(2) by blast
    with Some reach_step move show ?thesis by auto
  qed
qed

end
