(* ===== verification/JobInvariants.thy ===== *)
theory JobInvariants
  imports JobLifecycle
begin

text \<open>
  What the job queue promises in every reachable state: well-formed jobs, final states that
  stay final, growing versions, the idempotency index, and one writer per session
  generation.  The interfaces \<open>fenced_final\<close> and \<open>idempotent_store\<close> are interpreted here on
  the queue's own operations.
\<close>

section \<open>Well-formed jobs\<close>

definition holding_state :: "State \<Rightarrow> bool" where
  "holding_state s \<longleftrightarrow> s \<in> {StateLeased, StatePreparing, StateRunning, StateCancelling}"

definition job_ok :: "Job \<Rightarrow> bool" where
  "job_ok a \<longleftrightarrow>
     0 \<le> job_Attempt a \<and> job_Attempt a \<le> job_MaxAttempts a \<and> 0 < job_Generation a
     \<and> 0 < job_Version a \<and> job_State a \<noteq> StateUnset
     \<and> (lease_Token (job_Lease a) \<noteq> '''' \<longleftrightarrow> holding_state (job_State a))
     \<and> (job_State a \<notin> {StateQueued, StateCancelled} \<longrightarrow> 0 < job_Attempt a)"

lemma job_okD:
  assumes "job_ok a"
  shows "lease_Token (job_Lease a) = '''' \<longleftrightarrow> \<not> holding_state (job_State a)"
    "0 \<le> job_Attempt a" "job_Attempt a \<le> job_MaxAttempts a" "0 < job_Version a"
  using assms by (auto simp: job_ok_def)

lemma job_ok_of_spec: "jobs_ValidateSpec spec = Inr () \<Longrightarrow> job_ok (job_of_spec spec i now)"
  by (simp add: job_ok_def job_of_spec_def jobs_ValidateSpec_def zero_Job_def holding_state_def
      split: if_splits)

lemma CanTransition_leased:
  assumes "CanTransition s to" "holding_state s" "to \<noteq> StateQueued"
  shows "to \<noteq> StateUnset \<and> (holding_state to \<longleftrightarrow> \<not> drops_lease to)"
  using assms by (cases s) (auto simp: holding_state_def drops_lease_def)

lemma job_ok_write:
  assumes "job_write a b" "job_ok a"
  shows "job_ok b"
  using assms(1)
proof cases
  case (write_transition token t to f t')
  note f = mutation_ok_fields [OF write_transition(6)]
  have hs: "holding_state (job_State a)"
    using write_transition(2) assms(2) by (simp add: job_okD)
  have to: "to \<noteq> StateUnset" "holding_state to \<longleftrightarrow> \<not> drops_lease to"
    using CanTransition_leased [OF write_transition(4) hs write_transition(5)] by auto
  show ?thesis
  proof (cases "drops_lease to")
    case True
    then show ?thesis
      unfolding write_transition(1) using assms(2) to hs
      by (auto simp: job_ok_def f holding_state_def)
  next
    case False
    then show ?thesis
      unfolding write_transition(1) using assms(2) to hs write_transition(2)
      by (auto simp: job_ok_def f holding_state_def)
  qed
qed (use assms(2) in \<open>auto simp: job_ok_def holding_state_def\<close>)

lemma job_ok_recover: "job_ok a \<Longrightarrow> job_ok (recover_expired now a)"
  by (auto simp: job_ok_def recover_expired_def holding_state_def)

lemma job_ok_lease: "job_ok a \<Longrightarrow> runnable now a \<Longrightarrow> token \<noteq> '''' \<Longrightarrow> job_ok (lease_to w token d now a)"
  by (auto simp: job_ok_def lease_to_def runnable_def holding_state_def)

lemma job_ok_move: "job_move a b \<Longrightarrow> job_ok a \<Longrightarrow> job_ok b"
  by (cases rule: job_move.cases) (auto intro: job_ok_write job_ok_recover job_ok_lease)

lemma reachable_job_ok: "job_reachable q \<Longrightarrow> q_jobs q i = Some a \<Longrightarrow> job_ok a"
  using job_reachable_forall [of q i a job_ok] job_ok_of_spec job_ok_move by blast

section \<open>Identity, versions, final states\<close>

definition same_identity :: "Job \<Rightarrow> Job \<Rightarrow> bool" where
  "same_identity a b \<longleftrightarrow>
     job_ID b = job_ID a \<and> job_OrganizationID b = job_OrganizationID a
     \<and> job_SessionID b = job_SessionID a \<and> job_Generation b = job_Generation a
     \<and> job_IdempotencyKey b = job_IdempotencyKey a \<and> job_MaxAttempts b = job_MaxAttempts a
     \<and> job_AdmissionReservationID b = job_AdmissionReservationID a
     \<and> job_CreatedAt b = job_CreatedAt a \<and> job_ExpiresAt b = job_ExpiresAt a"

lemma same_identity_recover: "same_identity a (recover_expired now a)"
  by (simp add: same_identity_def recover_expired_def)

lemma same_identity_write: "job_write a b \<Longrightarrow> same_identity a b"
  by (cases rule: job_write.cases) (auto simp: same_identity_def mutation_ok_fields)

lemma same_identity_lease: "same_identity a b \<Longrightarrow> same_identity a (lease_to w token d now b)"
  by (simp add: same_identity_def lease_to_def)

lemma same_identity_refl: "same_identity a a"
  by (simp add: same_identity_def)

lemma same_identity_move: "job_move a b \<Longrightarrow> same_identity a b"
proof (induction rule: job_move.induct)
  case (move_lease now a token w d)
  show ?case by (rule same_identity_lease) (rule same_identity_recover)
qed (simp_all add: same_identity_refl same_identity_write same_identity_recover)

lemma same_identity_generation:
  "same_identity a b \<Longrightarrow> same_generation a c = same_generation b c"
  by (simp add: same_identity_def same_generation_def)

lemma version_write: "job_write a b \<Longrightarrow> job_Version b = job_Version a + 1"
  by (induction rule: job_write.induct) simp_all

lemma version_recover: "job_Version a \<le> job_Version (recover_expired now a)"
  by (simp add: recover_expired_def)

lemma version_recover_change: "recover_expired now a = a \<or> job_Version a < job_Version (recover_expired now a)"
  by (simp add: recover_expired_def)

lemma version_move: "job_move a b \<Longrightarrow> b = a \<or> job_Version a < job_Version b"
proof (induction rule: job_move.induct)
  case (move_write a b)
  then show ?case by (simp add: version_write)
next
  case (move_lease now a token w d)
  show ?case using version_recover [of a now] by (simp add: lease_to_def)
qed (simp_all add: version_recover_change)

definition terminal :: "State \<Rightarrow> bool" where
  "terminal s \<longleftrightarrow> s \<in> {StateSucceeded, StateCompletedUndelivered, StateFailed, StateCancelled}"

lemma terminal_not_holding: "terminal s \<Longrightarrow> \<not> holding_state s"
  by (auto simp: terminal_def holding_state_def)

text \<open>A job without a lease cannot take the write of a leased worker.\<close>

lemma terminal_write:
  assumes "job_write a b" "job_ok a" "terminal (job_State a)"
  shows "(job_State b = job_State a \<or> job_State a = StateSucceeded \<and> job_State b = StateCompletedUndelivered)
         \<and> job_Attempt b = job_Attempt a"
  using assms
proof (induction rule: job_write.induct)
  case (write_transition a token t to f t')
  then have "holding_state (job_State a)" by (simp add: job_okD)
  with write_transition show ?case by (simp add: terminal_not_holding)
qed (auto simp: terminal_def)

lemma terminal_states:
  "terminal s \<Longrightarrow> s \<notin> {StateLeased, StatePreparing, StateRunning} \<and> s \<noteq> StateQueued \<and> \<not> is_writer s"
  by (auto simp: terminal_def is_writer_def)

lemma terminal_not_recovered:
  "terminal (job_State a) \<Longrightarrow> recover_expired now a = a \<and> \<not> runnable now a"
  using terminal_states [of "job_State a"] by (simp add: recover_expired_def runnable_def)

lemma terminal_move:
  assumes "job_move a b" "job_ok a" "terminal (job_State a)"
  shows "(job_State b = job_State a \<or> job_State a = StateSucceeded \<and> job_State b = StateCompletedUndelivered)
         \<and> job_Attempt b = job_Attempt a \<and> lease_Token (job_Lease b) = ''''"
  using assms(1)
proof cases
  case move_write
  note w = terminal_write [OF move_write assms(2,3)]
  have "\<not> holding_state (job_State b)"
    using w assms(3) by (auto simp: terminal_def holding_state_def)
  then show ?thesis
    using w job_ok_write [OF move_write assms(2)] by (simp add: job_okD)
next
  case move_stay
  then show ?thesis using assms(2,3) by (simp add: job_okD terminal_not_holding)
next
  case (move_recover now)
  then show ?thesis using assms(2,3) terminal_not_recovered [of a now]
    by (simp add: job_okD terminal_not_holding)
next
  case (move_lease now token w d)
  with assms(3) terminal_not_recovered [of a now] show ?thesis by simp
qed

section \<open>The idempotency index\<close>

definition job_key :: "Job \<Rightarrow> string" where
  "job_key a = idempotency_index (job_OrganizationID a) (job_IdempotencyKey a)"

definition index_ok :: "JobQueue \<Rightarrow> bool" where
  "index_ok q \<longleftrightarrow>
     (\<forall>i a. q_jobs q i = Some a \<longrightarrow> job_ID a = i \<and> q_byIdempotency q (job_key a) = Some i)
     \<and> (\<forall>k i. q_byIdempotency q k = Some i \<longrightarrow> (\<exists>a. q_jobs q i = Some a \<and> job_key a = k))"

lemma index_okD:
  assumes "index_ok q"
  shows "q_jobs q i = Some a \<Longrightarrow> job_ID a = i \<and> q_byIdempotency q (job_key a) = Some i"
    "q_byIdempotency q k = Some i \<Longrightarrow> \<exists>a. q_jobs q i = Some a \<and> job_key a = k"
  using assms unfolding index_ok_def by blast+

lemma job_key_of_spec [simp]:
  "job_key (job_of_spec spec i now) = idempotency_index (spec_OrganizationID spec) (spec_IdempotencyKey spec)"
  "job_ID (job_of_spec spec i now) = i"
  by (simp_all add: job_key_def job_of_spec_def)

lemma index_ok_new: "index_ok NewJobQueue"
  by (simp add: index_ok_def NewJobQueue_def)

lemma index_ok_enqueue:
  assumes "index_ok q" "q_jobs q i = None"
  shows "index_ok (snd (jobs_Enqueue spec i now q))"
proof (cases "jobs_ValidateSpec spec = Inr ()
         \<and> q_byIdempotency q (idempotency_index (spec_OrganizationID spec) (spec_IdempotencyKey spec)) = None")
  case True
  let ?k = "idempotency_index (spec_OrganizationID spec) (spec_IdempotencyKey spec)"
  have fresh: "q_byIdempotency q k \<noteq> Some i" for k
    using index_okD(2) [OF assms(1), of k i] assms(2) by auto
  have other: "job_key a \<noteq> ?k" if "q_jobs q j = Some a" for j a
    using index_okD(1) [OF assms(1) that] True by auto
  show ?thesis
    using True index_okD [OF assms(1)] fresh other by (simp add: jobs_Enqueue_snd index_ok_def)
next
  case False
  then show ?thesis using assms(1) by (simp add: jobs_Enqueue_snd del: de_Morgan_conj)
qed

text \<open>Steps that keep the set of jobs, their identity and the index keep the index consistent.\<close>

lemma index_ok_frame:
  assumes "index_ok q" "q_byIdempotency q' = q_byIdempotency q" "dom (q_jobs q') = dom (q_jobs q)"
    and "\<And>i a. q_jobs q i = Some a \<Longrightarrow> \<exists>b. q_jobs q' i = Some b \<and> same_identity a b"
  shows "index_ok q'"
proof -
  have prior: "\<exists>a. q_jobs q i = Some a \<and> same_identity a b" if "q_jobs q' i = Some b" for i b
    using assms(3,4) that by (metis domD domI option.inject)
  have key: "same_identity a b \<Longrightarrow> job_key b = job_key a \<and> job_ID b = job_ID a" for a b
    by (simp add: same_identity_def job_key_def)
  show ?thesis
    unfolding index_ok_def assms(2)
  proof (intro conjI allI impI)
    fix i b assume "q_jobs q' i = Some b"
    with prior key index_okD(1) [OF assms(1)] show "job_ID b = i" "q_byIdempotency q (job_key b) = Some i"
      by (metis, metis)
  next
    fix k i assume "q_byIdempotency q k = Some i"
    with index_okD(2) [OF assms(1)] assms(4) key show "\<exists>b. q_jobs q' i = Some b \<and> job_key b = k"
      by metis
  qed
qed

lemma writes_one_dom: "writes_one q q' \<Longrightarrow> dom (q_jobs q') = dom (q_jobs q) \<and> q_byIdempotency q' = q_byIdempotency q"
  by (auto simp: writes_one_def split: if_splits)

lemma index_ok_step:
  assumes "job_step q q'" "index_ok q"
  shows "index_ok q'"
proof -
  have moved: "\<exists>b. q_jobs q' i = Some b \<and> same_identity a b" if "q_jobs q i = Some a" for i a
    using job_step_moves [OF assms(1) that] same_identity_move by blast
  from assms(1) show ?thesis
  proof (cases rule: job_step_cases)
    case (enqueue spec i now)
    then show ?thesis using index_ok_enqueue [OF assms(2)] by simp
  next
    case (claim ord w token d now)
    then show ?thesis
      by (intro index_ok_frame [OF assms(2) _ _ moved])
         (simp_all add: claim_loop_dom enumerates_def)
  next
    case store
    then show ?thesis
      by (intro index_ok_frame [OF assms(2) _ _ moved]) (simp_all add: writes_one_dom)
  qed
qed

lemma reachable_index_ok: "job_reachable q \<Longrightarrow> index_ok q"
  by (induction rule: job_reachable.induct) (simp_all add: index_ok_new index_ok_step)

section \<open>One writer per session generation\<close>

definition writers_unique :: "(string \<rightharpoonup> Job) \<Rightarrow> bool" where
  "writers_unique m \<longleftrightarrow>
     (\<forall>i j a b. m i = Some a \<longrightarrow> m j = Some b \<longrightarrow> same_generation a b \<longrightarrow>
        is_writer (job_State a) \<longrightarrow> is_writer (job_State b) \<longrightarrow> i = j)"

lemma writers_uniqueD:
  "writers_unique m \<Longrightarrow> m i = Some a \<Longrightarrow> m j = Some b \<Longrightarrow> same_generation a b \<Longrightarrow>
     is_writer (job_State a) \<Longrightarrow> is_writer (job_State b) \<Longrightarrow> i = j"
  unfolding writers_unique_def by blast

lemma same_generation_sym_eq: "same_generation a b = same_generation b a"
  by (auto simp: same_generation_def)

text \<open>Replacing a job by one of its generation that is a writer only if the old one was.\<close>

lemma writers_unique_update:
  assumes "writers_unique m" "m i = Some a" "\<And>c. same_generation b c = same_generation a c"
    and "is_writer (job_State b) \<Longrightarrow> is_writer (job_State a)"
  shows "writers_unique (m(i \<mapsto> b))"
  unfolding writers_unique_def
proof (intro allI impI)
  fix j k x y
  assume *: "(m(i \<mapsto> b)) j = Some x" "(m(i \<mapsto> b)) k = Some y" "same_generation x y"
    "is_writer (job_State x)" "is_writer (job_State y)"
  define x' where "x' = (if j = i then a else x)"
  define y' where "y' = (if k = i then a else y)"
  have "m j = Some x'" "m k = Some y'" using * assms(2) by (auto simp: x'_def y'_def)
  moreover have "is_writer (job_State x')" "is_writer (job_State y')"
    using * assms(4) by (auto simp: x'_def y'_def split: if_splits)
  moreover have "same_generation x' y'"
  proof -
    have "same_generation x' c = same_generation x c" for c
      using *(1) assms(3) by (simp add: x'_def split: if_splits)
    moreover have "same_generation c y' = same_generation c y" for c
      using *(2) assms(3) [of c] by (simp add: y'_def same_generation_sym_eq [of c] split: if_splits)
    ultimately show ?thesis using *(3) by simp
  qed
  ultimately show "j = k" using writers_uniqueD [OF assms(1)] by blast
qed

lemma writers_unique_new_writer:
  assumes "writers_unique m" "\<And>j c. m j = Some c \<Longrightarrow> j \<noteq> i \<Longrightarrow> same_generation c b \<Longrightarrow> \<not> is_writer (job_State c)"
  shows "writers_unique (m(i \<mapsto> b))"
  unfolding writers_unique_def
proof (intro allI impI)
  fix j k x y
  assume *: "(m(i \<mapsto> b)) j = Some x" "(m(i \<mapsto> b)) k = Some y" "same_generation x y"
    "is_writer (job_State x)" "is_writer (job_State y)"
  show "j = k"
  proof (cases "j = i \<or> k = i")
    case True
    then show ?thesis
      using * assms(2) [of k y] assms(2) [of j x]
      by (auto simp: same_generation_sym_eq [of y] split: if_splits)
  next
    case False
    then show ?thesis using * writers_uniqueD [OF assms(1), of j x k y] by simp
  qed
qed

lemma writer_busy_iff:
  "dom m \<subseteq> set ord \<Longrightarrow>
     writer_busy ord m i job \<longleftrightarrow>
       (\<exists>j c. j \<noteq> i \<and> m j = Some c \<and> same_generation c job \<and> is_writer (job_State c))"
  by (fastforce simp: writer_busy_def list_ex_iff split: option.splits)

lemma claim_loop_writers_unique:
  assumes "writers_unique m" "set ids \<subseteq> dom m" "dom m \<subseteq> set ord"
  shows "writers_unique (snd (claim_loop ord worker token d now ids m))"
  using assms
proof (induction ids arbitrary: m)
  case (Cons i ids)
  obtain a where a: "m i = Some a" using Cons.prems(2) by auto
  let ?r = "recover_expired now a"
  let ?m = "m(i \<mapsto> ?r)"
  have u: "writers_unique ?m"
    by (rule writers_unique_update [OF Cons.prems(1) a]) (simp_all add: is_writer_recover)
  have dom: "dom ?m = dom m" using a by auto
  have "writers_unique (snd (claim_loop ord worker token d now ids ?m))"
    by (rule Cons.IH [OF u]) (unfold dom, use Cons.prems in simp_all)
  moreover have "writers_unique (snd (claim_loop ord worker token d now ids m))"
    by (rule Cons.IH) (use Cons.prems in auto)
  moreover have "writers_unique (m(i \<mapsto> lease_to worker token d now ?r))" if "\<not> writer_busy ord ?m i ?r"
  proof (rule writers_unique_new_writer [OF Cons.prems(1)])
    fix j c assume "m j = Some c" "j \<noteq> i" "same_generation c (lease_to worker token d now ?r)"
    with that Cons.prems(3) dom show "\<not> is_writer (job_State c)"
      by (auto simp: writer_busy_iff)
  qed
  ultimately show ?case using a by (simp add: claim_loop_Cons)
qed simp

text \<open>No other operation makes a writer of a job that was none.\<close>

lemma is_writer_write:
  assumes "job_write a b" "job_ok a" "is_writer (job_State b)"
  shows "is_writer (job_State a)"
  using assms
proof (induction rule: job_write.induct)
  case (write_transition a token t to f t')
  then have "holding_state (job_State a)" by (simp add: job_okD)
  then show ?case by (auto simp: holding_state_def is_writer_def)
qed (auto simp: is_writer_def)

lemma writers_unique_step:
  assumes "job_step q q'" "writers_unique (q_jobs q)" "\<And>i a. q_jobs q i = Some a \<Longrightarrow> job_ok a"
  shows "writers_unique (q_jobs q')"
  using assms(1)
proof (cases rule: job_step_cases)
  case (enqueue spec i now)
  have "writers_unique ((q_jobs q)(i \<mapsto> job_of_spec spec i now))"
    unfolding writers_unique_def
    using writers_uniqueD [OF assms(2)] by (auto simp: is_writer_def job_of_spec_def)
  then show ?thesis using enqueue assms(2) by (auto simp: jobs_Enqueue_snd)
next
  case (claim ord w token d now)
  then show ?thesis
    using claim_loop_writers_unique [OF assms(2), of "claim_order ord (q_jobs q)" ord]
    by (simp add: enumerates_def)
next
  case store
  then consider "q' = q" | k x y where "q_jobs q k = Some x" "job_write x y" "q' = put_job q k y"
    by (auto simp: writes_one_def)
  then show ?thesis
  proof cases
    case 2
    have "writers_unique ((q_jobs q)(k \<mapsto> y))"
    proof (rule writers_unique_update [OF assms(2) 2(1)])
      show "same_generation y c = same_generation x c" for c
        using same_identity_generation [OF same_identity_write [OF 2(2)]] by simp
      show "is_writer (job_State x)" if "is_writer (job_State y)"
        using is_writer_write [OF 2(2) assms(3) [OF 2(1)] that] .
    qed
    then show ?thesis using 2 by simp
  qed (use assms(2) in simp)
qed

lemma reachable_writers_unique: "job_reachable q \<Longrightarrow> writers_unique (q_jobs q)"
proof (induction rule: job_reachable.induct)
  case reach_new
  show ?case by (simp add: NewJobQueue_def writers_unique_def)
next
  case (reach_step q q')
  then show ?case using writers_unique_step reachable_job_ok by blast
qed

section \<open>What a claim returns\<close>

lemma claim_loop_Some:
  assumes "m i = Some a"
  shows "claim_loop ord worker token d now (i # ids) m =
     (if \<not> After (job_ExpiresAt a) now then claim_loop ord worker token d now ids m
      else if \<not> runnable now (recover_expired now a)
        \<or> writer_busy ord (m(i \<mapsto> recover_expired now a)) i (recover_expired now a)
      then claim_loop ord worker token d now ids (m(i \<mapsto> recover_expired now a))
      else (Inr (lease_to worker token d now (recover_expired now a)),
            m(i \<mapsto> lease_to worker token d now (recover_expired now a))))"
  by (simp only: claim_loop_Cons lookup_zero_simps(1) [where m = m and k = i, OF assms])

text \<open>
  A returned job is the first eligible one in claim order; when nothing is returned, no
  visited job was eligible when it was visited.
\<close>

lemma claim_loop_error:
  "claim_loop ord worker token d now ids m = (Inl e, m') \<Longrightarrow> e = ErrNoRunnableJob"
  by (induction ids arbitrary: m) (auto simp: claim_loop_Cons split: if_splits)

lemma claim_loop_cancelling:
  assumes "m i = Some a" "job_State a = StateCancelling"
  shows "snd (claim_loop ord worker token d now ids m) i = Some a"
  using assms(1)
proof (induction ids arbitrary: m)
  case (Cons k ids)
  have r: "recover_expired now a = a" "\<not> runnable now a"
    using assms(2) by (simp_all add: recover_expired_def runnable_def)
  show ?case
  proof (cases "k = i")
    case True
    with Cons r show ?thesis by (simp add: claim_loop_Some)
  next
    case False
    with Cons show ?thesis by (simp add: claim_loop_Cons)
  qed
qed simp

definition claimable :: "time \<Rightarrow> (string \<rightharpoonup> Job) \<Rightarrow> string \<Rightarrow> bool" where
  "claimable now m i \<longleftrightarrow>
     (\<exists>a. m i = Some a \<and> After (job_ExpiresAt a) now \<and> runnable now (recover_expired now a)
        \<and> (\<forall>k c. k \<noteq> i \<longrightarrow> m k = Some c \<longrightarrow> same_generation c a \<longrightarrow> \<not> is_writer (job_State c)))"

lemma claimable_after_recover:
  assumes "claimable now m j" "j \<noteq> i" "m i = Some a"
  shows "claimable now (m(i \<mapsto> recover_expired now a)) j"
proof -
  from assms(1) obtain c where c: "m j = Some c" "After (job_ExpiresAt c) now"
    "runnable now (recover_expired now c)"
    "\<And>k x. k \<noteq> j \<Longrightarrow> m k = Some x \<Longrightarrow> same_generation x c \<Longrightarrow> \<not> is_writer (job_State x)"
    unfolding claimable_def by blast
  have "\<not> is_writer (job_State x)"
    if "k \<noteq> j" "(m(i \<mapsto> recover_expired now a)) k = Some x" "same_generation x c" for k x
    using that c(4) [of k] assms(2,3) is_writer_recover [of now a] by (auto split: if_splits)
  with c(1-3) assms(2) show ?thesis unfolding claimable_def by auto
qed

lemma claimable_head:
  assumes "claimable now m i" "dom m \<subseteq> set ord"
  shows "\<exists>a. m i = Some a \<and> After (job_ExpiresAt a) now \<and> runnable now (recover_expired now a)
             \<and> \<not> writer_busy ord (m(i \<mapsto> recover_expired now a)) i (recover_expired now a)"
proof -
  from assms(1) obtain a where a: "m i = Some a" "After (job_ExpiresAt a) now"
    "runnable now (recover_expired now a)"
    "\<And>k c. k \<noteq> i \<Longrightarrow> m k = Some c \<Longrightarrow> same_generation c a \<Longrightarrow> \<not> is_writer (job_State c)"
    unfolding claimable_def by blast
  have "dom (m(i \<mapsto> recover_expired now a)) \<subseteq> set ord" using assms(2) a(1) by auto
  then have "\<not> writer_busy ord (m(i \<mapsto> recover_expired now a)) i (recover_expired now a)"
    using a(4) by (auto simp: writer_busy_iff)
  with a show ?thesis by blast
qed

lemma claim_loop_Inl:
  assumes "claim_loop ord worker token d now ids m = (Inl e, m')" "set ids \<subseteq> dom m"
    "dom m \<subseteq> set ord" "distinct ids" "j \<in> set ids"
  shows "\<not> claimable now m j"
  using assms
proof (induction ids arbitrary: m)
  case (Cons i ids)
  obtain a where a: "m i = Some a" using Cons.prems(2) by auto
  let ?m = "m(i \<mapsto> recover_expired now a)"
  have dom: "dom ?m = dom m" using a by auto
  have skip: "\<not> (After (job_ExpiresAt a) now \<and> runnable now (recover_expired now a)
                \<and> \<not> writer_busy ord ?m i (recover_expired now a))"
    using Cons.prems(1) by (auto simp: claim_loop_Some [where m = m and i = i, OF a] split: if_splits)
  show ?case
  proof (cases "j = i")
    case True
    with skip claimable_head [of now m i ord] Cons.prems(3) a show ?thesis by auto
  next
    case False
    then have j: "j \<in> set ids" using Cons.prems(5) by simp
    show ?thesis
    proof (cases "After (job_ExpiresAt a) now")
      case True
      with skip have "claim_loop ord worker token d now ids ?m = (Inl e, m')"
        using Cons.prems(1) by (auto simp: claim_loop_Some [where m = m and i = i, OF a] split: if_splits)
      moreover have "set ids \<subseteq> dom ?m" "dom ?m \<subseteq> set ord" "distinct ids"
        unfolding dom using Cons.prems by simp_all
      ultimately have "\<not> claimable now ?m j" using Cons.IH j by blast
      then show ?thesis using claimable_after_recover [of now m j i a] False a by blast
    next
      case expired: False
      then have "claim_loop ord worker token d now ids m = (Inl e, m')"
        using Cons.prems(1) by (simp add: claim_loop_Some [where m = m and i = i, OF a])
      from Cons.IH [OF this _ _ _ j] show ?thesis using Cons.prems by simp
    qed
  qed
qed simp

lemma claim_loop_Inr:
  assumes "claim_loop ord worker token d now ids m = (Inr b, m')" "set ids \<subseteq> dom m"
    "dom m \<subseteq> set ord" "distinct ids"
  shows "\<exists>pre i post a. ids = pre @ i # post \<and> m i = Some a \<and> After (job_ExpiresAt a) now
           \<and> runnable now (recover_expired now a)
           \<and> b = lease_to worker token d now (recover_expired now a) \<and> m' i = Some b
           \<and> (\<forall>j \<in> set pre. \<not> claimable now m j)"
  using assms
proof (induction ids arbitrary: m)
  case (Cons i ids)
  obtain a where a: "m i = Some a" using Cons.prems(2) by auto
  let ?r = "recover_expired now a"
  let ?m = "m(i \<mapsto> ?r)"
  have dom: "dom ?m = dom m" using a by auto
  show ?case
  proof (cases "After (job_ExpiresAt a) now \<and> runnable now ?r \<and> \<not> writer_busy ord ?m i ?r")
    case True
    then have "b = lease_to worker token d now ?r" "m' i = Some b"
      using Cons.prems(1) by (auto simp: claim_loop_Some [where m = m and i = i, OF a] split: if_splits)
    with True a show ?thesis
      by (intro exI [of _ "[]"] exI [of _ i] exI [of _ ids] exI [of _ a]) simp
  next
    case skip: False
    define m1 where "m1 = (if After (job_ExpiresAt a) now then ?m else m)"
    have run: "claim_loop ord worker token d now ids m1 = (Inr b, m')"
      using Cons.prems(1) skip by (auto simp: claim_loop_Some [where m = m and i = i, OF a] m1_def split: if_splits)
    have mono: "claimable now m j \<Longrightarrow> j \<noteq> i \<Longrightarrow> claimable now m1 j" for j
      using claimable_after_recover [of now m j i a] a by (simp add: m1_def)
    have "set ids \<subseteq> dom m1" "dom m1 \<subseteq> set ord" "distinct ids"
      using Cons.prems dom by (simp_all add: m1_def)
    from Cons.IH [OF run this] obtain pre k post c where k: "ids = pre @ k # post" "m1 k = Some c"
      "After (job_ExpiresAt c) now" "runnable now (recover_expired now c)"
      "b = lease_to worker token d now (recover_expired now c)" "m' k = Some b"
      "\<forall>j \<in> set pre. \<not> claimable now m1 j" by blast
    have ki: "k \<noteq> i" "i \<notin> set pre" using Cons.prems(4) k(1) by auto
    then have "m k = Some c" using k(2) by (simp add: m1_def split: if_splits)
    moreover have "\<not> claimable now m i"
      using skip claimable_head [of now m i ord] Cons.prems(3) a by auto
    moreover have "\<forall>j \<in> set pre. \<not> claimable now m j" using mono k(7) ki(2) by metis
    ultimately show ?thesis using k
      by (intro exI [of _ "i # pre"] exI [of _ k] exI [of _ post] exI [of _ c]) simp
  qed
qed simp

section \<open>The queue as a fenced store\<close>

datatype fenced_op =
    OpTransition State "Job \<Rightarrow> Job" time
  | OpProgress string time
  | OpSuspend string time
  | OpHeartbeat duration
  | OpRequeue string duration time time

fun fenced_write :: "fenced_op \<Rightarrow> string \<Rightarrow> string \<Rightarrow> time \<Rightarrow> JobQueue \<Rightarrow> (job_error, Job option, JobQueue) outcome" where
  "fenced_write (OpTransition to f t2) i tok t q = apfst (map_sum id Some) (jobs_Transition i tok to f t t2 q)"
| "fenced_write (OpProgress ts t2) i tok t q = apfst (map_sum id Some) (jobs_SetProgressMessageTS i tok ts t t2 q)"
| "fenced_write (OpSuspend a t2) i tok t q = apfst (map_sum id Some) (jobs_SuspendForApproval i tok a t t2 q)"
| "fenced_write (OpHeartbeat d) i tok t q = apfst (map_sum id (\<lambda>_. None)) (jobs_Heartbeat i tok d t q)"
| "fenced_write (OpRequeue r d t2 t3) i tok t q = apfst (map_sum id Some) (jobs_Requeue i tok r d t t2 t3 q)"

fun fenced_final_op :: "fenced_op \<Rightarrow> bool" where
  "fenced_final_op (OpTransition to f t2) = drops_lease to"
| "fenced_final_op (OpProgress ts t2) = False"
| "fenced_final_op (OpSuspend a t2) = True"
| "fenced_final_op (OpHeartbeat d) = False"
| "fenced_final_op (OpRequeue r d t2 t3) = True"

lemma jobs_Transition_Inr:
  assumes "jobs_Transition i tok to f t1 t2 q = (Inr b, q')"
  shows "\<exists>a. q_jobs q i = Some a \<and> lease_Token (job_Lease a) \<noteq> '''' \<and> holds_lease a tok t1
           \<and> CanTransition (job_State a) to \<and> q' = put_job q i b
           \<and> (drops_lease to \<longrightarrow> job_Lease b = no_lease)"
  using assms by (auto simp: jobs_Transition_def Let_def split: option.splits if_splits)

lemma jobs_Transition_Inl: "jobs_Transition i tok to f t1 t2 q = (Inl e, q') \<Longrightarrow> q' = q"
  by (auto simp: jobs_Transition_def Let_def split: option.splits if_splits)

lemmas fenced_write_defs =
  jobs_SetProgressMessageTS_def jobs_Heartbeat_def jobs_SuspendForApproval_def jobs_Requeue_def

lemma jobs_Transition_frame: "k \<noteq> i \<Longrightarrow> q_jobs (snd (jobs_Transition i tok to f t1 t2 q)) k = q_jobs q k"
  by (simp add: jobs_Transition_def Let_def split: option.split)

lemma apfst_sum_eq:
  "apfst (map_sum id g) x = (Inr a, s) \<longleftrightarrow> (\<exists>b. x = (Inr b, s) \<and> g b = a)"
  "apfst (map_sum id g) x = (Inl e, s) \<longleftrightarrow> x = (Inl e, s)"
  by (cases x; cases "fst x"; auto)+

interpretation jobq: fenced_final q_jobs holds_lease fenced_write fenced_final_op
proof
  show "\<exists>r. q_jobs s k = Some r \<and> holds_lease r tok t" if "fenced_write op k tok t s = (Inr a, s')"
    for op k tok t s a s'
    using that
    by (cases op) (auto simp: apfst_sum_eq fenced_write_defs Let_def dest!: jobs_Transition_Inr
      split: option.splits if_splits)
  show "s' = s" if "fenced_write op k tok t s = (Inl e, s')" for op k tok t s e s'
    using that
    by (cases op) (auto simp: apfst_sum_eq fenced_write_defs Let_def dest!: jobs_Transition_Inl
      split: option.splits if_splits)
  show "q_jobs (snd (fenced_write op k tok t s)) k' = q_jobs s k'" if "k' \<noteq> k" for op k tok t s k'
    using that
    by (cases op) (auto simp: fenced_write_defs Let_def jobs_Transition_frame split: option.splits)
  show "\<exists>r. q_jobs s' k = Some r \<and> (\<forall>tok' t'. tok' \<noteq> '''' \<longrightarrow> \<not> holds_lease r tok' t')"
    if "fenced_final_op op" "fenced_write op k tok t s = (Inr a, s')" for op k tok t s a s'
    using that
    by (cases op) (auto simp: apfst_sum_eq jobs_SuspendForApproval_def jobs_Requeue_def drops_lease_def
      holds_lease_def dest!: jobs_Transition_Inr split: if_splits)
qed

section \<open>The queue as an idempotent store\<close>

definition stored_job :: "JobQueue \<Rightarrow> string \<Rightarrow> Job option" where
  "stored_job q key = (case q_byIdempotency q key of None \<Rightarrow> None | Some i \<Rightarrow> q_jobs q i)"

definition spec_key :: "JobSpec \<Rightarrow> string" where
  "spec_key spec = idempotency_index (spec_OrganizationID spec) (spec_IdempotencyKey spec)"

interpretation jobi: idempotent_store jobs_Enqueue stored_job spec_key
  "\<lambda>spec. jobs_ValidateSpec spec = Inr ()" index_ok "\<lambda>q i. q_jobs q i = None"
proof
  fix sp i t and s :: JobQueue
  assume "jobs_ValidateSpec sp \<noteq> Inr ()"
  then show "\<exists>e. jobs_Enqueue sp i t s = (Inl e, s)"
    by (cases "jobs_ValidateSpec sp") (auto simp: jobs_Enqueue_def)
next
  fix s sp r i t
  assume "index_ok s" "jobs_ValidateSpec sp = Inr ()" "stored_job s (spec_key sp) = Some r"
  then show "jobs_Enqueue sp i t s = (Inr (r, False), s)"
    by (auto simp: jobs_Enqueue_def stored_job_def spec_key_def Let_def split: option.splits)
next
  fix s sp i t
  assume *: "index_ok s" "jobs_ValidateSpec sp = Inr ()" "stored_job s (spec_key sp) = None" "q_jobs s i = None"
  have none: "q_byIdempotency s (spec_key sp) = None"
    using *(3) index_okD(2) [OF *(1), of "spec_key sp"] by (auto simp: stored_job_def split: option.splits)
  have other: "q_byIdempotency s k \<noteq> Some i" for k
    using index_okD(2) [OF *(1), of k i] *(4) by auto
  let ?s = "s\<lparr>q_jobs := (q_jobs s)(i \<mapsto> job_of_spec sp i t),
               q_byIdempotency := (q_byIdempotency s)(spec_key sp \<mapsto> i)\<rparr>"
  have eq: "jobs_Enqueue sp i t s = (Inr (job_of_spec sp i t, True), ?s)"
    using *(2) none by (simp add: jobs_Enqueue_def spec_key_def Let_def)
  have "index_ok ?s" using index_ok_enqueue [OF *(1,4), of sp t] eq by simp
  moreover have "stored_job ?s (spec_key sp) = Some (job_of_spec sp i t)"
    by (simp add: stored_job_def)
  moreover have "stored_job ?s k = stored_job s k" if "k \<noteq> spec_key sp" for k
    using that other [of k] by (auto simp: stored_job_def split: option.split)
  ultimately show "\<exists>r s'. jobs_Enqueue sp i t s = (Inr (r, True), s') \<and> index_ok s'
      \<and> stored_job s' (spec_key sp) = Some r \<and> (\<forall>k. k \<noteq> spec_key sp \<longrightarrow> stored_job s' k = stored_job s k)"
    using eq by blast
qed

end
