(* ===== verification/JobProperties.thy ===== *)
theory JobProperties
  imports JobInvariants
begin

text \<open>
  The properties of the job queue, each with a concrete run as its witness: the sample
  queue holds one job of the session \<^verbatim>\<open>s\<close>, claimed by worker \<^verbatim>\<open>w\<close> under the token \<^verbatim>\<open>t\<close>.
\<close>

section \<open>A concrete run\<close>

definition sample_spec :: "string \<Rightarrow> JobSpec" where
  "sample_spec key =
     \<lparr>spec_OrganizationID = ''o'', spec_WorkspaceID = ''w'', spec_ChannelID = ''c'',
      spec_RootThreadTS = ''1'', spec_ReplyInChannel = False, spec_SessionID = ''s'', spec_Generation = 1,
      spec_ObservationID = ''obs'', spec_RequesterID = ''u'', spec_IdempotencyKey = key,
      spec_Kind = ''reply'', spec_Input = ''hi'', spec_Images = [], spec_MaxAttempts = 2,
      spec_AdmissionReservationID = ''r'', spec_ResolvedModel = zero_ResolvedModel,
      spec_RouteTrace = zero_DecisionTrace, spec_ExpiresAt = 100\<rparr>"

definition sample_queued :: JobQueue where
  "sample_queued = snd (jobs_Enqueue (sample_spec ''k'') ''j'' 10 NewJobQueue)"

definition sample_claimed :: JobQueue where
  "sample_claimed = snd (jobs_Claim [''j''] ''w'' ''t'' 20 11 sample_queued)"

definition sample_job :: Job where
  "sample_job = job_of_spec (sample_spec ''k'') ''j'' 10"

lemma sample_queued_eq:
  "sample_queued = \<lparr>q_jobs = [''j'' \<mapsto> sample_job], q_byIdempotency = [''o/k'' \<mapsto> ''j'']\<rparr>"
  by (simp add: sample_queued_def sample_job_def jobs_Enqueue_def sample_spec_def jobs_ValidateSpec_def
      NewJobQueue_def idempotency_index_def Let_def)

lemma sample_job_fields [simp]:
  "job_State sample_job = StateQueued" "job_Attempt sample_job = 0" "job_MaxAttempts sample_job = 2"
  "job_ExpiresAt sample_job = 100" "job_AvailableAt sample_job = 10" "job_ID sample_job = ''j''"
  "job_Lease sample_job = no_lease" "job_Version sample_job = 1"
  by (simp_all add: sample_job_def job_of_spec_def sample_spec_def zero_Job_def IsZero_def zero_time_def)

lemma sample_claim:
  "jobs_Claim [''j''] ''w'' ''t'' 20 11 sample_queued =
     (Inr (lease_to ''w'' ''t'' 20 11 sample_job), sample_claimed)"
  "sample_claimed = put_job sample_queued ''j'' (lease_to ''w'' ''t'' 20 11 sample_job)"
  by (simp_all add: sample_claimed_def sample_queued_eq jobs_Claim_def claim_order_def claim_loop_Cons
      recover_expired_def runnable_def writer_busy_def)

lemma sample_reachable: "job_reachable sample_queued" "job_reachable sample_claimed"
proof -
  show q: "job_reachable sample_queued"
    unfolding sample_queued_def
    by (rule reach_step [OF reach_new step_enqueue]) (simp add: NewJobQueue_def)
  have "enumerates [''j''] (q_jobs sample_queued)"
    by (simp add: enumerates_def sample_queued_eq)
  then show "job_reachable sample_claimed"
    unfolding sample_claimed_def by (intro reach_step [OF q step_claim]) simp_all
qed

lemma sample_leased:
  "q_jobs sample_claimed ''j'' = Some (lease_to ''w'' ''t'' 20 11 sample_job)"
  by (simp add: sample_claim(2))

lemma lease_to_fields [simp]:
  "job_State (lease_to w token d now a) = StateLeased"
  "job_Attempt (lease_to w token d now a) = job_Attempt a + 1"
  "job_Version (lease_to w token d now a) = job_Version a + 1"
  "lease_Token (job_Lease (lease_to w token d now a)) = token"
  "lease_ExpiresAt (job_Lease (lease_to w token d now a)) = now + d"
  "job_ID (lease_to w token d now a) = job_ID a"
  by (simp_all add: lease_to_def)

section \<open>Mutual exclusion and well-formedness\<close>

text \<open>
  C1. One writer per session generation: in every reachable queue, two jobs of the same
  organization, session and generation that are both leased, preparing, running, waiting for
  approval or cancelling are the same job.
\<close>

theorem one_writer_per_generation:
  assumes "job_reachable q" "q_jobs q i = Some a" "q_jobs q j = Some b"
    and "same_generation a b" "is_writer (job_State a)" "is_writer (job_State b)"
  shows "i = j"
  using writers_uniqueD [OF reachable_writers_unique] assms by blast

theorem one_writer_per_generation_witness:
  "{i. q_jobs sample_claimed i = Some (lease_to ''w'' ''t'' 20 11 sample_job)} = {''j''}"
proof -
  have w: "is_writer (job_State (lease_to ''w'' ''t'' 20 11 sample_job))" by (simp add: is_writer_def)
  have "i = ''j''" if "q_jobs sample_claimed i = Some (lease_to ''w'' ''t'' 20 11 sample_job)" for i
    by (rule one_writer_per_generation [OF sample_reachable(2) that sample_leased same_generation_refl w w])
  then show ?thesis using sample_leased by blast
qed

section \<open>Transitions back to queued\<close>

text \<open>
  \<open>job_step\<close> has every transition but the one from leased to queued, which \<open>CanTransition\<close> allows and no
  code of the repository makes.  \<open>job_step_any\<close> has it too: such a job waits in the queue with its lease.
\<close>

inductive job_step_any :: "JobQueue \<Rightarrow> JobQueue \<Rightarrow> bool" where
  any_step: "job_step q q' \<Longrightarrow> job_step_any q q'"
| any_requeued: "mutation_ok f \<Longrightarrow> job_step_any q (snd (jobs_Transition i token StateQueued f t1 t2 q))"

inductive job_reachable_any :: "JobQueue \<Rightarrow> bool" where
  any_new: "job_reachable_any NewJobQueue"
| any_then: "job_reachable_any q \<Longrightarrow> job_step_any q q' \<Longrightarrow> job_reachable_any q'"

definition job_ok_any :: "Job \<Rightarrow> bool" where
  "job_ok_any a \<longleftrightarrow>
     0 \<le> job_Attempt a \<and> job_Attempt a \<le> job_MaxAttempts a \<and> job_State a \<noteq> StateUnset
     \<and> (holding_state (job_State a) \<longrightarrow> lease_Token (job_Lease a) \<noteq> '''')
     \<and> (lease_Token (job_Lease a) \<noteq> '''' \<longrightarrow> (holding_state (job_State a) \<or> job_State a = StateQueued) \<and> 0 < job_Attempt a)
     \<and> (job_State a \<notin> {StateQueued, StateCancelled} \<longrightarrow> 0 < job_Attempt a)"

lemma job_ok_any_of_spec: "jobs_ValidateSpec spec = Inr () \<Longrightarrow> job_ok_any (job_of_spec spec i now)"
  by (simp add: job_ok_any_def job_of_spec_def jobs_ValidateSpec_def zero_Job_def holding_state_def split: if_splits)

lemma CanTransition_lease:
  assumes "CanTransition s to" "holding_state s \<or> s = StateQueued" "to \<noteq> StateQueued"
  shows "to \<noteq> StateUnset \<and> (holding_state to \<longleftrightarrow> \<not> drops_lease to)"
  using assms by (cases s) (auto simp: holding_state_def drops_lease_def)

lemma job_ok_any_write:
  assumes "job_write a b" "job_ok_any a"
  shows "job_ok_any b"
  using assms(1)
proof cases
  case (write_transition token t to f t')
  note f = mutation_ok_fields [OF write_transition(6)]
  have hs: "holding_state (job_State a) \<or> job_State a = StateQueued" "0 < job_Attempt a"
    using write_transition(2) assms(2) by (auto simp: job_ok_any_def)
  have to: "to \<noteq> StateUnset" "holding_state to \<longleftrightarrow> \<not> drops_lease to"
    using CanTransition_lease [OF write_transition(4) hs(1) write_transition(5)] by auto
  show ?thesis
    unfolding write_transition(1) using assms(2) to hs write_transition(2)
    by (cases "drops_lease to") (auto simp: job_ok_any_def f)
qed (use assms(2) in \<open>auto simp: job_ok_any_def holding_state_def\<close>)

lemma job_ok_any_move: "job_move a b \<Longrightarrow> job_ok_any a \<Longrightarrow> job_ok_any b"
proof (induction rule: job_move.induct)
  case (move_write a b)
  then show ?case by (rule job_ok_any_write)
next
  case (move_recover a now)
  then show ?case by (auto simp: job_ok_any_def recover_expired_def holding_state_def)
next
  case (move_lease now a token worker d)
  then show ?case
    by (auto simp: job_ok_any_def recover_expired_def lease_to_def runnable_def holding_state_def split: if_splits)
qed

lemma requeued_ok:
  assumes "mutation_ok f" "\<And>j x. q_jobs q j = Some x \<Longrightarrow> job_ok_any x"
    "q_jobs (snd (jobs_Transition i token StateQueued f t1 t2 q)) k = Some b"
  shows "job_ok_any b"
proof (cases "q_jobs (snd (jobs_Transition i token StateQueued f t1 t2 q)) k = q_jobs q k")
  case True
  then show ?thesis using assms(2,3) by simp
next
  case False
  then obtain a where a: "q_jobs q i = Some a" "lease_Token (job_Lease a) \<noteq> ''''" "k = i"
    "b = (f (a\<lparr>job_State := StateQueued\<rparr>))\<lparr>job_UpdatedAt := t2, job_Version := job_Version (f (a\<lparr>job_State := StateQueued\<rparr>)) + 1\<rparr>"
    using assms(3) by (auto simp: jobs_Transition_def Let_def drops_lease_def split: option.splits if_splits)
  from assms(2) [OF a(1)] a(2) show ?thesis
    by (auto simp: a(4) job_ok_any_def mutation_ok_fields [OF assms(1)] holding_state_def)
qed

lemma reachable_any_ok: "job_reachable_any q \<Longrightarrow> q_jobs q i = Some a \<Longrightarrow> job_ok_any a"
proof (induction arbitrary: i a rule: job_reachable_any.induct)
  case any_new
  then show ?case by (simp add: NewJobQueue_def)
next
  case (any_then q q')
  from any_then.hyps(2) show ?case
  proof cases
    case any_step
    show ?thesis
    proof (cases "q_jobs q i")
      case None
      from job_step_new [OF any_step None any_then.prems] job_ok_any_of_spec show ?thesis by metis
    next
      case (Some a0)
      with job_step_moves [OF any_step] any_then.prems obtain b where "b = a" "job_move a0 b" by fastforce
      then show ?thesis using job_ok_any_move any_then.IH [OF Some] by simp
    qed
  next
    case (any_requeued f i token t1 t2)
    show ?thesis
      by (rule requeued_ok [OF any_requeued(2) _ any_then.prems [unfolded any_requeued(1)]]) (rule any_then.IH)
  qed
qed

text \<open>
  C27. After any sequence of the queue's operations, the transition from leased back to queued
  included, a job that is leased, preparing, running or cancelling holds a lease token, and a job
  that holds one is in one of these states or was put back into the queue by that transition; its
  attempts stay between 0 and the maximum of its specification, a token has cost an attempt, and so
  has leaving the queue by anything but a cancellation.  Without that transition, which no code of
  the repository makes, the token is held in exactly these four states.
\<close>

theorem reachable_jobs_well_formed:
  assumes "job_reachable_any q" "q_jobs q i = Some a"
  shows "(job_State a \<in> {StateLeased, StatePreparing, StateRunning, StateCancelling} \<longrightarrow> lease_Token (job_Lease a) \<noteq> '''')
         \<and> (lease_Token (job_Lease a) \<noteq> '''' \<longrightarrow>
              job_State a \<in> {StateLeased, StatePreparing, StateRunning, StateCancelling, StateQueued} \<and> 0 < job_Attempt a)
         \<and> 0 \<le> job_Attempt a \<and> job_Attempt a \<le> job_MaxAttempts a
         \<and> (job_State a \<notin> {StateQueued, StateCancelled} \<longrightarrow> 0 < job_Attempt a)
         \<and> (job_reachable q \<longrightarrow>
              (lease_Token (job_Lease a) \<noteq> '''' \<longleftrightarrow>
                 job_State a \<in> {StateLeased, StatePreparing, StateRunning, StateCancelling}))"
  using reachable_any_ok [OF assms] reachable_job_ok [OF _ assms(2)]
  by (auto simp: job_ok_def job_ok_any_def holding_state_def)

lemma reachable_reachable_any: "job_reachable q \<Longrightarrow> job_reachable_any q"
  by (induction rule: job_reachable.induct) (auto intro: any_new any_then any_step)

text \<open>The claimed job put back by that transition.\<close>

definition sample_put_back :: JobQueue where
  "sample_put_back = snd (jobs_Transition ''j'' ''t'' StateQueued (\<lambda>job. job\<lparr>job_FailureReason := ''later'', job_AvailableAt := 100\<rparr>) 12 12 sample_claimed)"

lemma sample_put_back_job:
  "\<exists>a. q_jobs sample_put_back ''j'' = Some a \<and> job_State a = StateQueued \<and> lease_Token (job_Lease a) = ''t''"
  using sample_leased
  by (simp add: sample_put_back_def jobs_Transition_def Let_def lease_to_def holds_lease_def drops_lease_def)

lemma sample_put_back_reachable: "job_reachable_any sample_put_back"
  unfolding sample_put_back_def
  by (rule any_then [OF reachable_reachable_any [OF sample_reachable(2)] any_requeued]) simp

theorem reachable_jobs_well_formed_witness:
  "(\<exists>a. q_jobs sample_put_back ''j'' = Some a \<and> job_State a = StateQueued \<and> 0 < job_Attempt a \<and> job_Attempt a \<le> job_MaxAttempts a)
   \<and> lease_Token (job_Lease (lease_to ''w'' ''t'' 20 11 sample_job)) \<noteq> ''''"
proof
  have r: "job_reachable_any sample_claimed" by (rule reachable_reachable_any [OF sample_reachable(2)])
  from sample_put_back_reachable sample_put_back_job reachable_jobs_well_formed
  show "\<exists>a. q_jobs sample_put_back ''j'' = Some a \<and> job_State a = StateQueued \<and> 0 < job_Attempt a \<and> job_Attempt a \<le> job_MaxAttempts a"
    by fastforce
  show "lease_Token (job_Lease (lease_to ''w'' ''t'' 20 11 sample_job)) \<noteq> ''''"
    using reachable_jobs_well_formed [OF r sample_leased] by (simp add: lease_to_def)
qed

text \<open>
  What that transition would do: the job keeps its lease in the queue, another job of its session
  generation is claimed, and the first worker leases its job again.  Two jobs of one generation write.
\<close>

definition next_queued :: JobQueue where
  "next_queued = snd (jobs_Enqueue (sample_spec ''k2'') ''k'' 12 sample_put_back)"

definition two_writers :: JobQueue where
  "two_writers =
     snd (jobs_Transition ''j'' ''t'' StateLeased (\<lambda>job. job) 14 14
       (snd (jobs_Claim [''j'', ''k''] ''v'' ''u'' 20 13 next_queued)))"

lemma next_queued_enumerates: "enumerates [''j'', ''k''] (q_jobs next_queued)"
proof -
  have "dom (q_jobs sample_put_back) \<subseteq> {''j''}"
    using sample_leased by (auto simp: sample_put_back_def jobs_Transition_def Let_def sample_claim(2) sample_queued_eq split: if_splits)
  then have "dom (q_jobs next_queued) \<subseteq> {''j'', ''k''}"
    by (auto simp: next_queued_def jobs_Enqueue_snd split: if_splits)
  moreover have "\<not> Option.is_none (q_jobs next_queued ''j'')" "\<not> Option.is_none (q_jobs next_queued ''k'')" by code_simp+
  ultimately show ?thesis by (auto simp: enumerates_def Option.is_none_def)
qed

lemma requeued_lease_breaks_one_writer:
  "job_reachable_any two_writers"
  "map_option (is_writer \<circ> job_State) (q_jobs two_writers ''j'') = Some True"
  "map_option (is_writer \<circ> job_State) (q_jobs two_writers ''k'') = Some True"
proof -
  have "job_reachable_any next_queued"
    unfolding next_queued_def by (rule any_then [OF sample_put_back_reachable any_step [OF step_enqueue]]) code_simp
  then have "job_reachable_any (snd (jobs_Claim [''j'', ''k''] ''v'' ''u'' 20 13 next_queued))"
    by (rule any_then [OF _ any_step [OF step_claim [OF next_queued_enumerates]]]) simp
  then show "job_reachable_any two_writers"
    unfolding two_writers_def by (rule any_then [OF _ any_step [OF step_transition]]) simp_all
  show "map_option (is_writer \<circ> job_State) (q_jobs two_writers ''j'') = Some True"
    "map_option (is_writer \<circ> job_State) (q_jobs two_writers ''k'') = Some True"
    by code_simp+
qed

text \<open>
  A finished job stays finished: whatever operation runs next, a succeeded, undelivered,
  failed or cancelled job keeps its state (a succeeded one may become completed\_undelivered),
  its attempts, and never gets a lease again.
\<close>

theorem terminal_jobs_stay:
  assumes "job_reachable q" "job_step q q'" "q_jobs q i = Some a" "terminal (job_State a)"
  shows "\<exists>b. q_jobs q' i = Some b \<and> terminal (job_State b)
           \<and> (job_State b = job_State a
              \<or> job_State a = StateSucceeded \<and> job_State b = StateCompletedUndelivered)
           \<and> job_Attempt b = job_Attempt a \<and> lease_Token (job_Lease b) = ''''"
proof -
  obtain b where b: "q_jobs q' i = Some b" "job_move a b"
    using job_step_moves [OF assms(2,3)] by blast
  from terminal_move [OF b(2) reachable_job_ok [OF assms(1,3)] assms(4)] b(1) assms(4)
  show ?thesis by (auto simp: terminal_def)
qed

lemma sample_cancel:
  "jobs_Cancel ''j'' ''why'' 12 sample_queued =
     (Inr (sample_job\<lparr>job_State := StateCancelled, job_Lease := no_lease, job_FailureReason := ''why'',
                      job_UpdatedAt := 12, job_Version := 2\<rparr>),
      put_job sample_queued ''j''
        (sample_job\<lparr>job_State := StateCancelled, job_Lease := no_lease, job_FailureReason := ''why'',
                    job_UpdatedAt := 12, job_Version := 2\<rparr>))"
  by (simp add: jobs_Cancel_def sample_queued_eq Let_def)

theorem terminal_jobs_stay_witness:
  "\<exists>b. q_jobs (snd (jobs_Cancel ''j'' ''again'' 13 (snd (jobs_Cancel ''j'' ''why'' 12 sample_queued)))) ''j'' = Some b
     \<and> job_State b = StateCancelled"
proof -
  let ?q = "snd (jobs_Cancel ''j'' ''why'' 12 sample_queued)"
  have "job_reachable ?q" by (rule reach_step [OF sample_reachable(1) step_cancel])
  from terminal_jobs_stay [OF this step_cancel, of "''j''"] show ?thesis
    by (fastforce simp: sample_cancel terminal_def)
qed

text \<open>
  Every operation keeps every job: none disappears, its identifier, session, generation,
  idempotency key, reservation, attempt limit and expiry never change, and a job that changed
  at all has a larger version.
\<close>

theorem jobs_kept_and_versioned:
  assumes "job_step q q'" "q_jobs q i = Some a"
  shows "\<exists>b. q_jobs q' i = Some b \<and> (b = a \<or> job_Version a < job_Version b)
           \<and> job_ID b = job_ID a \<and> job_OrganizationID b = job_OrganizationID a
           \<and> job_SessionID b = job_SessionID a \<and> job_Generation b = job_Generation a
           \<and> job_IdempotencyKey b = job_IdempotencyKey a \<and> job_MaxAttempts b = job_MaxAttempts a
           \<and> job_AdmissionReservationID b = job_AdmissionReservationID a
           \<and> job_ExpiresAt b = job_ExpiresAt a"
proof -
  obtain b where b: "q_jobs q' i = Some b" "job_move a b" using job_step_moves [OF assms] by blast
  with version_move [OF b(2)] same_identity_move [OF b(2)] show ?thesis
    by (simp add: same_identity_def)
qed

theorem jobs_kept_and_versioned_witness:
  "\<exists>b. q_jobs (snd (jobs_Cancel ''j'' ''why'' 12 sample_queued)) ''j'' = Some b \<and> job_ID b = ''j''"
proof -
  have "q_jobs sample_queued ''j'' = Some sample_job" by (simp add: sample_queued_eq)
  from jobs_kept_and_versioned [OF step_cancel this, of "''j''" "''why''" 12] show ?thesis by auto
qed

section \<open>Claiming\<close>

text \<open>
  What \<open>Claim\<close> returns is leased to the caller under its token until the lease's end, was
  unexpired, available and under its attempt limit, is the only writer of its session
  generation afterwards, and no job before it in claim order could have been claimed.
\<close>

theorem claim_returns_first_claimable:
  assumes "job_reachable q" "enumerates ord (q_jobs q)" "token \<noteq> ''''"
    and "jobs_Claim ord worker token d now q = (Inr b, q')"
  shows "\<exists>pre i post a. claim_order ord (q_jobs q) = pre @ i # post \<and> q_jobs q i = Some a
           \<and> After (job_ExpiresAt a) now \<and> \<not> After (job_AvailableAt a) now
           \<and> job_Attempt a < job_MaxAttempts a \<and> job_Attempt b = job_Attempt a + 1
           \<and> q_jobs q' i = Some b \<and> job_State b = StateLeased \<and> lease_Token (job_Lease b) = token
           \<and> lease_ExpiresAt (job_Lease b) = now + d
           \<and> (\<forall>j \<in> set pre. \<not> claimable now (q_jobs q) j)
           \<and> (\<forall>j c. q_jobs q' j = Some c \<longrightarrow> same_generation c b \<longrightarrow> is_writer (job_State c) \<longrightarrow> j = i)"
proof -
  have run: "claim_loop ord worker token d now (claim_order ord (q_jobs q)) (q_jobs q) = (Inr b, q_jobs q')"
    using assms(4) by (auto simp: jobs_Claim_def split: prod.splits)
  have dom: "set (claim_order ord (q_jobs q)) \<subseteq> dom (q_jobs q)" "dom (q_jobs q) \<subseteq> set ord"
    "distinct (claim_order ord (q_jobs q))"
    using assms(2) by (simp_all add: enumerates_def)
  obtain pre i post a where a: "claim_order ord (q_jobs q) = pre @ i # post" "q_jobs q i = Some a"
    "After (job_ExpiresAt a) now" "runnable now (recover_expired now a)"
    "b = lease_to worker token d now (recover_expired now a)" "q_jobs q' i = Some b"
    "\<forall>j \<in> set pre. \<not> claimable now (q_jobs q) j"
    using claim_loop_Inr [OF run dom] by blast
  have "job_reachable q'"
    using reach_step [OF assms(1) step_claim [OF assms(2,3), of worker d now]] assms(4) by simp
  then have "\<forall>j c. q_jobs q' j = Some c \<longrightarrow> same_generation c b \<longrightarrow> is_writer (job_State c) \<longrightarrow> j = i"
    using writers_uniqueD [OF reachable_writers_unique, of q' _ _ i b] a(5,6) by (simp add: is_writer_def)
  moreover have "job_State b = StateLeased" "lease_Token (job_Lease b) = token"
    "lease_ExpiresAt (job_Lease b) = now + d" "job_Attempt b = job_Attempt a + 1"
    "\<not> After (job_AvailableAt a) now" "job_Attempt a < job_MaxAttempts a"
    using a(4,5) by (simp_all add: runnable_def)
  ultimately show ?thesis using a(1-3,6,7) by blast
qed

theorem claim_returns_first_claimable_witness:
  "jobs_Claim [''j''] ''w'' ''t'' 20 11 sample_queued = (Inr (lease_to ''w'' ''t'' 20 11 sample_job), sample_claimed)
   \<and> (\<exists>i. q_jobs sample_claimed i = Some (lease_to ''w'' ''t'' 20 11 sample_job))"
proof -
  have "enumerates [''j''] (q_jobs sample_queued)" by (simp add: enumerates_def sample_queued_eq)
  from claim_returns_first_claimable [OF sample_reachable(1) this _ sample_claim(1)] sample_claim(1)
  show ?thesis by auto
qed

text \<open>
  C26. \<open>Claim\<close> misses nothing: when it reports that no job is runnable, no stored job was
  claimable, where a job is claimable if it is unexpired, queued (or leased with an expired
  lease), available, under its attempt limit, and its generation has no other writer.
\<close>

theorem claim_misses_nothing:
  assumes "enumerates ord (q_jobs q)" "jobs_Claim ord worker token d now q = (Inl e, q')"
  shows "e = ErrNoRunnableJob \<and> (\<forall>i. \<not> claimable now (q_jobs q) i)"
proof
  have run: "claim_loop ord worker token d now (claim_order ord (q_jobs q)) (q_jobs q) = (Inl e, q_jobs q')"
    using assms(2) by (auto simp: jobs_Claim_def split: prod.splits)
  show "e = ErrNoRunnableJob" using claim_loop_error [OF run] .
  show "\<forall>i. \<not> claimable now (q_jobs q) i"
  proof
    fix i
    show "\<not> claimable now (q_jobs q) i"
    proof (cases "i \<in> set (claim_order ord (q_jobs q))")
      case True
      then show ?thesis using claim_loop_Inl [OF run _ _ _ True] assms(1) by (simp add: enumerates_def)
    next
      case False
      then show ?thesis using assms(1) by (auto simp: enumerates_def claimable_def)
    qed
  qed
qed

theorem claim_misses_nothing_witness:
  "fst (jobs_Claim [''j''] ''w2'' ''t2'' 20 12 sample_claimed) = Inl ErrNoRunnableJob
   \<and> \<not> claimable 12 (q_jobs sample_claimed) ''j''"
proof -
  have en: "enumerates [''j''] (q_jobs sample_claimed)"
    by (simp add: enumerates_def sample_claim(2) sample_queued_eq)
  have run: "fst (jobs_Claim [''j''] ''w2'' ''t2'' 20 12 sample_claimed) = Inl ErrNoRunnableJob"
    by (simp add: sample_claim(2) jobs_Claim_def claim_order_def claim_loop_Cons recover_expired_def
        runnable_def)
  then obtain q' where "jobs_Claim [''j''] ''w2'' ''t2'' 20 12 sample_claimed = (Inl ErrNoRunnableJob, q')"
    by (metis prod.collapse)
  from claim_misses_nothing [OF en this] run show ?thesis by blast
qed

section \<open>Leases fence the workers\<close>

text \<open>
  C6. A worker without the lease changes nothing: if the stored lease is not the worker's
  token, or ran out, at the time of each of its calls, then any sequence of transitions,
  progress updates, suspensions, heartbeats and requeues leaves the whole queue as it was.
\<close>

theorem stale_worker_changes_nothing:
  assumes "q_jobs q i = Some a" "\<forall>c \<in> set calls. \<not> holds_lease a token (snd c)"
  shows "foldl (\<lambda>s c. snd (fenced_write (fst c) i token (snd c) s)) q calls = q"
  using jobq.stale_run_no_effect [OF assms] .

theorem stale_worker_changes_nothing_witness:
  "foldl (\<lambda>s c. snd (fenced_write (fst c) ''j'' ''t'' (snd c) s)) sample_claimed
     [(OpHeartbeat 20, 31), (OpTransition StateRunning id 32, 32), (OpRequeue ''r'' 5 33 33, 33)] = sample_claimed"
  by (rule stale_worker_changes_nothing [OF sample_leased]) (simp add: holds_lease_def)

text \<open>
  A worker finishes a job at most once: after a write that ends its work (a transition to a
  state that drops the lease, a suspension for approval or a requeue) every further write
  under the same token fails and changes nothing.
\<close>

theorem worker_finishes_once:
  assumes "fenced_final_op op" "fenced_write op i token t q = (Inr b, q')" "token \<noteq> ''''"
  shows "\<exists>e. fenced_write op' i token t' q' = (Inl e, q')"
  using jobq.at_most_one_final [OF assms] .

definition sample_waiting :: JobQueue where
  "sample_waiting = snd (fenced_write (OpTransition StateNeedsReconciliation id 12) ''j'' ''t'' 12 sample_claimed)"

theorem worker_finishes_once_witness:
  "\<exists>e. fenced_write (OpTransition StateSucceeded id 14) ''j'' ''t'' 14 sample_waiting = (Inl e, sample_waiting)"
proof -
  have "\<exists>b. fenced_write (OpTransition StateNeedsReconciliation id 12) ''j'' ''t'' 12 sample_claimed
            = (Inr b, sample_waiting)"
    by (simp add: sample_waiting_def jobs_Transition_def sample_leased holds_lease_def Let_def)
  then obtain b where b: "fenced_write (OpTransition StateNeedsReconciliation id 12) ''j'' ''t'' 12 sample_claimed
            = (Inr b, sample_waiting)" by blast
  show ?thesis by (rule worker_finishes_once [OF _ b]) (simp_all add: drops_lease_def)
qed

section \<open>Idempotent enqueueing\<close>

text \<open>
  C25. Enqueueing is idempotent: in a reachable queue, after an enqueue returned a job, any valid
  enqueue with the same organization and idempotency key returns that job with created=false
  and changes nothing; and two stored jobs never share an idempotency key.
\<close>

theorem enqueue_idempotent:
  assumes "job_reachable q" "q_jobs q i = None" "jobs_Enqueue spec i t q = (Inr (job, created), q')"
  shows "(\<forall>spec' i' t'. spec_key spec' = spec_key spec \<longrightarrow> jobs_ValidateSpec spec' = Inr () \<longrightarrow>
            jobs_Enqueue spec' i' t' q' = (Inr (job, False), q'))
         \<and> (\<forall>j k a b. q_jobs q' j = Some a \<longrightarrow> q_jobs q' k = Some b \<longrightarrow> job_key a = job_key b \<longrightarrow> j = k)"
proof
  have ok: "index_ok q" by (rule reachable_index_ok [OF assms(1)])
  show "\<forall>spec' i' t'. spec_key spec' = spec_key spec \<longrightarrow> jobs_ValidateSpec spec' = Inr () \<longrightarrow>
          jobs_Enqueue spec' i' t' q' = (Inr (job, False), q')"
    using jobi.enqueue_again [OF ok assms(2,3)] by blast
  have "index_ok q'" using jobi.enqueue_stores [OF ok assms(2,3)] by blast
  then show "\<forall>j k a b. q_jobs q' j = Some a \<longrightarrow> q_jobs q' k = Some b \<longrightarrow> job_key a = job_key b \<longrightarrow> j = k"
    using index_okD(1) by (metis option.inject)
qed

theorem enqueue_idempotent_witness:
  "jobs_Enqueue (sample_spec ''k'') ''other'' 55 sample_queued = (Inr (sample_job, False), sample_queued)"
proof -
  have "jobs_Enqueue (sample_spec ''k'') ''j'' 10 NewJobQueue = (Inr (sample_job, True), sample_queued)"
    by (simp add: sample_queued_def sample_job_def jobs_Enqueue_def sample_spec_def jobs_ValidateSpec_def
      NewJobQueue_def idempotency_index_def Let_def)
  from enqueue_idempotent [OF reach_new _ this] show ?thesis
    by (simp add: NewJobQueue_def jobs_ValidateSpec_def sample_spec_def)
qed

section \<open>Approval round trip\<close>

text \<open>
  C28. Waiting for an approval costs no attempt: suspending a running job for an approval and
  resuming it under the same approval queues the job again, available at once, with the
  approved action recorded, the attempt of the suspended run given back and the lease gone;
  a resume under another approval id or without an action hash is rejected.
\<close>

theorem approval_round_trip:
  assumes "q_jobs q i = Some a" "0 < job_Attempt a" "job_State a = StateRunning"
    and "jobs_SuspendForApproval i token approval t1 t2 q = (Inr b, q')"
  shows "\<exists>c. jobs_ResumeFromApproval i approval hash t3 t4 q' =
               (if hash = '''' then (Inl ErrInvalidState, q') else (Inr c, put_job q' i c))
           \<and> job_State c = StateQueued \<and> job_Attempt c = job_Attempt a - 1 \<and> job_Lease c = no_lease
           \<and> job_AvailableAt c = t3 \<and> job_ApprovedActionHash c = hash
           \<and> job_SteeringEpoch c = job_SteeringEpoch a + 1
           \<and> (\<forall>other. other \<noteq> approval \<longrightarrow>
                jobs_ResumeFromApproval i other hash t3 t4 q' = (Inl ErrInvalidState, q'))"
proof -
  have q': "q' = put_job q i b" and b: "b = a\<lparr>job_State := StateWaitingApproval, job_ApprovalID := approval,
      job_ApprovedActionHash := '''', job_Lease := no_lease, job_UpdatedAt := t2, job_Version := job_Version a + 1\<rparr>"
    using assms by (auto simp: jobs_SuspendForApproval_def jobs_Transition_def Let_def drops_lease_def
        split: if_splits)
  let ?c = "b\<lparr>job_State := StateQueued, job_ApprovedActionHash := hash, job_Attempt := job_Attempt a - 1,
              job_AvailableAt := t3, job_SteeringEpoch := job_SteeringEpoch a + 1,
              job_UpdatedAt := t4, job_Version := job_Version b + 1\<rparr>"
  show ?thesis
    by (rule exI [of _ ?c]) (use assms(2) in \<open>simp add: q' b jobs_ResumeFromApproval_def Let_def\<close>)
qed

definition sample_running :: JobQueue where
  "sample_running = snd (jobs_Transition ''j'' ''t'' StateRunning id 12 12 sample_claimed)"

lemma sample_running_job:
  "q_jobs sample_running ''j'' = Some ((lease_to ''w'' ''t'' 20 11 sample_job)
     \<lparr>job_State := StateRunning, job_UpdatedAt := 12, job_Version := 3\<rparr>)"
  by (simp add: sample_running_def jobs_Transition_def sample_leased holds_lease_def Let_def drops_lease_def)

theorem approval_round_trip_witness:
  "\<exists>c. fst (jobs_ResumeFromApproval ''j'' ''ap'' ''h'' 20 20
              (snd (jobs_SuspendForApproval ''j'' ''t'' ''ap'' 13 13 sample_running))) = Inr c
     \<and> job_State c = StateQueued \<and> job_Attempt c = 0"
proof -
  have "succeeded (jobs_SuspendForApproval ''j'' ''t'' ''ap'' 13 13 sample_running)"
    by (simp add: jobs_SuspendForApproval_def jobs_Transition_def sample_running_job holds_lease_def Let_def)
  then obtain b q' where q': "jobs_SuspendForApproval ''j'' ''t'' ''ap'' 13 13 sample_running = (Inr b, q')"
    by (metis succeeded.elims(2))
  from approval_round_trip [OF sample_running_job _ _ q', of "''h''" 20 20] show ?thesis
    by (auto simp: q')
qed

section \<open>A cancelled worker's job\<close>

text \<open>
  C40. Once the lease of a cancelling job runs out, no operation touches that job any more and
  no job of its session generation is ever claimed: the fenced writes fail, cancelling again,
  resuming, releasing and marking it fail, reconciliation does not list it, and \<open>Claim\<close> keeps
  it as it is and leases no other job of its generation.
\<close>

theorem cancelling_job_stuck:
  assumes "job_reachable q" "q_jobs q i = Some a" "job_State a = StateCancelling"
    and "lease_ExpiresAt (job_Lease a) \<le> now" "enumerates ord (q_jobs q)" "tok' \<noteq> ''''"
  shows "(\<exists>e. fenced_write op i token now q = (Inl e, q))
         \<and> jobs_Cancel i reason now q = (Inl ErrInvalidState, q)
         \<and> jobs_ResumeFromApproval i approval hash now now q = (Inl ErrInvalidState, q)
         \<and> jobs_ReleaseRetryWait i now now q = (Inl ErrInvalidState, q)
         \<and> jobs_MarkFinalDeliveryEnqueued i now q = (Inl ErrInvalidState, q)
         \<and> jobs_MarkCompletedUndelivered i reason now q = (Inl ErrInvalidState, q)
         \<and> \<not> needs_reconciliation now a
         \<and> (\<forall>r q'. jobs_Claim ord worker tok' d now q = (r, q') \<longrightarrow>
              q_jobs q' i = Some a \<and> (\<forall>b. r = Inr b \<longrightarrow> \<not> same_generation a b))"
proof (intro conjI allI impI)
  show "\<exists>e. fenced_write op i token now q = (Inl e, q)"
    by (rule jobq.stale_write_rejected [OF assms(2)]) (use assms(4) in \<open>simp add: holds_lease_def\<close>)
  fix r q'
  assume claim: "jobs_Claim ord worker tok' d now q = (r, q')"
  have step: "job_step q q'" using step_claim [OF assms(5,6), of worker d now] claim by simp
  have run: "claim_loop ord worker tok' d now (claim_order ord (q_jobs q)) (q_jobs q) = (r, q_jobs q')"
    using claim by (auto simp: jobs_Claim_def split: prod.splits)
  show same: "q_jobs q' i = Some a"
    using claim_loop_cancelling [of "q_jobs q" i a ord worker tok' d now "claim_order ord (q_jobs q)"]
      assms(2,3) run by simp
  fix b' assume r: "r = Inr b'"
  obtain pre k post c where k: "q_jobs q k = Some c" "runnable now (recover_expired now c)"
    "b' = lease_to worker tok' d now (recover_expired now c)" "q_jobs q' k = Some b'"
    using claim_loop_Inr [OF run [unfolded r]] assms(5) by (auto simp: enumerates_def)
  have "k \<noteq> i"
    using k(1,2) assms(2,3) by (auto simp: runnable_def recover_expired_def)
  moreover have "writers_unique (q_jobs q')"
    using reachable_writers_unique [OF reach_step [OF assms(1) step]] .
  ultimately show "\<not> same_generation a b'"
    using writers_uniqueD [of "q_jobs q'" i a k b'] same k(3,4) assms(3) by (auto simp: is_writer_def)
qed (use assms(2,3) in \<open>simp_all add: jobs_Cancel_def jobs_ResumeFromApproval_def jobs_ReleaseRetryWait_def
       jobs_MarkFinalDeliveryEnqueued_def jobs_MarkCompletedUndelivered_def needs_reconciliation_def\<close>)

definition sample_cancelling :: JobQueue where
  "sample_cancelling = snd (jobs_Cancel ''j'' ''why'' 12 sample_claimed)"

theorem cancelling_job_stuck_witness:
  "jobs_Cancel ''j'' ''again'' 40 sample_cancelling = (Inl ErrInvalidState, sample_cancelling)
   \<and> \<not> succeeded (jobs_Transition ''j'' ''t'' StateCancelled id 40 40 sample_cancelling)"
proof -
  have r: "job_reachable sample_cancelling"
    unfolding sample_cancelling_def by (rule reach_step [OF sample_reachable(2) step_cancel])
  obtain a where a: "q_jobs sample_cancelling ''j'' = Some a" "job_State a = StateCancelling"
    "lease_ExpiresAt (job_Lease a) = 31"
    by (simp add: sample_cancelling_def jobs_Cancel_def sample_leased Let_def)
  have en: "enumerates [''j''] (q_jobs sample_cancelling)"
    by (simp add: enumerates_def sample_cancelling_def jobs_Cancel_def sample_leased Let_def
        sample_claim(2) sample_queued_eq)
  have le: "lease_ExpiresAt (job_Lease a) \<le> 40" using a(3) by simp
  note stuck = cancelling_job_stuck [OF r a(1,2) le en, of "''x''" "OpTransition StateCancelled id 40" "''t''"
      "''again''" "''''" "''''" "''''" 0]
  from stuck obtain e where "fenced_write (OpTransition StateCancelled id 40) ''j'' ''t'' 40 sample_cancelling
      = (Inl e, sample_cancelling)" by blast
  then show ?thesis using stuck by (simp add: apfst_sum_eq)
qed

end
