(* ===== verification/Deliveries.thy ===== *)
theory Deliveries
  imports Types Interfaces
begin

text \<open>
  The outbound delivery queue of \<^verbatim>\<open>core/deliveries/queue.go\<close>: records are enqueued once per
  idempotency key, leased to one sender at a time, and finished (delivered or abandoned) at
  most once.  The interfaces \<open>fenced_final\<close> and \<open>idempotent_store\<close> are interpreted on it.
\<close>

section \<open>Records\<close>

datatype DeliveryStatus = StatusPending | StatusLeased | StatusRetryWait | StatusDelivered | StatusAbandoned

datatype delivery_error =
    ErrNoPendingDelivery
  | ErrDeliveryNotFound
  | ErrDeliveryLeaseLost
  | ErrInvalidDeliverySpec
  | ErrDeliveryOrganizationRequired

record DeliveryLease =
  dl_Owner :: string
  dl_Token :: string
  dl_ExpiresAt :: time

definition no_delivery_lease :: DeliveryLease where
  "no_delivery_lease = \<lparr>dl_Owner = '''', dl_Token = '''', dl_ExpiresAt = zero_time\<rparr>"

lemma no_delivery_lease_simps [simp]: "dl_Token no_delivery_lease = ''''"
  by (simp add: no_delivery_lease_def)

record DeliveryRecord =
  dr_ID :: string
  dr_OrganizationID :: string
  dr_JobID :: string
  dr_DecisionID :: string
  dr_IdempotencyKey :: string
  dr_Destination :: SlackDestination
  dr_Result :: SlackResult
  dr_Status :: DeliveryStatus
  dr_Attempt :: int
  dr_MaxAttempts :: int
  dr_RetryAt :: time
  dr_Lease :: DeliveryLease
  dr_SlackMessageTS :: string
  dr_FailureReason :: string
  dr_CreatedAt :: time
  dr_UpdatedAt :: time
  dr_ExpiresAt :: time
  dr_Version :: int

record DeliverySpec =
  ds_OrganizationID :: string
  ds_JobID :: string
  ds_DecisionID :: string
  ds_IdempotencyKey :: string
  ds_Destination :: SlackDestination
  ds_Result :: SlackResult
  ds_MaxAttempts :: int
  ds_ExpiresAt :: time

definition deliveryListLimit :: nat where "deliveryListLimit = 500"

section \<open>The queue\<close>

record DeliveryQueue =
  dq_records :: "string \<rightharpoonup> DeliveryRecord"
  dq_byKey :: "string \<rightharpoonup> string"

definition NewDeliveryQueue :: DeliveryQueue where
  "NewDeliveryQueue = \<lparr>dq_records = Map.empty, dq_byKey = Map.empty\<rparr>"

abbreviation put_record :: "DeliveryQueue \<Rightarrow> string \<Rightarrow> DeliveryRecord \<Rightarrow> DeliveryQueue" where
  "put_record q i r \<equiv> q\<lparr>dq_records := (dq_records q)(i \<mapsto> r)\<rparr>"

definition delivery_key :: "string \<Rightarrow> string \<Rightarrow> string" where
  "delivery_key org key = org @ ''/'' @ key"

definition valid_delivery :: "DeliverySpec \<Rightarrow> bool" where
  "valid_delivery s \<longleftrightarrow>
     \<not> (ds_OrganizationID s = '''' \<or> (ds_JobID s = '''') = (ds_DecisionID s = '''') \<or> ds_IdempotencyKey s = ''''
        \<or> dest_TeamID (ds_Destination s) = '''' \<or> dest_ChannelID (ds_Destination s) = '''' \<or> ds_MaxAttempts s \<le> 0)"

definition record_of_spec :: "DeliverySpec \<Rightarrow> string \<Rightarrow> time \<Rightarrow> DeliveryRecord" where
  "record_of_spec s i now =
     \<lparr>dr_ID = i, dr_OrganizationID = ds_OrganizationID s, dr_JobID = ds_JobID s, dr_DecisionID = ds_DecisionID s,
      dr_IdempotencyKey = ds_IdempotencyKey s, dr_Destination = ds_Destination s, dr_Result = ds_Result s,
      dr_Status = StatusPending, dr_Attempt = 0, dr_MaxAttempts = ds_MaxAttempts s, dr_RetryAt = now,
      dr_Lease = no_delivery_lease, dr_SlackMessageTS = '''', dr_FailureReason = '''', dr_CreatedAt = now,
      dr_UpdatedAt = now,
      dr_ExpiresAt = (if IsZero (ds_ExpiresAt s) then now + 24 * Hour else ds_ExpiresAt s), dr_Version = 1\<rparr>"

text \<open>Reading an absent key of \<^verbatim>\<open>records\<close> gives the zero record.\<close>

definition zero_DeliveryRecord :: DeliveryRecord where
  "zero_DeliveryRecord =
     \<lparr>dr_ID = '''', dr_OrganizationID = '''', dr_JobID = '''', dr_DecisionID = '''', dr_IdempotencyKey = '''',
      dr_Destination = \<lparr>dest_TeamID = '''', dest_ChannelID = '''', dest_ThreadTS = '''', dest_UpdateTS = '''', dest_StreamTS = ''''\<rparr>,
      dr_Result = zero_SlackResult, dr_Status = StatusPending, dr_Attempt = 0, dr_MaxAttempts = 0,
      dr_RetryAt = zero_time, dr_Lease = no_delivery_lease, dr_SlackMessageTS = '''', dr_FailureReason = '''',
      dr_CreatedAt = zero_time, dr_UpdatedAt = zero_time, dr_ExpiresAt = zero_time, dr_Version = 0\<rparr>"

abbreviation delivery_at :: "(string \<rightharpoonup> DeliveryRecord) \<Rightarrow> string \<Rightarrow> DeliveryRecord" where
  "delivery_at m i \<equiv> lookup_zero zero_DeliveryRecord m i"

definition deliveries_Enqueue ::
  "DeliverySpec \<Rightarrow> string \<Rightarrow> time \<Rightarrow> DeliveryQueue \<Rightarrow> (delivery_error, DeliveryRecord \<times> bool, DeliveryQueue) outcome" where
  "deliveries_Enqueue s i now q =
     (if \<not> valid_delivery s then (Inl ErrInvalidDeliverySpec, q)
      else
        let key = delivery_key (ds_OrganizationID s) (ds_IdempotencyKey s)
        in case dq_byKey q key of
             Some j \<Rightarrow> (Inr (delivery_at (dq_records q) j, False), q)
           | None \<Rightarrow>
               let r = record_of_spec s i now
               in (Inr (r, True), q\<lparr>dq_records := (dq_records q)(i \<mapsto> r), dq_byKey := (dq_byKey q)(key \<mapsto> i)\<rparr>))"

definition deliveries_FindByIdempotency :: "string \<Rightarrow> string \<Rightarrow> DeliveryQueue \<Rightarrow> delivery_error + DeliveryRecord" where
  "deliveries_FindByIdempotency org key q =
     (case dq_byKey q (delivery_key org key) of
        None \<Rightarrow> Inl ErrDeliveryNotFound
      | Some i \<Rightarrow> Inr (delivery_at (dq_records q) i))"

definition reclaim :: "time \<Rightarrow> DeliveryRecord \<Rightarrow> DeliveryRecord" where
  "reclaim now r =
     (if dr_Status r = StatusLeased \<and> \<not> After (dl_ExpiresAt (dr_Lease r)) now
      then r\<lparr>dr_Status := StatusPending, dr_Lease := no_delivery_lease, dr_Version := dr_Version r + 1\<rparr> else r)"

definition sendable :: "time \<Rightarrow> DeliveryRecord \<Rightarrow> bool" where
  "sendable now r \<longleftrightarrow> dr_Status r \<in> {StatusPending, StatusRetryWait} \<and> \<not> After (dr_RetryAt r) now"

definition exhaust :: "DeliveryRecord \<Rightarrow> DeliveryRecord" where
  "exhaust r = r\<lparr>dr_Status := StatusAbandoned, dr_FailureReason := ''attempts_exhausted'',
                 dr_Version := dr_Version r + 1\<rparr>"

definition send_lease :: "string \<Rightarrow> string \<Rightarrow> duration \<Rightarrow> time \<Rightarrow> DeliveryRecord \<Rightarrow> DeliveryRecord" where
  "send_lease worker token d now r =
     r\<lparr>dr_Status := StatusLeased, dr_Attempt := dr_Attempt r + 1,
       dr_Lease := \<lparr>dl_Owner = worker, dl_Token = token, dl_ExpiresAt = now + d\<rparr>,
       dr_UpdatedAt := now, dr_Version := dr_Version r + 1\<rparr>"

fun delivery_claim_loop ::
  "string \<Rightarrow> string \<Rightarrow> duration \<Rightarrow> time \<Rightarrow> string list \<Rightarrow> (string \<rightharpoonup> DeliveryRecord)
     \<Rightarrow> (delivery_error, DeliveryRecord, string \<rightharpoonup> DeliveryRecord) outcome" where
  "delivery_claim_loop worker token d now [] m = (Inl ErrNoPendingDelivery, m)"
| "delivery_claim_loop worker token d now (i # ids) m =
     (if \<not> After (dr_ExpiresAt (delivery_at m i)) now then delivery_claim_loop worker token d now ids m
      else
        let r = reclaim now (delivery_at m i); m' = m(i \<mapsto> r)
        in if \<not> sendable now r then delivery_claim_loop worker token d now ids m'
           else if dr_MaxAttempts r \<le> dr_Attempt r
           then delivery_claim_loop worker token d now ids (m'(i \<mapsto> exhaust r))
           else let leased = send_lease worker token d now r in (Inr leased, m'(i \<mapsto> leased)))"

definition delivery_claim_order :: "string list \<Rightarrow> (string \<rightharpoonup> DeliveryRecord) \<Rightarrow> string list" where
  "delivery_claim_order ord m = sort_key (\<lambda>i. dr_CreatedAt (delivery_at m i)) ord"

definition deliveries_Claim ::
  "string list \<Rightarrow> string \<Rightarrow> string \<Rightarrow> duration \<Rightarrow> time \<Rightarrow> DeliveryQueue
     \<Rightarrow> (delivery_error, DeliveryRecord, DeliveryQueue) outcome" where
  "deliveries_Claim ord worker token d now q =
     (case delivery_claim_loop worker token d now (delivery_claim_order ord (dq_records q)) (dq_records q) of
        (r, m) \<Rightarrow> (r, q\<lparr>dq_records := m\<rparr>))"

definition deliveries_leased :: "string \<Rightarrow> string \<Rightarrow> time \<Rightarrow> DeliveryQueue \<Rightarrow> delivery_error + DeliveryRecord" where
  "deliveries_leased i token now q =
     (case dq_records q i of
        None \<Rightarrow> Inl ErrDeliveryNotFound
      | Some r \<Rightarrow>
          if dr_Status r \<noteq> StatusLeased \<or> dl_Token (dr_Lease r) \<noteq> token \<or> \<not> After (dl_ExpiresAt (dr_Lease r)) now
          then Inl ErrDeliveryLeaseLost else Inr r)"

definition deliveries_Complete ::
  "string \<Rightarrow> string \<Rightarrow> SlackDeliveryResult \<Rightarrow> time \<Rightarrow> time \<Rightarrow> DeliveryQueue
     \<Rightarrow> (delivery_error, DeliveryRecord, DeliveryQueue) outcome" where
  "deliveries_Complete i token result t1 t2 q =
     (case deliveries_leased i token t1 q of
        Inl e \<Rightarrow> (Inl e, q)
      | Inr r \<Rightarrow>
          let r' = r\<lparr>dr_Status := StatusDelivered, dr_SlackMessageTS := sdr_MessageTS result,
                     dr_Lease := no_delivery_lease, dr_UpdatedAt := t2, dr_Version := dr_Version r + 1\<rparr>
          in (Inr r', put_record q i r'))"

definition deliveries_Retry ::
  "string \<Rightarrow> string \<Rightarrow> string \<Rightarrow> duration \<Rightarrow> time \<Rightarrow> time \<Rightarrow> time \<Rightarrow> DeliveryQueue
     \<Rightarrow> (delivery_error, DeliveryRecord, DeliveryQueue) outcome" where
  "deliveries_Retry i token reason delay t1 t2 t3 q =
     (case deliveries_leased i token t1 q of
        Inl e \<Rightarrow> (Inl e, q)
      | Inr r \<Rightarrow>
          let r' = r\<lparr>dr_Lease := no_delivery_lease, dr_FailureReason := reason, dr_RetryAt := t2 + delay,
                     dr_Status := (if dr_MaxAttempts r \<le> dr_Attempt r then StatusAbandoned else StatusRetryWait),
                     dr_UpdatedAt := t3, dr_Version := dr_Version r + 1\<rparr>
          in (Inr r', put_record q i r'))"

definition deliveries_Abandon ::
  "string \<Rightarrow> string \<Rightarrow> string \<Rightarrow> time \<Rightarrow> time \<Rightarrow> DeliveryQueue
     \<Rightarrow> (delivery_error, DeliveryRecord, DeliveryQueue) outcome" where
  "deliveries_Abandon i token reason t1 t2 q =
     (case deliveries_leased i token t1 q of
        Inl e \<Rightarrow> (Inl e, q)
      | Inr r \<Rightarrow>
          let r' = r\<lparr>dr_Status := StatusAbandoned, dr_Lease := no_delivery_lease, dr_FailureReason := reason,
                     dr_UpdatedAt := t2, dr_Version := dr_Version r + 1\<rparr>
          in (Inr r', put_record q i r'))"

definition deliveries_Get :: "string \<Rightarrow> DeliveryQueue \<Rightarrow> delivery_error + DeliveryRecord" where
  "deliveries_Get i q = (case dq_records q i of None \<Rightarrow> Inl ErrDeliveryNotFound | Some r \<Rightarrow> Inr r)"

definition deliveries_List :: "string list \<Rightarrow> DeliveryQueue \<Rightarrow> DeliveryRecord list" where
  "deliveries_List ord q = sort_key dr_CreatedAt (vals ord (dq_records q))"

definition deliveries_Count :: "string list \<Rightarrow> DeliveryQueue \<Rightarrow> nat" where
  "deliveries_Count ord q = length (vals ord (dq_records q))"

definition deliveries_ListOrganization :: "string list \<Rightarrow> string \<Rightarrow> DeliveryQueue \<Rightarrow> delivery_error + DeliveryRecord list" where
  "deliveries_ListOrganization ord org q =
     (if org = '''' then Inl ErrDeliveryOrganizationRequired
      else Inr (take deliveryListLimit
                 (sort_key (\<lambda>r. - dr_CreatedAt r) (filter (\<lambda>r. dr_OrganizationID r = org) (vals ord (dq_records q))))))"

end
