(* ===== verification/DeliveryInvariants.thy ===== *)
theory DeliveryInvariants
  imports Deliveries
begin

text \<open>
  What the delivery queue promises: well-formed records, final states that stay final, the
  idempotency index, and the interpretations of \<open>fenced_final\<close> and \<open>idempotent_store\<close>.
\<close>

section \<open>Runs\<close>

text \<open>\<open>record_move r r'\<close>: what one operation does to one stored record.\<close>

inductive record_move :: "DeliveryRecord \<Rightarrow> DeliveryRecord \<Rightarrow> bool" where
  rec_stay: "record_move r r"
| rec_reclaim: "record_move r (reclaim now r)"
| rec_exhaust: "sendable now (reclaim now r) \<Longrightarrow> dr_MaxAttempts r \<le> dr_Attempt r \<Longrightarrow> record_move r (exhaust (reclaim now r))"
| rec_lease:
    "sendable now (reclaim now r) \<Longrightarrow> dr_Attempt r < dr_MaxAttempts r \<Longrightarrow> After (dr_ExpiresAt r) now \<Longrightarrow> token \<noteq> '''' \<Longrightarrow>
     record_move r (send_lease worker token d now (reclaim now r))"
| rec_finish:
    "dr_Status r = StatusLeased \<Longrightarrow> st \<in> {StatusDelivered, StatusAbandoned, StatusRetryWait} \<Longrightarrow>
     dr_Status r' = st \<Longrightarrow> dr_Lease r' = no_delivery_lease \<Longrightarrow> dr_ID r' = dr_ID r \<Longrightarrow>
     dr_OrganizationID r' = dr_OrganizationID r \<Longrightarrow> dr_IdempotencyKey r' = dr_IdempotencyKey r \<Longrightarrow>
     dr_Attempt r' = dr_Attempt r \<Longrightarrow> dr_MaxAttempts r' = dr_MaxAttempts r \<Longrightarrow>
     dr_Result r' = dr_Result r \<Longrightarrow> dr_Destination r' = dr_Destination r \<Longrightarrow>
     dr_Version r' = dr_Version r + 1 \<Longrightarrow> record_move r r'"

inductive delivery_step :: "DeliveryQueue \<Rightarrow> DeliveryQueue \<Rightarrow> bool" where
  dstep_enqueue: "dq_records q i = None \<Longrightarrow> delivery_step q (snd (deliveries_Enqueue s i now q))"
| dstep_claim:
    "enumerates ord (dq_records q) \<Longrightarrow> token \<noteq> '''' \<Longrightarrow> delivery_step q (snd (deliveries_Claim ord worker token d now q))"
| dstep_complete: "delivery_step q (snd (deliveries_Complete i token result t1 t2 q))"
| dstep_retry: "delivery_step q (snd (deliveries_Retry i token reason delay t1 t2 t3 q))"
| dstep_abandon: "delivery_step q (snd (deliveries_Abandon i token reason t1 t2 q))"

inductive delivery_reachable :: "DeliveryQueue \<Rightarrow> bool" where
  dreach_new: "delivery_reachable NewDeliveryQueue"
| dreach_step: "delivery_reachable q \<Longrightarrow> delivery_step q q' \<Longrightarrow> delivery_reachable q'"

section \<open>The claim loop\<close>

lemma delivery_claim_loop_Some:
  assumes "m i = Some r0"
  shows "delivery_claim_loop worker token d now (i # ids) m =
     (if \<not> After (dr_ExpiresAt r0) now then delivery_claim_loop worker token d now ids m
      else if \<not> sendable now (reclaim now r0)
      then delivery_claim_loop worker token d now ids (m(i \<mapsto> reclaim now r0))
      else if dr_MaxAttempts (reclaim now r0) \<le> dr_Attempt (reclaim now r0)
      then delivery_claim_loop worker token d now ids (m(i \<mapsto> exhaust (reclaim now r0)))
      else (Inr (send_lease worker token d now (reclaim now r0)),
            m(i \<mapsto> send_lease worker token d now (reclaim now r0))))"
  by (simp only: delivery_claim_loop.simps Let_def lookup_zero_simps(1) [where m = m and k = i, OF assms] fun_upd_upd)

declare delivery_claim_loop.simps(2) [simp del]

lemma reclaim_simps [simp]:
  "dr_ID (reclaim now r) = dr_ID r" "dr_OrganizationID (reclaim now r) = dr_OrganizationID r"
  "dr_IdempotencyKey (reclaim now r) = dr_IdempotencyKey r" "dr_Attempt (reclaim now r) = dr_Attempt r"
  "dr_MaxAttempts (reclaim now r) = dr_MaxAttempts r" "dr_ExpiresAt (reclaim now r) = dr_ExpiresAt r"
  "dr_RetryAt (reclaim now r) = dr_RetryAt r" "dr_Result (reclaim now r) = dr_Result r"
  "dr_Destination (reclaim now r) = dr_Destination r" "dr_CreatedAt (reclaim now r) = dr_CreatedAt r"
  by (simp_all add: reclaim_def)

lemma delivery_claim_loop_moves:
  assumes "distinct ids" "set ids \<subseteq> dom m" "token \<noteq> ''''" "m i = Some r"
  shows "\<exists>r'. snd (delivery_claim_loop worker token d now ids m) i = Some r' \<and> record_move r r'
           \<and> (i \<notin> set ids \<longrightarrow> r' = r)"
  using assms
proof (induction ids arbitrary: m r)
  case Nil
  then show ?case by (simp add: rec_stay)
next
  case (Cons k ids)
  obtain rk where k: "m k = Some rk" using Cons.prems(2) by auto
  note loop = delivery_claim_loop_Some [where m = m and i = k, OF k]
  have IH: "\<exists>r'. snd (delivery_claim_loop worker token d now ids (m(k \<mapsto> x))) i = Some r'
      \<and> record_move (if i = k then x else r) r' \<and> (i \<notin> set ids \<longrightarrow> r' = (if i = k then x else r))" for x
    by (rule Cons.IH) (use Cons.prems in auto)
  have IH0: "\<exists>r'. snd (delivery_claim_loop worker token d now ids m) i = Some r' \<and> record_move r r' \<and> (i \<notin> set ids \<longrightarrow> r' = r)"
    by (rule Cons.IH) (use Cons.prems in auto)
  show ?case
  proof (cases "i = k")
    case True
    then have "i \<notin> set ids" "rk = r" using Cons.prems k by auto
    then show ?thesis
      using IH IH0 True Cons.prems(3) by (auto simp: loop not_le intro: rec_stay rec_reclaim rec_exhaust rec_lease)
  next
    case False
    then show ?thesis using IH IH0 Cons.prems by (auto simp: loop intro: rec_stay)
  qed
qed

lemma delivery_claim_loop_dom:
  "set ids \<subseteq> dom m \<Longrightarrow> dom (snd (delivery_claim_loop worker token d now ids m)) = dom m"
proof (induction ids arbitrary: m)
  case (Cons k ids)
  obtain rk where k: "m k = Some rk" using Cons.prems by auto
  have same: "dom (m(k \<mapsto> x)) = dom m" for x using k by auto
  have "dom (snd (delivery_claim_loop worker token d now ids (m(k \<mapsto> x)))) = dom m" for x
    by (subst same [symmetric, of x], rule Cons.IH) (unfold same, use Cons.prems in simp)
  moreover have "dom (snd (delivery_claim_loop worker token d now ids m)) = dom m"
    using Cons.IH Cons.prems by simp
  ultimately show ?case
    by (simp add: delivery_claim_loop_Some [where m = m and i = k, OF k] same del: fun_upd_apply dom_fun_upd)
qed simp

lemma set_delivery_claim_order [simp]: "set (delivery_claim_order ord m) = set ord"
  and distinct_delivery_claim_order [simp]: "distinct (delivery_claim_order ord m) = distinct ord"
  by (simp_all add: delivery_claim_order_def)

lemma deliveries_Claim_snd [simp]:
  "dq_records (snd (deliveries_Claim ord worker token d now q)) =
     snd (delivery_claim_loop worker token d now (delivery_claim_order ord (dq_records q)) (dq_records q))"
  "dq_byKey (snd (deliveries_Claim ord worker token d now q)) = dq_byKey q"
  by (simp_all add: deliveries_Claim_def split: prod.split)

lemma deliveries_leased_Inr:
  "deliveries_leased i token now q = Inr r \<Longrightarrow>
     dq_records q i = Some r \<and> dr_Status r = StatusLeased \<and> dl_Token (dr_Lease r) = token
     \<and> After (dl_ExpiresAt (dr_Lease r)) now"
  by (auto simp: deliveries_leased_def split: option.splits if_splits)

lemma deliveries_Enqueue_snd:
  "snd (deliveries_Enqueue s i now q) =
     (if valid_delivery s \<and> dq_byKey q (delivery_key (ds_OrganizationID s) (ds_IdempotencyKey s)) = None
      then q\<lparr>dq_records := (dq_records q)(i \<mapsto> record_of_spec s i now),
             dq_byKey := (dq_byKey q)(delivery_key (ds_OrganizationID s) (ds_IdempotencyKey s) \<mapsto> i)\<rparr>
      else q)"
  by (auto simp: deliveries_Enqueue_def Let_def split: option.split)

lemma delivery_step_moves:
  assumes "delivery_step q q'" "dq_records q i = Some r"
  shows "\<exists>r'. dq_records q' i = Some r' \<and> record_move r r'"
  using assms
proof (induction rule: delivery_step.induct)
  case (dstep_enqueue q k s now)
  then show ?case by (auto simp: deliveries_Enqueue_snd intro: rec_stay)
next
  case (dstep_claim ord q token worker d now)
  then show ?case
    using delivery_claim_loop_moves [of "delivery_claim_order ord (dq_records q)" "dq_records q" token i r worker d now]
    by (simp add: enumerates_def) blast
next
  case (dstep_complete q k token result t1 t2)
  then show ?case
    by (auto simp: deliveries_Complete_def Let_def dest!: deliveries_leased_Inr split: sum.split
        intro: rec_stay rec_finish)
next
  case (dstep_retry q k token reason delay t1 t2 t3)
  then show ?case
    by (auto simp: deliveries_Retry_def Let_def dest!: deliveries_leased_Inr split: sum.split
        intro: rec_stay rec_finish)
next
  case (dstep_abandon q k token reason t1 t2)
  then show ?case
    by (auto simp: deliveries_Abandon_def Let_def dest!: deliveries_leased_Inr split: sum.split
        intro: rec_stay rec_finish)
qed

lemma delivery_step_new:
  assumes "delivery_step q q'" "dq_records q i = None" "dq_records q' i = Some r"
  shows "\<exists>s now. valid_delivery s \<and> r = record_of_spec s i now"
  using assms
proof (induction rule: delivery_step.induct)
  case (dstep_enqueue q k s now)
  then show ?case by (auto simp: deliveries_Enqueue_snd split: if_splits)
next
  case (dstep_claim ord q token worker d now)
  then have "i \<in> dom (dq_records q)"
    using delivery_claim_loop_dom [of "delivery_claim_order ord (dq_records q)" "dq_records q" worker token d now]
    by (auto simp: enumerates_def)
  then show ?case using dstep_claim by auto
qed (auto simp: deliveries_Complete_def deliveries_Retry_def deliveries_Abandon_def Let_def
      dest!: deliveries_leased_Inr split: sum.splits if_splits)

section \<open>Well-formed records\<close>

definition record_ok :: "DeliveryRecord \<Rightarrow> bool" where
  "record_ok r \<longleftrightarrow>
     0 \<le> dr_Attempt r \<and> dr_Attempt r \<le> dr_MaxAttempts r \<and> 0 < dr_MaxAttempts r
     \<and> (dl_Token (dr_Lease r) \<noteq> '''' \<longleftrightarrow> dr_Status r = StatusLeased)
     \<and> (dr_Status r \<in> {StatusLeased, StatusRetryWait, StatusDelivered} \<longrightarrow> 0 < dr_Attempt r)"

lemma record_ok_of_spec: "valid_delivery s \<Longrightarrow> record_ok (record_of_spec s i now)"
  by (auto simp: record_ok_def record_of_spec_def valid_delivery_def)

lemma record_ok_reclaim: "record_ok r \<Longrightarrow> record_ok (reclaim now r)"
  by (auto simp: record_ok_def reclaim_def)

lemma record_ok_move: "record_move r r' \<Longrightarrow> record_ok r \<Longrightarrow> record_ok r'"
proof (induction rule: record_move.induct)
  case (rec_exhaust now r)
  from record_ok_reclaim [OF rec_exhaust.prems, of now] rec_exhaust.hyps show ?case
    by (auto simp: record_ok_def exhaust_def sendable_def)
next
  case (rec_lease now r token worker d)
  from record_ok_reclaim [OF rec_lease.prems, of now] rec_lease.hyps show ?case
    by (auto simp: record_ok_def send_lease_def)
next
  case (rec_finish r st r')
  then show ?case by (auto simp: record_ok_def)
qed (simp_all add: record_ok_reclaim)

lemma delivery_reachable_ok: "delivery_reachable q \<Longrightarrow> dq_records q i = Some r \<Longrightarrow> record_ok r"
proof (induction arbitrary: i r rule: delivery_reachable.induct)
  case dreach_new
  then show ?case by (simp add: NewDeliveryQueue_def)
next
  case (dreach_step q q')
  show ?case
  proof (cases "dq_records q i")
    case None
    then show ?thesis using delivery_step_new [OF dreach_step.hyps(2)] dreach_step.prems record_ok_of_spec by blast
  next
    case (Some r0)
    then obtain r' where "dq_records q' i = Some r'" "record_move r0 r'"
      using delivery_step_moves [OF dreach_step.hyps(2)] by blast
    then show ?thesis using record_ok_move dreach_step Some by simp
  qed
qed

definition finished :: "DeliveryRecord \<Rightarrow> bool" where
  "finished r \<longleftrightarrow> dr_Status r \<in> {StatusDelivered, StatusAbandoned}"

lemma finished_move: "record_move r r' \<Longrightarrow> finished r \<Longrightarrow> r' = r"
  by (induction rule: record_move.induct) (auto simp: finished_def reclaim_def sendable_def)

lemma finished_steps:
  "delivery_step\<^sup>*\<^sup>* q q' \<Longrightarrow> dq_records q i = Some r \<Longrightarrow> finished r \<Longrightarrow> dq_records q' i = Some r"
proof (induction rule: rtranclp_induct)
  case (step q1 q2)
  then show ?case using delivery_step_moves [OF step.hyps(2), of i r] finished_move by blast
qed simp

section \<open>The idempotency index\<close>

definition record_key :: "DeliveryRecord \<Rightarrow> string" where
  "record_key r = delivery_key (dr_OrganizationID r) (dr_IdempotencyKey r)"

definition delivery_index_ok :: "DeliveryQueue \<Rightarrow> bool" where
  "delivery_index_ok q \<longleftrightarrow>
     (\<forall>i r. dq_records q i = Some r \<longrightarrow> dr_ID r = i \<and> dq_byKey q (record_key r) = Some i)
     \<and> (\<forall>k i. dq_byKey q k = Some i \<longrightarrow> (\<exists>r. dq_records q i = Some r \<and> record_key r = k))"

lemma delivery_index_okD:
  assumes "delivery_index_ok q"
  shows "dq_records q i = Some r \<Longrightarrow> dr_ID r = i \<and> dq_byKey q (record_key r) = Some i"
    "dq_byKey q k = Some i \<Longrightarrow> \<exists>r. dq_records q i = Some r \<and> record_key r = k"
  using assms unfolding delivery_index_ok_def by blast+

lemma delivery_index_unique:
  assumes "delivery_index_ok q" "dq_records q i = Some x" "dq_records q j = Some y"
    "dr_OrganizationID x = dr_OrganizationID y" "dr_IdempotencyKey x = dr_IdempotencyKey y"
  shows "i = j"
proof -
  from assms(4,5) have "record_key x = record_key y" by (simp add: record_key_def)
  with delivery_index_okD(1) [OF assms(1,2)] delivery_index_okD(1) [OF assms(1,3)] show ?thesis by simp
qed

lemma record_key_move: "record_move r r' \<Longrightarrow> record_key r' = record_key r \<and> dr_ID r' = dr_ID r"
  by (induction rule: record_move.induct) (simp_all add: record_key_def exhaust_def send_lease_def)

lemma record_of_spec_key [simp]:
  "record_key (record_of_spec s i now) = delivery_key (ds_OrganizationID s) (ds_IdempotencyKey s)"
  "dr_ID (record_of_spec s i now) = i"
  by (simp_all add: record_key_def record_of_spec_def)

lemma delivery_index_ok_enqueue:
  assumes "delivery_index_ok q" "dq_records q i = None"
  shows "delivery_index_ok (snd (deliveries_Enqueue s i now q))"
proof (cases "valid_delivery s \<and> dq_byKey q (delivery_key (ds_OrganizationID s) (ds_IdempotencyKey s)) = None")
  case True
  have fresh: "dq_byKey q k \<noteq> Some i" for k
    using delivery_index_okD(2) [OF assms(1), of k i] assms(2) by auto
  have other: "record_key r \<noteq> delivery_key (ds_OrganizationID s) (ds_IdempotencyKey s)"
    if "dq_records q j = Some r" for j r
    using delivery_index_okD(1) [OF assms(1) that] True by auto
  show ?thesis
    using True delivery_index_okD [OF assms(1)] fresh other
    by (simp add: deliveries_Enqueue_snd delivery_index_ok_def)
next
  case False
  then show ?thesis using assms(1) by (simp add: deliveries_Enqueue_snd del: de_Morgan_conj)
qed

lemma delivery_index_ok_frame:
  assumes "delivery_index_ok q" "dq_byKey q' = dq_byKey q" "dom (dq_records q') = dom (dq_records q)"
    and "\<And>i r. dq_records q i = Some r \<Longrightarrow> \<exists>r'. dq_records q' i = Some r' \<and> record_move r r'"
  shows "delivery_index_ok q'"
proof -
  have prior: "\<exists>r. dq_records q i = Some r \<and> record_move r r'" if "dq_records q' i = Some r'" for i r'
    using assms(3,4) that by (metis domD domI option.inject)
  show ?thesis
    unfolding delivery_index_ok_def assms(2)
  proof (intro conjI allI impI)
    fix i r' assume "dq_records q' i = Some r'"
    with prior obtain r where "dq_records q i = Some r" "record_move r r'" by blast
    then show "dr_ID r' = i" "dq_byKey q (record_key r') = Some i"
      using record_key_move delivery_index_okD(1) [OF assms(1)] by simp_all
  next
    fix k i assume "dq_byKey q k = Some i"
    with delivery_index_okD(2) [OF assms(1)] obtain r where "dq_records q i = Some r" "record_key r = k" by blast
    with assms(4) record_key_move show "\<exists>r'. dq_records q' i = Some r' \<and> record_key r' = k" by blast
  qed
qed

lemma delivery_reachable_index: "delivery_reachable q \<Longrightarrow> delivery_index_ok q"
proof (induction rule: delivery_reachable.induct)
  case dreach_new
  show ?case by (simp add: delivery_index_ok_def NewDeliveryQueue_def)
next
  case (dreach_step q q')
  show ?case
  proof (cases "\<exists>s i now. q' = snd (deliveries_Enqueue s i now q) \<and> dq_records q i = None")
    case True
    then show ?thesis using delivery_index_ok_enqueue [OF dreach_step.IH] by blast
  next
    case False
    from dreach_step.hyps(2) have "dom (dq_records q') = dom (dq_records q) \<and> dq_byKey q' = dq_byKey q"
    proof cases
      case (dstep_enqueue i s now)
      with False show ?thesis by blast
    next
      case (dstep_claim ord token worker d now)
      then show ?thesis
        using delivery_claim_loop_dom [of "delivery_claim_order ord (dq_records q)" "dq_records q" worker token d now]
        by (simp add: enumerates_def)
    qed (auto simp: deliveries_Complete_def deliveries_Retry_def deliveries_Abandon_def Let_def
      dest!: deliveries_leased_Inr split: sum.splits)
    then show ?thesis
      using delivery_index_ok_frame [OF dreach_step.IH] delivery_step_moves [OF dreach_step.hyps(2)] by blast
  qed
qed

section \<open>The queue as a fenced and an idempotent store\<close>

datatype delivery_write =
    WriteComplete SlackDeliveryResult time
  | WriteRetry string duration time time
  | WriteAbandon string time

fun delivery_fenced_write ::
  "delivery_write \<Rightarrow> string \<Rightarrow> string \<Rightarrow> time \<Rightarrow> DeliveryQueue \<Rightarrow> (delivery_error, DeliveryRecord, DeliveryQueue) outcome" where
  "delivery_fenced_write (WriteComplete result t2) i token t q = deliveries_Complete i token result t t2 q"
| "delivery_fenced_write (WriteRetry reason delay t2 t3) i token t q = deliveries_Retry i token reason delay t t2 t3 q"
| "delivery_fenced_write (WriteAbandon reason t2) i token t q = deliveries_Abandon i token reason t t2 q"

definition holds_delivery :: "DeliveryRecord \<Rightarrow> string \<Rightarrow> time \<Rightarrow> bool" where
  "holds_delivery r token now \<longleftrightarrow>
     dr_Status r = StatusLeased \<and> dl_Token (dr_Lease r) = token \<and> After (dl_ExpiresAt (dr_Lease r)) now"

lemmas delivery_write_defs = deliveries_Complete_def deliveries_Retry_def deliveries_Abandon_def

interpretation dlvq: fenced_final dq_records holds_delivery delivery_fenced_write "\<lambda>_. True"
proof
  show "\<exists>r. dq_records s k = Some r \<and> holds_delivery r tok t"
    if "delivery_fenced_write op k tok t s = (Inr a, s')" for op k tok t s a s'
    using that by (cases op) (auto simp: delivery_write_defs Let_def holds_delivery_def
      dest!: deliveries_leased_Inr split: sum.splits)
  show "s' = s" if "delivery_fenced_write op k tok t s = (Inl e, s')" for op k tok t s e s'
    using that by (cases op) (auto simp: delivery_write_defs Let_def split: sum.splits)
  show "dq_records (snd (delivery_fenced_write op k tok t s)) k' = dq_records s k'" if "k' \<noteq> k"
    for op k tok t s k'
    using that by (cases op) (auto simp: delivery_write_defs Let_def split: sum.split)
  show "\<exists>r. dq_records s' k = Some r \<and> (\<forall>tok' t'. tok' \<noteq> '''' \<longrightarrow> \<not> holds_delivery r tok' t')"
    if "True" "delivery_fenced_write op k tok t s = (Inr a, s')" for op k tok t s a s'
    using that by (cases op) (auto simp: delivery_write_defs Let_def holds_delivery_def split: sum.splits)
qed

definition stored_delivery :: "DeliveryQueue \<Rightarrow> string \<Rightarrow> DeliveryRecord option" where
  "stored_delivery q key = (case dq_byKey q key of None \<Rightarrow> None | Some i \<Rightarrow> dq_records q i)"

definition delivery_spec_key :: "DeliverySpec \<Rightarrow> string" where
  "delivery_spec_key s = delivery_key (ds_OrganizationID s) (ds_IdempotencyKey s)"

interpretation dlvi: idempotent_store deliveries_Enqueue stored_delivery delivery_spec_key valid_delivery
  delivery_index_ok "\<lambda>q i. dq_records q i = None"
proof
  fix sp i t and s :: DeliveryQueue
  assume "\<not> valid_delivery sp"
  then show "\<exists>e. deliveries_Enqueue sp i t s = (Inl e, s)" by (simp add: deliveries_Enqueue_def)
next
  fix s sp r i t
  assume "delivery_index_ok s" "valid_delivery sp" "stored_delivery s (delivery_spec_key sp) = Some r"
  then show "deliveries_Enqueue sp i t s = (Inr (r, False), s)"
    by (auto simp: deliveries_Enqueue_def stored_delivery_def delivery_spec_key_def Let_def split: option.splits)
next
  fix s sp i t
  assume *: "delivery_index_ok s" "valid_delivery sp" "stored_delivery s (delivery_spec_key sp) = None"
    "dq_records s i = None"
  have none: "dq_byKey s (delivery_spec_key sp) = None"
    using *(3) delivery_index_okD(2) [OF *(1), of "delivery_spec_key sp"]
    by (auto simp: stored_delivery_def split: option.splits)
  have other: "dq_byKey s k \<noteq> Some i" for k
    using delivery_index_okD(2) [OF *(1), of k i] *(4) by auto
  let ?s = "s\<lparr>dq_records := (dq_records s)(i \<mapsto> record_of_spec sp i t),
               dq_byKey := (dq_byKey s)(delivery_spec_key sp \<mapsto> i)\<rparr>"
  have eq: "deliveries_Enqueue sp i t s = (Inr (record_of_spec sp i t, True), ?s)"
    using *(2) none by (simp add: deliveries_Enqueue_def delivery_spec_key_def Let_def)
  have "delivery_index_ok ?s" using delivery_index_ok_enqueue [OF *(1,4), of sp t] eq by simp
  moreover have "stored_delivery ?s (delivery_spec_key sp) = Some (record_of_spec sp i t)"
    by (simp add: stored_delivery_def)
  moreover have "stored_delivery ?s k = stored_delivery s k" if "k \<noteq> delivery_spec_key sp" for k
    using that other [of k] by (auto simp: stored_delivery_def split: option.split)
  ultimately show "\<exists>r s'. deliveries_Enqueue sp i t s = (Inr (r, True), s') \<and> delivery_index_ok s'
      \<and> stored_delivery s' (delivery_spec_key sp) = Some r
      \<and> (\<forall>k. k \<noteq> delivery_spec_key sp \<longrightarrow> stored_delivery s' k = stored_delivery s k)"
    using eq by blast
qed

section \<open>Properties\<close>

definition sample_delivery :: DeliverySpec where
  "sample_delivery =
     \<lparr>ds_OrganizationID = ''o'', ds_JobID = ''j'', ds_DecisionID = '''', ds_IdempotencyKey = ''k'',
      ds_Destination = \<lparr>dest_TeamID = ''T'', dest_ChannelID = ''C'', dest_ThreadTS = '''', dest_UpdateTS = '''', dest_StreamTS = ''''\<rparr>,
      ds_Result = zero_SlackResult, ds_MaxAttempts = 2, ds_ExpiresAt = 100\<rparr>"

definition sample_deliveries :: DeliveryQueue where
  "sample_deliveries = snd (deliveries_Enqueue sample_delivery ''d'' 10 NewDeliveryQueue)"

definition sample_sending :: DeliveryQueue where
  "sample_sending = snd (deliveries_Claim [''d''] ''w'' ''t'' 20 11 sample_deliveries)"

lemma sample_deliveries_eq:
  "sample_deliveries = \<lparr>dq_records = [''d'' \<mapsto> record_of_spec sample_delivery ''d'' 10], dq_byKey = [''o/k'' \<mapsto> ''d'']\<rparr>"
  by (simp add: sample_deliveries_def deliveries_Enqueue_def sample_delivery_def valid_delivery_def
      NewDeliveryQueue_def delivery_key_def Let_def)

lemma sample_sending_record:
  "dq_records sample_sending ''d'' = Some (send_lease ''w'' ''t'' 20 11 (record_of_spec sample_delivery ''d'' 10))"
  by (simp add: sample_sending_def sample_deliveries_eq delivery_claim_order_def delivery_claim_loop_Some
      reclaim_def sendable_def record_of_spec_def sample_delivery_def IsZero_def zero_time_def)

lemma sample_delivery_reachable: "delivery_reachable sample_deliveries" "delivery_reachable sample_sending"
proof -
  show q: "delivery_reachable sample_deliveries"
    unfolding sample_deliveries_def
    by (rule dreach_step [OF dreach_new dstep_enqueue]) (simp add: NewDeliveryQueue_def)
  have "enumerates [''d''] (dq_records sample_deliveries)" by (simp add: enumerates_def sample_deliveries_eq)
  then show "delivery_reachable sample_sending"
    unfolding sample_sending_def by (intro dreach_step [OF q dstep_claim]) simp_all
qed

lemma delivery_claim_loop_frame:
  "i \<notin> set ids \<Longrightarrow> snd (delivery_claim_loop worker token d now ids m) i = m i"
  by (induction ids arbitrary: m) (simp_all add: delivery_claim_loop.simps(2) Let_def)

lemma delivery_claim_loop_finishes:
  assumes "distinct ids" "set ids \<subseteq> dom m" "m i = Some r" "\<not> finished r"
    "snd (delivery_claim_loop worker token d now ids m) i = Some r'" "finished r'"
  shows "sendable now (reclaim now r) \<and> dr_MaxAttempts r \<le> dr_Attempt r \<and> After (dr_ExpiresAt r) now
     \<and> r' = exhaust (reclaim now r)"
  using assms
proof (induction ids arbitrary: m r)
  case Nil
  then show ?case by simp
next
  case (Cons k ids)
  obtain rk where k: "m k = Some rk" using Cons.prems(2) by auto
  note loop = delivery_claim_loop_Some [where m = m and i = k, OF k]
  show ?case
  proof (cases "i = k")
    case True
    with Cons.prems k have here: "i \<notin> set ids" "rk = r" by auto
    note still = delivery_claim_loop_frame [OF here(1) [unfolded True]]
    have open': "\<not> finished (reclaim now r)" "\<not> finished (send_lease worker token d now (reclaim now r))"
      using Cons.prems(4) by (auto simp: finished_def reclaim_def send_lease_def)
    show ?thesis
      using Cons.prems(3-6) open' here(2) True by (auto simp: loop still split: if_splits)
  next
    case False
    have rest: "\<exists>x. snd (delivery_claim_loop worker token d now (k # ids) m) = m(k \<mapsto> x)
        \<or> snd (delivery_claim_loop worker token d now (k # ids) m) = snd (delivery_claim_loop worker token d now ids (m(k \<mapsto> x)))"
      using k by (auto simp: loop intro: exI [of _ rk] simp: fun_upd_idem)
    then obtain x where x: "snd (delivery_claim_loop worker token d now (k # ids) m) = m(k \<mapsto> x)
        \<or> snd (delivery_claim_loop worker token d now (k # ids) m) = snd (delivery_claim_loop worker token d now ids (m(k \<mapsto> x)))"
      by blast
    have "set ids \<subseteq> dom (m(k \<mapsto> x))" "(m(k \<mapsto> x)) i = Some r" "distinct ids" using Cons.prems False by auto
    note IH = Cons.IH [OF this(3,1,2) Cons.prems(4) _ Cons.prems(6)]
    from x show ?thesis
    proof
      assume "snd (delivery_claim_loop worker token d now (k # ids) m) = m(k \<mapsto> x)"
      with Cons.prems(3-6) False show ?thesis by simp
    next
      assume "snd (delivery_claim_loop worker token d now (k # ids) m) = snd (delivery_claim_loop worker token d now ids (m(k \<mapsto> x)))"
      with Cons.prems(5) show ?thesis by (intro IH) (simp del: fun_upd_apply)
    qed
  qed
qed

text \<open>
  How one call finishes a record: under a lease its caller holds, or in the claim that finds the
  attempts used up.
\<close>

definition finished_under_lease :: "string \<Rightarrow> DeliveryQueue \<Rightarrow> DeliveryQueue \<Rightarrow> DeliveryRecord \<Rightarrow> DeliveryRecord \<Rightarrow> bool" where
  "finished_under_lease i q q' r r' \<longleftrightarrow>
     (\<exists>op token t. token \<noteq> '''' \<and> holds_delivery r token t \<and> delivery_fenced_write op i token t q = (Inr r', q'))"

definition finished_by_claim :: "string \<Rightarrow> DeliveryQueue \<Rightarrow> DeliveryQueue \<Rightarrow> DeliveryRecord \<Rightarrow> DeliveryRecord \<Rightarrow> bool" where
  "finished_by_claim i q q' r r' \<longleftrightarrow>
     (\<exists>ord worker token d now. q' = snd (deliveries_Claim ord worker token d now q)
        \<and> dr_MaxAttempts r \<le> dr_Attempt r \<and> After (dr_ExpiresAt r) now \<and> (\<forall>tok. \<not> holds_delivery r tok now)
        \<and> dr_Status r' = StatusAbandoned \<and> dr_FailureReason r' = ''attempts_exhausted'')"

lemma fenced_step: "delivery_step q (snd (delivery_fenced_write op i token t q))"
  by (cases op) (simp_all add: dstep_complete dstep_retry dstep_abandon)

lemma fenced_write_stores:
  "delivery_fenced_write op i token t q = (Inr r, q') \<Longrightarrow> dq_records q' i = Some r"
  by (cases op) (auto simp: delivery_write_defs Let_def split: sum.splits)

lemma fenced_write_finishes:
  assumes "q' = snd (delivery_fenced_write op k token t q)" "dq_records q i = Some r" "record_ok r" "\<not> finished r"
    "dq_records q' i = Some r'" "finished r'"
  shows "finished_under_lease i q q' r r'"
proof -
  obtain x q1 where run: "delivery_fenced_write op k token t q = (x, q1)" by (rule prod.exhaust)
  with assms(1) have q': "q1 = q'" by simp
  have changed: "dq_records q' i \<noteq> dq_records q i" using assms(2,4,5,6) by auto
  from changed have k: "k = i" using dlvq.write_frame [of i k op token t q] assms(1) by metis
  from changed obtain a where x: "x = Inr a"
    using dlvq.write_error_clean [of op k token t q] run q' by (cases x) auto
  from dlvq.write_needs_lease [of op k token t q] run x k assms(2) have holds: "holds_delivery r token t" by auto
  with assms(3) have "token \<noteq> ''''" by (auto simp: holds_delivery_def record_ok_def)
  moreover have "a = r'" using fenced_write_stores [of op i token t q a q'] run q' x k assms(5) by simp
  ultimately show ?thesis using holds run q' x k by (auto simp: finished_under_lease_def)
qed

lemma step_finishes:
  assumes "delivery_step q q'" "dq_records q i = Some r" "record_ok r" "\<not> finished r"
    "dq_records q' i = Some r'" "finished r'"
  shows "finished_under_lease i q q' r r' \<or> finished_by_claim i q q' r r'"
  using assms(1)
proof cases
  case (dstep_enqueue k s now)
  then show ?thesis using assms by (auto simp: deliveries_Enqueue_snd split: if_splits)
next
  case (dstep_claim ord token worker d now)
  then have "distinct (delivery_claim_order ord (dq_records q))" "set (delivery_claim_order ord (dq_records q)) \<subseteq> dom (dq_records q)"
    by (simp_all add: enumerates_def)
  from delivery_claim_loop_finishes [OF this assms(2,4) _ assms(6)] assms(5) dstep_claim(1)
  have "sendable now (reclaim now r)" "dr_MaxAttempts r \<le> dr_Attempt r" "After (dr_ExpiresAt r) now" "r' = exhaust (reclaim now r)"
    by auto
  then show ?thesis
    using dstep_claim(1) unfolding finished_by_claim_def
    by (intro disjI2 exI conjI) (auto simp: exhaust_def sendable_def reclaim_def holds_delivery_def split: if_splits)
next
  case (dstep_complete k token result t1 t2)
  then show ?thesis using fenced_write_finishes [of q' "WriteComplete result t2" k token t1 q] assms by simp
next
  case (dstep_retry k token reason delay t1 t2 t3)
  then show ?thesis using fenced_write_finishes [of q' "WriteRetry reason delay t2 t3" k token t1 q] assms by simp
next
  case (dstep_abandon k token reason t1 t2)
  then show ?thesis using fenced_write_finishes [of q' "WriteAbandon reason t2" k token t1 q] assms by simp
qed


text \<open>A delivery with one attempt, claimed, never finished, and claimed again after its lease ran out.\<close>

definition sample_last_attempt :: DeliveryQueue where
  "sample_last_attempt =
     snd (deliveries_Claim [''d''] ''w'' ''t'' 20 11
            (snd (deliveries_Enqueue (sample_delivery\<lparr>ds_MaxAttempts := 1\<rparr>) ''d'' 10 NewDeliveryQueue)))"

lemma sample_last_attempt_eq:
  "sample_last_attempt = \<lparr>dq_records = [''d'' \<mapsto> send_lease ''w'' ''t'' 20 11 (record_of_spec (sample_delivery\<lparr>ds_MaxAttempts := 1\<rparr>) ''d'' 10)],
     dq_byKey = [''o/k'' \<mapsto> ''d'']\<rparr>"
  by (simp add: sample_last_attempt_def deliveries_Enqueue_def sample_delivery_def valid_delivery_def delivery_key_def
      NewDeliveryQueue_def deliveries_Claim_def delivery_claim_order_def delivery_claim_loop_Some
      reclaim_def sendable_def record_of_spec_def IsZero_def zero_time_def Let_def)

lemma sample_last_attempt_reachable: "delivery_reachable sample_last_attempt"
  unfolding sample_last_attempt_def
  by (intro dreach_step [OF dreach_step [OF dreach_new dstep_enqueue] dstep_claim])
    (simp_all add: NewDeliveryQueue_def enumerates_def deliveries_Enqueue_snd valid_delivery_def sample_delivery_def)


text \<open>
  Deliveries are enqueued once per key and never over-attempted: in a reachable queue a
  repeated enqueue returns the stored record with created=false and changes nothing, stored
  records have distinct keys, a record is leased exactly when it carries a token, and its
  attempts never exceed its maximum.
\<close>

theorem delivery_enqueued_once:
  assumes "delivery_reachable q" "dq_records q i = None" "deliveries_Enqueue s i t q = (Inr (r, created), q')"
  shows "(\<forall>s' i' t'. delivery_spec_key s' = delivery_spec_key s \<longrightarrow> valid_delivery s' \<longrightarrow>
            deliveries_Enqueue s' i' t' q' = (Inr (r, False), q'))
         \<and> (\<forall>j k a b. dq_records q' j = Some a \<longrightarrow> dq_records q' k = Some b \<longrightarrow> record_key a = record_key b \<longrightarrow> j = k)
         \<and> (\<forall>j a. dq_records q' j = Some a \<longrightarrow>
              (dl_Token (dr_Lease a) \<noteq> '''' \<longleftrightarrow> dr_Status a = StatusLeased) \<and> dr_Attempt a \<le> dr_MaxAttempts a)"
proof (intro conjI)
  have ok: "delivery_index_ok q" by (rule delivery_reachable_index [OF assms(1)])
  show "\<forall>s' i' t'. delivery_spec_key s' = delivery_spec_key s \<longrightarrow> valid_delivery s' \<longrightarrow>
          deliveries_Enqueue s' i' t' q' = (Inr (r, False), q')"
    using dlvi.enqueue_again [OF ok assms(2,3)] by blast
  have "delivery_index_ok q'" using dlvi.enqueue_stores [OF ok assms(2,3)] by blast
  then show "\<forall>j k a b. dq_records q' j = Some a \<longrightarrow> dq_records q' k = Some b \<longrightarrow> record_key a = record_key b \<longrightarrow> j = k"
    using delivery_index_okD(1) by (metis option.inject)
  have "delivery_reachable q'"
    using dreach_step [OF assms(1) dstep_enqueue [OF assms(2), of s t]] assms(3) by simp
  then show "\<forall>j a. dq_records q' j = Some a \<longrightarrow>
      (dl_Token (dr_Lease a) \<noteq> '''' \<longleftrightarrow> dr_Status a = StatusLeased) \<and> dr_Attempt a \<le> dr_MaxAttempts a"
    using delivery_reachable_ok by (auto simp: record_ok_def)
qed

theorem delivery_enqueued_once_witness:
  "deliveries_Enqueue sample_delivery ''other'' 50 sample_deliveries =
     (Inr (record_of_spec sample_delivery ''d'' 10, False), sample_deliveries)"
proof -
  have run: "deliveries_Enqueue sample_delivery ''d'' 10 NewDeliveryQueue =
      (Inr (record_of_spec sample_delivery ''d'' 10, True), sample_deliveries)"
    by (simp add: sample_deliveries_def deliveries_Enqueue_def sample_delivery_def valid_delivery_def
        NewDeliveryQueue_def delivery_key_def Let_def)
  from delivery_enqueued_once [OF dreach_new _ run] show ?thesis
    by (simp add: NewDeliveryQueue_def valid_delivery_def sample_delivery_def)
qed

end
