(* ===== verification/Approvals.thy ===== *)
theory Approvals
  imports Types
begin

text \<open>
  Human approvals of tool actions (\<^verbatim>\<open>core/approvals/approvals.go\<close>): an approval binds one
  decision to the digest of the action's bytes.  The encoder \<^verbatim>\<open>json.Marshal\<close> of an action
  and \<^verbatim>\<open>sha256\<close> are arguments (\<open>marshal\<close>, \<open>sha\<close>).  An operation that reads the clock
  several times takes one argument per reading.
\<close>

section \<open>Actions and approvals\<close>

datatype approval_error =
    ErrApprovalNotFound
  | ErrApprovalRequest
  | ErrActionIncomplete
  | ErrActionEncoding
  | ErrIndependentApprover
  | ErrNotApprovable
  | ErrNotDeniable
  | ErrNotAuthorized
  | ErrWrongOrganization
  | ErrApprovalOrganizationRequired

record ToolAction =
  act_OrganizationID :: string
  act_JobID :: string
  act_WorkspaceID :: string
  act_ChannelID :: string
  act_ThreadTS :: string
  act_ToolID :: string
  act_ToolVersion :: string
  act_OperationID :: string
  act_Arguments :: "(string \<times> json) list"
  act_Destination :: string
  act_Risk :: string

record Approval =
  apv_ID :: string
  apv_OrganizationID :: string
  apv_RequesterID :: string
  apv_ApproverID :: string
  apv_ActionHash :: string
  apv_Action :: ToolAction
  apv_ExpiresAt :: time
  apv_ApprovedAt :: time
  apv_DeniedBy :: string
  apv_DeniedAt :: time
  apv_ConsumedAt :: time
  apv_CleanupAt :: time

type_synonym ApprovalStore = "string \<rightharpoonup> Approval"

definition NewApprovalStore :: ApprovalStore where "NewApprovalStore = Map.empty"

definition HashAction :: "(ToolAction \<Rightarrow> string option) \<Rightarrow> (string \<Rightarrow> string) \<Rightarrow> ToolAction \<Rightarrow> approval_error + string" where
  "HashAction marshal sha a =
     (if act_OrganizationID a = '''' \<or> act_ToolID a = '''' \<or> act_ToolVersion a = '''' \<or> act_OperationID a = ''''
         \<or> act_Destination a = '''' \<or> act_Risk a = ''''
      then Inl ErrActionIncomplete
      else case marshal a of
             None \<Rightarrow> Inl ErrActionEncoding
           | Some canonical \<Rightarrow> Inr (''sha256:'' @ hex_encode (sha canonical)))"

section \<open>The store\<close>

definition approvals_Request ::
  "(ToolAction \<Rightarrow> string option) \<Rightarrow> (string \<Rightarrow> string) \<Rightarrow> ToolAction \<Rightarrow> string \<Rightarrow> duration \<Rightarrow> string \<Rightarrow> time
     \<Rightarrow> ApprovalStore \<Rightarrow> (approval_error, Approval, ApprovalStore) outcome" where
  "approvals_Request marshal sha action requester ttl i now s =
     (if requester = '''' \<or> act_OrganizationID action = '''' \<or> ttl \<le> 0 then (Inl ErrApprovalRequest, s)
      else case HashAction marshal sha action of
             Inl e \<Rightarrow> (Inl e, s)
           | Inr h \<Rightarrow>
               let a = \<lparr>apv_ID = i, apv_OrganizationID = act_OrganizationID action, apv_RequesterID = requester,
                        apv_ApproverID = '''', apv_ActionHash = h, apv_Action = action, apv_ExpiresAt = now + ttl,
                        apv_ApprovedAt = zero_time, apv_DeniedBy = '''', apv_DeniedAt = zero_time,
                        apv_ConsumedAt = zero_time, apv_CleanupAt = now + (ttl + 24 * Hour)\<rparr>
               in (Inr a, s(i \<mapsto> a)))"

definition undecided :: "Approval \<Rightarrow> time \<Rightarrow> bool" where
  "undecided a now \<longleftrightarrow>
     After (apv_ExpiresAt a) now \<and> IsZero (apv_ApprovedAt a) \<and> IsZero (apv_DeniedAt a) \<and> IsZero (apv_ConsumedAt a)"

definition approvals_approve ::
  "string \<Rightarrow> string \<Rightarrow> string \<Rightarrow> time \<Rightarrow> time \<Rightarrow> ApprovalStore \<Rightarrow> (approval_error, Approval, ApprovalStore) outcome" where
  "approvals_approve org i approver t1 t2 s =
     (case s i of
        None \<Rightarrow> (Inl ErrApprovalNotFound, s)
      | Some a \<Rightarrow>
          if org \<noteq> '''' \<and> apv_OrganizationID a \<noteq> org then (Inl ErrApprovalNotFound, s)
          else if approver = '''' \<or> approver = apv_RequesterID a then (Inl ErrIndependentApprover, s)
          else if \<not> undecided a t1 then (Inl ErrNotApprovable, s)
          else let a' = a\<lparr>apv_ApproverID := approver, apv_ApprovedAt := t2\<rparr> in (Inr a', s(i \<mapsto> a')))"

definition approvals_Approve ::
  "string \<Rightarrow> string \<Rightarrow> time \<Rightarrow> time \<Rightarrow> ApprovalStore \<Rightarrow> (approval_error, Approval, ApprovalStore) outcome" where
  "approvals_Approve i approver t1 t2 s = approvals_approve '''' i approver t1 t2 s"

definition approvals_ApproveContext ::
  "string \<Rightarrow> string \<Rightarrow> string \<Rightarrow> time \<Rightarrow> time \<Rightarrow> ApprovalStore \<Rightarrow> (approval_error, Approval, ApprovalStore) outcome" where
  "approvals_ApproveContext org i approver t1 t2 s = approvals_approve org i approver t1 t2 s"

definition approvals_DenyContext ::
  "string \<Rightarrow> string \<Rightarrow> string \<Rightarrow> time \<Rightarrow> time \<Rightarrow> ApprovalStore \<Rightarrow> (approval_error, Approval, ApprovalStore) outcome" where
  "approvals_DenyContext org i denier t1 t2 s =
     (case s i of
        None \<Rightarrow> (Inl ErrNotDeniable, s)
      | Some a \<Rightarrow>
          if apv_OrganizationID a \<noteq> org \<or> denier = '''' \<or> denier = apv_RequesterID a \<or> \<not> undecided a t1
          then (Inl ErrNotDeniable, s)
          else let a' = a\<lparr>apv_DeniedBy := denier, apv_DeniedAt := t2\<rparr> in (Inr a', s(i \<mapsto> a')))"

definition approvals_GetContext :: "string \<Rightarrow> string \<Rightarrow> ApprovalStore \<Rightarrow> approval_error + Approval" where
  "approvals_GetContext org i s =
     (case s i of
        None \<Rightarrow> Inl ErrApprovalNotFound
      | Some a \<Rightarrow> if apv_OrganizationID a \<noteq> org then Inl ErrApprovalNotFound else Inr a)"

definition approvals_Consume ::
  "(ToolAction \<Rightarrow> string option) \<Rightarrow> (string \<Rightarrow> string) \<Rightarrow> string \<Rightarrow> ToolAction \<Rightarrow> time \<Rightarrow> time
     \<Rightarrow> ApprovalStore \<Rightarrow> (approval_error, Approval, ApprovalStore) outcome" where
  "approvals_Consume marshal sha i action t1 t2 s =
     (case HashAction marshal sha action of
        Inl e \<Rightarrow> (Inl e, s)
      | Inr h \<Rightarrow>
          case s i of
            None \<Rightarrow> (Inl ErrNotAuthorized, s)
          | Some a \<Rightarrow>
              if IsZero (apv_ApprovedAt a) \<or> \<not> IsZero (apv_DeniedAt a) \<or> \<not> IsZero (apv_ConsumedAt a)
                 \<or> \<not> After (apv_ExpiresAt a) t1 \<or> apv_ActionHash a \<noteq> h
                 \<or> apv_OrganizationID a \<noteq> act_OrganizationID action
              then (Inl ErrNotAuthorized, s)
              else let a' = a\<lparr>apv_ConsumedAt := t2\<rparr> in (Inr a', s(i \<mapsto> a')))"

definition approvals_ConsumeContext ::
  "(ToolAction \<Rightarrow> string option) \<Rightarrow> (string \<Rightarrow> string) \<Rightarrow> string \<Rightarrow> string \<Rightarrow> ToolAction \<Rightarrow> time \<Rightarrow> time
     \<Rightarrow> ApprovalStore \<Rightarrow> (approval_error, Approval, ApprovalStore) outcome" where
  "approvals_ConsumeContext marshal sha org i action t1 t2 s =
     (if act_OrganizationID action \<noteq> org then (Inl ErrWrongOrganization, s)
      else approvals_Consume marshal sha i action t1 t2 s)"

definition approvals_List :: "string list \<Rightarrow> string \<Rightarrow> ApprovalStore \<Rightarrow> approval_error + Approval list" where
  "approvals_List ord org s =
     (if org = '''' then Inl ErrApprovalOrganizationRequired
      else Inr (filter (\<lambda>a. apv_OrganizationID a = org) (vals ord s)))"

section \<open>The life of an approval\<close>

inductive approval_step ::
  "(ToolAction \<Rightarrow> string option) \<Rightarrow> (string \<Rightarrow> string) \<Rightarrow> ApprovalStore \<Rightarrow> ApprovalStore \<Rightarrow> bool"
  for marshal sha where
  apv_request: "s i = None \<Longrightarrow> approval_step marshal sha s (snd (approvals_Request marshal sha action r ttl i now s))"
| apv_approve: "t2 \<noteq> zero_time \<Longrightarrow> approval_step marshal sha s (snd (approvals_approve org i approver t1 t2 s))"
| apv_deny: "t2 \<noteq> zero_time \<Longrightarrow> approval_step marshal sha s (snd (approvals_DenyContext org i denier t1 t2 s))"
| apv_consume: "t2 \<noteq> zero_time \<Longrightarrow> approval_step marshal sha s (snd (approvals_Consume marshal sha i action t1 t2 s))"

inductive approval_reachable :: "(ToolAction \<Rightarrow> string option) \<Rightarrow> (string \<Rightarrow> string) \<Rightarrow> ApprovalStore \<Rightarrow> bool"
  for marshal sha where
  apv_reach_new: "approval_reachable marshal sha NewApprovalStore"
| apv_reach_step: "approval_reachable marshal sha s \<Longrightarrow> approval_step marshal sha s s' \<Longrightarrow> approval_reachable marshal sha s'"

text \<open>The four states an approval can be in, as an abstract machine.\<close>

datatype approval_state = Undecided | Approved | Denied | Consumed

definition approval_state :: "Approval \<Rightarrow> approval_state" where
  "approval_state a =
     (if \<not> IsZero (apv_ConsumedAt a) then Consumed
      else if \<not> IsZero (apv_DeniedAt a) then Denied
      else if \<not> IsZero (apv_ApprovedAt a) then Approved else Undecided)"

fun approval_next :: "approval_state \<Rightarrow> approval_state \<Rightarrow> bool" where
  "approval_next Undecided s \<longleftrightarrow> s \<in> {Undecided, Approved, Denied}"
| "approval_next Approved s \<longleftrightarrow> s \<in> {Approved, Consumed}"
| "approval_next Denied s \<longleftrightarrow> s = Denied"
| "approval_next Consumed s \<longleftrightarrow> s = Consumed"

definition approval_ok :: "(ToolAction \<Rightarrow> string option) \<Rightarrow> (string \<Rightarrow> string) \<Rightarrow> Approval \<Rightarrow> bool" where
  "approval_ok marshal sha a \<longleftrightarrow>
     HashAction marshal sha (apv_Action a) = Inr (apv_ActionHash a)
     \<and> act_OrganizationID (apv_Action a) = apv_OrganizationID a
     \<and> (IsZero (apv_ApprovedAt a) \<longrightarrow> IsZero (apv_ConsumedAt a))
     \<and> (\<not> IsZero (apv_ApprovedAt a) \<longrightarrow>
          IsZero (apv_DeniedAt a) \<and> apv_ApproverID a \<noteq> '''' \<and> apv_ApproverID a \<noteq> apv_RequesterID a)
     \<and> (\<not> IsZero (apv_DeniedAt a) \<longrightarrow> apv_DeniedBy a \<noteq> '''' \<and> apv_DeniedBy a \<noteq> apv_RequesterID a)"

text \<open>What a step does to one stored approval: nothing, or one write.\<close>

definition same_request :: "Approval \<Rightarrow> Approval \<Rightarrow> bool" where
  "same_request a b \<longleftrightarrow>
     apv_ID b = apv_ID a \<and> apv_Action b = apv_Action a \<and> apv_ActionHash b = apv_ActionHash a
     \<and> apv_RequesterID b = apv_RequesterID a \<and> apv_OrganizationID b = apv_OrganizationID a
     \<and> apv_ExpiresAt b = apv_ExpiresAt a"

inductive approval_write :: "Approval \<Rightarrow> Approval \<Rightarrow> bool" where
  write_same: "approval_write a a"
| write_approve:
    "undecided a t1 \<Longrightarrow> u \<noteq> '''' \<Longrightarrow> u \<noteq> apv_RequesterID a \<Longrightarrow> t2 \<noteq> zero_time \<Longrightarrow>
     approval_write a (a\<lparr>apv_ApproverID := u, apv_ApprovedAt := t2\<rparr>)"
| write_deny:
    "undecided a t1 \<Longrightarrow> u \<noteq> '''' \<Longrightarrow> u \<noteq> apv_RequesterID a \<Longrightarrow> t2 \<noteq> zero_time \<Longrightarrow>
     approval_write a (a\<lparr>apv_DeniedBy := u, apv_DeniedAt := t2\<rparr>)"
| write_consume:
    "\<not> IsZero (apv_ApprovedAt a) \<Longrightarrow> IsZero (apv_DeniedAt a) \<Longrightarrow> IsZero (apv_ConsumedAt a) \<Longrightarrow>
     After (apv_ExpiresAt a) t1 \<Longrightarrow> t2 \<noteq> zero_time \<Longrightarrow> approval_write a (a\<lparr>apv_ConsumedAt := t2\<rparr>)"

lemma approval_step_writes:
  assumes "approval_step marshal sha s s'" "s i = Some a"
  shows "\<exists>b. s' i = Some b \<and> approval_write a b"
  using assms
proof (induction rule: approval_step.induct)
  case (apv_request s j action r ttl now)
  then show ?case
    by (auto simp: approvals_Request_def Let_def intro: write_same split: sum.split)
next
  case (apv_approve t2 s org j approver t1)
  then show ?case
    by (auto simp: approvals_approve_def Let_def intro: approval_write.intros split: option.split)
next
  case (apv_deny t2 s org j denier t1)
  then show ?case
    by (auto simp: approvals_DenyContext_def Let_def intro: approval_write.intros split: option.split)
next
  case (apv_consume t2 s j action t1)
  then show ?case
    by (auto simp: approvals_Consume_def Let_def intro: approval_write.intros split: option.split sum.split)
qed

lemma approval_ok_write: "approval_write a b \<Longrightarrow> approval_ok marshal sha a \<Longrightarrow> approval_ok marshal sha b"
  by (induction rule: approval_write.induct) (auto simp: approval_ok_def undecided_def IsZero_def)

lemma approval_write_next:
  "approval_write a b \<Longrightarrow> approval_ok marshal sha a \<Longrightarrow>
     approval_next (approval_state a) (approval_state b) \<and> same_request a b"
  by (induction rule: approval_write.induct)
     (auto simp: approval_state_def undecided_def IsZero_def same_request_def approval_ok_def)

lemma approval_step_new:
  assumes "approval_step marshal sha s s'" "s i = None" "s' i = Some a"
  shows "approval_ok marshal sha a \<and> approval_state a = Undecided"
  using assms
proof (induction rule: approval_step.induct)
  case (apv_request s j action r ttl now)
  then show ?case
    by (auto simp: approvals_Request_def Let_def approval_ok_def approval_state_def IsZero_def
        split: sum.splits if_splits)
qed (auto simp: approvals_approve_def approvals_DenyContext_def approvals_Consume_def Let_def
      split: option.splits sum.splits if_splits)

lemma approval_reachable_ok: "approval_reachable marshal sha s \<Longrightarrow> s i = Some a \<Longrightarrow> approval_ok marshal sha a"
proof (induction arbitrary: i a rule: approval_reachable.induct)
  case apv_reach_new
  then show ?case by (simp add: NewApprovalStore_def)
next
  case (apv_reach_step s s')
  show ?case
  proof (cases "s i")
    case None
    then show ?thesis using approval_step_new [OF apv_reach_step.hyps(2)] apv_reach_step.prems by blast
  next
    case (Some b)
    then show ?thesis
      using approval_step_writes [OF apv_reach_step.hyps(2) Some] apv_reach_step approval_ok_write by auto
  qed
qed

lemma approval_refines_machine_aux:
  assumes "approval_reachable marshal sha s" "approval_step marshal sha s s'" "s i = Some a"
  shows "\<exists>b. s' i = Some b \<and> approval_next (approval_state a) (approval_state b) \<and> same_request a b
           \<and> approval_ok marshal sha b"
proof -
  obtain b where b: "s' i = Some b" "approval_write a b" using approval_step_writes [OF assms(2,3)] by blast
  have a: "approval_ok marshal sha a" by (rule approval_reachable_ok [OF assms(1,3)])
  from b approval_write_next [OF b(2) a] approval_ok_write [OF b(2) a] show ?thesis by blast
qed

text \<open>
  C21. An approval follows its machine: in a reachable store every step moves a stored approval
  from undecided to approved or denied, or from approved to consumed, or leaves its state;
  so it is never both approved and denied, and never consumed twice or without an approval.
  Its action, digest, requester, organization and expiry never change.
\<close>

theorem approval_refines_machine:
  assumes "approval_reachable marshal sha s" "approval_step marshal sha s s'" "s i = Some a"
  shows "\<exists>b. s' i = Some b \<and> approval_next (approval_state a) (approval_state b) \<and> same_request a b
           \<and> (approval_state b \<in> {Approved, Consumed} \<longrightarrow>
                apv_ApproverID b \<noteq> '''' \<and> apv_ApproverID b \<noteq> apv_RequesterID a \<and> IsZero (apv_DeniedAt b))"
  using approval_refines_machine_aux [OF assms]
  by (auto simp: approval_ok_def approval_state_def same_request_def split: if_splits)

definition sample_action :: ToolAction where
  "sample_action = \<lparr>act_OrganizationID = ''o'', act_JobID = ''j'', act_WorkspaceID = ''T'', act_ChannelID = ''C'',
     act_ThreadTS = ''1'', act_ToolID = ''git'', act_ToolVersion = ''1'', act_OperationID = ''push'',
     act_Arguments = [(''ref'', JString ''main'')], act_Destination = ''repo'', act_Risk = ''write''\<rparr>"

definition sample_marshal :: "ToolAction \<Rightarrow> string option" where
  "sample_marshal a = Some (act_ToolID a @ ''/'' @ act_OperationID a)"

definition sample_approvals :: ApprovalStore where
  "sample_approvals = snd (approvals_Request sample_marshal id sample_action ''u'' 100 ''a'' 10 NewApprovalStore)"

lemma sample_approval_reachable: "approval_reachable sample_marshal id sample_approvals"
  unfolding sample_approvals_def
  by (rule apv_reach_step [OF apv_reach_new apv_request]) (simp add: NewApprovalStore_def)

lemma sample_approval:
  "\<exists>a. sample_approvals ''a'' = Some a \<and> approval_state a = Undecided \<and> apv_RequesterID a = ''u''
     \<and> apv_OrganizationID a = ''o'' \<and> apv_ExpiresAt a = 110 \<and> undecided a 20 \<and> apv_Action a = sample_action"
  by (simp add: sample_approvals_def approvals_Request_def HashAction_def sample_action_def sample_marshal_def
      Let_def approval_state_def IsZero_def undecided_def)

theorem approval_refines_machine_witness:
  "\<exists>b. snd (approvals_approve ''o'' ''a'' ''v'' 20 20 sample_approvals) ''a'' = Some b \<and> approval_state b \<noteq> Consumed"
proof -
  obtain a where a: "sample_approvals ''a'' = Some a" "approval_state a = Undecided" using sample_approval by blast
  have t: "(20 :: time) \<noteq> zero_time" by (simp add: zero_time_def)
  from approval_refines_machine [OF sample_approval_reachable apv_approve [OF t] a(1), of "''o''" "''a''" "''v''" 20] a(2)
  show ?thesis by auto
qed

section \<open>What consuming proves\<close>

text \<open>
  C20. An approval authorizes exactly its action, once: consuming succeeds only for an
  unexpired, approved, undenied approval of the same organization that an independent user
  approved, and only if the digest of the consumed action is the digest of the action that was
  approved; any later consume of the same approval fails; a denied approval can never be
  consumed.
\<close>

theorem consume_authorizes_once:
  assumes "approval_reachable marshal sha s"
    and "approvals_ConsumeContext marshal sha org i action t1 t2 s = (Inr b, s')" "t2 \<noteq> zero_time"
  shows "(\<exists>a. s i = Some a \<and> apv_OrganizationID a = org \<and> approval_state a = Approved
            \<and> apv_ApproverID a \<noteq> apv_RequesterID a \<and> apv_ApproverID a \<noteq> '''' \<and> t1 < apv_ExpiresAt a
            \<and> HashAction marshal sha action = HashAction marshal sha (apv_Action a))
         \<and> approval_state b = Consumed \<and> s' i = Some b
         \<and> (\<forall>s''. (approval_step marshal sha)\<^sup>*\<^sup>* s' s'' \<longrightarrow>
              (\<forall>org' action' t3 t4. \<not> succeeded (approvals_ConsumeContext marshal sha org' i action' t3 t4 s'')))"
proof -
  obtain a h where a: "s i = Some a" "HashAction marshal sha action = Inr h" "\<not> IsZero (apv_ApprovedAt a)"
    "IsZero (apv_DeniedAt a)" "IsZero (apv_ConsumedAt a)" "t1 < apv_ExpiresAt a" "apv_ActionHash a = h"
    "apv_OrganizationID a = act_OrganizationID action" "act_OrganizationID action = org"
    and b: "b = a\<lparr>apv_ConsumedAt := t2\<rparr>" "s' = s(i \<mapsto> b)"
    using assms(2) by (auto simp: approvals_ConsumeContext_def approvals_Consume_def Let_def
        split: sum.splits option.splits if_splits)
  note ok = approval_reachable_ok [OF assms(1) a(1)]
  have "approval_reachable marshal sha s'"
    using apv_reach_step [OF assms(1) apv_consume [OF assms(3), of marshal sha s i action t1]]
    by (simp add: approvals_Consume_def a b Let_def)
  have stays: "\<exists>c. s'' i = Some c \<and> approval_state c = Consumed"
    if "(approval_step marshal sha)\<^sup>*\<^sup>* s' s''" for s''
    using that
  proof (induction rule: rtranclp_induct)
    case base
    show ?case using b assms(3) by (simp add: approval_state_def IsZero_def)
  next
    case (step x y)
    then obtain c where c: "x i = Some c" "approval_state c = Consumed" by blast
    have "approval_reachable marshal sha x"
      using step.hyps(1) \<open>approval_reachable marshal sha s'\<close>
      by (induction rule: rtranclp_induct) (auto intro: apv_reach_step)
    then obtain d where "y i = Some d" "approval_next (approval_state c) (approval_state d)"
      using approval_refines_machine_aux [OF _ step.hyps(2) c(1)] by blast
    with c(2) show ?case by simp
  qed
  have "\<not> succeeded (approvals_ConsumeContext marshal sha org' i action' t3 t4 s'')"
    if "s'' i = Some c" "approval_state c = Consumed" for s'' c org' action' t3 t4
  proof -
    have "\<not> IsZero (apv_ConsumedAt c)" using that(2) by (auto simp: approval_state_def split: if_splits)
    with that(1) show ?thesis
      by (auto simp: approvals_ConsumeContext_def approvals_Consume_def split: sum.split)
  qed
  with stays have never: "\<forall>s''. (approval_step marshal sha)\<^sup>*\<^sup>* s' s'' \<longrightarrow>
      (\<forall>org' action' t3 t4. \<not> succeeded (approvals_ConsumeContext marshal sha org' i action' t3 t4 s''))"
    by blast
  have "s i = Some a \<and> apv_OrganizationID a = org \<and> approval_state a = Approved
      \<and> apv_ApproverID a \<noteq> apv_RequesterID a \<and> apv_ApproverID a \<noteq> '''' \<and> t1 < apv_ExpiresAt a
      \<and> HashAction marshal sha action = HashAction marshal sha (apv_Action a)"
    using a ok by (auto simp: approval_ok_def approval_state_def)
  moreover have "approval_state b = Consumed \<and> s' i = Some b"
    using b assms(3) by (simp add: approval_state_def IsZero_def)
  ultimately show ?thesis using never by blast
qed

definition sample_approved :: ApprovalStore where
  "sample_approved = snd (approvals_approve ''o'' ''a'' ''v'' 20 20 sample_approvals)"

theorem consume_authorizes_once_witness:
  "succeeded (approvals_ConsumeContext sample_marshal id ''o'' ''a'' sample_action 30 30 sample_approved)
   \<and> \<not> succeeded (approvals_ConsumeContext sample_marshal id ''o'' ''a'' sample_action 31 31
         (snd (approvals_ConsumeContext sample_marshal id ''o'' ''a'' sample_action 30 30 sample_approved)))"
proof -
  have r: "approval_reachable sample_marshal id sample_approved"
    unfolding sample_approved_def
    by (rule apv_reach_step [OF sample_approval_reachable apv_approve]) (simp add: zero_time_def)
  have ok: "succeeded (approvals_ConsumeContext sample_marshal id ''o'' ''a'' sample_action 30 30 sample_approved)"
    by (simp add: approvals_ConsumeContext_def approvals_Consume_def sample_approved_def approvals_approve_def
        sample_approvals_def approvals_Request_def HashAction_def sample_action_def sample_marshal_def undecided_def
        IsZero_def zero_time_def Let_def)
  then obtain b s' where run: "approvals_ConsumeContext sample_marshal id ''o'' ''a'' sample_action 30 30 sample_approved
      = (Inr b, s')" by (metis succeeded.elims(2))
  have t: "(30 :: time) \<noteq> zero_time" by (simp add: zero_time_def)
  from consume_authorizes_once [OF r run t] ok run show ?thesis by auto
qed

end
