(* ===== verification/AuditChain.thy ===== *)
theory AuditChain
  imports Types
begin

text \<open>
  The tamper-evident receipt chain of \<^verbatim>\<open>core/audit/audit.go\<close>.  The encoder
  \<^verbatim>\<open>json.Marshal\<close> of a receipt, \<^verbatim>\<open>sha256\<close> and \<^verbatim>\<open>hmac\<close> are arguments (\<open>marshal\<close>, \<open>sha\<close>,
  \<open>mac\<close>): the theorems hold for every encoder and every digest, and the tamper evidence is
  stated as the collision a forger would have to produce.
\<close>

section \<open>Receipts\<close>

text \<open>
  A metadata value as the type switch of \<^verbatim>\<open>validateMetadata\<close> sees it; \<open>MetaOther\<close> is any
  other dynamic type.
\<close>

datatype meta =
    MetaNil
  | MetaBool bool
  | MetaNumber rat
  | MetaString string
  | MetaStrings "string list"
  | MetaOther

datatype audit_error =
    ErrReceiptScope
  | ErrMetadataForbidden
  | ErrMetadataTooLong
  | ErrMetadataType
  | ErrReceiptEncoding
  | ErrHMACKey
  | ErrDiscontinuity int
  | ErrTampered int

record Receipt =
  rc_ID :: string
  rc_OrganizationID :: string
  rc_Sequence :: int
  rc_Type :: string
  rc_ActorID :: string
  rc_ResourceID :: string
  rc_Metadata :: "(string \<times> json) list"
  rc_RetentionEpoch :: string
  rc_IdempotencyKey :: string
  rc_ContentCommitment :: string
  rc_PreviousHash :: string
  rc_Hash :: string
  rc_CreatedAt :: time

record AppendRequest =
  ap_OrganizationID :: string
  ap_Type :: string
  ap_ActorID :: string
  ap_ResourceID :: string
  ap_Metadata :: "(string \<times> meta) list"
  ap_RetentionEpoch :: string
  ap_IdempotencyKey :: string
  ap_Content :: string

section \<open>Metadata\<close>

definition forbidden_words :: "string list" where
  "forbidden_words =
     [''text'', ''content'', ''prompt'', ''body'', ''message'', ''secret'', ''token'', ''password'', ''credential'']"

fun validate_value :: "meta \<Rightarrow> audit_error + unit" where
  "validate_value MetaNil = Inr ()"
| "validate_value (MetaBool b) = Inr ()"
| "validate_value (MetaNumber n) = Inr ()"
| "validate_value (MetaString s) = (if 256 < length s then Inl ErrMetadataTooLong else Inr ())"
| "validate_value (MetaStrings l) =
     (if 32 < length l \<or> list_ex (\<lambda>s. 256 < length s) l then Inl ErrMetadataTooLong else Inr ())"
| "validate_value MetaOther = Inl ErrMetadataType"

text \<open>The entries in the order of the \<^verbatim>\<open>range\<close> loop; the first bad entry decides the error.\<close>

fun validateMetadata :: "(string \<times> meta) list \<Rightarrow> audit_error + unit" where
  "validateMetadata [] = Inr ()"
| "validateMetadata (e # es) =
     (if list_ex (Contains (ToLower (fst e))) forbidden_words then Inl ErrMetadataForbidden
      else case validate_value (snd e) of Inl x \<Rightarrow> Inl x | Inr _ \<Rightarrow> validateMetadata es)"

text \<open>
  \<^verbatim>\<open>cloneMap\<close> sends the map through JSON: a list of strings comes back as a JSON array.
  (Strings are valid UTF-8 and integers fit a \<^verbatim>\<open>float64\<close>.)
\<close>

fun clone_value :: "meta \<Rightarrow> json" where
  "clone_value MetaNil = JNull"
| "clone_value (MetaBool b) = JBool b"
| "clone_value (MetaNumber n) = JNumber n"
| "clone_value (MetaString s) = JString s"
| "clone_value (MetaStrings l) = JArray (map JString l)"
| "clone_value MetaOther = JNull"

definition cloneMap :: "(string \<times> meta) list \<Rightarrow> (string \<times> json) list" where
  "cloneMap es = map (map_prod id clone_value) es"

section \<open>The chain\<close>

record Chain =
  ch_hmacKey :: string
  ch_receipts :: "string \<rightharpoonup> Receipt list"
  ch_byKey :: "string \<rightharpoonup> Receipt"

definition audit_New :: "string \<Rightarrow> audit_error + Chain" where
  "audit_New key =
     (if length key < 32 then Inl ErrHMACKey
      else Inr \<lparr>ch_hmacKey = key, ch_receipts = Map.empty, ch_byKey = Map.empty\<rparr>)"

definition audit_commit :: "(string \<Rightarrow> string \<Rightarrow> string) \<Rightarrow> Chain \<Rightarrow> string \<Rightarrow> string \<Rightarrow> string" where
  "audit_commit mac c epoch content =
     ''hmac-sha256:'' @ hex_encode (mac (ch_hmacKey c) (epoch @ [CHR 0x00] @ content))"

definition hashReceipt :: "(Receipt \<Rightarrow> string option) \<Rightarrow> (string \<Rightarrow> string) \<Rightarrow> Receipt \<Rightarrow> audit_error + string" where
  "hashReceipt marshal sha r =
     (case marshal (r\<lparr>rc_Hash := ''''\<rparr>) of
        None \<Rightarrow> Inl ErrReceiptEncoding
      | Some canonical \<Rightarrow> Inr (''sha256:'' @ hex_encode (sha canonical)))"

definition chain_of :: "Chain \<Rightarrow> string \<Rightarrow> Receipt list" where
  "chain_of c org = lookup_zero [] (ch_receipts c) org"

definition audit_key :: "AppendRequest \<Rightarrow> string" where
  "audit_key a = ap_OrganizationID a @ ''/'' @ ap_IdempotencyKey a"

definition next_receipt ::
  "(string \<Rightarrow> string \<Rightarrow> string) \<Rightarrow> AppendRequest \<Rightarrow> string \<Rightarrow> time \<Rightarrow> Chain \<Rightarrow> Receipt" where
  "next_receipt mac a i now c =
     (let current = chain_of c (ap_OrganizationID a)
      in \<lparr>rc_ID = i, rc_OrganizationID = ap_OrganizationID a, rc_Sequence = int (length current) + 1,
          rc_Type = ap_Type a, rc_ActorID = ap_ActorID a, rc_ResourceID = ap_ResourceID a,
          rc_Metadata = cloneMap (ap_Metadata a), rc_RetentionEpoch = ap_RetentionEpoch a,
          rc_IdempotencyKey = ap_IdempotencyKey a,
          rc_ContentCommitment = (if ap_Content a \<noteq> '''' then audit_commit mac c (ap_RetentionEpoch a) (ap_Content a) else ''''),
          rc_PreviousHash = (if current \<noteq> [] then rc_Hash (last current) else ''''),
          rc_Hash = '''', rc_CreatedAt = Truncate now Millisecond\<rparr>)"

definition audit_Append ::
  "(Receipt \<Rightarrow> string option) \<Rightarrow> (string \<Rightarrow> string) \<Rightarrow> (string \<Rightarrow> string \<Rightarrow> string)
     \<Rightarrow> AppendRequest \<Rightarrow> string \<Rightarrow> time \<Rightarrow> Chain \<Rightarrow> (audit_error, Receipt, Chain) outcome" where
  "audit_Append marshal sha mac a i now c =
     (if ap_OrganizationID a = '''' \<or> ap_Type a = '''' \<or> ap_RetentionEpoch a = '''' then (Inl ErrReceiptScope, c)
      else case validateMetadata (ap_Metadata a) of
             Inl e \<Rightarrow> (Inl e, c)
           | Inr _ \<Rightarrow>
               case (if ap_IdempotencyKey a \<noteq> '''' then ch_byKey c (audit_key a) else None) of
                 Some existing \<Rightarrow> (Inr existing, c)
               | None \<Rightarrow>
                   let receipt = next_receipt mac a i now c
                   in case hashReceipt marshal sha receipt of
                        Inl e \<Rightarrow> (Inl e, c)
                      | Inr h \<Rightarrow>
                          let receipt' = receipt\<lparr>rc_Hash := h\<rparr>;
                              receipts = (ch_receipts c)(ap_OrganizationID a \<mapsto> chain_of c (ap_OrganizationID a) @ [receipt']);
                              byKey = (if ap_IdempotencyKey a \<noteq> ''''
                                       then (ch_byKey c)(audit_key a \<mapsto> receipt') else ch_byKey c)
                          in (Inr receipt', c\<lparr>ch_receipts := receipts, ch_byKey := byKey\<rparr>))"

definition audit_List :: "string \<Rightarrow> Chain \<Rightarrow> Receipt list" where
  "audit_List org c = chain_of c org"

text \<open>The loop of \<^verbatim>\<open>Verify\<close>, at position \<open>n\<close> with the hash of the receipt before.\<close>

fun verify_from ::
  "(Receipt \<Rightarrow> string option) \<Rightarrow> (string \<Rightarrow> string) \<Rightarrow> nat \<Rightarrow> string \<Rightarrow> Receipt list \<Rightarrow> audit_error + unit" where
  "verify_from marshal sha n previous [] = Inr ()"
| "verify_from marshal sha n previous (r # rs) =
     (if rc_Sequence r \<noteq> int n + 1 \<or> rc_PreviousHash r \<noteq> previous then Inl (ErrDiscontinuity (rc_Sequence r))
      else case hashReceipt marshal sha r of
             Inl e \<Rightarrow> Inl e
           | Inr expected \<Rightarrow>
               if rc_Hash r \<noteq> expected then Inl (ErrTampered (rc_Sequence r))
               else verify_from marshal sha (Suc n) (rc_Hash r) rs)"

definition audit_Verify :: "(Receipt \<Rightarrow> string option) \<Rightarrow> (string \<Rightarrow> string) \<Rightarrow> string \<Rightarrow> Chain \<Rightarrow> audit_error + unit" where
  "audit_Verify marshal sha org c = verify_from marshal sha 0 '''' (chain_of c org)"

definition audit_VerifyContentCommitment ::
  "(string \<Rightarrow> string \<Rightarrow> string) \<Rightarrow> Chain \<Rightarrow> string \<Rightarrow> string \<Rightarrow> string \<Rightarrow> bool" where
  "audit_VerifyContentCommitment mac c epoch content commitment \<longleftrightarrow>
     epoch \<noteq> '''' \<and> content \<noteq> '''' \<and> commitment \<noteq> '''' \<and> audit_commit mac c epoch content = commitment"

section \<open>Every chain the code builds verifies\<close>

inductive audit_step ::
  "(Receipt \<Rightarrow> string option) \<Rightarrow> (string \<Rightarrow> string) \<Rightarrow> (string \<Rightarrow> string \<Rightarrow> string) \<Rightarrow> Chain \<Rightarrow> Chain \<Rightarrow> bool"
  for marshal sha mac where
  "audit_step marshal sha mac c (snd (audit_Append marshal sha mac a i now c))"

definition chain_hash :: "string \<Rightarrow> Receipt list \<Rightarrow> string" where
  "chain_hash previous rs = (if rs = [] then previous else rc_Hash (last rs))"

lemma verify_from_snoc:
  "verify_from marshal sha n p (rs @ [r]) = Inr () \<longleftrightarrow>
     verify_from marshal sha n p rs = Inr ()
     \<and> rc_Sequence r = int (n + length rs) + 1 \<and> rc_PreviousHash r = chain_hash p rs
     \<and> hashReceipt marshal sha r = Inr (rc_Hash r)"
proof (induction rs arbitrary: n p)
  case Nil
  then show ?case by (auto simp: chain_hash_def split: sum.split)
next
  case (Cons x rs)
  have "chain_hash (rc_Hash x) rs = chain_hash p (x # rs)" by (simp add: chain_hash_def)
  with Cons [of "Suc n" "rc_Hash x"] show ?case by (auto split: sum.split)
qed

lemma hashReceipt_hash [simp]: "hashReceipt marshal sha (r\<lparr>rc_Hash := h\<rparr>) = hashReceipt marshal sha r"
  by (simp add: hashReceipt_def)

lemma audit_step_verified:
  assumes "audit_step marshal sha mac c c'" "\<forall>org. audit_Verify marshal sha org c = Inr ()"
  shows "audit_Verify marshal sha org c' = Inr ()"
  using assms(1)
proof cases
  case (1 a i now)
  let ?r = "next_receipt mac a i now c" and ?o = "ap_OrganizationID a"
  show ?thesis
  proof (cases "ch_receipts c' = ch_receipts c")
    case True
    then show ?thesis using assms(2) by (simp add: audit_Verify_def chain_of_def)
  next
    case False
    then obtain h where h: "hashReceipt marshal sha ?r = Inr h"
      "ch_receipts c' = (ch_receipts c)(?o \<mapsto> chain_of c ?o @ [?r\<lparr>rc_Hash := h\<rparr>])"
      unfolding 1 audit_Append_def
      by (auto simp: Let_def split: sum.splits option.splits if_splits)
    have "rc_Sequence ?r = int (length (chain_of c ?o)) + 1" "rc_PreviousHash ?r = chain_hash '''' (chain_of c ?o)"
      by (simp_all add: next_receipt_def Let_def chain_hash_def)
    with h assms(2) have "verify_from marshal sha 0 '''' (chain_of c ?o @ [?r\<lparr>rc_Hash := h\<rparr>]) = Inr ()"
      by (simp add: verify_from_snoc audit_Verify_def)
    then show ?thesis using assms(2) h(2) by (simp add: audit_Verify_def chain_of_def)
  qed
qed

lemma audit_chain_verifies:
  assumes "audit_New key = Inr c0" "(audit_step marshal sha mac)\<^sup>*\<^sup>* c0 c"
  shows "\<forall>org. audit_Verify marshal sha org c = Inr ()"
  using assms(2)
proof (induction rule: rtranclp_induct)
  case base
  show ?case using assms(1) by (auto simp: audit_New_def audit_Verify_def chain_of_def lookup_zero_def split: if_splits)
next
  case (step c c')
  then show ?case using audit_step_verified by blast
qed

text \<open>
  Every chain the code builds verifies: from a fresh chain, after any number of appends,
  \<open>Verify\<close> accepts every organization's receipts, whatever encoder, digest and HMAC are used.
\<close>

theorem appended_chains_verify:
  assumes "audit_New key = Inr c0" "(audit_step marshal sha mac)\<^sup>*\<^sup>* c0 c"
  shows "audit_Verify marshal sha org c = Inr ()"
  using audit_chain_verifies [OF assms] by blast

definition sample_request :: AppendRequest where
  "sample_request = \<lparr>ap_OrganizationID = ''o'', ap_Type = ''t'', ap_ActorID = ''u'', ap_ResourceID = ''r'',
     ap_Metadata = [(''job_id'', MetaString ''j'')], ap_RetentionEpoch = ''2026-01'', ap_IdempotencyKey = ''k'', ap_Content = ''''\<rparr>"

theorem appended_chains_verify_witness:
  "\<exists>c0. audit_New (replicate 32 CHR ''x'') = Inr c0
     \<and> audit_Verify (\<lambda>r. Some (rc_Type r @ rc_PreviousHash r)) rev ''o''
          (snd (audit_Append (\<lambda>r. Some (rc_Type r @ rc_PreviousHash r)) rev (@) sample_request ''i'' 9 c0)) = Inr ()"
proof -
  obtain c0 where c0: "audit_New (replicate 32 CHR ''x'') = Inr c0" by (simp add: audit_New_def)
  have "(audit_step (\<lambda>r. Some (rc_Type r @ rc_PreviousHash r)) rev (@))\<^sup>*\<^sup>* c0
      (snd (audit_Append (\<lambda>r. Some (rc_Type r @ rc_PreviousHash r)) rev (@) sample_request ''i'' 9 c0))"
    by (rule r_into_rtranclp) (rule audit_step.intros)
  from appended_chains_verify [OF c0 this] c0 show ?thesis by blast
qed

section \<open>Tamper evidence\<close>

text \<open>Two different receipts, hashes aside, with the same digest.\<close>

definition collision :: "(Receipt \<Rightarrow> string option) \<Rightarrow> (string \<Rightarrow> string) \<Rightarrow> Receipt \<Rightarrow> Receipt \<Rightarrow> bool" where
  "collision marshal sha a b \<longleftrightarrow>
     a\<lparr>rc_Hash := ''''\<rparr> \<noteq> b\<lparr>rc_Hash := ''''\<rparr> \<and> (\<exists>h. hashReceipt marshal sha a = Inr h \<and> hashReceipt marshal sha b = Inr h)"

lemma receipt_eq_hash: "a\<lparr>rc_Hash := ''''\<rparr> = b\<lparr>rc_Hash := ''''\<rparr> \<Longrightarrow> rc_Hash a = rc_Hash b \<Longrightarrow> a = (b :: Receipt)"
  by (cases a; cases b) simp

lemma verified_last:
  "verify_from marshal sha 0 '''' (rs @ [r]) = Inr () \<Longrightarrow>
     rc_Sequence r = int (length rs) + 1 \<and> hashReceipt marshal sha r = Inr (rc_Hash r)"
  by (simp add: verify_from_snoc)

text \<open>The sequence number is part of what is hashed, so chains of different lengths differ in their heads.\<close>

lemma verified_lengths_equal:
  assumes "verify_from marshal sha 0 '''' xs = Inr ()" "verify_from marshal sha 0 '''' ys = Inr ()"
    and "xs \<noteq> []" "ys \<noteq> []" "rc_Hash (last xs) = rc_Hash (last ys)"
    and "\<forall>a \<in> set xs. \<forall>b \<in> set ys. \<not> collision marshal sha a b"
  shows "length xs = length ys"
proof (rule ccontr)
  assume differ: "length xs \<noteq> length ys"
  obtain xs' x ys' y where split: "xs = xs' @ [x]" "ys = ys' @ [y]"
    using assms(3,4) by (metis rev_exhaust)
  from verified_last [of marshal sha xs' x] verified_last [of marshal sha ys' y] assms(1,2) split differ
  have "rc_Sequence x \<noteq> rc_Sequence y" "hashReceipt marshal sha x = Inr (rc_Hash x)" "hashReceipt marshal sha y = Inr (rc_Hash y)"
    by simp_all
  moreover from this(1) have "x\<lparr>rc_Hash := ''''\<rparr> \<noteq> y\<lparr>rc_Hash := ''''\<rparr>" by (cases x; cases y) simp
  ultimately have "collision marshal sha x y" using assms(5) split by (simp add: collision_def)
  with assms(6) split show False by simp
qed

lemma verified_chains_equal:
  assumes "verify_from marshal sha 0 '''' xs = Inr ()" "verify_from marshal sha 0 '''' ys = Inr ()"
    and "length xs = length ys" "chain_hash '''' xs = chain_hash '''' ys"
    and "\<forall>a \<in> set xs. \<forall>b \<in> set ys. \<not> collision marshal sha a b"
  shows "xs = ys"
  using assms
proof (induction xs arbitrary: ys rule: rev_induct)
  case (snoc x xs)
  obtain zs y where ys: "ys = zs @ [y]" using snoc.prems(3) by (cases ys rule: rev_cases) auto
  have hash: "rc_Hash x = rc_Hash y" using snoc.prems(4) ys by (simp add: chain_hash_def)
  have "hashReceipt marshal sha x = Inr (rc_Hash x)" "hashReceipt marshal sha y = Inr (rc_Hash x)"
    using snoc.prems(1,2) ys hash by (simp_all add: verify_from_snoc)
  then have "x\<lparr>rc_Hash := ''''\<rparr> = y\<lparr>rc_Hash := ''''\<rparr>"
    using snoc.prems(5) ys unfolding collision_def by auto
  with hash have xy: "x = y" by (rule receipt_eq_hash [rotated])
  have "xs = zs"
  proof (rule snoc.IH)
    show "verify_from marshal sha 0 '''' xs = Inr ()" "verify_from marshal sha 0 '''' zs = Inr ()"
      "chain_hash '''' xs = chain_hash '''' zs"
      using snoc.prems(1,2) ys xy by (simp_all add: verify_from_snoc)
  qed (use snoc.prems ys in auto)
  with xy ys show ?case by simp
qed simp

text \<open>
  C24. The chain is tamper evident: if two receipt lists verify and end in the same hash, then
  they are equal, or they contain two different receipts with the same digest; so altering,
  removing, inserting or reordering any receipt below a known head takes a collision of the
  encoder and the digest, whatever these are.
\<close>

theorem audit_tamper_evident:
  assumes "audit_Verify marshal sha org c = Inr ()" "audit_Verify marshal sha org' c' = Inr ()"
    and "audit_List org c \<noteq> []" "audit_List org' c' \<noteq> []"
    and "rc_Hash (last (audit_List org c)) = rc_Hash (last (audit_List org' c'))"
  shows "audit_List org c = audit_List org' c'
         \<or> (\<exists>a \<in> set (audit_List org c). \<exists>b \<in> set (audit_List org' c'). collision marshal sha a b)"
proof (rule ccontr)
  assume "\<not> ?thesis"
  then have *: "\<forall>a \<in> set (chain_of c org). \<forall>b \<in> set (chain_of c' org'). \<not> collision marshal sha a b"
      "chain_of c org \<noteq> chain_of c' org'"
    by (simp_all add: audit_List_def)
  note verified = assms(1,2) [unfolded audit_Verify_def]
  have "length (chain_of c org) = length (chain_of c' org')"
    using verified_lengths_equal [OF verified _ _ _ *(1)] assms(3-5) by (simp add: audit_List_def)
  moreover have "chain_hash '''' (chain_of c org) = chain_hash '''' (chain_of c' org')"
    using assms(3-5) by (simp add: chain_hash_def audit_List_def)
  ultimately show False using verified_chains_equal [OF verified _ _ *(1)] *(2) by blast
qed

text \<open>
  Chains of two receipts under an encoder that keeps a receipt's resource and the hash before it
  and forgets the rest.  Two chains that differ in an actor have the same head, and their
  receipts collide; two chains that differ in a resource cannot have the same head.
\<close>

definition sample_receipt :: "string \<Rightarrow> string \<Rightarrow> int \<Rightarrow> string \<Rightarrow> string \<Rightarrow> Receipt" where
  "sample_receipt actor resource n previous h =
     \<lparr>rc_ID = ''i'', rc_OrganizationID = ''o'', rc_Sequence = n, rc_Type = ''t'',
      rc_ActorID = actor, rc_ResourceID = resource, rc_Metadata = [], rc_RetentionEpoch = ''2026-01'',
      rc_IdempotencyKey = '''', rc_ContentCommitment = '''', rc_PreviousHash = previous, rc_Hash = h, rc_CreatedAt = 9\<rparr>"

definition chain_with :: "Receipt list \<Rightarrow> Chain" where
  "chain_with rs = \<lparr>ch_hmacKey = replicate 32 CHR ''x'', ch_receipts = [''o'' \<mapsto> rs], ch_byKey = Map.empty\<rparr>"

definition forgetful_marshal :: "Receipt \<Rightarrow> string option" where
  "forgetful_marshal r = Some (rc_ResourceID r @ rc_PreviousHash r)"

definition sample_hash :: "string \<Rightarrow> string \<Rightarrow> string" where
  "sample_hash resource previous = ''sha256:'' @ hex_encode (resource @ previous)"

definition sample_pair :: "string \<Rightarrow> string \<Rightarrow> Receipt list" where
  "sample_pair actor resource =
     [sample_receipt actor resource 1 '''' (sample_hash resource ''''),
      sample_receipt ''v'' ''s'' 2 (sample_hash resource '''') (sample_hash ''s'' (sample_hash resource ''''))]"

lemma audit_List_chain_with: "audit_List ''o'' (chain_with rs) = rs"
  by (simp add: audit_List_def chain_of_def chain_with_def lookup_zero_def)

lemma sample_pair_verifies: "audit_Verify forgetful_marshal id ''o'' (chain_with (sample_pair actor resource)) = Inr ()"
  by (simp add: audit_Verify_def audit_List_chain_with [unfolded audit_List_def] sample_pair_def sample_receipt_def hashReceipt_def
      forgetful_marshal_def sample_hash_def)

lemma sample_pair_simps:
  "sample_pair actor resource \<noteq> []"
  "rc_Hash (last (sample_pair actor resource)) = sample_hash ''s'' (sample_hash resource '''')"
  "sample_pair ''u'' ''r'' \<noteq> sample_pair ''w'' ''r''" "sample_pair ''u'' ''r'' \<noteq> sample_pair ''u'' ''x''"
  by (simp_all add: sample_pair_def sample_receipt_def)

lemma hex_encode_eq_iff: "hex_encode s = hex_encode s' \<longleftrightarrow> s = s'"
proof
  have digits: "distinct ''0123456789abcdef''" "length ''0123456789abcdef'' = 16" by simp_all
  have byte: "c = c'"
    if "''0123456789abcdef'' ! (of_char c div 16) = ''0123456789abcdef'' ! (of_char c' div 16)"
      "''0123456789abcdef'' ! (of_char c mod 16) = ''0123456789abcdef'' ! (of_char c' mod 16)" for c c' :: char
  proof -
    have small: "(of_char c :: nat) div 16 < 16" "(of_char c' :: nat) div 16 < 16"
      using nat_of_char_less_256 [of c] nat_of_char_less_256 [of c'] by linarith+
    have "(of_char c :: nat) div 16 = of_char c' div 16" "(of_char c :: nat) mod 16 = of_char c' mod 16"
      using that nth_eq_iff_index_eq [OF digits(1)] small unfolding digits(2) by simp_all
    then have "(of_char c :: nat) = of_char c'" by (metis mult_div_mod_eq)
    then show ?thesis by simp
  qed
  assume "hex_encode s = hex_encode s'"
  then show "s = s'"
  proof (induction s arbitrary: s')
    case Nil
    then show ?case by (cases s') (simp_all add: hex_encode_def Let_def)
  next
    case (Cons c s)
    then obtain c' t where "s' = c' # t" by (cases s') (simp_all add: hex_encode_def Let_def)
    with Cons byte [of c c'] show ?case by (simp add: hex_encode_def Let_def)
  qed
qed simp

lemma sample_pair_no_collision:
  assumes "a \<in> set (sample_pair ''u'' ''r'')" "b \<in> set (sample_pair ''u'' ''x'')"
  shows "\<not> collision forgetful_marshal id a b"
proof
  assume "collision forgetful_marshal id a b"
  then have "rc_ResourceID a @ rc_PreviousHash a = rc_ResourceID b @ rc_PreviousHash b"
    by (auto simp: collision_def hashReceipt_def forgetful_marshal_def hex_encode_eq_iff)
  with assms show False
    by (auto simp: sample_pair_def sample_receipt_def sample_hash_def hex_encode_eq_iff)
qed

theorem audit_tamper_evident_witness:
  "sample_pair ''u'' ''r'' \<noteq> sample_pair ''w'' ''r''
   \<and> (\<exists>a \<in> set (sample_pair ''u'' ''r''). \<exists>b \<in> set (sample_pair ''w'' ''r''). collision forgetful_marshal id a b)
   \<and> rc_Hash (last (sample_pair ''u'' ''r'')) \<noteq> rc_Hash (last (sample_pair ''u'' ''x''))"
proof (intro conjI)
  note evident = audit_tamper_evident [OF sample_pair_verifies sample_pair_verifies, unfolded audit_List_chain_with,
      OF sample_pair_simps(1) sample_pair_simps(1)]
  show "sample_pair ''u'' ''r'' \<noteq> sample_pair ''w'' ''r''" by (rule sample_pair_simps(3))
  show "\<exists>a \<in> set (sample_pair ''u'' ''r''). \<exists>b \<in> set (sample_pair ''w'' ''r''). collision forgetful_marshal id a b"
    using evident [of "''u''" "''r''" "''w''" "''r''"] sample_pair_simps(2,3) by simp
  show "rc_Hash (last (sample_pair ''u'' ''r'')) \<noteq> rc_Hash (last (sample_pair ''u'' ''x''))"
    using evident [of "''u''" "''r''" "''u''" "''x''"] sample_pair_simps(4) sample_pair_no_collision by blast
qed

end

