(* ===== verification/OrgConfig.thy ===== *)
theory OrgConfig
  imports Types
begin

text \<open>
  Organization, workspace and channel policy: the in-memory store of
  \<^verbatim>\<open>core/orgconfig/store.go\<close>.  The kill switch of an organization and a disabled or unknown
  workspace override the policy of every channel; metadata that Slack reports never loosens
  a restriction and never overrides an operator's participation mode.
\<close>

section \<open>Data\<close>

record Organization =
  org_PublicID :: string
  org_Name :: string
  org_EnrollmentMode :: string
  org_KillSwitch :: bool
  org_DefaultModelProfile :: string
  org_CreatedAt :: time
  org_UpdatedAt :: time
  org_Version :: int

record Workspace =
  ws_PublicID :: string
  ws_OrganizationID :: string
  ws_TeamID :: string
  ws_Name :: string
  ws_Enabled :: bool
  ws_CreatedAt :: time
  ws_UpdatedAt :: time
  ws_Version :: int

record ChannelPolicy =
  cp_OrganizationID :: string
  cp_TeamID :: string
  cp_ChannelID :: string
  cp_Name :: string
  cp_Enrolled :: bool
  cp_Restricted :: bool
  cp_ParticipationMode :: ParticipationMode
  cp_KillSwitch :: bool
  cp_Cooldown :: duration
  cp_MaxResponsesPerHour :: int
  cp_MaxConcurrentJobs :: int
  cp_DefaultModelProfile :: string
  cp_ContextHistoryMode :: ContextHistoryMode
  cp_ApproverUserIDs :: "string list"
  cp_TrustedIntegrationBotIDs :: "string list"
  cp_BotIsMember :: bool
  cp_BotMembershipKnown :: bool
  cp_ParticipationManagedByMembership :: bool
  cp_WorkspaceEnabled :: bool
  cp_MembershipRevision :: string
  cp_MembershipRefreshedAt :: time
  cp_Version :: int

datatype orgconfig_error =
    OrgErrNotFound
  | ErrScopeRequired
  | ErrParticipationMode
  | ErrContextHistoryMode
  | ErrAdmissionLimits
  | ErrApproverEmpty
  | ErrApproverDuplicate
  | ErrIntegrationBot
  | ErrIntegrationBotDuplicate

section \<open>Validation\<close>

definition validSlackBotID :: "string \<Rightarrow> bool" where
  "validSlackBotID v \<longleftrightarrow>
     2 \<le> length v \<and> hd v = CHR ''B''
     \<and> list_all (\<lambda>c. (CHR ''A'' \<le> c \<and> c \<le> CHR ''Z'') \<or> (CHR ''0'' \<le> c \<and> c \<le> CHR ''9'')) (tl v)"

text \<open>The two loops over identifier lists, with the set of the ones already seen.\<close>

fun check_approvers :: "string list \<Rightarrow> string set \<Rightarrow> orgconfig_error + unit" where
  "check_approvers [] seen = Inr ()"
| "check_approvers (u # us) seen =
     (if u = '''' then Inl ErrApproverEmpty
      else if u \<in> seen then Inl ErrApproverDuplicate
      else check_approvers us (insert u seen))"

fun check_bots :: "string list \<Rightarrow> string set \<Rightarrow> orgconfig_error + unit" where
  "check_bots [] seen = Inr ()"
| "check_bots (b # bs) seen =
     (if \<not> validSlackBotID b then Inl ErrIntegrationBot
      else if b \<in> seen then Inl ErrIntegrationBotDuplicate
      else check_bots bs (insert b seen))"

definition ValidateChannel :: "ChannelPolicy \<Rightarrow> orgconfig_error + unit" where
  "ValidateChannel p =
     (if cp_OrganizationID p = '''' \<or> cp_TeamID p = '''' \<or> cp_ChannelID p = ''''
         \<or> cp_MembershipRevision p = '''' \<or> IsZero (cp_MembershipRefreshedAt p)
      then Inl ErrScopeRequired
      else if cp_ParticipationMode p \<notin> {ModeObserve, ModeMention, ModeAssist, ModeProactive}
      then Inl ErrParticipationMode
      else if cp_ContextHistoryMode p \<notin> {HistoryUnset, ContextHistoryDurable, ContextHistorySessionOnly}
      then Inl ErrContextHistoryMode
      else if cp_Cooldown p < 0 \<or> cp_MaxResponsesPerHour p \<le> 0 \<or> cp_MaxConcurrentJobs p \<le> 0
      then Inl ErrAdmissionLimits
      else case check_approvers (cp_ApproverUserIDs p) {} of
             Inl e \<Rightarrow> Inl e
           | Inr _ \<Rightarrow> check_bots (cp_TrustedIntegrationBotIDs p) {})"

section \<open>The store\<close>

record OrgStore =
  os_organizations :: "string \<rightharpoonup> Organization"
  os_workspaces :: "string \<rightharpoonup> Workspace"
  os_channels :: "string \<rightharpoonup> ChannelPolicy"

definition NewOrgStore :: OrgStore where
  "NewOrgStore = \<lparr>os_organizations = Map.empty, os_workspaces = Map.empty, os_channels = Map.empty\<rparr>"

definition scopeKey :: "string \<Rightarrow> string \<Rightarrow> string \<Rightarrow> string" where
  "scopeKey org team channel = org @ ''/'' @ team @ ''/'' @ channel"

definition workspaceKey :: "string \<Rightarrow> string \<Rightarrow> string" where
  "workspaceKey org team = org @ ''/'' @ team"

definition org_killed :: "OrgStore \<Rightarrow> string \<Rightarrow> bool" where
  "org_killed s org = (case os_organizations s org of None \<Rightarrow> False | Some o' \<Rightarrow> org_KillSwitch o')"

definition orgconfig_Resolve :: "string \<Rightarrow> string \<Rightarrow> string \<Rightarrow> OrgStore \<Rightarrow> orgconfig_error + ChannelPolicy" where
  "orgconfig_Resolve org team channel s =
     (case os_channels s (scopeKey org team channel) of
        None \<Rightarrow> Inl OrgErrNotFound
      | Some v \<Rightarrow>
          let v1 = (if org_killed s org then v\<lparr>cp_KillSwitch := True\<rparr> else v)
          in case os_workspaces s (workspaceKey org team) of
               None \<Rightarrow> Inl OrgErrNotFound
             | Some w \<Rightarrow> Inr (v1\<lparr>cp_WorkspaceEnabled := ws_Enabled w,
                                cp_KillSwitch := cp_KillSwitch v1 \<or> \<not> ws_Enabled w\<rparr>))"

definition orgconfig_GetOrganization :: "string \<Rightarrow> OrgStore \<Rightarrow> orgconfig_error + Organization" where
  "orgconfig_GetOrganization org s =
     (case os_organizations s org of None \<Rightarrow> Inl OrgErrNotFound | Some o' \<Rightarrow> Inr o')"

definition orgconfig_ListOrganizations :: "string list \<Rightarrow> OrgStore \<Rightarrow> Organization list" where
  "orgconfig_ListOrganizations ord s =
     sort_key (\<lambda>o'. (org_Name o', org_PublicID o')) (vals ord (os_organizations s))"

definition orgconfig_PutOrganization :: "Organization \<Rightarrow> OrgStore \<Rightarrow> (orgconfig_error, Organization, OrgStore) outcome" where
  "orgconfig_PutOrganization v s =
     (if org_PublicID v = '''' then (Inl OrgErrNotFound, s)
      else
        let v' = v\<lparr>org_Version := (case os_organizations s (org_PublicID v) of
                                    None \<Rightarrow> 1 | Some old \<Rightarrow> org_Version old + 1)\<rparr>
        in (Inr v', s\<lparr>os_organizations := (os_organizations s)(org_PublicID v \<mapsto> v')\<rparr>))"

definition orgconfig_PutWorkspace :: "Workspace \<Rightarrow> OrgStore \<Rightarrow> (orgconfig_error, Workspace, OrgStore) outcome" where
  "orgconfig_PutWorkspace v s =
     (if ws_OrganizationID v = '''' \<or> ws_TeamID v = '''' then (Inl OrgErrNotFound, s)
      else
        let key = workspaceKey (ws_OrganizationID v) (ws_TeamID v);
            v' = v\<lparr>ws_Version := (case os_workspaces s key of None \<Rightarrow> 1 | Some old \<Rightarrow> ws_Version old + 1)\<rparr>
        in (Inr v', s\<lparr>os_workspaces := (os_workspaces s)(key \<mapsto> v')\<rparr>))"

definition orgconfig_GetWorkspace :: "string \<Rightarrow> string \<Rightarrow> OrgStore \<Rightarrow> orgconfig_error + Workspace" where
  "orgconfig_GetWorkspace org team s =
     (case os_workspaces s (workspaceKey org team) of None \<Rightarrow> Inl OrgErrNotFound | Some w \<Rightarrow> Inr w)"

definition normalizedContextHistoryMode :: "ContextHistoryMode \<Rightarrow> ContextHistoryMode" where
  "normalizedContextHistoryMode m =
     (if m = HistoryUnset then ContextHistoryDurable else m)"

definition channelKey :: "ChannelPolicy \<Rightarrow> string" where
  "channelKey v = scopeKey (cp_OrganizationID v) (cp_TeamID v) (cp_ChannelID v)"

definition orgconfig_PutChannel :: "ChannelPolicy \<Rightarrow> OrgStore \<Rightarrow> (orgconfig_error, ChannelPolicy, OrgStore) outcome" where
  "orgconfig_PutChannel v s =
     (case ValidateChannel v of
        Inl e \<Rightarrow> (Inl e, s)
      | Inr _ \<Rightarrow>
          let key = channelKey v;
              v' = v\<lparr>cp_ContextHistoryMode := normalizedContextHistoryMode (cp_ContextHistoryMode v),
                     cp_Version := (case os_channels s key of None \<Rightarrow> 1 | Some old \<Rightarrow> cp_Version old + 1)\<rparr>
          in (Inr v', s\<lparr>os_channels := (os_channels s)(key \<mapsto> v')\<rparr>))"

text \<open>The stored policy after Slack reported the channel metadata of \<open>v\<close>.\<close>

definition refreshed_channel :: "ChannelPolicy \<Rightarrow> ChannelPolicy \<Rightarrow> ChannelPolicy" where
  "refreshed_channel v c =
     (let c1 = (if cp_Name v \<noteq> '''' then c\<lparr>cp_Name := cp_Name v\<rparr> else c);
          c2 = c1\<lparr>cp_Restricted := cp_Restricted c1 \<or> cp_Restricted v,
                  cp_MembershipRevision := cp_MembershipRevision v,
                  cp_MembershipRefreshedAt := cp_MembershipRefreshedAt v\<rparr>;
          c3 = (if cp_BotMembershipKnown v
                then c2\<lparr>cp_BotIsMember := cp_BotIsMember v, cp_BotMembershipKnown := True\<rparr> else c2);
          c4 = (if cp_ParticipationManagedByMembership v
                then c3\<lparr>cp_ParticipationMode := cp_ParticipationMode v, cp_ParticipationManagedByMembership := True\<rparr>
                else if cp_BotMembershipKnown v \<and> cp_ParticipationManagedByMembership c3
                then c3\<lparr>cp_ParticipationMode := ModeObserve, cp_ParticipationManagedByMembership := False\<rparr>
                else c3)
      in c4\<lparr>cp_Version := cp_Version c4 + 1\<rparr>)"

definition orgconfig_UpsertContextChannel ::
  "ChannelPolicy \<Rightarrow> OrgStore \<Rightarrow> (orgconfig_error, ChannelPolicy, OrgStore) outcome" where
  "orgconfig_UpsertContextChannel v s =
     (case ValidateChannel v of
        Inl e \<Rightarrow> (Inl e, s)
      | Inr _ \<Rightarrow>
          let key = channelKey v;
              v' = (case os_channels s key of Some c \<Rightarrow> refreshed_channel v c | None \<Rightarrow> v\<lparr>cp_Version := 1\<rparr>)
          in (Inr v', s\<lparr>os_channels := (os_channels s)(key \<mapsto> v')\<rparr>))"

definition listed_channel :: "OrgStore \<Rightarrow> string \<Rightarrow> ChannelPolicy \<Rightarrow> ChannelPolicy" where
  "listed_channel s org v =
     (let v1 = (if org_killed s org then v\<lparr>cp_KillSwitch := True\<rparr> else v)
      in case os_workspaces s (workspaceKey org (cp_TeamID v1)) of
           Some w \<Rightarrow> v1\<lparr>cp_WorkspaceEnabled := ws_Enabled w, cp_KillSwitch := cp_KillSwitch v1 \<or> \<not> ws_Enabled w\<rparr>
         | None \<Rightarrow> v1\<lparr>cp_WorkspaceEnabled := False, cp_KillSwitch := True\<rparr>)"

definition orgconfig_ListChannels :: "string list \<Rightarrow> string \<Rightarrow> OrgStore \<Rightarrow> ChannelPolicy list" where
  "orgconfig_ListChannels ord org s =
     sort_key cp_ChannelID
       (map (listed_channel s org) (filter (\<lambda>v. cp_OrganizationID v = org) (vals ord (os_channels s))))"

section \<open>Validation, as one statement\<close>

lemma check_approvers_ok:
  "check_approvers us seen = Inr () \<longleftrightarrow> '''' \<notin> set us \<and> distinct us \<and> set us \<inter> seen = {}"
  by (induction us arbitrary: seen) auto

lemma check_bots_ok:
  "check_bots bs seen = Inr () \<longleftrightarrow> list_all validSlackBotID bs \<and> distinct bs \<and> set bs \<inter> seen = {}"
  by (induction bs arbitrary: seen) auto

text \<open>
  A channel policy passes validation exactly when its scope and membership revision are
  set, its modes are known, its cooldown is not negative, its limits are positive, and its
  approvers and trusted bots are distinct well-formed identifiers.
\<close>

theorem ValidateChannel_iff:
  "ValidateChannel p = Inr () \<longleftrightarrow>
     cp_OrganizationID p \<noteq> '''' \<and> cp_TeamID p \<noteq> '''' \<and> cp_ChannelID p \<noteq> ''''
     \<and> cp_MembershipRevision p \<noteq> '''' \<and> cp_MembershipRefreshedAt p \<noteq> 0
     \<and> cp_ParticipationMode p \<in> {ModeObserve, ModeMention, ModeAssist, ModeProactive}
     \<and> cp_ContextHistoryMode p \<in> {HistoryUnset, ContextHistoryDurable, ContextHistorySessionOnly}
     \<and> 0 \<le> cp_Cooldown p \<and> 0 < cp_MaxResponsesPerHour p \<and> 0 < cp_MaxConcurrentJobs p
     \<and> '''' \<notin> set (cp_ApproverUserIDs p) \<and> distinct (cp_ApproverUserIDs p)
     \<and> list_all validSlackBotID (cp_TrustedIntegrationBotIDs p) \<and> distinct (cp_TrustedIntegrationBotIDs p)"
proof -
  have "(case check_approvers us {} of Inl e \<Rightarrow> Inl e | Inr _ \<Rightarrow> check_bots bs {}) = Inr ()
        \<longleftrightarrow> check_approvers us {} = Inr () \<and> check_bots bs {} = Inr ()" for us bs
    by (auto split: sum.split)
  then show ?thesis
    by (simp add: ValidateChannel_def IsZero_def zero_time_def check_approvers_ok check_bots_ok not_less not_le)
qed

section \<open>The store's invariant\<close>

definition channels_ok :: "OrgStore \<Rightarrow> bool" where
  "channels_ok s \<longleftrightarrow>
     (\<forall>k v. os_channels s k = Some v \<longrightarrow> k = channelKey v \<and> ValidateChannel v = Inr () \<and> 0 < cp_Version v)"

lemma channels_okD:
  "channels_ok s \<Longrightarrow> os_channels s k = Some v \<Longrightarrow>
     k = channelKey v \<and> ValidateChannel v = Inr () \<and> 0 < cp_Version v"
  unfolding channels_ok_def by blast

inductive org_step :: "OrgStore \<Rightarrow> OrgStore \<Rightarrow> bool" where
  "org_step s (snd (orgconfig_PutOrganization o' s))"
| "org_step s (snd (orgconfig_PutWorkspace w s))"
| "org_step s (snd (orgconfig_PutChannel v s))"
| "org_step s (snd (orgconfig_UpsertContextChannel v s))"

lemma channels_ok_update:
  assumes "channels_ok s" "channelKey v' = k" "ValidateChannel v' = Inr ()" "0 < cp_Version v'"
  shows "channels_ok (s\<lparr>os_channels := (os_channels s)(k \<mapsto> v')\<rparr>)"
  using assms by (auto simp: channels_ok_def)

lemma ValidateChannel_normalized:
  "ValidateChannel v = Inr () \<Longrightarrow>
   ValidateChannel (v\<lparr>cp_ContextHistoryMode := normalizedContextHistoryMode (cp_ContextHistoryMode v), cp_Version := n\<rparr>) = Inr ()"
  by (auto simp: ValidateChannel_iff normalizedContextHistoryMode_def)

lemma refreshed_channel_fields:
  "channelKey (refreshed_channel v c) = channelKey c"
  "cp_Version (refreshed_channel v c) = cp_Version c + 1"
  "cp_Enrolled (refreshed_channel v c) = cp_Enrolled c"
  "cp_KillSwitch (refreshed_channel v c) = cp_KillSwitch c"
  "cp_Cooldown (refreshed_channel v c) = cp_Cooldown c"
  "cp_MaxResponsesPerHour (refreshed_channel v c) = cp_MaxResponsesPerHour c"
  "cp_MaxConcurrentJobs (refreshed_channel v c) = cp_MaxConcurrentJobs c"
  "cp_ApproverUserIDs (refreshed_channel v c) = cp_ApproverUserIDs c"
  "cp_TrustedIntegrationBotIDs (refreshed_channel v c) = cp_TrustedIntegrationBotIDs c"
  "cp_ContextHistoryMode (refreshed_channel v c) = cp_ContextHistoryMode c"
  "cp_DefaultModelProfile (refreshed_channel v c) = cp_DefaultModelProfile c"
  "cp_OrganizationID (refreshed_channel v c) = cp_OrganizationID c"
  "cp_TeamID (refreshed_channel v c) = cp_TeamID c"
  "cp_ChannelID (refreshed_channel v c) = cp_ChannelID c"
  "cp_MembershipRevision (refreshed_channel v c) = cp_MembershipRevision v"
  "cp_MembershipRefreshedAt (refreshed_channel v c) = cp_MembershipRefreshedAt v"
  "cp_Restricted (refreshed_channel v c) = (cp_Restricted c \<or> cp_Restricted v)"
  "cp_ParticipationMode (refreshed_channel v c) =
     (if cp_ParticipationManagedByMembership v then cp_ParticipationMode v
      else if cp_BotMembershipKnown v \<and> cp_ParticipationManagedByMembership c then ModeObserve
      else cp_ParticipationMode c)"
  by (simp_all add: refreshed_channel_def channelKey_def Let_def)

lemma ValidateChannel_refreshed:
  assumes "ValidateChannel c = Inr ()" "ValidateChannel v = Inr ()"
  shows "ValidateChannel (refreshed_channel v c) = Inr ()"
  using assms by (simp add: ValidateChannel_iff refreshed_channel_fields)

lemma channels_ok_step:
  assumes "org_step s s'" "channels_ok s"
  shows "channels_ok s'"
  using assms
proof (induction rule: org_step.induct)
  case (3 s v)
  show ?case
  proof (cases "ValidateChannel v")
    case (Inr u)
    then have ok: "ValidateChannel v = Inr ()" by simp
    define n where "n = (case os_channels s (channelKey v) of None \<Rightarrow> 1 | Some old \<Rightarrow> cp_Version old + 1)"
    have "0 < n"
    proof (cases "os_channels s (channelKey v)")
      case (Some old)
      with channels_okD [OF 3 Some] show ?thesis by (simp add: n_def)
    qed (simp add: n_def)
    with channels_ok_update [OF 3 _ ValidateChannel_normalized [OF ok], where k = "channelKey v" and n1 = n] ok show ?thesis
      by (simp add: orgconfig_PutChannel_def Let_def channelKey_def n_def)
  qed (use 3 in \<open>simp add: orgconfig_PutChannel_def\<close>)
next
  case (4 s v)
  show ?case
  proof (cases "ValidateChannel v")
    case (Inr u)
    then have ok: "ValidateChannel v = Inr ()" by simp
    show ?thesis
    proof (cases "os_channels s (channelKey v)")
      case None
      have "ValidateChannel (v\<lparr>cp_Version := 1\<rparr>) = Inr ()" using ok by (simp add: ValidateChannel_iff)
      then show ?thesis
        using channels_ok_update [OF 4, of "v\<lparr>cp_Version := 1\<rparr>" "channelKey v"] None ok
        by (simp add: orgconfig_UpsertContextChannel_def Let_def channelKey_def)
    next
      case (Some c)
      note c = channels_okD [OF 4 Some]
      show ?thesis
        using channels_ok_update [OF 4, of "refreshed_channel v c" "channelKey v"] Some ok c
        by (simp add: orgconfig_UpsertContextChannel_def Let_def refreshed_channel_fields
            ValidateChannel_refreshed)
    qed
  qed (use 4 in \<open>simp add: orgconfig_UpsertContextChannel_def\<close>)
qed (simp_all add: orgconfig_PutOrganization_def orgconfig_PutWorkspace_def Let_def channels_ok_def)

inductive org_reachable :: "OrgStore \<Rightarrow> bool" where
  org_reach_new: "org_reachable NewOrgStore"
| org_reach_step: "org_reachable s \<Longrightarrow> org_step s s' \<Longrightarrow> org_reachable s'"

lemma reachable_channels_ok: "org_reachable s \<Longrightarrow> channels_ok s"
proof (induction rule: org_reachable.induct)
  case org_reach_new
  show ?case by (simp add: channels_ok_def NewOrgStore_def)
next
  case (org_reach_step s s')
  then show ?case using channels_ok_step by blast
qed

section \<open>What a resolved policy promises\<close>

text \<open>
  C16. Resolving a channel in a reachable store gives a valid policy of exactly that scope (for
  organization and team identifiers without a slash), whose kill switch is on when the
  channel's own is, when the organization's is, or when the workspace is disabled; an unknown
  workspace or channel is not found.
\<close>

theorem resolve_scope_and_kill_switch:
  assumes "org_reachable s" "orgconfig_Resolve org team channel s = Inr p"
    and "\<forall>v \<in> ran (os_channels s). slash_free (cp_OrganizationID v) \<and> slash_free (cp_TeamID v)"
    and "slash_free org" "slash_free team"
  shows "ValidateChannel p = Inr () \<and> cp_OrganizationID p = org \<and> cp_TeamID p = team \<and> cp_ChannelID p = channel
         \<and> (\<exists>v w. os_channels s (scopeKey org team channel) = Some v
              \<and> os_workspaces s (workspaceKey org team) = Some w
              \<and> cp_WorkspaceEnabled p = ws_Enabled w
              \<and> (cp_KillSwitch p \<longleftrightarrow> cp_KillSwitch v \<or> org_killed s org \<or> \<not> ws_Enabled w))"
proof -
  obtain v w where v: "os_channels s (scopeKey org team channel) = Some v"
    and w: "os_workspaces s (workspaceKey org team) = Some w"
    and p: "p = v\<lparr>cp_KillSwitch := cp_KillSwitch v \<or> org_killed s org \<or> \<not> ws_Enabled w,
                  cp_WorkspaceEnabled := ws_Enabled w\<rparr>"
    using assms(2) by (auto simp: orgconfig_Resolve_def Let_def split: option.splits if_splits)
  note ok = channels_okD [OF reachable_channels_ok [OF assms(1)] v]
  have sf: "slash_free (cp_OrganizationID v)" "slash_free (cp_TeamID v)"
    using assms(3) v by (auto simp: ran_def)
  have "cp_OrganizationID v = org \<and> cp_TeamID v @ ''/'' @ cp_ChannelID v = team @ ''/'' @ channel"
    using ok slash_key2 [OF assms(4), of "cp_OrganizationID v"] sf
    by (auto simp: channelKey_def scopeKey_def)
  moreover from this have "cp_TeamID v = team \<and> cp_ChannelID v = channel"
    using slash_key2 [of "cp_TeamID v" team] sf assms(5) by auto
  moreover have "ValidateChannel p = Inr ()"
    using ok by (simp add: p ValidateChannel_iff)
  ultimately show ?thesis using ok p v w by simp
qed

definition sample_channel :: ChannelPolicy where
  "sample_channel =
     \<lparr>cp_OrganizationID = ''o'', cp_TeamID = ''T'', cp_ChannelID = ''C'', cp_Name = ''general'',
      cp_Enrolled = True, cp_Restricted = False, cp_ParticipationMode = ModeAssist, cp_KillSwitch = False,
      cp_Cooldown = 30, cp_MaxResponsesPerHour = 2, cp_MaxConcurrentJobs = 1, cp_DefaultModelProfile = '''',
      cp_ContextHistoryMode = HistoryUnset, cp_ApproverUserIDs = [''U1''], cp_TrustedIntegrationBotIDs = [''B1''],
      cp_BotIsMember = True, cp_BotMembershipKnown = True, cp_ParticipationManagedByMembership = False,
      cp_WorkspaceEnabled = True, cp_MembershipRevision = ''m1'', cp_MembershipRefreshedAt = 5, cp_Version = 0\<rparr>"

definition sample_workspace :: Workspace where
  "sample_workspace = \<lparr>ws_PublicID = ''w'', ws_OrganizationID = ''o'', ws_TeamID = ''T'', ws_Name = ''Team'',
     ws_Enabled = False, ws_CreatedAt = 1, ws_UpdatedAt = 1, ws_Version = 0\<rparr>"

definition sample_org_store :: OrgStore where
  "sample_org_store = snd (orgconfig_PutChannel sample_channel (snd (orgconfig_PutWorkspace sample_workspace NewOrgStore)))"

lemma sample_channel_valid: "ValidateChannel sample_channel = Inr ()"
  by (simp add: ValidateChannel_iff sample_channel_def validSlackBotID_def)

lemma sample_org_reachable: "org_reachable sample_org_store"
  unfolding sample_org_store_def
  by (rule org_reach_step [OF org_reach_step [OF org_reach_new]], rule org_step.intros(2), rule org_step.intros(3))

theorem resolve_scope_and_kill_switch_witness:
  "\<exists>p. orgconfig_Resolve ''o'' ''T'' ''C'' sample_org_store = Inr p \<and> cp_KillSwitch p"
proof -
  have channels: "os_channels sample_org_store =
      [''o/T/C'' \<mapsto> sample_channel\<lparr>cp_ContextHistoryMode := ContextHistoryDurable, cp_Version := 1\<rparr>]"
    using sample_channel_valid
    by (simp add: sample_org_store_def orgconfig_PutChannel_def orgconfig_PutWorkspace_def sample_workspace_def
        NewOrgStore_def Let_def channelKey_def scopeKey_def normalizedContextHistoryMode_def)
       (simp add: sample_channel_def)
  have workspaces: "os_workspaces sample_org_store = [''o/T'' \<mapsto> sample_workspace\<lparr>ws_Version := 1\<rparr>]"
    using sample_channel_valid
    by (simp add: sample_org_store_def orgconfig_PutChannel_def orgconfig_PutWorkspace_def
        NewOrgStore_def Let_def workspaceKey_def)
       (simp add: sample_workspace_def)
  obtain p where p: "orgconfig_Resolve ''o'' ''T'' ''C'' sample_org_store = Inr p"
    by (simp add: orgconfig_Resolve_def channels workspaces scopeKey_def workspaceKey_def Let_def)
  have sf: "\<forall>v \<in> ran (os_channels sample_org_store). slash_free (cp_OrganizationID v) \<and> slash_free (cp_TeamID v)"
    by (simp add: channels slash_free_def sample_channel_def)
  have "slash_free ''o''" "slash_free ''T''" by (simp_all add: slash_free_def)
  from resolve_scope_and_kill_switch [OF sample_org_reachable p sf this] obtain w
    where "os_workspaces sample_org_store (workspaceKey ''o'' ''T'') = Some w" "\<not> ws_Enabled w \<longrightarrow> cp_KillSwitch p"
    by blast
  then have "cp_KillSwitch p" by (auto simp: workspaces workspaceKey_def sample_workspace_def)
  with p show ?thesis by blast
qed

section \<open>Slack metadata against operator policy\<close>

text \<open>
  Metadata from Slack never loosens a stored channel: a restricted channel stays
  restricted, enrolment, kill switch, limits, approvers, trusted bots and history mode are the
  operator's, and the participation mode changes only when membership manages it.
\<close>

theorem upsert_keeps_operator_policy:
  assumes "org_reachable s" "ValidateChannel v = Inr ()" "os_channels s (channelKey v) = Some c"
  shows "\<exists>r s'. orgconfig_UpsertContextChannel v s = (Inr r, s') \<and> os_channels s' (channelKey v) = Some r
           \<and> ValidateChannel r = Inr () \<and> cp_Version r = cp_Version c + 1
           \<and> (cp_Restricted c \<longrightarrow> cp_Restricted r) \<and> cp_Enrolled r = cp_Enrolled c
           \<and> cp_KillSwitch r = cp_KillSwitch c \<and> cp_MaxResponsesPerHour r = cp_MaxResponsesPerHour c
           \<and> cp_MaxConcurrentJobs r = cp_MaxConcurrentJobs c \<and> cp_Cooldown r = cp_Cooldown c
           \<and> cp_ApproverUserIDs r = cp_ApproverUserIDs c
           \<and> cp_TrustedIntegrationBotIDs r = cp_TrustedIntegrationBotIDs c
           \<and> cp_ContextHistoryMode r = cp_ContextHistoryMode c
           \<and> (\<not> cp_ParticipationManagedByMembership v \<and> \<not> cp_ParticipationManagedByMembership c \<longrightarrow>
                cp_ParticipationMode r = cp_ParticipationMode c)"
proof -
  note c = channels_okD [OF reachable_channels_ok [OF assms(1)] assms(3)]
  show ?thesis
    using assms(2,3) c
    by (intro exI [of _ "refreshed_channel v c"])
       (simp add: orgconfig_UpsertContextChannel_def Let_def refreshed_channel_fields ValidateChannel_refreshed)
qed

theorem upsert_keeps_operator_policy_witness:
  "\<exists>r. fst (orgconfig_UpsertContextChannel (sample_channel\<lparr>cp_ParticipationMode := ModeObserve\<rparr>) sample_org_store) = Inr r
     \<and> cp_ParticipationMode r = ModeAssist \<and> cp_Version r = 2"
proof -
  let ?v = "sample_channel\<lparr>cp_ParticipationMode := ModeObserve\<rparr>"
  let ?c = "sample_channel\<lparr>cp_ContextHistoryMode := ContextHistoryDurable, cp_Version := 1\<rparr>"
  have v: "ValidateChannel ?v = Inr ()" by (simp add: ValidateChannel_iff sample_channel_def validSlackBotID_def)
  have c: "os_channels sample_org_store (channelKey ?v) = Some ?c"
    using sample_channel_valid
    by (simp add: sample_org_store_def orgconfig_PutChannel_def orgconfig_PutWorkspace_def
        NewOrgStore_def Let_def channelKey_def scopeKey_def normalizedContextHistoryMode_def)
       (simp add: sample_channel_def sample_workspace_def NewOrgStore_def)
  from upsert_keeps_operator_policy [OF sample_org_reachable v c] show ?thesis
    by (auto simp: sample_channel_def)
qed

end
