(* ===== verification/Admission.thy ===== *)
theory Admission
  imports OrgConfig
begin

text \<open>
  Response admission (\<^verbatim>\<open>core/admission/admission.go\<close>): a reservation per admitted response,
  bounded by the channel's concurrency, hourly budget and cooldown.
\<close>

section \<open>The controller\<close>

datatype admission_error =
    ErrPolicy orgconfig_error
  | ErrKillSwitch
  | ErrCooldown
  | ErrBudget
  | ErrConcurrency

record AdmissionState =
  as_hour :: time
  as_responses :: int
  as_active :: int
  as_last :: time

record AdmissionReservation =
  ar_key :: string
  ar_completed :: bool

record AdmissionMemory =
  am_states :: "string \<rightharpoonup> AdmissionState"
  am_reservations :: "string \<rightharpoonup> AdmissionReservation"
  am_next :: int

definition NewAdmission :: AdmissionMemory where
  "NewAdmission = \<lparr>am_states = Map.empty, am_reservations = Map.empty, am_next = 0\<rparr>"

definition zero_AdmissionState :: AdmissionState where
  "zero_AdmissionState = \<lparr>as_hour = zero_time, as_responses = 0, as_active = 0, as_last = zero_time\<rparr>"

abbreviation adm_state :: "AdmissionMemory \<Rightarrow> string \<Rightarrow> AdmissionState" where
  "adm_state m k \<equiv> lookup_zero zero_AdmissionState (am_states m) k"

text \<open>The state of the current hour: a new hour starts with no responses.\<close>

definition roll_hour :: "time \<Rightarrow> AdmissionState \<Rightarrow> AdmissionState" where
  "roll_hour now s =
     (if as_hour s = Truncate now Hour then s
      else s\<lparr>as_hour := Truncate now Hour, as_responses := 0\<rparr>)"

definition admission_Admit ::
  "ChannelPolicy \<Rightarrow> string \<Rightarrow> time \<Rightarrow> AdmissionMemory \<Rightarrow> (admission_error, string, AdmissionMemory) outcome" where
  "admission_Admit p i now m =
     (case ValidateChannel p of
        Inl e \<Rightarrow> (Inl (ErrPolicy e), m)
      | Inr _ \<Rightarrow>
          if cp_KillSwitch p \<or> \<not> cp_Enrolled p then (Inl ErrKillSwitch, m)
          else
            let key = channelKey p;
                current = roll_hour now (adm_state m key)
            in if cp_MaxConcurrentJobs p \<le> as_active current then (Inl ErrConcurrency, m)
               else if cp_MaxResponsesPerHour p \<le> as_responses current then (Inl ErrBudget, m)
               else if \<not> IsZero (as_last current) \<and> Sub now (as_last current) < cp_Cooldown p
               then (Inl ErrCooldown, m)
               else
                 let current' = current\<lparr>as_responses := as_responses current + 1,
                                        as_active := as_active current + 1, as_last := now\<rparr>
                 in (Inr i, m\<lparr>am_next := am_next m + 1,
                              am_states := (am_states m)(key \<mapsto> current'),
                              am_reservations := (am_reservations m)(i \<mapsto> \<lparr>ar_key = key, ar_completed = False\<rparr>)\<rparr>))"

definition admission_Complete :: "string \<Rightarrow> AdmissionMemory \<Rightarrow> AdmissionMemory" where
  "admission_Complete i m =
     (case am_reservations m i of
        None \<Rightarrow> m
      | Some r \<Rightarrow>
          if ar_completed r then m
          else
            let current = adm_state m (ar_key r);
                current' = (if 0 < as_active current then current\<lparr>as_active := as_active current - 1\<rparr> else current)
            in m\<lparr>am_states := (am_states m)(ar_key r \<mapsto> current'),
                 am_reservations := (am_reservations m)(i \<mapsto> r\<lparr>ar_completed := True\<rparr>)\<rparr>)"

section \<open>The account of open reservations\<close>

definition open_reservations :: "AdmissionMemory \<Rightarrow> string \<Rightarrow> string set" where
  "open_reservations m k = {i. \<exists>r. am_reservations m i = Some r \<and> ar_key r = k \<and> \<not> ar_completed r}"

definition account_ok :: "AdmissionMemory \<Rightarrow> bool" where
  "account_ok m \<longleftrightarrow>
     finite (dom (am_reservations m))
     \<and> (\<forall>k. as_active (adm_state m k) = int (card (open_reservations m k)))"

lemma account_okD:
  assumes "account_ok m"
  shows "as_active (adm_state m k) = int (card (open_reservations m k))" "finite (open_reservations m k)"
proof -
  show "as_active (adm_state m k) = int (card (open_reservations m k))"
    using assms by (simp add: account_ok_def)
  have "open_reservations m k \<subseteq> dom (am_reservations m)" by (auto simp: open_reservations_def)
  then show "finite (open_reservations m k)"
    using assms finite_subset by (auto simp: account_ok_def)
qed

lemma roll_hour_simps [simp]:
  "as_active (roll_hour now s) = as_active s" "as_last (roll_hour now s) = as_last s"
  "as_hour (roll_hour now s) = Truncate now Hour"
  by (simp_all add: roll_hour_def)

lemma roll_hour_same: "as_hour s = Truncate now Hour \<Longrightarrow> as_responses (roll_hour now s) = as_responses s"
  and roll_hour_new: "as_hour s \<noteq> Truncate now Hour \<Longrightarrow> as_responses (roll_hour now s) = 0"
  by (simp_all add: roll_hour_def)

definition admitted_state :: "time \<Rightarrow> AdmissionState \<Rightarrow> AdmissionState" where
  "admitted_state now s =
     (roll_hour now s)\<lparr>as_responses := as_responses (roll_hour now s) + 1, as_active := as_active s + 1, as_last := now\<rparr>"

definition grants :: "ChannelPolicy \<Rightarrow> time \<Rightarrow> AdmissionState \<Rightarrow> bool" where
  "grants p now s \<longleftrightarrow>
     ValidateChannel p = Inr () \<and> \<not> cp_KillSwitch p \<and> cp_Enrolled p
     \<and> as_active s < cp_MaxConcurrentJobs p
     \<and> as_responses (roll_hour now s) < cp_MaxResponsesPerHour p
     \<and> (IsZero (as_last s) \<or> cp_Cooldown p \<le> Sub now (as_last s))"

lemma Admit_granted:
  "grants p now (adm_state m (channelKey p)) \<Longrightarrow>
   admission_Admit p i now m =
     (Inr i, m\<lparr>am_next := am_next m + 1,
               am_states := (am_states m)(channelKey p \<mapsto> admitted_state now (adm_state m (channelKey p))),
               am_reservations := (am_reservations m)(i \<mapsto> \<lparr>ar_key = channelKey p, ar_completed = False\<rparr>)\<rparr>)"
  by (auto simp: admission_Admit_def grants_def admitted_state_def Let_def)

lemma Admit_denied:
  "\<not> grants p now (adm_state m (channelKey p)) \<Longrightarrow> \<exists>e. admission_Admit p i now m = (Inl e, m)"
  by (cases "ValidateChannel p") (auto simp: admission_Admit_def grants_def Let_def)

lemma account_ok_admit:
  assumes "account_ok m" "am_reservations m i = None"
  shows "account_ok (snd (admission_Admit p i now m))"
proof (cases "grants p now (adm_state m (channelKey p))")
  case True
  let ?m = "snd (admission_Admit p i now m)"
  have "i \<notin> open_reservations m k" for k using assms(2) by (auto simp: open_reservations_def)
  moreover have "open_reservations ?m k =
      (if k = channelKey p then insert i (open_reservations m k) else open_reservations m k)" for k
    using assms(2) by (auto simp: Admit_granted [OF True] open_reservations_def split: if_splits)
  ultimately have "card (open_reservations ?m k) =
      card (open_reservations m k) + (if k = channelKey p then 1 else 0)" for k
    using account_okD(2) [OF assms(1)] by simp
  then show ?thesis
    using assms(1) account_okD(1) [OF assms(1)]
    by (simp add: account_ok_def Admit_granted [OF True] admitted_state_def)
next
  case False
  then show ?thesis using Admit_denied [OF False, of i] assms(1) by auto
qed

lemma account_ok_complete:
  assumes "account_ok m"
  shows "account_ok (admission_Complete i m)"
proof (cases "\<exists>r. am_reservations m i = Some r \<and> \<not> ar_completed r")
  case True
  then obtain r where r: "am_reservations m i = Some r" "\<not> ar_completed r" by blast
  let ?m = "admission_Complete i m"
  have i: "i \<in> open_reservations m k \<longleftrightarrow> k = ar_key r" for k using r by (auto simp: open_reservations_def)
  have "open_reservations ?m k = open_reservations m k - {i}" for k
    using r by (auto simp: admission_Complete_def Let_def open_reservations_def split: if_splits)
  then have card: "card (open_reservations ?m k) =
      card (open_reservations m k) - (if k = ar_key r then 1 else 0)" for k
    using i account_okD(2) [OF assms] by (simp add: card_Diff_singleton_if)
  have pos: "0 < card (open_reservations m (ar_key r))"
    using i account_okD(2) [OF assms] card_gt_0_iff by blast
  show ?thesis
    unfolding account_ok_def
  proof (intro conjI allI)
    show "finite (dom (am_reservations ?m))"
      using assms r by (simp add: account_ok_def admission_Complete_def Let_def)
    show "as_active (adm_state ?m k) = int (card (open_reservations ?m k))" for k
      unfolding card
      using account_okD(1) [OF assms] pos r by (simp add: admission_Complete_def Let_def)
  qed
next
  case False
  then show ?thesis using assms by (auto simp: admission_Complete_def split: option.split)
qed

lemma admission_Complete_again: "admission_Complete i (admission_Complete i m) = admission_Complete i m"
  by (simp add: admission_Complete_def Let_def split: option.split)

inductive admission_step :: "AdmissionMemory \<Rightarrow> AdmissionMemory \<Rightarrow> bool" where
  step_admit: "am_reservations m i = None \<Longrightarrow> admission_step m (snd (admission_Admit p i now m))"
| step_complete: "admission_step m (admission_Complete i m)"

inductive admission_reachable :: "AdmissionMemory \<Rightarrow> bool" where
  adm_reach_new: "admission_reachable NewAdmission"
| adm_reach_step: "admission_reachable m \<Longrightarrow> admission_step m m' \<Longrightarrow> admission_reachable m'"

lemma reachable_account_ok: "admission_reachable m \<Longrightarrow> account_ok m"
proof (induction rule: admission_reachable.induct)
  case adm_reach_new
  show ?case by (simp add: account_ok_def NewAdmission_def open_reservations_def lookup_zero_def zero_AdmissionState_def)
next
  case (adm_reach_step m m')
  from adm_reach_step.hyps(2) adm_reach_step.IH show ?case
    by cases (simp_all add: account_ok_admit account_ok_complete)
qed

section \<open>Concurrency\<close>

text \<open>
  C17. Concurrency is bounded and counted exactly: in a reachable controller the active count of
  a channel is the number of its open reservations, and when a response is admitted, the open
  reservations of the channel, the new one included, are at most its concurrency limit.
\<close>

theorem admission_concurrency:
  assumes "admission_reachable m" "am_reservations m i = None"
    and "admission_Admit p i now m = (Inr r, m')"
  shows "r = i \<and> i \<in> open_reservations m' (channelKey p)
         \<and> int (card (open_reservations m' (channelKey p))) \<le> cp_MaxConcurrentJobs p
         \<and> (\<forall>k. as_active (adm_state m' k) = int (card (open_reservations m' k)))"
proof -
  have g: "grants p now (adm_state m (channelKey p))"
    using assms(3) Admit_denied [of p now m i] by force
  have ok: "account_ok m'"
    using account_ok_admit [OF reachable_account_ok [OF assms(1)] assms(2), of p now] assms(3) by simp
  have m': "r = i" "am_reservations m' = (am_reservations m)(i \<mapsto> \<lparr>ar_key = channelKey p, ar_completed = False\<rparr>)"
    "am_states m' = (am_states m)(channelKey p \<mapsto> admitted_state now (adm_state m (channelKey p)))"
    using assms(3) Admit_granted [OF g, of i] by auto
  have "as_active (adm_state m' (channelKey p)) \<le> cp_MaxConcurrentJobs p"
    using g by (simp add: m' admitted_state_def grants_def)
  moreover have "i \<in> open_reservations m' (channelKey p)" by (simp add: open_reservations_def m'(2))
  ultimately show ?thesis using m'(1) account_okD(1) [OF ok] by metis
qed

theorem admission_concurrency_witness:
  "\<exists>m'. admission_Admit sample_channel ''a1'' 7200000000000 NewAdmission = (Inr ''a1'', m')
     \<and> as_active (adm_state m' ''o/T/C'') = 1 \<and> card (open_reservations m' ''o/T/C'') = 1"
proof -
  have key: "channelKey sample_channel = ''o/T/C''"
    by (simp add: channelKey_def scopeKey_def sample_channel_def)
  have g: "grants sample_channel 7200000000000 (adm_state NewAdmission (channelKey sample_channel))"
    using sample_channel_valid
    by (simp add: grants_def NewAdmission_def lookup_zero_def zero_AdmissionState_def roll_hour_def
        IsZero_def zero_time_def Truncate_def Hour_def) (simp add: sample_channel_def)
  have none: "am_reservations NewAdmission ''a1'' = None" by (simp add: NewAdmission_def)
  note run = Admit_granted [OF g, of "''a1''"]
  let ?m' = "snd (admission_Admit sample_channel ''a1'' 7200000000000 NewAdmission)"
  have "as_active (adm_state ?m' ''o/T/C'') = 1"
    unfolding run key by (simp add: admitted_state_def NewAdmission_def lookup_zero_def zero_AdmissionState_def)
  moreover have "as_active (adm_state ?m' ''o/T/C'') = int (card (open_reservations ?m' ''o/T/C''))"
    using admission_concurrency [OF adm_reach_new none run] unfolding run snd_conv by blast
  ultimately show ?thesis using run by simp
qed

text \<open>
  Admission decides as documented: it admits exactly when the policy is valid, enrolled and
  not killed, fewer than the allowed jobs are open, fewer than the allowed responses were
  admitted in the clock's hour, and the cooldown since the last one passed; a denial changes
  nothing, and the error is the first reason in that order.
\<close>

theorem admission_decides:
  "(succeeded (admission_Admit p i now m) \<longleftrightarrow> grants p now (adm_state m (channelKey p)))
   \<and> (\<not> succeeded (admission_Admit p i now m) \<longrightarrow> snd (admission_Admit p i now m) = m)
   \<and> (fst (admission_Admit p i now m) = Inl ErrCooldown \<longrightarrow>
        as_active (adm_state m (channelKey p)) < cp_MaxConcurrentJobs p
        \<and> as_responses (roll_hour now (adm_state m (channelKey p))) < cp_MaxResponsesPerHour p
        \<and> Sub now (as_last (adm_state m (channelKey p))) < cp_Cooldown p)"
proof (intro conjI)
  show "succeeded (admission_Admit p i now m) \<longleftrightarrow> grants p now (adm_state m (channelKey p))"
    using Admit_granted [of p now m i] Admit_denied [of p now m i] by fastforce
  show "\<not> succeeded (admission_Admit p i now m) \<longrightarrow> snd (admission_Admit p i now m) = m"
    using Admit_granted [of p now m i] Admit_denied [of p now m i] by fastforce
  show "fst (admission_Admit p i now m) = Inl ErrCooldown \<longrightarrow>
        as_active (adm_state m (channelKey p)) < cp_MaxConcurrentJobs p
        \<and> as_responses (roll_hour now (adm_state m (channelKey p))) < cp_MaxResponsesPerHour p
        \<and> Sub now (as_last (adm_state m (channelKey p))) < cp_Cooldown p"
    by (cases "ValidateChannel p") (auto simp: admission_Admit_def Let_def not_le split: if_splits)
qed

text \<open>
  Completing a reservation is idempotent and releases exactly one slot: completing an open
  reservation lowers its channel's active count by one and leaves every other channel's;
  completing it again, or completing an unknown reservation, changes nothing.
\<close>

theorem admission_complete_once:
  assumes "admission_reachable m"
  shows "admission_Complete i (admission_Complete i m) = admission_Complete i m
         \<and> (am_reservations m i = None \<longrightarrow> admission_Complete i m = m)
         \<and> (\<forall>r. am_reservations m i = Some r \<longrightarrow> \<not> ar_completed r \<longrightarrow>
              (\<forall>k. as_active (adm_state (admission_Complete i m) k) =
                     as_active (adm_state m k) - (if k = ar_key r then 1 else 0)))"
proof (intro conjI)
  show "admission_Complete i (admission_Complete i m) = admission_Complete i m"
    by (rule admission_Complete_again)
  show "am_reservations m i = None \<longrightarrow> admission_Complete i m = m"
    by (simp add: admission_Complete_def)
  show "\<forall>r. am_reservations m i = Some r \<longrightarrow> \<not> ar_completed r \<longrightarrow>
          (\<forall>k. as_active (adm_state (admission_Complete i m) k) =
                 as_active (adm_state m k) - (if k = ar_key r then 1 else 0))"
  proof (intro allI impI)
    fix r k assume r: "am_reservations m i = Some r" "\<not> ar_completed r"
    have "i \<in> open_reservations m (ar_key r)" using r by (simp add: open_reservations_def)
    then have "0 < as_active (adm_state m (ar_key r))"
      using account_okD [OF reachable_account_ok [OF assms], of "ar_key r"] card_gt_0_iff by auto
    with r show "as_active (adm_state (admission_Complete i m) k) =
                 as_active (adm_state m k) - (if k = ar_key r then 1 else 0)"
      by (simp add: admission_Complete_def Let_def)
  qed
qed

theorem admission_complete_once_witness:
  "admission_Complete ''a1'' (admission_Complete ''a1'' NewAdmission) = admission_Complete ''a1'' NewAdmission"
  using admission_complete_once [OF adm_reach_new] by blast

section \<open>The hourly budget\<close>

datatype admission_call = CallAdmit ChannelPolicy string time | CallComplete string

text \<open>The channels and hours of the responses a sequence of calls admits.\<close>

fun admitted :: "admission_call list \<Rightarrow> AdmissionMemory \<Rightarrow> (string \<times> time) list" where
  "admitted [] m = []"
| "admitted (CallAdmit p i now # cs) m =
     (case admission_Admit p i now m of
        (Inl e, m') \<Rightarrow> admitted cs m'
      | (Inr r, m') \<Rightarrow> (channelKey p, Truncate now Hour) # admitted cs m')"
| "admitted (CallComplete i # cs) m = admitted cs (admission_Complete i m)"

fun call_times :: "admission_call list \<Rightarrow> time list" where
  "call_times [] = []"
| "call_times (CallAdmit p i now # cs) = now # call_times cs"
| "call_times (CallComplete i # cs) = call_times cs"

fun within_budget :: "string \<Rightarrow> int \<Rightarrow> admission_call \<Rightarrow> bool" where
  "within_budget k M (CallAdmit p i t) \<longleftrightarrow> (channelKey p = k \<longrightarrow> cp_MaxResponsesPerHour p \<le> M)"
| "within_budget k M (CallComplete i) \<longleftrightarrow> True"

text \<open>How many responses of hour \<open>h\<close> a channel in state \<open>s\<close> can still admit under budget \<open>M\<close>.\<close>

definition room :: "int \<Rightarrow> time \<Rightarrow> AdmissionState \<Rightarrow> int" where
  "room M h s = (if as_hour s = h then M - as_responses s else if h < as_hour s then 0 else M)"

lemma Complete_hour [simp]:
  "as_hour (adm_state (admission_Complete i m) k) = as_hour (adm_state m k)"
  "as_responses (adm_state (admission_Complete i m) k) = as_responses (adm_state m k)"
  by (simp_all add: admission_Complete_def Let_def split: option.split)

lemma room_Complete [simp]: "room M h (adm_state (admission_Complete i m) k) = room M h (adm_state m k)"
  by (simp add: room_def)

lemma admitted_bound:
  assumes "sorted (call_times cs)" "\<forall>t \<in> set (call_times cs). as_hour (adm_state m k) \<le> Truncate t Hour"
    and "\<forall>c \<in> set cs. within_budget k M c"
    and "0 \<le> as_responses (adm_state m k)" "as_responses (adm_state m k) \<le> M" "0 \<le> M"
  shows "int (count_list (admitted cs m) (k, h)) \<le> room M h (adm_state m k)"
  using assms(1-5)
proof (induction cs arbitrary: m)
  case Nil
  then show ?case using assms(6) by (simp add: room_def)
next
  case (Cons c cs)
  show ?case
  proof (cases c)
    case (CallComplete i)
    then show ?thesis
      using Cons.IH [of "admission_Complete i m"] Cons.prems by simp
  next
    case (CallAdmit p i now)
    let ?s = "adm_state m (channelKey p)"
    show ?thesis
    proof (cases "grants p now ?s")
      case False
      then obtain e where "admission_Admit p i now m = (Inl e, m)" using Admit_denied by blast
      then show ?thesis using Cons.IH [of m] Cons.prems CallAdmit by simp
    next
      case True
      let ?m = "snd (admission_Admit p i now m)"
      note run = Admit_granted [OF True, of i]
      have granted: "admission_Admit p i now m = (Inr i, ?m)" by (simp add: run)
      have later: "Truncate now Hour \<le> Truncate t Hour" if "t \<in> set (call_times cs)" for t
        using that Cons.prems(1) CallAdmit by (auto intro: Truncate_mono)
      have state: "adm_state ?m k = (if k = channelKey p then admitted_state now ?s else adm_state m k)"
        by (simp add: run)
      have max: "as_responses (roll_hour now ?s) + 1 \<le> M" if "k = channelKey p"
        using that True Cons.prems(3) CallAdmit by (auto simp: grants_def)
      have "int (count_list (admitted cs ?m) (k, h)) \<le> room M h (adm_state ?m k)"
      proof (rule Cons.IH)
        show "\<forall>t \<in> set (call_times cs). as_hour (adm_state ?m k) \<le> Truncate t Hour"
          using later Cons.prems(2) CallAdmit by (simp add: state admitted_state_def)
        show "0 \<le> as_responses (adm_state ?m k)"
          using Cons.prems(4) by (auto simp: state admitted_state_def roll_hour_def)
        show "as_responses (adm_state ?m k) \<le> M"
          using max Cons.prems(5) by (simp add: state admitted_state_def)
      qed (use Cons.prems CallAdmit in simp_all)
      moreover have "room M h (adm_state ?m k) + (if (channelKey p, Truncate now Hour) = (k, h) then 1 else 0)
          \<le> room M h (adm_state m k)"
        using max Cons.prems(2,4,5) assms(6) CallAdmit
        by (auto simp: state room_def admitted_state_def roll_hour_def)
      moreover have "int (count_list (admitted (c # cs) m) (k, h)) =
          int (count_list (admitted cs ?m) (k, h)) + (if (channelKey p, Truncate now Hour) = (k, h) then 1 else 0)"
        unfolding CallAdmit admitted.simps by (subst granted) simp
      ultimately show ?thesis by linarith
    qed
  qed
qed

text \<open>
  C18. The hourly budget holds over every run: for any sequence of admissions and completions
  with a clock that does not go backwards, a channel whose policies allow at most \<open>M\<close> responses
  per hour is admitted at most \<open>M\<close> times in each hour.
\<close>

theorem admission_hourly_budget:
  assumes "sorted (call_times cs)" "\<forall>t \<in> set (call_times cs). 0 \<le> t"
    and "\<forall>c \<in> set cs. within_budget k M c" "0 \<le> M"
  shows "int (count_list (admitted cs NewAdmission) (k, h)) \<le> M"
proof -
  have "\<forall>t \<in> set (call_times cs). 0 \<le> Truncate t Hour"
    using assms(2) Truncate_mono [of 0 _ Hour] by (fastforce simp: Truncate_def)
  then have "int (count_list (admitted cs NewAdmission) (k, h)) \<le> room M h (adm_state NewAdmission k)"
    by (intro admitted_bound assms)
       (simp_all add: NewAdmission_def lookup_zero_def zero_AdmissionState_def zero_time_def assms(4))
  also have "\<dots> \<le> M"
    using assms(4) by (simp add: room_def NewAdmission_def lookup_zero_def zero_AdmissionState_def)
  finally show ?thesis .
qed

theorem admission_hourly_budget_witness:
  "int (count_list (admitted
      [CallAdmit sample_channel ''a1'' 7200000000000, CallComplete ''a1'',
       CallAdmit sample_channel ''a2'' 7200000000030, CallComplete ''a2'',
       CallAdmit sample_channel ''a3'' 7200000000060] NewAdmission) (''o/T/C'', 7200000000000)) \<le> 2"
  by (rule admission_hourly_budget) (auto simp: sample_channel_def)

end
