(* ===== verification/Coordinator.thy ===== *)
theory Coordinator
  imports JobInvariants DeliveryInvariants Approvals AuditChain Admission
begin

text \<open>
  The approval coordinator of \<^verbatim>\<open>core/approvals/coordinator.go\<close>, which ties the stores together:
  it suspends a job and publishes the question, and it turns a Slack decision into an
  approval or denial, a resumed or cancelled job, a released reservation and a Slack update.

  The stores form one \<open>System\<close> state; an operation that fails half-way returns its error with
  the state it left behind.  The clock and the generated identifiers are \<open>clock n\<close> and
  \<open>ids n\<close>, the \<open>n\<close>-th reading of the call.  \<open>authorize\<close> is the \<^verbatim>\<open>ApproverAuthorizer\<close>
  the coordinator is constructed with.
\<close>

section \<open>The stores together\<close>

record System =
  sys_jobs :: JobQueue
  sys_deliveries :: DeliveryQueue
  sys_approvals :: ApprovalStore
  sys_audit :: Chain
  sys_admissions :: AdmissionMemory

text \<open>The digests and encoders of the audit chain, and the authorizer.\<close>

record Ports =
  port_marshal :: "Receipt \<Rightarrow> string option"
  port_sha :: "string \<Rightarrow> string"
  port_mac :: "string \<Rightarrow> string \<Rightarrow> string"
  port_authorize :: "string \<Rightarrow> string \<Rightarrow> string \<Rightarrow> string \<Rightarrow> bool"

datatype coordinator_error =
    ErrSuspensionScope
  | ErrDecisionIncomplete
  | ErrDecisionDestination
  | ErrApproverUnauthorized
  | ErrApproverNotIndependent
  | ErrDecisionJob
  | ErrStoreApproval approval_error
  | ErrStoreJob job_error
  | ErrStoreAudit audit_error
  | ErrStoreDelivery delivery_error

record RequestScope =
  rs_JobID :: string
  rs_LeaseToken :: string
  rs_WorkspaceID :: string
  rs_ChannelID :: string
  rs_ThreadTS :: string

record SlackDecision =
  sd_OrganizationID :: string
  sd_WorkspaceID :: string
  sd_ChannelID :: string
  sd_UserID :: string
  sd_ApprovalID :: string
  sd_MessageTS :: string
  sd_Approve :: bool

definition slackApproval :: "Approval \<Rightarrow> string \<Rightarrow> time \<Rightarrow> SlackApproval" where
  "slackApproval a status resolvedAt =
     \<lparr>sap_ID = apv_ID a, sap_ActionHash = apv_ActionHash a, sap_ToolID = act_ToolID (apv_Action a),
      sap_OperationID = act_OperationID (apv_Action a), sap_Risk = act_Risk (apv_Action a),
      sap_Destination = act_Destination (apv_Action a), sap_Arguments = act_Arguments (apv_Action a),
      sap_ExpiresAt = apv_ExpiresAt a, sap_Status = status, sap_ResolvedAt = resolvedAt\<rparr>"

definition approval_result :: "Approval \<Rightarrow> string \<Rightarrow> time \<Rightarrow> SlackResult" where
  "approval_result a status resolvedAt =
     zero_SlackResult\<lparr>res_Segments :=
       [zero_SlackSegment\<lparr>seg_Kind := SlackSegmentApproval, seg_Approval := Some (slackApproval a status resolvedAt)\<rparr>]\<rparr>"

text \<open>Enqueueing on the system's delivery queue.\<close>

definition sys_enqueue :: "DeliverySpec \<Rightarrow> string \<Rightarrow> time \<Rightarrow> System \<Rightarrow> (coordinator_error, unit, System) outcome" where
  "sys_enqueue spec i now s =
     (case deliveries_Enqueue spec i now (sys_deliveries s) of
        (Inl e, q) \<Rightarrow> (Inl (ErrStoreDelivery e), s\<lparr>sys_deliveries := q\<rparr>)
      | (Inr _, q) \<Rightarrow> (Inr (), s\<lparr>sys_deliveries := q\<rparr>))"

section \<open>Suspending (SuspendAndNotify)\<close>

definition SuspendAndNotify ::
  "(nat \<Rightarrow> time) \<Rightarrow> (nat \<Rightarrow> string) \<Rightarrow> RequestScope \<Rightarrow> Approval \<Rightarrow> System \<Rightarrow> (coordinator_error, unit, System) outcome" where
  "SuspendAndNotify clock ids scope a s =
     (if rs_JobID scope = '''' \<or> rs_LeaseToken scope = '''' \<or> apv_ID a = ''''
         \<or> act_JobID (apv_Action a) \<noteq> rs_JobID scope
      then (Inl ErrSuspensionScope, s)
      else case jobs_SuspendForApproval (rs_JobID scope) (rs_LeaseToken scope) (apv_ID a) (clock 0) (clock 1) (sys_jobs s) of
             (Inl e, q) \<Rightarrow> (Inl (ErrStoreJob e), s\<lparr>sys_jobs := q\<rparr>)
           | (Inr _, q) \<Rightarrow>
               sys_enqueue
                 \<lparr>ds_OrganizationID = apv_OrganizationID a, ds_JobID = rs_JobID scope, ds_DecisionID = '''',
                  ds_IdempotencyKey = ''approval/'' @ apv_ID a @ ''/requested'',
                  ds_Destination = \<lparr>dest_TeamID = rs_WorkspaceID scope, dest_ChannelID = rs_ChannelID scope,
                                    dest_ThreadTS = rs_ThreadTS scope, dest_UpdateTS = '''', dest_StreamTS = ''''\<rparr>,
                  ds_Result = approval_result a ''pending'' zero_time, ds_MaxAttempts = 3, ds_ExpiresAt = apv_ExpiresAt a\<rparr>
                 (ids 0) (clock 2) (s\<lparr>sys_jobs := q\<rparr>))"

section \<open>Deciding (HandleSlackDecision)\<close>

definition decision_status :: "SlackDecision \<Rightarrow> string" where
  "decision_status d = (if sd_Approve d then ''approved'' else ''denied'')"

definition authorization_key :: "SlackDecision \<Rightarrow> Approval \<Rightarrow> string" where
  "authorization_key d a = ''tool-approval/'' @ apv_ID a @ ''/'' @ decision_status d @ ''/authorized''"

text \<open>The checks before anything is written; they yield the approval and the job.\<close>

definition check_decision :: "Ports \<Rightarrow> SlackDecision \<Rightarrow> System \<Rightarrow> coordinator_error + Approval \<times> Job" where
  "check_decision p d s =
     (if sd_OrganizationID d = '''' \<or> sd_WorkspaceID d = '''' \<or> sd_ChannelID d = '''' \<or> sd_UserID d = ''''
         \<or> sd_ApprovalID d = ''''
      then Inl ErrDecisionIncomplete
      else case approvals_GetContext (sd_OrganizationID d) (sd_ApprovalID d) (sys_approvals s) of
             Inl e \<Rightarrow> Inl (ErrStoreApproval e)
           | Inr a \<Rightarrow>
               if act_WorkspaceID (apv_Action a) \<noteq> sd_WorkspaceID d \<or> act_ChannelID (apv_Action a) \<noteq> sd_ChannelID d
                  \<or> act_JobID (apv_Action a) = ''''
               then Inl ErrDecisionDestination
               else if \<not> port_authorize p (sd_OrganizationID d) (sd_WorkspaceID d) (sd_ChannelID d) (sd_UserID d)
               then Inl ErrApproverUnauthorized
               else if apv_RequesterID a = sd_UserID d then Inl ErrApproverNotIndependent
               else case jobs_Get (act_JobID (apv_Action a)) (sys_jobs s) of
                      Inl e \<Rightarrow> Inl (ErrStoreJob e)
                    | Inr job \<Rightarrow>
                        if job_OrganizationID job \<noteq> sd_OrganizationID d \<or> job_WorkspaceID job \<noteq> sd_WorkspaceID d
                           \<or> job_ChannelID job \<noteq> sd_ChannelID d \<or> job_ApprovalID job \<noteq> apv_ID a
                        then Inl ErrDecisionJob else Inr (a, job))"

definition authorization_receipt :: "SlackDecision \<Rightarrow> Approval \<Rightarrow> time \<Rightarrow> AppendRequest" where
  "authorization_receipt d a now =
     \<lparr>ap_OrganizationID = sd_OrganizationID d, ap_Type = ''tool.approval.'' @ decision_status d @ ''.authorized'',
      ap_ActorID = sd_UserID d, ap_ResourceID = apv_ID a,
      ap_Metadata = [(''job_id'', MetaString (act_JobID (apv_Action a))), (''channel_id'', MetaString (sd_ChannelID d)),
                     (''action_hash'', MetaString (apv_ActionHash a))],
      ap_RetentionEpoch = format_month now, ap_IdempotencyKey = authorization_key d a, ap_Content = ''''\<rparr>"

definition approve_job ::
  "(nat \<Rightarrow> time) \<Rightarrow> SlackDecision \<Rightarrow> Approval \<Rightarrow> System \<Rightarrow> (coordinator_error, Approval, System) outcome" where
  "approve_job clock d a s =
     (let jobID = act_JobID (apv_Action a);
          (r, s1) = (if IsZero (apv_ApprovedAt a)
                     then case approvals_ApproveContext (sd_OrganizationID d) (sd_ApprovalID d) (sd_UserID d) (clock 2) (clock 3)
                                 (sys_approvals s) of
                            (Inl e, st) \<Rightarrow> (Inl (ErrStoreApproval e), s\<lparr>sys_approvals := st\<rparr>)
                          | (Inr a', st) \<Rightarrow> (Inr a', s\<lparr>sys_approvals := st\<rparr>)
                     else (Inr a, s))
      in case r of
           Inl e \<Rightarrow> (Inl e, s1)
         | Inr a' \<Rightarrow>
             case jobs_ResumeFromApproval jobID (apv_ID a') (apv_ActionHash a') (clock 4) (clock 5) (sys_jobs s1) of
               (Inr _, q) \<Rightarrow> (Inr a', s1\<lparr>sys_jobs := q\<rparr>)
             | (Inl e, q) \<Rightarrow>
                 (case jobs_Get jobID q of
                    Inl _ \<Rightarrow> (Inl (ErrStoreJob e), s1\<lparr>sys_jobs := q\<rparr>)
                  | Inr job \<Rightarrow>
                      if job_ApprovalID job \<noteq> apv_ID a' \<or> job_ApprovedActionHash job \<noteq> apv_ActionHash a'
                         \<or> job_State job = StateWaitingApproval
                      then (Inl (ErrStoreJob e), s1\<lparr>sys_jobs := q\<rparr>)
                      else (Inr a', s1\<lparr>sys_jobs := q\<rparr>)))"

definition deny_job ::
  "(nat \<Rightarrow> time) \<Rightarrow> SlackDecision \<Rightarrow> Approval \<Rightarrow> Job \<Rightarrow> System \<Rightarrow> (coordinator_error, Approval, System) outcome" where
  "deny_job clock d a jobBefore s =
     (let jobID = act_JobID (apv_Action a);
          (r, s1) = (if IsZero (apv_DeniedAt a)
                     then case approvals_DenyContext (sd_OrganizationID d) (sd_ApprovalID d) (sd_UserID d) (clock 2) (clock 3)
                                 (sys_approvals s) of
                            (Inl e, st) \<Rightarrow> (Inl (ErrStoreApproval e), s\<lparr>sys_approvals := st\<rparr>)
                          | (Inr a', st) \<Rightarrow> (Inr a', s\<lparr>sys_approvals := st\<rparr>)
                     else (Inr a, s))
      in case r of
           Inl e \<Rightarrow> (Inl e, s1)
         | Inr a' \<Rightarrow>
             let (c, q) = jobs_Cancel jobID ''approval_denied'' (clock 4) (sys_jobs s1); s2 = s1\<lparr>sys_jobs := q\<rparr>;
                 settled = (case c of
                              Inr _ \<Rightarrow> None
                            | Inl e \<Rightarrow>
                                (case jobs_Get jobID q of
                                   Inl _ \<Rightarrow> Some e
                                 | Inr job \<Rightarrow> if job_State job \<noteq> StateCancelled \<and> job_State job \<noteq> StateCancelling
                                              then Some e else None))
             in case settled of
                  Some e \<Rightarrow> (Inl (ErrStoreJob e), s2)
                | None \<Rightarrow>
                    (Inr a', s2\<lparr>sys_admissions := admission_Complete (job_AdmissionReservationID jobBefore) (sys_admissions s2)\<rparr>))"

definition HandleSlackDecision ::
  "Ports \<Rightarrow> (nat \<Rightarrow> time) \<Rightarrow> (nat \<Rightarrow> string) \<Rightarrow> SlackDecision \<Rightarrow> System \<Rightarrow> (coordinator_error, unit, System) outcome" where
  "HandleSlackDecision p clock ids d s =
     (case check_decision p d s of
        Inl e \<Rightarrow> (Inl e, s)
      | Inr (a, jobBefore) \<Rightarrow>
          case audit_Append (port_marshal p) (port_sha p) (port_mac p) (authorization_receipt d a (clock 0)) (ids 0) (clock 1)
                 (sys_audit s) of
            (Inl e, c) \<Rightarrow> (Inl (ErrStoreAudit e), s\<lparr>sys_audit := c\<rparr>)
          | (Inr _, c) \<Rightarrow>
              let s1 = s\<lparr>sys_audit := c\<rparr>
              in case (if sd_Approve d then approve_job clock d a s1 else deny_job clock d a jobBefore s1) of
                   (Inl e, s2) \<Rightarrow> (Inl e, s2)
                 | (Inr a', s2) \<Rightarrow>
                     sys_enqueue
                       \<lparr>ds_OrganizationID = sd_OrganizationID d, ds_JobID = act_JobID (apv_Action a), ds_DecisionID = '''',
                        ds_IdempotencyKey = ''approval/'' @ apv_ID a' @ ''/'' @ decision_status d,
                        ds_Destination = \<lparr>dest_TeamID = sd_WorkspaceID d, dest_ChannelID = sd_ChannelID d,
                                          dest_ThreadTS = act_ThreadTS (apv_Action a'), dest_UpdateTS = sd_MessageTS d,
                                          dest_StreamTS = ''''\<rparr>,
                        ds_Result = approval_result a' (decision_status d)
                                      (if sd_Approve d then apv_ApprovedAt a' else apv_DeniedAt a'),
                        ds_MaxAttempts = 3, ds_ExpiresAt = apv_CleanupAt a'\<rparr>
                       (ids 1) (clock 6) s2)"

section \<open>What a decision can change\<close>

lemma check_decision_Inr:
  assumes "check_decision p d s = Inr (a, job)"
  shows "sys_approvals s (sd_ApprovalID d) = Some a" "apv_OrganizationID a = sd_OrganizationID d"
    "act_WorkspaceID (apv_Action a) = sd_WorkspaceID d" "act_ChannelID (apv_Action a) = sd_ChannelID d"
    "port_authorize p (sd_OrganizationID d) (sd_WorkspaceID d) (sd_ChannelID d) (sd_UserID d)"
    "apv_RequesterID a \<noteq> sd_UserID d" "sd_UserID d \<noteq> ''''"
    "q_jobs (sys_jobs s) (act_JobID (apv_Action a)) = Some job"
    "job_OrganizationID job = sd_OrganizationID d" "job_WorkspaceID job = sd_WorkspaceID d"
    "job_ChannelID job = sd_ChannelID d" "job_ApprovalID job = apv_ID a" "sd_OrganizationID d \<noteq> ''''"
  using assms by (auto simp: check_decision_def approvals_GetContext_def jobs_Get_def
      split: if_splits sum.splits option.splits)

lemma authorization_recorded:
  assumes "audit_Append m sh mc (authorization_receipt d a now) i t c = (Inr r, c')"
  shows "ch_byKey c' (sd_OrganizationID d @ ''/'' @ authorization_key d a) = Some r"
proof -
  have "ap_IdempotencyKey (authorization_receipt d a now) \<noteq> ''''"
    "audit_key (authorization_receipt d a now) = sd_OrganizationID d @ ''/'' @ authorization_key d a"
    by (simp_all add: authorization_receipt_def authorization_key_def audit_key_def)
  with assms show ?thesis
    by (auto simp: audit_Append_def Let_def split: sum.splits option.splits if_splits)
qed

lemma sys_enqueue_frame:
  "sys_jobs (snd (sys_enqueue spec i t s)) = sys_jobs s"
  "sys_audit (snd (sys_enqueue spec i t s)) = sys_audit s"
  "sys_approvals (snd (sys_enqueue spec i t s)) = sys_approvals s"
  "sys_admissions (snd (sys_enqueue spec i t s)) = sys_admissions s"
  by (simp_all add: sys_enqueue_def split: prod.split sum.split)

lemma approve_job_audit: "sys_audit (snd (approve_job clock d a s)) = sys_audit s"
  and approve_job_admissions: "sys_admissions (snd (approve_job clock d a s)) = sys_admissions s"
  by (simp_all add: approve_job_def Let_def split: prod.split sum.split)

lemma deny_job_audit: "sys_audit (snd (deny_job clock d a j s)) = sys_audit s"
  by (simp add: deny_job_def Let_def split: prod.split sum.split option.split)

text \<open>Only the job of the approval is written, by one resume or cancel.\<close>

lemma approve_job_jobs:
  "sys_jobs (snd (approve_job clock d a s)) = sys_jobs s
   \<or> (\<exists>a'. (a' = a \<and> \<not> IsZero (apv_ApprovedAt a)
             \<or> approvals_ApproveContext (sd_OrganizationID d) (sd_ApprovalID d) (sd_UserID d) (clock 2) (clock 3) (sys_approvals s)
                 = (Inr a', sys_approvals (snd (approve_job clock d a s))))
        \<and> sys_jobs (snd (approve_job clock d a s)) =
            snd (jobs_ResumeFromApproval (act_JobID (apv_Action a)) (apv_ID a') (apv_ActionHash a') (clock 4) (clock 5) (sys_jobs s)))"
  by (simp add: approve_job_def Let_def split: prod.split sum.split) auto

lemma deny_job_jobs:
  "sys_jobs (snd (deny_job clock d a j s)) = sys_jobs s
   \<or> ((\<not> IsZero (apv_DeniedAt a)
        \<or> (\<exists>a'. approvals_DenyContext (sd_OrganizationID d) (sd_ApprovalID d) (sd_UserID d) (clock 2) (clock 3) (sys_approvals s)
              = (Inr a', sys_approvals (snd (deny_job clock d a j s)))))
      \<and> sys_jobs (snd (deny_job clock d a j s)) =
          snd (jobs_Cancel (act_JobID (apv_Action a)) ''approval_denied'' (clock 4) (sys_jobs s)))"
  by (simp add: deny_job_def Let_def split: prod.split sum.split option.split)

text \<open>The jobs after a resume or a cancel.\<close>

lemma Resume_snd:
  "snd (jobs_ResumeFromApproval i apv h t1 t2 q) = q
   \<or> (\<exists>b. snd (jobs_ResumeFromApproval i apv h t1 t2 q) = put_job q i b
          \<and> job_State b = StateQueued \<and> job_ApprovedActionHash b = h \<and> job_ApprovalID b = apv)"
  by (auto simp: jobs_ResumeFromApproval_def Let_def split: option.split)

lemma Cancel_snd:
  "snd (jobs_Cancel i reason t q) = q
   \<or> (\<exists>b. snd (jobs_Cancel i reason t q) = put_job q i b \<and> job_State b \<in> {StateCancelled, StateCancelling})"
  by (auto simp: jobs_Cancel_def Let_def split: option.split)

lemma ApproveContext_Inr:
  assumes "approvals_ApproveContext org i u t1 t2 st = (Inr a', st')"
  shows "\<exists>a. st i = Some a \<and> a' = a\<lparr>apv_ApproverID := u, apv_ApprovedAt := t2\<rparr> \<and> st' = st(i \<mapsto> a')"
  using assms by (auto simp: approvals_ApproveContext_def approvals_approve_def Let_def split: option.splits if_splits)

lemma DenyContext_Inr:
  assumes "approvals_DenyContext org i u t1 t2 st = (Inr a', st')"
  shows "\<exists>a. st i = Some a \<and> a' = a\<lparr>apv_DeniedBy := u, apv_DeniedAt := t2\<rparr> \<and> st' = st(i \<mapsto> a')"
  using assms by (auto simp: approvals_DenyContext_def Let_def split: option.splits if_splits)

lemma approve_job_changes:
  assumes "sys_jobs (snd (approve_job clock d a s)) \<noteq> sys_jobs s" "sys_approvals s (sd_ApprovalID d) = Some a"
    "clock 3 \<noteq> zero_time"
  shows "\<exists>b a'. sys_jobs (snd (approve_job clock d a s)) = put_job (sys_jobs s) (act_JobID (apv_Action a)) b
           \<and> job_State b = StateQueued \<and> job_ApprovedActionHash b = apv_ActionHash a
           \<and> sys_approvals (snd (approve_job clock d a s)) (sd_ApprovalID d) = Some a' \<and> \<not> IsZero (apv_ApprovedAt a')"
proof -
  let ?s = "snd (approve_job clock d a s)"
  from approve_job_jobs [of clock d a s] assms(1) obtain a' where
    a': "a' = a \<and> \<not> IsZero (apv_ApprovedAt a)
         \<or> approvals_ApproveContext (sd_OrganizationID d) (sd_ApprovalID d) (sd_UserID d) (clock 2) (clock 3) (sys_approvals s)
             = (Inr a', sys_approvals ?s)"
    and jobs: "sys_jobs ?s = snd (jobs_ResumeFromApproval (act_JobID (apv_Action a)) (apv_ID a') (apv_ActionHash a')
                                   (clock 4) (clock 5) (sys_jobs s))" by blast
  have "apv_ActionHash a' = apv_ActionHash a \<and> (\<exists>x. sys_approvals ?s (sd_ApprovalID d) = Some x \<and> \<not> IsZero (apv_ApprovedAt x))"
  proof (cases "IsZero (apv_ApprovedAt a)")
    case True
    with a' have "approvals_ApproveContext (sd_OrganizationID d) (sd_ApprovalID d) (sd_UserID d) (clock 2) (clock 3) (sys_approvals s)
             = (Inr a', sys_approvals ?s)" by blast
    from ApproveContext_Inr [OF this] assms(2,3) show ?thesis by (auto simp: IsZero_def)
  next
    case False
    then have "sys_approvals ?s = sys_approvals s"
      by (simp add: approve_job_def Let_def split: prod.split sum.split)
    moreover have "apv_ActionHash a' = apv_ActionHash a"
      using a' False ApproveContext_Inr assms(2) by fastforce
    ultimately show ?thesis using False assms(2) by simp
  qed
  then show ?thesis
    using Resume_snd [of "act_JobID (apv_Action a)" "apv_ID a'" "apv_ActionHash a'" "clock 4" "clock 5" "sys_jobs s"]
      jobs assms(1) by metis
qed

lemma deny_job_changes:
  assumes "sys_jobs (snd (deny_job clock d a j s)) \<noteq> sys_jobs s" "sys_approvals s (sd_ApprovalID d) = Some a"
    "clock 3 \<noteq> zero_time"
  shows "\<exists>b a'. sys_jobs (snd (deny_job clock d a j s)) = put_job (sys_jobs s) (act_JobID (apv_Action a)) b
           \<and> job_State b \<in> {StateCancelled, StateCancelling}
           \<and> sys_approvals (snd (deny_job clock d a j s)) (sd_ApprovalID d) = Some a' \<and> \<not> IsZero (apv_DeniedAt a')"
proof -
  let ?s = "snd (deny_job clock d a j s)"
  from deny_job_jobs [of clock d a j s] assms(1) have
    dis: "\<not> IsZero (apv_DeniedAt a)
        \<or> (\<exists>a'. approvals_DenyContext (sd_OrganizationID d) (sd_ApprovalID d) (sd_UserID d) (clock 2) (clock 3) (sys_approvals s)
              = (Inr a', sys_approvals ?s))"
    and jobs: "sys_jobs ?s = snd (jobs_Cancel (act_JobID (apv_Action a)) ''approval_denied'' (clock 4) (sys_jobs s))" by blast+
  have "\<exists>x. sys_approvals ?s (sd_ApprovalID d) = Some x \<and> \<not> IsZero (apv_DeniedAt x)"
  proof (cases "IsZero (apv_DeniedAt a)")
    case True
    with dis DenyContext_Inr assms(3) show ?thesis by (fastforce simp: IsZero_def)
  next
    case False
    then have "sys_approvals ?s = sys_approvals s"
      by (simp add: deny_job_def Let_def split: prod.split sum.split option.split)
    then show ?thesis using False assms(2) by simp
  qed
  then show ?thesis
    using Cancel_snd [of "act_JobID (apv_Action a)" "''approval_denied''" "clock 4" "sys_jobs s"] jobs assms(1) by metis
qed

text \<open>
  C19. The approval gate: if handling a Slack decision changes any job, then the decision named
  an approval of its organization for this workspace and channel, the authorizer accepted the
  user, who is not the requester, the authorization is on the audit chain, and exactly the
  approval's own job was written: queued again with the approved digest after an approval that
  is now on record, or cancelled after a denial that is now on record.
\<close>

theorem decision_gate:
  assumes "HandleSlackDecision p clock ids d s = (r, s')" "sys_jobs s' \<noteq> sys_jobs s" "clock 3 \<noteq> zero_time"
  shows "\<exists>a job b a' rc. sys_approvals s (sd_ApprovalID d) = Some a
           \<and> apv_OrganizationID a = sd_OrganizationID d \<and> act_WorkspaceID (apv_Action a) = sd_WorkspaceID d
           \<and> act_ChannelID (apv_Action a) = sd_ChannelID d
           \<and> port_authorize p (sd_OrganizationID d) (sd_WorkspaceID d) (sd_ChannelID d) (sd_UserID d)
           \<and> sd_UserID d \<noteq> apv_RequesterID a \<and> sd_UserID d \<noteq> ''''
           \<and> ch_byKey (sys_audit s') (sd_OrganizationID d @ ''/'' @ authorization_key d a) = Some rc
           \<and> q_jobs (sys_jobs s) (act_JobID (apv_Action a)) = Some job \<and> job_ApprovalID job = apv_ID a
           \<and> sys_jobs s' = put_job (sys_jobs s) (act_JobID (apv_Action a)) b
           \<and> sys_approvals s' (sd_ApprovalID d) = Some a'
           \<and> (if sd_Approve d
              then job_State b = StateQueued \<and> job_ApprovedActionHash b = apv_ActionHash a \<and> \<not> IsZero (apv_ApprovedAt a')
              else job_State b \<in> {StateCancelled, StateCancelling} \<and> \<not> IsZero (apv_DeniedAt a'))"
proof -
  obtain a job where c: "check_decision p d s = Inr (a, job)"
    using assms(1,2) by (auto simp: HandleSlackDecision_def split: sum.splits)
  note chk = check_decision_Inr [OF c]
  obtain x ch where x: "audit_Append (port_marshal p) (port_sha p) (port_mac p) (authorization_receipt d a (clock 0)) (ids 0) (clock 1)
                 (sys_audit s) = (x, ch)" by fastforce
  obtain rc where rc: "x = Inr rc"
    using assms(1,2) c x by (cases x) (auto simp: HandleSlackDecision_def)
  let ?s1 = "s\<lparr>sys_audit := ch\<rparr>"
  define dec where "dec = (if sd_Approve d then approve_job clock d a ?s1 else deny_job clock d a job ?s1)"
  have s': "sys_jobs s' = sys_jobs (snd dec)" "sys_audit s' = sys_audit (snd dec)" "sys_approvals s' = sys_approvals (snd dec)"
    using assms(1) c x rc
    by (auto simp: HandleSlackDecision_def Let_def dec_def [symmetric] sys_enqueue_frame split: prod.splits sum.splits)
       (metis sys_enqueue_frame snd_conv)+
  have audit: "sys_audit (snd dec) = ch"
    by (simp add: dec_def approve_job_audit deny_job_audit)
  have rec: "ch_byKey ch (sd_OrganizationID d @ ''/'' @ authorization_key d a) = Some rc"
    by (rule authorization_recorded [OF x [unfolded rc]])
  have "\<exists>b a'. sys_jobs (snd dec) = put_job (sys_jobs s) (act_JobID (apv_Action a)) b
      \<and> sys_approvals (snd dec) (sd_ApprovalID d) = Some a'
      \<and> (if sd_Approve d
              then job_State b = StateQueued \<and> job_ApprovedActionHash b = apv_ActionHash a \<and> \<not> IsZero (apv_ApprovedAt a')
              else job_State b \<in> {StateCancelled, StateCancelling} \<and> \<not> IsZero (apv_DeniedAt a'))"
    using approve_job_changes [of clock d a ?s1] deny_job_changes [of clock d a job ?s1] assms(2,3) chk(1) s'(1)
    by (auto simp: dec_def split: if_splits)
  with chk rec s' audit show ?thesis by metis
qed

end
