(* ===== verification/CoordinatorProperties.thy ===== *)
theory CoordinatorProperties
  imports Coordinator
begin

text \<open>
  Concrete decisions as witnesses of the approval gate, and the idempotence of a redelivered
  Slack decision.
\<close>

section \<open>A concrete system\<close>

definition decided_job :: Job where
  "decided_job = zero_Job\<lparr>job_ID := ''j'', job_OrganizationID := ''o'', job_WorkspaceID := ''T'', job_ChannelID := ''C'',
     job_State := StateWaitingApproval, job_ApprovalID := ''a'', job_AdmissionReservationID := ''r'', job_Attempt := 1\<rparr>"

definition decided_system :: System where
  "decided_system =
     \<lparr>sys_jobs = \<lparr>q_jobs = [''j'' \<mapsto> decided_job], q_byIdempotency = Map.empty\<rparr>,
      sys_deliveries = NewDeliveryQueue,
      sys_approvals = sample_approvals,
      sys_audit = \<lparr>ch_hmacKey = replicate 32 CHR ''x'', ch_receipts = Map.empty, ch_byKey = Map.empty\<rparr>,
      sys_admissions = NewAdmission\<rparr>"

definition sample_ports :: Ports where
  "sample_ports = \<lparr>port_marshal = (\<lambda>r. Some (rc_Type r)), port_sha = id, port_mac = (@),
                   port_authorize = (\<lambda>org ws ch u. u = ''v'')\<rparr>"

definition sample_decision :: SlackDecision where
  "sample_decision = \<lparr>sd_OrganizationID = ''o'', sd_WorkspaceID = ''T'', sd_ChannelID = ''C'', sd_UserID = ''v'',
     sd_ApprovalID = ''a'', sd_MessageTS = ''5'', sd_Approve = True\<rparr>"

lemma sample_approvals_eq:
  "sample_approvals = [''a'' \<mapsto>
     \<lparr>apv_ID = ''a'', apv_OrganizationID = ''o'', apv_RequesterID = ''u'', apv_ApproverID = '''',
      apv_ActionHash = ''sha256:'' @ hex_encode (''git/push''), apv_Action = sample_action, apv_ExpiresAt = 110,
      apv_ApprovedAt = zero_time, apv_DeniedBy = '''', apv_DeniedAt = zero_time, apv_ConsumedAt = zero_time,
      apv_CleanupAt = 10 + (100 + 24 * Hour)\<rparr>]"
  by (simp add: sample_approvals_def approvals_Request_def HashAction_def sample_action_def sample_marshal_def
      NewApprovalStore_def Let_def)

lemma authorization_metadata_ok: "length s \<le> 256 \<Longrightarrow> length t \<le> 256 \<Longrightarrow> length u \<le> 256 \<Longrightarrow>
   validateMetadata [(''job_id'', MetaString s), (''channel_id'', MetaString t), (''action_hash'', MetaString u)] = Inr ()"
  by (simp add: forbidden_words_def ToLower.simps HasPrefix_def lower_char_def)

definition sample_hash :: string where "sample_hash = ''sha256:'' @ hex_encode ''git/push''"

lemma sample_check:
  "\<exists>a. check_decision sample_ports sample_decision decided_system = Inr (a, decided_job)
     \<and> sys_approvals decided_system ''a'' = Some a \<and> apv_ID a = ''a'' \<and> apv_Action a = sample_action
     \<and> apv_ActionHash a = sample_hash \<and> undecided a 20 \<and> apv_RequesterID a = ''u'' \<and> apv_OrganizationID a = ''o''
     \<and> apv_ApprovedAt a = zero_time"
  by (simp add: check_decision_def sample_decision_def decided_system_def sample_ports_def approvals_GetContext_def
      sample_approvals_eq jobs_Get_def decided_job_def sample_action_def sample_hash_def undecided_def IsZero_def)

lemma sample_hash_length: "length sample_hash \<le> 256"
  by (simp add: sample_hash_def hex_encode_def)

lemma sample_append:
  assumes "apv_ID a = ''a''" "apv_Action a = sample_action" "apv_ActionHash a = sample_hash"
  shows "\<exists>r c. audit_Append (port_marshal sample_ports) (port_sha sample_ports) (port_mac sample_ports)
           (authorization_receipt sample_decision a 20) ''rcpt'' 20 (sys_audit decided_system) = (Inr r, c)"
proof -
  have "validateMetadata (ap_Metadata (authorization_receipt sample_decision a 20)) = Inr ()"
    using assms sample_hash_length authorization_metadata_ok [of "''j''" "''C''" sample_hash]
    by (simp add: authorization_receipt_def sample_decision_def sample_action_def)
  moreover have "ap_RetentionEpoch (authorization_receipt sample_decision a 20) \<noteq> ''''"
    by (simp add: authorization_receipt_def format_month_def Let_def)
  ultimately show ?thesis
    by (simp add: audit_Append_def Let_def hashReceipt_def sample_ports_def decided_system_def)
       (simp add: authorization_receipt_def sample_decision_def)
qed

definition clock20 :: "nat \<Rightarrow> time" where "clock20 n = 20"
definition sample_ids :: "nat \<Rightarrow> string" where "sample_ids n = (if n = 0 then ''rcpt'' else ''dlv'')"

lemma sample_handled:
  "\<exists>s' b. HandleSlackDecision sample_ports clock20 sample_ids sample_decision decided_system = (Inr (), s')
     \<and> sys_jobs s' = put_job (sys_jobs decided_system) ''j'' b \<and> job_State b = StateQueued"
proof -
  obtain a where a: "check_decision sample_ports sample_decision decided_system = Inr (a, decided_job)"
    "sys_approvals decided_system ''a'' = Some a" "apv_ID a = ''a''" "apv_Action a = sample_action"
    "apv_ActionHash a = sample_hash" "undecided a 20" "apv_RequesterID a = ''u''" "apv_OrganizationID a = ''o''"
    "apv_ApprovedAt a = zero_time"
    using sample_check by blast
  obtain r c where append: "audit_Append (port_marshal sample_ports) (port_sha sample_ports) (port_mac sample_ports)
           (authorization_receipt sample_decision a 20) ''rcpt'' 20 (sys_audit decided_system) = (Inr r, c)"
    using sample_append a by blast
  have job: "q_jobs (sys_jobs decided_system) ''j'' = Some decided_job" by (simp add: decided_system_def)
  have hash: "sample_hash \<noteq> ''''" by (simp add: sample_hash_def)
  have resume: "\<exists>b. jobs_ResumeFromApproval ''j'' ''a'' sample_hash 20 20 (sys_jobs decided_system)
        = (Inr b, put_job (sys_jobs decided_system) ''j'' b) \<and> job_State b = StateQueued"
    using job hash by (simp add: jobs_ResumeFromApproval_def Let_def) (simp add: decided_job_def)
  then obtain b where b: "jobs_ResumeFromApproval ''j'' ''a'' sample_hash 20 20 (sys_jobs decided_system)
        = (Inr b, put_job (sys_jobs decided_system) ''j'' b)" "job_State b = StateQueued" by blast
  have d: "sd_OrganizationID sample_decision = ''o''" "sd_ApprovalID sample_decision = ''a''" "sd_UserID sample_decision = ''v''"
    "sd_Approve sample_decision" "sd_WorkspaceID sample_decision = ''T''" "sd_ChannelID sample_decision = ''C''"
    by (simp_all add: sample_decision_def)
  have act: "act_JobID sample_action = ''j''" by (simp add: sample_action_def)
  have "\<exists>a' st. approvals_ApproveContext ''o'' ''a'' ''v'' 20 20 (sys_approvals decided_system) = (Inr a', st)
      \<and> apv_ID a' = ''a'' \<and> apv_ActionHash a' = sample_hash"
    using a by (simp add: approvals_ApproveContext_def approvals_approve_def Let_def)
  then obtain a' st where a': "approvals_ApproveContext ''o'' ''a'' ''v'' 20 20 (sys_approvals decided_system) = (Inr a', st)"
      "apv_ID a' = ''a''" "apv_ActionHash a' = sample_hash" by blast
  have "approve_job clock20 sample_decision a (decided_system\<lparr>sys_audit := c\<rparr>) =
      (Inr a', decided_system\<lparr>sys_audit := c, sys_approvals := st, sys_jobs := put_job (sys_jobs decided_system) ''j'' b\<rparr>)"
    using a a' b d act by (simp add: approve_job_def Let_def clock20_def IsZero_def)
  moreover have "sys_deliveries decided_system = NewDeliveryQueue" by (simp add: decided_system_def)
  ultimately have "\<exists>s'. HandleSlackDecision sample_ports clock20 sample_ids sample_decision decided_system = (Inr (), s')
     \<and> sys_jobs s' = put_job (sys_jobs decided_system) ''j'' b"
    using a append d act a'
    by (simp add: HandleSlackDecision_def Let_def clock20_def sample_ids_def sys_enqueue_def deliveries_Enqueue_def
        valid_delivery_def NewDeliveryQueue_def)
  with b(2) show ?thesis by blast
qed

theorem decision_gate_witness:
  "\<exists>s' rc. HandleSlackDecision sample_ports clock20 sample_ids sample_decision decided_system = (Inr (), s')
     \<and> ch_byKey (sys_audit s') ''o/tool-approval/a/approved/authorized'' = Some rc"
proof -
  obtain s' b where run: "HandleSlackDecision sample_ports clock20 sample_ids sample_decision decided_system = (Inr (), s')"
    and b: "sys_jobs s' = put_job (sys_jobs decided_system) ''j'' b" "job_State b = StateQueued"
    using sample_handled by blast
  have "q_jobs (sys_jobs s') ''j'' \<noteq> q_jobs (sys_jobs decided_system) ''j''"
    using b by (auto simp: decided_system_def decided_job_def)
  then have ne: "sys_jobs s' \<noteq> sys_jobs decided_system" by metis
  have t: "clock20 3 \<noteq> zero_time" by (simp add: clock20_def zero_time_def)
  obtain a where a: "sys_approvals decided_system ''a'' = Some a" "apv_ID a = ''a''" using sample_check by blast
  from decision_gate [OF run ne t] obtain a2 rc where "sys_approvals decided_system ''a'' = Some a2"
      "ch_byKey (sys_audit s') (''o'' @ ''/'' @ authorization_key sample_decision a2) = Some rc"
    by (auto simp: sample_decision_def)
  with a run show ?thesis by (auto simp: authorization_key_def decision_status_def sample_decision_def)
qed

section \<open>Redelivery\<close>

lemma append_again:
  assumes "audit_Append m sh mc a i t c = (Inr r, c')" "ap_IdempotencyKey a \<noteq> ''''"
    and "ap_OrganizationID a' = ap_OrganizationID a" "ap_Type a' = ap_Type a" "ap_Metadata a' = ap_Metadata a"
    "ap_IdempotencyKey a' = ap_IdempotencyKey a" "ap_RetentionEpoch a' \<noteq> ''''"
  shows "audit_Append m sh mc a' i' t' c' = (Inr r, c')"
proof -
  have "ch_byKey c' (audit_key a) = Some r" "validateMetadata (ap_Metadata a) = Inr ()"
    "ap_OrganizationID a \<noteq> ''''" "ap_Type a \<noteq> ''''"
    using assms(1,2) by (auto simp: audit_Append_def Let_def split: sum.splits option.splits if_splits)
  then show ?thesis using assms(2-) by (simp add: audit_Append_def audit_key_def)
qed

lemma delivery_enqueue_again:
  assumes "sys_enqueue spec i t s = (Inr (), s')"
    and "ds_OrganizationID spec' = ds_OrganizationID spec" "ds_IdempotencyKey spec' = ds_IdempotencyKey spec"
    "valid_delivery spec' = valid_delivery spec" "sys_deliveries s2 = sys_deliveries s'"
  shows "sys_enqueue spec' i' t' s2 = (Inr (), s2)"
  using assms by (auto simp: sys_enqueue_def deliveries_Enqueue_def Let_def split: option.splits if_splits)

lemma sys_enqueue_Inr: "sys_enqueue spec i t s = (Inr (), s') \<Longrightarrow>
   sys_jobs s' = sys_jobs s \<and> sys_audit s' = sys_audit s \<and> sys_approvals s' = sys_approvals s
   \<and> sys_admissions s' = sys_admissions s"
  using sys_enqueue_frame [of spec i t s] by simp

text \<open>The state an approving or denying decision leaves behind is a fixed point of it.\<close>

lemma Resume_again:
  assumes "jobs_ResumeFromApproval i apv h t1 t2 q = (Inr b, q')"
  shows "\<exists>e. jobs_ResumeFromApproval i apv h t3 t4 q' = (Inl e, q')"
    "q_jobs q' i = Some b \<and> job_ApprovalID b = apv \<and> job_ApprovedActionHash b = h \<and> job_State b = StateQueued"
  using assms by (auto simp: jobs_ResumeFromApproval_def Let_def split: option.splits if_splits)

lemma Resume_same_jobs: "\<exists>r. jobs_ResumeFromApproval i apv h t1 t2 q = (Inl r, q) \<or> (\<exists>b. jobs_ResumeFromApproval i apv h t1 t2 q = (Inr b, put_job q i b))"
  by (auto simp: jobs_ResumeFromApproval_def Let_def split: option.split)

lemma Resume_error_clock:
  "jobs_ResumeFromApproval i apv h t1 t2 q = (Inl e, q') \<Longrightarrow> jobs_ResumeFromApproval i apv h t3 t4 q = (Inl e, q) \<and> q' = q"
  by (auto simp: jobs_ResumeFromApproval_def Let_def split: option.splits if_splits)

lemma approve_job_again:
  assumes "approve_job clock d a s = (Inr a', s1)" "sys_approvals s (sd_ApprovalID d) = Some a" "clock 3 \<noteq> zero_time"
    and "sys_jobs s2 = sys_jobs s1"
  shows "sys_approvals s1 (sd_ApprovalID d) = Some a' \<and> same_request a a' \<and> \<not> IsZero (apv_ApprovedAt a')
         \<and> approve_job clock' d a' s2 = (Inr a', s2)"
proof -
  let ?j = "act_JobID (apv_Action a)"
  obtain st where a': "sys_approvals s1 = st" "st (sd_ApprovalID d) = Some a'" "same_request a a'" "\<not> IsZero (apv_ApprovedAt a')"
    and q: "(\<exists>b. jobs_ResumeFromApproval ?j (apv_ID a') (apv_ActionHash a') (clock 4) (clock 5) (sys_jobs s) = (Inr b, sys_jobs s1))
        \<or> (\<exists>e job. jobs_ResumeFromApproval ?j (apv_ID a') (apv_ActionHash a') (clock 4) (clock 5) (sys_jobs s) = (Inl e, sys_jobs s1)
              \<and> q_jobs (sys_jobs s1) ?j = Some job \<and> job_ApprovalID job = apv_ID a'
              \<and> job_ApprovedActionHash job = apv_ActionHash a' \<and> job_State job \<noteq> StateWaitingApproval)"
  proof (cases "IsZero (apv_ApprovedAt a)")
    case True
    with assms(1) obtain st where st: "approvals_ApproveContext (sd_OrganizationID d) (sd_ApprovalID d) (sd_UserID d) (clock 2) (clock 3)
        (sys_approvals s) = (Inr a', st)" "sys_approvals s1 = st"
      and q: "(\<exists>b. jobs_ResumeFromApproval ?j (apv_ID a') (apv_ActionHash a') (clock 4) (clock 5) (sys_jobs s) = (Inr b, sys_jobs s1))
        \<or> (\<exists>e job. jobs_ResumeFromApproval ?j (apv_ID a') (apv_ActionHash a') (clock 4) (clock 5) (sys_jobs s) = (Inl e, sys_jobs s1)
              \<and> q_jobs (sys_jobs s1) ?j = Some job \<and> job_ApprovalID job = apv_ID a'
              \<and> job_ApprovedActionHash job = apv_ActionHash a' \<and> job_State job \<noteq> StateWaitingApproval)"
      by (auto simp: approve_job_def jobs_Get_def Let_def split: prod.splits sum.splits option.splits if_splits)
    have a': "a' = a\<lparr>apv_ApproverID := sd_UserID d, apv_ApprovedAt := clock 3\<rparr>" "st (sd_ApprovalID d) = Some a'"
      using ApproveContext_Inr [OF st(1)] assms(2) by auto
    show ?thesis
      by (rule that [OF st(2) a'(2) _ _ q]) (use a'(1) assms(3) in \<open>simp_all add: same_request_def IsZero_def\<close>)
  next
    case False
    with assms(1,2) show ?thesis
      by (intro that [of "sys_approvals s"])
         (auto simp: approve_job_def jobs_Get_def Let_def same_request_def split: prod.splits sum.splits option.splits if_splits)
  qed
  have act: "act_JobID (apv_Action a') = ?j" using a'(3) by (simp add: same_request_def)
  have "\<exists>e job. jobs_ResumeFromApproval ?j (apv_ID a') (apv_ActionHash a') (clock' 4) (clock' 5) (sys_jobs s2) = (Inl e, sys_jobs s2)
              \<and> q_jobs (sys_jobs s2) ?j = Some job \<and> job_ApprovalID job = apv_ID a'
              \<and> job_ApprovedActionHash job = apv_ActionHash a' \<and> job_State job \<noteq> StateWaitingApproval"
    using q
  proof
    assume "\<exists>b. jobs_ResumeFromApproval ?j (apv_ID a') (apv_ActionHash a') (clock 4) (clock 5) (sys_jobs s) = (Inr b, sys_jobs s1)"
    then obtain b where "jobs_ResumeFromApproval ?j (apv_ID a') (apv_ActionHash a') (clock 4) (clock 5) (sys_jobs s) = (Inr b, sys_jobs s1)" ..
    from Resume_again(1) [OF this, of "clock' 4" "clock' 5"] Resume_again(2) [OF this] assms(4) show ?thesis by auto
  next
    assume "\<exists>e job. jobs_ResumeFromApproval ?j (apv_ID a') (apv_ActionHash a') (clock 4) (clock 5) (sys_jobs s) = (Inl e, sys_jobs s1)
              \<and> q_jobs (sys_jobs s1) ?j = Some job \<and> job_ApprovalID job = apv_ID a'
              \<and> job_ApprovedActionHash job = apv_ActionHash a' \<and> job_State job \<noteq> StateWaitingApproval"
    then obtain e job where e: "jobs_ResumeFromApproval ?j (apv_ID a') (apv_ActionHash a') (clock 4) (clock 5) (sys_jobs s) = (Inl e, sys_jobs s1)"
      and job: "q_jobs (sys_jobs s1) ?j = Some job" "job_ApprovalID job = apv_ID a'"
              "job_ApprovedActionHash job = apv_ActionHash a'" "job_State job \<noteq> StateWaitingApproval" by blast
    from Resume_error_clock [OF e, of "clock' 4" "clock' 5"] job assms(4) show ?thesis by auto
  qed
  then have "approve_job clock' d a' s2 = (Inr a', s2)"
    using a'(4) act by (auto simp: approve_job_def jobs_Get_def Let_def)
  with a' show ?thesis by simp
qed

lemma Cancel_again:
  assumes "jobs_Cancel i r t q = (Inr b, q')"
  shows "(\<exists>e. jobs_Cancel i r' t' q' = (Inl e, q')) \<and> q_jobs q' i = Some b \<and> job_State b \<in> {StateCancelled, StateCancelling}"
  using assms by (auto simp: jobs_Cancel_def Let_def split: option.splits if_splits)

lemma Cancel_error_clock:
  "jobs_Cancel i r t q = (Inl e, q') \<Longrightarrow> jobs_Cancel i r t' q = (Inl e, q) \<and> q' = q"
  by (auto simp: jobs_Cancel_def Let_def split: option.splits if_splits)

lemma deny_job_again:
  assumes "deny_job clock d a j s = (Inr a', s1)" "sys_approvals s (sd_ApprovalID d) = Some a" "clock 3 \<noteq> zero_time"
    and "sys_jobs s2 = sys_jobs s1" "sys_admissions s2 = sys_admissions s1"
    and "job_AdmissionReservationID j' = job_AdmissionReservationID j"
  shows "sys_approvals s1 (sd_ApprovalID d) = Some a' \<and> same_request a a' \<and> \<not> IsZero (apv_DeniedAt a')
         \<and> deny_job clock' d a' j' s2 = (Inr a', s2)"
proof -
  let ?j = "act_JobID (apv_Action a)"
  let ?cancelled = "\<lambda>q. \<exists>e job. jobs_Cancel ?j ''approval_denied'' (clock' 4) q = (Inl e, q)
              \<and> q_jobs q ?j = Some job \<and> job_State job \<in> {StateCancelled, StateCancelling}"
  have cancel: "?cancelled (sys_jobs s1)"
    if run: "jobs_Cancel ?j ''approval_denied'' (clock 4) (sys_jobs s) = (c, q)" "sys_jobs s1 = q"
      and ok: "case c of Inr _ \<Rightarrow> True | Inl e \<Rightarrow> \<exists>job. q_jobs q ?j = Some job \<and> job_State job \<in> {StateCancelled, StateCancelling}"
    for c q
  proof (cases c)
    case (Inr b)
    with Cancel_again [OF run(1) [unfolded Inr], of "''approval_denied''" "clock' 4"] run(2) show ?thesis by blast
  next
    case (Inl e)
    with Cancel_error_clock [OF run(1) [unfolded Inl], of "clock' 4"] run(2) ok show ?thesis by auto
  qed
  obtain st where a': "sys_approvals s1 = st" "st (sd_ApprovalID d) = Some a'" "same_request a a'" "\<not> IsZero (apv_DeniedAt a')"
    and q: "?cancelled (sys_jobs s1)"
    and adm: "sys_admissions s1 = admission_Complete (job_AdmissionReservationID j) (sys_admissions s)"
  proof (cases "IsZero (apv_DeniedAt a)")
    case True
    with assms(1) obtain st c q where st: "approvals_DenyContext (sd_OrganizationID d) (sd_ApprovalID d) (sd_UserID d) (clock 2) (clock 3)
        (sys_approvals s) = (Inr a', st)" "sys_approvals s1 = st"
      and c: "jobs_Cancel ?j ''approval_denied'' (clock 4) (sys_jobs s) = (c, q)" "sys_jobs s1 = q"
        "case c of Inr _ \<Rightarrow> True | Inl e \<Rightarrow> \<exists>job. q_jobs q ?j = Some job \<and> job_State job \<in> {StateCancelled, StateCancelling}"
      and adm: "sys_admissions s1 = admission_Complete (job_AdmissionReservationID j) (sys_admissions s)"
      by (auto simp: deny_job_def jobs_Get_def Let_def split: prod.splits sum.splits option.splits if_splits)
    have a': "a' = a\<lparr>apv_DeniedBy := sd_UserID d, apv_DeniedAt := clock 3\<rparr>" "st (sd_ApprovalID d) = Some a'"
      using DenyContext_Inr [OF st(1)] assms(2) by auto
    show ?thesis
      by (rule that [OF st(2) a'(2) _ _ cancel [OF c] adm]) (use a'(1) assms(3) in \<open>simp_all add: same_request_def IsZero_def\<close>)
  next
    case False
    with assms(1) obtain c q where c: "jobs_Cancel ?j ''approval_denied'' (clock 4) (sys_jobs s) = (c, q)" "sys_jobs s1 = q"
        "case c of Inr _ \<Rightarrow> True | Inl e \<Rightarrow> \<exists>job. q_jobs q ?j = Some job \<and> job_State job \<in> {StateCancelled, StateCancelling}"
      and adm: "sys_admissions s1 = admission_Complete (job_AdmissionReservationID j) (sys_admissions s)"
      and a': "a' = a" "sys_approvals s1 = sys_approvals s"
      by (auto simp: deny_job_def jobs_Get_def Let_def split: prod.splits sum.splits option.splits if_splits)
    show ?thesis
      by (rule that [OF a'(2) _ _ _ cancel [OF c] adm]) (use a'(1) False assms(2) in \<open>simp_all add: same_request_def\<close>)
  qed
  have "act_JobID (apv_Action a') = ?j" using a'(3) by (simp add: same_request_def)
  moreover have "admission_Complete (job_AdmissionReservationID j') (sys_admissions s2) = sys_admissions s2"
    using adm assms(5,6) by (simp add: admission_Complete_again)
  moreover have "s2\<lparr>sys_jobs := sys_jobs s2, sys_admissions := sys_admissions s2\<rparr> = s2" by (cases s2) simp
  moreover have "?cancelled (sys_jobs s2)" using q assms(4) by simp
  ultimately have "deny_job clock' d a' j' s2 = (Inr a', s2)"
    using a'(4) by (auto simp: deny_job_def jobs_Get_def Let_def)
  with a' show ?thesis by simp
qed

text \<open>The job of the approval keeps its scope, its approval and its reservation.\<close>

definition same_scope :: "Job \<Rightarrow> Job \<Rightarrow> bool" where
  "same_scope a b \<longleftrightarrow>
     job_OrganizationID b = job_OrganizationID a \<and> job_WorkspaceID b = job_WorkspaceID a
     \<and> job_ChannelID b = job_ChannelID a \<and> job_ApprovalID b = job_ApprovalID a
     \<and> job_AdmissionReservationID b = job_AdmissionReservationID a"

lemma Resume_scope:
  "q_jobs q i = Some a \<Longrightarrow> \<exists>b. q_jobs (snd (jobs_ResumeFromApproval i apv h t1 t2 q)) i = Some b \<and> same_scope a b"
  by (simp add: jobs_ResumeFromApproval_def Let_def same_scope_def)

lemma Cancel_scope:
  "q_jobs q i = Some a \<Longrightarrow> \<exists>b. q_jobs (snd (jobs_Cancel i r t q)) i = Some b \<and> same_scope a b"
  by (simp add: jobs_Cancel_def Let_def same_scope_def)

lemma decided_job_scope:
  assumes "q_jobs (sys_jobs s) (act_JobID (apv_Action a)) = Some job"
  shows "\<exists>b. q_jobs (sys_jobs (snd (approve_job clock d a s))) (act_JobID (apv_Action a)) = Some b \<and> same_scope job b"
    "\<exists>b. q_jobs (sys_jobs (snd (deny_job clock d a j s))) (act_JobID (apv_Action a)) = Some b \<and> same_scope job b"
proof -
  have same: "\<exists>b. q_jobs (sys_jobs s) (act_JobID (apv_Action a)) = Some b \<and> same_scope job b"
    using assms by (simp add: same_scope_def)
  show "\<exists>b. q_jobs (sys_jobs (snd (approve_job clock d a s))) (act_JobID (apv_Action a)) = Some b \<and> same_scope job b"
    using approve_job_jobs [of clock d a s] same Resume_scope [OF assms] by metis
  show "\<exists>b. q_jobs (sys_jobs (snd (deny_job clock d a j s))) (act_JobID (apv_Action a)) = Some b \<and> same_scope job b"
    using deny_job_jobs [of clock d a j s] same Cancel_scope [OF assms] by metis
qed

text \<open>
  A redelivered Slack decision is harmless: when handling a decision succeeded, handling it
  again, at any later time, succeeds and changes nothing in any store.
\<close>

theorem redelivered_decision_harmless:
  assumes "HandleSlackDecision p clock ids d s = (Inr (), s')" "clock 3 \<noteq> zero_time"
  shows "HandleSlackDecision p clock' ids' d s' = (Inr (), s')"
proof -
  obtain a job where c: "check_decision p d s = Inr (a, job)"
    using assms(1) by (auto simp: HandleSlackDecision_def split: sum.splits)
  note chk = check_decision_Inr [OF c]
  obtain rc ch where x: "audit_Append (port_marshal p) (port_sha p) (port_mac p) (authorization_receipt d a (clock 0)) (ids 0) (clock 1)
                 (sys_audit s) = (Inr rc, ch)"
    using assms(1) c by (auto simp: HandleSlackDecision_def Let_def split: prod.splits sum.splits)
  let ?s1 = "s\<lparr>sys_audit := ch\<rparr>"
  define dec where "dec = (if sd_Approve d then approve_job clock d a ?s1 else deny_job clock d a job ?s1)"
  define spec where "spec = (\<lambda>a'. \<lparr>ds_OrganizationID = sd_OrganizationID d, ds_JobID = act_JobID (apv_Action a), ds_DecisionID = '''',
                        ds_IdempotencyKey = ''approval/'' @ apv_ID a' @ ''/'' @ decision_status d,
                        ds_Destination = \<lparr>dest_TeamID = sd_WorkspaceID d, dest_ChannelID = sd_ChannelID d,
                                          dest_ThreadTS = act_ThreadTS (apv_Action a'), dest_UpdateTS = sd_MessageTS d,
                                          dest_StreamTS = ''''\<rparr>,
                        ds_Result = approval_result a' (decision_status d)
                                      (if sd_Approve d then apv_ApprovedAt a' else apv_DeniedAt a'),
                        ds_MaxAttempts = 3, ds_ExpiresAt = apv_CleanupAt a'\<rparr>)"
  obtain a' s2 where dec: "dec = (Inr a', s2)" and enq: "sys_enqueue (spec a') (ids 1) (clock 6) s2 = (Inr (), s')"
    using assms(1) c x by (auto simp: HandleSlackDecision_def Let_def dec_def [symmetric] spec_def split: prod.splits sum.splits)
  note frame = sys_enqueue_Inr [OF enq]
  have stored: "sys_approvals s' (sd_ApprovalID d) = Some a'" "same_request a a'"
    and again: "\<And>j'. job_AdmissionReservationID j' = job_AdmissionReservationID job \<Longrightarrow>
      (if sd_Approve d then approve_job clock' d a' s' else deny_job clock' d a' j' s') = (Inr a', s')"
    using approve_job_again [of clock d a ?s1 a' s2 s' clock'] deny_job_again [of clock d a job ?s1 a' s2 s' _ clock']
      dec assms(2) chk(1) frame by (auto simp: dec_def split: if_splits)
  have "\<exists>b. q_jobs (sys_jobs (snd dec)) (act_JobID (apv_Action a)) = Some b \<and> same_scope job b"
    using decided_job_scope [of ?s1 a job clock d] chk(8) by (auto simp: dec_def)
  then obtain b where b: "q_jobs (sys_jobs s') (act_JobID (apv_Action a)) = Some b" "same_scope job b"
    using dec frame by auto
  have c': "check_decision p d s' = Inr (a', b)"
    using c stored b chk by (auto simp: check_decision_def approvals_GetContext_def jobs_Get_def same_request_def same_scope_def
        split: if_splits sum.splits option.splits)
  have audit: "sys_audit s' = ch"
    using frame dec approve_job_audit [of clock d a ?s1] deny_job_audit [of clock d a job ?s1]
    by (auto simp: dec_def split: if_splits)
  have "audit_Append (port_marshal p) (port_sha p) (port_mac p) (authorization_receipt d a' (clock' 0)) (ids' 0) (clock' 1)
                 (sys_audit s') = (Inr rc, ch)"
    unfolding audit
  proof (rule append_again [OF x])
    show "ap_RetentionEpoch (authorization_receipt d a' (clock' 0)) \<noteq> ''''"
      by (simp add: authorization_receipt_def format_month_def Let_def)
  qed (use stored(2) in \<open>simp_all add: authorization_receipt_def authorization_key_def same_request_def\<close>)
  moreover have "s'\<lparr>sys_audit := ch\<rparr> = s'" using audit by (cases s') simp
  moreover have "sys_enqueue (spec a') (ids' 1) (clock' 6) s' = (Inr (), s')"
    by (rule delivery_enqueue_again [OF enq]) simp_all
  moreover have "act_JobID (apv_Action a') = act_JobID (apv_Action a)" using stored(2) by (simp add: same_request_def)
  ultimately show ?thesis
    using c' again [of b] b(2)
    by (simp add: HandleSlackDecision_def Let_def spec_def same_scope_def split: if_splits)
qed

theorem redelivered_decision_harmless_witness:
  "\<exists>s'. HandleSlackDecision sample_ports clock20 sample_ids sample_decision decided_system = (Inr (), s')
     \<and> HandleSlackDecision sample_ports clock20 sample_ids sample_decision s' = (Inr (), s')"
proof -
  obtain s' where run: "HandleSlackDecision sample_ports clock20 sample_ids sample_decision decided_system = (Inr (), s')"
    using sample_handled by blast
  have "clock20 3 \<noteq> zero_time" by (simp add: clock20_def zero_time_def)
  from redelivered_decision_harmless [OF run this] run show ?thesis by blast
qed

end
