(* ===== verification/Policy.thy ===== *)
theory Policy
  imports Prelude
begin

text \<open>
  The policy engine of \<^verbatim>\<open>core/policy/policy.go\<close>.  \<open>policy_Evaluate\<close> follows the code: two early
  denials, then one pass over the rules with an early return at a matching deny rule.  The
  lemmas show that its effect is a function of the set of rules alone (\<open>effect_of\<close>).
\<close>

section \<open>The engine (policy.go)\<close>

datatype Effect = EffectAllow | EffectDeny | EffectRequireApproval | EffectOther string

record PolicyInput =
  in_OrganizationID :: string
  in_PrincipalID :: string
  in_RequesterID :: string
  in_Ambient :: bool
  in_Operation :: string
  in_Risk :: string
  in_Destination :: string
  in_DataClass :: string

record PolicyRule =
  rule_ID :: string
  rule_Effect :: Effect
  rule_OrganizationID :: string
  rule_PrincipalID :: string
  rule_RequesterID :: string
  rule_OperationPrefix :: string
  rule_Risk :: string
  rule_DestinationPrefix :: string
  rule_DataClass :: string
  rule_Priority :: int

record PolicyDecision =
  pd_Effect :: Effect
  pd_Reason :: string
  pd_MatchedRules :: "string list"

definition policy_matches :: "PolicyRule \<Rightarrow> PolicyInput \<Rightarrow> bool" where
  "policy_matches r i \<longleftrightarrow>
     (rule_OrganizationID r = '''' \<or> rule_OrganizationID r = in_OrganizationID i)
     \<and> (rule_PrincipalID r = '''' \<or> rule_PrincipalID r = in_PrincipalID i)
     \<and> (rule_RequesterID r = '''' \<or> rule_RequesterID r = in_RequesterID i)
     \<and> (rule_OperationPrefix r = '''' \<or> HasPrefix (in_Operation i) (rule_OperationPrefix r))
     \<and> (rule_Risk r = '''' \<or> rule_Risk r = in_Risk i)
     \<and> (rule_DestinationPrefix r = '''' \<or> HasPrefix (in_Destination i) (rule_DestinationPrefix r))
     \<and> (rule_DataClass r = '''' \<or> rule_DataClass r = in_DataClass i)"

definition isWriteRisk :: "string \<Rightarrow> bool" where
  "isWriteRisk risk \<longleftrightarrow> risk \<in> {''write'', ''destructive'', ''admin''}"

text \<open>The loop over the rules, with the statements after it as its last case.\<close>

fun policy_scan :: "PolicyRule list \<Rightarrow> PolicyInput \<Rightarrow> int \<Rightarrow> int \<Rightarrow> string list \<Rightarrow> PolicyDecision" where
  "policy_scan [] i highestAllow highestApproval matched =
     (if highestAllow \<le> highestApproval \<and> 0 \<le> highestApproval
      then \<lparr>pd_Effect = EffectRequireApproval, pd_Reason = ''policy.approval_required'', pd_MatchedRules = matched\<rparr>
      else if 0 \<le> highestAllow
      then \<lparr>pd_Effect = EffectAllow, pd_Reason = ''policy.allowed'', pd_MatchedRules = matched\<rparr>
      else \<lparr>pd_Effect = EffectDeny, pd_Reason = ''policy.default_deny'', pd_MatchedRules = matched\<rparr>)"
| "policy_scan (r # rs) i highestAllow highestApproval matched =
     (if \<not> policy_matches r i then policy_scan rs i highestAllow highestApproval matched
      else if rule_Effect r = EffectDeny
      then \<lparr>pd_Effect = EffectDeny, pd_Reason = ''policy.explicit_deny'', pd_MatchedRules = matched @ [rule_ID r]\<rparr>
      else policy_scan rs i
             (if rule_Effect r = EffectAllow \<and> highestAllow < rule_Priority r then rule_Priority r else highestAllow)
             (if rule_Effect r = EffectRequireApproval \<and> highestApproval < rule_Priority r
              then rule_Priority r else highestApproval)
             (matched @ [rule_ID r]))"

definition policy_Evaluate :: "PolicyRule list \<Rightarrow> PolicyInput \<Rightarrow> PolicyDecision" where
  "policy_Evaluate rules i =
     (if in_OrganizationID i = '''' \<or> in_PrincipalID i = '''' \<or> in_Operation i = ''''
      then \<lparr>pd_Effect = EffectDeny, pd_Reason = ''policy.incomplete_input'', pd_MatchedRules = []\<rparr>
      else if in_Ambient i \<and> isWriteRisk (in_Risk i)
      then \<lparr>pd_Effect = EffectDeny, pd_Reason = ''policy.ambient_write_denied'', pd_MatchedRules = []\<rparr>
      else policy_scan rules i (-1) (-1) [])"

section \<open>The effect, as a function of the rule set\<close>

definition top_priority :: "Effect \<Rightarrow> PolicyRule set \<Rightarrow> PolicyInput \<Rightarrow> int" where
  "top_priority e R i = Max (insert (-1) (rule_Priority ` {r \<in> R. policy_matches r i \<and> rule_Effect r = e}))"

definition denied_input :: "PolicyInput \<Rightarrow> bool" where
  "denied_input i \<longleftrightarrow> in_OrganizationID i = '''' \<or> in_PrincipalID i = '''' \<or> in_Operation i = ''''
                   \<or> in_Ambient i \<and> isWriteRisk (in_Risk i)"

definition effect_of :: "PolicyRule set \<Rightarrow> PolicyInput \<Rightarrow> Effect" where
  "effect_of R i =
     (if denied_input i \<or> (\<exists>r \<in> R. policy_matches r i \<and> rule_Effect r = EffectDeny) then EffectDeny
      else if top_priority EffectAllow R i \<le> top_priority EffectRequireApproval R i
              \<and> 0 \<le> top_priority EffectRequireApproval R i then EffectRequireApproval
      else if 0 \<le> top_priority EffectAllow R i then EffectAllow else EffectDeny)"

fun max_priority :: "Effect \<Rightarrow> PolicyRule list \<Rightarrow> PolicyInput \<Rightarrow> int \<Rightarrow> int" where
  "max_priority e [] i m = m"
| "max_priority e (r # rs) i m =
     max_priority e rs i (if policy_matches r i \<and> rule_Effect r = e \<and> m < rule_Priority r then rule_Priority r else m)"

lemma Max_insert_twice: "finite S \<Longrightarrow> Max (insert m (insert p S)) = Max (insert (max m p) S)" for m p :: int
  by (cases "S = {}") (simp_all add: max.assoc)

lemma max_priority_Max:
  "max_priority e rs i m = Max (insert m (rule_Priority ` {r \<in> set rs. policy_matches r i \<and> rule_Effect r = e}))"
proof (induction rs arbitrary: m)
  case (Cons r rs)
  let ?P = "\<lambda>r. policy_matches r i \<and> rule_Effect r = e"
  let ?M = "rule_Priority ` {x \<in> set rs. ?P x}"
  show ?case
  proof (cases "?P r")
    case True
    then have "{x \<in> set (r # rs). ?P x} = insert r {x \<in> set rs. ?P x}" by auto
    then have "Max (insert m (rule_Priority ` {x \<in> set (r # rs). ?P x})) = Max (insert (max m (rule_Priority r)) ?M)"
      by (simp only: image_insert) (rule Max_insert_twice, simp)
    moreover have "max_priority e (r # rs) i m = max_priority e rs i (max m (rule_Priority r))"
      using True by (simp add: max_def)
    ultimately show ?thesis by (simp only: Cons.IH)
  next
    case False
    then have "{x \<in> set (r # rs). ?P x} = {x \<in> set rs. ?P x}" by auto
    moreover have "max_priority e (r # rs) i m = max_priority e rs i m" using False by auto
    ultimately show ?thesis by (simp only: Cons.IH)
  qed
qed simp

lemma max_priority_top: "max_priority e rs i (-1) = top_priority e (set rs) i"
  by (simp only: max_priority_Max top_priority_def)

lemma scan_denied:
  "\<exists>r \<in> set rs. policy_matches r i \<and> rule_Effect r = EffectDeny \<Longrightarrow>
     pd_Effect (policy_scan rs i a b matched) = EffectDeny
     \<and> pd_Reason (policy_scan rs i a b matched) = ''policy.explicit_deny''"
  by (induction rs arbitrary: a b matched) auto

lemma scan_not_denied:
  "\<not> (\<exists>r \<in> set rs. policy_matches r i \<and> rule_Effect r = EffectDeny) \<Longrightarrow>
     policy_scan rs i a b matched =
       policy_scan [] i (max_priority EffectAllow rs i a) (max_priority EffectRequireApproval rs i b)
         (matched @ map rule_ID (filter (\<lambda>r. policy_matches r i) rs))"
  by (induction rs arbitrary: a b matched) simp_all

text \<open>
  The decision depends only on the set of rules, never on their order: input without an
  organization, principal or operation, an ambient write, and any matching deny rule are
  denied; otherwise the highest matching allow and approval priorities decide, approval
  winning ties, and negative priorities counting for nothing.
\<close>

theorem policy_effect:
  "pd_Effect (policy_Evaluate rules i) = effect_of (set rules) i"
proof (cases "denied_input i \<or> (\<exists>r \<in> set rules. policy_matches r i \<and> rule_Effect r = EffectDeny)")
  case True
  then show ?thesis
    using scan_denied [of rules i] by (auto simp: policy_Evaluate_def effect_of_def denied_input_def)
next
  case False
  then have nd: "\<not> (\<exists>r \<in> set rules. policy_matches r i \<and> rule_Effect r = EffectDeny)" "\<not> denied_input i"
    by simp_all
  have "policy_Evaluate rules i = policy_scan rules i (-1) (-1) []"
    using nd(2) by (auto simp: policy_Evaluate_def denied_input_def)
  moreover have "effect_of (set rules) i = (if top_priority EffectAllow (set rules) i \<le> top_priority EffectRequireApproval (set rules) i
              \<and> 0 \<le> top_priority EffectRequireApproval (set rules) i then EffectRequireApproval
      else if 0 \<le> top_priority EffectAllow (set rules) i then EffectAllow else EffectDeny)"
    using nd by (simp only: effect_of_def if_False simp_thms)
  ultimately show ?thesis
    by (simp only: scan_not_denied [OF nd(1)] max_priority_top policy_scan.simps(1)) simp
qed

text \<open>Adding rules can turn an allow into an approval or a denial, but a denial by rule stands.\<close>

lemma deny_rule_stands:
  assumes "r \<in> R" "policy_matches r i" "rule_Effect r = EffectDeny" "R \<subseteq> R'"
  shows "effect_of R' i = EffectDeny"
  using assms by (auto simp: effect_of_def)

lemma no_matching_rule_denies:
  assumes "\<And>r. r \<in> R \<Longrightarrow> \<not> policy_matches r i"
  shows "effect_of R i = EffectDeny"
proof -
  have "{r \<in> R. policy_matches r i \<and> rule_Effect r = e} = {}" for e using assms by auto
  then have "top_priority e R i = -1" for e by (simp only: top_priority_def) simp
  then show ?thesis by (simp add: effect_of_def)
qed

text \<open>
  Deny wins: whatever rules come before or after it, one matching deny rule makes the
  decision a denial, and an engine none of whose rules match denies.
\<close>

theorem policy_deny_wins:
  assumes "policy_matches r i" "rule_Effect r = EffectDeny"
  shows "pd_Effect (policy_Evaluate (before @ r # after) i) = EffectDeny
         \<and> ((\<forall>x \<in> set others. \<not> policy_matches x i) \<longrightarrow> pd_Effect (policy_Evaluate others i) = EffectDeny)"
  using deny_rule_stands [OF _ assms subset_refl, of "set (before @ r # after)"]
    no_matching_rule_denies [of "set others" i]
  by (auto simp: policy_effect)

definition sample_rule :: PolicyRule where
  "sample_rule = \<lparr>rule_ID = ''d'', rule_Effect = EffectDeny, rule_OrganizationID = '''', rule_PrincipalID = '''',
     rule_RequesterID = '''', rule_OperationPrefix = ''git.'', rule_Risk = '''', rule_DestinationPrefix = '''',
     rule_DataClass = '''', rule_Priority = 0\<rparr>"

definition sample_input :: PolicyInput where
  "sample_input = \<lparr>in_OrganizationID = ''o'', in_PrincipalID = ''p'', in_RequesterID = ''u'', in_Ambient = False,
     in_Operation = ''git.push'', in_Risk = ''write'', in_Destination = ''repo'', in_DataClass = ''code''\<rparr>"

theorem policy_deny_wins_witness:
  "pd_Effect (policy_Evaluate
     [sample_rule\<lparr>rule_Effect := EffectAllow, rule_Priority := 9\<rparr>, sample_rule] sample_input) = EffectDeny"
  using policy_deny_wins [of sample_rule sample_input
      "[sample_rule\<lparr>rule_Effect := EffectAllow, rule_Priority := 9\<rparr>]" "[]"]
  by (simp add: policy_matches_def sample_rule_def sample_input_def HasPrefix_def)

end
