(* ===== verification/Flood.thy ===== *)
theory Flood
  imports Prelude
begin

text \<open>
  The organization-wide pre-classifier budget of \<^verbatim>\<open>core/flood/gate.go\<close>: a counter per scope
  and time window.  \<^verbatim>\<open>UnixNano\<close> is taken in the range where it does not overflow (years 1678
  to 2262); division truncates towards zero as in Go.
\<close>

section \<open>The gate\<close>

datatype flood_error = ErrInvalidScope | ErrFloodConfig

record FloodScope =
  fs_OrganizationID :: string
  fs_TeamID :: string

record FloodResult =
  fr_Allowed :: bool
  fr_Count :: int
  fr_Limit :: int
  fr_WindowStart :: time
  fr_WindowEnd :: time

record FloodMemory =
  fm_limit :: int
  fm_window :: duration
  fm_counts :: "string \<rightharpoonup> int"

definition NewFlood :: "int \<Rightarrow> duration \<Rightarrow> flood_error + FloodMemory" where
  "NewFlood limit window =
     (if limit \<le> 0 \<or> window \<le> 0 then Inl ErrFloodConfig
      else Inr \<lparr>fm_limit = limit, fm_window = window, fm_counts = Map.empty\<rparr>)"

definition validateScope :: "FloodScope \<Rightarrow> flood_error + unit" where
  "validateScope s = (if fs_OrganizationID s = '''' \<or> fs_TeamID s = '''' then Inl ErrInvalidScope else Inr ())"

text \<open>The Unix epoch, in nanoseconds since Go's zero time.\<close>

definition unix_epoch :: time where "unix_epoch = 62135596800 * Second"

definition windowStart :: "time \<Rightarrow> duration \<Rightarrow> time" where
  "windowStart now window = unix_epoch + go_div (now - unix_epoch) window * window"

definition bucketID :: "FloodScope \<Rightarrow> time \<Rightarrow> duration \<Rightarrow> string" where
  "bucketID s start window =
     fs_OrganizationID s @ ''/'' @ fs_TeamID s @ ''/'' @ format_int (start - unix_epoch) @ ''/'' @ format_int window"

definition flood_Admit :: "FloodScope \<Rightarrow> time \<Rightarrow> FloodMemory \<Rightarrow> (flood_error, FloodResult, FloodMemory) outcome" where
  "flood_Admit s now m =
     (case validateScope s of
        Inl e \<Rightarrow> (Inl e, m)
      | Inr _ \<Rightarrow>
          let start = windowStart now (fm_window m);
              key = bucketID s start (fm_window m);
              m' = m\<lparr>fm_counts := (fm_counts m)(key \<mapsto> lookup_zero 0 (fm_counts m) key + 1)\<rparr>;
              count = lookup_zero 0 (fm_counts m') key
          in (Inr \<lparr>fr_Allowed = (count \<le> fm_limit m), fr_Count = count, fr_Limit = fm_limit m,
                   fr_WindowStart = start, fr_WindowEnd = start + fm_window m\<rparr>, m'))"

section \<open>Windows and buckets\<close>

lemma windowStart_bounds:
  assumes "0 < window" "unix_epoch \<le> now"
  shows "windowStart now window \<le> now \<and> now < windowStart now window + window"
proof -
  let ?u = "now - unix_epoch"
  have "go_div ?u window * window = ?u - ?u mod window"
    using assms by (simp add: go_div_nonneg minus_mod_eq_div_mult)
  then have "windowStart now window = now - ?u mod window" by (simp add: windowStart_def)
  moreover have "0 \<le> ?u mod window" "?u mod window < window" using assms(1) by simp_all
  ultimately show ?thesis by linarith
qed

lemma bucketID_inject:
  assumes "slash_free (fs_OrganizationID s)" "slash_free (fs_TeamID s)"
    "slash_free (fs_OrganizationID s')" "slash_free (fs_TeamID s')"
  shows "bucketID s a w = bucketID s' b w \<longleftrightarrow> s = s' \<and> a = b"
proof -
  have "bucketID s a w = bucketID s' b w \<longleftrightarrow>
      fs_OrganizationID s = fs_OrganizationID s' \<and> fs_TeamID s = fs_TeamID s' \<and> a - unix_epoch = b - unix_epoch"
    using assms by (simp only: bucketID_def slash_key2 format_int_slash_free format_int_inject) simp
  then show ?thesis by (cases s; cases s') auto
qed

section \<open>The budget\<close>

text \<open>The results of a sequence of calls.\<close>

fun flood_run :: "(FloodScope \<times> time) list \<Rightarrow> FloodMemory \<Rightarrow> (flood_error + FloodResult) list" where
  "flood_run [] m = []"
| "flood_run (c # cs) m = (let r = flood_Admit (fst c) (snd c) m in fst r # flood_run cs (snd r))"

definition same_bucket :: "FloodMemory \<Rightarrow> string \<Rightarrow> FloodScope \<times> time \<Rightarrow> bool" where
  "same_bucket m key c \<longleftrightarrow>
     validateScope (fst c) = Inr () \<and> bucketID (fst c) (windowStart (snd c) (fm_window m)) (fm_window m) = key"

definition is_allowed :: "flood_error + FloodResult \<Rightarrow> bool" where
  "is_allowed r = (case r of Inl e \<Rightarrow> False | Inr a \<Rightarrow> fr_Allowed a)"

lemma flood_Admit_simps:
  "fm_limit (snd (flood_Admit s now m)) = fm_limit m"
  "fm_window (snd (flood_Admit s now m)) = fm_window m"
  "lookup_zero 0 (fm_counts (snd (flood_Admit s now m))) key =
     lookup_zero 0 (fm_counts m) key + (if same_bucket m key (s, now) then 1 else 0)"
  "same_bucket m key (s, now) \<Longrightarrow>
     is_allowed (fst (flood_Admit s now m)) \<longleftrightarrow> lookup_zero 0 (fm_counts m) key < fm_limit m"
  by (auto simp: flood_Admit_def Let_def same_bucket_def is_allowed_def split: sum.split)

lemma same_bucket_Admit [simp]: "same_bucket (snd (flood_Admit s now m)) = same_bucket m"
  by (simp add: same_bucket_def flood_Admit_simps fun_eq_iff)

lemma flood_run_count:
  assumes "0 \<le> lookup_zero 0 (fm_counts m) key"
  shows "int (length (filter (\<lambda>(c, r). same_bucket m key c \<and> is_allowed r) (zip cs (flood_run cs m)))) =
         min (int (length (filter (same_bucket m key) cs)))
             (max 0 (fm_limit m - lookup_zero 0 (fm_counts m) key))"
  using assms
proof (induction cs arbitrary: m)
  case (Cons c cs)
  obtain s now where c: "c = (s, now)" by (cases c)
  let ?m = "snd (flood_Admit s now m)"
  have "0 \<le> lookup_zero 0 (fm_counts ?m) key" using Cons.prems by (simp add: flood_Admit_simps)
  from Cons.IH [OF this] show ?case
    by (auto simp: c Let_def flood_Admit_simps)
qed simp

text \<open>
  The gate admits exactly its budget: in any sequence of calls to a fresh gate, with
  identifiers that hold no slash, the number of calls of one scope in one window that are
  allowed is the number of those calls, capped at the limit; other scopes, other windows and
  invalid calls neither use up the budget nor add to it.
\<close>

theorem flood_admits_its_budget:
  assumes "NewFlood limit window = Inr m" "validateScope s = Inr ()"
    and "\<forall>c \<in> set ((s, t) # cs). slash_free (fs_OrganizationID (fst c)) \<and> slash_free (fs_TeamID (fst c))"
  shows "int (length (filter (\<lambda>(c, r). fst c = s \<and> windowStart (snd c) window = windowStart t window \<and> is_allowed r)
                 (zip cs (flood_run cs m)))) =
         min limit (int (length (filter (\<lambda>c. fst c = s \<and> windowStart (snd c) window = windowStart t window) cs)))"
proof -
  let ?key = "bucketID s (windowStart t window) window"
  have m: "m = \<lparr>fm_limit = limit, fm_window = window, fm_counts = Map.empty\<rparr>" "0 < limit"
    using assms(1) by (auto simp: NewFlood_def split: if_splits)
  have same: "same_bucket m ?key c \<longleftrightarrow> fst c = s \<and> windowStart (snd c) window = windowStart t window"
    if "c \<in> set cs" for c
    using assms(2,3) that by (auto simp: same_bucket_def m bucketID_inject)
  have "filter (\<lambda>(c, r). fst c = s \<and> windowStart (snd c) window = windowStart t window \<and> is_allowed r)
            (zip cs (flood_run cs m))
      = filter (\<lambda>(c, r). same_bucket m ?key c \<and> is_allowed r) (zip cs (flood_run cs m))"
    by (intro filter_cong refl) (auto dest!: set_zip_leftD simp: same)
  moreover have "filter (\<lambda>c. fst c = s \<and> windowStart (snd c) window = windowStart t window) cs
      = filter (same_bucket m ?key) cs"
    by (intro filter_cong refl) (simp add: same)
  ultimately show ?thesis
    using flood_run_count [of m ?key cs] m by (simp add: lookup_zero_def)
qed

theorem flood_admits_its_budget_witness:
  "\<exists>m. NewFlood 1 10 = Inr m
     \<and> length (filter (\<lambda>(c, r). fst c = \<lparr>fs_OrganizationID = ''o'', fs_TeamID = ''T''\<rparr>
           \<and> windowStart (snd c) 10 = windowStart unix_epoch 10 \<and> is_allowed r)
         (zip [(\<lparr>fs_OrganizationID = ''o'', fs_TeamID = ''T''\<rparr>, unix_epoch),
               (\<lparr>fs_OrganizationID = ''o'', fs_TeamID = ''T''\<rparr>, unix_epoch + 3)]
           (flood_run [(\<lparr>fs_OrganizationID = ''o'', fs_TeamID = ''T''\<rparr>, unix_epoch),
               (\<lparr>fs_OrganizationID = ''o'', fs_TeamID = ''T''\<rparr>, unix_epoch + 3)] m))) = 1"
proof -
  let ?s = "\<lparr>fs_OrganizationID = ''o'', fs_TeamID = ''T''\<rparr>"
  obtain m where m: "NewFlood 1 10 = Inr m" by (simp add: NewFlood_def)
  have "validateScope ?s = Inr ()" by (simp add: validateScope_def)
  from flood_admits_its_budget [OF m this, of unix_epoch "[(?s, unix_epoch), (?s, unix_epoch + 3)]"] m
  show ?thesis by (auto simp: slash_free_def windowStart_def go_div_def)
qed

end
