(* ===== verification/Sessions.thy ===== *)
theory Sessions
  imports Types
begin

text \<open>
  The session store of \<^verbatim>\<open>core/sessions/store.go\<close>: a Slack root thread maps to one session,
  whose generation grows each time it is restarted.
\<close>

section \<open>The store\<close>

datatype session_error = ErrSessionScope | ErrSessionNotFound

record Session =
  ses_ID :: string
  ses_OrganizationID :: string
  ses_TeamID :: string
  ses_ChannelID :: string
  ses_RootThreadTS :: string
  ses_CurrentGeneration :: int
  ses_CreatedAt :: time
  ses_UpdatedAt :: time

type_synonym SessionStore = "string \<rightharpoonup> Session"

definition NewSessionStore :: SessionStore where "NewSessionStore = Map.empty"

definition sessions_Key :: "string \<Rightarrow> string \<Rightarrow> string \<Rightarrow> string \<Rightarrow> string" where
  "sessions_Key org team channel rootTS = org @ ''/'' @ team @ ''/'' @ channel @ ''/'' @ rootTS"

definition sessions_Resolve ::
  "string \<Rightarrow> string \<Rightarrow> string \<Rightarrow> string \<Rightarrow> string \<Rightarrow> time \<Rightarrow> SessionStore
     \<Rightarrow> (session_error, Session \<times> bool, SessionStore) outcome" where
  "sessions_Resolve org team channel rootTS i now s =
     (if org = '''' \<or> team = '''' \<or> channel = '''' \<or> rootTS = '''' then (Inl ErrSessionScope, s)
      else
        let key = sessions_Key org team channel rootTS
        in case s key of
             Some current \<Rightarrow>
               let current' = current\<lparr>ses_UpdatedAt := now\<rparr> in (Inr (current', False), s(key \<mapsto> current'))
           | None \<Rightarrow>
               let created = \<lparr>ses_ID = i, ses_OrganizationID = org, ses_TeamID = team, ses_ChannelID = channel,
                              ses_RootThreadTS = rootTS, ses_CurrentGeneration = 1, ses_CreatedAt = now,
                              ses_UpdatedAt = now\<rparr>
               in (Inr (created, True), s(key \<mapsto> created)))"

definition sessions_Restart ::
  "string \<Rightarrow> string \<Rightarrow> string \<Rightarrow> string \<Rightarrow> time \<Rightarrow> SessionStore \<Rightarrow> (session_error, Session, SessionStore) outcome" where
  "sessions_Restart org team channel rootTS now s =
     (let key = sessions_Key org team channel rootTS
      in case s key of
           None \<Rightarrow> (Inl ErrSessionNotFound, s)
         | Some current \<Rightarrow>
             let current' = current\<lparr>ses_CurrentGeneration := ses_CurrentGeneration current + 1, ses_UpdatedAt := now\<rparr>
             in (Inr current', s(key \<mapsto> current')))"

definition sessions_Find :: "string \<Rightarrow> string \<Rightarrow> string \<Rightarrow> string \<Rightarrow> SessionStore \<Rightarrow> session_error + Session" where
  "sessions_Find org team channel rootTS s =
     (case s (sessions_Key org team channel rootTS) of None \<Rightarrow> Inl ErrSessionNotFound | Some c \<Rightarrow> Inr c)"

definition sessions_ListRoots ::
  "string list \<Rightarrow> string \<Rightarrow> string \<Rightarrow> string \<Rightarrow> time \<Rightarrow> SessionStore \<Rightarrow> string list" where
  "sessions_ListRoots ord org team channel updatedSince s =
     map ses_RootThreadTS
       (sort_key ses_RootThreadTS
         (filter (\<lambda>c. ses_OrganizationID c = org \<and> ses_TeamID c = team \<and> ses_ChannelID c = channel
                      \<and> (IsZero updatedSince \<or> \<not> Before (ses_UpdatedAt c) updatedSince))
           (vals ord s)))"

section \<open>One session per thread, growing generations\<close>

definition scope_slash_free :: "string \<Rightarrow> string \<Rightarrow> string \<Rightarrow> bool" where
  "scope_slash_free org team channel \<longleftrightarrow> slash_free org \<and> slash_free team \<and> slash_free channel"

lemma sessions_Key_inject:
  assumes "scope_slash_free org team channel" "scope_slash_free org' team' channel'"
  shows "sessions_Key org team channel rootTS = sessions_Key org' team' channel' rootTS' \<longleftrightarrow>
           org = org' \<and> team = team' \<and> channel = channel' \<and> rootTS = rootTS'"
  using assms by (simp only: sessions_Key_def scope_slash_free_def slash_key2)

definition session_key :: "Session \<Rightarrow> string" where
  "session_key c = sessions_Key (ses_OrganizationID c) (ses_TeamID c) (ses_ChannelID c) (ses_RootThreadTS c)"

definition sessions_ok :: "SessionStore \<Rightarrow> bool" where
  "sessions_ok s \<longleftrightarrow> (\<forall>k c. s k = Some c \<longrightarrow> session_key c = k \<and> 1 \<le> ses_CurrentGeneration c)"

lemma sessions_okD: "sessions_ok s \<Longrightarrow> s k = Some c \<Longrightarrow> session_key c = k \<and> 1 \<le> ses_CurrentGeneration c"
  unfolding sessions_ok_def by blast

inductive session_step :: "SessionStore \<Rightarrow> SessionStore \<Rightarrow> bool" where
  "session_step s (snd (sessions_Resolve org team channel rootTS i now s))"
| "session_step s (snd (sessions_Restart org team channel rootTS now s))"

inductive session_reachable :: "SessionStore \<Rightarrow> bool" where
  ses_reach_new: "session_reachable NewSessionStore"
| ses_reach_step: "session_reachable s \<Longrightarrow> session_step s s' \<Longrightarrow> session_reachable s'"

text \<open>A step keeps every session, its identity and its creation; a generation never shrinks.\<close>

definition session_grows :: "Session \<Rightarrow> Session \<Rightarrow> bool" where
  "session_grows c c' \<longleftrightarrow>
     ses_ID c' = ses_ID c \<and> session_key c' = session_key c \<and> ses_CreatedAt c' = ses_CreatedAt c
     \<and> ses_CurrentGeneration c \<le> ses_CurrentGeneration c'"

lemma session_grows_refl [simp]: "session_grows c c"
  by (simp add: session_grows_def)

lemma session_step_grows:
  assumes "session_step s s'" "s k = Some c"
  shows "\<exists>c'. s' k = Some c' \<and> session_grows c c'"
  using assms
proof (induction rule: session_step.induct)
  case (1 s org team channel rootTS i now)
  then show ?case
    by (auto simp: sessions_Resolve_def Let_def session_grows_def session_key_def split: option.split)
next
  case (2 s org team channel rootTS now)
  then show ?case
    by (auto simp: sessions_Restart_def Let_def session_grows_def session_key_def split: option.split)
qed

lemma sessions_ok_step:
  assumes "session_step s s'" "sessions_ok s"
  shows "sessions_ok s'"
  using assms
proof (induction rule: session_step.induct)
  case (1 s org team channel rootTS i now)
  note ok = sessions_okD [OF 1]
  show ?case
    using ok by (auto simp: sessions_Resolve_def Let_def sessions_ok_def session_key_def split: option.split)
next
  case (2 s org team channel rootTS now)
  note ok = sessions_okD [OF 2]
  show ?case
    using ok by (fastforce simp: sessions_Restart_def Let_def sessions_ok_def session_key_def split: option.split)
qed

lemma reachable_sessions_ok: "session_reachable s \<Longrightarrow> sessions_ok s"
  by (induction rule: session_reachable.induct) (auto simp: NewSessionStore_def sessions_ok_def dest: sessions_ok_step [unfolded sessions_ok_def])

text \<open>Any number of steps.\<close>

lemma session_steps_grow:
  "session_step\<^sup>*\<^sup>* s s' \<Longrightarrow> s k = Some c \<Longrightarrow> \<exists>c'. s' k = Some c' \<and> session_grows c c'"
proof (induction rule: rtranclp_induct)
  case (step s1 s2)
  then obtain c1 where "s1 k = Some c1" "session_grows c c1" by blast
  then show ?case
    using session_step_grows [OF step.hyps(2), of k c1] by (auto simp: session_grows_def)
qed simp

text \<open>
  A thread keeps its session: once \<open>Resolve\<close> returned a session for a thread, every later
  \<open>Resolve\<close> of that thread, after any number of operations on the store, returns the same
  session identifier with created=false and a generation that is no smaller; and a restart
  raises the generation by exactly one.
\<close>

theorem session_stable:
  assumes "sessions_Resolve org team channel rootTS i now s = (Inr (c, created), s1)"
    and "session_step\<^sup>*\<^sup>* s1 s2"
  shows "\<exists>c2 s3. sessions_Resolve org team channel rootTS j later s2 = (Inr (c2, False), s3)
           \<and> ses_ID c2 = ses_ID c \<and> ses_CurrentGeneration c \<le> ses_CurrentGeneration c2
           \<and> (\<exists>c3 s4. sessions_Restart org team channel rootTS later s3 = (Inr c3, s4)
                \<and> ses_ID c3 = ses_ID c \<and> ses_CurrentGeneration c3 = ses_CurrentGeneration c2 + 1)"
proof -
  let ?k = "sessions_Key org team channel rootTS"
  have scope: "\<not> (org = '''' \<or> team = '''' \<or> channel = '''' \<or> rootTS = '''')"
    and c: "s1 ?k = Some c"
    using assms(1) by (auto simp: sessions_Resolve_def Let_def split: if_splits option.splits)
  from session_steps_grow [OF assms(2) c] obtain c' where c': "s2 ?k = Some c'" "session_grows c c'" by blast
  then show ?thesis
    using scope by (simp add: sessions_Resolve_def sessions_Restart_def Let_def session_grows_def)
qed

theorem session_stable_witness:
  "\<exists>c2 s3. sessions_Resolve ''o'' ''T'' ''C'' ''1'' ''later'' 9
      (snd (sessions_Restart ''o'' ''T'' ''C'' ''1'' 8 (snd (sessions_Resolve ''o'' ''T'' ''C'' ''1'' ''ses'' 7 NewSessionStore))))
      = (Inr (c2, False), s3) \<and> ses_ID c2 = ''ses''"
proof -
  let ?s1 = "snd (sessions_Resolve ''o'' ''T'' ''C'' ''1'' ''ses'' 7 NewSessionStore)"
  obtain c where run: "sessions_Resolve ''o'' ''T'' ''C'' ''1'' ''ses'' 7 NewSessionStore = (Inr (c, True), ?s1)"
    and "ses_ID c = ''ses''"
    by (simp add: sessions_Resolve_def NewSessionStore_def Let_def)
  moreover have "session_step\<^sup>*\<^sup>* ?s1 (snd (sessions_Restart ''o'' ''T'' ''C'' ''1'' 8 ?s1))"
    by (rule r_into_rtranclp) (rule session_step.intros(2))
  ultimately show ?thesis using session_stable [OF run] by metis
qed

text \<open>
  Sessions of different threads never share state: in a reachable store, resolving a thread
  whose scope holds no slash returns a session of exactly that thread.
\<close>

theorem session_of_its_thread:
  assumes "session_reachable s" "sessions_Resolve org team channel rootTS i now s = (Inr (c, created), s')"
    and "scope_slash_free org team channel"
    and "\<forall>x \<in> ran s. scope_slash_free (ses_OrganizationID x) (ses_TeamID x) (ses_ChannelID x)"
  shows "ses_OrganizationID c = org \<and> ses_TeamID c = team \<and> ses_ChannelID c = channel
         \<and> ses_RootThreadTS c = rootTS \<and> 1 \<le> ses_CurrentGeneration c"
proof (cases "s (sessions_Key org team channel rootTS)")
  case None
  then show ?thesis using assms(2) by (auto simp: sessions_Resolve_def Let_def split: if_splits)
next
  case (Some x)
  note ok = sessions_okD [OF reachable_sessions_ok [OF assms(1)] Some]
  have "scope_slash_free (ses_OrganizationID x) (ses_TeamID x) (ses_ChannelID x)"
    using assms(4) Some by (auto simp: ran_def)
  from sessions_Key_inject [OF this assms(3)] ok Some show ?thesis
    using assms(2) by (auto simp: sessions_Resolve_def Let_def session_key_def split: if_splits)
qed

theorem session_of_its_thread_witness:
  "\<exists>c s'. sessions_Resolve ''o'' ''T'' ''C'' ''1'' ''ses'' 7 NewSessionStore = (Inr (c, True), s')
     \<and> ses_ChannelID c = ''C''"
proof -
  obtain c s' where run: "sessions_Resolve ''o'' ''T'' ''C'' ''1'' ''ses'' 7 NewSessionStore = (Inr (c, True), s')"
    by (simp add: sessions_Resolve_def NewSessionStore_def Let_def)
  with session_of_its_thread [OF ses_reach_new run] show ?thesis
    by (simp add: scope_slash_free_def slash_free_def NewSessionStore_def)
qed

end
