(* ===== verification/Router.thy ===== *)
theory Router
  imports Types
begin

text \<open>
  The model router of \<^verbatim>\<open>core/modelrouter/router.go\<close>: candidates in a fixed precedence, then a
  worklist that tries each candidate and the fallbacks of those it rejects.  The worklist is
  a \<open>partial_function\<close>; \<open>route_loop_total\<close> shows that it returns for every finite catalog.

  \<^verbatim>\<open>sort.Slice\<close> orders the matches by rank, priority and rule id; rule ids are unique, so
  the order of equal keys does not arise.
\<close>

section \<open>Rules, constraints, routers\<close>

datatype router_error =
    ErrNoEligibleModel
  | ErrInvalidProfile
  | ErrDuplicateProfile
  | ErrDefaultMissing
  | ErrRuleIncomplete
  | ErrRuleProfileMissing
  | ErrOrganizationDefault
  | ErrRouterStore

record RouteRule =
  rr_ID :: string
  rr_OrganizationID :: string
  rr_WorkspaceID :: string
  rr_ChannelID :: string
  rr_RoutineID :: string
  rr_SkillName :: string
  rr_Phase :: string
  rr_ProfileID :: string
  rr_Priority :: int

text \<open>A nil map is \<open>None\<close>; reading an absent key of a \<^verbatim>\<open>map[string]bool\<close> gives false.\<close>

record Constraints =
  con_AllowedProviders :: "(string \<rightharpoonup> bool) option"
  con_DisabledProfiles :: "string \<rightharpoonup> bool"
  con_AvailableProfiles :: "(string \<rightharpoonup> bool) option"
  con_MaxInputTokens :: int

record ModelRouter =
  rt_profiles :: "string \<rightharpoonup> ModelProfile"
  rt_rules :: "RouteRule list"
  rt_organizationDefaults :: "string \<rightharpoonup> string"
  rt_deploymentDefault :: string
  rt_policyRevision :: string

definition valid_profile :: "ModelProfile \<Rightarrow> bool" where
  "valid_profile p \<longleftrightarrow>
     \<not> (prof_ID p = '''' \<or> prof_ProviderID p = '''' \<or> prof_ModelID p = '''' \<or> prof_MaxInputTokens p \<le> 0)"

fun index_profiles :: "ModelProfile list \<Rightarrow> (string \<rightharpoonup> ModelProfile) \<Rightarrow> router_error + (string \<rightharpoonup> ModelProfile)" where
  "index_profiles [] m = Inr m"
| "index_profiles (p # ps) m =
     (if \<not> valid_profile p then Inl ErrInvalidProfile
      else if m (prof_ID p) \<noteq> None then Inl ErrDuplicateProfile
      else index_profiles ps (m(prof_ID p \<mapsto> p)))"

definition router_New ::
  "ModelProfile list \<Rightarrow> RouteRule list \<Rightarrow> (string \<rightharpoonup> string) \<Rightarrow> string \<Rightarrow> string \<Rightarrow> router_error + ModelRouter" where
  "router_New profiles rules defaults deploymentDefault revision =
     (case index_profiles profiles Map.empty of
        Inl e \<Rightarrow> Inl e
      | Inr indexed \<Rightarrow>
          if indexed deploymentDefault = None then Inl ErrDefaultMissing
          else Inr \<lparr>rt_profiles = indexed, rt_rules = rules, rt_organizationDefaults = defaults,
                    rt_deploymentDefault = deploymentDefault, rt_policyRevision = revision\<rparr>)"

section \<open>Eligibility\<close>

definition eligible :: "ModelProfile \<Rightarrow> ModelRouteContext \<Rightarrow> Constraints \<Rightarrow> string" where
  "eligible p route c =
     (if \<not> prof_Enabled p \<or> lookup_zero False (con_DisabledProfiles c) (prof_ID p) then ''disabled''
      else if (case con_AvailableProfiles c of None \<Rightarrow> False | Some m \<Rightarrow> \<not> lookup_zero False m (prof_ID p)) then ''unavailable''
      else if (case con_AllowedProviders c of None \<Rightarrow> False | Some m \<Rightarrow> \<not> lookup_zero False m (prof_ProviderID p)) then ''provider_denied''
      else if prof_MaxInputTokens p < route_InputTokens route
              \<or> (0 < con_MaxInputTokens c \<and> con_MaxInputTokens c < route_InputTokens route) then ''context_too_large''
      else if list_ex (\<lambda>x. x \<notin> set (prof_RequiredCapabilities p)) (route_Capabilities route) then ''capability_missing''
      else if list_ex (\<lambda>x. x \<notin> set (prof_AllowedDataClasses p)) (route_DataClasses route) then ''data_class_denied''
      else '''')"

section \<open>Candidates\<close>

definition rule_matches :: "RouteRule \<Rightarrow> ModelRouteContext \<Rightarrow> bool" where
  "rule_matches r route \<longleftrightarrow>
     (rr_OrganizationID r = '''' \<or> rr_OrganizationID r = route_OrganizationID route)
     \<and> (rr_WorkspaceID r = '''' \<or> rr_WorkspaceID r = route_WorkspaceID route)
     \<and> (rr_ChannelID r = '''' \<or> rr_ChannelID r = route_ChannelID route)
     \<and> (rr_RoutineID r = '''' \<or> rr_RoutineID r = route_RoutineID route)
     \<and> (rr_Phase r = '''' \<or> rr_Phase r = route_Phase route)
     \<and> (rr_SkillName r = '''' \<or> rr_SkillName r = route_SkillName route)"

definition rule_rank :: "RouteRule \<Rightarrow> int" where
  "rule_rank r =
     (if rr_Phase r \<noteq> '''' \<or> rr_SkillName r \<noteq> '''' then 6
      else if rr_RoutineID r \<noteq> '''' then 5
      else if rr_ChannelID r \<noteq> '''' then 4
      else if rr_WorkspaceID r \<noteq> '''' then 3 else 2)"

record RouteMatch =
  mt_profile :: string
  mt_rank :: int
  mt_priority :: int
  mt_id :: string

definition route_matches :: "ModelRouter \<Rightarrow> ModelRouteContext \<Rightarrow> RouteMatch list" where
  "route_matches r route =
     map (\<lambda>x. \<lparr>mt_profile = rr_ProfileID x, mt_rank = rule_rank x, mt_priority = rr_Priority x, mt_id = rr_ID x\<rparr>)
         (filter (\<lambda>x. rule_matches x route) (rt_rules r))
     @ (if route_ChannelDefault route \<noteq> '''' \<and> rt_profiles r (route_ChannelDefault route) \<noteq> None
        then [\<lparr>mt_profile = route_ChannelDefault route, mt_rank = 4, mt_priority = 0, mt_id = ''channel_default''\<rparr>]
        else [])"

definition match_key :: "RouteMatch \<Rightarrow> int \<times> int \<times> string" where
  "match_key m = (- mt_rank m, - mt_priority m, mt_id m)"

definition router_candidates :: "ModelRouter \<Rightarrow> ModelRouteContext \<Rightarrow> string list \<times> string" where
  "router_candidates r route =
     (if route_Override route \<noteq> '''' then ([route_Override route], ''override'')
      else
        let matches = sort_key match_key (route_matches r route)
        in case matches of
             m # _ \<Rightarrow> (map mt_profile matches, mt_id m)
           | [] \<Rightarrow>
               let profile = lookup_zero '''' (rt_organizationDefaults r) (route_OrganizationID route)
               in if profile \<noteq> '''' then ([profile, rt_deploymentDefault r], ''organization_default'')
                  else ([rt_deploymentDefault r], ''deployment_default''))"

section \<open>Resolution\<close>

text \<open>The first loop: the candidates without repetitions and empty names, and the set of the seen.\<close>

fun seed_queue :: "string list \<Rightarrow> string set \<Rightarrow> string list \<Rightarrow> string list \<times> string set" where
  "seed_queue [] seen queue = (queue, seen)"
| "seed_queue (c # cs) seen queue =
     (if c \<in> seen \<or> c = '''' then seed_queue cs seen queue
      else seed_queue cs (insert c seen) (queue @ [c]))"

fun push_fallbacks :: "string list \<Rightarrow> string set \<Rightarrow> string list \<Rightarrow> string list \<times> string set" where
  "push_fallbacks [] seen queue = (queue, seen)"
| "push_fallbacks (f # fs) seen queue =
     (if f \<in> seen then push_fallbacks fs seen queue
      else push_fallbacks fs (insert f seen) (queue @ [f]))"

text \<open>The worklist.  It carries the trace; the result is the chosen profile, if any.\<close>

partial_function (option) route_loop ::
  "ModelRouter \<Rightarrow> ModelRouteContext \<Rightarrow> Constraints \<Rightarrow> string list \<Rightarrow> string set \<Rightarrow> DecisionTrace
     \<Rightarrow> (ModelProfile option \<times> DecisionTrace) option" where
  "route_loop r route c queue seen trace =
     (case queue of
        [] \<Rightarrow> Some (None, trace)
      | pid # rest \<Rightarrow>
          (case rt_profiles r pid of
             None \<Rightarrow> route_loop r route c rest seen (trace\<lparr>trace_Rejected := trace_Rejected trace @ [pid @ '':missing'']\<rparr>)
           | Some p \<Rightarrow>
               let trace1 = trace\<lparr>trace_Tried := trace_Tried trace @ [pid]\<rparr>; reason = eligible p route c
               in if reason \<noteq> ''''
                  then let trace2 = trace1\<lparr>trace_Rejected := trace_Rejected trace1 @ [pid @ '':'' @ reason]\<rparr>;
                           qs = push_fallbacks (prof_FallbackProfileIDs p) seen rest
                       in route_loop r route c (fst qs) (snd qs) trace2
                  else Some (Some p, trace1\<lparr>trace_Fallback := 1 < length (trace_Tried trace1)\<rparr>)))"

declare route_loop.simps [code]

definition resolved_model :: "ModelRouter \<Rightarrow> ModelProfile \<Rightarrow> ResolvedModel" where
  "resolved_model r p =
     \<lparr>rm_ProfileID = prof_ID p, rm_ProviderID = prof_ProviderID p, rm_ModelID = prof_ModelID p,
      rm_Variant = prof_Variant p, rm_PolicyRev = rt_policyRevision r\<rparr>"

text \<open>\<open>None\<close> would be a call that never returns.\<close>

definition router_Resolve ::
  "ModelRouter \<Rightarrow> ModelRouteContext \<Rightarrow> Constraints \<Rightarrow> ((router_error + ResolvedModel) \<times> DecisionTrace) option" where
  "router_Resolve r route c =
     (let (cands, matched) = router_candidates r route;
          trace = zero_DecisionTrace\<lparr>trace_MatchedRule := matched\<rparr>;
          (queue, seen) = seed_queue cands {} []
      in case route_loop r route c queue seen trace of
           None \<Rightarrow> None
         | Some (None, trace') \<Rightarrow> Some (Inl ErrNoEligibleModel, trace')
         | Some (Some p, trace') \<Rightarrow> Some (Inr (resolved_model r p), trace'))"

section \<open>The worklist returns\<close>

lemma push_fallbacks_eq:
  "\<exists>new. push_fallbacks fs seen queue = (queue @ new, seen \<union> set new) \<and> set new = set fs - seen \<and> distinct new"
proof (induction fs arbitrary: seen queue)
  case (Cons f fs)
  show ?case
  proof (cases "f \<in> seen")
    case True
    with Cons [of seen queue] show ?thesis by auto
  next
    case False
    obtain new where new:
      "push_fallbacks fs (insert f seen) (queue @ [f]) = ((queue @ [f]) @ new, insert f seen \<union> set new)"
      "set new = set fs - insert f seen" "distinct new" using Cons [of "insert f seen" "queue @ [f]"] by blast
    have "set (f # new) = set (f # fs) - seen" "distinct (f # new)" using new(2,3) False by auto
    moreover have "push_fallbacks (f # fs) seen queue = (queue @ f # new, seen \<union> set (f # new))"
      using new(1) False by simp
    ultimately show ?thesis by blast
  qed
qed simp

text \<open>The first loop keeps the first name with any property that rules out empty and seen names.\<close>

definition same_first :: "string set \<Rightarrow> string list \<Rightarrow> string list \<Rightarrow> bool" where
  "same_first seen q cs \<longleftrightarrow> (\<forall>P. (\<forall>x. P x \<longrightarrow> x \<noteq> [] \<and> x \<notin> seen) \<longrightarrow> List.find P q = List.find P cs)"

lemma same_first_skip: "same_first seen q cs \<Longrightarrow> c \<in> seen \<or> c = [] \<Longrightarrow> same_first seen q (c # cs)"
  by (auto simp: same_first_def)

lemma same_first_take:
  assumes "same_first (insert c seen) q cs"
  shows "same_first seen (c # q) (c # cs)"
  unfolding same_first_def
proof (intro allI impI)
  fix P :: "string \<Rightarrow> bool" assume P: "\<forall>x. P x \<longrightarrow> x \<noteq> [] \<and> x \<notin> seen"
  show "List.find P (c # q) = List.find P (c # cs)"
  proof (cases "P c")
    case False
    then have "\<forall>x. P x \<longrightarrow> x \<noteq> [] \<and> x \<notin> insert c seen" using P by auto
    with assms False show ?thesis by (simp add: same_first_def)
  qed simp
qed

lemma seed_queue_eq:
  "\<exists>new. seed_queue cs seen queue = (queue @ new, seen \<union> set new) \<and> set new = set cs - seen - {[]} \<and> same_first seen new cs"
proof (induction cs arbitrary: seen queue)
  case (Cons c cs)
  show ?case
  proof (cases "c \<in> seen \<or> c = []")
    case True
    obtain new where "seed_queue cs seen queue = (queue @ new, seen \<union> set new)"
      "set new = set cs - seen - {[]}" "same_first seen new cs"
      using Cons [of seen queue] by blast
    with True show ?thesis by (intro exI [of _ new]) (auto intro: same_first_skip)
  next
    case False
    obtain new where new:
      "seed_queue cs (insert c seen) (queue @ [c]) = ((queue @ [c]) @ new, insert c seen \<union> set new)"
      "set new = set cs - insert c seen - {[]}" "same_first (insert c seen) new cs"
      using Cons [of "insert c seen" "queue @ [c]"] by blast
    have "set (c # new) = set (c # cs) - seen - {[]}" using new(2) False by auto
    moreover have "seed_queue (c # cs) seen queue = (queue @ c # new, seen \<union> set (c # new))"
      using new(1) False by simp
    ultimately show ?thesis using same_first_take [OF new(3)] by blast
  qed
qed (simp add: same_first_def)

definition catalog_fallbacks :: "ModelRouter \<Rightarrow> string set" where
  "catalog_fallbacks r = (\<Union>p \<in> ran (rt_profiles r). set (prof_FallbackProfileIDs p))"

lemma finite_catalog: "finite (dom (rt_profiles r)) \<Longrightarrow> finite (catalog_fallbacks r)"
  by (simp add: catalog_fallbacks_def finite_ran)

lemma card_unseen:
  assumes "finite C" "set new \<subseteq> C - seen" "distinct new"
  shows "card (C - (seen \<union> set new)) + length new = card (C - seen)"
proof -
  have "C - (seen \<union> set new) = (C - seen) - set new" by auto
  moreover have "card (set new) \<le> card (C - seen)" using assms by (simp add: card_mono)
  ultimately show ?thesis using assms by (simp add: card_Diff_subset distinct_card)
qed

text \<open>The ways a round takes a name off the queue; a name is put on it only when first seen.\<close>

definition tried_trace :: "string \<Rightarrow> DecisionTrace \<Rightarrow> DecisionTrace" where
  "tried_trace pid trace = trace\<lparr>trace_Tried := trace_Tried trace @ [pid]\<rparr>"

definition rejected_trace :: "string \<Rightarrow> string \<Rightarrow> DecisionTrace \<Rightarrow> DecisionTrace" where
  "rejected_trace pid why trace = trace\<lparr>trace_Rejected := trace_Rejected trace @ [pid @ '':'' @ why]\<rparr>"

lemma route_loop_Nil: "route_loop r route c [] seen trace = Some (None, trace)"
  by (simp add: route_loop.simps)

lemma route_loop_missing:
  "rt_profiles r pid = None \<Longrightarrow>
     route_loop r route c (pid # rest) seen trace = route_loop r route c rest seen (rejected_trace pid ''missing'' trace)"
  by (subst route_loop.simps) (simp add: rejected_trace_def)

lemma route_loop_eligible:
  "rt_profiles r pid = Some p \<Longrightarrow> eligible p route c = '''' \<Longrightarrow>
     route_loop r route c (pid # rest) seen trace
       = Some (Some p, (tried_trace pid trace)\<lparr>trace_Fallback := 1 < length (trace_Tried (tried_trace pid trace))\<rparr>)"
  by (subst route_loop.simps) (simp add: tried_trace_def Let_def)

lemma route_loop_rejected:
  "rt_profiles r pid = Some p \<Longrightarrow> eligible p route c \<noteq> '''' \<Longrightarrow>
     push_fallbacks (prof_FallbackProfileIDs p) seen rest = (rest @ new, seen \<union> set new) \<Longrightarrow>
     route_loop r route c (pid # rest) seen trace
       = route_loop r route c (rest @ new) (seen \<union> set new) (rejected_trace pid (eligible p route c) (tried_trace pid trace))"
  by (subst route_loop.simps) (simp add: tried_trace_def rejected_trace_def Let_def)

lemma route_loop_induct [consumes 1, case_names empty missing eligible rejected]:
  fixes r :: ModelRouter
  assumes fin: "finite (dom (rt_profiles r))"
    and empty: "\<And>seen trace. P [] seen trace"
    and missing: "\<And>pid rest seen trace. rt_profiles r pid = None \<Longrightarrow> P rest seen (rejected_trace pid ''missing'' trace)
          \<Longrightarrow> P (pid # rest) seen trace"
    and elig: "\<And>pid p rest seen trace. rt_profiles r pid = Some p \<Longrightarrow> eligible p route c = '''' \<Longrightarrow> P (pid # rest) seen trace"
    and rejected: "\<And>pid p rest seen trace new. rt_profiles r pid = Some p \<Longrightarrow> eligible p route c \<noteq> ''''
          \<Longrightarrow> push_fallbacks (prof_FallbackProfileIDs p) seen rest = (rest @ new, seen \<union> set new)
          \<Longrightarrow> set new = set (prof_FallbackProfileIDs p) - seen
          \<Longrightarrow> P (rest @ new) (seen \<union> set new) (rejected_trace pid (eligible p route c) (tried_trace pid trace))
          \<Longrightarrow> P (pid # rest) seen trace"
  shows "P queue seen trace"
proof (induction "card (catalog_fallbacks r - seen) + length queue" arbitrary: queue seen trace rule: less_induct)
  case less
  show ?case
  proof (cases queue)
    case Nil
    then show ?thesis by (simp add: empty)
  next
    case (Cons pid rest)
    show ?thesis
    proof (cases "rt_profiles r pid")
      case None
      then show ?thesis using less [of seen rest] Cons missing by simp
    next
      case (Some p)
      obtain new where new: "push_fallbacks (prof_FallbackProfileIDs p) seen rest = (rest @ new, seen \<union> set new)"
        "set new = set (prof_FallbackProfileIDs p) - seen" "distinct new"
        using push_fallbacks_eq by blast
      have "set new \<subseteq> catalog_fallbacks r - seen"
        using Some new(2) by (auto simp: catalog_fallbacks_def ran_def)
      then have "card (catalog_fallbacks r - (seen \<union> set new)) + length new = card (catalog_fallbacks r - seen)"
        by (rule card_unseen [OF finite_catalog [OF fin] _ new(3)])
      then have P: "P (rest @ new) (seen \<union> set new) t" for t using Cons by (intro less) simp
      show ?thesis
      proof (cases "eligible p route c = ''''")
        case True
        show ?thesis unfolding Cons by (rule elig [OF Some True])
      next
        case False
        show ?thesis unfolding Cons by (rule rejected [OF Some False new(1,2) P])
      qed
    qed
  qed
qed

lemma route_loop_total:
  fixes r :: ModelRouter
  assumes "finite (dom (rt_profiles r))"
  shows "\<exists>y. route_loop r route c queue seen trace = Some y"
  using assms
proof (induction queue seen trace rule: route_loop_induct [where route = route and c = c])
  case empty
  show ?case by (simp add: route_loop_Nil)
next
  case missing
  then show ?case by (simp add: route_loop_missing)
next
  case eligible
  then show ?case by (simp add: route_loop_eligible)
next
  case rejected
  then show ?case using route_loop_rejected [OF rejected(1-3)] by simp
qed

section \<open>What the worklist finds\<close>

text \<open>The names a request may fall back to: the candidates, and the fallbacks of a rejected one.\<close>

inductive_set routable :: "ModelRouter \<Rightarrow> ModelRouteContext \<Rightarrow> Constraints \<Rightarrow> string set \<Rightarrow> string set"
  for r route c start where
  start: "pid \<in> start \<Longrightarrow> pid \<in> routable r route c start"
| fallback: "pid \<in> routable r route c start \<Longrightarrow> rt_profiles r pid = Some p \<Longrightarrow> eligible p route c \<noteq> ''''
    \<Longrightarrow> f \<in> set (prof_FallbackProfileIDs p) \<Longrightarrow> f \<in> routable r route c start"

definition acceptable :: "ModelRouter \<Rightarrow> ModelRouteContext \<Rightarrow> Constraints \<Rightarrow> string \<Rightarrow> bool" where
  "acceptable r route c pid = (case rt_profiles r pid of None \<Rightarrow> False | Some p \<Rightarrow> eligible p route c = '''')"

lemma route_loop_Some:
  assumes "finite (dom (rt_profiles r))" "route_loop r route c queue seen trace = Some (Some p, t)"
    "set queue \<subseteq> routable r route c start"
  shows "\<exists>pid \<in> routable r route c start. rt_profiles r pid = Some p \<and> eligible p route c = ''''"
  using assms
proof (induction queue seen trace rule: route_loop_induct [where route = route and c = c])
  case empty
  then show ?case by (simp add: route_loop_Nil)
next
  case missing
  then show ?case by (simp add: route_loop_missing)
next
  case eligible
  then show ?case by (auto simp: route_loop_eligible)
next
  case (rejected pid q rest seen trace new)
  have "set new \<subseteq> routable r route c start"
    using rejected(1,2,4,7) by (auto intro: routable.fallback)
  then show ?case using rejected(5,6,7) route_loop_rejected [OF rejected(1-3)] by simp
qed

text \<open>A run that finds nothing has tried every name it ever saw, and their fallbacks.\<close>

definition exhausted :: "ModelRouter \<Rightarrow> ModelRouteContext \<Rightarrow> Constraints \<Rightarrow> string set \<Rightarrow> string set \<Rightarrow> bool" where
  "exhausted r route c done seen \<longleftrightarrow>
     (\<forall>pid \<in> done. \<not> acceptable r route c pid
        \<and> (\<forall>p. rt_profiles r pid = Some p \<longrightarrow> set (prof_FallbackProfileIDs p) \<subseteq> seen))"

lemma route_loop_None:
  assumes "finite (dom (rt_profiles r))" "route_loop r route c queue seen trace = Some (None, t)"
    and "set queue \<subseteq> seen" "exhausted r route c (seen - set queue) seen"
  shows "\<exists>closed. seen \<subseteq> closed \<and> exhausted r route c closed closed"
  using assms
proof (induction queue seen trace rule: route_loop_induct [where route = route and c = c])
  case (empty seen trace)
  then show ?case by (intro exI [of _ seen]) auto
next
  case (missing pid rest seen trace)
  have "exhausted r route c (seen - set rest) seen"
    unfolding exhausted_def
  proof (intro ballI)
    fix x assume "x \<in> seen - set rest"
    with missing(1,5) show "\<not> acceptable r route c x \<and> (\<forall>p. rt_profiles r x = Some p \<longrightarrow> set (prof_FallbackProfileIDs p) \<subseteq> seen)"
      by (cases "x = pid") (auto simp: acceptable_def exhausted_def Ball_def)
  qed
  then show ?case using missing by (simp add: route_loop_missing)
next
  case eligible
  then show ?case by (simp add: route_loop_eligible)
next
  case (rejected pid q rest seen trace new)
  have "exhausted r route c (seen \<union> set new - set (rest @ new)) (seen \<union> set new)"
    unfolding exhausted_def
  proof (intro ballI)
    fix x assume x: "x \<in> seen \<union> set new - set (rest @ new)"
    show "\<not> acceptable r route c x \<and> (\<forall>p. rt_profiles r x = Some p \<longrightarrow> set (prof_FallbackProfileIDs p) \<subseteq> seen \<union> set new)"
    proof (cases "x = pid")
      case True
      with rejected(1,2,4) show ?thesis by (auto simp: acceptable_def)
    next
      case False
      with x rejected(8) show ?thesis by (fastforce simp: exhausted_def)
    qed
  qed
  moreover have "set (rest @ new) \<subseteq> seen \<union> set new" using rejected(7) by auto
  ultimately obtain closed where "seen \<union> set new \<subseteq> closed" "exhausted r route c closed closed"
    using rejected(5,6) route_loop_rejected [OF rejected(1-3)] by auto
  then show ?case by (intro exI [of _ closed]) auto
qed

lemma routable_exhausted:
  assumes "pid \<in> routable r route c start" "start \<subseteq> done" "exhausted r route c done done"
  shows "pid \<in> done"
  using assms by induction (auto simp: exhausted_def)

text \<open>The first acceptable name of the queue is taken: fallbacks go behind it.\<close>

lemma route_loop_first:
  assumes "finite (dom (rt_profiles r))" "List.find (acceptable r route c) queue = Some pid"
  shows "\<exists>t p. route_loop r route c queue seen trace = Some (Some p, t) \<and> rt_profiles r pid = Some p"
  using assms
proof (induction queue seen trace rule: route_loop_induct [where route = route and c = c])
  case (rejected x q rest seen trace new)
  have "\<not> acceptable r route c x" using rejected(1,2) by (simp add: acceptable_def)
  then have "List.find (acceptable r route c) rest = Some pid" using rejected.prems by simp
  then have "List.find (acceptable r route c) (rest @ new) = Some pid" by (induction rest) auto
  then show ?case using rejected(5,6) route_loop_rejected [OF rejected(1-3)] by simp
qed (auto simp: route_loop_missing route_loop_eligible acceptable_def split: if_splits)

section \<open>Resolution as a whole\<close>

lemma index_profiles_dom:
  "index_profiles ps m = Inr m' \<Longrightarrow>
     dom m' = dom m \<union> prof_ID ` set ps \<and> (\<forall>k p. m' k = Some p \<longrightarrow> m k = Some p \<or> (p \<in> set ps \<and> prof_ID p = k \<and> valid_profile p))"
proof (induction ps arbitrary: m)
  case (Cons p ps)
  then have ok: "valid_profile p" "m (prof_ID p) = None" "index_profiles ps (m(prof_ID p \<mapsto> p)) = Inr m'"
    by (auto split: if_splits)
  from Cons.IH [OF ok(3)] ok(1,2) show ?case by (auto split: if_splits)
qed simp

lemma router_New_Inr:
  assumes "router_New ps rules ds dep pol = Inr r"
  shows "dom (rt_profiles r) = prof_ID ` set ps"
    and "rt_profiles r k = Some p \<Longrightarrow> p \<in> set ps \<and> prof_ID p = k \<and> valid_profile p"
    and "finite (dom (rt_profiles r))"
    and "rt_deploymentDefault r = dep" "dep \<in> dom (rt_profiles r)"
proof -
  obtain m where "index_profiles ps Map.empty = Inr m" and r: "rt_profiles r = m" "rt_deploymentDefault r = dep" "m dep \<noteq> None"
    using assms by (auto simp: router_New_def split: sum.splits if_splits)
  note ix = index_profiles_dom [OF this(1)]
  show d: "dom (rt_profiles r) = prof_ID ` set ps" using ix r by simp
  show "rt_profiles r k = Some p \<Longrightarrow> p \<in> set ps \<and> prof_ID p = k \<and> valid_profile p" using ix r by simp
  show "finite (dom (rt_profiles r))" using d by simp
  show "rt_deploymentDefault r = dep" "dep \<in> dom (rt_profiles r)" using r by (auto simp: dom_def)
qed

lemma not_acceptable_empty:
  "router_New ps rules ds dep pol = Inr r \<Longrightarrow> acceptable r route c pid \<Longrightarrow> pid \<noteq> ''''"
  by (auto simp: acceptable_def valid_profile_def split: option.splits dest: router_New_Inr(2))

text \<open>The call to the worklist: its queue holds the candidates in order, less the repeated and the empty.\<close>

lemma router_Resolve_loop:
  obtains queue t0 where
    "set queue = set (fst (router_candidates r route)) - {''''}"
    "router_Resolve r route c =
       (case route_loop r route c queue (set queue) t0 of
          None \<Rightarrow> None
        | Some (None, t) \<Rightarrow> Some (Inl ErrNoEligibleModel, t)
        | Some (Some p, t) \<Rightarrow> Some (Inr (resolved_model r p), t))"
    "\<And>P. (\<forall>x. P x \<longrightarrow> x \<noteq> '''') \<Longrightarrow> List.find P queue = List.find P (fst (router_candidates r route))"
proof -
  obtain q where q: "seed_queue (fst (router_candidates r route)) {} [] = (q, set q)"
    "set q = set (fst (router_candidates r route)) - {''''}"
    "\<forall>P. (\<forall>x. P x \<longrightarrow> x \<noteq> '''') \<longrightarrow> List.find P q = List.find P (fst (router_candidates r route))"
    using seed_queue_eq [of "fst (router_candidates r route)" "{}" "[]"] by (auto simp: same_first_def)
  show thesis
    by (rule that [of q "zero_DecisionTrace\<lparr>trace_MatchedRule := snd (router_candidates r route)\<rparr>"])
      (use q in \<open>simp_all add: router_Resolve_def case_prod_beta Let_def\<close>)
qed

lemma eligible_ok:
  "eligible p route c = '''' \<longleftrightarrow>
     prof_Enabled p \<and> con_DisabledProfiles c (prof_ID p) \<noteq> Some True
     \<and> (\<forall>m. con_AvailableProfiles c = Some m \<longrightarrow> m (prof_ID p) = Some True)
     \<and> (\<forall>m. con_AllowedProviders c = Some m \<longrightarrow> m (prof_ProviderID p) = Some True)
     \<and> route_InputTokens route \<le> prof_MaxInputTokens p
     \<and> (0 < con_MaxInputTokens c \<longrightarrow> route_InputTokens route \<le> con_MaxInputTokens c)
     \<and> set (route_Capabilities route) \<subseteq> set (prof_RequiredCapabilities p)
     \<and> set (route_DataClasses route) \<subseteq> set (prof_AllowedDataClasses p)"
  by (auto simp: eligible_def lookup_zero_def list_ex_iff split: option.splits)

lemma Resolve_routable:
  assumes "router_New ps rules ds dep pol = Inr r"
  shows "\<exists>v t. router_Resolve r route c = Some (v, t) \<and>
     (case v of
        Inl e \<Rightarrow> e = ErrNoEligibleModel
          \<and> (\<forall>pid \<in> routable r route c (set (fst (router_candidates r route)) - {''''}). \<not> acceptable r route c pid)
      | Inr m \<Rightarrow> \<exists>pid \<in> routable r route c (set (fst (router_candidates r route)) - {''''}).
          \<exists>p. rt_profiles r pid = Some p \<and> eligible p route c = '''' \<and> m = resolved_model r p)"
proof -
  obtain queue t0 where q: "set queue = set (fst (router_candidates r route)) - {''''}"
    and R: "router_Resolve r route c =
       (case route_loop r route c queue (set queue) t0 of
          None \<Rightarrow> None
        | Some (None, t) \<Rightarrow> Some (Inl ErrNoEligibleModel, t)
        | Some (Some p, t) \<Rightarrow> Some (Inr (resolved_model r p), t))"
    by (rule router_Resolve_loop)
  note fin = router_New_Inr(3) [OF assms]
  obtain v t where L: "route_loop r route c queue (set queue) t0 = Some (v, t)"
    using route_loop_total [OF fin] by fastforce
  show ?thesis
  proof (cases v)
    case None
    obtain fin' where "set queue \<subseteq> fin'" "exhausted r route c fin' fin'"
      using route_loop_None [OF fin L [unfolded None]] by (auto simp: exhausted_def)
    then have "\<forall>pid \<in> routable r route c (set queue). \<not> acceptable r route c pid"
      using routable_exhausted by (auto simp: exhausted_def)
    then show ?thesis using R L None q by simp
  next
    case (Some p)
    have "set queue \<subseteq> routable r route c (set queue)" by (auto intro: routable.start)
    from route_loop_Some [OF fin L [unfolded Some] this] show ?thesis using R L Some q by auto
  qed
qed

text \<open>
  C29. Hard constraints before preferences: whatever rules, defaults and fallbacks say, the
  profile a resolution returns is one of the configured ones and meets every constraint: it is
  enabled, not disabled by the caller, available and from an allowed provider where the caller
  restricts those, large enough for the input, with all required capabilities, and cleared for
  every data class of the request.
\<close>
theorem resolve_meets_constraints:
  assumes "router_New ps rules ds dep pol = Inr r" and "router_Resolve r route c = Some (Inr m, t)"
  shows "\<exists>p \<in> set ps. rm_ProfileID m = prof_ID p \<and> rm_ProviderID m = prof_ProviderID p
     \<and> rm_ModelID m = prof_ModelID p \<and> rm_Variant m = prof_Variant p
     \<and> prof_Enabled p \<and> con_DisabledProfiles c (prof_ID p) \<noteq> Some True
     \<and> (\<forall>a. con_AvailableProfiles c = Some a \<longrightarrow> a (prof_ID p) = Some True)
     \<and> (\<forall>a. con_AllowedProviders c = Some a \<longrightarrow> a (prof_ProviderID p) = Some True)
     \<and> route_InputTokens route \<le> prof_MaxInputTokens p
     \<and> (0 < con_MaxInputTokens c \<longrightarrow> route_InputTokens route \<le> con_MaxInputTokens c)
     \<and> set (route_Capabilities route) \<subseteq> set (prof_RequiredCapabilities p)
     \<and> set (route_DataClasses route) \<subseteq> set (prof_AllowedDataClasses p)"
proof -
  obtain pid p where "rt_profiles r pid = Some p" "eligible p route c = ''''" "m = resolved_model r p"
    using Resolve_routable [OF assms(1), of route c] assms(2) by auto
  then show ?thesis using router_New_Inr(2) [OF assms(1)] by (auto simp: eligible_ok resolved_model_def)
qed

text \<open>
  C30. A resolution always returns, and it fails exactly when nothing it may use is eligible:
  none of the candidates and none of the profiles reached from them through the fallback lists
  of rejected profiles, cycles and dangling names included.
\<close>
theorem resolve_total_and_complete:
  assumes "router_New ps rules ds dep pol = Inr r"
  shows "\<exists>v t. router_Resolve r route c = Some (v, t)
     \<and> (v = Inl ErrNoEligibleModel \<longleftrightarrow>
          (\<forall>pid \<in> routable r route c (set (fst (router_candidates r route)) - {''''}). \<not> acceptable r route c pid))
     \<and> (\<forall>e. v = Inl e \<longrightarrow> e = ErrNoEligibleModel)"
proof -
  obtain v t where R: "router_Resolve r route c = Some (v, t)"
    and v: "case v of
        Inl e \<Rightarrow> e = ErrNoEligibleModel
          \<and> (\<forall>pid \<in> routable r route c (set (fst (router_candidates r route)) - {''''}). \<not> acceptable r route c pid)
      | Inr m \<Rightarrow> \<exists>pid \<in> routable r route c (set (fst (router_candidates r route)) - {''''}).
          \<exists>p. rt_profiles r pid = Some p \<and> eligible p route c = '''' \<and> m = resolved_model r p"
    using Resolve_routable [OF assms] by blast
  from v have "(v = Inl ErrNoEligibleModel \<longleftrightarrow>
          (\<forall>pid \<in> routable r route c (set (fst (router_candidates r route)) - {''''}). \<not> acceptable r route c pid))
     \<and> (\<forall>e. v = Inl e \<longrightarrow> e = ErrNoEligibleModel)"
    by (cases v) (auto simp: acceptable_def intro!: bexI)
  with R show ?thesis by blast
qed

lemma find_sort_key_least:
  assumes "List.find P (map g (sort_key f xs)) = Some y"
  shows "\<exists>b \<in> set xs. g b = y \<and> P y \<and> (\<forall>x \<in> set xs. P (g x) \<longrightarrow> f b \<le> f x)"
proof -
  obtain i where i: "i < length xs" "P (g (sort_key f xs ! i))" "y = g (sort_key f xs ! i)"
    "\<forall>j < i. \<not> P (g (sort_key f xs ! j))"
    using assms by (auto simp: find_Some_iff)
  let ?b = "sort_key f xs ! i"
  have b: "?b \<in> set xs" using i(1) nth_mem [of i "sort_key f xs"] by simp
  have "f ?b \<le> f x" if x: "x \<in> set xs" "P (g x)" for x
  proof -
    obtain j where j: "j < length xs" "x = sort_key f xs ! j"
      using x(1) by (metis in_set_conv_nth length_sort set_sort)
    with i(4) x(2) have "i \<le> j" by (metis not_le)
    then have "map f (sort_key f xs) ! i \<le> map f (sort_key f xs) ! j"
      using j(1) by (intro sorted_nth_mono) simp_all
    then show ?thesis using i(1) j by simp
  qed
  with b i(2,3) show ?thesis by blast
qed

text \<open>
  Preferences, once the constraints hold: without an override, when a rule that matches the
  request (or the channel's default) names an eligible profile, the resolution returns the
  profile of the matching rule with the highest rank (phase or skill, routine, channel,
  workspace, organization), then the highest priority, then the least id, among those naming
  an eligible profile; rules whose profile is not eligible are passed over.
\<close>
theorem resolve_precedence:
  assumes "router_New ps rules ds dep pol = Inr r" and "route_Override route = ''''"
    and "m0 \<in> set (route_matches r route)" and "acceptable r route c (mt_profile m0)"
  shows "\<exists>best \<in> set (route_matches r route). \<exists>p t.
     router_Resolve r route c = Some (Inr (resolved_model r p), t) \<and> rt_profiles r (mt_profile best) = Some p
     \<and> (\<forall>x \<in> set (route_matches r route). acceptable r route c (mt_profile x) \<longrightarrow> match_key best \<le> match_key x)"
proof -
  let ?ms = "sort_key match_key (route_matches r route)"
  have c: "fst (router_candidates r route) = map mt_profile ?ms"
    using assms(2,3) by (cases ?ms) (auto simp: router_candidates_def Let_def dest: arg_cong [of _ _ set])
  obtain queue t0 where
    R: "router_Resolve r route c =
       (case route_loop r route c queue (set queue) t0 of
          None \<Rightarrow> None
        | Some (None, t) \<Rightarrow> Some (Inl ErrNoEligibleModel, t)
        | Some (Some p, t) \<Rightarrow> Some (Inr (resolved_model r p), t))"
    and find: "\<And>P. (\<forall>x. P x \<longrightarrow> x \<noteq> '''') \<Longrightarrow> List.find P queue = List.find P (map mt_profile ?ms)"
    unfolding c [symmetric] by (rule router_Resolve_loop) blast
  have "List.find (acceptable r route c) (map mt_profile ?ms) \<noteq> None"
    using assms(3,4) by (auto simp: find_None_iff)
  then obtain pid where pid: "List.find (acceptable r route c) (map mt_profile ?ms) = Some pid" by blast
  then have "List.find (acceptable r route c) queue = Some pid"
    using find [of "acceptable r route c"] not_acceptable_empty [OF assms(1)] by auto
  then obtain t p where "route_loop r route c queue (set queue) t0 = Some (Some p, t)" "rt_profiles r pid = Some p"
    using route_loop_first [OF router_New_Inr(3) [OF assms(1)]] by blast
  with R find_sort_key_least [OF pid] show ?thesis by auto
qed

section \<open>A catalog\<close>

text \<open>Two profiles that name each other as fallbacks, the larger one cleared for restricted data.\<close>

definition sample_profile :: "string \<Rightarrow> string \<Rightarrow> string list \<Rightarrow> int \<Rightarrow> ModelProfile" where
  "sample_profile i fallback classes tokens =
     \<lparr>prof_ID = i, prof_ProviderID = ''openai'', prof_ModelID = ''model-'' @ i, prof_Variant = '''', prof_ProviderOptions = [],
      prof_RequiredCapabilities = [''tools''], prof_AllowedDataClasses = classes, prof_FallbackProfileIDs = [fallback],
      prof_MaxInputTokens = tokens, prof_MaxOutputTokens = 10, prof_Enabled = True\<rparr>"

definition sample_profiles :: "ModelProfile list" where
  "sample_profiles = [sample_profile ''small'' ''large'' [''public''] 100, sample_profile ''large'' ''small'' [''public'', ''restricted''] 1000]"

definition sample_rule :: "string \<Rightarrow> string \<Rightarrow> string \<Rightarrow> RouteRule" where
  "sample_rule i channel profile = \<lparr>rr_ID = i, rr_OrganizationID = ''org'', rr_WorkspaceID = '''', rr_ChannelID = channel,
      rr_RoutineID = '''', rr_SkillName = '''', rr_Phase = '''', rr_ProfileID = profile, rr_Priority = 0\<rparr>"

definition sample_rules :: "RouteRule list" where
  "sample_rules = [sample_rule ''everyone'' '''' ''large'', sample_rule ''general'' ''C1'' ''small'']"

definition sample_router :: "router_error + ModelRouter" where
  "sample_router = router_New sample_profiles sample_rules Map.empty ''small'' ''v1''"

definition sample_request :: "string list \<Rightarrow> int \<Rightarrow> ModelRouteContext" where
  "sample_request classes tokens = \<lparr>route_OrganizationID = ''org'', route_WorkspaceID = '''', route_ChannelID = ''C1'', route_RoutineID = '''',
      route_SkillName = '''', route_Phase = '''', route_Override = '''', route_ChannelDefault = '''',
      route_DataClasses = classes, route_Capabilities = [''tools''], route_InputTokens = tokens\<rparr>"

definition no_constraints :: Constraints where
  "no_constraints = \<lparr>con_AllowedProviders = None, con_DisabledProfiles = Map.empty, con_AvailableProfiles = None, con_MaxInputTokens = 0\<rparr>"

lemmas sample_router_defs = sample_profile_def sample_profiles_def sample_rule_def sample_rules_def sample_router_def
  sample_request_def no_constraints_def

lemma sample_router_Inr: "router_New sample_profiles sample_rules Map.empty ''small'' ''v1'' = Inr (projr sample_router)"
  by (simp add: sample_router_defs router_New_def valid_profile_def)

lemma sample_Resolve_restricted:
  "map_option fst (router_Resolve (projr sample_router) (sample_request [''restricted''] 50) no_constraints)
     = Some (Inr \<lparr>rm_ProfileID = ''large'', rm_ProviderID = ''openai'', rm_ModelID = ''model-large'', rm_Variant = '''', rm_PolicyRev = ''v1''\<rparr>)"
  by code_simp

theorem resolve_meets_constraints_witness:
  "\<exists>m t. router_Resolve (projr sample_router) (sample_request [''restricted''] 50) no_constraints = Some (Inr m, t)
     \<and> (\<exists>p \<in> set sample_profiles. rm_ProfileID m = prof_ID p \<and> ''restricted'' \<in> set (prof_AllowedDataClasses p))"
proof -
  obtain m t where R: "router_Resolve (projr sample_router) (sample_request [''restricted''] 50) no_constraints = Some (Inr m, t)"
    using sample_Resolve_restricted by auto
  from resolve_meets_constraints [OF sample_router_Inr R] show ?thesis
    using R by (auto simp: sample_request_def)
qed

theorem resolve_total_and_complete_witness:
  "\<exists>v t. router_Resolve (projr sample_router) (sample_request [] 5000) no_constraints = Some (v, t)
     \<and> (v = Inl ErrNoEligibleModel \<longleftrightarrow>
          (\<forall>pid \<in> routable (projr sample_router) (sample_request [] 5000) no_constraints
              (set (fst (router_candidates (projr sample_router) (sample_request [] 5000))) - {''''}).
             \<not> acceptable (projr sample_router) (sample_request [] 5000) no_constraints pid))"
  using resolve_total_and_complete [OF sample_router_Inr] by blast

theorem resolve_precedence_witness:
  "\<exists>best \<in> set (route_matches (projr sample_router) (sample_request [''public''] 50)). \<exists>p t.
     router_Resolve (projr sample_router) (sample_request [''public''] 50) no_constraints
       = Some (Inr (resolved_model (projr sample_router) p), t)
     \<and> rt_profiles (projr sample_router) (mt_profile best) = Some p"
proof -
  let ?r = "projr sample_router" and ?q = "sample_request [''public''] 50"
  let ?m = "\<lparr>mt_profile = ''large'', mt_rank = 2, mt_priority = 0, mt_id = ''everyone''\<rparr>"
  have "route_Override ?q = ''''" by (simp add: sample_request_def)
  moreover have "?m \<in> set (route_matches ?r ?q)" by code_simp
  moreover have "acceptable ?r ?q no_constraints (mt_profile ?m)" by code_simp
  ultimately show ?thesis using resolve_precedence [OF sample_router_Inr] by blast
qed

end
