(* ===== verification/Registry.thy ===== *)
theory Registry
  imports Router "HOL-Library.Multiset"
begin

text \<open>
  The registry of model profiles and routing rules, \<^verbatim>\<open>core/modelrouter/registry.go\<close>: maps
  under a lock and a router rebuilt from them by every change.  The rebuild ranges over the
  maps, so the order of its lists is an argument.  The router shares the map of organization
  defaults with the registry; a change to the map is followed by a rebuild while the lock is
  held, so the model gives each router its own copy.

  The store (\<^verbatim>\<open>mongo.go\<close>) is a record of functions: what a load returns, and whether a write fails.
\<close>

section \<open>State\<close>

record RegistryStore =
  rs_Load :: "router_error + (ModelProfile list \<times> RouteRule list)"
  rs_PutProfile :: "ModelProfile \<Rightarrow> router_error option"
  rs_PutRule :: "RouteRule \<Rightarrow> router_error option"

record Registry =
  rg_profiles :: "string \<rightharpoonup> ModelProfile"
  rg_rules :: "string \<rightharpoonup> RouteRule"
  rg_organizationDefaults :: "string \<rightharpoonup> string"
  rg_deploymentDefault :: string
  rg_policyRevision :: string
  rg_router :: "ModelRouter option"
  rg_store :: "RegistryStore option"

record RegistrySnapshot =
  sn_PolicyRevision :: string
  sn_DeploymentDefault :: string
  sn_Profiles :: "ModelProfile list"
  sn_Rules :: "RouteRule list"

text \<open>The orders of the two \<^verbatim>\<open>range\<close> loops of a rebuild.\<close>

type_synonym RegistryOrder = "string list \<times> string list"

section \<open>Operations\<close>

definition rebuildLocked :: "RegistryOrder \<Rightarrow> Registry \<Rightarrow> (router_error, unit, Registry) outcome" where
  "rebuildLocked ord r =
     (let profiles = vals (fst ord) (rg_profiles r); rules = vals (snd ord) (rg_rules r)
      in if list_ex (\<lambda>x. rg_profiles r (rr_ProfileID x) = None) rules then (Inl ErrRuleProfileMissing, r)
         else case router_New profiles rules (rg_organizationDefaults r) (rg_deploymentDefault r) (rg_policyRevision r) of
             Inl e \<Rightarrow> (Inl e, r)
           | Inr router \<Rightarrow> (Inr (), r\<lparr>rg_router := Some router\<rparr>))"

definition put_all :: "('v \<Rightarrow> 'k) \<Rightarrow> 'v list \<Rightarrow> ('k \<rightharpoonup> 'v) \<Rightarrow> ('k \<rightharpoonup> 'v)" where
  "put_all key vs m = foldl (\<lambda>m v. m(key v \<mapsto> v)) m vs"

definition registry_New ::
  "RegistryOrder \<Rightarrow> ModelProfile list \<Rightarrow> RouteRule list \<Rightarrow> (string \<rightharpoonup> string) \<Rightarrow> string \<Rightarrow> string \<Rightarrow> router_error + Registry" where
  "registry_New ord profiles rules defaults deploymentDefault revision =
     (case rebuildLocked ord
        \<lparr>rg_profiles = put_all prof_ID profiles Map.empty, rg_rules = put_all rr_ID rules Map.empty,
         rg_organizationDefaults = defaults, rg_deploymentDefault = deploymentDefault,
         rg_policyRevision = revision, rg_router = None, rg_store = None\<rparr> of
        (Inl e, r) \<Rightarrow> Inl e
      | (Inr _, r) \<Rightarrow> Inr r)"

text \<open>A registry built by \<^verbatim>\<open>NewRegistry\<close> has a router; on a nil router the call would panic.\<close>

definition registry_Resolve ::
  "Registry \<Rightarrow> ModelRouteContext \<Rightarrow> Constraints \<Rightarrow> ((router_error + ResolvedModel) \<times> DecisionTrace) option" where
  "registry_Resolve r route c = (case rg_router r of None \<Rightarrow> None | Some router \<Rightarrow> router_Resolve router route c)"

definition registry_AttachStore :: "RegistryStore \<Rightarrow> Registry \<Rightarrow> Registry" where
  "registry_AttachStore s r = r\<lparr>rg_store := Some s\<rparr>"

definition registry_Load :: "RegistryOrder \<Rightarrow> Registry \<Rightarrow> (router_error, unit, Registry) outcome" where
  "registry_Load ord r =
     (case rg_store r of
        None \<Rightarrow> (Inr (), r)
      | Some s \<Rightarrow>
          (case rs_Load s of
             Inl e \<Rightarrow> (Inl e, r)
           | Inr (profiles, rules) \<Rightarrow>
               rebuildLocked ord (r\<lparr>rg_profiles := put_all prof_ID profiles (rg_profiles r),
                                   rg_rules := put_all rr_ID rules (rg_rules r)\<rparr>)))"

definition registry_Allowed :: "ResolvedModel \<Rightarrow> Registry \<Rightarrow> bool" where
  "registry_Allowed snapshot r =
     (case rg_profiles r (rm_ProfileID snapshot) of
        None \<Rightarrow> False
      | Some p \<Rightarrow> prof_Enabled p \<and> prof_ProviderID p = rm_ProviderID snapshot
          \<and> prof_ModelID p = rm_ModelID snapshot \<and> prof_Variant p = rm_Variant snapshot)"

text \<open>The undo of a put: the previous entry comes back, or the new one is deleted.\<close>

definition restore :: "'k \<Rightarrow> 'v option \<Rightarrow> ('k \<rightharpoonup> 'v) \<Rightarrow> ('k \<rightharpoonup> 'v)" where
  "restore k previous m = (case previous of None \<Rightarrow> m(k := None) | Some v \<Rightarrow> m(k \<mapsto> v))"

text \<open>\<open>ord\<close> orders the first rebuild and \<open>ord'\<close> the rebuild after an undo, whose error is discarded.\<close>

definition registry_PutProfile ::
  "RegistryOrder \<Rightarrow> RegistryOrder \<Rightarrow> ModelProfile \<Rightarrow> Registry \<Rightarrow> (router_error, unit, Registry) outcome" where
  "registry_PutProfile ord ord' profile r =
     (let previous = rg_profiles r (prof_ID profile);
          undo = (\<lambda>s. snd (rebuildLocked ord' (s\<lparr>rg_profiles := restore (prof_ID profile) previous (rg_profiles s)\<rparr>)))
      in case rebuildLocked ord (r\<lparr>rg_profiles := (rg_profiles r)(prof_ID profile \<mapsto> profile)\<rparr>) of
           (Inl e, s) \<Rightarrow> (Inl e, undo s)
         | (Inr _, s) \<Rightarrow>
             (case rg_store s of
                None \<Rightarrow> (Inr (), s)
              | Some st \<Rightarrow>
                  (case rs_PutProfile st profile of
                     Some e \<Rightarrow> (Inl e, undo s)
                   | None \<Rightarrow> (Inr (), s))))"

definition registry_PutRule ::
  "RegistryOrder \<Rightarrow> RegistryOrder \<Rightarrow> RouteRule \<Rightarrow> Registry \<Rightarrow> (router_error, unit, Registry) outcome" where
  "registry_PutRule ord ord' rule r =
     (if rr_ID rule = '''' \<or> rr_ProfileID rule = '''' then (Inl ErrRuleIncomplete, r)
      else
        let previous = rg_rules r (rr_ID rule);
            undo = (\<lambda>s. snd (rebuildLocked ord' (s\<lparr>rg_rules := restore (rr_ID rule) previous (rg_rules s)\<rparr>)))
        in case rebuildLocked ord (r\<lparr>rg_rules := (rg_rules r)(rr_ID rule \<mapsto> rule)\<rparr>) of
             (Inl e, s) \<Rightarrow> (Inl e, undo s)
           | (Inr _, s) \<Rightarrow>
               (case rg_store s of
                  None \<Rightarrow> (Inr (), s)
                | Some st \<Rightarrow>
                    (case rs_PutRule st rule of
                       Some e \<Rightarrow> (Inl e, undo s)
                     | None \<Rightarrow> (Inr (), s))))"

definition registry_SetOrganizationDefault ::
  "RegistryOrder \<Rightarrow> RegistryOrder \<Rightarrow> string \<Rightarrow> string \<Rightarrow> Registry \<Rightarrow> (router_error, unit, Registry) outcome" where
  "registry_SetOrganizationDefault ord ord' org profile r =
     (if org = '''' \<or> profile = '''' then (Inl ErrOrganizationDefault, r)
      else
        let old = rg_organizationDefaults r org
        in case rebuildLocked ord (r\<lparr>rg_organizationDefaults := (rg_organizationDefaults r)(org \<mapsto> profile)\<rparr>) of
             (Inl e, s) \<Rightarrow>
               (Inl e, snd (rebuildLocked ord' (s\<lparr>rg_organizationDefaults := restore org old (rg_organizationDefaults s)\<rparr>)))
           | (Inr _, s) \<Rightarrow> (Inr (), s))"

definition registry_Snapshot :: "RegistryOrder \<Rightarrow> Registry \<Rightarrow> RegistrySnapshot" where
  "registry_Snapshot ord r =
     \<lparr>sn_PolicyRevision = rg_policyRevision r, sn_DeploymentDefault = rg_deploymentDefault r,
      sn_Profiles = sort_key prof_ID (vals (fst ord) (rg_profiles r)),
      sn_Rules = sort_key rr_ID (vals (snd ord) (rg_rules r))\<rparr>"

section \<open>Rebuilding\<close>

definition orders :: "RegistryOrder \<Rightarrow> Registry \<Rightarrow> bool" where
  "orders ord r \<longleftrightarrow> enumerates (fst ord) (rg_profiles r) \<and> enumerates (snd ord) (rg_rules r)"

definition keyed :: "Registry \<Rightarrow> bool" where
  "keyed r \<longleftrightarrow> (\<forall>k p. rg_profiles r k = Some p \<longrightarrow> prof_ID p = k) \<and> (\<forall>k x. rg_rules r k = Some x \<longrightarrow> rr_ID x = k)"

definition config_ok :: "Registry \<Rightarrow> bool" where
  "config_ok r \<longleftrightarrow> (\<forall>p \<in> ran (rg_profiles r). valid_profile p) \<and> rg_profiles r (rg_deploymentDefault r) \<noteq> None
     \<and> (\<forall>x \<in> ran (rg_rules r). rg_profiles r (rr_ProfileID x) \<noteq> None)"

definition built :: "RegistryOrder \<Rightarrow> Registry \<Rightarrow> ModelRouter" where
  "built ord r = \<lparr>rt_profiles = rg_profiles r, rt_rules = vals (snd ord) (rg_rules r),
     rt_organizationDefaults = rg_organizationDefaults r, rt_deploymentDefault = rg_deploymentDefault r,
     rt_policyRevision = rg_policyRevision r\<rparr>"

lemma built_simps [simp]:
  "rt_profiles (built ord r) = rg_profiles r" "rt_rules (built ord r) = vals (snd ord) (rg_rules r)"
  "rt_organizationDefaults (built ord r) = rg_organizationDefaults r"
  "rt_deploymentDefault (built ord r) = rg_deploymentDefault r" "rt_policyRevision (built ord r) = rg_policyRevision r"
  "built ord (r\<lparr>rg_router := x\<rparr>) = built ord r"
  by (simp_all add: built_def)

lemma map_key_vals:
  assumes "enumerates ord m" "\<And>k v. m k = Some v \<Longrightarrow> key v = k"
  shows "map key (vals ord m) = ord"
proof -
  have "\<forall>k \<in> set ks. m k \<noteq> None \<Longrightarrow> map key (vals ks m) = ks" for ks
    by (induction ks) (auto simp: vals_def List.map_filter_def assms(2))
  then show ?thesis using assms(1) by (simp add: enumerates_mem)
qed

lemma index_profiles_Inr_iff:
  "(\<exists>m'. index_profiles ps m = Inr m') \<longleftrightarrow>
     (\<forall>p \<in> set ps. valid_profile p) \<and> distinct (map prof_ID ps) \<and> (\<forall>p \<in> set ps. m (prof_ID p) = None)"
  by (induction ps arbitrary: m) (auto simp: image_iff split: if_splits)

lemma index_profiles_vals:
  assumes "enumerates ord m" "\<And>k p. m k = Some p \<Longrightarrow> prof_ID p = k" "\<forall>p \<in> ran m. valid_profile p"
  shows "index_profiles (vals ord m) Map.empty = Inr m"
proof -
  have "distinct ord" using assms(1) by (simp add: enumerates_def)
  then obtain m' where m': "index_profiles (vals ord m) Map.empty = Inr m'"
    using index_profiles_Inr_iff [of "vals ord m" Map.empty] assms(3) set_vals_enumerates [OF assms(1)]
      map_key_vals [of ord m prof_ID, OF assms(1,2)] by auto
  note ix = index_profiles_dom [OF m', unfolded set_vals_enumerates [OF assms(1)]]
  have s: "m k = Some p" if "m' k = Some p" for k p
  proof -
    from ix that have "p \<in> ran m" "prof_ID p = k" by auto
    then show ?thesis using assms(2) by (auto simp: ran_def)
  qed
  have d: "dom m' = dom m" using ix assms(2) by (force simp: ran_def dom_def image_iff)
  have "m' k = m k" for k using s [of k] d by (metis domIff not_None_eq)
  then have "m' = m" by (rule ext)
  then show ?thesis using m' by simp
qed

lemma rebuildLocked_eq:
  assumes "keyed r" "orders ord r"
  shows "config_ok r \<Longrightarrow> rebuildLocked ord r = (Inr (), r\<lparr>rg_router := Some (built ord r)\<rparr>)"
    and "\<not> config_ok r \<Longrightarrow> \<exists>e. rebuildLocked ord r = (Inl e, r)"
proof -
  have p: "enumerates (fst ord) (rg_profiles r)" "set (vals (fst ord) (rg_profiles r)) = ran (rg_profiles r)"
    and q: "set (vals (snd ord) (rg_rules r)) = ran (rg_rules r)"
    using assms(2) by (simp_all add: orders_def set_vals_enumerates)
  have k: "\<And>k p. rg_profiles r k = Some p \<Longrightarrow> prof_ID p = k" using assms(1) by (simp add: keyed_def)
  show "rebuildLocked ord r = (Inr (), r\<lparr>rg_router := Some (built ord r)\<rparr>)" if "config_ok r"
    using that index_profiles_vals [OF p(1) k] q
    by (auto simp: rebuildLocked_def config_ok_def router_New_def built_def list_ex_iff Let_def)
  show "\<exists>e. rebuildLocked ord r = (Inl e, r)" if "\<not> config_ok r"
  proof (cases "\<forall>p \<in> ran (rg_profiles r). valid_profile p")
    case True
    with that index_profiles_vals [OF p(1) k True] q show ?thesis
      by (auto simp: rebuildLocked_def config_ok_def router_New_def list_ex_iff Let_def)
  next
    case False
    then have "\<not> (\<exists>m. index_profiles (vals (fst ord) (rg_profiles r)) Map.empty = Inr m)"
      using p(2) by (auto simp: index_profiles_Inr_iff)
    then obtain e where "index_profiles (vals (fst ord) (rg_profiles r)) Map.empty = Inl e"
      by (cases "index_profiles (vals (fst ord) (rg_profiles r)) Map.empty") auto
    then show ?thesis by (simp add: rebuildLocked_def router_New_def Let_def)
  qed
qed

section \<open>The order of the maps does not matter\<close>

lemma route_loop_profiles:
  fixes r1 r2 :: ModelRouter
  assumes "finite (dom (rt_profiles r1))" "rt_profiles r2 = rt_profiles r1"
  shows "route_loop r2 route c queue seen trace = route_loop r1 route c queue seen trace"
  using assms
proof (induction queue seen trace rule: route_loop_induct [where route = route and c = c])
  case (rejected pid p rest seen trace new)
  have "rt_profiles r2 pid = Some p" using rejected(1,6) by simp
  from route_loop_rejected [OF this rejected(2,3)] route_loop_rejected [OF rejected(1-3)] rejected(5,6)
  show ?case by simp
qed (simp_all add: route_loop_Nil route_loop_missing route_loop_eligible)

lemma vals_mset:
  assumes "enumerates o1 m" "enumerates o2 m"
  shows "mset (vals o1 m) = mset (vals o2 m)"
proof -
  have "mset o1 = mset o2" using assms set_eq_iff_mset_eq_distinct [of o1 o2] by (simp add: enumerates_def)
  then show ?thesis by (simp add: vals_def List.map_filter_def)
qed

lemma match_key_inj:
  assumes "keyed r" "rg_rules r ''channel_default'' = None"
  shows "inj_on match_key (set (route_matches (built ord r) route))"
proof (rule inj_onI)
  have ids: "\<exists>x. rg_rules r (rr_ID x) = Some x \<and> mt_id m = rr_ID x
       \<and> m = \<lparr>mt_profile = rr_ProfileID x, mt_rank = rule_rank x, mt_priority = rr_Priority x, mt_id = rr_ID x\<rparr>"
    if "m \<in> set (route_matches (built ord r) route)" "mt_id m \<noteq> ''channel_default''" for m
  proof -
    from that obtain x where "x \<in> set (vals (snd ord) (rg_rules r))"
      "m = \<lparr>mt_profile = rr_ProfileID x, mt_rank = rule_rank x, mt_priority = rr_Priority x, mt_id = rr_ID x\<rparr>"
      by (auto simp: route_matches_def split: if_splits)
    moreover from this(1) assms(1) have "rg_rules r (rr_ID x) = Some x" by (auto simp: set_vals keyed_def)
    ultimately show ?thesis by auto
  qed
  have def: "m = \<lparr>mt_profile = route_ChannelDefault route, mt_rank = 4, mt_priority = 0, mt_id = ''channel_default''\<rparr>"
    if "m \<in> set (route_matches (built ord r) route)" "mt_id m = ''channel_default''" for m
  proof -
    have "x \<in> set (vals (snd ord) (rg_rules r)) \<Longrightarrow> rr_ID x \<noteq> ''channel_default''" for x
      using assms by (auto simp: set_vals keyed_def)
    with that show ?thesis by (auto simp: route_matches_def split: if_splits)
  qed
  fix a b assume ab: "a \<in> set (route_matches (built ord r) route)" "b \<in> set (route_matches (built ord r) route)"
    "match_key a = match_key b"
  then have same: "mt_id a = mt_id b" by (simp add: match_key_def)
  show "a = b"
  proof (cases "mt_id a = ''channel_default''")
    case True
    with same def [OF ab(1)] def [OF ab(2)] show ?thesis by simp
  next
    case False
    obtain x where x: "rg_rules r (rr_ID x) = Some x" "mt_id a = rr_ID x"
      "a = \<lparr>mt_profile = rr_ProfileID x, mt_rank = rule_rank x, mt_priority = rr_Priority x, mt_id = rr_ID x\<rparr>"
      using ids [OF ab(1) False] by blast
    obtain y where y: "rg_rules r (rr_ID y) = Some y" "mt_id b = rr_ID y"
      "b = \<lparr>mt_profile = rr_ProfileID y, mt_rank = rule_rank y, mt_priority = rr_Priority y, mt_id = rr_ID y\<rparr>"
      using ids [OF ab(2) False [unfolded same]] by blast
    have "rr_ID x = rr_ID y" using x(2) y(2) same by simp
    with x(1) y(1) have "x = y" by (metis option.inject)
    then show ?thesis using x(3) y(3) by simp
  qed
qed

lemma Resolve_order:
  assumes "keyed r" "finite (dom (rg_profiles r))" "orders o1 r" "orders o2 r" "rg_rules r ''channel_default'' = None"
  shows "router_Resolve (built o1 r) route c = router_Resolve (built o2 r) route c"
proof -
  have "mset (vals (snd o1) (rg_rules r)) = mset (vals (snd o2) (rg_rules r))"
    using assms(3,4) by (intro vals_mset) (simp_all add: orders_def)
  then have m: "mset (route_matches (built o1 r) route) = mset (route_matches (built o2 r) route)"
    by (simp add: route_matches_def)
  have "sort_key match_key (route_matches (built o1 r) route) = sort_key match_key (route_matches (built o2 r) route)"
    by (rule sort_key_inj_key_eq) (use m match_key_inj [OF assms(1,5)] in simp_all)
  then have "router_candidates (built o1 r) route = router_candidates (built o2 r) route"
    by (simp add: router_candidates_def Let_def split: list.split)
  moreover have "route_loop (built o1 r) route c q s t = route_loop (built o2 r) route c q s t" for q s t
    by (rule route_loop_profiles) (simp_all add: assms(2))
  moreover have "resolved_model (built o1 r) = resolved_model (built o2 r)" by (rule ext) (simp add: resolved_model_def)
  ultimately show ?thesis by (simp add: router_Resolve_def split: option.split prod.split)
qed

section \<open>The registry and its writes\<close>

definition registry_ok :: "Registry \<Rightarrow> bool" where
  "registry_ok r \<longleftrightarrow> keyed r \<and> config_ok r \<and> (\<exists>ord. orders ord r \<and> rg_router r = Some (built ord r))"

lemma orders_finite: "orders ord r \<Longrightarrow> finite (dom (rg_profiles r))"
  by (metis List.finite_set enumerates_def orders_def)

lemma registry_simps [simp]:
  "keyed (r\<lparr>rg_router := x\<rparr>) = keyed r" "config_ok (r\<lparr>rg_router := x\<rparr>) = config_ok r" "orders ord (r\<lparr>rg_router := x\<rparr>) = orders ord r"
  by (simp_all add: keyed_def config_ok_def orders_def)

lemma registry_ok_built: "keyed r \<Longrightarrow> config_ok r \<Longrightarrow> orders ord r \<Longrightarrow> registry_ok (r\<lparr>rg_router := Some (built ord r)\<rparr>)"
  unfolding registry_ok_def by (intro conjI exI [of _ ord]) simp_all

text \<open>The three writes of the registry, and the change each makes to a map.\<close>

datatype RegistryWrite = WriteProfile ModelProfile | WriteRule RouteRule | WriteDefault string string

fun written :: "RegistryWrite \<Rightarrow> Registry \<Rightarrow> Registry" where
  "written (WriteProfile p) r = r\<lparr>rg_profiles := (rg_profiles r)(prof_ID p \<mapsto> p)\<rparr>"
| "written (WriteRule x) r = r\<lparr>rg_rules := (rg_rules r)(rr_ID x \<mapsto> x)\<rparr>"
| "written (WriteDefault org profile) r = r\<lparr>rg_organizationDefaults := (rg_organizationDefaults r)(org \<mapsto> profile)\<rparr>"

fun registry_write ::
  "RegistryOrder \<Rightarrow> RegistryOrder \<Rightarrow> RegistryWrite \<Rightarrow> Registry \<Rightarrow> (router_error, unit, Registry) outcome" where
  "registry_write ord ord' (WriteProfile p) r = registry_PutProfile ord ord' p r"
| "registry_write ord ord' (WriteRule x) r = registry_PutRule ord ord' x r"
| "registry_write ord ord' (WriteDefault org profile) r = registry_SetOrganizationDefault ord ord' org profile r"

lemma restore_id [simp]: "restore k (m k) (m(k \<mapsto> v)) = m"
  by (rule ext) (auto simp: restore_def split: option.split)

lemma keyed_written: "keyed r \<Longrightarrow> keyed (written w r)"
  by (cases w) (auto simp: keyed_def)

lemma registry_ext:
  "rg_profiles s = rg_profiles r \<Longrightarrow> rg_rules s = rg_rules r \<Longrightarrow> rg_organizationDefaults s = rg_organizationDefaults r
     \<Longrightarrow> rg_deploymentDefault s = rg_deploymentDefault r \<Longrightarrow> rg_policyRevision s = rg_policyRevision r
     \<Longrightarrow> rg_store s = rg_store r \<Longrightarrow> (s :: Registry) = r\<lparr>rg_router := rg_router s\<rparr>"
  by simp

text \<open>What a write leaves: the change and a router for it, or the old maps and a router for those.\<close>

lemma registry_write_cases:
  assumes ok: "registry_ok r" and o1: "orders ord (written w r)" and o2: "orders ord' r"
    and run: "registry_write ord ord' w r = (res, s)"
  shows "(res = Inr () \<and> config_ok (written w r) \<and> s = (written w r)\<lparr>rg_router := Some (built ord (written w r))\<rparr>)
    \<or> (isl res \<and> (s = r \<or> s = r\<lparr>rg_router := Some (built ord' r)\<rparr>))"
proof -
  have k: "keyed r" "config_ok r" using ok by (simp_all add: registry_ok_def)
  have undo: "rebuildLocked ord' r = (Inr (), r\<lparr>rg_router := Some (built ord' r)\<rparr>)"
    "rebuildLocked ord' (r\<lparr>rg_router := x\<rparr>) = (Inr (), r\<lparr>rg_router := Some (built ord' r)\<rparr>)" for x
    using rebuildLocked_eq(1) [of r ord'] rebuildLocked_eq(1) [of "r\<lparr>rg_router := x\<rparr>" ord'] k o2 by simp_all
  consider (bad) e where "rebuildLocked ord (written w r) = (Inl e, written w r)"
    | (good) "config_ok (written w r)" "rebuildLocked ord (written w r) = (Inr (), (written w r)\<lparr>rg_router := Some (built ord (written w r))\<rparr>)"
    using rebuildLocked_eq [OF keyed_written [OF k(1)] o1] by blast
  then show ?thesis
  proof cases
    case bad
    show ?thesis
      by (cases w) (use bad undo run in
        \<open>auto simp: registry_PutProfile_def registry_PutRule_def registry_SetOrganizationDefault_def Let_def split: if_splits\<close>)
  next
    case good
    show ?thesis
      by (cases w) (use good undo run in
        \<open>auto simp: registry_PutProfile_def registry_PutRule_def registry_SetOrganizationDefault_def Let_def
          split: if_splits option.splits\<close>)
  qed
qed

lemma registry_Resolve_order:
  assumes "registry_ok r" "orders ord r" "rg_rules r ''channel_default'' = None"
  shows "registry_Resolve (r\<lparr>rg_router := Some (built ord r)\<rparr>) route c = registry_Resolve r route c"
proof -
  from assms(1) obtain o1 where "keyed r" "orders o1 r" "rg_router r = Some (built o1 r)" by (auto simp: registry_ok_def)
  with Resolve_order [of r o1 ord] orders_finite [OF assms(2)] assms(2,3) show ?thesis by (simp add: registry_Resolve_def)
qed

text \<open>
  The registry's writes are all or nothing.  A write of a profile, a rule or an
  organization default either takes effect, and then nothing but the one map entry and the
  router changed and the new configuration is consistent, or it fails (an invalid profile, a
  rule naming an unknown profile, a store that refuses the write), and then every map is as it
  was and every request resolves as it did, in whatever order the rebuild visited the maps.
\<close>
theorem registry_writes_all_or_nothing:
  assumes "registry_ok r" and "orders ord (written w r)" and "orders ord' r"
    and "rg_rules r ''channel_default'' = None"
    and "registry_write ord ord' w r = (res, s)"
  shows "registry_ok s
    \<and> (res = Inr () \<longrightarrow> s = (written w r)\<lparr>rg_router := rg_router s\<rparr>)
    \<and> (res \<noteq> Inr () \<longrightarrow> s = r\<lparr>rg_router := rg_router s\<rparr> \<and> (\<forall>route c. registry_Resolve s route c = registry_Resolve r route c))"
proof -
  have k: "keyed r" "config_ok r" using assms(1) by (simp_all add: registry_ok_def)
  consider (ok) "res = Inr ()" "config_ok (written w r)" "s = (written w r)\<lparr>rg_router := Some (built ord (written w r))\<rparr>"
    | (same) "res \<noteq> Inr ()" "s = r"
    | (undone) "res \<noteq> Inr ()" "s = r\<lparr>rg_router := Some (built ord' r)\<rparr>"
    using registry_write_cases [OF assms(1-3,5)] by force
  then show ?thesis
  proof cases
    case ok
    then show ?thesis using registry_ok_built [OF keyed_written [OF k(1)] ok(2) assms(2)] by simp
  next
    case same
    with assms(1) show ?thesis by simp
  next
    case undone
    then show ?thesis
      using registry_ok_built [OF k assms(3)] registry_Resolve_order [OF assms(1,3,4)] by simp
  qed
qed

text \<open>
  What the registry resolves, it allows: the model a request resolves to passes
  \<^verbatim>\<open>Allowed\<close>, the check the worker makes of the snapshot in the job, until the catalog changes.
\<close>
theorem resolved_is_allowed:
  assumes "registry_ok r" and "registry_Resolve r route c = Some (Inr m, t)"
  shows "registry_Allowed m r"
proof -
  obtain ord where r: "keyed r" "config_ok r" "orders ord r" "rg_router r = Some (built ord r)"
    using assms(1) by (auto simp: registry_ok_def)
  have "router_New (vals (fst ord) (rg_profiles r)) (rt_rules (built ord r)) (rg_organizationDefaults r)
      (rg_deploymentDefault r) (rg_policyRevision r) = Inr (built ord r)"
    using r index_profiles_vals [of "fst ord" "rg_profiles r"]
    by (auto simp: router_New_def orders_def keyed_def config_ok_def built_def)
  moreover have "router_Resolve (built ord r) route c = Some (Inr m, t)"
    using assms(2) r(4) by (simp add: registry_Resolve_def)
  ultimately obtain pid p where "rg_profiles r pid = Some p" "eligible p route c = ''''" "m = resolved_model (built ord r) p"
    using Resolve_routable [of _ _ _ _ _ "built ord r" route c] by fastforce
  then show ?thesis using r(1) by (auto simp: registry_Allowed_def resolved_model_def eligible_ok keyed_def)
qed

text \<open>
  Resolution is deterministic: two registries built from the same profiles, rules and
  defaults resolve every request alike, trace included, although each rebuild visits its maps
  in an arbitrary order.  No rule may have the id \<open>channel_default\<close>: such a rule ties with the
  channel's default and the order of the two is left to the unstable sort.
\<close>
theorem registry_deterministic:
  assumes "registry_New o1 ps rules ds dep pol = Inr r1" and "registry_New o2 ps rules ds dep pol = Inr r2"
    and "orders o1 r1" and "orders o2 r2" and "''channel_default'' \<notin> rr_ID ` set rules"
  shows "registry_Resolve r1 route c = registry_Resolve r2 route c"
proof -
  define r where "r = \<lparr>rg_profiles = put_all prof_ID ps Map.empty, rg_rules = put_all rr_ID rules Map.empty,
         rg_organizationDefaults = ds, rg_deploymentDefault = dep, rg_policyRevision = pol, rg_router = None, rg_store = None\<rparr>"
  have put: "put_all key vs m k = Some v \<Longrightarrow> m k = Some v \<or> (v \<in> set vs \<and> key v = k)" for key :: "'v \<Rightarrow> string" and vs m k v
    by (induction vs arbitrary: m) (fastforce simp: put_all_def split: if_splits)+
  have k: "keyed r" using put [of prof_ID ps Map.empty] put [of rr_ID rules Map.empty] by (auto simp: keyed_def r_def)
  have c: "rg_rules r ''channel_default'' = None"
    using put [of rr_ID rules Map.empty "''channel_default''"] assms(5)
    by (cases "rg_rules r ''channel_default''") (auto simp: r_def image_iff)
  have step: "orders ord r \<and> r' = r\<lparr>rg_router := Some (built ord r)\<rparr>"
    if "registry_New ord ps rules ds dep pol = Inr r'" "orders ord r'" for ord r'
  proof -
    have *: "rebuildLocked ord r = (Inr (), r')" using that(1) by (auto simp: registry_New_def r_def split: prod.splits sum.splits)
    then have "\<exists>x. r' = r\<lparr>rg_router := x\<rparr>"
      by (auto simp: rebuildLocked_def Let_def split: if_splits sum.splits)
    then have o: "orders ord r" using that(2) by auto
    with rebuildLocked_eq [OF k o] * show ?thesis by (cases "config_ok r") auto
  qed
  show ?thesis
    using step [OF assms(1,3)] step [OF assms(2,4)] Resolve_order [of r o1 o2] k c orders_finite [of o1 r]
    by (simp add: registry_Resolve_def)
qed

section \<open>The catalog of the router's examples, registered\<close>

definition sample_orders :: RegistryOrder where
  "sample_orders = ([''large'', ''small''], [''general'', ''everyone''])"

definition sample_registry :: Registry where
  "sample_registry = projr (registry_New sample_orders sample_profiles sample_rules Map.empty ''small'' ''v1'')"

definition stray_rule :: RouteRule where
  "stray_rule = sample_rule ''stray'' '''' ''gone''"

lemma sample_registry_eq:
  assumes "set (fst ord) = {''small'', ''large''}" "set (snd ord) = {''everyone'', ''general''}"
    "distinct (fst ord)" "distinct (snd ord)"
  shows "registry_New ord sample_profiles sample_rules Map.empty ''small'' ''v1'' =
     Inr \<lparr>rg_profiles = map_of (map (\<lambda>p. (prof_ID p, p)) sample_profiles), rg_rules = map_of (map (\<lambda>x. (rr_ID x, x)) sample_rules),
        rg_organizationDefaults = Map.empty, rg_deploymentDefault = ''small'', rg_policyRevision = ''v1'',
        rg_router = Some \<lparr>rt_profiles = map_of (map (\<lambda>p. (prof_ID p, p)) sample_profiles),
          rt_rules = vals (snd ord) (map_of (map (\<lambda>x. (rr_ID x, x)) sample_rules)),
          rt_organizationDefaults = Map.empty, rt_deploymentDefault = ''small'', rt_policyRevision = ''v1''\<rparr>, rg_store = None\<rparr>"
proof -
  let ?r = "\<lparr>rg_profiles = put_all prof_ID sample_profiles Map.empty, rg_rules = put_all rr_ID sample_rules Map.empty,
         rg_organizationDefaults = Map.empty, rg_deploymentDefault = ''small'', rg_policyRevision = ''v1'',
         rg_router = None, rg_store = None\<rparr>"
  have maps: "put_all prof_ID sample_profiles Map.empty = map_of (map (\<lambda>p. (prof_ID p, p)) sample_profiles)"
    "put_all rr_ID sample_rules Map.empty = map_of (map (\<lambda>x. (rr_ID x, x)) sample_rules)"
    by (simp_all add: put_all_def sample_router_defs fun_upd_twist)
  have "keyed ?r" by (auto simp: keyed_def put_all_def sample_router_defs split: if_splits)
  moreover have "orders ord ?r"
    using assms by (auto simp: orders_def enumerates_def put_all_def sample_router_defs)
  moreover have "config_ok ?r"
    by (auto simp: config_ok_def put_all_def sample_router_defs valid_profile_def ran_def split: if_splits)
  ultimately show ?thesis using rebuildLocked_eq(1) [of ?r ord] by (simp add: registry_New_def built_def maps)
qed

definition sample_config :: Registry where
  "sample_config = \<lparr>rg_profiles = map_of (map (\<lambda>p. (prof_ID p, p)) sample_profiles),
     rg_rules = map_of (map (\<lambda>x. (rr_ID x, x)) sample_rules), rg_organizationDefaults = Map.empty,
     rg_deploymentDefault = ''small'', rg_policyRevision = ''v1'', rg_router = None, rg_store = None\<rparr>"

definition sample_built :: "RegistryOrder \<Rightarrow> Registry" where
  "sample_built ord = sample_config\<lparr>rg_router := Some (built ord sample_config)\<rparr>"

definition other_orders :: RegistryOrder where
  "other_orders = ([''small'', ''large''], [''everyone'', ''general''])"

lemma sample_orders_ok: "orders sample_orders sample_config" "orders other_orders sample_config"
  by (auto simp: orders_def enumerates_def sample_orders_def other_orders_def sample_config_def sample_router_defs)

lemma sample_config_ok: "keyed sample_config" "config_ok sample_config"
  by (auto simp: keyed_def config_ok_def sample_config_def sample_router_defs valid_profile_def ran_def split: if_splits)

lemma sample_New: "orders ord sample_config \<Longrightarrow>
    registry_New ord sample_profiles sample_rules Map.empty ''small'' ''v1'' = Inr (sample_built ord)"
  using sample_registry_eq [of ord]
  by (simp add: orders_def enumerates_def sample_config_def sample_built_def built_def)
    (auto simp: sample_router_defs)

lemma sample_built_ok: "orders ord sample_config \<Longrightarrow> registry_ok (sample_built ord)"
  unfolding sample_built_def by (rule registry_ok_built [OF sample_config_ok])

definition stray_orders :: RegistryOrder where
  "stray_orders = ([''large'', ''small''], [''stray'', ''general'', ''everyone''])"

theorem registry_writes_all_or_nothing_witness:
  "\<exists>s. registry_write stray_orders other_orders (WriteRule stray_rule) (sample_built sample_orders) = (Inl ErrRuleProfileMissing, s)
     \<and> registry_Resolve s (sample_request [''restricted''] 50) no_constraints
       = registry_Resolve (sample_built sample_orders) (sample_request [''restricted''] 50) no_constraints"
proof -
  let ?r = "sample_built sample_orders"
  have "orders stray_orders (written (WriteRule stray_rule) ?r)" "orders other_orders ?r"
    by (auto simp: orders_def enumerates_def stray_orders_def other_orders_def sample_built_def sample_config_def
        stray_rule_def sample_router_defs)
  moreover have "rg_rules ?r ''channel_default'' = None"
    by (simp add: sample_built_def sample_config_def sample_router_defs)
  moreover have "fst (registry_write stray_orders other_orders (WriteRule stray_rule) ?r) = Inl ErrRuleProfileMissing"
    by code_simp
  then obtain s where "registry_write stray_orders other_orders (WriteRule stray_rule) ?r = (Inl ErrRuleProfileMissing, s)"
    by (cases "registry_write stray_orders other_orders (WriteRule stray_rule) ?r") simp
  ultimately show ?thesis
    using registry_writes_all_or_nothing [OF sample_built_ok [OF sample_orders_ok(1)]] by fastforce
qed

theorem resolved_is_allowed_witness:
  "\<exists>m t. registry_Resolve (sample_built sample_orders) (sample_request [''restricted''] 50) no_constraints = Some (Inr m, t)
     \<and> registry_Allowed m (sample_built sample_orders)"
proof -
  have "map_option (isl \<circ> fst) (registry_Resolve (sample_built sample_orders) (sample_request [''restricted''] 50) no_constraints) = Some False"
    by code_simp
  then obtain m t where "registry_Resolve (sample_built sample_orders) (sample_request [''restricted''] 50) no_constraints = Some (Inr m, t)"
    by (auto simp: isl_def) (metis sum.exhaust)
  with resolved_is_allowed [OF sample_built_ok [OF sample_orders_ok(1)]] show ?thesis by blast
qed

theorem registry_deterministic_witness:
  "registry_Resolve (sample_built sample_orders) (sample_request [''public''] 50) no_constraints
     = registry_Resolve (sample_built other_orders) (sample_request [''public''] 50) no_constraints"
  by (rule registry_deterministic [OF sample_New [OF sample_orders_ok(1)] sample_New [OF sample_orders_ok(2)]])
    (auto simp: sample_built_def sample_orders_ok, auto simp: sample_router_defs)

end
