(* ===== verification/Pipeline.thy ===== *)
theory Pipeline
  imports Coordinator Registry
begin

text \<open>
  The worker side of \<^verbatim>\<open>core/pipeline/pipeline.go\<close>: \<^verbatim>\<open>processOneJob\<close>, \<^verbatim>\<open>processOneDelivery\<close> and
  \<^verbatim>\<open>reconcileJobs\<close>, each as one state transformer of the \<open>System\<close> of stores, with the live policy
  store and the model registry as read-only collaborators.

  The harness run, the renderer and the Slack transport are not store operations: \<open>pd_Run\<close>
  is what running the harness on a job does (the tools it calls may change the stores) and
  returns, \<open>pd_Render\<close> is the validation code of a result the renderer rejects, and \<open>pd_Send\<close>
  is the answer of Slack.  The Slack status line, logging and the usage counters leave no trace
  in the stores and are left out; so is a failing context.  A nil collaborator is \<open>None\<close>; the
  admission controller, the approval repository and the delivery queue are present.
\<close>

section \<open>Collaborators\<close>

text \<open>
  An error of a harness run: its text, whether it wraps \<^verbatim>\<open>errExecutionRevoked\<close> or
  \<^verbatim>\<open>ErrLeaseLost\<close>, and what \<^verbatim>\<open>errors.As\<close> finds for \<^verbatim>\<open>Retryable\<close> and \<^verbatim>\<open>DiagnosticCode\<close>.
\<close>

record RunError =
  re_Error :: string
  re_Revoked :: bool
  re_Retryable :: "bool option"
  re_DiagnosticCode :: "string option"

record PipelineDeps =
  pd_Scopes :: "OrgStore option"
  pd_ModelRouter :: "Registry option"
  pd_Run :: "Job \<Rightarrow> System \<Rightarrow> (RunError, SlackResult, System) outcome"
  pd_Render :: "SlackResult \<Rightarrow> string option"
  pd_Send :: "SlackDeliveryRequest \<Rightarrow> string + SlackDeliveryResult"
  pd_Ports :: Ports
  pd_OutputChannelIDs :: "string list"
  pd_Lease :: duration
  pd_Poll :: duration
  pd_MaxAttempts :: int

definition authorizedPolicy :: "ChannelPolicy \<Rightarrow> time \<Rightarrow> bool" where
  "authorizedPolicy p now \<longleftrightarrow>
     cp_Enrolled p \<and> \<not> cp_KillSwitch p \<and> \<not> IsZero (cp_MembershipRefreshedAt p)
     \<and> Sub now (cp_MembershipRefreshedAt p) \<le> 24 * Hour"

definition authorizedOutputPolicy :: "ChannelPolicy \<Rightarrow> time \<Rightarrow> bool" where
  "authorizedOutputPolicy p now =
     (if \<not> authorizedPolicy p now then False
      else if HasPrefix (cp_ChannelID p) ''D'' then True
      else if cp_ParticipationMode p \<noteq> ModeMention \<and> cp_ParticipationMode p \<noteq> ModeAssist
              \<and> cp_ParticipationMode p \<noteq> ModeProactive then False
      else \<not> cp_ParticipationManagedByMembership p \<or> (cp_BotMembershipKnown p \<and> cp_BotIsMember p))"

definition slackOutputChannelAllowed :: "PipelineDeps \<Rightarrow> string \<Rightarrow> bool" where
  "slackOutputChannelAllowed d channel \<longleftrightarrow> pd_OutputChannelIDs d = [] \<or> channel \<in> set (pd_OutputChannelIDs d)"

text \<open>The live policy check before a run or a delivery; without a policy store there is none.\<close>

definition live_policy_allows :: "PipelineDeps \<Rightarrow> string \<Rightarrow> string \<Rightarrow> string \<Rightarrow> time \<Rightarrow> bool" where
  "live_policy_allows d org team channel now =
     (case pd_Scopes d of
        None \<Rightarrow> True
      | Some st \<Rightarrow>
          (case orgconfig_Resolve org team channel st of
             Inl _ \<Rightarrow> False
           | Inr p \<Rightarrow> authorizedOutputPolicy p now))"

definition deliveryThreadTS :: "Job \<Rightarrow> string" where
  "deliveryThreadTS job = (if job_ReplyInChannel job then '''' else job_RootThreadTS job)"

definition job_destination :: "Job \<Rightarrow> SlackDestination" where
  "job_destination job =
     \<lparr>dest_TeamID = job_WorkspaceID job, dest_ChannelID = job_ChannelID job, dest_ThreadTS = deliveryThreadTS job,
      dest_UpdateTS = '''', dest_StreamTS = job_ProgressMessageTS job\<rparr>"

section \<open>Store operations on the system\<close>

definition sys_transition ::
  "string \<Rightarrow> string \<Rightarrow> State \<Rightarrow> (Job \<Rightarrow> Job) \<Rightarrow> time \<Rightarrow> time \<Rightarrow> System \<Rightarrow> (job_error, Job, System) outcome" where
  "sys_transition i token to f t1 t2 s =
     (case jobs_Transition i token to f t1 t2 (sys_jobs s) of (r, q) \<Rightarrow> (r, s\<lparr>sys_jobs := q\<rparr>))"

definition sys_cancel :: "string \<Rightarrow> string \<Rightarrow> time \<Rightarrow> System \<Rightarrow> (job_error, Job, System) outcome" where
  "sys_cancel i reason now s = (case jobs_Cancel i reason now (sys_jobs s) of (r, q) \<Rightarrow> (r, s\<lparr>sys_jobs := q\<rparr>))"

definition sys_release :: "string \<Rightarrow> System \<Rightarrow> System" where
  "sys_release reservation s = s\<lparr>sys_admissions := admission_Complete reservation (sys_admissions s)\<rparr>"

definition markFinalDeliveryEnqueued :: "Job \<Rightarrow> time \<Rightarrow> System \<Rightarrow> System" where
  "markFinalDeliveryEnqueued job now s =
     s\<lparr>sys_jobs := snd (jobs_MarkFinalDeliveryEnqueued (job_ID job) now (sys_jobs s))\<rparr>"

definition mark_undelivered :: "string \<Rightarrow> string \<Rightarrow> time \<Rightarrow> System \<Rightarrow> System" where
  "mark_undelivered job reason now s =
     (if job = '''' then s else s\<lparr>sys_jobs := snd (jobs_MarkCompletedUndelivered job reason now (sys_jobs s))\<rparr>)"

definition failure_notice :: SlackResult where
  "failure_notice = zero_SlackResult\<lparr>res_Segments :=
     [zero_SlackSegment\<lparr>seg_Kind := SlackSegmentNotice, seg_Notice := Some
        \<lparr>notice_Tone = ''error'', notice_Title = ''I couldn'' @ [CHR 0x27] @ ''t finish that'',
         notice_Message = ''The request stopped before a final response was ready. Please try again, or ask me to retry.'',
         notice_Context = ''Details were recorded for debugging.''\<rparr>\<rparr>]\<rparr>"

definition enqueueInteractiveFailureNotice :: "PipelineDeps \<Rightarrow> Job \<Rightarrow> string \<Rightarrow> time \<Rightarrow> System \<Rightarrow> System" where
  "enqueueInteractiveFailureNotice d job i now s =
     (if job_Kind job \<noteq> ''agent_response'' then s
      else snd (sys_enqueue
        \<lparr>ds_OrganizationID = job_OrganizationID job, ds_JobID = job_ID job, ds_DecisionID = '''',
         ds_IdempotencyKey = job_ID job @ ''/failure'', ds_Destination = job_destination job,
         ds_Result = failure_notice, ds_MaxAttempts = (if 0 < pd_MaxAttempts d then pd_MaxAttempts d else 3),
         ds_ExpiresAt = job_ExpiresAt job\<rparr> i now s))"

text \<open>The delivery of a job's result, enqueued under the job's own key.\<close>

definition final_delivery :: "PipelineDeps \<Rightarrow> Job \<Rightarrow> DeliverySpec" where
  "final_delivery d job =
     \<lparr>ds_OrganizationID = job_OrganizationID job, ds_JobID = job_ID job, ds_DecisionID = '''',
      ds_IdempotencyKey = job_ID job @ ''/final'', ds_Destination = job_destination job,
      ds_Result = job_Result job, ds_MaxAttempts = pd_MaxAttempts d, ds_ExpiresAt = job_ExpiresAt job\<rparr>"

section \<open>Running one job (processOneJob)\<close>

text \<open>The failing end of a job: a transition to \<open>StateFailed\<close> whose outcome is ignored.\<close>

definition fail_job :: "Job \<Rightarrow> string \<Rightarrow> time \<Rightarrow> time \<Rightarrow> System \<Rightarrow> (job_error, Job, System) outcome" where
  "fail_job job reason t1 t2 s =
     sys_transition (job_ID job) (lease_Token (job_Lease job)) StateFailed (\<lambda>j. j\<lparr>job_FailureReason := reason\<rparr>) t1 t2 s"

text \<open>
  Routing a job that has no model yet (routines and heartbeats): \<open>Inl\<close> is the early return
  with its state, \<open>Inr\<close> the job to go on with.
\<close>

definition routine_route :: "Job \<Rightarrow> ModelRouteContext" where
  "routine_route job =
     (let heartbeat = (job_Kind job = ''heartbeat'')
      in \<lparr>route_OrganizationID = job_OrganizationID job, route_WorkspaceID = job_WorkspaceID job,
          route_ChannelID = job_ChannelID job,
          route_RoutineID = (if heartbeat then TrimPrefix (job_IdempotencyKey job) ''trigger/''
                             else TrimPrefix (job_IdempotencyKey job) ''routine/''),
          route_SkillName = '''', route_Phase = (if heartbeat then ''heartbeat'' else ''routine''),
          route_Override = '''', route_ChannelDefault = '''',
          route_DataClasses = [''internal''], route_Capabilities = [''structured''],
          route_InputTokens = int (length (Fields (job_Input job)))\<rparr>)"

text \<open>\<open>None\<close> would be a router that never returns; it is read as a refusal.\<close>

definition route_job :: "PipelineDeps \<Rightarrow> (nat \<Rightarrow> time) \<Rightarrow> Job \<Rightarrow> System \<Rightarrow> System + Job \<times> System" where
  "route_job d clock job s =
     (if rm_ModelID (job_ResolvedModel job) \<noteq> '''' then Inr (job, s)
      else case pd_ModelRouter d of
             None \<Rightarrow> Inr (job, s)
           | Some reg \<Rightarrow>
               (case registry_Resolve reg (routine_route job) no_constraints of
                  Some (Inr m, trace) \<Rightarrow>
                    (case sys_transition (job_ID job) (lease_Token (job_Lease job)) StateRunning
                            (\<lambda>j. j\<lparr>job_ResolvedModel := m, job_RouteTrace := trace\<rparr>) (clock 4) (clock 5) s of
                       (Inl _, s') \<Rightarrow> Inl s'
                     | (Inr job', s') \<Rightarrow> Inr (job', s'))
                | _ \<Rightarrow> Inl (snd (fail_job job ''routine_model_route_failed'' (clock 4) (clock 5) s))))"

text \<open>After a harness run that returned an error.\<close>

definition run_failed ::
  "PipelineDeps \<Rightarrow> (nat \<Rightarrow> time) \<Rightarrow> (nat \<Rightarrow> string) \<Rightarrow> Job \<Rightarrow> RunError \<Rightarrow> System \<Rightarrow> System" where
  "run_failed d clock ids job e s =
     (let token = lease_Token (job_Lease job)
      in if re_Revoked e then
           let (current, s1) =
                 (case jobs_Get (job_ID job) (sys_jobs s) of
                    Inl _ \<Rightarrow> (zero_Job, s)
                  | Inr j \<Rightarrow>
                      if job_State j = StateRunning
                      then (case sys_cancel (job_ID job) (re_Error e) (clock 6) s of
                              (Inl _, s') \<Rightarrow> (zero_Job, s')
                            | (Inr c, s') \<Rightarrow> (c, s'))
                      else (j, s));
               s2 = (if job_State current = StateCancelling \<and> lease_Token (job_Lease current) = token
                     then snd (sys_transition (job_ID job) token StateCancelled
                                 (\<lambda>j. j\<lparr>job_FailureReason := re_Error e\<rparr>) (clock 7) (clock 8) s1)
                     else s1)
           in sys_release (job_AdmissionReservationID job) s2
         else if re_Retryable e = Some False then
           let reason = (case re_DiagnosticCode e of
                           None \<Rightarrow> ''agent_execution_failed''
                         | Some c \<Rightarrow> if c = '''' then ''agent_execution_failed'' else c);
               s2 = (case fail_job job reason (clock 6) (clock 7) s of
                       (Inl _, s') \<Rightarrow> s'
                     | (Inr failed, s') \<Rightarrow> enqueueInteractiveFailureNotice d failed (ids 1) (clock 8) s')
           in sys_release (job_AdmissionReservationID job) s2
         else
           s\<lparr>sys_jobs := snd (jobs_Requeue (job_ID job) token (re_Error e) (pd_Poll d) (clock 6) (clock 7) (clock 8) (sys_jobs s))\<rparr>)"

text \<open>
  After a run that returned a result.  When the transition to \<open>StateSucceeded\<close> fails, the code
  has already overwritten \<^verbatim>\<open>job\<close> with the zero job of the error, so the reservation it
  completes is the empty one.
\<close>

definition run_succeeded ::
  "PipelineDeps \<Rightarrow> (nat \<Rightarrow> time) \<Rightarrow> (nat \<Rightarrow> string) \<Rightarrow> Job \<Rightarrow> SlackResult \<Rightarrow> System \<Rightarrow> System" where
  "run_succeeded d clock ids job result s =
     (case pd_Render d result of
        Some code \<Rightarrow>
          let s2 = (case fail_job job (''invalid_slack_result.'' @ code) (clock 6) (clock 7) s of
                      (Inl _, s') \<Rightarrow> s'
                    | (Inr failed, s') \<Rightarrow> enqueueInteractiveFailureNotice d failed (ids 1) (clock 8) s')
          in sys_release (job_AdmissionReservationID job) s2
      | None \<Rightarrow>
          (case sys_transition (job_ID job) (lease_Token (job_Lease job)) StateSucceeded
                  (\<lambda>j. j\<lparr>job_Result := result, job_FailureReason := ''''\<rparr>) (clock 6) (clock 7) s of
             (Inl e, s') \<Rightarrow>
               if e = ErrLeaseLost then sys_release (job_AdmissionReservationID zero_Job) s' else s'
           | (Inr done, s') \<Rightarrow>
               let s2 = (if job_AdmissionReservationID done \<noteq> '''' then sys_release (job_AdmissionReservationID done) s' else s')
               in case sys_enqueue (final_delivery d done) (ids 1) (clock 8) s2 of
                    (Inl _, s3) \<Rightarrow> s3
                  | (Inr _, s3) \<Rightarrow> markFinalDeliveryEnqueued done (clock 9) s3))"

text \<open>The run itself; a job found waiting for an approval afterwards gives its slot back.\<close>

definition run_job :: "PipelineDeps \<Rightarrow> (nat \<Rightarrow> time) \<Rightarrow> (nat \<Rightarrow> string) \<Rightarrow> Job \<Rightarrow> System \<Rightarrow> System" where
  "run_job d clock ids job s =
     (case pd_Run d job s of
        (r, s1) \<Rightarrow>
          (case jobs_Get (job_ID job) (sys_jobs s1) of
             Inr current \<Rightarrow>
               if job_State current = StateWaitingApproval \<and> job_ApprovalID current \<noteq> ''''
               then sys_release (job_AdmissionReservationID current) s1
               else (case r of
                       Inl e \<Rightarrow> run_failed d clock ids job e s1
                     | Inr result \<Rightarrow> run_succeeded d clock ids job result s1)
           | Inl _ \<Rightarrow>
               (case r of
                  Inl e \<Rightarrow> run_failed d clock ids job e s1
                | Inr result \<Rightarrow> run_succeeded d clock ids job result s1)))"

definition work_on_job :: "PipelineDeps \<Rightarrow> (nat \<Rightarrow> time) \<Rightarrow> (nat \<Rightarrow> string) \<Rightarrow> Job \<Rightarrow> System \<Rightarrow> System" where
  "work_on_job d clock ids job s =
     (if \<not> live_policy_allows d (job_OrganizationID job) (job_WorkspaceID job) (job_ChannelID job) (clock 3)
      then sys_release (job_AdmissionReservationID job) (snd (fail_job job ''live_policy_denied'' (clock 4) (clock 5) s))
      else case route_job d clock job s of
             Inl s1 \<Rightarrow> s1
           | Inr (job1, s1) \<Rightarrow>
               if (case pd_ModelRouter d of None \<Rightarrow> False | Some reg \<Rightarrow> \<not> registry_Allowed (job_ResolvedModel job1) reg)
               then sys_release (job_AdmissionReservationID job1) (snd (fail_job job1 ''model_hard_deny'' (clock 6) (clock 7) s1))
               else run_job d clock ids job1 s1)"

text \<open>\<open>False\<close>: nothing was claimed and the loop of \<^verbatim>\<open>runJobs\<close> ends.\<close>

definition processOneJob ::
  "PipelineDeps \<Rightarrow> string list \<Rightarrow> (nat \<Rightarrow> time) \<Rightarrow> (nat \<Rightarrow> string) \<Rightarrow> string \<Rightarrow> System \<Rightarrow> bool \<times> System" where
  "processOneJob d ord clock ids worker s =
     (case jobs_Claim ord worker (ids 0) (pd_Lease d) (clock 0) (sys_jobs s) of
        (Inl _, q) \<Rightarrow> (False, s\<lparr>sys_jobs := q\<rparr>)
      | (Inr claimed, q) \<Rightarrow>
          (case sys_transition (job_ID claimed) (lease_Token (job_Lease claimed)) StateRunning id (clock 1) (clock 2)
                  (s\<lparr>sys_jobs := q\<rparr>) of
             (Inl _, s1) \<Rightarrow> (True, s1)
           | (Inr job, s1) \<Rightarrow> (True, work_on_job d clock ids job s1)))"

section \<open>Sending one delivery (processOneDelivery)\<close>

definition sys_abandon :: "DeliveryRecord \<Rightarrow> string \<Rightarrow> time \<Rightarrow> time \<Rightarrow> System \<Rightarrow> System" where
  "sys_abandon r reason t1 t2 s =
     s\<lparr>sys_deliveries := snd (deliveries_Abandon (dr_ID r) (dl_Token (dr_Lease r)) reason t1 t2 (sys_deliveries s))\<rparr>"

text \<open>A failed attempt: retried, or abandoned and the job marked undelivered.\<close>

definition retry_delivery ::
  "DeliveryRecord \<Rightarrow> string \<Rightarrow> duration \<Rightarrow> (nat \<Rightarrow> time) \<Rightarrow> System \<Rightarrow> System" where
  "retry_delivery r reason delay clock s =
     (case deliveries_Retry (dr_ID r) (dl_Token (dr_Lease r)) reason delay (clock 2) (clock 3) (clock 4) (sys_deliveries s) of
        (Inl _, q) \<Rightarrow> s\<lparr>sys_deliveries := q\<rparr>
      | (Inr updated, q) \<Rightarrow>
          if dr_Status updated = StatusAbandoned
          then mark_undelivered (dr_JobID r) reason (clock 5) (s\<lparr>sys_deliveries := q\<rparr>)
          else s\<lparr>sys_deliveries := q\<rparr>)"

definition retentionEpoch :: "time \<Rightarrow> time \<Rightarrow> string" where
  "retentionEpoch expiresAt now = (if IsZero expiresAt then format_month now else format_month expiresAt)"

definition completion_receipt :: "DeliveryRecord \<Rightarrow> time \<Rightarrow> AppendRequest" where
  "completion_receipt r now =
     \<lparr>ap_OrganizationID = dr_OrganizationID r, ap_Type = ''delivery.completed'', ap_ActorID = '''',
      ap_ResourceID = dr_ID r,
      ap_Metadata = [(''channel_id'', MetaString (dest_ChannelID (dr_Destination r))), (''attempt'', MetaNumber (of_int (dr_Attempt r)))],
      ap_RetentionEpoch = retentionEpoch (dr_ExpiresAt r) now,
      ap_IdempotencyKey = ''delivery/'' @ dr_ID r @ ''/completed'', ap_Content = ''''\<rparr>"

definition appendReceipt :: "Ports \<Rightarrow> AppendRequest \<Rightarrow> string \<Rightarrow> time \<Rightarrow> System \<Rightarrow> System" where
  "appendReceipt p req i now s =
     s\<lparr>sys_audit := snd (audit_Append (port_marshal p) (port_sha p) (port_mac p) req i now (sys_audit s))\<rparr>"

definition send_delivery ::
  "PipelineDeps \<Rightarrow> (nat \<Rightarrow> time) \<Rightarrow> (nat \<Rightarrow> string) \<Rightarrow> DeliveryRecord \<Rightarrow> System \<Rightarrow> System" where
  "send_delivery d clock ids r s =
     (case pd_Send d \<lparr>req_ID = dr_ID r, req_IdempotencyKey = dr_IdempotencyKey r,
                      req_Destination = dr_Destination r, req_Result = dr_Result r\<rparr> of
        Inl err \<Rightarrow> retry_delivery r err (pd_Poll d) clock s
      | Inr result \<Rightarrow>
          (case deliveries_Complete (dr_ID r) (dl_Token (dr_Lease r)) result (clock 2) (clock 3) (sys_deliveries s) of
             (Inl _, q) \<Rightarrow> s\<lparr>sys_deliveries := q\<rparr>
           | (Inr _, q) \<Rightarrow>
               appendReceipt (pd_Ports d) (completion_receipt r (clock 4)) (ids 1) (clock 5) (s\<lparr>sys_deliveries := q\<rparr>)))"

definition processOneDelivery ::
  "PipelineDeps \<Rightarrow> string list \<Rightarrow> (nat \<Rightarrow> time) \<Rightarrow> (nat \<Rightarrow> string) \<Rightarrow> System \<Rightarrow> bool \<times> System" where
  "processOneDelivery d ord clock ids s =
     (case deliveries_Claim ord ''stub-delivery-worker'' (ids 0) (pd_Lease d) (clock 0) (sys_deliveries s) of
        (Inl _, q) \<Rightarrow> (False, s\<lparr>sys_deliveries := q\<rparr>)
      | (Inr r, q) \<Rightarrow>
          let s1 = s\<lparr>sys_deliveries := q\<rparr>
          in (True,
              if \<not> slackOutputChannelAllowed d (dest_ChannelID (dr_Destination r))
              then mark_undelivered (dr_JobID r) ''output_channel_not_allowed'' (clock 4)
                     (sys_abandon r ''output_channel_not_allowed'' (clock 2) (clock 3) s1)
              else if pd_Render d (dr_Result r) \<noteq> None then retry_delivery r ''invalid_render'' 0 clock s1
              else if \<not> live_policy_allows d (dr_OrganizationID r) (dest_TeamID (dr_Destination r))
                          (dest_ChannelID (dr_Destination r)) (clock 1)
              then mark_undelivered (dr_JobID r) ''live_policy_denied'' (clock 4)
                     (sys_abandon r ''live_policy_denied'' (clock 2) (clock 3) s1)
              else send_delivery d clock ids r s1))"

section \<open>Repairing (reconcileJobs)\<close>

definition reconcileSucceededJobDelivery ::
  "PipelineDeps \<Rightarrow> (nat \<Rightarrow> time) \<Rightarrow> string \<Rightarrow> Job \<Rightarrow> System \<Rightarrow> System" where
  "reconcileSucceededJobDelivery d clock i job s =
     (if res_Segments (job_Result job) = [] \<or> \<not> After (job_ExpiresAt job) (clock 0)
      then markFinalDeliveryEnqueued job (clock 1) s
      else case deliveries_FindByIdempotency (job_OrganizationID job) (job_ID job @ ''/final'') (sys_deliveries s) of
             Inr _ \<Rightarrow> markFinalDeliveryEnqueued job (clock 1) s
           | Inl e \<Rightarrow>
               if e \<noteq> ErrDeliveryNotFound then s
               else case sys_enqueue (final_delivery d job) i (clock 1) s of
                      (Inl _, s1) \<Rightarrow> s1
                    | (Inr _, s1) \<Rightarrow> markFinalDeliveryEnqueued job (clock 2) s1)"

definition enqueueExpiredApprovalUpdate :: "Job \<Rightarrow> Approval \<Rightarrow> time \<Rightarrow> string \<Rightarrow> time \<Rightarrow> System \<Rightarrow> System" where
  "enqueueExpiredApprovalUpdate job a resolvedAt i now s =
     (case deliveries_FindByIdempotency (job_OrganizationID job) (''approval/'' @ apv_ID a @ ''/requested'') (sys_deliveries s) of
        Inl _ \<Rightarrow> s
      | Inr r \<Rightarrow>
          if dr_JobID r = job_ID job \<and> dr_Status r = StatusDelivered \<and> dr_SlackMessageTS r \<noteq> ''''
          then snd (sys_enqueue
            \<lparr>ds_OrganizationID = job_OrganizationID job, ds_JobID = job_ID job, ds_DecisionID = '''',
             ds_IdempotencyKey = ''approval/'' @ apv_ID a @ ''/expired'',
             ds_Destination = (dr_Destination r)\<lparr>dest_UpdateTS := dr_SlackMessageTS r\<rparr>,
             ds_Result = approval_result a ''expired'' resolvedAt, ds_MaxAttempts = 3, ds_ExpiresAt = apv_CleanupAt a\<rparr> i now s)
          else s)"

text \<open>A job waiting for an approval: its slot is released, then the approval decides.\<close>

definition cancel_waiting :: "Job \<Rightarrow> (nat \<Rightarrow> time) \<Rightarrow> System \<Rightarrow> bool \<times> System" where
  "cancel_waiting job clock s =
     (case sys_cancel (job_ID job) ''approval_expired_or_denied'' (clock 0) s of
        (Inl _, s1) \<Rightarrow> (False, s1)
      | (Inr _, s1) \<Rightarrow> (True, sys_release (job_AdmissionReservationID job) s1))"

definition reconcile_waiting :: "time \<Rightarrow> (nat \<Rightarrow> time) \<Rightarrow> string \<Rightarrow> Job \<Rightarrow> System \<Rightarrow> System" where
  "reconcile_waiting now clock i job s =
     (let s1 = sys_release (job_AdmissionReservationID job) s
      in case approvals_GetContext (job_OrganizationID job) (job_ApprovalID job) (sys_approvals s1) of
           Inl e \<Rightarrow> if e \<noteq> ErrApprovalNotFound then s1 else snd (cancel_waiting job clock s1)
         | Inr a \<Rightarrow>
             if \<not> IsZero (apv_DeniedAt a) \<or> \<not> After (apv_ExpiresAt a) now
             then (case cancel_waiting job clock s1 of
                     (False, s2) \<Rightarrow> s2
                   | (True, s2) \<Rightarrow>
                       if IsZero (apv_DeniedAt a) then enqueueExpiredApprovalUpdate job a now i (clock 1) s2 else s2)
             else if \<not> IsZero (apv_ApprovedAt a)
             then s1\<lparr>sys_jobs := snd (jobs_ResumeFromApproval (job_ID job) (apv_ID a) (apv_ActionHash a) (clock 0) (clock 1) (sys_jobs s1))\<rparr>
             else s1)"

definition reconcile_queued :: "PipelineDeps \<Rightarrow> time \<Rightarrow> (nat \<Rightarrow> time) \<Rightarrow> string \<Rightarrow> Job \<Rightarrow> System \<Rightarrow> System" where
  "reconcile_queued d now clock i job s =
     (case sys_cancel (job_ID job)
             (if job_MaxAttempts job \<le> job_Attempt job then ''queued_job_attempts_exhausted'' else ''queued_job_expired'') (clock 0) s of
        (Inl _, s1) \<Rightarrow> s1
      | (Inr cancelled, s1) \<Rightarrow>
          let s2 = sys_release (job_AdmissionReservationID cancelled) s1
          in if After (job_ExpiresAt job) now then enqueueInteractiveFailureNotice d cancelled i (clock 1) s2 else s2)"

definition reconcile_retry :: "PipelineDeps \<Rightarrow> (nat \<Rightarrow> time) \<Rightarrow> string \<Rightarrow> Job \<Rightarrow> System \<Rightarrow> System" where
  "reconcile_retry d clock i job s =
     (case jobs_ReleaseRetryWait (job_ID job) (clock 1) (clock 2) (sys_jobs s) of
        (Inl _, q) \<Rightarrow> s\<lparr>sys_jobs := q\<rparr>
      | (Inr updated, q) \<Rightarrow>
          let s1 = s\<lparr>sys_jobs := q\<rparr>
          in if job_State updated = StateFailed
             then sys_release (job_AdmissionReservationID updated) (enqueueInteractiveFailureNotice d updated i (clock 3) s1)
             else s1)"

definition reconcile_job :: "PipelineDeps \<Rightarrow> time \<Rightarrow> (nat \<Rightarrow> time) \<Rightarrow> string \<Rightarrow> Job \<Rightarrow> System \<Rightarrow> System" where
  "reconcile_job d now clock i job s =
     (if job_State job = StateSucceeded then reconcileSucceededJobDelivery d clock i job s
      else if job_State job = StateWaitingApproval \<and> job_ApprovalID job \<noteq> '''' then reconcile_waiting now clock i job s
      else if job_State job = StateQueued \<and> (\<not> After (job_ExpiresAt job) now \<or> job_MaxAttempts job \<le> job_Attempt job)
      then reconcile_queued d now clock i job s
      else if job_State job = StateNeedsReconciliation then sys_release (job_AdmissionReservationID job) s
      else if job_State job = StateRetryWait \<and> \<not> After (job_AvailableAt job) (clock 0) then reconcile_retry d clock i job s
      else s)"

text \<open>The loop over the snapshot; round \<open>n\<close> has the readings \<open>clock (4 * n)\<close> to \<open>clock (4 * n + 3)\<close>.\<close>

fun reconcile_list ::
  "PipelineDeps \<Rightarrow> time \<Rightarrow> (nat \<Rightarrow> time) \<Rightarrow> (nat \<Rightarrow> string) \<Rightarrow> nat \<Rightarrow> Job list \<Rightarrow> System \<Rightarrow> System" where
  "reconcile_list d now clock ids n [] s = s"
| "reconcile_list d now clock ids n (job # js) s =
     reconcile_list d now clock ids (Suc n) js (reconcile_job d now (\<lambda>k. clock (4 * n + k)) (ids n) job s)"

definition reconcileJobs ::
  "PipelineDeps \<Rightarrow> string list \<Rightarrow> time \<Rightarrow> (nat \<Rightarrow> time) \<Rightarrow> (nat \<Rightarrow> string) \<Rightarrow> System \<Rightarrow> System" where
  "reconcileJobs d ord now clock ids s =
     reconcile_list d now clock ids 0 (jobs_ListReconciliation ord now (sys_jobs s)) s"

end
