(* ===== verification/SystemSteps.thy ===== *)
theory SystemSteps
  imports Pipeline
begin

text \<open>
  The composition of the stores: every operation of the coordinator and of the pipeline is a
  sequence of operations of the single stores, so what each store guarantees of its reachable
  states holds of the whole system.  \<open>system_moves\<close> is the product of the stores' steps and
  the lemmas go through the operations from the inside out.
\<close>

section \<open>Moves of the system\<close>

text \<open>The encoder and the digest of approval actions join the ports of the coordinator.\<close>

type_synonym ActionPorts = "(ToolAction \<Rightarrow> string option) \<times> (string \<Rightarrow> string)"

definition system_moves :: "ActionPorts \<Rightarrow> Ports \<Rightarrow> System \<Rightarrow> System \<Rightarrow> bool" where
  "system_moves a p s s' \<longleftrightarrow>
     job_step\<^sup>*\<^sup>* (sys_jobs s) (sys_jobs s')
     \<and> delivery_step\<^sup>*\<^sup>* (sys_deliveries s) (sys_deliveries s')
     \<and> (approval_step (fst a) (snd a))\<^sup>*\<^sup>* (sys_approvals s) (sys_approvals s')
     \<and> (audit_step (port_marshal p) (port_sha p) (port_mac p))\<^sup>*\<^sup>* (sys_audit s) (sys_audit s')
     \<and> admission_step\<^sup>*\<^sup>* (sys_admissions s) (sys_admissions s')"

named_theorems moves "operations that are moves of the system"

lemma moves_refl [simp]: "system_moves a p s s"
  by (simp add: system_moves_def)

lemma moves_trans: "system_moves a p s1 s2 \<Longrightarrow> system_moves a p s2 s3 \<Longrightarrow> system_moves a p s1 s3"
  unfolding system_moves_def by (meson rtranclp_trans)

lemma moves_jobs: "job_step (sys_jobs s) q \<Longrightarrow> system_moves a p s (s\<lparr>sys_jobs := q\<rparr>)"
  by (simp add: system_moves_def)

lemma moves_deliveries: "delivery_step (sys_deliveries s) q \<Longrightarrow> system_moves a p s (s\<lparr>sys_deliveries := q\<rparr>)"
  by (simp add: system_moves_def)

lemma moves_approvals: "approval_step (fst a) (snd a) (sys_approvals s) q \<Longrightarrow> system_moves a p s (s\<lparr>sys_approvals := q\<rparr>)"
  by (simp add: system_moves_def)

lemma moves_audit:
  "audit_step (port_marshal p) (port_sha p) (port_mac p) (sys_audit s) c \<Longrightarrow> system_moves a p s (s\<lparr>sys_audit := c\<rparr>)"
  by (simp add: system_moves_def)

lemma moves_admissions: "admission_step (sys_admissions s) m \<Longrightarrow> system_moves a p s (s\<lparr>sys_admissions := m\<rparr>)"
  by (simp add: system_moves_def)

lemma moves_release [moves]: "system_moves a p s (sys_release i s)"
  by (simp add: system_moves_def sys_release_def step_complete r_into_rtranclp)

section \<open>Operations on one store\<close>

lemma snd_sys_ops:
  "snd (sys_transition i token to f t1 t2 s) = s\<lparr>sys_jobs := snd (jobs_Transition i token to f t1 t2 (sys_jobs s))\<rparr>"
  "snd (sys_cancel i reason t1 s) = s\<lparr>sys_jobs := snd (jobs_Cancel i reason t1 (sys_jobs s))\<rparr>"
  "snd (sys_enqueue spec i t1 s) = s\<lparr>sys_deliveries := snd (deliveries_Enqueue spec i t1 (sys_deliveries s))\<rparr>"
  by (simp_all add: sys_transition_def sys_cancel_def sys_enqueue_def case_prod_beta split: sum.split)

lemma moves_transition:
  assumes "mutation_ok f" "to \<noteq> StateQueued"
  shows "system_moves a p s (snd (sys_transition i token to f t1 t2 s))"
  unfolding snd_sys_ops by (rule moves_jobs) (rule step_transition [OF assms])

lemma moves_cancel: "system_moves a p s (snd (sys_cancel i reason now s))"
  unfolding snd_sys_ops by (rule moves_jobs) (rule step_cancel)

lemma moves_fail: "system_moves a p s (snd (fail_job job reason t1 t2 s))"
  unfolding fail_job_def by (rule moves_transition) simp_all

lemma moves_mark_final [moves]: "system_moves a p s (markFinalDeliveryEnqueued job now s)"
  unfolding markFinalDeliveryEnqueued_def by (rule moves_jobs) (rule step_delivered)

lemma moves_mark_undelivered [moves]: "system_moves a p s (mark_undelivered job reason now s)"
  by (simp add: mark_undelivered_def moves_jobs step_undelivered)

text \<open>An identifier no delivery uses yet.\<close>

definition unused :: "string \<Rightarrow> System \<Rightarrow> bool" where
  "unused i s \<longleftrightarrow> dq_records (sys_deliveries s) i = None"

lemma moves_enqueue: "unused i s \<Longrightarrow> system_moves a p s (snd (sys_enqueue spec i now s))"
  unfolding snd_sys_ops unused_def by (rule moves_deliveries) (rule dstep_enqueue)

lemma moves_notice: "unused i s \<Longrightarrow> system_moves a p s (enqueueInteractiveFailureNotice d job i now s)"
  by (simp add: enqueueInteractiveFailureNotice_def moves_enqueue)

lemma moves_receipt [moves]: "system_moves a p s (appendReceipt p req i now s)"
  unfolding appendReceipt_def by (rule moves_audit) (rule audit_step.intros)

lemma moves_abandon [moves]: "system_moves a p s (sys_abandon r reason t1 t2 s)"
  unfolding sys_abandon_def by (rule moves_deliveries) (rule dstep_abandon)

lemma unused_frame [simp]:
  "unused i (s\<lparr>sys_jobs := q\<rparr>) = unused i s"
  "unused i (s\<lparr>sys_audit := c\<rparr>) = unused i s"
  "unused i (s\<lparr>sys_approvals := st\<rparr>) = unused i s"
  "unused i (s\<lparr>sys_admissions := m\<rparr>) = unused i s"
  "unused i (sys_release j s) = unused i s"
  "unused i (markFinalDeliveryEnqueued job now s) = unused i s"
  "unused i (snd (sys_transition j token to f t1 t2 s)) = unused i s"
  "unused i (snd (sys_cancel j reason now s)) = unused i s"
  "unused i (snd (fail_job job reason t1 t2 s)) = unused i s"
  by (simp_all add: unused_def sys_release_def markFinalDeliveryEnqueued_def sys_transition_def sys_cancel_def fail_job_def
      split: prod.split)

lemma unused_enqueue: "i \<noteq> j \<Longrightarrow> unused i (snd (sys_enqueue spec j now s)) = unused i s"
  by (simp add: unused_def sys_enqueue_def deliveries_Enqueue_def Let_def split: option.split)

section \<open>processOneJob\<close>

lemma moves_run_failed:
  assumes "unused (ids 1) s"
  shows "system_moves a p s (run_failed d clock ids job e s)"
proof -
  consider (revoked) "re_Revoked e" | (permanent) "\<not> re_Revoked e" "re_Retryable e = Some False"
    | (retry) "\<not> re_Revoked e" "re_Retryable e \<noteq> Some False" by blast
  then show ?thesis
  proof cases
    case revoked
    define cur where "cur = (case jobs_Get (job_ID job) (sys_jobs s) of
                    Inl _ \<Rightarrow> (zero_Job, s)
                  | Inr j \<Rightarrow>
                      if job_State j = StateRunning
                      then (case sys_cancel (job_ID job) (re_Error e) (clock 6) s of
                              (Inl _, s') \<Rightarrow> (zero_Job, s')
                            | (Inr c, s') \<Rightarrow> (c, s'))
                      else (j, s))"
    have "snd cur = s \<or> snd cur = snd (sys_cancel (job_ID job) (re_Error e) (clock 6) s)"
      by (auto simp: cur_def split: sum.split prod.split)
    then have 1: "system_moves a p s (snd cur)" using moves_cancel [of a p s] moves_refl [of a p s] by metis
    have "run_failed d clock ids job e s =
       sys_release (job_AdmissionReservationID job)
         (if job_State (fst cur) = StateCancelling \<and> lease_Token (job_Lease (fst cur)) = lease_Token (job_Lease job)
          then snd (sys_transition (job_ID job) (lease_Token (job_Lease job)) StateCancelled
                       (\<lambda>j. j\<lparr>job_FailureReason := re_Error e\<rparr>) (clock 7) (clock 8) (snd cur))
          else snd cur)"
      using revoked unfolding run_failed_def Let_def cur_def [symmetric] by (simp add: case_prod_beta)
    then show ?thesis
      using moves_trans [OF 1] moves_trans [OF moves_trans [OF 1 moves_transition] moves_release] moves_release by simp
  next
    case permanent
    define reason where "reason = (case re_DiagnosticCode e of None \<Rightarrow> ''agent_execution_failed''
                         | Some c \<Rightarrow> if c = '''' then ''agent_execution_failed'' else c)"
    obtain r s' where f: "fail_job job reason (clock 6) (clock 7) s = (r, s')" by fastforce
    have 1: "system_moves a p s s'" "unused (ids 1) s'"
      using moves_fail [of a p s job reason "clock 6" "clock 7"] unused_frame(9) [of "ids 1" job reason "clock 6" "clock 7" s] f assms
      by simp_all
    then show ?thesis
      using permanent moves_trans [OF 1(1) moves_release] moves_trans [OF moves_trans [OF 1(1) moves_notice [OF 1(2)]] moves_release]
      by (simp add: run_failed_def Let_def reason_def [symmetric] f split: sum.split)
  next
    case retry
    then show ?thesis by (simp add: run_failed_def moves_jobs step_requeue)
  qed
qed

lemma moves_run_succeeded:
  assumes "unused (ids 1) s"
  shows "system_moves a p s (run_succeeded d clock ids job result s)"
proof (cases "pd_Render d result")
  case (Some code)
  define reason where "reason = ''invalid_slack_result.'' @ code"
  obtain r s' where f: "fail_job job reason (clock 6) (clock 7) s = (r, s')" by fastforce
  have 1: "system_moves a p s s'" "unused (ids 1) s'"
    using moves_fail [of a p s job reason "clock 6" "clock 7"] unused_frame(9) [of "ids 1" job reason "clock 6" "clock 7" s] f assms
    by simp_all
  then show ?thesis
    using moves_trans [OF 1(1) moves_release] moves_trans [OF moves_trans [OF 1(1) moves_notice [OF 1(2)]] moves_release]
    unfolding run_succeeded_def Some option.case Let_def reason_def [symmetric] f prod.case by (simp split: sum.split)
next
  case None
  obtain r s' where t: "sys_transition (job_ID job) (lease_Token (job_Lease job)) StateSucceeded
                  (\<lambda>j. j\<lparr>job_Result := result, job_FailureReason := ''''\<rparr>) (clock 6) (clock 7) s = (r, s')" by fastforce
  let ?f = "\<lambda>j. j\<lparr>job_Result := result, job_FailureReason := []\<rparr>"
  have 1: "system_moves a p s s'" "unused (ids 1) s'"
    using moves_transition [of ?f StateSucceeded a p s "job_ID job" "lease_Token (job_Lease job)" "clock 6" "clock 7"]
      unused_frame(7) [of "ids 1" "job_ID job" "lease_Token (job_Lease job)" StateSucceeded ?f "clock 6" "clock 7" s] t assms
    by simp_all
  show ?thesis
  proof (cases r)
    case (Inl e)
    then show ?thesis using None t 1(1) moves_trans [OF 1(1) moves_release] by (simp add: run_succeeded_def)
  next
    case (Inr finished)
    define s2 where "s2 = (if job_AdmissionReservationID finished \<noteq> '''' then sys_release (job_AdmissionReservationID finished) s' else s')"
    have 2: "system_moves a p s s2" "unused (ids 1) s2"
      using 1 moves_trans [OF 1(1) moves_release] by (simp_all add: s2_def)
    obtain x s3 where e: "sys_enqueue (final_delivery d finished) (ids 1) (clock 8) s2 = (x, s3)" by fastforce
    then have 3: "system_moves a p s s3" using moves_trans [OF 2(1) moves_enqueue [OF 2(2)]] by (metis snd_conv)
    show ?thesis using None t Inr e 3 moves_trans [OF 3 moves_mark_final]
      by (simp add: run_succeeded_def Let_def s2_def [symmetric] split: sum.split)
  qed
qed

text \<open>What the pipeline relies on of a harness run: it moves the system, and takes no identifier.\<close>

definition harness_ok :: "ActionPorts \<Rightarrow> PipelineDeps \<Rightarrow> string \<Rightarrow> bool" where
  "harness_ok a d i \<longleftrightarrow>
     (\<forall>job s. system_moves a (pd_Ports d) s (snd (pd_Run d job s)) \<and> (unused i s \<longrightarrow> unused i (snd (pd_Run d job s))))"

lemma moves_run_job:
  assumes "harness_ok a d (ids 1)" "unused (ids 1) s"
  shows "system_moves a (pd_Ports d) s (run_job d clock ids job s)"
proof -
  obtain r s1 where run: "pd_Run d job s = (r, s1)" by fastforce
  have 1: "system_moves a (pd_Ports d) s s1" "unused (ids 1) s1"
    using assms run unfolding harness_ok_def by (metis snd_conv)+
  show ?thesis
    unfolding run_job_def run
    by (auto split: sum.split intro!: moves_trans [OF 1(1)] moves_release moves_run_failed moves_run_succeeded 1(2))
qed

lemma route_job_cases:
  obtains (same) "route_job d clock job s = Inr (job, s)"
  | (stop) "route_job d clock job s = Inl (snd (fail_job job ''routine_model_route_failed'' (clock 4) (clock 5) s))"
  | (routed) m tr r s' where
      "sys_transition (job_ID job) (lease_Token (job_Lease job)) StateRunning
          (\<lambda>j. j\<lparr>job_ResolvedModel := m, job_RouteTrace := tr\<rparr>) (clock 4) (clock 5) s = (r, s')"
      "route_job d clock job s = (case r of Inl _ \<Rightarrow> Inl s' | Inr job' \<Rightarrow> Inr (job', s'))"
proof (cases "rm_ModelID (job_ResolvedModel job) \<noteq> '''' \<or> pd_ModelRouter d = None")
  case True
  then show thesis by (intro same) (auto simp: route_job_def)
next
  case False
  then obtain reg where reg: "rm_ModelID (job_ResolvedModel job) = ''''" "pd_ModelRouter d = Some reg" by auto
  show thesis
  proof (cases "registry_Resolve reg (routine_route job) no_constraints")
    case None
    with reg show thesis by (intro stop) (simp add: route_job_def)
  next
    case (Some rt)
    show thesis
    proof (cases "fst rt")
      case (Inl e)
      with reg Some show thesis by (cases rt) (intro stop, simp add: route_job_def)
    next
      case (Inr m)
      obtain r s' where t: "sys_transition (job_ID job) (lease_Token (job_Lease job)) StateRunning
          (\<lambda>j. j\<lparr>job_ResolvedModel := m, job_RouteTrace := snd rt\<rparr>) (clock 4) (clock 5) s = (r, s')" by fastforce
      with reg Some Inr show thesis by (cases rt) (intro routed [OF t], simp add: route_job_def split: sum.split)
    qed
  qed
qed

lemma route_job_moves:
  shows "route_job d clock job s = Inl s' \<Longrightarrow> system_moves a p s s'"
    and "route_job d clock job s = Inr (job', s') \<Longrightarrow> system_moves a p s s' \<and> unused i s' = unused i s"
proof -
  have t: "system_moves a p s s1 \<and> unused i s1 = unused i s"
    if "sys_transition (job_ID job) (lease_Token (job_Lease job)) StateRunning
          (\<lambda>j. j\<lparr>job_ResolvedModel := m, job_RouteTrace := tr\<rparr>) (clock 4) (clock 5) s = (r, s1)" for m tr r s1
    using moves_transition [of "\<lambda>j. j\<lparr>job_ResolvedModel := m, job_RouteTrace := tr\<rparr>" StateRunning a p s "job_ID job"
        "lease_Token (job_Lease job)" "clock 4" "clock 5"]
      unused_frame(7) [of i "job_ID job" "lease_Token (job_Lease job)" StateRunning
        "\<lambda>j. j\<lparr>job_ResolvedModel := m, job_RouteTrace := tr\<rparr>" "clock 4" "clock 5" s] that by simp
  show "system_moves a p s s'" if "route_job d clock job s = Inl s'"
    by (rule route_job_cases [of d clock job s]) (use that moves_fail [of a p s] t in \<open>auto split: sum.splits\<close>)
  show "system_moves a p s s' \<and> unused i s' = unused i s" if "route_job d clock job s = Inr (job', s')"
    by (rule route_job_cases [of d clock job s]) (use that t in \<open>auto split: sum.splits\<close>)
qed

lemma moves_work_on_job:
  assumes "harness_ok a d (ids 1)" "unused (ids 1) s"
  shows "system_moves a (pd_Ports d) s (work_on_job d clock ids job s)"
proof -
  note fail = moves_trans [OF moves_fail moves_release]
  show ?thesis
  proof (cases "route_job d clock job s")
    case (Inl s1)
    then show ?thesis using route_job_moves(1) [OF Inl] fail by (simp add: work_on_job_def)
  next
    case (Inr r)
    obtain job1 s1 where r: "r = (job1, s1)" by fastforce
    note 1 = route_job_moves(2) [OF Inr [unfolded r], of a "pd_Ports d" "ids 1"]
    have "system_moves a (pd_Ports d) s (run_job d clock ids job1 s1)"
      using moves_trans [OF conjunct1 [OF 1] moves_run_job [where ids = ids, OF assms(1)]] 1 assms(2) by simp
    moreover have "system_moves a (pd_Ports d) s (sys_release i (snd (fail_job job1 reason t1 t2 s1)))" for i reason t1 t2
      by (rule moves_trans [OF conjunct1 [OF 1] fail])
    ultimately show ?thesis using Inr r fail by (simp add: work_on_job_def split: option.split)
  qed
qed

lemma moves_processOneJob:
  assumes "harness_ok a d (ids 1)" "unused (ids 1) s" "enumerates ord (q_jobs (sys_jobs s))" "ids 0 \<noteq> ''''"
  shows "system_moves a (pd_Ports d) s (snd (processOneJob d ord clock ids worker s))"
proof -
  obtain r q where c: "jobs_Claim ord worker (ids 0) (pd_Lease d) (clock 0) (sys_jobs s) = (r, q)" by fastforce
  have 1: "system_moves a (pd_Ports d) s (s\<lparr>sys_jobs := q\<rparr>)"
    using moves_jobs [OF step_claim [OF assms(3,4), of worker "pd_Lease d" "clock 0"]] c by simp
  show ?thesis
  proof (cases r)
    case (Inl e)
    with c 1 show ?thesis by (simp add: processOneJob_def)
  next
    case (Inr job)
    obtain x s1 where t: "sys_transition (job_ID job) (lease_Token (job_Lease job)) StateRunning id (clock 1) (clock 2)
        (s\<lparr>sys_jobs := q\<rparr>) = (x, s1)" by fastforce
    have 2: "system_moves a (pd_Ports d) s s1" "unused (ids 1) s1"
      using moves_trans [OF 1 moves_transition [of id StateRunning a "pd_Ports d" _ "job_ID job" "lease_Token (job_Lease job)" "clock 1" "clock 2"]]
        unused_frame(7) [of "ids 1" "job_ID job" "lease_Token (job_Lease job)" StateRunning id "clock 1" "clock 2" "s\<lparr>sys_jobs := q\<rparr>"] t assms(2)
      by (simp_all del: One_nat_def)
    show ?thesis
      using c Inr t 2(1) moves_trans [OF 2(1) moves_work_on_job [where ids = ids, OF assms(1) 2(2)]]
      by (simp add: processOneJob_def split: sum.split del: One_nat_def)
  qed
qed

section \<open>processOneDelivery\<close>

lemma moves_retry_delivery: "system_moves a p s (retry_delivery r reason delay clock s)"
proof -
  obtain x q where u: "deliveries_Retry (dr_ID r) (dl_Token (dr_Lease r)) reason delay (clock 2) (clock 3) (clock 4) (sys_deliveries s) = (x, q)"
    by fastforce
  have "system_moves a p s (s\<lparr>sys_deliveries := q\<rparr>)"
    using moves_deliveries [OF dstep_retry [of _ "dr_ID r" "dl_Token (dr_Lease r)" reason delay "clock 2" "clock 3" "clock 4"]] u by (metis snd_conv)
  then show ?thesis
    using moves_trans [OF _ moves_mark_undelivered] by (simp add: retry_delivery_def u split: sum.split)
qed

lemma moves_send_delivery: "system_moves a (pd_Ports d) s (send_delivery d clock ids r s)"
proof (cases "pd_Send d \<lparr>req_ID = dr_ID r, req_IdempotencyKey = dr_IdempotencyKey r,
                      req_Destination = dr_Destination r, req_Result = dr_Result r\<rparr>")
  case (Inl err)
  then show ?thesis by (simp add: send_delivery_def moves_retry_delivery)
next
  case (Inr result)
  obtain x q where u: "deliveries_Complete (dr_ID r) (dl_Token (dr_Lease r)) result (clock 2) (clock 3) (sys_deliveries s) = (x, q)"
    by fastforce
  have "system_moves a (pd_Ports d) s (s\<lparr>sys_deliveries := q\<rparr>)"
    using moves_deliveries [OF dstep_complete [of _ "dr_ID r" "dl_Token (dr_Lease r)" result "clock 2" "clock 3"]] u by (metis snd_conv)
  then show ?thesis
    using moves_trans [OF _ moves_receipt] Inr by (simp add: send_delivery_def u split: sum.split)
qed

lemma moves_processOneDelivery:
  assumes "enumerates ord (dq_records (sys_deliveries s))" "ids 0 \<noteq> ''''"
  shows "system_moves a (pd_Ports d) s (snd (processOneDelivery d ord clock ids s))"
proof -
  obtain r q where c: "deliveries_Claim ord ''stub-delivery-worker'' (ids 0) (pd_Lease d) (clock 0) (sys_deliveries s) = (r, q)"
    by fastforce
  have 1: "system_moves a (pd_Ports d) s (s\<lparr>sys_deliveries := q\<rparr>)"
    using moves_deliveries [OF dstep_claim [OF assms, of "''stub-delivery-worker''" "pd_Lease d" "clock 0"]] c by simp
  show ?thesis
    by (cases r) (use c in \<open>auto simp: processOneDelivery_def Let_def intro!: moves_trans [OF 1]
        moves_retry_delivery moves_send_delivery moves_trans [OF moves_abandon moves_mark_undelivered] 1\<close>)
qed

section \<open>reconcileJobs\<close>

lemma moves_succeeded: "unused i s \<Longrightarrow> system_moves a p s (reconcileSucceededJobDelivery d clock i job s)"
proof -
  assume u: "unused i s"
  obtain x s1 where e: "sys_enqueue (final_delivery d job) i (clock 1) s = (x, s1)" by fastforce
  have "system_moves a p s s1" using moves_enqueue [OF u, of a p "final_delivery d job" "clock 1"] e by simp
  then show ?thesis
    using moves_trans [OF _ moves_mark_final] by (simp add: reconcileSucceededJobDelivery_def e moves split: sum.split del: One_nat_def)
qed

lemma moves_expired: "unused i s \<Longrightarrow> system_moves a p s (enqueueExpiredApprovalUpdate job v r i now s)"
  by (simp add: enqueueExpiredApprovalUpdate_def moves_enqueue split: sum.split)

lemma moves_cancel_waiting: "system_moves a p s (snd (cancel_waiting job clock s)) \<and> unused i (snd (cancel_waiting job clock s)) = unused i s"
proof -
  obtain x s1 where c: "sys_cancel (job_ID job) ''approval_expired_or_denied'' (clock 0) s = (x, s1)" by fastforce
  have "system_moves a p s s1" "unused i s1 = unused i s"
    using moves_cancel [of a p s "job_ID job" "''approval_expired_or_denied''" "clock 0"]
      unused_frame(8) [of i "job_ID job" "''approval_expired_or_denied''" "clock 0" s] unfolding c by simp_all
  then show ?thesis using moves_trans [OF _ moves_release]
    unfolding cancel_waiting_def c by (simp split: sum.split)
qed

lemma moves_waiting:
  assumes "unused i s"
  shows "system_moves a p s (reconcile_waiting now clock i job s)"
proof -
  define s1 where "s1 = sys_release (job_AdmissionReservationID job) s"
  have 1: "system_moves a p s s1" "unused i s1" using assms by (simp_all add: s1_def moves_release)
  obtain b s2 where c: "cancel_waiting job clock s1 = (b, s2)" by fastforce
  have 2: "system_moves a p s s2" "unused i s2"
    using moves_cancel_waiting [of a p s1 job clock i] 1 moves_trans [OF 1(1), of s2] unfolding c by simp_all
  have 3: "system_moves a p s (s1\<lparr>sys_jobs := snd (jobs_ResumeFromApproval j v h t1 t2 (sys_jobs s1))\<rparr>)" for j v h t1 t2
    by (rule moves_trans [OF 1(1) moves_jobs]) (rule step_resume)
  show ?thesis
    unfolding reconcile_waiting_def Let_def s1_def [symmetric] c
    using 1(1) 2(1) 3 moves_trans [OF 2(1) moves_expired [OF 2(2)]] by (auto split: sum.split bool.split)
qed

lemma moves_queued:
  assumes "unused i s"
  shows "system_moves a p s (reconcile_queued d now clock i job s)"
proof -
  define reason where
    "reason = (if job_MaxAttempts job \<le> job_Attempt job then ''queued_job_attempts_exhausted'' else ''queued_job_expired'')"
  obtain x s1 where c: "sys_cancel (job_ID job) reason (clock 0) s = (x, s1)" by fastforce
  have 1: "system_moves a p s s1" "unused i s1"
    using moves_cancel [of a p s "job_ID job" reason "clock 0"] unused_frame(8) [of i "job_ID job" reason "clock 0" s] assms unfolding c by simp_all
  show ?thesis
    unfolding reconcile_queued_def reason_def [symmetric] c prod.case
    using 1 moves_trans [OF 1(1) moves_release] moves_trans [OF moves_trans [OF 1(1) moves_release] moves_notice]
    by (simp add: Let_def split: sum.split)
qed

lemma moves_retry:
  assumes "unused i s"
  shows "system_moves a p s (reconcile_retry d clock i job s)"
proof -
  obtain x q where c: "jobs_ReleaseRetryWait (job_ID job) (clock 1) (clock 2) (sys_jobs s) = (x, q)" by fastforce
  have 1: "system_moves a p s (s\<lparr>sys_jobs := q\<rparr>)"
    using moves_jobs [OF step_release [of _ "job_ID job" "clock 1" "clock 2"]] c by (metis snd_conv)
  show ?thesis
    unfolding reconcile_retry_def c prod.case
    using 1 assms moves_trans [OF moves_trans [OF 1 moves_notice] moves_release] by (simp add: Let_def split: sum.split)
qed

lemma moves_reconcile_job: "unused i s \<Longrightarrow> system_moves a p s (reconcile_job d now clock i job s)"
  by (simp add: reconcile_job_def moves_succeeded moves_waiting moves_queued moves_retry moves_release)

text \<open>A round uses its own identifier only.\<close>

lemma unused_reconcile_job:
  assumes "j \<noteq> i"
  shows "unused j (reconcile_job d now clock i job s) = unused j s"
proof -
  have enq: "sys_enqueue spec i t s0 = (x, s1) \<Longrightarrow> unused j s1 = unused j s0" for spec t s0 x s1
    using unused_enqueue [OF assms, of spec t s0] by simp
  have can: "sys_cancel k reason t s0 = (x, s1) \<Longrightarrow> unused j s1 = unused j s0" for k reason t s0 x s1
    using unused_frame(8) [of j k reason t s0] by simp
  have note_: "unused j (enqueueInteractiveFailureNotice d b i t s0) = unused j s0" for b t s0
    by (simp add: enqueueInteractiveFailureNotice_def unused_enqueue [OF assms])
  have "unused j (reconcileSucceededJobDelivery d clock i job s) = unused j s"
    by (auto simp: reconcileSucceededJobDelivery_def enq split: sum.split prod.split)
  moreover have "unused j (reconcile_waiting now clock i job s) = unused j s"
  proof -
    define s1 where "s1 = sys_release (job_AdmissionReservationID job) s"
    obtain b s2 where c: "cancel_waiting job clock s1 = (b, s2)" by fastforce
    have 2: "unused j s2 = unused j s1" using moves_cancel_waiting [of undefined undefined s1 job clock j] c by simp
    have "unused j (enqueueExpiredApprovalUpdate job v r i t s0) = unused j s0" for v r t s0
      by (simp add: enqueueExpiredApprovalUpdate_def unused_enqueue [OF assms] split: sum.split)
    then show ?thesis using 2
      by (auto simp: reconcile_waiting_def Let_def s1_def [symmetric] c split: sum.split bool.split) (simp_all add: s1_def)
  qed
  moreover have "unused j (reconcile_queued d now clock i job s) = unused j s"
    by (auto simp: reconcile_queued_def Let_def note_ can split: sum.split prod.split)
  moreover have "unused j (reconcile_retry d clock i job s) = unused j s"
    by (auto simp: reconcile_retry_def Let_def note_ split: sum.split prod.split)
  ultimately show ?thesis by (simp add: reconcile_job_def)
qed

lemma moves_reconcile_list:
  assumes "inj ids" "\<forall>m \<ge> n. unused (ids m) s"
  shows "system_moves a p s (reconcile_list d now clock ids n js s)"
  using assms(2)
proof (induction js arbitrary: n s)
  case (Cons job js)
  let ?s = "reconcile_job d now (\<lambda>k. clock (4 * n + k)) (ids n) job s"
  have "unused (ids m) ?s" if "Suc n \<le> m" for m
    using that Cons.prems injD [OF assms(1), of m n] by (subst unused_reconcile_job) auto
  then have "system_moves a p ?s (reconcile_list d now clock ids (Suc n) js ?s)" by (intro Cons.IH) simp
  moreover have "system_moves a p s ?s" using Cons.prems by (intro moves_reconcile_job) simp
  ultimately show ?case using moves_trans by simp
qed simp

lemma moves_reconcileJobs: "inj ids \<Longrightarrow> \<forall>m. unused (ids m) s \<Longrightarrow> system_moves a p s (reconcileJobs d ord now clock ids s)"
  unfolding reconcileJobs_def by (rule moves_reconcile_list) simp_all

section \<open>The coordinator\<close>

lemma moves_SuspendAndNotify:
  assumes "unused (ids 0) s"
  shows "system_moves a p s (snd (SuspendAndNotify clock ids scope v s))"
proof -
  obtain x q where c: "jobs_SuspendForApproval (rs_JobID scope) (rs_LeaseToken scope) (apv_ID v) (clock 0) (clock 1) (sys_jobs s) = (x, q)"
    by fastforce
  have 1: "system_moves a p s (s\<lparr>sys_jobs := q\<rparr>)"
    using moves_jobs [OF step_suspend [of _ "rs_JobID scope" "rs_LeaseToken scope" "apv_ID v" "clock 0" "clock 1"]] c by (metis snd_conv)
  show ?thesis
    using 1 moves_trans [OF 1 moves_enqueue] assms by (simp add: SuspendAndNotify_def c split: sum.split del: One_nat_def)
qed

lemma moves_approve_job:
  assumes "\<And>n. clock n \<noteq> zero_time"
  shows "system_moves a p s (snd (approve_job clock d v s)) \<and> unused i (snd (approve_job clock d v s)) = unused i s"
proof -
  have 1: "system_moves a p s (s\<lparr>sys_approvals := snd (approvals_ApproveContext org j u t (clock n) (sys_approvals s))\<rparr>)" for org j u t n
    unfolding approvals_ApproveContext_def by (rule moves_approvals) (rule apv_approve [OF assms])
  have 2: "system_moves a p s0 (s0\<lparr>sys_jobs := snd (jobs_ResumeFromApproval j k h t t' (sys_jobs s0))\<rparr>)" for s0 j k h t t'
    by (rule moves_jobs) (rule step_resume)
  obtain x st where c: "approvals_ApproveContext (sd_OrganizationID d) (sd_ApprovalID d) (sd_UserID d) (clock 2) (clock 3) (sys_approvals s) = (x, st)"
    by fastforce
  have 3: "system_moves a p s (s\<lparr>sys_approvals := st\<rparr>)"
    using 1 [of "sd_OrganizationID d" "sd_ApprovalID d" "sd_UserID d" "clock 2" 3] c by simp
  have 4: "system_moves a p s (s\<lparr>sys_approvals := st, sys_jobs := snd (jobs_ResumeFromApproval j k h t t' (sys_jobs s))\<rparr>)" for j k h t t'
    using moves_trans [OF 3 2] by simp
  have 5: "system_moves a p s (s\<lparr>sys_jobs := q\<rparr>)"
    "system_moves a p s (s\<lparr>sys_approvals := st, sys_jobs := q\<rparr>)"
    if "jobs_ResumeFromApproval j k h t t' (sys_jobs s) = (y, q)" for j k h t t' y q
    using 2 [of s j k h t t'] 4 [of j k h t t'] that by simp_all
  show ?thesis
    by (auto simp: approve_job_def Let_def c 3 5 split: prod.split sum.split)
qed

lemma moves_deny_job:
  assumes "\<And>n. clock n \<noteq> zero_time"
  shows "system_moves a p s (snd (deny_job clock d v j s)) \<and> unused i (snd (deny_job clock d v j s)) = unused i s"
proof -
  obtain x st where c: "approvals_DenyContext (sd_OrganizationID d) (sd_ApprovalID d) (sd_UserID d) (clock 2) (clock 3) (sys_approvals s) = (x, st)"
    by fastforce
  have 3: "system_moves a p s (s\<lparr>sys_approvals := st\<rparr>)"
    using moves_approvals [OF apv_deny [OF assms]] c by (metis snd_conv)
  have 2: "system_moves a p s0 (s0\<lparr>sys_jobs := snd (jobs_Cancel k reason t (sys_jobs s0))\<rparr>)" for s0 k reason t
    by (rule moves_jobs) (rule step_cancel)
  have 5: "system_moves a p s (s\<lparr>sys_jobs := q\<rparr>)" "system_moves a p s (s\<lparr>sys_approvals := st, sys_jobs := q\<rparr>)"
    if "jobs_Cancel k reason t (sys_jobs s) = (y, q)" for k reason t y q
    using 2 [of s k reason t] moves_trans [OF 3 2 [of _ k reason t]] that by simp_all
  have 6: "system_moves a p s (s0\<lparr>sys_admissions := admission_Complete r (sys_admissions s0)\<rparr>)" if "system_moves a p s s0" for s0 r
    using moves_trans [OF that moves_release] by (simp add: sys_release_def)
  have 7: "system_moves a p s (s\<lparr>sys_jobs := q, sys_admissions := admission_Complete r (sys_admissions s)\<rparr>)"
    "system_moves a p s (s\<lparr>sys_approvals := st, sys_jobs := q, sys_admissions := admission_Complete r (sys_admissions s)\<rparr>)"
    if "jobs_Cancel k reason t (sys_jobs s) = (y, q)" for k reason t y q r
    using 6 [OF 5(1) [OF that]] 6 [OF 5(2) [OF that]] by simp_all
  show ?thesis
    by (auto simp: deny_job_def Let_def c 3 5 7 split: prod.split sum.split option.split)
qed

lemma moves_HandleSlackDecision:
  assumes "\<And>n. clock n \<noteq> zero_time" "unused (ids 1) s"
  shows "system_moves a p s (snd (HandleSlackDecision p clock ids d s))"
proof (cases "check_decision p d s")
  case (Inl e)
  then show ?thesis by (simp add: HandleSlackDecision_def)
next
  case (Inr aj)
  obtain v j where aj: "aj = (v, j)" by fastforce
  obtain x c where au: "audit_Append (port_marshal p) (port_sha p) (port_mac p) (authorization_receipt d v (clock 0)) (ids 0) (clock 1) (sys_audit s) = (x, c)"
    by fastforce
  define s1 where "s1 = s\<lparr>sys_audit := c\<rparr>"
  have 1: "system_moves a p s s1"
    unfolding s1_def using moves_audit [OF audit_step.intros [of _ _ _ _ "authorization_receipt d v (clock 0)" "ids 0" "clock 1"]] au
    by (metis snd_conv)
  define dec where "dec = (if sd_Approve d then approve_job clock d v s1 else deny_job clock d v j s1)"
  have 2: "system_moves a p s (snd dec)" "unused (ids 1) (snd dec)"
    using moves_trans [OF 1] moves_approve_job [where clock = clock and s = s1 and i = "ids 1", OF assms(1)] moves_deny_job [where clock = clock and s = s1 and i = "ids 1", OF assms(1)] assms(2)
    by (simp_all add: dec_def s1_def)
  then show ?thesis
    using Inr aj au 1 moves_trans [OF 2(1) moves_enqueue [OF 2(2)]]
    by (auto simp: HandleSlackDecision_def Let_def s1_def [symmetric] dec_def [symmetric] split: sum.split prod.split simp del: One_nat_def)
qed

section \<open>The system as a state machine\<close>

text \<open>
  Besides the operations of the pipeline and the coordinator, the rest of the program works on
  one store at a time: the decision loop admits and enqueues, the workers' heartbeats and the
  tool gateway extend leases, request and consume approvals, every component appends receipts.
\<close>

inductive system_step :: "ActionPorts \<Rightarrow> PipelineDeps \<Rightarrow> System \<Rightarrow> System \<Rightarrow> bool" for a d where
  sys_work: "harness_ok a d (ids 1) \<Longrightarrow> unused (ids 1) s \<Longrightarrow> enumerates ord (q_jobs (sys_jobs s)) \<Longrightarrow> ids 0 \<noteq> '''' \<Longrightarrow>
     system_step a d s (snd (processOneJob d ord clock ids worker s))"
| sys_send: "enumerates ord (dq_records (sys_deliveries s)) \<Longrightarrow> ids 0 \<noteq> '''' \<Longrightarrow>
     system_step a d s (snd (processOneDelivery d ord clock ids s))"
| sys_reconcile: "inj ids \<Longrightarrow> \<forall>m. unused (ids m) s \<Longrightarrow> system_step a d s (reconcileJobs d ord now clock ids s)"
| sys_suspend: "unused (ids 0) s \<Longrightarrow> system_step a d s (snd (SuspendAndNotify clock ids scope v s))"
| sys_decide: "\<forall>n. clock n \<noteq> zero_time \<Longrightarrow> unused (ids 1) s \<Longrightarrow>
     system_step a d s (snd (HandleSlackDecision (pd_Ports d) clock ids sd s))"
| sys_other_job: "job_step (sys_jobs s) q \<Longrightarrow> system_step a d s (s\<lparr>sys_jobs := q\<rparr>)"
| sys_other_delivery: "delivery_step (sys_deliveries s) dq \<Longrightarrow> system_step a d s (s\<lparr>sys_deliveries := dq\<rparr>)"
| sys_other_approval: "approval_step (fst a) (snd a) (sys_approvals s) st \<Longrightarrow> system_step a d s (s\<lparr>sys_approvals := st\<rparr>)"
| sys_other_audit:
    "audit_step (port_marshal (pd_Ports d)) (port_sha (pd_Ports d)) (port_mac (pd_Ports d)) (sys_audit s) c \<Longrightarrow>
     system_step a d s (s\<lparr>sys_audit := c\<rparr>)"
| sys_other_admission: "admission_step (sys_admissions s) m \<Longrightarrow> system_step a d s (s\<lparr>sys_admissions := m\<rparr>)"

definition NewSystem :: "Chain \<Rightarrow> System" where
  "NewSystem c = \<lparr>sys_jobs = NewJobQueue, sys_deliveries = NewDeliveryQueue, sys_approvals = NewApprovalStore,
     sys_audit = c, sys_admissions = NewAdmission\<rparr>"

inductive system_reachable :: "ActionPorts \<Rightarrow> PipelineDeps \<Rightarrow> System \<Rightarrow> bool" for a d where
  sys_new: "audit_New key = Inr c \<Longrightarrow> system_reachable a d (NewSystem c)"
| sys_step: "system_reachable a d s \<Longrightarrow> system_step a d s s' \<Longrightarrow> system_reachable a d s'"

lemma system_step_moves: "system_step a d s s' \<Longrightarrow> system_moves a (pd_Ports d) s s'"
proof (induction rule: system_step.induct)
  case sys_work
  then show ?case by (rule moves_processOneJob)
next
  case sys_send
  then show ?case by (rule moves_processOneDelivery)
next
  case sys_decide
  then show ?case by (intro moves_HandleSlackDecision) auto
qed (simp_all add: moves_reconcileJobs moves_SuspendAndNotify moves_jobs moves_deliveries moves_approvals moves_audit
    moves_admissions)

lemma job_reachable_steps: "job_step\<^sup>*\<^sup>* q q' \<Longrightarrow> job_reachable q \<Longrightarrow> job_reachable q'"
  by (induction rule: rtranclp_induct) (auto intro: reach_step)

lemma delivery_reachable_steps: "delivery_step\<^sup>*\<^sup>* q q' \<Longrightarrow> delivery_reachable q \<Longrightarrow> delivery_reachable q'"
  by (induction rule: rtranclp_induct) (auto intro: dreach_step)

lemma admission_reachable_steps: "admission_step\<^sup>*\<^sup>* q q' \<Longrightarrow> admission_reachable q \<Longrightarrow> admission_reachable q'"
  by (induction rule: rtranclp_induct) (auto intro: adm_reach_step)

lemma approval_reachable_steps:
  "(approval_step f g)\<^sup>*\<^sup>* v v' \<Longrightarrow> approval_reachable f g v \<Longrightarrow> approval_reachable f g v'"
  by (induction rule: rtranclp_induct) (auto intro: apv_reach_step)

lemmas reachable_steps = job_reachable_steps delivery_reachable_steps admission_reachable_steps approval_reachable_steps

lemma system_reachable_stores:
  assumes "system_reachable a d s"
  shows "job_reachable (sys_jobs s) \<and> delivery_reachable (sys_deliveries s) \<and> admission_reachable (sys_admissions s)
    \<and> approval_reachable (fst a) (snd a) (sys_approvals s)
    \<and> (\<exists>key c0. audit_New key = Inr c0
          \<and> (audit_step (port_marshal (pd_Ports d)) (port_sha (pd_Ports d)) (port_mac (pd_Ports d)))\<^sup>*\<^sup>* c0 (sys_audit s))"
  using assms
proof induction
  case (sys_new key c)
  then show ?case
    by (auto simp: NewSystem_def intro: reach_new dreach_new adm_reach_new apv_reach_new)
next
  case (sys_step s s')
  from system_step_moves [OF sys_step.hyps(2)] show ?case
    unfolding system_moves_def using sys_step.IH reachable_steps by (meson rtranclp_trans)
qed

end
