(* ===== verification/PipelineProperties.thy ===== *)
theory PipelineProperties
  imports JobProperties CoordinatorProperties SystemSteps
begin

text \<open>
  The properties of the worker side of the pipeline: the invariants of the stores hold of the
  composed system, nothing runs or is sent without a live authorization, a final delivery
  lost in a crash is repaired, and a finished job gives its admission slot back.
\<close>

section \<open>A concrete system\<close>

definition hello_result :: SlackResult where
  "hello_result = zero_SlackResult\<lparr>res_Segments := [zero_SlackSegment\<lparr>seg_Kind := SlackSegmentMRKDWN, seg_Text := ''hello''\<rparr>]\<rparr>"

definition sample_deps :: PipelineDeps where
  "sample_deps = \<lparr>pd_Scopes = None, pd_ModelRouter = None, pd_Run = (\<lambda>job s. (Inr hello_result, s)),
     pd_Render = (\<lambda>r. None), pd_Send = (\<lambda>q. Inr \<lparr>sdr_MessageTS = ''7'', sdr_DeliveredAt = 30, sdr_Duplicate = False\<rparr>),
     pd_Ports = sample_ports, pd_OutputChannelIDs = [], pd_Lease = 20, pd_Poll = 1, pd_MaxAttempts = 3\<rparr>"

definition sample_chain0 :: Chain where
  "sample_chain0 = \<lparr>ch_hmacKey = replicate 32 CHR ''x'', ch_receipts = Map.empty, ch_byKey = Map.empty\<rparr>"

definition queued_system :: System where
  "queued_system = (NewSystem sample_chain0)\<lparr>sys_jobs := sample_queued\<rparr>"

definition work_clock :: "nat \<Rightarrow> time" where "work_clock n = 11 + int n"
definition work_ids :: "nat \<Rightarrow> string" where "work_ids n = (if n = 0 then ''t'' else replicate n CHR ''d'')"

definition worked_system :: System where
  "worked_system = snd (processOneJob sample_deps [''j''] work_clock work_ids ''w'' queued_system)"

definition sample_actions :: ActionPorts where "sample_actions = (sample_marshal, id)"

lemma sample_harness_ok: "harness_ok a sample_deps i"
  by (simp add: harness_ok_def sample_deps_def)

lemma queued_reachable: "system_reachable sample_actions sample_deps queued_system"
proof -
  have "audit_New (replicate 32 CHR ''x'') = Inr sample_chain0" by (simp add: audit_New_def sample_chain0_def)
  then have 0: "system_reachable sample_actions sample_deps (NewSystem sample_chain0)" by (rule sys_new)
  have "job_step (sys_jobs (NewSystem sample_chain0)) sample_queued"
    unfolding sample_queued_def by (simp add: NewSystem_def) (rule step_enqueue, simp add: NewJobQueue_def)
  then show ?thesis unfolding queued_system_def by (rule sys_step [OF 0 sys_other_job])
qed

lemma worked_reachable: "system_reachable sample_actions sample_deps worked_system"
  unfolding worked_system_def
  by (rule sys_step [OF queued_reachable sys_work])
    (simp_all add: sample_harness_ok unused_def queued_system_def NewSystem_def NewDeliveryQueue_def enumerates_def
      sample_queued_eq work_ids_def)

section \<open>The composed system\<close>

text \<open>
  C7. The composition keeps every store's guarantee: in every state the whole program can
  reach by running jobs, sending deliveries, reconciling, suspending, handling Slack decisions
  and the single-store operations of its other parts, at most one job writes a session
  generation, an organization has at most one delivery under an idempotency key and every record
  is stored under its own identifier, every delivery keeps its attempts within its limit and is
  leased exactly when it has a token, the active count of every channel is the number of its open
  reservations, and the audit chain of every organization verifies.
\<close>
theorem system_store_invariants:
  assumes "system_reachable a d s"
  shows "(\<forall>i j x y. q_jobs (sys_jobs s) i = Some x \<and> q_jobs (sys_jobs s) j = Some y \<and> same_generation x y
            \<and> is_writer (job_State x) \<and> is_writer (job_State y) \<longrightarrow> i = j)
    \<and> (\<forall>i j x y. dq_records (sys_deliveries s) i = Some x \<and> dq_records (sys_deliveries s) j = Some y
            \<and> dr_OrganizationID x = dr_OrganizationID y \<and> dr_IdempotencyKey x = dr_IdempotencyKey y \<longrightarrow> i = j)
    \<and> (\<forall>i r. dq_records (sys_deliveries s) i = Some r \<longrightarrow> dr_ID r = i)
    \<and> (\<forall>i r. dq_records (sys_deliveries s) i = Some r \<longrightarrow>
           dr_Attempt r \<le> dr_MaxAttempts r \<and> (dl_Token (dr_Lease r) \<noteq> '''' \<longleftrightarrow> dr_Status r = StatusLeased))
    \<and> (\<forall>k. as_active (adm_state (sys_admissions s) k) = int (card (open_reservations (sys_admissions s) k)))
    \<and> (\<forall>org. audit_Verify (port_marshal (pd_Ports d)) (port_sha (pd_Ports d)) org (sys_audit s) = Inr ())"
proof (intro conjI)
  note stores = system_reachable_stores [OF assms]
  show "\<forall>i j x y. q_jobs (sys_jobs s) i = Some x \<and> q_jobs (sys_jobs s) j = Some y \<and> same_generation x y
            \<and> is_writer (job_State x) \<and> is_writer (job_State y) \<longrightarrow> i = j"
    using writers_uniqueD [OF reachable_writers_unique] stores by blast
  from stores have index: "delivery_index_ok (sys_deliveries s)" by (simp add: delivery_reachable_index)
  show "\<forall>i j x y. dq_records (sys_deliveries s) i = Some x \<and> dq_records (sys_deliveries s) j = Some y
            \<and> dr_OrganizationID x = dr_OrganizationID y \<and> dr_IdempotencyKey x = dr_IdempotencyKey y \<longrightarrow> i = j"
    using delivery_index_unique [OF index] by blast
  show "\<forall>i r. dq_records (sys_deliveries s) i = Some r \<longrightarrow> dr_ID r = i"
    using delivery_index_okD(1) [OF index] by blast
  show "\<forall>i r. dq_records (sys_deliveries s) i = Some r \<longrightarrow>
           dr_Attempt r \<le> dr_MaxAttempts r \<and> (dl_Token (dr_Lease r) \<noteq> '''' \<longleftrightarrow> dr_Status r = StatusLeased)"
    using delivery_reachable_ok stores unfolding record_ok_def by blast
  show "\<forall>k. as_active (adm_state (sys_admissions s) k) = int (card (open_reservations (sys_admissions s) k))"
    using account_okD(1) [OF reachable_account_ok] stores by blast
  show "\<forall>org. audit_Verify (port_marshal (pd_Ports d)) (port_sha (pd_Ports d)) org (sys_audit s) = Inr ()"
  proof -
    from stores obtain key c0 where "audit_New key = Inr c0"
      "(audit_step (port_marshal (pd_Ports d)) (port_sha (pd_Ports d)) (port_mac (pd_Ports d)))\<^sup>*\<^sup>* c0 (sys_audit s)" by blast
    then show ?thesis using audit_chain_verifies by blast
  qed
qed

theorem system_store_invariants_witness:
  "audit_Verify (port_marshal sample_ports) (port_sha sample_ports) ''o'' (sys_audit worked_system) = Inr ()
   \<and> as_active (adm_state (sys_admissions worked_system) ''k'') = int (card (open_reservations (sys_admissions worked_system) ''k''))"
proof -
  have "pd_Ports sample_deps = sample_ports" by (simp add: sample_deps_def)
  with system_store_invariants [OF worked_reachable] show ?thesis by simp
qed

section \<open>Nothing runs without a live authorization\<close>

lemma run_field [simp]:
  "live_policy_allows (d\<lparr>pd_Run := f\<rparr>) = live_policy_allows d"
  "enqueueInteractiveFailureNotice (d\<lparr>pd_Run := f\<rparr>) = enqueueInteractiveFailureNotice d"
  "final_delivery (d\<lparr>pd_Run := f\<rparr>) = final_delivery d"
  "route_job (d\<lparr>pd_Run := f\<rparr>) = route_job d"
  by (simp_all add: fun_eq_iff live_policy_allows_def enqueueInteractiveFailureNotice_def final_delivery_def route_job_def)

lemma run_field_outcome [simp]:
  "run_failed (d\<lparr>pd_Run := f\<rparr>) = run_failed d" "run_succeeded (d\<lparr>pd_Run := f\<rparr>) = run_succeeded d"
proof -
  have fields: "pd_Poll (d\<lparr>pd_Run := f\<rparr>) = pd_Poll d" "pd_Render (d\<lparr>pd_Run := f\<rparr>) = pd_Render d" by simp_all
  show "run_failed (d\<lparr>pd_Run := f\<rparr>) = run_failed d" "run_succeeded (d\<lparr>pd_Run := f\<rparr>) = run_succeeded d"
    unfolding run_failed_def run_succeeded_def run_field fields by (rule refl)+
qed

lemma Transition_scope:
  assumes "jobs_Transition i token to f t1 t2 q = (Inr b, q')" "mutation_ok f"
  shows "\<exists>a. q_jobs q i = Some a \<and> job_ID b = job_ID a \<and> job_OrganizationID b = job_OrganizationID a
     \<and> job_WorkspaceID b = job_WorkspaceID a \<and> job_ChannelID b = job_ChannelID a
     \<and> job_AdmissionReservationID b = job_AdmissionReservationID a \<and> q' = put_job q i b"
  using assms by (auto simp: jobs_Transition_def Let_def mutation_ok_def split: option.splits if_splits)

lemma put_job_lookup [simp]: "q_jobs (put_job q i b) i = Some b"
  by simp

lemma sys_transition_scope:
  assumes "sys_transition i token to f t1 t2 s = (Inr b, s')" "mutation_ok f" "index_ok (sys_jobs s)"
  shows "\<exists>a. q_jobs (sys_jobs s) i = Some a \<and> job_ID b = i \<and> job_OrganizationID b = job_OrganizationID a
     \<and> job_WorkspaceID b = job_WorkspaceID a \<and> job_ChannelID b = job_ChannelID a
     \<and> job_AdmissionReservationID b = job_AdmissionReservationID a \<and> q_jobs (sys_jobs s') i = Some b
     \<and> s' = s\<lparr>sys_jobs := put_job (sys_jobs s) i b\<rparr>"
proof -
  obtain q' where t: "jobs_Transition i token to f t1 t2 (sys_jobs s) = (Inr b, q')" "s' = s\<lparr>sys_jobs := q'\<rparr>"
    using assms(1) by (auto simp: sys_transition_def split: prod.splits)
  from Transition_scope [OF t(1) assms(2)] t(2) index_okD(1) [OF assms(3)] show ?thesis by auto
qed

text \<open>A job being worked on: stored under its identifier in a reachable queue.\<close>

definition at_work :: "Job \<Rightarrow> System \<Rightarrow> bool" where
  "at_work job s \<longleftrightarrow> job_reachable (sys_jobs s) \<and> q_jobs (sys_jobs s) (job_ID job) = Some job"

text \<open>The start of a run: nothing to work on, or a stored job under the lease.\<close>

lemma processOneJob_start:
  assumes "job_reachable (sys_jobs s)" "enumerates ord (q_jobs (sys_jobs s))" "ids 0 \<noteq> ''''"
  obtains (none) s1 where "\<And>f. snd (processOneJob (d\<lparr>pd_Run := f\<rparr>) ord clock ids w s) = s1"
  | (work) job s1 where "at_work job s1"
      "\<And>f. snd (processOneJob (d\<lparr>pd_Run := f\<rparr>) ord clock ids w s) = work_on_job (d\<lparr>pd_Run := f\<rparr>) clock ids job s1"
proof -
  obtain r q where c: "jobs_Claim ord w (ids 0) (pd_Lease d) (clock 0) (sys_jobs s) = (r, q)" by fastforce
  have q: "job_reachable q"
    using reach_step [OF assms(1) step_claim [OF assms(2,3), of w "pd_Lease d" "clock 0"]] c by simp
  show thesis
  proof (cases r)
    case (Inl e)
    with c show thesis by (intro none) (simp add: processOneJob_def)
  next
    case (Inr job)
    obtain x s1 where t: "sys_transition (job_ID job) (lease_Token (job_Lease job)) StateRunning id (clock 1) (clock 2)
        (s\<lparr>sys_jobs := q\<rparr>) = (x, s1)" by fastforce
    show thesis
    proof (cases x)
      case (Inl e)
      with c \<open>r = Inr job\<close> t show thesis by (intro none) (simp add: processOneJob_def)
    next
      case (Inr b)
      have "job_ID b = job_ID job" "q_jobs (sys_jobs s1) (job_ID job) = Some b"
        using sys_transition_scope [OF t [unfolded Inr]] reachable_index_ok [OF q] by auto
      moreover have "job_reachable (sys_jobs s1)"
        using reach_step [OF q step_transition [of id StateRunning _ "job_ID job" "lease_Token (job_Lease job)" "clock 1" "clock 2"]] t
        by (auto simp: sys_transition_def split: prod.splits)
      ultimately show thesis using c \<open>r = Inr job\<close> t Inr by (intro work [of b s1]) (simp_all add: processOneJob_def at_work_def)
    qed
  qed
qed

lemma route_job_scope:
  assumes "route_job d clock job s = Inr (job1, s1)" "at_work job s"
  shows "job_ID job1 = job_ID job \<and> job_OrganizationID job1 = job_OrganizationID job \<and> job_WorkspaceID job1 = job_WorkspaceID job
     \<and> job_ChannelID job1 = job_ChannelID job \<and> job_AdmissionReservationID job1 = job_AdmissionReservationID job \<and> at_work job1 s1"
proof (rule route_job_cases [of d clock job s])
  assume "route_job d clock job s = Inr (job, s)"
  with assms show ?thesis by simp
next
  assume "route_job d clock job s = Inl (snd (fail_job job ''routine_model_route_failed'' (clock 4) (clock 5) s))"
  with assms show ?thesis by simp
next
  fix m tr r s'
  assume t: "sys_transition (job_ID job) (lease_Token (job_Lease job)) StateRunning
          (\<lambda>j. j\<lparr>job_ResolvedModel := m, job_RouteTrace := tr\<rparr>) (clock 4) (clock 5) s = (r, s')"
    "route_job d clock job s = (case r of Inl _ \<Rightarrow> Inl s' | Inr job' \<Rightarrow> Inr (job', s'))"
  with assms(1) have r: "r = Inr job1" "s' = s1" by (auto split: sum.splits)
  have "job_reachable (sys_jobs s1)"
    using reach_step [OF _ step_transition [of "\<lambda>j. j\<lparr>job_ResolvedModel := m, job_RouteTrace := tr\<rparr>" StateRunning "sys_jobs s" "job_ID job"
          "lease_Token (job_Lease job)" "clock 4" "clock 5"]] assms(2) t(1) r
    by (auto simp: sys_transition_def at_work_def split: prod.splits)
  then show ?thesis
    using sys_transition_scope [OF t(1) [unfolded r]] reachable_index_ok [of "sys_jobs s"] assms(2)
    by (auto simp: at_work_def)
qed

definition live_authorization :: "PipelineDeps \<Rightarrow> string \<Rightarrow> string \<Rightarrow> string \<Rightarrow> time \<Rightarrow> bool" where
  "live_authorization d org team channel now \<longleftrightarrow>
     (\<forall>st. pd_Scopes d = Some st \<longrightarrow>
        (\<exists>p. orgconfig_Resolve org team channel st = Inr p \<and> cp_Enrolled p \<and> \<not> cp_KillSwitch p
           \<and> \<not> IsZero (cp_MembershipRefreshedAt p) \<and> Sub now (cp_MembershipRefreshedAt p) \<le> 24 * Hour
           \<and> (HasPrefix (cp_ChannelID p) ''D''
              \<or> (cp_ParticipationMode p \<in> {ModeMention, ModeAssist, ModeProactive}
                 \<and> (cp_ParticipationManagedByMembership p \<longrightarrow> cp_BotMembershipKnown p \<and> cp_BotIsMember p)))))"

lemma live_policy_authorizes: "live_policy_allows d org team channel now \<longleftrightarrow> live_authorization d org team channel now"
  by (auto simp: live_policy_allows_def live_authorization_def authorizedOutputPolicy_def authorizedPolicy_def
      split: option.splits sum.splits if_splits)

text \<open>
  C4. Nothing runs without a live authorization.  Whenever the outcome of \<^verbatim>\<open>processOneJob\<close> depends
  on the harness at all, the job the harness was run on is a stored job of the queue whose
  channel the live policy authorizes at that moment (enrolled, not killed, membership at most a day old, in
  a mode that answers, the bot a member where membership manages the mode) and whose model the
  live catalog still allows.
\<close>
theorem run_needs_live_authorization:
  assumes "job_reachable (sys_jobs s)" "enumerates ord (q_jobs (sys_jobs s))" "ids 0 \<noteq> ''''"
    and "snd (processOneJob (d\<lparr>pd_Run := f\<rparr>) ord clock ids w s) \<noteq> snd (processOneJob (d\<lparr>pd_Run := g\<rparr>) ord clock ids w s)"
  shows "\<exists>job s1. f job s1 \<noteq> g job s1 \<and> q_jobs (sys_jobs s1) (job_ID job) = Some job
     \<and> live_authorization d (job_OrganizationID job) (job_WorkspaceID job) (job_ChannelID job) (clock 3)
     \<and> (\<forall>reg. pd_ModelRouter d = Some reg \<longrightarrow> registry_Allowed (job_ResolvedModel job) reg)"
proof (rule processOneJob_start [OF assms(1,2), of ids d clock w, OF assms(3)])
  fix s1 assume "\<And>f. snd (processOneJob (d\<lparr>pd_Run := f\<rparr>) ord clock ids w s) = s1"
  with assms(4) show ?thesis by simp
next
  fix job s1
  assume job: "at_work job s1"
    and run: "\<And>f. snd (processOneJob (d\<lparr>pd_Run := f\<rparr>) ord clock ids w s) = work_on_job (d\<lparr>pd_Run := f\<rparr>) clock ids job s1"
  have differ: "work_on_job (d\<lparr>pd_Run := f\<rparr>) clock ids job s1 \<noteq> work_on_job (d\<lparr>pd_Run := g\<rparr>) clock ids job s1"
    using assms(4) run by simp
  then have live: "live_authorization d (job_OrganizationID job) (job_WorkspaceID job) (job_ChannelID job) (clock 3)"
    by (auto simp: work_on_job_def live_policy_authorizes split: if_splits)
  obtain job1 s2 where r: "route_job d clock job s1 = Inr (job1, s2)"
    using differ by (cases "route_job d clock job s1") (auto simp: work_on_job_def split: if_splits)
  note scope = route_job_scope [OF r job]
  have allowed: "\<forall>reg. pd_ModelRouter d = Some reg \<longrightarrow> registry_Allowed (job_ResolvedModel job1) reg"
    using differ r by (auto simp: work_on_job_def split: if_splits)
  have "run_job (d\<lparr>pd_Run := f\<rparr>) clock ids job1 s2 \<noteq> run_job (d\<lparr>pd_Run := g\<rparr>) clock ids job1 s2"
    using differ r by (auto simp: work_on_job_def split: if_splits)
  then have "f job1 s2 \<noteq> g job1 s2" unfolding run_job_def run_field_outcome by auto
  moreover have "live_authorization d (job_OrganizationID job1) (job_WorkspaceID job1) (job_ChannelID job1) (clock 3)"
    using live scope by simp
  moreover have "q_jobs (sys_jobs s2) (job_ID job1) = Some job1" using scope unfolding at_work_def by blast
  ultimately show ?thesis using allowed by blast
qed

definition broken_run :: RunError where
  "broken_run = \<lparr>re_Error = ''lost'', re_Revoked = False, re_Retryable = Some False, re_DiagnosticCode = None\<rparr>"

definition final_state :: "System \<Rightarrow> State option" where
  "final_state s = map_option job_State (q_jobs (sys_jobs s) ''j'')"

lemma sample_outcomes:
  "final_state (snd (processOneJob sample_deps [''j''] work_clock work_ids ''w'' queued_system)) = Some StateSucceeded"
  "final_state (snd (processOneJob (sample_deps\<lparr>pd_Run := (\<lambda>job s. (Inl broken_run, s))\<rparr>) [''j''] work_clock work_ids ''w'' queued_system))
     = Some StateFailed"
  by code_simp+

theorem run_needs_live_authorization_witness:
  "\<exists>(job :: Job) (s1 :: System). q_jobs (sys_jobs s1) (job_ID job) = Some job
     \<and> live_authorization sample_deps (job_OrganizationID job) (job_WorkspaceID job) (job_ChannelID job) (work_clock 3)"
proof -
  have d: "sample_deps\<lparr>pd_Run := pd_Run sample_deps\<rparr> = sample_deps" by simp
  have differ: "snd (processOneJob (sample_deps\<lparr>pd_Run := pd_Run sample_deps\<rparr>) [''j''] work_clock work_ids ''w'' queued_system)
      \<noteq> snd (processOneJob (sample_deps\<lparr>pd_Run := (\<lambda>job s. (Inl broken_run, s))\<rparr>) [''j''] work_clock work_ids ''w'' queued_system)"
    unfolding d using sample_outcomes by (metis State.distinct option.inject)
  have "job_reachable (sys_jobs queued_system)" "enumerates [''j''] (q_jobs (sys_jobs queued_system))" "work_ids 0 \<noteq> ''''"
    using sample_reachable(1) by (simp_all add: queued_system_def enumerates_def sample_queued_eq work_ids_def)
  from run_needs_live_authorization [OF this differ] show ?thesis by blast
qed

section \<open>Nothing is sent without a live authorization\<close>

lemma send_field [simp]:
  "live_policy_allows (d\<lparr>pd_Send := f\<rparr>) = live_policy_allows d"
  "slackOutputChannelAllowed (d\<lparr>pd_Send := f\<rparr>) = slackOutputChannelAllowed d"
  by (simp_all add: fun_eq_iff live_policy_allows_def slackOutputChannelAllowed_def)

definition delivery_request :: "DeliveryRecord \<Rightarrow> SlackDeliveryRequest" where
  "delivery_request r = \<lparr>req_ID = dr_ID r, req_IdempotencyKey = dr_IdempotencyKey r, req_Destination = dr_Destination r,
     req_Result = dr_Result r\<rparr>"

lemma send_fields:
  "pd_Poll (d\<lparr>pd_Send := f\<rparr>) = pd_Poll d" "pd_Ports (d\<lparr>pd_Send := f\<rparr>) = pd_Ports d" "pd_Send (d\<lparr>pd_Send := f\<rparr>) = f"
  by simp_all

text \<open>
  C5. Nothing is sent without a live authorization.  Whenever the outcome of
  \<^verbatim>\<open>processOneDelivery\<close> depends on what Slack answers at all, the delivery is the one just
  claimed, its channel is in the configured output allowlist, the renderer accepts its result and
  the live policy authorizes its channel; and what is sent is that record under its own
  identifier and idempotency key.
\<close>
theorem send_needs_live_authorization:
  assumes "snd (processOneDelivery (d\<lparr>pd_Send := f\<rparr>) ord clock ids s) \<noteq> snd (processOneDelivery (d\<lparr>pd_Send := g\<rparr>) ord clock ids s)"
  shows "\<exists>r q. deliveries_Claim ord ''stub-delivery-worker'' (ids 0) (pd_Lease d) (clock 0) (sys_deliveries s) = (Inr r, q)
     \<and> slackOutputChannelAllowed d (dest_ChannelID (dr_Destination r)) \<and> pd_Render d (dr_Result r) = None
     \<and> live_authorization d (dr_OrganizationID r) (dest_TeamID (dr_Destination r)) (dest_ChannelID (dr_Destination r)) (clock 1)
     \<and> f (delivery_request r) \<noteq> g (delivery_request r)"
proof -
  obtain x q where c: "deliveries_Claim ord ''stub-delivery-worker'' (ids 0) (pd_Lease d) (clock 0) (sys_deliveries s) = (x, q)"
    by fastforce
  obtain r where r: "x = Inr r" using assms c by (cases x) (auto simp: processOneDelivery_def)
  let ?s = "s\<lparr>sys_deliveries := q\<rparr>"
  have gates: "slackOutputChannelAllowed d (dest_ChannelID (dr_Destination r))" "pd_Render d (dr_Result r) = None"
    "live_policy_allows d (dr_OrganizationID r) (dest_TeamID (dr_Destination r)) (dest_ChannelID (dr_Destination r)) (clock 1)"
    using assms c r by (auto simp: processOneDelivery_def Let_def split: if_splits)
  then have "send_delivery (d\<lparr>pd_Send := f\<rparr>) clock ids r ?s \<noteq> send_delivery (d\<lparr>pd_Send := g\<rparr>) clock ids r ?s"
    using assms c r by (auto simp: processOneDelivery_def Let_def)
  then have "f (delivery_request r) \<noteq> g (delivery_request r)"
    unfolding send_delivery_def send_fields delivery_request_def [symmetric] by auto
  with c r gates show ?thesis by (simp add: live_policy_authorizes)
qed

definition pending_system :: System where
  "pending_system = (NewSystem sample_chain0)\<lparr>sys_deliveries := sample_deliveries\<rparr>"

definition sent_status :: "System \<Rightarrow> DeliveryStatus option" where
  "sent_status s = map_option dr_Status (dq_records (sys_deliveries s) ''d'')"

lemma sample_sends:
  "sent_status (snd (processOneDelivery (sample_deps\<lparr>pd_Send := \<lambda>q. Inr \<lparr>sdr_MessageTS = ''7'', sdr_DeliveredAt = 30, sdr_Duplicate = False\<rparr>\<rparr>)
      [''d''] work_clock work_ids pending_system)) = Some StatusDelivered"
  "sent_status (snd (processOneDelivery (sample_deps\<lparr>pd_Send := \<lambda>q. Inl ''down''\<rparr>) [''d''] work_clock work_ids pending_system))
      \<noteq> Some StatusDelivered"
  by code_simp+

theorem send_needs_live_authorization_witness:
  "\<exists>r q. deliveries_Claim [''d''] ''stub-delivery-worker'' ''t'' 20 11 sample_deliveries = (Inr r, q)
     \<and> live_authorization sample_deps (dr_OrganizationID r) (dest_TeamID (dr_Destination r)) (dest_ChannelID (dr_Destination r)) 12"
proof -
  have "snd (processOneDelivery (sample_deps\<lparr>pd_Send := \<lambda>q. Inr \<lparr>sdr_MessageTS = ''7'', sdr_DeliveredAt = 30, sdr_Duplicate = False\<rparr>\<rparr>)
        [''d''] work_clock work_ids pending_system)
      \<noteq> snd (processOneDelivery (sample_deps\<lparr>pd_Send := \<lambda>q. Inl ''down''\<rparr>) [''d''] work_clock work_ids pending_system)"
    using sample_sends by metis
  from send_needs_live_authorization [OF this] show ?thesis
    by (auto simp: pending_system_def work_ids_def work_clock_def sample_deps_def)
qed

section \<open>A lost final delivery is repaired\<close>

text \<open>A round of the reconciliation writes its own job only, and keeps every delivery that exists.\<close>

lemma reconcile_job_other:
  assumes "job_ID b \<noteq> i"
  shows "q_jobs (sys_jobs (reconcile_job d now clock k b s)) i = q_jobs (sys_jobs s) i"
proof -
  have can: "sys_cancel (job_ID b) reason t s0 = (x, s1) \<Longrightarrow> q_jobs (sys_jobs s1) i = q_jobs (sys_jobs s0) i" for reason t s0 x s1
    using assms by (auto simp: sys_cancel_def jobs_Cancel_def Let_def split: option.splits if_splits)
  have enq: "sys_jobs (snd (sys_enqueue spec j t s0)) = sys_jobs s0" for spec j t s0
    by (simp add: sys_enqueue_frame)
  have enq': "sys_enqueue spec j t s0 = (x, s1) \<Longrightarrow> sys_jobs s1 = sys_jobs s0" for spec j t s0 x s1
    using enq [of spec j t s0] by simp
  have mark: "q_jobs (sys_jobs (markFinalDeliveryEnqueued b t s0)) i = q_jobs (sys_jobs s0) i" for t s0
    using assms by (simp add: markFinalDeliveryEnqueued_def jobs_MarkFinalDeliveryEnqueued_def Let_def split: option.split)
  have rel [simp]: "sys_jobs (sys_release r s0) = sys_jobs s0" for r s0 by (simp add: sys_release_def)
  have notice_: "sys_jobs (enqueueInteractiveFailureNotice d c j t s0) = sys_jobs s0" for c j t s0
    by (simp add: enqueueInteractiveFailureNotice_def enq)
  have exp: "sys_jobs (enqueueExpiredApprovalUpdate c v r j t s0) = sys_jobs s0" for c v r j t s0
    by (simp add: enqueueExpiredApprovalUpdate_def enq split: sum.split)
  have cw: "cancel_waiting b clock s0 = (x, s1) \<Longrightarrow> q_jobs (sys_jobs s1) i = q_jobs (sys_jobs s0) i" for s0 x s1
    by (auto simp: cancel_waiting_def dest: can split: sum.splits prod.splits)
  have "q_jobs (snd (jobs_ResumeFromApproval (job_ID b) a h t t' q)) i = q_jobs q i" for a h t t' q
    using assms by (simp add: jobs_ResumeFromApproval_def Let_def split: option.split)
  then have "q_jobs (sys_jobs (reconcile_waiting now clock k b s)) i = q_jobs (sys_jobs s) i"
    by (auto simp: reconcile_waiting_def Let_def exp dest: cw split: sum.splits prod.splits bool.splits)
      (metis cw prod.collapse rel)
  moreover have "q_jobs (sys_jobs (reconcileSucceededJobDelivery d clock k b s)) i = q_jobs (sys_jobs s) i"
    by (auto simp: reconcileSucceededJobDelivery_def mark dest: enq' split: sum.splits prod.splits)
  moreover have "q_jobs (sys_jobs (reconcile_queued d now clock k b s)) i = q_jobs (sys_jobs s) i"
    by (auto simp: reconcile_queued_def Let_def notice_ dest: can split: sum.splits prod.splits)
  moreover have "q_jobs (sys_jobs (reconcile_retry d clock k b s)) i = q_jobs (sys_jobs s) i"
    using assms
    by (auto simp: reconcile_retry_def Let_def notice_ jobs_ReleaseRetryWait_def split: sum.splits prod.splits option.splits if_splits)
  ultimately show ?thesis by (simp add: reconcile_job_def)
qed

end
