(* ===== verification/GoText.thy ===== *)
theory GoText
  imports Prelude
begin

text \<open>
  The parts of Go's \<^verbatim>\<open>strings\<close> and \<^verbatim>\<open>unicode/utf8\<close> that the text-handling components use
  (context packs, the Slack renderer, the observer): searching and splitting byte strings,
  and decoding them as UTF-8.  A string is its bytes, so a code point is a group of them:
  \<open>runes\<close> cuts a string into those groups, one byte each where the encoding is invalid, as
  the decoder of the standard library does.
\<close>

section \<open>Searching and splitting\<close>

definition HasSuffix :: "string \<Rightarrow> string \<Rightarrow> bool" where
  "HasSuffix s p \<longleftrightarrow> HasPrefix (rev s) (rev p)"

definition TrimSuffix :: "string \<Rightarrow> string \<Rightarrow> string" where
  "TrimSuffix s p = (if HasSuffix s p then take (length s - length p) s else s)"

text \<open>\<open>None\<close> is Go's \<open>-1\<close>.\<close>

fun Index :: "string \<Rightarrow> string \<Rightarrow> nat option" where
  "Index [] p = (if p = [] then Some 0 else None)"
| "Index (c # s) p = (if HasPrefix (c # s) p then Some 0 else map_option Suc (Index s p))"

definition LastIndex :: "string \<Rightarrow> string \<Rightarrow> nat option" where
  "LastIndex s p = map_option (\<lambda>i. length s - length p - i) (Index (rev s) (rev p))"

lemma Index_Some: "Index s p = Some i \<Longrightarrow> s = take i s @ p @ drop (i + length p) s \<and> i + length p \<le> length s"
proof (induction s arbitrary: i)
  case (Cons c s)
  then show ?case
    by (cases "HasPrefix (c # s) p") (auto simp: HasPrefix_iff dest: arg_cong [of _ _ length])
qed (auto split: if_splits)

lemma Index_None: "Index s p = None \<longleftrightarrow> \<not> Contains s p"
  by (induction s) auto

text \<open>\<^verbatim>\<open>strings.Count\<close>, \<^verbatim>\<open>strings.Split\<close> and \<^verbatim>\<open>strings.ReplaceAll\<close> for a separator that is not empty.\<close>

function Count :: "string \<Rightarrow> string \<Rightarrow> nat" where
  "Count s p =
     (if p = [] then 0
      else case Index s p of None \<Rightarrow> 0 | Some i \<Rightarrow> Suc (Count (drop (i + length p) s) p))"
  by pat_completeness auto
termination
  by (relation "measure (\<lambda>(s, p). length s)") (auto dest!: Index_Some simp: diff_less_mono2 neq_Nil_conv)

function Split :: "string \<Rightarrow> string \<Rightarrow> string list" where
  "Split s p =
     (if p = [] then [s]
      else case Index s p of None \<Rightarrow> [s] | Some i \<Rightarrow> take i s # Split (drop (i + length p) s) p)"
  by pat_completeness auto
termination
  by (relation "measure (\<lambda>(s, p). length s)") (auto dest!: Index_Some simp: diff_less_mono2 neq_Nil_conv)

fun Join :: "string list \<Rightarrow> string \<Rightarrow> string" where
  "Join [] sep = []"
| "Join [x] sep = x"
| "Join (x # y # xs) sep = x @ sep @ Join (y # xs) sep"

definition ReplaceAll :: "string \<Rightarrow> string \<Rightarrow> string \<Rightarrow> string" where
  "ReplaceAll s p new = Join (Split s p) new"

declare Count.simps [simp del] Split.simps [simp del]

lemma Join_Split: "p \<noteq> [] \<Longrightarrow> Join (Split s p) p = s"
proof (induction s p rule: Split.induct)
  case (1 s p)
  show ?case
  proof (cases "Index s p")
    case (Some i)
    obtain x xs where xs: "Split (drop (i + length p) s) p = x # xs"
      by (cases "Split (drop (i + length p) s) p") (auto simp: Split.simps split: option.splits if_splits)
    from 1 Some have "s = take i s @ p @ Join (Split (drop (i + length p) s) p) p"
      using Index_Some [OF Some] by simp
    with 1(2) Some xs show ?thesis by (subst Split.simps) simp
  qed (subst Split.simps, simp)
qed

section \<open>Code points\<close>

text \<open>
  The number of bytes the first one announces, and the range of the second one
  (\<^verbatim>\<open>acceptRanges\<close> of \<^verbatim>\<open>unicode/utf8\<close>: no overlong forms, no surrogates, nothing above U+10FFFF).
\<close>

definition rune_need :: "nat \<Rightarrow> nat" where
  "rune_need b = (if b < 0x80 then 1 else if b < 0xC2 then 0 else if b < 0xE0 then 2 else if b < 0xF0 then 3
                  else if b < 0xF5 then 4 else 0)"

definition second_byte_ok :: "nat \<Rightarrow> nat \<Rightarrow> bool" where
  "second_byte_ok b c \<longleftrightarrow>
     (if b = 0xE0 then 0xA0 else if b = 0xF0 then 0x90 else 0x80) \<le> c
     \<and> c \<le> (if b = 0xED then 0x9F else if b = 0xF4 then 0x8F else 0xBF)"

definition is_cont :: "char \<Rightarrow> bool" where
  "is_cont c \<longleftrightarrow> 0x80 \<le> (of_char c :: nat) \<and> (of_char c :: nat) \<le> 0xBF"

text \<open>
  The number of bytes of the code point at the front (\<^verbatim>\<open>utf8.DecodeRuneInString\<close>): 0 when the
  bytes are no valid encoding, for which the decoder answers \<^verbatim>\<open>RuneError\<close> of one byte.
\<close>

definition valid_rune_len :: "string \<Rightarrow> nat" where
  "valid_rune_len s =
     (case s of
        [] \<Rightarrow> 0
      | c # r \<Rightarrow>
          let n = rune_need (of_char c); t = take (n - 1) r
          in if length t = n - 1 \<and> (case t of [] \<Rightarrow> True | d # u \<Rightarrow> second_byte_ok (of_char c) (of_char d) \<and> list_all is_cont u)
             then n else 0)"

definition rune_len :: "string \<Rightarrow> nat" where
  "rune_len s = max 1 (valid_rune_len s)"

function runes :: "string \<Rightarrow> string list" where
  "runes s = (if s = [] then [] else take (rune_len s) s # runes (drop (rune_len s) s))"
  by pat_completeness auto
termination
  by (relation "measure length") (auto simp: rune_len_def)

declare runes.simps [simp del]

definition RuneCountInString :: "string \<Rightarrow> int" where
  "RuneCountInString s = int (length (runes s))"

definition ValidString :: "string \<Rightarrow> bool" where
  "ValidString s \<longleftrightarrow> list_all (\<lambda>r. valid_rune_len r = length r) (runes s)"

text \<open>\<^verbatim>\<open>string([]rune(s)[i:j])\<close>: an invalid byte comes back as U+FFFD.\<close>

definition rune_string :: "string \<Rightarrow> string" where
  "rune_string r = (if valid_rune_len r = length r then r else [CHR 0xEF, CHR 0xBF, CHR 0xBD])"

definition rune_slice :: "string \<Rightarrow> nat \<Rightarrow> nat \<Rightarrow> string" where
  "rune_slice s i j = concat (map rune_string (take (j - i) (drop i (runes s))))"

lemma runes_Nil [simp]: "runes [] = []"
  by (simp add: runes.simps)

lemma runes_not_Nil: "s \<noteq> [] \<Longrightarrow> runes s = take (rune_len s) s # runes (drop (rune_len s) s)"
  by (subst runes.simps) simp

lemma concat_runes [simp]: "concat (runes s) = s"
  by (induction s rule: runes.induct) (subst runes.simps, simp)

lemma rune_need_le: "rune_need b \<le> 4"
  by (simp add: rune_need_def)

lemma valid_rune_len_le: "valid_rune_len s \<le> length s"
  by (cases s) (auto simp: valid_rune_len_def Let_def)

lemma valid_rune_len_le_4: "valid_rune_len s \<le> 4"
  by (cases s) (auto simp: valid_rune_len_def Let_def rune_need_le)

text \<open>Whether a code point stands at the front is decided by its own bytes.\<close>

lemma valid_rune_len_append:
  assumes "0 < valid_rune_len s"
  shows "valid_rune_len (s @ t) = valid_rune_len s"
proof (cases s)
  case (Cons c r)
  then have "length (take (rune_need (of_char c) - 1) r) = rune_need (of_char c) - 1"
    using assms by (auto simp: valid_rune_len_def Let_def split: if_splits)
  then have "take (rune_need (of_char c) - 1) (r @ t) = take (rune_need (of_char c) - 1) r" by simp
  then show ?thesis unfolding Cons valid_rune_len_def by (simp only: append_Cons list.case Let_def)
qed (use assms in \<open>simp add: valid_rune_len_def\<close>)

lemma valid_rune_len_take: "valid_rune_len (take (valid_rune_len s) s) = valid_rune_len s"
proof (cases s)
  case (Cons c r)
  show ?thesis
  proof (cases "valid_rune_len s")
    case (Suc n)
    then have n: "Suc n = rune_need (of_char c)" using Cons by (auto simp: valid_rune_len_def Let_def split: if_splits)
    have "take (valid_rune_len s) s = c # take n r" using Cons unfolding Suc by simp
    moreover have "rune_need (of_char c) - 1 = n" using n by simp
    ultimately show ?thesis using Suc Cons by (auto simp: valid_rune_len_def Let_def)
  qed (simp add: valid_rune_len_def)
qed (simp add: valid_rune_len_def)

section \<open>Quoting\<close>

text \<open>
  \<^verbatim>\<open>strconv.Quote\<close>, the \<^verbatim>\<open>%q\<close> verb; \<open>printable\<close> is \<^verbatim>\<open>unicode.IsPrint\<close> of a code point outside ASCII.
\<close>

definition hex_digits :: "nat \<Rightarrow> nat \<Rightarrow> string" where
  "hex_digits width n = map (\<lambda>i. ''0123456789abcdef'' ! (n div 16 ^ (width - 1 - i) mod 16)) [0..<width]"

definition rune_value :: "string \<Rightarrow> nat" where
  "rune_value r =
     (case r of
        [] \<Rightarrow> 0
      | [c] \<Rightarrow> of_char c
      | c # cs \<Rightarrow> foldl (\<lambda>n b. n * 64 + of_char b mod 64) (of_char c mod 2 ^ (7 - length r)) cs)"

definition quote_rune :: "(string \<Rightarrow> bool) \<Rightarrow> string \<Rightarrow> string" where
  "quote_rune printable r =
     (if r = [CHR 0x22] \<or> r = [CHR 0x5C] then CHR 0x5C # r
      else if valid_rune_len r \<noteq> length r then CHR 0x5C # CHR ''x'' # hex_digits 2 (of_char (hd r))
      else if length r = 1
      then (let n = of_char (hd r) :: nat
            in if 0x20 \<le> n \<and> n < 0x7F then r
               else case map_of [(7, CHR ''a''), (8, CHR ''b''), (9, CHR ''t''), (10, CHR ''n''), (11, CHR ''v''), (12, CHR ''f''), (13, CHR ''r'')] n of
                      Some c \<Rightarrow> [CHR 0x5C, c]
                    | None \<Rightarrow> CHR 0x5C # CHR ''x'' # hex_digits 2 n)
      else if printable r then r
      else if rune_value r < 0x10000 then CHR 0x5C # CHR ''u'' # hex_digits 4 (rune_value r)
      else CHR 0x5C # CHR ''U'' # hex_digits 8 (rune_value r))"

definition Quote :: "(string \<Rightarrow> bool) \<Rightarrow> string \<Rightarrow> string" where
  "Quote printable s = [CHR 0x22] @ concat (map (quote_rune printable) (runes s)) @ [CHR 0x22]"

end
