(* ===== verification/ContextPacks.thy ===== *)
theory ContextPacks
  imports Types GoText
begin

text \<open>
  \<^verbatim>\<open>core/contextpacks/builder.go\<close>: the selection of the source-linked context a decision is made
  on.  The candidates are grouped by partition, put into a fair order of their channels and
  taken greedily within the ceiling of the partition and the budget of the pack.

  The tokenizer is the record of the methods of its interface, with the two tokenizers of the
  package as instances; the JSON encoder and SHA-256 of the content hash are parameters.
\<close>

section \<open>Tokenizers and budgets\<close>

record Tokenizer =
  tk_Revision :: string
  tk_Count :: "string \<Rightarrow> int"

definition WordTokenizer :: Tokenizer where
  "WordTokenizer = \<lparr>tk_Revision = ''word/v1'', tk_Count = (\<lambda>v. int (length (Fields v)))\<rparr>"

definition RuneTokenizer :: Tokenizer where
  "RuneTokenizer = \<lparr>tk_Revision = ''rune/v1'', tk_Count = RuneCountInString\<rparr>"

record ContextPackConfig =
  cpc_Lookback :: duration
  cpc_MaxTokens :: int
  cpc_System :: int
  cpc_Thread :: int
  cpc_Channel :: int
  cpc_RecentOrg :: int
  cpc_Evidence :: int
  cpc_Situation :: int
  cpc_Headroom :: int

definition PartitionTotal :: "ContextPackConfig \<Rightarrow> int" where
  "PartitionTotal c = cpc_System c + cpc_Thread c + cpc_Channel c + cpc_RecentOrg c + cpc_Evidence c + cpc_Situation c + cpc_Headroom c"

datatype pack_error = PackNoTokenizer | PackInvalidBudget | PackInvalidRequest | ErrRequiredSourceTooLarge string

record PackBuilder =
  pb_budget :: ContextPackConfig
  pb_tokenizer :: Tokenizer

definition packs_New :: "ContextPackConfig \<Rightarrow> Tokenizer option \<Rightarrow> pack_error + PackBuilder" where
  "packs_New budget tokenizer =
     (case tokenizer of
        None \<Rightarrow> Inl PackNoTokenizer
      | Some tk \<Rightarrow>
          if cpc_MaxTokens budget \<le> 0 \<or> PartitionTotal budget \<noteq> cpc_MaxTokens budget then Inl PackInvalidBudget
          else Inr \<lparr>pb_budget = budget, pb_tokenizer = tk\<rparr>)"

record PackRequest =
  pr_OrganizationID :: string
  pr_TargetObservationID :: string
  pr_OrganizationWatermark :: int
  pr_PolicyRevision :: string
  pr_MembershipRevision :: string
  pr_Candidates :: "ContextCandidate list"
  pr_CreatedAt :: time
  pr_ExpiresAt :: time

section \<open>The order of the candidates\<close>

definition candidate_channel :: "ContextCandidate \<Rightarrow> string" where
  "candidate_channel c = (if cand_ChannelID c = '''' then ''~global'' else cand_ChannelID c)"

text \<open>
  Within a channel: required ones first, then by falling priority, the newest first, by
  identifier.  \<^verbatim>\<open>sort.SliceStable\<close> is \<open>sort_key\<close>.
\<close>

definition candidate_rank :: "ContextCandidate \<Rightarrow> bool \<times> int \<times> int \<times> string" where
  "candidate_rank c = (\<not> cand_Required c, - cand_Priority c, - cand_ObservedAt c, cand_ID c)"

definition by_channel :: "ContextCandidate list \<Rightarrow> string \<Rightarrow> ContextCandidate list" where
  "by_channel cs ch = sort_key candidate_rank (filter (\<lambda>c. candidate_channel c = ch) cs)"

text \<open>One candidate of every channel that still has one, in rounds.\<close>

definition fair_round :: "'a list list \<Rightarrow> nat \<Rightarrow> 'a list" where
  "fair_round groups n = map (\<lambda>g. g ! n) (filter (\<lambda>g. n < length g) groups)"

definition fair_rounds :: "'a list list \<Rightarrow> 'a list" where
  "fair_rounds groups = concat (map (fair_round groups) [0..<foldr (\<lambda>g n. max (length g) n) groups 0])"

definition fairOrder :: "ContextCandidate list \<Rightarrow> ContextCandidate list" where
  "fairOrder cs = fair_rounds (map (by_channel cs) (sort (remdups (map candidate_channel cs))))"

section \<open>Building a pack\<close>

definition candidate_admitted :: "string \<Rightarrow> time \<Rightarrow> ContextCandidate \<Rightarrow> bool" where
  "candidate_admitted org created c \<longleftrightarrow>
     cand_OrganizationID c = org \<and> cand_ID c \<noteq> '''' \<and> TrimSpace (cand_Text c) \<noteq> ''''
     \<and> (IsZero (cand_SourceExpiresAt c) \<or> After (cand_SourceExpiresAt c) created)"

definition pack_expiry :: "time \<Rightarrow> ContextCandidate list \<Rightarrow> time" where
  "pack_expiry expires cs =
     fold (\<lambda>c e. if \<not> IsZero (cand_SourceExpiresAt c) \<and> Before (cand_SourceExpiresAt c) e
                 then cand_SourceExpiresAt c else e) cs expires"

definition partition_order :: "ContextPartition list" where
  "partition_order = [PartitionSystem, PartitionThread, PartitionChannel, PartitionRecentOrg, PartitionEvidence, PartitionSituation]"

fun partition_ceiling :: "ContextPackConfig \<Rightarrow> ContextPartition \<Rightarrow> int" where
  "partition_ceiling b PartitionSystem = cpc_System b"
| "partition_ceiling b PartitionThread = cpc_Thread b"
| "partition_ceiling b PartitionChannel = cpc_Channel b"
| "partition_ceiling b PartitionRecentOrg = cpc_RecentOrg b"
| "partition_ceiling b PartitionEvidence = cpc_Evidence b"
| "partition_ceiling b PartitionSituation = cpc_Situation b"
| "partition_ceiling b (PartitionOther _) = 0"

definition candidate_key :: "ContextCandidate \<Rightarrow> string" where
  "candidate_key c = cand_ID c @ ''/'' @ format_int (cand_Version c)"

definition source_of :: "ContextPartition \<Rightarrow> int \<Rightarrow> ContextCandidate \<Rightarrow> ContextSource" where
  "source_of p tokens c =
     \<lparr>src_ID = cand_ID c, src_Version = cand_Version c, src_ChannelID = cand_ChannelID c,
      src_ChannelName = cand_ChannelName c, src_AuthorID = cand_AuthorID c, src_Partition = p,
      src_Provenance = cand_Provenance c, src_TokenCount = tokens, src_DisclosureClass = cand_DisclosureClass c,
      src_Text = cand_Text c, src_ObservedAt = cand_ObservedAt c\<rparr>"

text \<open>The part of the pack the selection loop changes, with its set of keys seen.\<close>

record Selection =
  sel_Sources :: "ContextSource list"
  sel_PartitionTokens :: "ContextPartition \<Rightarrow> int"
  sel_TotalTokens :: int
  sel_seen :: "string set"

definition select_one :: "PackBuilder \<Rightarrow> ContextPartition \<Rightarrow> ContextCandidate \<Rightarrow> Selection \<Rightarrow> pack_error + Selection" where
  "select_one b p c s =
     (let tokens = tk_Count (pb_tokenizer b) (cand_Text c)
      in if candidate_key c \<in> sel_seen s then Inr s
         else if tokens \<le> 0 then Inr s
         else if partition_ceiling (pb_budget b) p < sel_PartitionTokens s p + tokens
                 \<or> cpc_MaxTokens (pb_budget b) - cpc_Headroom (pb_budget b) < sel_TotalTokens s + tokens
         then (if cand_Required c then Inl (ErrRequiredSourceTooLarge (cand_ID c)) else Inr s)
         else Inr \<lparr>sel_Sources = sel_Sources s @ [source_of p tokens c],
                   sel_PartitionTokens = (sel_PartitionTokens s)(p := sel_PartitionTokens s p + tokens),
                   sel_TotalTokens = sel_TotalTokens s + tokens,
                   sel_seen = insert (candidate_key c) (sel_seen s)\<rparr>)"

fun select_all :: "PackBuilder \<Rightarrow> (ContextPartition \<times> ContextCandidate) list \<Rightarrow> Selection \<Rightarrow> pack_error + Selection" where
  "select_all b [] s = Inr s"
| "select_all b ((p, c) # cs) s =
     (case select_one b p c s of Inl e \<Rightarrow> Inl e | Inr s' \<Rightarrow> select_all b cs s')"

definition no_selection :: Selection where
  "no_selection = \<lparr>sel_Sources = [], sel_PartitionTokens = (\<lambda>_. 0), sel_TotalTokens = 0, sel_seen = {}\<rparr>"

definition visiting_order :: "ContextCandidate list \<Rightarrow> (ContextPartition \<times> ContextCandidate) list" where
  "visiting_order cs =
     concat (map (\<lambda>p. map (Pair p) (fairOrder (filter (\<lambda>c. cand_Partition c = p) cs))) partition_order)"

text \<open>The fields the content hash covers, in the order of the canonical struct.\<close>

type_synonym PackCanonical = "string \<times> string \<times> int \<times> string \<times> string \<times> string \<times> ContextSource list"

definition contentHash :: "(PackCanonical \<Rightarrow> string) \<Rightarrow> (string \<Rightarrow> string) \<Rightarrow> ContextPackRevision \<Rightarrow> string" where
  "contentHash marshal sha p =
     ''sha256:'' @ hex_encode (sha (marshal
       (pack_OrganizationID p, pack_TargetObservationID p, pack_OrganizationWatermark p, pack_PolicyRevision p,
        pack_MembershipRevision p, pack_TokenizerRevision p, pack_Sources p)))"

definition packs_Build ::
  "(PackCanonical \<Rightarrow> string) \<Rightarrow> (string \<Rightarrow> string) \<Rightarrow> PackBuilder \<Rightarrow> PackRequest \<Rightarrow> string \<Rightarrow> time \<Rightarrow> pack_error + ContextPackRevision" where
  "packs_Build marshal sha b r i now =
     (if pr_OrganizationID r = '''' \<or> pr_TargetObservationID r = '''' then Inl PackInvalidRequest
      else
        let created = (if IsZero (pr_CreatedAt r) then now else pr_CreatedAt r);
            expires = (if IsZero (pr_ExpiresAt r) then created + 24 * Hour else pr_ExpiresAt r);
            admitted = filter (candidate_admitted (pr_OrganizationID r) created) (pr_Candidates r)
        in case select_all b (visiting_order admitted) no_selection of
             Inl e \<Rightarrow> Inl e
           | Inr s \<Rightarrow>
               let p = \<lparr>pack_ID = i, pack_OrganizationID = pr_OrganizationID r,
                        pack_TargetObservationID = pr_TargetObservationID r,
                        pack_OrganizationWatermark = pr_OrganizationWatermark r,
                        pack_PolicyRevision = pr_PolicyRevision r, pack_MembershipRevision = pr_MembershipRevision r,
                        pack_TokenizerRevision = tk_Revision (pb_tokenizer b),
                        pack_Sources = sel_Sources s, pack_PartitionTokens = sel_PartitionTokens s,
                        pack_TotalTokens = sel_TotalTokens s, pack_ContentHash = '''',
                        pack_CreatedAt = created, pack_ExpiresAt = pack_expiry expires admitted\<rparr>
               in Inr (p\<lparr>pack_ContentHash := contentHash marshal sha p\<rparr>))"

section \<open>The fair order is a permutation\<close>

lemma fair_rounds_set: "set (fair_rounds gs) = \<Union> (set ` set gs)"
proof (intro set_eqI iffI)
  fix x assume "x \<in> \<Union> (set ` set gs)"
  then obtain g where g: "g \<in> set gs" "x \<in> set g" by blast
  then obtain n where n: "n < length g" "x = g ! n" by (auto simp: in_set_conv_nth)
  have "length g \<le> foldr (\<lambda>g n. max (length g) n) gs 0" using g(1) by (induction gs) auto
  with n have "n \<in> set [0..<foldr (\<lambda>g n. max (length g) n) gs 0]" by simp
  moreover have "x \<in> set (fair_round gs n)" using g n by (auto simp: fair_round_def)
  ultimately show "x \<in> set (fair_rounds gs)" unfolding fair_rounds_def by auto
qed (use nth_mem in \<open>fastforce simp: fair_rounds_def fair_round_def\<close>)

lemma fairOrder_set: "set (fairOrder cs) = set cs"
  by (auto simp: fairOrder_def fair_rounds_set by_channel_def)

lemma visiting_order_set:
  "(p, c) \<in> set (visiting_order cs) \<longleftrightarrow> c \<in> set cs \<and> cand_Partition c = p \<and> p \<in> set partition_order"
  by (auto simp: visiting_order_def fairOrder_set)

section \<open>What the selection loop keeps\<close>

definition sum_tokens :: "ContextSource list \<Rightarrow> int" where
  "sum_tokens ss = sum_list (map src_TokenCount ss)"

definition source_key :: "ContextSource \<Rightarrow> string" where
  "source_key s = src_ID s @ ''/'' @ format_int (src_Version s)"

lemma sum_tokens_snoc [simp]: "sum_tokens (ss @ [s]) = sum_tokens ss + src_TokenCount s" "sum_tokens [] = 0"
  by (simp_all add: sum_tokens_def)

definition selection_ok :: "PackBuilder \<Rightarrow> (ContextPartition \<times> ContextCandidate) set \<Rightarrow> Selection \<Rightarrow> bool" where
  "selection_ok b seen s \<longleftrightarrow>
     sel_TotalTokens s = sum_tokens (sel_Sources s)
     \<and> (\<forall>p. sel_PartitionTokens s p = sum_tokens (filter (\<lambda>x. src_Partition x = p) (sel_Sources s)))
     \<and> sel_seen s = source_key ` set (sel_Sources s)
     \<and> distinct (map source_key (sel_Sources s))
     \<and> (\<forall>x \<in> set (sel_Sources s). \<exists>c p. (p, c) \<in> seen \<and> x = source_of p (tk_Count (pb_tokenizer b) (cand_Text c)) c
            \<and> 0 < src_TokenCount x)"

lemma no_selection_ok: "selection_ok b seen no_selection"
  by (simp add: selection_ok_def no_selection_def)

lemma source_of_simps [simp]:
  "src_Partition (source_of p n c) = p" "src_TokenCount (source_of p n c) = n" "source_key (source_of p n c) = candidate_key c"
  by (simp_all add: source_of_def source_key_def candidate_key_def)

lemma select_one_ok:
  assumes "selection_ok b seen s" "select_one b p c s = Inr s'" "(p, c) \<in> seen"
  shows "selection_ok b seen s'"
proof (cases "s' = s")
  case False
  define n where "n = tk_Count (pb_tokenizer b) (cand_Text c)"
  from False assms(2) have new: "candidate_key c \<notin> sel_seen s" "0 < n" and s': "s' = \<lparr>sel_Sources = sel_Sources s @ [source_of p n c],
                   sel_PartitionTokens = (sel_PartitionTokens s)(p := sel_PartitionTokens s p + n),
                   sel_TotalTokens = sel_TotalTokens s + n,
                   sel_seen = insert (candidate_key c) (sel_seen s)\<rparr>"
    by (auto simp: select_one_def n_def [symmetric] Let_def split: if_splits)
  from assms(3) have "\<exists>d q. (q, d) \<in> seen \<and> source_of p n c = source_of q (tk_Count (pb_tokenizer b) (cand_Text d)) d"
    unfolding n_def by blast
  with assms(1) new show ?thesis
    unfolding selection_ok_def s' by auto
qed (use assms in simp)

lemma select_one_bounded:
  assumes "select_one b p c s = Inr s'"
    and "sel_TotalTokens s \<le> max 0 (cpc_MaxTokens (pb_budget b) - cpc_Headroom (pb_budget b))"
    and "\<forall>q. sel_PartitionTokens s q \<le> max 0 (partition_ceiling (pb_budget b) q)"
  shows "sel_TotalTokens s' \<le> max 0 (cpc_MaxTokens (pb_budget b) - cpc_Headroom (pb_budget b))
    \<and> (\<forall>q. sel_PartitionTokens s' q \<le> max 0 (partition_ceiling (pb_budget b) q))"
  using assms by (auto simp: select_one_def Let_def split: if_splits)

lemma select_one_grows:
  "select_one b p c s = Inr s' \<Longrightarrow> sel_seen s \<subseteq> sel_seen s'"
  by (auto simp: select_one_def Let_def split: if_splits)

lemma select_one_required:
  "select_one b p c s = Inr s' \<Longrightarrow> cand_Required c \<Longrightarrow> 0 < tk_Count (pb_tokenizer b) (cand_Text c) \<Longrightarrow> candidate_key c \<in> sel_seen s'"
  by (auto simp: select_one_def Let_def split: if_splits)

lemma select_all_ok:
  assumes "select_all b cs s = Inr s'" "selection_ok b seen s" "set cs \<subseteq> seen"
    and "sel_TotalTokens s \<le> max 0 (cpc_MaxTokens (pb_budget b) - cpc_Headroom (pb_budget b))"
    and "\<forall>q. sel_PartitionTokens s q \<le> max 0 (partition_ceiling (pb_budget b) q)"
  shows "selection_ok b seen s'
    \<and> sel_TotalTokens s' \<le> max 0 (cpc_MaxTokens (pb_budget b) - cpc_Headroom (pb_budget b))
    \<and> (\<forall>q. sel_PartitionTokens s' q \<le> max 0 (partition_ceiling (pb_budget b) q))
    \<and> sel_seen s \<subseteq> sel_seen s'
    \<and> (\<forall>(p, c) \<in> set cs. cand_Required c \<and> 0 < tk_Count (pb_tokenizer b) (cand_Text c) \<longrightarrow> candidate_key c \<in> sel_seen s')"
  using assms
proof (induction b cs s rule: select_all.induct)
  case (2 b p c cs s)
  then obtain s1 where s1: "select_one b p c s = Inr s1" "select_all b cs s1 = Inr s'"
    by (auto split: sum.splits)
  note bd = select_one_bounded [OF s1(1) 2(5,6)]
  have "selection_ok b seen s1" using select_one_ok [OF 2(3) s1(1)] 2(4) by simp
  from 2(1) [OF s1 this] 2(4) bd select_one_grows [OF s1(1)] select_one_required [OF s1(1)]
  show ?case by auto
qed simp

lemma pack_expiry_le:
  "pack_expiry e cs \<le> e \<and> (\<forall>c \<in> set cs. IsZero (cand_SourceExpiresAt c) \<or> pack_expiry e cs \<le> cand_SourceExpiresAt c)"
proof (induction cs arbitrary: e)
  case (Cons c cs)
  define e' where "e' = (if \<not> IsZero (cand_SourceExpiresAt c) \<and> Before (cand_SourceExpiresAt c) e then cand_SourceExpiresAt c else e)"
  have "pack_expiry e (c # cs) = pack_expiry e' cs" by (simp add: pack_expiry_def e'_def)
  moreover have "e' \<le> e" "IsZero (cand_SourceExpiresAt c) \<or> e' \<le> cand_SourceExpiresAt c" by (auto simp: e'_def)
  ultimately show ?case using Cons [of e'] by (auto intro: order_trans)
qed (simp add: pack_expiry_def)


lemma slash_tail_unique:
  assumes "a @ ''/'' @ x = b @ ''/'' @ y" "slash_free x" "slash_free y"
  shows "a = b \<and> x = y"
proof -
  have "rev x @ CHR ''/'' # rev a = rev y @ CHR ''/'' # rev b"
    using arg_cong [OF assms(1), of rev] by simp
  moreover have "slash_free (rev x)" "slash_free (rev y)" using assms(2,3) by (simp_all add: slash_free_def)
  ultimately show ?thesis using slash_split_unique [of "rev x" "rev y" "rev a" "rev b"] by simp
qed

lemma key_same_source: "source_key x = candidate_key c \<Longrightarrow> src_ID x = cand_ID c \<and> src_Version x = cand_Version c"
  unfolding source_key_def candidate_key_def
  by (drule slash_tail_unique) (simp_all add: format_int_slash_free format_int_inject)

section \<open>The pack\<close>

definition pack_created :: "PackRequest \<Rightarrow> time \<Rightarrow> time" where
  "pack_created r now = (if IsZero (pr_CreatedAt r) then now else pr_CreatedAt r)"

text \<open>
  C31. A context pack keeps its budget and its sources.  Every pack \<^verbatim>\<open>Build\<close> returns counts its
  tokens right, in total and per partition, stays within the ceiling of every partition and
  within the budget less its headroom, lists no source twice, lists only unexpired, nonblank
  candidates of its own organization with their own text and provenance, expires no later than
  any of them, and misses no required candidate that has a token.
\<close>
theorem context_pack_within_budget:
  assumes "packs_Build marshal sha b r i now = Inr pack"
  shows "pack_TotalTokens pack = sum_list (map src_TokenCount (pack_Sources pack))
    \<and> pack_TotalTokens pack \<le> max 0 (cpc_MaxTokens (pb_budget b) - cpc_Headroom (pb_budget b))
    \<and> (\<forall>p. pack_PartitionTokens pack p = sum_list (map src_TokenCount (filter (\<lambda>x. src_Partition x = p) (pack_Sources pack)))
         \<and> pack_PartitionTokens pack p \<le> max 0 (partition_ceiling (pb_budget b) p))
    \<and> distinct (map (\<lambda>x. (src_ID x, src_Version x)) (pack_Sources pack))
    \<and> (\<forall>x \<in> set (pack_Sources pack). \<exists>c \<in> set (pr_Candidates r).
         candidate_admitted (pr_OrganizationID r) (pack_created r now) c
         \<and> x = source_of (cand_Partition c) (tk_Count (pb_tokenizer b) (cand_Text c)) c
         \<and> (IsZero (cand_SourceExpiresAt c) \<or> pack_ExpiresAt pack \<le> cand_SourceExpiresAt c))
    \<and> (\<forall>c \<in> set (pr_Candidates r).
         candidate_admitted (pr_OrganizationID r) (pack_created r now) c \<and> cand_Required c
         \<and> cand_Partition c \<in> set partition_order \<and> 0 < tk_Count (pb_tokenizer b) (cand_Text c)
         \<longrightarrow> (cand_ID c, cand_Version c) \<in> (\<lambda>x. (src_ID x, src_Version x)) ` set (pack_Sources pack))"
proof -
  define admitted where "admitted = filter (candidate_admitted (pr_OrganizationID r) (pack_created r now)) (pr_Candidates r)"
  obtain s where s: "select_all b (visiting_order admitted) no_selection = Inr s"
    and pack: "pack_Sources pack = sel_Sources s" "pack_PartitionTokens pack = sel_PartitionTokens s"
      "pack_TotalTokens pack = sel_TotalTokens s" "pack_ExpiresAt pack = pack_expiry (if IsZero (pr_ExpiresAt r) then pack_created r now + 24 * Hour else pr_ExpiresAt r) admitted"
    using assms by (auto simp: packs_Build_def pack_created_def Let_def admitted_def split: if_splits sum.splits)
  note ok = select_all_ok [OF s no_selection_ok subset_refl]
  have ok1: "selection_ok b (set (visiting_order admitted)) s"
    and le: "sel_TotalTokens s \<le> max 0 (cpc_MaxTokens (pb_budget b) - cpc_Headroom (pb_budget b))"
      "\<forall>q. sel_PartitionTokens s q \<le> max 0 (partition_ceiling (pb_budget b) q)"
    and req: "\<forall>(p, c) \<in> set (visiting_order admitted). cand_Required c \<and> 0 < tk_Count (pb_tokenizer b) (cand_Text c) \<longrightarrow> candidate_key c \<in> sel_seen s"
    using ok by (simp_all add: no_selection_def)
  note parts = ok1 [unfolded selection_ok_def sum_tokens_def]
  have dist: "distinct (map (\<lambda>x. (src_ID x, src_Version x)) (sel_Sources s))"
    using parts by (auto simp: distinct_map inj_on_def source_key_def)
  have src: "\<exists>c \<in> set (pr_Candidates r). candidate_admitted (pr_OrganizationID r) (pack_created r now) c
         \<and> x = source_of (cand_Partition c) (tk_Count (pb_tokenizer b) (cand_Text c)) c
         \<and> (IsZero (cand_SourceExpiresAt c) \<or> pack_ExpiresAt pack \<le> cand_SourceExpiresAt c)" if x: "x \<in> set (sel_Sources s)" for x
  proof -
    from x parts obtain c p where c: "(p, c) \<in> set (visiting_order admitted)"
      "x = source_of p (tk_Count (pb_tokenizer b) (cand_Text c)) c" by blast
    then show ?thesis using pack(4) pack_expiry_le [of _ admitted]
      by (auto simp: visiting_order_set admitted_def)
  qed
  have reqd: "(cand_ID c, cand_Version c) \<in> (\<lambda>x. (src_ID x, src_Version x)) ` set (sel_Sources s)"
    if c: "c \<in> set (pr_Candidates r)" "candidate_admitted (pr_OrganizationID r) (pack_created r now) c" "cand_Required c"
      "cand_Partition c \<in> set partition_order" "0 < tk_Count (pb_tokenizer b) (cand_Text c)" for c
  proof -
    have "(cand_Partition c, c) \<in> set (visiting_order admitted)"
      using c by (simp add: visiting_order_set admitted_def)
    with req c have "candidate_key c \<in> source_key ` set (sel_Sources s)" using parts by auto
    then obtain x where "x \<in> set (sel_Sources s)" "source_key x = candidate_key c" by auto
    with key_same_source [of x c] show ?thesis by (metis (no_types, lifting) image_iff)
  qed
  have tot: "sel_TotalTokens s = sum_list (map src_TokenCount (sel_Sources s))"
    and per: "sel_PartitionTokens s p = sum_list (map src_TokenCount (filter (\<lambda>x. src_Partition x = p) (sel_Sources s)))" for p
    using parts by blast+
  show ?thesis
    unfolding pack(1-3) using tot per le dist src reqd by (intro conjI allI ballI impI) blast+
qed


section \<open>A concrete pack\<close>

definition sample_budget :: ContextPackConfig where
  "sample_budget = \<lparr>cpc_Lookback = 1, cpc_MaxTokens = 7, cpc_System = 1, cpc_Thread = 2, cpc_Channel = 2,
     cpc_RecentOrg = 0, cpc_Evidence = 1, cpc_Situation = 0, cpc_Headroom = 1\<rparr>"

definition sample_builder :: PackBuilder where
  "sample_builder = \<lparr>pb_budget = sample_budget, pb_tokenizer = WordTokenizer\<rparr>"

definition sample_candidate :: "string \<Rightarrow> string \<Rightarrow> bool \<Rightarrow> string \<Rightarrow> ContextCandidate" where
  "sample_candidate i ch req t = \<lparr>cand_ID = i, cand_Version = 1, cand_OrganizationID = ''o'', cand_ChannelID = ch,
     cand_ChannelName = ch, cand_AuthorID = ''u'', cand_Partition = PartitionThread, cand_Provenance = ''slack'', cand_Text = t,
     cand_Priority = 0, cand_ObservedAt = 5, cand_DisclosureClass = DisclosureDestinationSafe, cand_Required = req,
     cand_SourceExpiresAt = 90\<rparr>"

definition sample_pack_request :: "ContextCandidate list \<Rightarrow> PackRequest" where
  "sample_pack_request cs = \<lparr>pr_OrganizationID = ''o'', pr_TargetObservationID = ''obs'', pr_OrganizationWatermark = 3,
     pr_PolicyRevision = ''p'', pr_MembershipRevision = ''m'', pr_Candidates = cs, pr_CreatedAt = 10, pr_ExpiresAt = 0\<rparr>"

definition sample_pack :: "ContextCandidate list \<Rightarrow> pack_error + ContextPackRevision" where
  "sample_pack cs = packs_Build (\<lambda>_. []) id sample_builder (sample_pack_request cs) ''ctx'' 10"

lemma sample_pack_result:
  "map_sum id (\<lambda>p. (map src_ID (pack_Sources p), pack_ExpiresAt p))
     (sample_pack [sample_candidate ''a'' ''c'' False ''one two'', sample_candidate ''b'' ''c'' True ''three'']) = Inr ([''b''], 90)"
  by code_simp

theorem context_pack_within_budget_witness:
  "\<exists>pack. sample_pack [sample_candidate ''a'' ''c'' False ''one two'', sample_candidate ''b'' ''c'' True ''three''] = Inr pack
     \<and> pack_TotalTokens pack \<le> 6 \<and> map src_ID (pack_Sources pack) = [''b'']"
proof -
  obtain pack where p: "sample_pack [sample_candidate ''a'' ''c'' False ''one two'', sample_candidate ''b'' ''c'' True ''three''] = Inr pack"
    "map src_ID (pack_Sources pack) = [''b'']"
    using sample_pack_result by (auto simp: map_sum_def split: sum.splits)
  from context_pack_within_budget [OF p(1) [unfolded sample_pack_def]]
  have "pack_TotalTokens pack \<le> max 0 (cpc_MaxTokens (pb_budget sample_builder) - cpc_Headroom (pb_budget sample_builder))" by blast
  with p show ?thesis by (simp add: sample_builder_def sample_budget_def)
qed

text \<open>
  The fair order visits channel by channel, so an optional candidate of one channel can use up
  the partition before the required candidate of another is reached, and the whole pack fails
  although the required candidate fits the partition on its own.
\<close>

lemma required_source_starved:
  "map_sum id pack_ID (sample_pack [sample_candidate ''a'' ''a'' False ''one two'', sample_candidate ''b'' ''b'' True ''three''])
     = Inl (ErrRequiredSourceTooLarge ''b'')"
  "map_sum id pack_ID (sample_pack [sample_candidate ''b'' ''b'' True ''three'']) = Inr ''ctx''"
  by code_simp+

end
