(* ===== verification/Observer.thy ===== *)
theory Observer
  imports Types GoText
begin

text \<open>
  The observation store of \<^verbatim>\<open>core/observer\<close> (\<^verbatim>\<open>store.go\<close>, \<^verbatim>\<open>memory_store.go\<close>): every Slack event is
  recorded once, claimed by one decision at a time, and folded into the current state of the
  message it is about.
\<close>

section \<open>Records (models.Observation, models.ChannelMessage)\<close>

datatype observer_error = ErrInvalidEnvelope | ErrNoPendingObservation | ErrMessageNotFound

record Observation =
  ob_PublicID :: string
  ob_OrganizationID :: string
  ob_TeamID :: string
  ob_ChannelID :: string
  ob_EventID :: string
  ob_EnvelopeID :: string
  ob_ReceivedSeq :: int
  ob_OrganizationReceivedSeq :: int
  ob_SlackEventTime :: time
  ob_ReceivedAt :: time
  ob_MessageTS :: string
  ob_RootThreadTS :: string
  ob_UserID :: string
  ob_BotID :: string
  ob_Restricted :: bool
  ob_IsMention :: bool
  ob_OriginTag :: string
  ob_EventType :: SlackEventKind
  ob_Subtype :: string
  ob_Text :: string
  ob_Images :: "SlackImageRef list"
  ob_MutationTargetTS :: string
  ob_ScopeState :: string
  ob_DecisionState :: string
  ob_DecisionLeaseOwner :: string
  ob_DecisionLeaseToken :: string
  ob_DecisionLeaseExpiresAt :: time
  ob_OutputProduced :: bool
  ob_OutputReservationID :: string
  ob_OutputJobID :: string
  ob_OutputDeliveryID :: string
  ob_CreatedAt :: time
  ob_ExpiresAt :: time
  ob_Version :: int

record ChannelMessage =
  cm_OrganizationID :: string
  cm_TeamID :: string
  cm_ChannelID :: string
  cm_MessageTS :: string
  cm_RootThreadTS :: string
  cm_AuthorID :: string
  cm_BotID :: string
  cm_Subtype :: string
  cm_Text :: string
  cm_Images :: "SlackImageRef list"
  cm_Deleted :: bool
  cm_Restricted :: bool
  cm_SourceEventID :: string
  cm_SourceEventAt :: time
  cm_SourceEventRank :: int
  cm_ProjectionVersion :: int
  cm_OriginalAt :: time
  cm_UpdatedAt :: time

record ObserverStore =
  os_retention :: duration
  os_observations :: "string \<rightharpoonup> Observation"
  os_byPublic :: "string \<rightharpoonup> string"
  os_messages :: "string \<rightharpoonup> ChannelMessage"
  os_channelSeq :: "string \<rightharpoonup> int"
  os_organizationSeq :: "string \<rightharpoonup> int"

definition NewObserverStore :: "duration \<Rightarrow> ObserverStore" where
  "NewObserverStore retention =
     \<lparr>os_retention = retention, os_observations = Map.empty, os_byPublic = Map.empty, os_messages = Map.empty,
      os_channelSeq = Map.empty, os_organizationSeq = Map.empty\<rparr>"

section \<open>Envelopes (store.go)\<close>

definition ValidateEnvelope :: "SlackEnvelope \<Rightarrow> bool" where
  "ValidateEnvelope e \<longleftrightarrow>
     env_OrganizationID e \<noteq> '''' \<and> env_TeamID e \<noteq> '''' \<and> env_ChannelID e \<noteq> '''' \<and> env_EventID e \<noteq> ''''
     \<and> env_EnvelopeID e \<noteq> '''' \<and> (env_MessageTS e \<noteq> '''' \<or> env_TargetTS e \<noteq> '''')
     \<and> env_Kind e \<in> {SlackEventMessage, SlackEventEdit, SlackEventDelete}"

definition eventTime :: "SlackEnvelope \<Rightarrow> time \<Rightarrow> time" where
  "eventTime e now =
     (if \<not> IsZero (env_EventTime e) then env_EventTime e
      else if \<not> IsZero (env_ReceivedAt e) then env_ReceivedAt e else now)"

definition projectionMessageTS :: "SlackEnvelope \<Rightarrow> string" where
  "projectionMessageTS e = (if env_TargetTS e \<noteq> '''' then env_TargetTS e else env_MessageTS e)"

definition projectionEventRank :: "SlackEventKind \<Rightarrow> int" where
  "projectionEventRank k = (if k = SlackEventDelete then 3 else if k = SlackEventEdit then 2 else 1)"

definition projectionIsNewer :: "ChannelMessage \<Rightarrow> time \<Rightarrow> int \<Rightarrow> bool" where
  "projectionIsNewer current eventAt rank \<longleftrightarrow>
     IsZero (cm_SourceEventAt current) \<or> After eventAt (cm_SourceEventAt current)
     \<or> (eventAt = cm_SourceEventAt current \<and> cm_SourceEventRank current \<le> rank)"

definition message_key :: "string \<Rightarrow> string \<Rightarrow> string \<Rightarrow> string \<Rightarrow> string" where
  "message_key org team channel ts = org @ ''/'' @ team @ ''/'' @ channel @ ''/'' @ ts"

definition envelope_key :: "SlackEnvelope \<Rightarrow> string" where
  "envelope_key e = message_key (env_OrganizationID e) (env_TeamID e) (env_ChannelID e) (projectionMessageTS e)"

definition dedupe_key :: "SlackEnvelope \<Rightarrow> string" where
  "dedupe_key e = env_TeamID e @ ''/'' @ env_EventID e"

section \<open>Recording events (memory_store.go)\<close>

text \<open>
  The current state of a message after an event; an older event leaves it as it is.  A message
  first seen through its deletion keeps the images of that event.
\<close>

definition project_message :: "SlackEnvelope \<Rightarrow> time \<Rightarrow> time \<Rightarrow> ChannelMessage option \<Rightarrow> ChannelMessage" where
  "project_message e eventAt now stored =
     (let rank = projectionEventRank (env_Kind e); deleted = (env_Kind e = SlackEventDelete)
      in case stored of
           Some current \<Rightarrow>
             if \<not> projectionIsNewer current eventAt rank then current
             else current\<lparr>cm_SourceEventID := env_EventID e, cm_SourceEventAt := eventAt, cm_SourceEventRank := rank,
                      cm_UpdatedAt := now, cm_ProjectionVersion := cm_ProjectionVersion current + 1, cm_Deleted := deleted,
                      cm_Text := (if deleted then '''' else env_Text e), cm_Images := (if deleted then [] else env_Images e),
                      cm_Subtype := env_Subtype e, cm_Restricted := env_Restricted e\<rparr>
         | None \<Rightarrow>
               \<lparr>cm_OrganizationID = env_OrganizationID e, cm_TeamID = env_TeamID e, cm_ChannelID = env_ChannelID e,
                cm_MessageTS = projectionMessageTS e, cm_RootThreadTS = RootThreadTS e, cm_AuthorID = env_UserID e,
                cm_BotID = env_BotID e, cm_Subtype = env_Subtype e, cm_Text = (if deleted then '''' else env_Text e),
                cm_Images = env_Images e, cm_Deleted = deleted, cm_Restricted = env_Restricted e,
                cm_SourceEventID = env_EventID e, cm_SourceEventAt = eventAt, cm_SourceEventRank = rank,
                cm_ProjectionVersion = 1, cm_OriginalAt = eventAt, cm_UpdatedAt = now\<rparr>)"

definition applyProjection :: "SlackEnvelope \<Rightarrow> Observation \<Rightarrow> time \<Rightarrow> ObserverStore \<Rightarrow> ObserverStore" where
  "applyProjection e ob now s =
     s\<lparr>os_messages := (os_messages s)(envelope_key e \<mapsto>
         project_message e (ob_SlackEventTime ob) now (os_messages s (envelope_key e)))\<rparr>"

definition new_observation ::
  "string \<Rightarrow> string \<Rightarrow> SlackEnvelope \<Rightarrow> string \<Rightarrow> time \<Rightarrow> int \<Rightarrow> int \<Rightarrow> duration \<Rightarrow> Observation" where
  "new_observation scope decision e i now channelSeq organizationSeq retention =
     \<lparr>ob_PublicID = i, ob_OrganizationID = env_OrganizationID e, ob_TeamID = env_TeamID e,
      ob_ChannelID = env_ChannelID e, ob_EventID = env_EventID e, ob_EnvelopeID = env_EnvelopeID e,
      ob_ReceivedSeq = channelSeq, ob_OrganizationReceivedSeq = organizationSeq, ob_SlackEventTime = eventTime e now,
      ob_ReceivedAt = now, ob_MessageTS = env_MessageTS e, ob_RootThreadTS = RootThreadTS e, ob_UserID = env_UserID e,
      ob_BotID = env_BotID e, ob_Restricted = env_Restricted e, ob_IsMention = env_IsMention e,
      ob_OriginTag = env_OriginTag e, ob_EventType = env_Kind e, ob_Subtype = env_Subtype e,
      ob_Text = env_Text e, ob_Images = env_Images e, ob_MutationTargetTS = env_TargetTS e,
      ob_ScopeState = scope, ob_DecisionState = decision, ob_DecisionLeaseOwner = '''',
      ob_DecisionLeaseToken = '''', ob_DecisionLeaseExpiresAt = zero_time, ob_OutputProduced = False,
      ob_OutputReservationID = '''', ob_OutputJobID = '''', ob_OutputDeliveryID = '''', ob_CreatedAt = now,
      ob_ExpiresAt = eventTime e now + retention, ob_Version = 1\<rparr>"

text \<open>The clock is read for the observation (\<open>t1\<close>) and again for the projection (\<open>t2\<close>).\<close>

definition observer_accept ::
  "string \<Rightarrow> string \<Rightarrow> SlackEnvelope \<Rightarrow> string \<Rightarrow> time \<Rightarrow> time \<Rightarrow> ObserverStore
     \<Rightarrow> (observer_error, Observation \<times> bool, ObserverStore) outcome" where
  "observer_accept scope decision e i t1 t2 s =
     (if \<not> ValidateEnvelope e then (Inl ErrInvalidEnvelope, s)
      else case os_observations s (dedupe_key e) of
        Some existing \<Rightarrow> (Inr (existing, True), applyProjection e existing t2 s)
      | None \<Rightarrow>
          let ck = env_OrganizationID e @ ''/'' @ env_TeamID e @ ''/'' @ env_ChannelID e;
              cn = lookup_zero 0 (os_channelSeq s) ck + 1;
              on = lookup_zero 0 (os_organizationSeq s) (env_OrganizationID e) + 1;
              ob = new_observation scope decision e i t1 cn on (os_retention s)
          in (Inr (ob, False),
              applyProjection e ob t2
                (s\<lparr>os_observations := (os_observations s)(dedupe_key e \<mapsto> ob),
                   os_byPublic := (os_byPublic s)(i \<mapsto> dedupe_key e),
                   os_channelSeq := (os_channelSeq s)(ck \<mapsto> cn),
                   os_organizationSeq := (os_organizationSeq s)(env_OrganizationID e \<mapsto> on)\<rparr>)))"

definition observer_Accept ::
  "SlackEnvelope \<Rightarrow> string \<Rightarrow> time \<Rightarrow> time \<Rightarrow> ObserverStore \<Rightarrow> (observer_error, Observation \<times> bool, ObserverStore) outcome" where
  "observer_Accept = observer_accept ''pending'' ''pending''"

definition observer_Import ::
  "SlackEnvelope \<Rightarrow> string \<Rightarrow> time \<Rightarrow> time \<Rightarrow> ObserverStore \<Rightarrow> (observer_error, Observation \<times> bool, ObserverStore) outcome" where
  "observer_Import = observer_accept ''authorized'' ''resolved''"

section \<open>Deciding observations\<close>

definition claimable_observation :: "time \<Rightarrow> Observation \<Rightarrow> bool" where
  "claimable_observation now ob \<longleftrightarrow>
     (ob_DecisionState ob = ''pending''
      \<or> (ob_DecisionState ob = ''processing'' \<and> \<not> After (ob_DecisionLeaseExpiresAt ob) now))
     \<and> After (ob_ExpiresAt ob) now"

text \<open>One round of the selection loop; no selection yet is \<open>None\<close> (the zero \<^verbatim>\<open>CreatedAt\<close> of the code).\<close>

definition pick_observation ::
  "(string \<rightharpoonup> Observation) \<Rightarrow> time \<Rightarrow> string \<Rightarrow> (string \<times> Observation) option \<Rightarrow> (string \<times> Observation) option" where
  "pick_observation m now key selected =
     (case m key of
        None \<Rightarrow> selected
      | Some ob \<Rightarrow>
          if \<not> claimable_observation now ob then selected
          else case selected of
                 None \<Rightarrow> Some (key, ob)
               | Some (k, best) \<Rightarrow>
                   if \<not> IsZero (ob_CreatedAt best)
                      \<and> (After (ob_ReceivedAt ob) (ob_ReceivedAt best)
                         \<or> (ob_ReceivedAt ob = ob_ReceivedAt best
                            \<and> ob_OrganizationReceivedSeq best \<le> ob_OrganizationReceivedSeq ob))
                   then Some (k, best) else Some (key, ob))"

definition observer_ClaimPending ::
  "string list \<Rightarrow> string \<Rightarrow> string \<Rightarrow> duration \<Rightarrow> time \<Rightarrow> ObserverStore \<Rightarrow> (observer_error, Observation, ObserverStore) outcome" where
  "observer_ClaimPending ord owner token lease now s =
     (if owner = '''' \<or> lease \<le> 0 then (Inl ErrInvalidEnvelope, s)
      else case fold (pick_observation (os_observations s) now) ord None of
        None \<Rightarrow> (Inl ErrNoPendingObservation, s)
      | Some (key, ob) \<Rightarrow>
          let ob' = ob\<lparr>ob_DecisionState := ''processing'', ob_DecisionLeaseOwner := owner, ob_DecisionLeaseToken := token,
                       ob_DecisionLeaseExpiresAt := now + lease, ob_Version := ob_Version ob + 1\<rparr>
          in (Inr ob', s\<lparr>os_observations := (os_observations s)(key \<mapsto> ob')\<rparr>))"

text \<open>
  The methods that look an observation up by its public identifier and write it back.  Every
  public identifier has an observation, so the zero observation of an absent key is not met.
\<close>

definition with_observation ::
  "string \<Rightarrow> (string \<Rightarrow> Observation \<Rightarrow> (observer_error, 'a, ObserverStore) outcome) \<Rightarrow> ObserverStore
     \<Rightarrow> (observer_error, 'a, ObserverStore) outcome" where
  "with_observation publicID f s =
     (case os_byPublic s publicID of
        None \<Rightarrow> (Inl ErrMessageNotFound, s)
      | Some key \<Rightarrow> (case os_observations s key of None \<Rightarrow> (Inl ErrMessageNotFound, s) | Some ob \<Rightarrow> f key ob))"

definition observer_CompleteDecision ::
  "string \<Rightarrow> string \<Rightarrow> string \<Rightarrow> string \<Rightarrow> time \<Rightarrow> ObserverStore \<Rightarrow> (observer_error, unit, ObserverStore) outcome" where
  "observer_CompleteDecision publicID token scope decision now s =
     (if publicID = '''' \<or> token = '''' \<or> scope = '''' \<or> decision = '''' then (Inl ErrInvalidEnvelope, s)
      else with_observation publicID (\<lambda>key ob.
        if ob_DecisionState ob \<noteq> ''processing'' \<or> ob_DecisionLeaseToken ob \<noteq> token
           \<or> \<not> After (ob_DecisionLeaseExpiresAt ob) now
        then (Inl ErrNoPendingObservation, s)
        else (Inr (), s\<lparr>os_observations := (os_observations s)(key \<mapsto>
               ob\<lparr>ob_ScopeState := scope, ob_DecisionState := decision, ob_DecisionLeaseOwner := '''',
                  ob_DecisionLeaseToken := '''', ob_DecisionLeaseExpiresAt := zero_time, ob_Version := ob_Version ob + 1\<rparr>)\<rparr>)) s)"

definition observer_SetRestricted ::
  "string \<Rightarrow> bool \<Rightarrow> time \<Rightarrow> ObserverStore \<Rightarrow> (observer_error, unit, ObserverStore) outcome" where
  "observer_SetRestricted publicID restricted now s =
     with_observation publicID (\<lambda>key ob.
       let s1 = s\<lparr>os_observations := (os_observations s)(key \<mapsto>
                  ob\<lparr>ob_Restricted := restricted, ob_Version := ob_Version ob + 1\<rparr>)\<rparr>;
           ts = (if ob_MutationTargetTS ob \<noteq> '''' then ob_MutationTargetTS ob else ob_MessageTS ob);
           mk = message_key (ob_OrganizationID ob) (ob_TeamID ob) (ob_ChannelID ob) ts
       in (Inr (),
           case os_messages s1 mk of
             None \<Rightarrow> s1
           | Some m \<Rightarrow> s1\<lparr>os_messages := (os_messages s1)(mk \<mapsto>
                 m\<lparr>cm_Restricted := restricted, cm_UpdatedAt := now, cm_ProjectionVersion := cm_ProjectionVersion m + 1\<rparr>)\<rparr>)) s"

section \<open>One output per observation\<close>

definition observer_ReserveOutput ::
  "string \<Rightarrow> string \<Rightarrow> ObserverStore \<Rightarrow> (observer_error, bool, ObserverStore) outcome" where
  "observer_ReserveOutput publicID reservation s =
     (if publicID = '''' \<or> reservation = '''' then (Inl ErrInvalidEnvelope, s)
      else with_observation publicID (\<lambda>key ob.
        if ob_OutputProduced ob \<and> ob_OutputReservationID ob \<noteq> reservation then (Inr False, s)
        else (Inr True, s\<lparr>os_observations := (os_observations s)(key \<mapsto>
               ob\<lparr>ob_OutputProduced := True, ob_OutputReservationID := reservation, ob_Version := ob_Version ob + 1\<rparr>)\<rparr>)) s)"

definition observer_FinalizeOutput ::
  "string \<Rightarrow> string \<Rightarrow> string \<Rightarrow> string \<Rightarrow> ObserverStore \<Rightarrow> (observer_error, unit, ObserverStore) outcome" where
  "observer_FinalizeOutput publicID reservation job delivery s =
     (if publicID = '''' \<or> reservation = '''' \<or> (job = '''') = (delivery = '''') then (Inl ErrInvalidEnvelope, s)
      else with_observation publicID (\<lambda>key ob.
        if \<not> ob_OutputProduced ob \<or> ob_OutputReservationID ob \<noteq> reservation then (Inl ErrNoPendingObservation, s)
        else (Inr (), s\<lparr>os_observations := (os_observations s)(key \<mapsto>
               ob\<lparr>ob_OutputReservationID := '''', ob_OutputJobID := job, ob_OutputDeliveryID := delivery,
                  ob_Version := ob_Version ob + 1\<rparr>)\<rparr>)) s)"

section \<open>Reading\<close>

definition observer_Recent ::
  "string list \<Rightarrow> string \<Rightarrow> string list \<Rightarrow> time \<Rightarrow> int \<Rightarrow> ObserverStore \<Rightarrow> ChannelMessage list" where
  "observer_Recent ord org channels since limit s =
     (if limit \<le> 0 then []
      else let r = sort_key (\<lambda>m. (cm_OriginalAt m, cm_MessageTS m))
                     (filter (\<lambda>m. cm_OrganizationID m = org \<and> \<not> cm_Deleted m \<and> \<not> Before (cm_OriginalAt m) since
                                  \<and> cm_ChannelID m \<in> set channels) (vals ord (os_messages s)))
           in drop (length r - nat limit) r)"

definition observer_CurrentMessage ::
  "string \<Rightarrow> string \<Rightarrow> string \<Rightarrow> string \<Rightarrow> ObserverStore \<Rightarrow> observer_error + ChannelMessage" where
  "observer_CurrentMessage org team channel ts s =
     (case os_messages s (message_key org team channel ts) of None \<Rightarrow> Inl ErrMessageNotFound | Some m \<Rightarrow> Inr m)"

definition observer_Channels :: "string list \<Rightarrow> string \<Rightarrow> ObserverStore \<Rightarrow> string list" where
  "observer_Channels ord org s =
     sort (remdups (map cm_ChannelID (filter (\<lambda>m. cm_OrganizationID m = org) (vals ord (os_messages s)))))"

definition isStatusQuestion :: "string \<Rightarrow> bool" where
  "isStatusQuestion text \<longleftrightarrow>
     (let v = ToLower text in Contains v ''system down'' \<or> Contains v ''is it down'' \<or> Contains v ''outage?'')"

text \<open>A negative limit that is exceeded makes the code slice out of range; it is \<open>None\<close>.\<close>

definition observer_LateCandidates ::
  "string list \<Rightarrow> string \<Rightarrow> time \<Rightarrow> time \<Rightarrow> int \<Rightarrow> ObserverStore \<Rightarrow> Observation list option" where
  "observer_LateCandidates ord org since before limit s =
     (let r = sort_key (\<lambda>ob. - ob_SlackEventTime ob)
                (filter (\<lambda>ob. ob_OrganizationID ob = org \<and> ob_DecisionState ob = ''decided'' \<and> \<not> ob_OutputProduced ob
                    \<and> \<not> Before (ob_SlackEventTime ob) since \<and> Before (ob_SlackEventTime ob) before
                    \<and> ob_EventType ob = SlackEventMessage \<and> isStatusQuestion (ob_Text ob))
                  (vals ord (os_observations s)))
      in if limit < int (length r) then (if limit < 0 then None else Some (take (nat limit) r)) else Some r)"

end
