(* ===== verification/ObserverProperties.thy ===== *)
theory ObserverProperties
  imports Observer
begin

text \<open>
  What the observation store promises: whatever the order in which the events of a message
  arrive and however often Slack redelivers them, the stored message is the one of its newest
  event; and one observation yields one output.
\<close>

section \<open>Runs of the store\<close>

datatype ObserverCall =
    CallAccept SlackEnvelope string time time
  | CallImport SlackEnvelope string time time
  | CallClaim "string list" string string duration time
  | CallComplete string string string string time
  | CallReserve string string
  | CallFinalize string string string string
  | CallSetRestricted string bool time

fun observer_call :: "ObserverCall \<Rightarrow> ObserverStore \<Rightarrow> ObserverStore" where
  "observer_call (CallAccept e i t1 t2) s = snd (observer_Accept e i t1 t2 s)"
| "observer_call (CallImport e i t1 t2) s = snd (observer_Import e i t1 t2 s)"
| "observer_call (CallClaim ord owner token lease now) s = snd (observer_ClaimPending ord owner token lease now s)"
| "observer_call (CallComplete i token scope decision now) s = snd (observer_CompleteDecision i token scope decision now s)"
| "observer_call (CallReserve i r) s = snd (observer_ReserveOutput i r s)"
| "observer_call (CallFinalize i r job delivery) s = snd (observer_FinalizeOutput i r job delivery s)"
| "observer_call (CallSetRestricted i restricted now) s = snd (observer_SetRestricted i restricted now s)"

definition observer_run :: "ObserverCall list \<Rightarrow> ObserverStore \<Rightarrow> ObserverStore" where
  "observer_run calls s = fold observer_call calls s"

text \<open>The valid events among the calls.\<close>

fun arrived :: "ObserverCall \<Rightarrow> SlackEnvelope set" where
  "arrived (CallAccept e i t1 t2) = {x. x = e \<and> ValidateEnvelope e}"
| "arrived (CallImport e i t1 t2) = {x. x = e \<and> ValidateEnvelope e}"
| "arrived _ = {}"

definition arrivals :: "ObserverCall list \<Rightarrow> SlackEnvelope set" where
  "arrivals calls = (\<Union>c \<in> set calls. arrived c)"

lemma arrivals_simps [simp]:
  "arrivals [] = {}" "arrivals (c # cs) = arrived c \<union> arrivals cs"
  by (simp_all add: arrivals_def)

section \<open>The newest event wins\<close>

text \<open>
  Slack redelivers an event under its identifier with its time; every event carries a time.
\<close>

definition consistent_events :: "SlackEnvelope set \<Rightarrow> bool" where
  "consistent_events es \<longleftrightarrow>
     (\<forall>e \<in> es. \<not> IsZero (env_EventTime e))
     \<and> (\<forall>e \<in> es. \<forall>e' \<in> es. dedupe_key e = dedupe_key e' \<longrightarrow> env_EventTime e = env_EventTime e')"

definition event_stamp :: "SlackEnvelope \<Rightarrow> time \<times> int" where
  "event_stamp e = (env_EventTime e, projectionEventRank (env_Kind e))"

text \<open>
  What an event says of its message: which event it is, whether it deletes the message, the text, the
  images unless it deletes it, and the subtype.  The author, the thread and the original time are
  those of the event that arrived first and stay as they were.
\<close>

type_synonym MessageContent = "string \<times> bool \<times> string \<times> SlackImageRef list \<times> string"

definition event_content :: "SlackEnvelope \<Rightarrow> MessageContent" where
  "event_content e = (env_EventID e, env_Kind e = SlackEventDelete,
     if env_Kind e = SlackEventDelete then '''' else env_Text e,
     if env_Kind e = SlackEventDelete then [] else env_Images e, env_Subtype e)"

definition message_content :: "ChannelMessage \<Rightarrow> MessageContent" where
  "message_content m = (cm_SourceEventID m, cm_Deleted m, cm_Text m, if cm_Deleted m then [] else cm_Images m, cm_Subtype m)"

definition message_stamp :: "ChannelMessage \<Rightarrow> time \<times> int" where
  "message_stamp m = (cm_SourceEventAt m, cm_SourceEventRank m)"

definition newest :: "SlackEnvelope set \<Rightarrow> string \<Rightarrow> SlackEnvelope \<Rightarrow> bool" where
  "newest es k e \<longleftrightarrow> e \<in> es \<and> envelope_key e = k \<and> (\<forall>e' \<in> es. envelope_key e' = k \<longrightarrow> event_stamp e' \<le> event_stamp e)"

text \<open>
  The message shows the newest event; \<open>u\<close> says that no call sets restrictions, then the restriction is
  the event's too.
\<close>

definition shows_newest :: "bool \<Rightarrow> SlackEnvelope set \<Rightarrow> string \<Rightarrow> ChannelMessage option \<Rightarrow> bool" where
  "shows_newest u es k stored \<longleftrightarrow>
     (case stored of
        None \<Rightarrow> \<forall>e \<in> es. envelope_key e \<noteq> k
      | Some m \<Rightarrow> \<exists>e. newest es k e \<and> message_stamp m = event_stamp e \<and> message_content m = event_content e
                   \<and> (u \<longrightarrow> cm_Restricted m = env_Restricted e))"

fun sets_restricted :: "ObserverCall \<Rightarrow> bool" where
  "sets_restricted (CallSetRestricted i restricted now) = True"
| "sets_restricted _ = False"

text \<open>The stored observations carry the event times of every event they may be redelivered as.\<close>

definition times_agree :: "SlackEnvelope set \<Rightarrow> ObserverStore \<Rightarrow> bool" where
  "times_agree es s \<longleftrightarrow>
     (\<forall>e ob. e \<in> es \<longrightarrow> os_observations s (dedupe_key e) = Some ob \<longrightarrow> ob_SlackEventTime ob = env_EventTime e)"

lemma project_newest:
  assumes "shows_newest u es k stored" "\<not> IsZero (env_EventTime e)" "envelope_key e = k"
    "\<forall>e' \<in> es. \<not> IsZero (env_EventTime e')"
  shows "shows_newest u (insert e es) k (Some (project_message e (env_EventTime e) now stored))"
proof (cases stored)
  case None
  with assms(1,3) have "newest (insert e es) k e" by (auto simp: newest_def shows_newest_def)
  then show ?thesis
    unfolding shows_newest_def None
    by (auto simp: project_message_def Let_def message_stamp_def event_stamp_def message_content_def event_content_def)
next
  case (Some m)
  then obtain d where d: "newest es k d" "message_stamp m = event_stamp d" "message_content m = event_content d"
      "u \<longrightarrow> cm_Restricted m = env_Restricted d"
    using assms(1) by (auto simp: shows_newest_def)
  have "d \<in> es" using d(1) by (simp add: newest_def)
  then have nz: "\<not> IsZero (cm_SourceEventAt m)"
    using assms(4) d(2) by (auto simp: message_stamp_def event_stamp_def)
  have newer: "projectionIsNewer m (env_EventTime e) (projectionEventRank (env_Kind e)) \<longleftrightarrow> event_stamp d \<le> event_stamp e"
    unfolding d(2) [symmetric] using nz by (auto simp: projectionIsNewer_def message_stamp_def event_stamp_def less_eq_prod_def)
  show ?thesis
  proof (cases "event_stamp d \<le> event_stamp e")
    case True
    with d(1) assms(3) have "newest (insert e es) k e" by (auto simp: newest_def intro: order_trans)
    moreover have "projectionIsNewer m (env_EventTime e) (projectionEventRank (env_Kind e))" using True newer by simp
    ultimately show ?thesis
      unfolding shows_newest_def Some
      by (auto simp: project_message_def Let_def message_stamp_def event_stamp_def message_content_def event_content_def)
  next
    case False
    with d(1) have "newest (insert e es) k d" by (auto simp: newest_def)
    with False newer d(2,3,4) show ?thesis
      unfolding shows_newest_def Some by (auto simp: project_message_def Let_def)
  qed
qed

lemma shows_newest_other: "envelope_key e \<noteq> k \<Longrightarrow> shows_newest u (insert e es) k stored = shows_newest u es k stored"
  by (auto simp: shows_newest_def newest_def split: option.splits)

lemma applyProjection_frame [simp]:
  "os_observations (applyProjection e ob now s) = os_observations s"
  "os_byPublic (applyProjection e ob now s) = os_byPublic s"
  by (simp_all add: applyProjection_def)

lemma accept_newest:
  fixes s :: ObserverStore and scope decision i :: string and t1 t2 :: time
  assumes "\<forall>k. shows_newest u es k (os_messages s k)" "times_agree all s" "consistent_events all" "es \<subseteq> all"
    and "{x. x = e \<and> ValidateEnvelope e} \<subseteq> all"
  defines "s' \<equiv> snd (observer_accept scope decision e i t1 t2 s)"
  shows "(\<forall>k. shows_newest u (es \<union> {x. x = e \<and> ValidateEnvelope e}) k (os_messages s' k)) \<and> times_agree all s'"
proof (cases "ValidateEnvelope e")
  case False
  then show ?thesis using assms by (simp add: observer_accept_def s'_def)
next
  case True
  have "e \<in> all" using True assms(5) by blast
  then have e: "e \<in> all" "\<not> IsZero (env_EventTime e)" using assms(3) unfolding consistent_events_def by blast+
  have nz: "\<forall>e' \<in> es. \<not> IsZero (env_EventTime e')" using assms(3,4) unfolding consistent_events_def by blast
  have at: "eventTime e t1 = env_EventTime e" using e(2) by (simp add: eventTime_def)
  have "\<exists>ob. os_messages s' = (os_messages s)(envelope_key e \<mapsto>
           project_message e (env_EventTime e) t2 (os_messages s (envelope_key e)))
     \<and> (os_observations s' = os_observations s
        \<or> (ob_SlackEventTime ob = env_EventTime e \<and> os_observations s' = (os_observations s)(dedupe_key e \<mapsto> ob)))"
  proof (cases "os_observations s (dedupe_key e)")
    case None
    have "ob_SlackEventTime (new_observation scope decision e i t1 cn on ret) = env_EventTime e" for cn on ret
      by (simp add: new_observation_def at)
    then show ?thesis
      using True None by (simp add: s'_def observer_accept_def Let_def applyProjection_def) metis
  next
    case (Some ob)
    then have "ob_SlackEventTime ob = env_EventTime e" using assms(2) e(1) by (auto simp: times_agree_def)
    with True Some show ?thesis by (auto simp: s'_def observer_accept_def applyProjection_def)
  qed
  then obtain ob where m: "os_messages s' = (os_messages s)(envelope_key e \<mapsto>
           project_message e (env_EventTime e) t2 (os_messages s (envelope_key e)))"
    and o: "os_observations s' = os_observations s
        \<or> (ob_SlackEventTime ob = env_EventTime e \<and> os_observations s' = (os_observations s)(dedupe_key e \<mapsto> ob))" by blast
  have "times_agree all s'"
    unfolding times_agree_def
  proof (intro allI impI)
    fix d ob' assume d: "d \<in> all" "os_observations s' (dedupe_key d) = Some ob'"
    show "ob_SlackEventTime ob' = env_EventTime d"
    proof (cases "dedupe_key d = dedupe_key e")
      case True
      with assms(3) d(1) e(1) have "env_EventTime d = env_EventTime e" unfolding consistent_events_def by blast
      with o d True assms(2) show ?thesis unfolding times_agree_def by (metis fun_upd_same option.inject)
    next
      case False
      with o d assms(2) show ?thesis unfolding times_agree_def by (metis fun_upd_other)
    qed
  qed
  moreover have "shows_newest u (insert e es) k (os_messages s' k)" for k
  proof (cases "k = envelope_key e")
    case True
    have "shows_newest u es k (os_messages s k)" using assms(1) by blast
    from project_newest [OF this e(2) True [symmetric] nz, of t2] show ?thesis unfolding m True by simp
  next
    case False
    have "shows_newest u es k (os_messages s k)" using assms(1) by blast
    with shows_newest_other [of e k u es] False show ?thesis unfolding m by simp
  qed
  ultimately show ?thesis using True by simp
qed

text \<open>The other calls leave the messages and the event times alone.\<close>

lemma fold_pick_stored:
  assumes "fold (pick_observation m now) ks sel = Some (k, ob)" "\<forall>k ob. sel = Some (k, ob) \<longrightarrow> m k = Some ob"
  shows "m k = Some ob"
  using assms
proof (induction ks arbitrary: sel)
  case (Cons x ks)
  from Cons.prems(2) have "\<forall>k ob. pick_observation m now x sel = Some (k, ob) \<longrightarrow> m k = Some ob"
    by (auto simp: pick_observation_def split: option.splits if_splits)
  with Cons show ?case by simp
qed simp

lemma set_restricted_newest:
  assumes "\<forall>k. shows_newest False es k (os_messages s k)"
  shows "shows_newest False es k (os_messages (snd (observer_SetRestricted i restricted now s)) k)"
proof -
  have same: "shows_newest False es j (Some (m\<lparr>cm_Restricted := r, cm_UpdatedAt := t, cm_ProjectionVersion := v\<rparr>))
      = shows_newest False es j (Some m)" for m r t v j
    by (simp add: shows_newest_def message_stamp_def message_content_def)
  have "os_messages (snd (observer_SetRestricted i restricted now s)) = os_messages s
      \<or> (\<exists>j m v. os_messages s j = Some m \<and> os_messages (snd (observer_SetRestricted i restricted now s))
           = (os_messages s)(j \<mapsto> m\<lparr>cm_Restricted := restricted, cm_UpdatedAt := now, cm_ProjectionVersion := v\<rparr>))"
    by (simp add: observer_SetRestricted_def with_observation_def Let_def split: option.split) blast
  then show ?thesis
  proof
    assume "\<exists>j m v. os_messages s j = Some m \<and> os_messages (snd (observer_SetRestricted i restricted now s))
           = (os_messages s)(j \<mapsto> m\<lparr>cm_Restricted := restricted, cm_UpdatedAt := now, cm_ProjectionVersion := v\<rparr>)"
    then obtain j m v where j: "os_messages s j = Some m" "os_messages (snd (observer_SetRestricted i restricted now s))
           = (os_messages s)(j \<mapsto> m\<lparr>cm_Restricted := restricted, cm_UpdatedAt := now, cm_ProjectionVersion := v\<rparr>)" by blast
    from assms j(1) have "shows_newest False es j (Some m)" by metis
    then show ?thesis using assms unfolding j(2) by (cases "k = j") (simp_all add: same)
  qed (use assms in simp)
qed

lemma set_restricted_times:
  "map_option ob_SlackEventTime (os_observations (snd (observer_SetRestricted i restricted now s)) k)
     = map_option ob_SlackEventTime (os_observations s k)"
  by (auto simp: observer_SetRestricted_def with_observation_def Let_def split: option.split)

lemma other_calls_frame:
  assumes "\<forall>e i t1 t2. c \<noteq> CallAccept e i t1 t2 \<and> c \<noteq> CallImport e i t1 t2" "\<not> sets_restricted c"
  shows "os_messages (observer_call c s) = os_messages s
    \<and> (\<forall>k. map_option ob_SlackEventTime (os_observations (observer_call c s) k) = map_option ob_SlackEventTime (os_observations s k))
    \<and> os_byPublic (observer_call c s) = os_byPublic s"
proof (cases c)
  case (CallClaim ord owner token lease now)
  show ?thesis
  proof (cases "fold (pick_observation (os_observations s) now) ord None")
    case (Some ko)
    then obtain k ob where ko: "ko = (k, ob)" "os_observations s k = Some ob"
      using fold_pick_stored [of "os_observations s" now ord None] by (cases ko) auto
    with Some CallClaim show ?thesis by (simp add: observer_ClaimPending_def Let_def)
  qed (simp add: CallClaim observer_ClaimPending_def)
qed (use assms in \<open>auto simp: observer_CompleteDecision_def observer_ReserveOutput_def observer_FinalizeOutput_def with_observation_def
      split: option.split\<close>)

lemma call_newest:
  assumes "\<forall>k. shows_newest u es k (os_messages s k)" "times_agree all s" "consistent_events all" "es \<subseteq> all" "arrived c \<subseteq> all"
    and "u \<longrightarrow> \<not> sets_restricted c"
  shows "(\<forall>k. shows_newest u (es \<union> arrived c) k (os_messages (observer_call c s) k)) \<and> times_agree all (observer_call c s)"
proof (cases "\<exists>e i t1 t2. c = CallAccept e i t1 t2 \<or> c = CallImport e i t1 t2")
  case True
  then show ?thesis
    using accept_newest [OF assms(1-4)] assms(5) by (auto simp: observer_Accept_def observer_Import_def)
next
  case False
  have messages: "\<forall>k. shows_newest u es k (os_messages (observer_call c s) k)"
    and times: "\<And>k. map_option ob_SlackEventTime (os_observations (observer_call c s) k) = map_option ob_SlackEventTime (os_observations s k)"
  proof -
    consider i restricted now where "c = CallSetRestricted i restricted now" "\<not> u" | "\<not> sets_restricted c"
      using assms(6) by (cases c) auto
    then have "(\<forall>k. shows_newest u es k (os_messages (observer_call c s) k))
        \<and> (\<forall>k. map_option ob_SlackEventTime (os_observations (observer_call c s) k) = map_option ob_SlackEventTime (os_observations s k))"
    proof cases
      case 1
      then show ?thesis using set_restricted_newest [of es s] set_restricted_times [of i restricted now s] assms(1) by simp
    next
      case 2
      then show ?thesis using other_calls_frame [of c s] False assms(1) by simp
    qed
    then show "\<forall>k. shows_newest u es k (os_messages (observer_call c s) k)"
      "\<And>k. map_option ob_SlackEventTime (os_observations (observer_call c s) k) = map_option ob_SlackEventTime (os_observations s k)"
      by blast+
  qed
  have "times_agree all (observer_call c s)"
    unfolding times_agree_def
  proof (intro allI impI)
    fix e ob assume "e \<in> all" "os_observations (observer_call c s) (dedupe_key e) = Some ob"
    then show "ob_SlackEventTime ob = env_EventTime e"
      using times [of "dedupe_key e"] assms(2) by (cases "os_observations s (dedupe_key e)") (auto simp: times_agree_def)
  qed
  moreover have "arrived c = {}" using False by (cases c) auto
  ultimately show ?thesis using messages by simp
qed

lemma run_newest:
  assumes "\<forall>k. shows_newest u es k (os_messages s k)" "times_agree all s" "consistent_events all" "es \<union> arrivals calls \<subseteq> all"
    "u \<longrightarrow> (\<forall>c \<in> set calls. \<not> sets_restricted c)"
  shows "\<forall>k. shows_newest u (es \<union> arrivals calls) k (os_messages (observer_run calls s) k)"
  using assms
proof (induction calls arbitrary: es s)
  case (Cons c calls)
  from call_newest [of u es s all c] Cons.prems have
    1: "\<forall>k. shows_newest u (es \<union> arrived c) k (os_messages (observer_call c s) k)" "times_agree all (observer_call c s)" by auto
  from Cons.IH [OF 1 Cons.prems(3)] Cons.prems(4,5) show ?case
    by (simp add: observer_run_def Un_assoc)
qed (simp add: observer_run_def)

lemma new_store_run:
  assumes "consistent_events (arrivals calls)" "u \<longrightarrow> (\<forall>c \<in> set calls. \<not> sets_restricted c)"
  shows "shows_newest u (arrivals calls) k (os_messages (observer_run calls (NewObserverStore r)) k)"
proof -
  have "\<forall>k. shows_newest u {} k (os_messages (NewObserverStore r) k)" "times_agree (arrivals calls) (NewObserverStore r)"
    by (simp_all add: NewObserverStore_def shows_newest_def times_agree_def)
  from run_newest [OF this assms(1) _ assms(2)] show ?thesis by simp
qed


section \<open>One output per observation\<close>

definition reserved_by :: "string \<Rightarrow> string \<Rightarrow> ObserverStore \<Rightarrow> bool" where
  "reserved_by i r s \<longleftrightarrow>
     (\<exists>key ob. os_byPublic s i = Some key \<and> os_observations s key = Some ob \<and> ob_OutputProduced ob
        \<and> (ob_OutputReservationID ob = r \<or> ob_OutputReservationID ob = ''''))"

fun uses_id :: "string \<Rightarrow> ObserverCall \<Rightarrow> bool" where
  "uses_id i (CallAccept e j t1 t2) = (i = j)"
| "uses_id i (CallImport e j t1 t2) = (i = j)"
| "uses_id i _ = False"

lemma accept_reserved:
  assumes "reserved_by i r s" "i \<noteq> j"
  shows "reserved_by i r (snd (observer_accept scope decision e j t1 t2 s))"
proof (cases "ValidateEnvelope e")
  case True
  obtain key ob where k: "os_byPublic s i = Some key" "os_observations s key = Some ob" "ob_OutputProduced ob"
    "ob_OutputReservationID ob = r \<or> ob_OutputReservationID ob = ''''" using assms(1) by (auto simp: reserved_by_def)
  show ?thesis
  proof (cases "os_observations s (dedupe_key e)")
    case None
    then have "dedupe_key e \<noteq> key" using k(2) by auto
    with True None k assms(2) show ?thesis by (simp add: reserved_by_def observer_accept_def Let_def)
  next
    case (Some x)
    with True k show ?thesis by (simp add: reserved_by_def observer_accept_def)
  qed
qed (use assms in \<open>simp add: observer_accept_def\<close>)

lemma call_reserved:
  assumes "reserved_by i r s" "\<not> uses_id i c"
  shows "reserved_by i r (observer_call c s)"
proof -
  obtain key ob where k: "os_byPublic s i = Some key" "os_observations s key = Some ob" "ob_OutputProduced ob"
    "ob_OutputReservationID ob = r \<or> ob_OutputReservationID ob = ''''" using assms(1) by (auto simp: reserved_by_def)
  show ?thesis
  proof (cases c)
    case (CallClaim ord owner token lease now)
    show ?thesis
    proof (cases "fold (pick_observation (os_observations s) now) ord None")
      case (Some ko)
      then obtain j x where x: "ko = (j, x)" "os_observations s j = Some x"
        using fold_pick_stored [of "os_observations s" now ord None] by (cases ko) auto
      show ?thesis using k x CallClaim Some
        by (cases "j = key") (simp_all add: observer_ClaimPending_def Let_def reserved_by_def)
    qed (use assms CallClaim in \<open>simp add: observer_ClaimPending_def\<close>)
  next
    case (CallSetRestricted j restricted now)
    have "os_byPublic (observer_call c s) = os_byPublic s
      \<and> (\<exists>x. os_observations (observer_call c s) key = Some x \<and> ob_OutputProduced x = ob_OutputProduced ob
            \<and> ob_OutputReservationID x = ob_OutputReservationID ob)"
      using k(2) CallSetRestricted by (auto simp: observer_SetRestricted_def with_observation_def Let_def split: option.split)
    then show ?thesis using k by (auto simp: reserved_by_def)
  next
    case (CallReserve j r')
    then show ?thesis using k
      by (auto simp: observer_ReserveOutput_def with_observation_def reserved_by_def split: option.split)
  qed (use assms accept_reserved k in
      \<open>auto simp: observer_Accept_def observer_Import_def observer_CompleteDecision_def observer_FinalizeOutput_def
        with_observation_def reserved_by_def split: option.split\<close>)
qed

lemma run_reserved:
  assumes "reserved_by i r s" "\<forall>c \<in> set calls. \<not> uses_id i c"
  shows "reserved_by i r (observer_run calls s)"
  using assms by (induction calls arbitrary: s) (auto simp: observer_run_def call_reserved)

text \<open>
  C22. One observation yields one output.  Once the output of an observation is reserved, no
  other reservation of it succeeds and no other reservation can be finalized, after any
  further run of the store.
\<close>
theorem one_output_per_observation:
  assumes "observer_ReserveOutput i r s = (Inr True, s')" "\<forall>c \<in> set calls. \<not> uses_id i c" "r' \<noteq> r"
  shows "fst (observer_ReserveOutput i r' (observer_run calls s')) \<noteq> Inr True
    \<and> fst (observer_FinalizeOutput i r' job delivery (observer_run calls s')) \<noteq> Inr ()"
proof -
  have "reserved_by i r s'"
    using assms(1) by (auto simp: observer_ReserveOutput_def with_observation_def reserved_by_def split: if_splits option.splits)
  from run_reserved [OF this assms(2)] assms(3) show ?thesis
    by (auto simp: observer_ReserveOutput_def observer_FinalizeOutput_def with_observation_def reserved_by_def)
qed

section \<open>A concrete run\<close>

definition sample_event :: "string \<Rightarrow> SlackEventKind \<Rightarrow> string \<Rightarrow> time \<Rightarrow> SlackEnvelope" where
  "sample_event i kind text at_time = \<lparr>env_OrganizationID = ''o'', env_EnvelopeID = ''e'' @ i, env_EventID = i, env_TeamID = ''t'',
     env_ChannelID = ''c'', env_ChannelKind = '''', env_MessageTS = ''1'', env_ThreadTS = '''', env_UserID = ''u'', env_BotID = '''',
     env_Kind = kind, env_Subtype = '''', env_Text = text, env_Images = [], env_TargetTS = '''', env_EventTime = at_time,
     env_ReceivedAt = 0, env_IsMention = False, env_OriginTag = '''', env_Restricted = False\<rparr>"

definition sample_posted :: ObserverCall where
  "sample_posted = CallAccept (sample_event ''a'' SlackEventMessage ''hi'' 5) ''obs1'' 10 10"
definition sample_edited :: ObserverCall where
  "sample_edited = CallAccept (sample_event ''b'' SlackEventEdit ''hello'' 7) ''obs2'' 11 11"

lemma sample_arrivals:
  "arrivals [sample_posted, sample_edited] = {sample_event ''a'' SlackEventMessage ''hi'' 5, sample_event ''b'' SlackEventEdit ''hello'' 7}"
  by (auto simp: sample_posted_def sample_edited_def ValidateEnvelope_def sample_event_def)


definition sample_observed :: ObserverStore where
  "sample_observed = observer_run [sample_posted] (NewObserverStore 9)"

theorem one_output_per_observation_witness:
  "\<exists>s'. observer_ReserveOutput ''obs1'' ''r'' sample_observed = (Inr True, s')
     \<and> fst (observer_ReserveOutput ''obs1'' ''q'' (observer_run [sample_edited, CallFinalize ''obs1'' ''r'' ''job'' ''''] s')) \<noteq> Inr True"
proof -
  have "fst (observer_ReserveOutput ''obs1'' ''r'' sample_observed) = Inr True"
    by code_simp
  then obtain s' where s': "observer_ReserveOutput ''obs1'' ''r'' sample_observed = (Inr True, s')" by (metis prod.collapse)
  moreover have "\<forall>c \<in> set [sample_edited, CallFinalize ''obs1'' ''r'' ''job'' '''']. \<not> uses_id ''obs1'' c"
    by (simp add: sample_edited_def)
  ultimately have "fst (observer_ReserveOutput ''obs1'' ''q''
      (observer_run [sample_edited, CallFinalize ''obs1'' ''r'' ''job'' ''''] s')) \<noteq> Inr True"
    by (rule one_output_per_observation [THEN conjunct1]) simp
  with s' show ?thesis by blast
qed

end
