(* ===== verification/Schedule.thy ===== *)
theory Schedule
  imports Prelude "HOL-Library.Monad_Syntax"
begin

text \<open>
  \<^verbatim>\<open>core/schedule/schedule.go\<close>: recurring schedules, either a cron expression in a timezone or a
  fixed interval, with their next occurrence and the skipping of missed ones.

  The cron parser (\<^verbatim>\<open>robfig/cron\<close>) and the timezone database are outside the repository:
  \<open>sp_ParseStandard e tz\<close> is the \<^verbatim>\<open>Next\<close> function of the expression in the timezone, and
  \<open>sp_LoadLocation\<close> says which timezones exist.
\<close>

section \<open>Formatting a time\<close>

text \<open>\<^verbatim>\<open>Format(time.RFC3339Nano)\<close> of a UTC time.\<close>

definition civil_day :: "time \<Rightarrow> int" where
  "civil_day t =
     (let z = t div (24 * Hour) + 306; doe = z mod 146097;
          yoe = (doe - doe div 1460 + doe div 36524 - doe div 146096) div 365;
          doy = doe - (365 * yoe + yoe div 4 - yoe div 100); mp = (5 * doy + 2) div 153
      in doy - (153 * mp + 2) div 5 + 1)"

definition format_nanos :: "int \<Rightarrow> string" where
  "format_nanos ns =
     (if ns = 0 then '''' else ''.'' @ rev (dropWhile (\<lambda>c. c = CHR ''0'') (rev (pad_left 9 (format_int ns)))))"

definition format_rfc3339nano :: "time \<Rightarrow> string" where
  "format_rfc3339nano t =
     (let d = t mod (24 * Hour)
      in format_month t @ ''-'' @ pad_left 2 (format_int (civil_day t)) @ ''T'' @ pad_left 2 (format_int (d div Hour))
         @ '':'' @ pad_left 2 (format_int (d div Minute mod 60)) @ '':'' @ pad_left 2 (format_int (d div Second mod 60))
         @ format_nanos (d mod Second) @ ''Z'')"

section \<open>Schedules\<close>

datatype schedule_error =
    IntervalTooShort
  | EmbeddedTimezone
  | NotFiveFields
  | InvalidTimezone
  | InvalidCron

record SchedulePorts =
  sp_LoadLocation :: "string \<Rightarrow> bool"
  sp_ParseStandard :: "string \<Rightarrow> string \<Rightarrow> (time \<Rightarrow> time) option"

record ScheduleSpec =
  ssp_Cron :: string
  ssp_Timezone :: string
  ssp_Interval :: duration
  ssp_schedule :: "(time \<Rightarrow> time) option"

definition DefaultTimezone :: string where "DefaultTimezone = ''UTC''"

definition schedule_Parse :: "SchedulePorts \<Rightarrow> string \<Rightarrow> string \<Rightarrow> duration \<Rightarrow> schedule_error + ScheduleSpec" where
  "schedule_Parse p expression timezone interval =
     (let expression = TrimSpace expression; timezone = TrimSpace timezone
      in if expression = '''' then
           (if interval < Minute then Inl IntervalTooShort
            else Inr \<lparr>ssp_Cron = '''', ssp_Timezone = DefaultTimezone, ssp_Interval = interval, ssp_schedule = None\<rparr>)
         else if Contains expression ''TZ='' then Inl EmbeddedTimezone
         else if length (Fields expression) \<noteq> 5 then Inl NotFiveFields
         else
           let timezone = (if timezone = '''' then DefaultTimezone else timezone)
           in if \<not> sp_LoadLocation p timezone then Inl InvalidTimezone
              else case sp_ParseStandard p expression timezone of
                     None \<Rightarrow> Inl InvalidCron
                   | Some next \<Rightarrow>
                       Inr \<lparr>ssp_Cron = expression, ssp_Timezone = timezone, ssp_Interval = interval, ssp_schedule = Some next\<rparr>)"

definition schedule_Next :: "ScheduleSpec \<Rightarrow> time \<Rightarrow> time" where
  "schedule_Next s after = (case ssp_schedule s of Some next \<Rightarrow> next after | None \<Rightarrow> after + ssp_Interval s)"

text \<open>The loop of \<^verbatim>\<open>Advance\<close>; a spec with an interval that is not positive would never leave it.\<close>

partial_function (option) advance_loop :: "duration \<Rightarrow> time \<Rightarrow> time \<Rightarrow> time option" where
  "advance_loop interval next now = (if After next now then Some next else advance_loop interval (next + interval) now)"

definition schedule_Advance :: "ScheduleSpec \<Rightarrow> time \<Rightarrow> time \<Rightarrow> time option" where
  "schedule_Advance s current now =
     (case ssp_schedule s of Some _ \<Rightarrow> Some (schedule_Next s now) | None \<Rightarrow> advance_loop (ssp_Interval s) current now)"

definition schedule_Window :: "ScheduleSpec \<Rightarrow> time \<Rightarrow> duration" where
  "schedule_Window s occurrence =
     (let window = Sub (schedule_Next s occurrence) occurrence in if window < Minute then Minute else window)"

section \<open>Advancing ends, strictly after now\<close>

text \<open>The number of intervals that are skipped.\<close>

definition missed :: "duration \<Rightarrow> time \<Rightarrow> time \<Rightarrow> int" where
  "missed interval current now = (if now < current then 0 else (now - current) div interval + 1)"

lemma advance_loop_closed:
  assumes "0 < interval"
  shows "advance_loop interval current now = Some (current + missed interval current now * interval)"
proof (induction "nat (now - current + 1)" arbitrary: current rule: less_induct)
  case less
  show ?case
  proof (cases "now < current")
    case True
    then show ?thesis by (subst advance_loop.simps) (simp add: missed_def)
  next
    case False
    with assms have "nat (now - (current + interval) + 1) < nat (now - current + 1)" by simp
    note step = less [OF this]
    have "missed interval current now = missed interval (current + interval) now + 1"
    proof (cases "now < current + interval")
      case True
      with False show ?thesis by (simp add: missed_def)
    next
      case ge: False
      have "(now - (current + interval)) div interval = (now - current) div interval - 1"
        using assms div_add_self2 [of interval "now - (current + interval)"] by (simp add: algebra_simps)
      with False ge show ?thesis by (simp add: missed_def)
    qed
    with False step show ?thesis by (subst advance_loop.simps) (simp add: algebra_simps)
  qed
qed

lemma missed_bounds:
  assumes "0 < interval"
  shows "now < current + missed interval current now * interval"
    and "now < current \<or> current + missed interval current now * interval \<le> now + interval"
proof -
  define D where "D = (now - current) div interval * interval"
  define M where "M = (now - current) mod interval"
  have a: "D + M = now - current" by (simp add: D_def M_def)
  have b: "0 \<le> M" "M < interval" using assms by (simp_all add: M_def)
  have m: "missed interval current now * interval = (if now < current then 0 else D + interval)"
    by (simp add: missed_def D_def distrib_right)
  show "now < current + missed interval current now * interval"
    "now < current \<or> current + missed interval current now * interval \<le> now + interval"
    using a b unfolding m by auto
qed

text \<open>
  A schedule that has an occurrence after \<open>now\<close>: an interval, or a cron expression that fires again.  For one
  that never does, the cron library answers the zero time.
\<close>

definition fires_after :: "time \<Rightarrow> ScheduleSpec \<Rightarrow> bool" where
  "fires_after now s \<longleftrightarrow> (case ssp_schedule s of None \<Rightarrow> True | Some next \<Rightarrow> now < next now)"

lemma parse_interval: "schedule_Parse p e tz d = Inr s \<Longrightarrow> ssp_schedule s = None \<Longrightarrow> Minute \<le> ssp_Interval s"
  by (auto simp: schedule_Parse_def Let_def split: if_splits option.splits)

text \<open>Advancing always ends, and after \<open>now\<close> where the schedule fires again.\<close>

lemma advance_returns:
  assumes "schedule_Parse p e tz d = Inr s"
  obtains t where "schedule_Advance s current now = Some t" "fires_after now s \<Longrightarrow> now < t"
proof (cases "ssp_schedule s")
  case None
  then have pos: "0 < ssp_Interval s" using parse_interval [OF assms] by (simp add: Minute_def)
  show thesis
    using that missed_bounds(1) [OF pos] by (simp add: schedule_Advance_def None advance_loop_closed [OF pos])
next
  case (Some f)
  then show thesis using that by (simp add: schedule_Advance_def schedule_Next_def fires_after_def)
qed

lemma window_at_least: "Minute \<le> schedule_Window s t"
  by (simp add: schedule_Window_def Let_def)

section \<open>Parsing a parsed schedule again\<close>

lemma find_space_prefix:
  assumes "find (HasPrefix t) seqs = Some q" "HasPrefix s t"
  shows "find (HasPrefix s) seqs \<noteq> None"
proof -
  have q: "q \<in> set seqs" "HasPrefix t q" using assms(1) by (auto simp: find_Some_iff)
  then have "HasPrefix s q" using assms(2) by (auto simp: HasPrefix_iff)
  with q(1) show ?thesis by (auto simp: find_None_iff)
qed

lemma space_len_prefix:
  assumes "space_len seqs s = 0" "s = t @ u" "[] \<notin> set seqs"
  shows "space_len seqs t = 0"
proof (rule ccontr)
  assume "space_len seqs t \<noteq> 0"
  then obtain q where q: "find (HasPrefix t) seqs = Some q" by (auto simp: space_len_def split: option.splits)
  then have "find (HasPrefix s) seqs \<noteq> None" using find_space_prefix assms(2) by (metis HasPrefix_iff)
  then obtain q' where q': "find (HasPrefix s) seqs = Some q'" by blast
  then have "q' \<in> set seqs" by (auto simp: find_Some_iff)
  with q' assms(1,3) show False by (auto simp: space_len_def)
qed

lemma trim_front_id: "space_len seqs s = 0 \<Longrightarrow> trim_front seqs s = s"
  by (subst trim_front.simps) simp

lemma trim_front_Nil [simp]: "trim_front seqs [] = []"
  by (subst trim_front.simps) simp

lemma trim_front_step: "s \<noteq> [] \<Longrightarrow> 0 < space_len seqs s \<Longrightarrow> trim_front seqs s = trim_front seqs (drop (space_len seqs s) s)"
  by (subst trim_front.simps) simp

lemma trim_front_stop: "space_len seqs (trim_front seqs s) = 0 \<or> trim_front seqs s = []"
proof (induction seqs s rule: trim_front.induct)
  case (1 seqs s)
  then show ?case by (cases "s \<noteq> [] \<and> 0 < space_len seqs s") (auto simp: trim_front_step trim_front_id)
qed

lemma trim_front_suffix: "\<exists>u. s = u @ trim_front seqs s"
proof (induction seqs s rule: trim_front.induct)
  case (1 seqs s)
  show ?case
  proof (cases "s \<noteq> [] \<and> 0 < space_len seqs s")
    case True
    with 1 obtain u where "drop (space_len seqs s) s = u @ trim_front seqs (drop (space_len seqs s) s)" by blast
    with True trim_front_step show ?thesis by (metis append.assoc append_take_drop_id)
  next
    case False
    then have "trim_front seqs s = s" by (auto simp: trim_front_id)
    then show ?thesis by simp
  qed
qed

lemma TrimSpace_idem [simp]: "TrimSpace (TrimSpace s) = TrimSpace s"
proof -
  define f where "f = trim_front space_seqs s"
  define b where "b = trim_front (map rev space_seqs) (rev f)"
  obtain u where u: "rev f = u @ b" using trim_front_suffix [of "rev f" "map rev space_seqs"] by (auto simp: b_def)
  then have f: "f = rev b @ rev u" by (metis rev_append rev_rev_ident)
  have ne: "[] \<notin> set space_seqs" by (simp add: space_seqs_def)
  have 1: "trim_front space_seqs (rev b) = rev b"
  proof (cases "f = []")
    case True
    with f show ?thesis by simp
  next
    case False
    then have "space_len space_seqs f = 0" using trim_front_stop [of space_seqs s] by (simp add: f_def)
    from space_len_prefix [OF this f ne] show ?thesis by (rule trim_front_id)
  qed
  have 2: "trim_front (map rev space_seqs) b = b"
    using trim_front_stop [of "map rev space_seqs" "rev f"] trim_front_id unfolding b_def [symmetric] by (cases "b = []") auto
  have "TrimSpace s = rev b" by (simp add: TrimSpace_def f_def b_def)
  moreover have "TrimSpace (rev b) = rev b" using 1 2 by (simp add: TrimSpace_def)
  ultimately show ?thesis by simp
qed

lemma parse_again:
  assumes "schedule_Parse p e tz d = Inr s" "TrimSpace DefaultTimezone = DefaultTimezone"
  shows "\<exists>s'. schedule_Parse p (ssp_Cron s) (ssp_Timezone s) d = Inr s'"
proof (cases "TrimSpace e = ''''")
  case True
  have "TrimSpace '''' = ''''" by (simp add: TrimSpace_def)
  with True assms show ?thesis by (auto simp: schedule_Parse_def Let_def split: if_splits)
next
  case False
  with assms show ?thesis by (auto simp: schedule_Parse_def Let_def split: if_splits option.splits)
qed

lemma default_timezone_trimmed: "TrimSpace DefaultTimezone = DefaultTimezone"
  by code_simp

end
