(* ===== verification/Scheduler.thy ===== *)
theory Scheduler
  imports Schedule JobInvariants
begin

text \<open>
  What the schedulers of routines and of trigger subscriptions share: the loop of \<^verbatim>\<open>RunDue\<close> over the
  due records, and the contract of one round of it, as a locale.  A round moves its own record on
  and enqueues at most the one job of its occurrence; then the loop handles every due record
  once, and none is due afterwards.
\<close>

section \<open>The loop\<close>

text \<open>
  \<^verbatim>\<open>for _, record := range due\<close> with an early return of the first error; round \<open>n\<close> has the
  identifier \<open>ids n\<close> and the clock reading \<open>clock n\<close>.
\<close>

fun for_each_due ::
  "(string \<Rightarrow> time \<Rightarrow> 'r \<Rightarrow> 's \<Rightarrow> ('e, unit, 's) outcome option) \<Rightarrow> (nat \<Rightarrow> string) \<Rightarrow> (nat \<Rightarrow> time) \<Rightarrow> nat \<Rightarrow> 'r list
     \<Rightarrow> 's \<Rightarrow> ('e, unit, 's) outcome option" where
  "for_each_due run_one ids clock n [] s = Some (Inr (), s)"
| "for_each_due run_one ids clock n (r # rs) s =
     do { (x, s') \<leftarrow> run_one (ids n) (clock n) r s;
          case x of Inl e \<Rightarrow> Some (Inl e, s') | Inr _ \<Rightarrow> for_each_due run_one ids clock (Suc n) rs s' }"

section \<open>Enqueueing the job of an occurrence\<close>

text \<open>At most the one job under a key is new, and it is the one of the specification.\<close>

definition gains_job :: "bool \<Rightarrow> string \<Rightarrow> (Job \<Rightarrow> bool) \<Rightarrow> JobQueue \<Rightarrow> JobQueue \<Rightarrow> bool" where
  "gains_job wanted key made q q' \<longleftrightarrow>
     (\<forall>k. \<not> wanted \<or> k \<noteq> key \<longrightarrow> stored_job q' k = stored_job q k)
     \<and> (wanted \<longrightarrow> (\<exists>j. stored_job q' key = Some j \<and> (stored_job q key = None \<longrightarrow> made j)))
     \<and> (\<forall>k j. stored_job q k = Some j \<longrightarrow> stored_job q' k = Some j)"

lemma gains_nothing [simp]: "gains_job False key made q q"
  by (simp add: gains_job_def)

lemma enqueue_other_ids: "j \<noteq> i \<Longrightarrow> q_jobs (snd (jobs_Enqueue spec i t q)) j = q_jobs q j"
  by (simp add: jobs_Enqueue_def Let_def split: sum.split option.split)

lemma enqueue_gains:
  assumes "index_ok q" "q_jobs q i = None" "jobs_ValidateSpec sp = Inr ()" "made (job_of_spec sp i t)"
  obtains j created q' where "jobs_Enqueue sp i t q = (Inr (j, created), q')" "index_ok q'"
    "gains_job True (spec_key sp) made q q'" "\<And>k. k \<noteq> i \<Longrightarrow> q_jobs q' k = q_jobs q k"
proof -
  obtain x q' where e: "jobs_Enqueue sp i t q = (x, q')" by fastforce
  obtain j created where x: "x = Inr (j, created)"
    using e assms(3) by (auto simp: jobs_Enqueue_def Let_def split: option.splits)
  have ok: "index_ok q'" and st: "stored_job q' (spec_key sp) = Some j"
    using jobi.enqueue_stores [OF assms(1,2), of sp t j created q'] e x by simp_all
  have fr: "stored_job q' k = stored_job q k" if "k \<noteq> spec_key sp" for k
    using jobi.enqueue_frame [OF assms(1,2), of k sp t] e that by simp
  have new: "j = job_of_spec sp i t" if "stored_job q (spec_key sp) = None"
    using that e x assms(3) index_okD(2) [OF assms(1)]
    by (force simp: jobs_Enqueue_def spec_key_def stored_job_def Let_def split: option.splits)
  have kept: "stored_job q' k = Some j'" if "stored_job q k = Some j'" for k j'
  proof (cases "k = spec_key sp")
    case True
    have "jobs_Enqueue sp i t q = (Inr (j', False), q)"
      using jobi.enqueue_existing [OF assms(1,3), of j' i t] that True by simp
    with e that show ?thesis by simp
  qed (use fr that in simp)
  have "gains_job True (spec_key sp) made q q'"
    using fr st new assms(4) kept by (auto simp: gains_job_def)
  with e x ok enqueue_other_ids [of _ i sp t q] show thesis by (intro that [of j created q']) simp_all
qed

section \<open>The contract of a round\<close>

locale occurrence_round =
  fixes key :: "'r \<Rightarrow> string"
    and valid :: "'r \<Rightarrow> bool"
    and wanted :: "'r \<Rightarrow> bool"
    and job_key :: "'r \<Rightarrow> string"
    and moved :: "'r \<Rightarrow> 'r \<Rightarrow> bool"
    and made :: "'r \<Rightarrow> Job \<Rightarrow> bool"
    and run_one :: "string \<Rightarrow> time \<Rightarrow> 'r \<Rightarrow> (string \<rightharpoonup> 'r) \<times> JobQueue \<Rightarrow> ('e, unit, (string \<rightharpoonup> 'r) \<times> JobQueue) outcome option"
  assumes round:
      "s (key r) = Some r \<Longrightarrow> valid r \<Longrightarrow> index_ok q \<Longrightarrow> q_jobs q i = None \<Longrightarrow>
         \<exists>r' q'. run_one i t r (s, q) = Some (Inr (), (s(key r \<mapsto> r'), q')) \<and> moved r r' \<and> index_ok q'
             \<and> gains_job (wanted r) (job_key r) (made r) q q' \<and> (\<forall>j. j \<noteq> i \<longrightarrow> q_jobs q' j = q_jobs q j)"
begin

lemma rounds:
  assumes "distinct (map key rs)" "\<forall>r \<in> set rs. s (key r) = Some r \<and> valid r" "index_ok q" "inj ids" "\<forall>m \<ge> m0. q_jobs q (ids m) = None"
  shows "\<exists>s' q'. for_each_due run_one ids clock m0 rs (s, q) = Some (Inr (), (s', q'))
    \<and> (\<forall>k. k \<notin> key ` set rs \<longrightarrow> s' k = s k)
    \<and> (\<forall>r \<in> set rs. \<exists>r'. moved r r' \<and> s' (key r) = Some r')
    \<and> (\<forall>r \<in> set rs. wanted r \<longrightarrow> (\<exists>j. stored_job q' (job_key r) = Some j))
    \<and> (\<forall>k j. stored_job q k = Some j \<longrightarrow> stored_job q' k = Some j)
    \<and> (\<forall>k j. stored_job q k = None \<and> stored_job q' k = Some j \<longrightarrow> (\<exists>r \<in> set rs. wanted r \<and> k = job_key r \<and> made r j))
    \<and> index_ok q'"
  using assms(1-3,5)
proof (induction rs arbitrary: s q m0)
  case Nil
  then show ?case by (intro exI [of _ s] exI [of _ q]) auto
next
  case (Cons r rs)
  from Cons.prems have r: "s (key r) = Some r" "valid r" "q_jobs q (ids m0) = None" by auto
  from round [where s = s and r = r and q = q and i = "ids m0" and t = "clock m0", OF r(1,2) Cons.prems(3) r(3)]
  obtain r' q1 where one: "run_one (ids m0) (clock m0) r (s, q) = Some (Inr (), (s(key r \<mapsto> r'), q1))" "moved r r'" "index_ok q1"
    "gains_job (wanted r) (job_key r) (made r) q q1" "\<forall>j. j \<noteq> ids m0 \<longrightarrow> q_jobs q1 j = q_jobs q j"
    by (elim exE conjE) (rule that; assumption)
  note gains = one(4) [unfolded gains_job_def]
  define s1 where "s1 = s(key r \<mapsto> r')"
  have keys: "key r \<notin> key ` set rs" and distinct: "distinct (map key rs)" using Cons.prems(1) by simp_all
  have stored: "\<forall>x \<in> set rs. s1 (key x) = Some x \<and> valid x"
  proof
    fix x assume x: "x \<in> set rs"
    have "key x \<noteq> key r" using keys x by (metis image_eqI)
    moreover have "s (key x) = Some x \<and> valid x" using Cons.prems(2) x by (meson list.set_intros(2))
    ultimately show "s1 (key x) = Some x \<and> valid x" by (simp add: s1_def)
  qed
  have fresh: "\<forall>m \<ge> Suc m0. q_jobs q1 (ids m) = None"
  proof (intro allI impI)
    fix m assume "Suc m0 \<le> m"
    then have "ids m \<noteq> ids m0" "q_jobs q (ids m) = None" using Cons.prems(4) injD [OF assms(4), of m m0] by auto
    then show "q_jobs q1 (ids m) = None" using one(5) by simp
  qed
  obtain s' q' where rest: "for_each_due run_one ids clock (Suc m0) rs (s1, q1) = Some (Inr (), (s', q'))"
    "\<forall>k. k \<notin> key ` set rs \<longrightarrow> s' k = s1 k"
    "\<forall>r \<in> set rs. \<exists>r'. moved r r' \<and> s' (key r) = Some r'"
    "\<forall>r \<in> set rs. wanted r \<longrightarrow> (\<exists>j. stored_job q' (job_key r) = Some j)"
    "\<forall>k j. stored_job q1 k = Some j \<longrightarrow> stored_job q' k = Some j"
    "\<forall>k j. stored_job q1 k = None \<and> stored_job q' k = Some j \<longrightarrow> (\<exists>r \<in> set rs. wanted r \<and> k = job_key r \<and> made r j)"
    "index_ok q'"
    using Cons.IH [OF distinct stored one(3) fresh] by (elim exE conjE) (rule that; assumption)
  have run: "for_each_due run_one ids clock m0 (r # rs) (s, q) = Some (Inr (), (s', q'))"
    using one(1) rest(1) by (simp add: s1_def)
  have moved: "\<exists>x'. moved x x' \<and> s' (key x) = Some x'" if "x \<in> set (r # rs)" for x
  proof (cases "x = r")
    case True
    have "s' (key r) = s1 (key r)" using rest(2) keys by blast
    with True one(2) show ?thesis by (auto simp: s1_def)
  qed (use that rest(3) in auto)
  have kept: "stored_job q' k = Some j" if "stored_job q k = Some j" for k j using gains that rest(5) by blast
  have queued: "\<exists>j. stored_job q' (job_key x) = Some j" if "x \<in> set (r # rs)" "wanted x" for x
  proof (cases "x = r")
    case True
    with gains that(2) rest(5) show ?thesis by blast
  qed (use that rest(4) in auto)
  have created: "\<exists>x \<in> set (r # rs). wanted x \<and> k = job_key x \<and> made x j"
    if "stored_job q k = None" "stored_job q' k = Some j" for k j
  proof (cases "stored_job q1 k")
    case None
    with rest(6) that(2) show ?thesis by auto
  next
    case (Some j1)
    then have r1: "wanted r" "k = job_key r" using gains that(1) by (metis option.distinct(1))+
    have "j = j1" using rest(5) Some that(2) by simp
    with gains r1 that(1) Some have "made r j" by auto
    with r1 show ?thesis by auto
  qed
  have other: "s' k = s k" if "k \<notin> key ` set (r # rs)" for k
    using that rest(2) by (simp add: s1_def)
  show ?case
    by (intro exI conjI, rule run) (use other moved queued kept created rest(7) in blast)+
qed

end

text \<open>Where every round moves its record past the present, a whole pass leaves none due.\<close>

locale occurrence_scheduler = occurrence_round key valid wanted job_key moved made run_one
  for key :: "'r \<Rightarrow> string"
    and valid wanted :: "'r \<Rightarrow> bool"
    and job_key :: "'r \<Rightarrow> string"
    and moved :: "'r \<Rightarrow> 'r \<Rightarrow> bool"
    and made :: "'r \<Rightarrow> Job \<Rightarrow> bool"
    and run_one :: "string \<Rightarrow> time \<Rightarrow> 'r \<Rightarrow> (string \<rightharpoonup> 'r) \<times> JobQueue \<Rightarrow> ('e, unit, (string \<rightharpoonup> 'r) \<times> JobQueue) outcome option" +
  fixes is_due :: "'r \<Rightarrow> bool"
  assumes moved_on: "moved r r' \<Longrightarrow> \<not> is_due r'"
begin

lemma run_due:
  assumes "\<forall>k r. s k = Some r \<longrightarrow> key r = k \<and> valid r" "distinct (map key rs)" "set rs = {r \<in> ran s. is_due r}"
    and "index_ok q" "inj ids" "\<forall>m. q_jobs q (ids m) = None"
  shows "\<exists>s' q'. for_each_due run_one ids clock 0 rs (s, q) = Some (Inr (), (s', q'))
    \<and> (\<forall>k r. s' k = Some r \<longrightarrow> \<not> is_due r)
    \<and> dom s' = dom s
    \<and> (\<forall>k r. s k = Some r \<longrightarrow> (if is_due r then \<exists>r'. moved r r' \<and> s' k = Some r' else s' k = Some r))
    \<and> (\<forall>k r. s k = Some r \<and> is_due r \<and> wanted r \<longrightarrow> (\<exists>j. stored_job q' (job_key r) = Some j))
    \<and> (\<forall>k j. stored_job q k = Some j \<longrightarrow> stored_job q' k = Some j)
    \<and> (\<forall>k j. stored_job q k = None \<and> stored_job q' k = Some j \<longrightarrow>
          (\<exists>r. s (key r) = Some r \<and> is_due r \<and> wanted r \<and> k = job_key r \<and> made r j))"
proof -
  have due: "r \<in> set rs \<longleftrightarrow> (\<exists>k. s k = Some r) \<and> is_due r" for r using assms(3) by (auto simp: ran_def)
  have stored: "\<forall>r \<in> set rs. s (key r) = Some r \<and> valid r" using assms(1) due by blast
  have fresh: "\<forall>m \<ge> 0. q_jobs q (ids m) = None" using assms(6) by blast
  obtain s' q' where run: "for_each_due run_one ids clock 0 rs (s, q) = Some (Inr (), (s', q'))"
    "\<forall>k. k \<notin> key ` set rs \<longrightarrow> s' k = s k"
    "\<forall>r \<in> set rs. \<exists>r'. moved r r' \<and> s' (key r) = Some r'"
    "\<forall>r \<in> set rs. wanted r \<longrightarrow> (\<exists>j. stored_job q' (job_key r) = Some j)"
    "\<forall>k j. stored_job q k = Some j \<longrightarrow> stored_job q' k = Some j"
    "\<forall>k j. stored_job q k = None \<and> stored_job q' k = Some j \<longrightarrow> (\<exists>r \<in> set rs. wanted r \<and> k = job_key r \<and> made r j)"
    using rounds [OF assms(2) stored assms(4,5) fresh, of clock] by (elim exE conjE) (rule that; assumption)
  have moved: "if is_due r then \<exists>r'. moved r r' \<and> s' k = Some r' else s' k = Some r" if "s k = Some r" for k r
  proof (cases "is_due r")
    case True
    then have "r \<in> set rs" "key r = k" using that due assms(1) by blast+
    with True run(3) show ?thesis by auto
  next
    case False
    have "k \<notin> key ` set rs"
    proof
      assume "k \<in> key ` set rs"
      then obtain x where "x \<in> set rs" "key x = k" by blast
      with stored that have "x = r" by fastforce
      with \<open>x \<in> set rs\<close> False due show False by blast
    qed
    with False that run(2) show ?thesis by auto
  qed
  have none: "s' k = None" if "s k = None" for k
  proof -
    have "k \<notin> key ` set rs" using that stored by force
    with run(2) that show ?thesis by simp
  qed
  have dom: "dom s' = dom s"
  proof (intro set_eqI)
    fix k show "k \<in> dom s' \<longleftrightarrow> k \<in> dom s"
      using none [of k] moved [of k] by (cases "s k") (auto split: if_splits)
  qed
  have still: "\<not> is_due x" if x: "s' k = Some x" for k x
  proof -
    from x none obtain r where "s k = Some r" by (cases "s k") auto
    with moved [of k r] x moved_on show ?thesis by (auto split: if_splits)
  qed
  have queued: "\<exists>j. stored_job q' (job_key r) = Some j" if "s k = Some r \<and> is_due r \<and> wanted r" for k r
    using that run(4) due by blast
  have created: "\<exists>r. s (key r) = Some r \<and> is_due r \<and> wanted r \<and> k = job_key r \<and> made r j"
    if "stored_job q k = None \<and> stored_job q' k = Some j" for k j
    using that run(6) stored due by blast
  show ?thesis
    by (intro exI conjI, rule run(1)) (use still dom moved queued run(5) created in blast)+
qed

end

section \<open>The due records of a store\<close>

lemma vals_keys:
  assumes "\<forall>k r. s k = Some r \<longrightarrow> key r = k" "distinct ord"
  shows "distinct (map key (vals ord s))"
  using assms(2)
proof (induction ord)
  case (Cons k ord)
  have "key r \<notin> key ` set (vals ord s)" if "s k = Some r" for r
    using Cons.prems that assms(1) by (auto simp: set_vals)
  with Cons show ?case by (cases "s k") (auto simp: vals_def List.map_filter_def)
qed (simp add: vals_def List.map_filter_def)

lemma sorted_due:
  assumes "\<forall>k r. s k = Some r \<longrightarrow> key r = k" "enumerates ord s"
  shows "distinct (map key (sort_key f (filter P (vals ord s))))"
    and "set (sort_key f (filter P (vals ord s))) = {r \<in> ran s. P r}"
  using vals_keys [OF assms(1), of ord] assms(2) set_vals_enumerates [OF assms(2)]
  by (auto simp: enumerates_def distinct_map intro: inj_on_subset)

end
