(* ===== verification/Versioned.thy ===== *)
theory Versioned
  imports Prelude
begin

text \<open>
  The contract of the stores that several operators edit: an edit names the version it was made
  on and succeeds only on that version.  Interpreted on the routines, the trigger subscriptions
  and the channel configuration.
\<close>

locale versioned_store =
  fixes lookup :: "'s \<Rightarrow> string \<Rightarrow> 'r option"
    and version :: "'r \<Rightarrow> int"
    and target :: "'op \<Rightarrow> string"
    and edit :: "'op \<Rightarrow> int \<Rightarrow> 's \<Rightarrow> ('e + 'a) \<times> 's"
  assumes edit_needs_version: "edit op v s = (Inr a, s') \<Longrightarrow> \<exists>r. lookup s (target op) = Some r \<and> version r = v"
    and edit_moves_on: "edit op v s = (Inr a, s') \<Longrightarrow> lookup s' (target op) = Some r \<Longrightarrow> version r = v + 1"
    and edit_error_clean: "edit op v s = (Inl e, s') \<Longrightarrow> s' = s"
    and edit_frame: "k \<noteq> target op \<Longrightarrow> lookup (snd (edit op v s)) k = lookup s k"
begin

lemma stale_edit_rejected:
  assumes "\<forall>r. lookup s (target op) = Some r \<longrightarrow> version r \<noteq> v"
  shows "\<exists>e. edit op v s = (Inl e, s)"
proof (cases "edit op v s")
  case (Pair x s')
  then show ?thesis using assms edit_needs_version edit_error_clean by (cases x) blast+
qed

fun edits :: "('op \<times> int) list \<Rightarrow> 's \<Rightarrow> 's" where
  "edits [] s = s"
| "edits ((op, v) # cs) s = edits cs (snd (edit op v s))"

text \<open>Once the version an editor has seen is gone, no edit of it succeeds while others edit on newer versions.\<close>

lemma stale_edits_rejected:
  assumes "\<forall>r. lookup s k = Some r \<longrightarrow> v < version r" "\<forall>(op, w) \<in> set cs. target op = k \<longrightarrow> v \<le> w"
  shows "\<forall>r. lookup (edits cs s) k = Some r \<longrightarrow> v < version r"
  using assms
proof (induction cs arbitrary: s)
  case (Cons c cs)
  obtain op w where c: "c = (op, w)" by fastforce
  obtain x s' where e: "edit op w s = (x, s')" by fastforce
  have "\<forall>r. lookup s' k = Some r \<longrightarrow> v < version r"
  proof (cases "k = target op")
    case True
    show ?thesis
    proof (cases x)
      case (Inl err)
      then show ?thesis using edit_error_clean e Cons.prems(1) by blast
    next
      case (Inr a)
      then show ?thesis using edit_moves_on [of op w s a s'] e Cons.prems(2) True c by fastforce
    qed
  next
    case False
    with edit_frame [of k op w s] e Cons.prems(1) show ?thesis by simp
  qed
  with Cons.IH [of s'] Cons.prems(2) c e show ?case by simp
qed simp

text \<open>Of two edits made on the same version, only the first takes effect.\<close>

lemma no_lost_update:
  assumes "edit op v s = (Inr a, s')" "target op' = target op"
    "\<forall>(op2, w) \<in> set cs. target op2 = target op \<longrightarrow> v \<le> w"
  shows "\<exists>e. edit op' v (edits cs s') = (Inl e, edits cs s')"
proof -
  have "\<forall>r. lookup s' (target op) = Some r \<longrightarrow> v < version r"
    using edit_moves_on [OF assms(1)] by fastforce
  from stale_edits_rejected [OF this assms(3)] have "\<forall>r. lookup (edits cs s') (target op') = Some r \<longrightarrow> version r \<noteq> v"
    using assms(2) by fastforce
  then show ?thesis by (rule stale_edit_rejected)
qed

end

end
