(* ===== verification/Routines.thy ===== *)
theory Routines
  imports Scheduler Versioned
begin

text \<open>
  \<^verbatim>\<open>core/routines/routines.go\<close>: the store of scheduled routines and the scheduler that turns every
  due occurrence into one ordinary job.  The authorizer is a parameter; the repository is the
  in-memory store.  An operation that would never return is \<open>None\<close>.
\<close>

section \<open>The store\<close>

datatype routine_error =
    ErrLoopSuppressed
  | ErrRoutineNotFound
  | ErrRoutineUpdateConflict
  | InvalidRoutine
  | InvalidRoutineSchedule schedule_error
  | RoutineScopeRequired
  | SourceEventRequired
  | RoutineDenied
  | RoutineQueueError job_error

record Routine =
  rt_ID :: string
  rt_OrganizationID :: string
  rt_WorkspaceID :: string
  rt_ChannelID :: string
  rt_RootThreadTS :: string
  rt_SessionID :: string
  rt_Generation :: int
  rt_OwnerID :: string
  rt_Input :: string
  rt_Cron :: string
  rt_Timezone :: string
  rt_Interval :: duration
  rt_NextRun :: time
  rt_Enabled :: bool
  rt_Version :: int
  rt_CreatedAt :: time
  rt_UpdatedAt :: time

record RoutineTrigger =
  trig_SourceEventID :: string
  trig_OriginTag :: string
  trig_At :: time

type_synonym RoutineStore = "string \<rightharpoonup> Routine"

definition routineKey :: "string \<Rightarrow> string \<Rightarrow> string \<Rightarrow> string \<Rightarrow> string" where
  "routineKey org workspace channel i = org @ ''/'' @ workspace @ ''/'' @ channel @ ''/'' @ i"

definition key_of_routine :: "Routine \<Rightarrow> string" where
  "key_of_routine r = routineKey (rt_OrganizationID r) (rt_WorkspaceID r) (rt_ChannelID r) (rt_ID r)"

definition routines_normalize :: "SchedulePorts \<Rightarrow> Routine \<Rightarrow> time \<Rightarrow> routine_error + Routine" where
  "routines_normalize p r now =
     (if rt_ID r = '''' \<or> rt_OrganizationID r = '''' \<or> rt_WorkspaceID r = '''' \<or> rt_ChannelID r = ''''
         \<or> rt_SessionID r = '''' \<or> rt_Generation r \<le> 0 \<or> rt_OwnerID r = '''' \<or> rt_Input r = ''''
      then Inl InvalidRoutine
      else case schedule_Parse p (rt_Cron r) (rt_Timezone r) (rt_Interval r) of
             Inl e \<Rightarrow> Inl (InvalidRoutineSchedule e)
           | Inr spec \<Rightarrow>
               Inr (r\<lparr>rt_Cron := ssp_Cron spec, rt_Timezone := ssp_Timezone spec,
                      rt_NextRun := (if IsZero (rt_NextRun r) then schedule_Next spec now else rt_NextRun r)\<rparr>))"

definition routines_Put ::
  "SchedulePorts \<Rightarrow> Routine \<Rightarrow> time \<Rightarrow> time \<Rightarrow> RoutineStore \<Rightarrow> (routine_error, Routine, RoutineStore) outcome" where
  "routines_Put p r t1 t2 s =
     (case routines_normalize p r t1 of
        Inl e \<Rightarrow> (Inl e, s)
      | Inr n \<Rightarrow>
          let key = key_of_routine n;
              r' = (case s key of
                      Some old \<Rightarrow> n\<lparr>rt_Version := rt_Version old + 1, rt_CreatedAt := rt_CreatedAt old, rt_UpdatedAt := t2\<rparr>
                    | None \<Rightarrow> n\<lparr>rt_Version := 1, rt_CreatedAt := t2, rt_UpdatedAt := t2\<rparr>)
          in (Inr r', s(key \<mapsto> r')))"

definition routines_UpdateContext ::
  "SchedulePorts \<Rightarrow> Routine \<Rightarrow> int \<Rightarrow> time \<Rightarrow> time \<Rightarrow> RoutineStore \<Rightarrow> (routine_error, Routine, RoutineStore) outcome" where
  "routines_UpdateContext p r expectedVersion t1 t2 s =
     (case routines_normalize p r t1 of
        Inl e \<Rightarrow> (Inl e, s)
      | Inr n \<Rightarrow>
          (case s (key_of_routine n) of
             None \<Rightarrow> (Inl ErrRoutineNotFound, s)
           | Some old \<Rightarrow>
               if rt_Version old \<noteq> expectedVersion then (Inl ErrRoutineUpdateConflict, s)
               else let r' = n\<lparr>rt_Version := rt_Version old + 1, rt_CreatedAt := rt_CreatedAt old, rt_UpdatedAt := t2\<rparr>
                    in (Inr r', s(key_of_routine n \<mapsto> r'))))"

definition routines_DeleteContext ::
  "string \<Rightarrow> string \<Rightarrow> string \<Rightarrow> string \<Rightarrow> int \<Rightarrow> RoutineStore \<Rightarrow> (routine_error, unit, RoutineStore) outcome" where
  "routines_DeleteContext org workspace channel i expectedVersion s =
     (let key = routineKey org workspace channel i
      in case s key of
           None \<Rightarrow> (Inl ErrRoutineUpdateConflict, s)
         | Some current \<Rightarrow>
             if rt_Version current \<noteq> expectedVersion then (Inl ErrRoutineUpdateConflict, s) else (Inr (), s(key := None)))"

definition routines_GetContext :: "string \<Rightarrow> string \<Rightarrow> string \<Rightarrow> string \<Rightarrow> RoutineStore \<Rightarrow> routine_error + Routine" where
  "routines_GetContext org workspace channel i s =
     (case s (routineKey org workspace channel i) of None \<Rightarrow> Inl ErrRoutineNotFound | Some r \<Rightarrow> Inr r)"

definition routines_Due :: "string list \<Rightarrow> time \<Rightarrow> RoutineStore \<Rightarrow> Routine list" where
  "routines_Due ord now s =
     sort_key (\<lambda>r. (rt_NextRun r, rt_ID r))
       (filter (\<lambda>r. rt_Enabled r \<and> \<not> After (rt_NextRun r) now) (vals ord s))"

definition routines_DueContext :: "string list \<Rightarrow> time \<Rightarrow> int \<Rightarrow> RoutineStore \<Rightarrow> Routine list" where
  "routines_DueContext ord now limit s =
     (let values = routines_Due ord now s
      in if 0 < limit \<and> limit < int (length values) then take (nat limit) values else values)"

definition routines_Advance ::
  "SchedulePorts \<Rightarrow> string \<Rightarrow> string \<Rightarrow> string \<Rightarrow> string \<Rightarrow> time \<Rightarrow> RoutineStore
     \<Rightarrow> (routine_error, unit, RoutineStore) outcome option" where
  "routines_Advance p org workspace channel i from_time s =
     (let key = routineKey org workspace channel i
      in case s key of
           None \<Rightarrow> Some (Inl ErrRoutineNotFound, s)
         | Some r \<Rightarrow>
             (case schedule_Parse p (rt_Cron r) (rt_Timezone r) (rt_Interval r) of
                Inl e \<Rightarrow> Some (Inl (InvalidRoutineSchedule e), s)
              | Inr spec \<Rightarrow>
                  do { n \<leftarrow> schedule_Advance spec (rt_NextRun r) from_time;
                       Some (Inr (), s(key \<mapsto> r\<lparr>rt_NextRun := n, rt_Version := rt_Version r + 1\<rparr>)) }))"

definition routines_List :: "string list \<Rightarrow> string \<Rightarrow> RoutineStore \<Rightarrow> Routine list" where
  "routines_List ord org s = sort_key rt_NextRun (filter (\<lambda>r. rt_OrganizationID r = org) (vals ord s))"

definition routines_ListChannel ::
  "string list \<Rightarrow> string \<Rightarrow> string \<Rightarrow> string \<Rightarrow> RoutineStore \<Rightarrow> routine_error + Routine list" where
  "routines_ListChannel ord org workspace channel s =
     (if org = '''' \<or> workspace = '''' \<or> channel = '''' then Inl RoutineScopeRequired
      else Inr (sort_key rt_NextRun
                 (filter (\<lambda>r. rt_OrganizationID r = org \<and> rt_WorkspaceID r = workspace \<and> rt_ChannelID r = channel) (vals ord s))))"

section \<open>The scheduler\<close>

definition routine_spec :: "Routine \<Rightarrow> string \<Rightarrow> time \<Rightarrow> JobSpec" where
  "routine_spec r key expires =
     \<lparr>spec_OrganizationID = rt_OrganizationID r, spec_WorkspaceID = rt_WorkspaceID r, spec_ChannelID = rt_ChannelID r,
      spec_RootThreadTS = rt_RootThreadTS r, spec_ReplyInChannel = False, spec_SessionID = rt_SessionID r,
      spec_Generation = rt_Generation r, spec_ObservationID = '''', spec_RequesterID = '''', spec_IdempotencyKey = key,
      spec_Kind = ''routine'', spec_Input = rt_Input r, spec_Images = [], spec_MaxAttempts = 3,
      spec_AdmissionReservationID = '''', spec_ResolvedModel = zero_ResolvedModel, spec_RouteTrace = zero_DecisionTrace,
      spec_ExpiresAt = expires\<rparr>"

definition routine_window_key :: "Routine \<Rightarrow> string" where
  "routine_window_key r =
     ''routine/'' @ rt_ChannelID r @ ''/'' @ rt_ID r @ ''/'' @ format_rfc3339nano (rt_NextRun r)"

text \<open>
  One due routine: \<open>i\<close> and \<open>t\<close> are the identifier and the clock reading of its enqueue.  An
  unauthorized occurrence is skipped.
\<close>

definition run_routine ::
  "SchedulePorts \<Rightarrow> (Routine \<Rightarrow> bool) \<Rightarrow> time \<Rightarrow> string \<Rightarrow> time \<Rightarrow> Routine \<Rightarrow> RoutineStore \<times> JobQueue
     \<Rightarrow> (routine_error, unit, RoutineStore \<times> JobQueue) outcome option" where
  "run_routine p authorize now i t r sq =
     (let (s, q) = sq;
          advance = (\<lambda>q'. do { (x, s') \<leftarrow> routines_Advance p (rt_OrganizationID r) (rt_WorkspaceID r) (rt_ChannelID r) (rt_ID r) now s;
                            Some (x, (s', q')) })
      in if \<not> authorize r then advance q
         else case schedule_Parse p (rt_Cron r) (rt_Timezone r) (rt_Interval r) of
                Inl e \<Rightarrow> Some (Inl (InvalidRoutineSchedule e), sq)
              | Inr spec \<Rightarrow>
                  (case jobs_Enqueue (routine_spec r (routine_window_key r) (now + schedule_Window spec (rt_NextRun r))) i t q of
                     (Inl e, q') \<Rightarrow> Some (Inl (RoutineQueueError e), (s, q'))
                   | (Inr _, q') \<Rightarrow> advance q'))"

definition routines_RunDue ::
  "SchedulePorts \<Rightarrow> (Routine \<Rightarrow> bool) \<Rightarrow> string list \<Rightarrow> time \<Rightarrow> (nat \<Rightarrow> string) \<Rightarrow> (nat \<Rightarrow> time)
     \<Rightarrow> RoutineStore \<times> JobQueue \<Rightarrow> (routine_error, unit, RoutineStore \<times> JobQueue) outcome option" where
  "routines_RunDue p authorize ord now ids clock sq =
     for_each_due (run_routine p authorize now) ids clock 0 (routines_DueContext ord now 100 (fst sq)) sq"

definition routines_Trigger ::
  "(Routine \<Rightarrow> bool) \<Rightarrow> Routine \<Rightarrow> RoutineTrigger \<Rightarrow> string \<Rightarrow> time \<Rightarrow> JobQueue \<Rightarrow> (routine_error, Job, JobQueue) outcome" where
  "routines_Trigger authorize r t i now q =
     (if trig_OriginTag t \<noteq> '''' then (Inl ErrLoopSuppressed, q)
      else if trig_SourceEventID t = '''' then (Inl SourceEventRequired, q)
      else if \<not> authorize r then (Inl RoutineDenied, q)
      else case jobs_Enqueue (routine_spec r (''routine/'' @ rt_ChannelID r @ ''/'' @ rt_ID r @ ''/event/'' @ trig_SourceEventID t)
                  zero_time) i now q of
             (Inl e, q') \<Rightarrow> (Inl (RoutineQueueError e), q')
           | (Inr (job, _), q') \<Rightarrow> (Inr job, q'))"

section \<open>Edits name their version\<close>

datatype RoutineEdit = EditRoutine SchedulePorts Routine time time | RemoveRoutine string string string string

fun edited_key :: "RoutineEdit \<Rightarrow> string" where
  "edited_key (EditRoutine p r t1 t2) = key_of_routine r"
| "edited_key (RemoveRoutine org workspace channel i) = routineKey org workspace channel i"

fun edit_routine :: "RoutineEdit \<Rightarrow> int \<Rightarrow> RoutineStore \<Rightarrow> (routine_error, unit, RoutineStore) outcome" where
  "edit_routine (EditRoutine p r t1 t2) v s = apfst (map_sum id (\<lambda>_. ())) (routines_UpdateContext p r v t1 t2 s)"
| "edit_routine (RemoveRoutine org workspace channel i) v s = routines_DeleteContext org workspace channel i v s"

lemma normalize_key: "routines_normalize p r now = Inr n \<Longrightarrow> key_of_routine n = key_of_routine r"
  by (auto simp: routines_normalize_def key_of_routine_def split: if_splits sum.splits)

interpretation rv: versioned_store "\<lambda>s. s" rt_Version edited_key edit_routine
proof
  show "\<exists>r. s (edited_key op) = Some r \<and> rt_Version r = v" if "edit_routine op v s = (Inr a, s')" for op v s a s'
    using that
    by (cases op) (auto simp: routines_UpdateContext_def routines_DeleteContext_def Let_def normalize_key apfst_sum_eq
        split: sum.splits option.splits if_splits)
  show "rt_Version r = v + 1" if "edit_routine op v s = (Inr a, s')" "s' (edited_key op) = Some r" for op v s a s' r
    using that
    by (cases op) (auto simp: routines_UpdateContext_def routines_DeleteContext_def Let_def normalize_key apfst_sum_eq
        split: sum.splits option.splits if_splits)
  show "s' = s" if "edit_routine op v s = (Inl e, s')" for op v s e s'
    using that
    by (cases op) (auto simp: routines_UpdateContext_def routines_DeleteContext_def Let_def apfst_sum_eq
        split: sum.splits option.splits if_splits)
  show "snd (edit_routine op v s) k = s k" if "k \<noteq> edited_key op" for k op v s
    using that
    by (cases op) (auto simp: routines_UpdateContext_def routines_DeleteContext_def Let_def normalize_key
        split: sum.split option.split)
qed


section \<open>Well-formed stores\<close>

definition routine_valid :: "SchedulePorts \<Rightarrow> Routine \<Rightarrow> bool" where
  "routine_valid p r \<longleftrightarrow>
     rt_ID r \<noteq> '''' \<and> rt_OrganizationID r \<noteq> '''' \<and> rt_WorkspaceID r \<noteq> '''' \<and> rt_ChannelID r \<noteq> '''' \<and> rt_SessionID r \<noteq> ''''
     \<and> 0 < rt_Generation r \<and> rt_OwnerID r \<noteq> '''' \<and> rt_Input r \<noteq> ''''
     \<and> (\<exists>spec. schedule_Parse p (rt_Cron r) (rt_Timezone r) (rt_Interval r) = Inr spec)"

definition routines_ok :: "SchedulePorts \<Rightarrow> RoutineStore \<Rightarrow> bool" where
  "routines_ok p s \<longleftrightarrow> (\<forall>k r. s k = Some r \<longrightarrow> key_of_routine r = k \<and> routine_valid p r)"

lemma routines_okD: "routines_ok p s \<Longrightarrow> s k = Some r \<Longrightarrow> key_of_routine r = k \<and> routine_valid p r"
  unfolding routines_ok_def by blast

lemma normalize_valid:
  assumes "routines_normalize p r now = Inr n"
  shows "routine_valid p n"
proof -
  obtain spec where spec: "schedule_Parse p (rt_Cron r) (rt_Timezone r) (rt_Interval r) = Inr spec"
    using assms by (auto simp: routines_normalize_def split: if_splits sum.splits)
  from parse_again [OF spec default_timezone_trimmed] show ?thesis
    using assms spec by (auto simp: routines_normalize_def routine_valid_def split: if_splits)
qed

lemma routine_valid_frame [simp]:
  "routine_valid p (r\<lparr>rt_Version := v\<rparr>) = routine_valid p r" "routine_valid p (r\<lparr>rt_CreatedAt := t\<rparr>) = routine_valid p r"
  "routine_valid p (r\<lparr>rt_UpdatedAt := t\<rparr>) = routine_valid p r" "routine_valid p (r\<lparr>rt_NextRun := t\<rparr>) = routine_valid p r"
  "key_of_routine (r\<lparr>rt_Version := v\<rparr>) = key_of_routine r" "key_of_routine (r\<lparr>rt_CreatedAt := t\<rparr>) = key_of_routine r"
  "key_of_routine (r\<lparr>rt_UpdatedAt := t\<rparr>) = key_of_routine r" "key_of_routine (r\<lparr>rt_NextRun := t\<rparr>) = key_of_routine r"
  by (simp_all add: routine_valid_def key_of_routine_def)

inductive routine_step :: "SchedulePorts \<Rightarrow> RoutineStore \<Rightarrow> RoutineStore \<Rightarrow> bool" for p where
  rstep_put: "routine_step p s (snd (routines_Put p r t1 t2 s))"
| rstep_edit: "routine_step p s (snd (routines_UpdateContext p r v t1 t2 s))"
| rstep_delete: "routine_step p s (snd (routines_DeleteContext org workspace channel i v s))"
| rstep_advance: "routines_Advance p org workspace channel i t s = Some (x, s') \<Longrightarrow> routine_step p s s'"

lemma routines_ok_put: "routines_ok p s \<Longrightarrow> key_of_routine r = k \<Longrightarrow> routine_valid p r \<Longrightarrow> routines_ok p (s(k \<mapsto> r))"
  by (simp add: routines_ok_def)

lemma routine_step_ok: "routine_step p s s' \<Longrightarrow> routines_ok p s \<Longrightarrow> routines_ok p s'"
proof (induction rule: routine_step.induct)
  case (rstep_put s r t1 t2)
  then show ?case
    by (auto simp: routines_Put_def Let_def routines_ok_def dest: normalize_valid split: sum.split option.split)
next
  case (rstep_edit s r v t1 t2)
  then show ?case
    by (auto simp: routines_UpdateContext_def Let_def normalize_valid split: sum.split option.split intro!: routines_ok_put)
next
  case (rstep_delete s org workspace channel i v)
  then show ?case by (auto simp: routines_DeleteContext_def Let_def routines_ok_def split: option.split)
next
  case (rstep_advance org workspace channel i t s x s')
  then show ?case
    by (auto simp: routines_Advance_def Let_def bind_eq_Some_conv routines_okD split: option.splits sum.splits intro!: routines_ok_put)
qed

section \<open>A due occurrence becomes one job\<close>

definition routine_job_key :: "Routine \<Rightarrow> string" where
  "routine_job_key r = idempotency_index (rt_OrganizationID r) (routine_window_key r)"

lemma routine_spec_valid: "routine_valid p r \<Longrightarrow> key \<noteq> '''' \<Longrightarrow> jobs_ValidateSpec (routine_spec r key e) = Inr ()"
  by (simp add: jobs_ValidateSpec_def routine_spec_def routine_valid_def)

text \<open>Jobs made for an occurrence, and what happens to the routine.\<close>

definition routine_job :: "Routine \<Rightarrow> Job \<Rightarrow> bool" where
  "routine_job r j \<longleftrightarrow> job_State j = StateQueued \<and> job_Input j = rt_Input r \<and> job_ChannelID j = rt_ChannelID r"

definition routine_moved :: "time \<Rightarrow> Routine \<Rightarrow> Routine \<Rightarrow> bool" where
  "routine_moved now r r' \<longleftrightarrow> (\<exists>n > now. r' = r\<lparr>rt_NextRun := n, rt_Version := rt_Version r + 1\<rparr>)"

definition routine_due :: "time \<Rightarrow> Routine \<Rightarrow> bool" where
  "routine_due now r \<longleftrightarrow> rt_Enabled r \<and> rt_NextRun r \<le> now"

text \<open>The routine's own schedule has an occurrence after \<open>now\<close>.\<close>

definition routine_fires :: "SchedulePorts \<Rightarrow> time \<Rightarrow> Routine \<Rightarrow> bool" where
  "routine_fires p now r \<longleftrightarrow>
     (case schedule_Parse p (rt_Cron r) (rt_Timezone r) (rt_Interval r) of Inl _ \<Rightarrow> False | Inr spec \<Rightarrow> fires_after now spec)"

lemma run_routine_round:
  assumes "s (key_of_routine r) = Some r" "routine_valid p r" "routine_fires p now r" "index_ok q" "q_jobs q i = None"
  shows "\<exists>r' q'. run_routine p authorize now i t r (s, q) = Some (Inr (), (s(key_of_routine r \<mapsto> r'), q'))
    \<and> routine_moved now r r' \<and> index_ok q' \<and> gains_job (authorize r) (routine_job_key r) (routine_job r) q q'
    \<and> (\<forall>j. j \<noteq> i \<longrightarrow> q_jobs q' j = q_jobs q j)"
proof -
  obtain spec where spec: "schedule_Parse p (rt_Cron r) (rt_Timezone r) (rt_Interval r) = Inr spec"
    using assms(2) by (auto simp: routine_valid_def)
  obtain n where n: "schedule_Advance spec (rt_NextRun r) now = Some n" "now < n"
    by (rule advance_returns [OF spec, where current = "rt_NextRun r" and now = now])
      (use assms(3) spec in \<open>auto simp: routine_fires_def\<close>)
  define r' where "r' = r\<lparr>rt_NextRun := n, rt_Version := rt_Version r + 1\<rparr>"
  have moved: "routine_moved now r r'" using n(2) by (auto simp: routine_moved_def r'_def)
  have adv: "routines_Advance p (rt_OrganizationID r) (rt_WorkspaceID r) (rt_ChannelID r) (rt_ID r) now s
      = Some (Inr (), s(key_of_routine r \<mapsto> r'))"
    using assms(1) spec n(1) by (simp add: routines_Advance_def key_of_routine_def r'_def)
  show ?thesis
  proof (cases "authorize r")
    case False
    then have "run_routine p authorize now i t r (s, q) = Some (Inr (), (s(key_of_routine r \<mapsto> r'), q))"
      using adv by (simp add: run_routine_def)
    with False moved assms(4) show ?thesis by auto
  next
    case True
    define sp where "sp = routine_spec r (routine_window_key r) (now + schedule_Window spec (rt_NextRun r))"
    have valid: "jobs_ValidateSpec sp = Inr ()"
      unfolding sp_def by (rule routine_spec_valid [OF assms(2)]) (simp add: routine_window_key_def)
    have key: "spec_key sp = routine_job_key r"
      by (simp add: sp_def spec_key_def routine_job_key_def routine_spec_def)
    have made: "routine_job r (job_of_spec sp i t)"
      by (simp add: routine_job_def sp_def job_of_spec_def routine_spec_def)
    obtain j created q' where e: "jobs_Enqueue sp i t q = (Inr (j, created), q')" "index_ok q'"
      "gains_job True (routine_job_key r) (routine_job r) q q'" "\<And>k. k \<noteq> i \<Longrightarrow> q_jobs q' k = q_jobs q k"
      using enqueue_gains [of q i sp "routine_job r" t, OF assms(4,5) valid made] key by metis
    have "run_routine p authorize now i t r (s, q) = Some (Inr (), (s(key_of_routine r \<mapsto> r'), q'))"
      using True spec e(1) adv by (simp add: run_routine_def sp_def [symmetric])
    with True moved e show ?thesis by auto
  qed
qed

interpretation routine_rounds: occurrence_scheduler key_of_routine "\<lambda>r. routine_valid p r \<and> routine_fires p now r"
    authorize routine_job_key "routine_moved now" routine_job "run_routine p authorize now" "routine_due now"
  for p authorize now
proof
  fix s r q i t
  assume "s (key_of_routine r) = Some r" "routine_valid p r \<and> routine_fires p now r" "index_ok q" "q_jobs q i = None"
  then show "\<exists>r' q'. run_routine p authorize now i t r (s, q) = Some (Inr (), (s(key_of_routine r \<mapsto> r'), q'))
    \<and> routine_moved now r r' \<and> index_ok q' \<and> gains_job (authorize r) (routine_job_key r) (routine_job r) q q'
    \<and> (\<forall>j. j \<noteq> i \<longrightarrow> q_jobs q' j = q_jobs q j)"
    by (intro run_routine_round) simp_all
qed (auto simp: routine_moved_def routine_due_def)

text \<open>
  A due occurrence becomes exactly one job.  When the scheduler runs over a store of valid
  routines whose schedules fire again, with at most a hundred due, it returns without an error; every due routine moves on to a
  time strictly after now and no other routine changes, so none is due a second time; every
  due routine the authorizer accepts has its one job of that occurrence; jobs that exist stay
  as they are, and every job that is new is the queued input of an authorized due routine.
\<close>
theorem due_routines_run_once:
  assumes "routines_ok p s" "\<forall>k r. s k = Some r \<longrightarrow> routine_fires p now r" "enumerates ord s" "length (routines_Due ord now s) \<le> 100"
    and "index_ok q" "inj ids" "\<forall>m. q_jobs q (ids m) = None"
  shows "\<exists>s' q'. routines_RunDue p authorize ord now ids clock (s, q) = Some (Inr (), (s', q'))
    \<and> (\<forall>k r. s' k = Some r \<longrightarrow> \<not> routine_due now r)
    \<and> dom s' = dom s
    \<and> (\<forall>k r. s k = Some r \<longrightarrow> (if routine_due now r then \<exists>r'. routine_moved now r r' \<and> s' k = Some r' else s' k = Some r))
    \<and> (\<forall>k r. s k = Some r \<and> routine_due now r \<and> authorize r \<longrightarrow> (\<exists>j. stored_job q' (routine_job_key r) = Some j))
    \<and> (\<forall>k j. stored_job q k = Some j \<longrightarrow> stored_job q' k = Some j)
    \<and> (\<forall>k j. stored_job q k = None \<and> stored_job q' k = Some j \<longrightarrow>
          (\<exists>r. s (key_of_routine r) = Some r \<and> routine_due now r \<and> authorize r \<and> k = routine_job_key r \<and> routine_job r j))"
proof -
  have valid: "\<forall>k r. s k = Some r \<longrightarrow> key_of_routine r = k \<and> (routine_valid p r \<and> routine_fires p now r)"
    using routines_okD [OF assms(1)] assms(2) by blast
  then have keys: "\<forall>k r. s k = Some r \<longrightarrow> key_of_routine r = k" by blast
  have eq: "routines_Due ord now s = sort_key (\<lambda>r. (rt_NextRun r, rt_ID r)) (filter (routine_due now) (vals ord s))"
    by (simp add: routines_Due_def routine_due_def not_less cong: filter_cong)
  have run: "routines_RunDue p authorize ord now ids clock (s, q)
      = for_each_due (run_routine p authorize now) ids clock 0 (routines_Due ord now s) (s, q)"
    using assms(4) by (simp add: routines_RunDue_def routines_DueContext_def Let_def)
  have "distinct (map key_of_routine (routines_Due ord now s))" "set (routines_Due ord now s) = {r \<in> ran s. routine_due now r}"
    unfolding eq by (rule sorted_due [OF keys assms(3)])+
  from routine_rounds.run_due [OF valid this assms(5-7), of authorize clock] show ?thesis unfolding run .
qed

section \<open>Concrete schedules\<close>

definition interval_ports :: SchedulePorts where
  "interval_ports = \<lparr>sp_LoadLocation = (\<lambda>tz. tz = ''UTC''), sp_ParseStandard = (\<lambda>e tz. None)\<rparr>"

definition sample_routine :: Routine where
  "sample_routine = \<lparr>rt_ID = ''r'', rt_OrganizationID = ''o'', rt_WorkspaceID = ''w'', rt_ChannelID = ''c'', rt_RootThreadTS = '''',
     rt_SessionID = ''s'', rt_Generation = 1, rt_OwnerID = ''u'', rt_Input = ''report'', rt_Cron = '''', rt_Timezone = ''UTC'',
     rt_Interval = Minute, rt_NextRun = 5, rt_Enabled = True, rt_Version = 1, rt_CreatedAt = 1, rt_UpdatedAt = 1\<rparr>"

definition sample_routines :: RoutineStore where
  "sample_routines = [''o/w/c/r'' \<mapsto> sample_routine]"

lemma TrimSpace_Nil: "TrimSpace '''' = ''''"
  by (simp add: TrimSpace_def)

lemma sample_routines_ok: "routines_ok interval_ports sample_routines"
  by (auto simp: routines_ok_def sample_routines_def sample_routine_def key_of_routine_def routineKey_def routine_valid_def
      schedule_Parse_def TrimSpace_Nil)

theorem due_routines_run_once_witness:
  "\<exists>s' q' r' j. routines_RunDue interval_ports (\<lambda>_. True) [''o/w/c/r''] 7 (\<lambda>n. replicate n CHR ''j'') (\<lambda>n. 8) (sample_routines, NewJobQueue)
       = Some (Inr (), (s', q'))
     \<and> s' ''o/w/c/r'' = Some r' \<and> routine_moved 7 sample_routine r' \<and> stored_job q' (routine_job_key sample_routine) = Some j"
proof -
  have enum: "enumerates [''o/w/c/r''] sample_routines" by (simp add: enumerates_def sample_routines_def)
  have due: "length (routines_Due [''o/w/c/r''] 7 sample_routines) \<le> 100"
    by (simp add: routines_Due_def vals_def List.map_filter_def)
  have "\<forall>k r. sample_routines k = Some r \<longrightarrow> routine_fires interval_ports 7 r"
    by (simp add: sample_routines_def sample_routine_def routine_fires_def fires_after_def schedule_Parse_def TrimSpace_Nil)
  moreover have "inj (\<lambda>n. replicate n CHR ''j'')" by (rule injI) (metis length_replicate)
  moreover have "\<forall>m. q_jobs NewJobQueue (replicate m CHR ''j'') = None" by (simp add: NewJobQueue_def)
  moreover have r: "sample_routines ''o/w/c/r'' = Some sample_routine" "routine_due 7 sample_routine"
    by (simp_all add: sample_routines_def sample_routine_def routine_due_def)
  ultimately obtain s' q' where run: "routines_RunDue interval_ports (\<lambda>_. True) [''o/w/c/r''] 7 (\<lambda>n. replicate n CHR ''j'') (\<lambda>n. 8)
      (sample_routines, NewJobQueue) = Some (Inr (), (s', q'))"
    "\<forall>k r. sample_routines k = Some r \<longrightarrow> (if routine_due 7 r then \<exists>r'. routine_moved 7 r r' \<and> s' k = Some r' else s' k = Some r)"
    "\<forall>k r. sample_routines k = Some r \<and> routine_due 7 r \<and> True \<longrightarrow> (\<exists>j. stored_job q' (routine_job_key r) = Some j)"
    using due_routines_run_once [OF sample_routines_ok _ enum due index_ok_new, of "\<lambda>n. replicate n CHR ''j''" "\<lambda>_. True" "\<lambda>n. 8"]
    by (elim exE conjE meta_impE) (assumption | rule that)+
  from run(2) r obtain r' where "s' ''o/w/c/r'' = Some r'" "routine_moved 7 sample_routine r'" by fastforce
  moreover from run(3) r obtain j where "stored_job q' (routine_job_key sample_routine) = Some j" by blast
  ultimately show ?thesis using run(1) by blast
qed

text \<open>
  The cron parser accepts expressions that never match, such as 30 February; the library then
  answers the zero time, which the code takes for a routine without a next run: it is due at once
  and stays due.
\<close>

definition unsatisfiable_ports :: SchedulePorts where
  "unsatisfiable_ports = \<lparr>sp_LoadLocation = (\<lambda>tz. True), sp_ParseStandard = (\<lambda>e tz. Some (\<lambda>t. zero_time))\<rparr>"

lemma unsatisfiable_cron_due_at_once:
  assumes "ssp_schedule spec = Some (\<lambda>t. zero_time)"
    and "schedule_Parse p (rt_Cron r) (rt_Timezone r) (rt_Interval r) = Inr spec" "routines_normalize p r t1 = Inr n"
    and "IsZero (rt_NextRun r)" "0 \<le> now"
  shows "rt_NextRun n \<le> now \<and> schedule_Advance spec (rt_NextRun n) now = Some zero_time"
  using assms by (auto simp: routines_normalize_def schedule_Next_def schedule_Advance_def zero_time_def split: if_splits)

lemma unsatisfiable_cron_example:
  "map_sum id (\<lambda>n. rt_NextRun n \<le> 100)
     (routines_normalize unsatisfiable_ports (sample_routine\<lparr>rt_Cron := ''0 0 30 2 *'', rt_NextRun := 0\<rparr>) 100) = Inr True"
  by code_simp

end
