(* ===== verification/Triggers.thy ===== *)
theory Triggers
  imports Scheduler Versioned
begin

text \<open>
  \<^verbatim>\<open>core/triggers/triggers.go\<close>: trigger subscriptions and the scheduler that turns a due heartbeat
  into a job only after the authorizer and the classifier gate accepted it.  Authorizer and gate
  are parameters; the repository is the in-memory store.
\<close>

section \<open>The store\<close>

datatype trigger_error =
    ErrScopeConflict
  | ErrTriggerUpdateConflict
  | TriggerNotFound
  | InvalidTrigger
  | InvalidTriggerSchedule schedule_error
  | TriggerScopeRequired
  | OrganizationRequired
  | TriggerDependencies
  | TriggerQueueError job_error

datatype TriggerKind = KindHeartbeat | KindOther string

record Subscription =
  sub_ID :: string
  sub_OrganizationID :: string
  sub_WorkspaceID :: string
  sub_ChannelID :: string
  sub_RootThreadTS :: string
  sub_SessionID :: string
  sub_Generation :: int
  sub_OwnerID :: string
  sub_Kind :: TriggerKind
  sub_Instruction :: string
  sub_Cron :: string
  sub_Timezone :: string
  sub_Interval :: duration
  sub_NextRun :: time
  sub_ClassifierGate :: bool
  sub_MinConfidence :: rat
  sub_Enabled :: bool
  sub_Version :: int
  sub_CreatedAt :: time
  sub_UpdatedAt :: time

record GateDecision =
  gate_Accepted :: bool
  gate_Confidence :: rat
  gate_PackID :: string

type_synonym TriggerStore = "string \<rightharpoonup> Subscription"

definition subscriptionKey :: "string \<Rightarrow> string \<Rightarrow> string \<Rightarrow> string \<Rightarrow> string" where
  "subscriptionKey org workspace channel i = org @ ''/'' @ workspace @ ''/'' @ channel @ ''/'' @ i"

definition key_of_subscription :: "Subscription \<Rightarrow> string" where
  "key_of_subscription x = subscriptionKey (sub_OrganizationID x) (sub_WorkspaceID x) (sub_ChannelID x) (sub_ID x)"

definition triggers_Normalize :: "SchedulePorts \<Rightarrow> Subscription \<Rightarrow> time \<Rightarrow> trigger_error + Subscription" where
  "triggers_Normalize p x now =
     (if sub_ID x = '''' \<or> sub_OrganizationID x = '''' \<or> sub_WorkspaceID x = '''' \<or> sub_ChannelID x = ''''
         \<or> sub_SessionID x = '''' \<or> sub_Generation x \<le> 0 \<or> sub_OwnerID x = '''' \<or> sub_Kind x \<noteq> KindHeartbeat
         \<or> sub_Instruction x = '''' \<or> \<not> sub_ClassifierGate x \<or> sub_MinConfidence x < 0 \<or> 1 < sub_MinConfidence x
      then Inl InvalidTrigger
      else case schedule_Parse p (sub_Cron x) (sub_Timezone x) (sub_Interval x) of
             Inl e \<Rightarrow> Inl (InvalidTriggerSchedule e)
           | Inr spec \<Rightarrow>
               Inr (x\<lparr>sub_Cron := ssp_Cron spec, sub_Timezone := ssp_Timezone spec,
                      sub_NextRun := (if IsZero (sub_NextRun x) then schedule_Next spec now else sub_NextRun x)\<rparr>))"

definition triggers_Validate :: "SchedulePorts \<Rightarrow> Subscription \<Rightarrow> time \<Rightarrow> trigger_error + unit" where
  "triggers_Validate p x now = map_sum id (\<lambda>_. ()) (triggers_Normalize p x now)"

definition triggers_PutContext ::
  "SchedulePorts \<Rightarrow> Subscription \<Rightarrow> time \<Rightarrow> time \<Rightarrow> TriggerStore \<Rightarrow> (trigger_error, Subscription, TriggerStore) outcome" where
  "triggers_PutContext p x t1 t2 s =
     (case triggers_Normalize p x t1 of
        Inl e \<Rightarrow> (Inl e, s)
      | Inr n \<Rightarrow>
          let key = key_of_subscription n;
              x' = (case s key of
                      Some old \<Rightarrow> n\<lparr>sub_Version := sub_Version old + 1, sub_CreatedAt := sub_CreatedAt old, sub_UpdatedAt := t2\<rparr>
                    | None \<Rightarrow> n\<lparr>sub_Version := 1, sub_CreatedAt := t2, sub_UpdatedAt := t2\<rparr>)
          in (Inr x', s(key \<mapsto> x')))"

definition triggers_CreateContext ::
  "SchedulePorts \<Rightarrow> Subscription \<Rightarrow> time \<Rightarrow> time \<Rightarrow> TriggerStore \<Rightarrow> (trigger_error, Subscription, TriggerStore) outcome" where
  "triggers_CreateContext p x t1 t2 s =
     (case triggers_Normalize p x t1 of
        Inl e \<Rightarrow> (Inl e, s)
      | Inr n \<Rightarrow>
          (case s (key_of_subscription n) of
             Some _ \<Rightarrow> (Inl ErrScopeConflict, s)
           | None \<Rightarrow>
               let x' = n\<lparr>sub_Version := 1, sub_CreatedAt := t2, sub_UpdatedAt := t2\<rparr>
               in (Inr x', s(key_of_subscription n \<mapsto> x'))))"

definition triggers_UpdateContext ::
  "SchedulePorts \<Rightarrow> Subscription \<Rightarrow> int \<Rightarrow> time \<Rightarrow> time \<Rightarrow> TriggerStore \<Rightarrow> (trigger_error, Subscription, TriggerStore) outcome" where
  "triggers_UpdateContext p x expectedVersion t1 t2 s =
     (case triggers_Normalize p x t1 of
        Inl e \<Rightarrow> (Inl e, s)
      | Inr n \<Rightarrow>
          (case s (key_of_subscription n) of
             None \<Rightarrow> (Inl TriggerNotFound, s)
           | Some old \<Rightarrow>
               if sub_Version old \<noteq> expectedVersion then (Inl ErrTriggerUpdateConflict, s)
               else let x' = n\<lparr>sub_Version := sub_Version old + 1, sub_CreatedAt := sub_CreatedAt old, sub_UpdatedAt := t2\<rparr>
                    in (Inr x', s(key_of_subscription n \<mapsto> x'))))"

definition triggers_DeleteContext ::
  "string \<Rightarrow> string \<Rightarrow> string \<Rightarrow> string \<Rightarrow> int \<Rightarrow> TriggerStore \<Rightarrow> (trigger_error, unit, TriggerStore) outcome" where
  "triggers_DeleteContext org workspace channel i expectedVersion s =
     (let key = subscriptionKey org workspace channel i
      in case s key of
           None \<Rightarrow> (Inl ErrTriggerUpdateConflict, s)
         | Some current \<Rightarrow>
             if sub_Version current \<noteq> expectedVersion then (Inl ErrTriggerUpdateConflict, s) else (Inr (), s(key := None)))"

definition triggers_GetContext :: "string \<Rightarrow> string \<Rightarrow> string \<Rightarrow> string \<Rightarrow> TriggerStore \<Rightarrow> trigger_error + Subscription" where
  "triggers_GetContext org workspace channel i s =
     (case s (subscriptionKey org workspace channel i) of None \<Rightarrow> Inl TriggerNotFound | Some x \<Rightarrow> Inr x)"

definition sortSubscriptions :: "Subscription list \<Rightarrow> Subscription list" where
  "sortSubscriptions = sort_key (\<lambda>x. (sub_NextRun x, sub_ID x))"

definition triggers_ListChannel ::
  "string list \<Rightarrow> string \<Rightarrow> string \<Rightarrow> string \<Rightarrow> TriggerStore \<Rightarrow> trigger_error + Subscription list" where
  "triggers_ListChannel ord org workspace channel s =
     (if org = '''' \<or> workspace = '''' \<or> channel = '''' then Inl TriggerScopeRequired
      else Inr (sortSubscriptions
             (filter (\<lambda>x. sub_OrganizationID x = org \<and> sub_WorkspaceID x = workspace \<and> sub_ChannelID x = channel) (vals ord s))))"

definition triggers_List :: "string list \<Rightarrow> string \<Rightarrow> TriggerStore \<Rightarrow> trigger_error + Subscription list" where
  "triggers_List ord org s =
     (if org = '''' then Inl OrganizationRequired
      else Inr (sortSubscriptions (filter (\<lambda>x. sub_OrganizationID x = org) (vals ord s))))"

definition subscription_due :: "time \<Rightarrow> Subscription \<Rightarrow> bool" where
  "subscription_due now x \<longleftrightarrow> sub_Enabled x \<and> \<not> After (sub_NextRun x) now"

definition triggers_DueContext :: "string list \<Rightarrow> time \<Rightarrow> int \<Rightarrow> TriggerStore \<Rightarrow> Subscription list" where
  "triggers_DueContext ord now limit s =
     (let values = sortSubscriptions (filter (subscription_due now) (vals ord s))
      in if 0 < limit \<and> limit < int (length values) then take (nat limit) values else values)"

definition triggers_AdvanceContext ::
  "SchedulePorts \<Rightarrow> string \<Rightarrow> string \<Rightarrow> string \<Rightarrow> string \<Rightarrow> time \<Rightarrow> time \<Rightarrow> TriggerStore
     \<Rightarrow> (trigger_error, unit, TriggerStore) outcome option" where
  "triggers_AdvanceContext p org workspace channel i from_time now s =
     (let key = subscriptionKey org workspace channel i
      in case s key of
           None \<Rightarrow> Some (Inl TriggerNotFound, s)
         | Some x \<Rightarrow>
             (case schedule_Parse p (sub_Cron x) (sub_Timezone x) (sub_Interval x) of
                Inl e \<Rightarrow> Some (Inl (InvalidTriggerSchedule e), s)
              | Inr spec \<Rightarrow>
                  do { n \<leftarrow> schedule_Advance spec (sub_NextRun x) from_time;
                       Some (Inr (), s(key \<mapsto> x\<lparr>sub_NextRun := n, sub_Version := sub_Version x + 1, sub_UpdatedAt := now\<rparr>)) }))"

section \<open>The scheduler\<close>

record TriggerPorts =
  tp_schedule :: SchedulePorts
  tp_authorize :: "Subscription \<Rightarrow> bool"
  tp_gate :: "Subscription \<Rightarrow> string \<Rightarrow> string + GateDecision"

definition trigger_window :: "Subscription \<Rightarrow> string" where
  "trigger_window x = format_rfc3339nano (sub_NextRun x)"

definition trigger_spec :: "Subscription \<Rightarrow> time \<Rightarrow> JobSpec" where
  "trigger_spec x expires =
     \<lparr>spec_OrganizationID = sub_OrganizationID x, spec_WorkspaceID = sub_WorkspaceID x, spec_ChannelID = sub_ChannelID x,
      spec_RootThreadTS = sub_RootThreadTS x, spec_ReplyInChannel = False, spec_SessionID = sub_SessionID x,
      spec_Generation = sub_Generation x, spec_ObservationID = '''', spec_RequesterID = sub_OwnerID x,
      spec_IdempotencyKey = ''trigger/'' @ sub_ChannelID x @ ''/'' @ sub_ID x @ ''/'' @ trigger_window x,
      spec_Kind = ''heartbeat'', spec_Input = sub_Instruction x, spec_Images = [], spec_MaxAttempts = 3,
      spec_AdmissionReservationID = '''', spec_ResolvedModel = zero_ResolvedModel, spec_RouteTrace = zero_DecisionTrace,
      spec_ExpiresAt = expires\<rparr>"

definition gate_passes :: "TriggerPorts \<Rightarrow> Subscription \<Rightarrow> bool" where
  "gate_passes p x \<longleftrightarrow>
     (case tp_gate p x (trigger_window x) of
        Inl _ \<Rightarrow> False
      | Inr d \<Rightarrow> gate_Accepted d \<and> sub_MinConfidence x \<le> gate_Confidence d)"

text \<open>
  One due subscription: \<open>i\<close> is the identifier of its job, \<open>t\<close> the clock reading of the enqueue
  and of the advance.
\<close>

definition run_subscription ::
  "TriggerPorts \<Rightarrow> time \<Rightarrow> string \<Rightarrow> time \<Rightarrow> Subscription \<Rightarrow> TriggerStore \<times> JobQueue
     \<Rightarrow> (trigger_error, unit, TriggerStore \<times> JobQueue) outcome option" where
  "run_subscription p now i t x sq =
     (let (s, q) = sq;
          advance = (\<lambda>q'. do { (r, s') \<leftarrow> triggers_AdvanceContext (tp_schedule p) (sub_OrganizationID x) (sub_WorkspaceID x)
                                              (sub_ChannelID x) (sub_ID x) now t s;
                            Some (r, (s', q')) })
      in if \<not> tp_authorize p x \<or> \<not> gate_passes p x then advance q
         else case schedule_Parse (tp_schedule p) (sub_Cron x) (sub_Timezone x) (sub_Interval x) of
                Inl e \<Rightarrow> Some (Inl (InvalidTriggerSchedule e), sq)
              | Inr spec \<Rightarrow>
                  (case jobs_Enqueue (trigger_spec x (now + schedule_Window spec (sub_NextRun x))) i t q of
                     (Inl e, q') \<Rightarrow> Some (Inl (TriggerQueueError e), (s, q'))
                   | (Inr _, q') \<Rightarrow> advance q'))"

definition triggers_RunDue ::
  "TriggerPorts \<Rightarrow> string list \<Rightarrow> time \<Rightarrow> (nat \<Rightarrow> string) \<Rightarrow> (nat \<Rightarrow> time) \<Rightarrow> TriggerStore \<times> JobQueue
     \<Rightarrow> (trigger_error, unit, TriggerStore \<times> JobQueue) outcome option" where
  "triggers_RunDue p ord now ids clock sq =
     for_each_due (run_subscription p now) ids clock 0 (triggers_DueContext ord now 100 (fst sq)) sq"

section \<open>Edits name their version\<close>

datatype TriggerEdit = EditSubscription SchedulePorts Subscription time time | RemoveSubscription string string string string

fun edited_subscription :: "TriggerEdit \<Rightarrow> string" where
  "edited_subscription (EditSubscription p x t1 t2) = key_of_subscription x"
| "edited_subscription (RemoveSubscription org workspace channel i) = subscriptionKey org workspace channel i"

fun edit_subscription :: "TriggerEdit \<Rightarrow> int \<Rightarrow> TriggerStore \<Rightarrow> (trigger_error, unit, TriggerStore) outcome" where
  "edit_subscription (EditSubscription p x t1 t2) v s = apfst (map_sum id (\<lambda>_. ())) (triggers_UpdateContext p x v t1 t2 s)"
| "edit_subscription (RemoveSubscription org workspace channel i) v s = triggers_DeleteContext org workspace channel i v s"

lemma Normalize_key: "triggers_Normalize p x now = Inr n \<Longrightarrow> key_of_subscription n = key_of_subscription x"
  by (auto simp: triggers_Normalize_def key_of_subscription_def split: if_splits sum.splits)

interpretation tv: versioned_store "\<lambda>s. s" sub_Version edited_subscription edit_subscription
proof
  show "\<exists>r. s (edited_subscription op) = Some r \<and> sub_Version r = v" if "edit_subscription op v s = (Inr a, s')" for op v s a s'
    using that
    by (cases op) (auto simp: triggers_UpdateContext_def triggers_DeleteContext_def Let_def Normalize_key apfst_sum_eq
        split: sum.splits option.splits if_splits)
  show "sub_Version r = v + 1" if "edit_subscription op v s = (Inr a, s')" "s' (edited_subscription op) = Some r" for op v s a s' r
    using that
    by (cases op) (auto simp: triggers_UpdateContext_def triggers_DeleteContext_def Let_def Normalize_key apfst_sum_eq
        split: sum.splits option.splits if_splits)
  show "s' = s" if "edit_subscription op v s = (Inl e, s')" for op v s e s'
    using that
    by (cases op) (auto simp: triggers_UpdateContext_def triggers_DeleteContext_def Let_def apfst_sum_eq
        split: sum.splits option.splits if_splits)
  show "snd (edit_subscription op v s) k = s k" if "k \<noteq> edited_subscription op" for k op v s
    using that
    by (cases op) (auto simp: triggers_UpdateContext_def triggers_DeleteContext_def Let_def Normalize_key
        split: sum.split option.split)
qed

section \<open>Well-formed stores\<close>

definition subscription_valid :: "SchedulePorts \<Rightarrow> Subscription \<Rightarrow> bool" where
  "subscription_valid p x \<longleftrightarrow>
     sub_ID x \<noteq> '''' \<and> sub_OrganizationID x \<noteq> '''' \<and> sub_WorkspaceID x \<noteq> '''' \<and> sub_ChannelID x \<noteq> '''' \<and> sub_SessionID x \<noteq> ''''
     \<and> 0 < sub_Generation x \<and> sub_ClassifierGate x \<and> 0 \<le> sub_MinConfidence x \<and> sub_MinConfidence x \<le> 1
     \<and> (\<exists>spec. schedule_Parse p (sub_Cron x) (sub_Timezone x) (sub_Interval x) = Inr spec)"

definition triggers_ok :: "SchedulePorts \<Rightarrow> TriggerStore \<Rightarrow> bool" where
  "triggers_ok p s \<longleftrightarrow> (\<forall>k x. s k = Some x \<longrightarrow> key_of_subscription x = k \<and> subscription_valid p x)"

lemma triggers_okD: "triggers_ok p s \<Longrightarrow> s k = Some x \<Longrightarrow> key_of_subscription x = k \<and> subscription_valid p x"
  unfolding triggers_ok_def by blast

lemma triggers_ok_put: "triggers_ok p s \<Longrightarrow> key_of_subscription x = k \<Longrightarrow> subscription_valid p x \<Longrightarrow> triggers_ok p (s(k \<mapsto> x))"
  by (simp add: triggers_ok_def)

lemma Normalize_valid:
  assumes "triggers_Normalize p x now = Inr n"
  shows "subscription_valid p n"
proof -
  obtain spec where spec: "schedule_Parse p (sub_Cron x) (sub_Timezone x) (sub_Interval x) = Inr spec"
    using assms by (auto simp: triggers_Normalize_def split: if_splits sum.splits)
  from parse_again [OF spec default_timezone_trimmed] show ?thesis
    using assms spec by (auto simp: triggers_Normalize_def subscription_valid_def split: if_splits)
qed

lemma subscription_valid_frame [simp]:
  "subscription_valid p (x\<lparr>sub_Version := v\<rparr>) = subscription_valid p x"
  "subscription_valid p (x\<lparr>sub_CreatedAt := t\<rparr>) = subscription_valid p x"
  "subscription_valid p (x\<lparr>sub_UpdatedAt := t\<rparr>) = subscription_valid p x"
  "subscription_valid p (x\<lparr>sub_NextRun := t\<rparr>) = subscription_valid p x"
  "key_of_subscription (x\<lparr>sub_Version := v\<rparr>) = key_of_subscription x"
  "key_of_subscription (x\<lparr>sub_CreatedAt := t\<rparr>) = key_of_subscription x"
  "key_of_subscription (x\<lparr>sub_UpdatedAt := t\<rparr>) = key_of_subscription x"
  "key_of_subscription (x\<lparr>sub_NextRun := t\<rparr>) = key_of_subscription x"
  by (simp_all add: subscription_valid_def key_of_subscription_def)

inductive trigger_step :: "SchedulePorts \<Rightarrow> TriggerStore \<Rightarrow> TriggerStore \<Rightarrow> bool" for p where
  tstep_put: "trigger_step p s (snd (triggers_PutContext p x t1 t2 s))"
| tstep_create: "trigger_step p s (snd (triggers_CreateContext p x t1 t2 s))"
| tstep_edit: "trigger_step p s (snd (triggers_UpdateContext p x v t1 t2 s))"
| tstep_delete: "trigger_step p s (snd (triggers_DeleteContext org workspace channel i v s))"
| tstep_advance: "triggers_AdvanceContext p org workspace channel i t t' s = Some (r, s') \<Longrightarrow> trigger_step p s s'"

lemmas trigger_step_defs =
  triggers_PutContext_def triggers_CreateContext_def triggers_UpdateContext_def triggers_DeleteContext_def
  triggers_AdvanceContext_def

lemma trigger_step_ok: "trigger_step p s s' \<Longrightarrow> triggers_ok p s \<Longrightarrow> triggers_ok p s'"
proof (induction rule: trigger_step.induct)
  case (tstep_advance org workspace channel i t t' s r s')
  then show ?case
    by (auto simp: triggers_AdvanceContext_def Let_def bind_eq_Some_conv triggers_okD split: option.splits sum.splits intro!: triggers_ok_put)
qed (auto simp: trigger_step_defs Let_def triggers_ok_def dest: Normalize_valid split: sum.split option.split)

section \<open>A heartbeat fires only through the gate\<close>

definition trigger_job_key :: "Subscription \<Rightarrow> string" where
  "trigger_job_key x = spec_key (trigger_spec x 0)"

definition trigger_job :: "Subscription \<Rightarrow> Job \<Rightarrow> bool" where
  "trigger_job x j \<longleftrightarrow> job_State j = StateQueued \<and> job_Input j = sub_Instruction x \<and> job_ChannelID j = sub_ChannelID x
     \<and> job_RequesterID j = sub_OwnerID x"

text \<open>
  The subscription got the next run of its schedule; \<open>subscription_fires\<close>: its schedule has one after
  \<open>now\<close>, which a cron expression that never matches has not.
\<close>

definition subscription_moved :: "SchedulePorts \<Rightarrow> time \<Rightarrow> Subscription \<Rightarrow> Subscription \<Rightarrow> bool" where
  "subscription_moved p now x x' \<longleftrightarrow>
     (\<exists>spec n t. schedule_Parse p (sub_Cron x) (sub_Timezone x) (sub_Interval x) = Inr spec
        \<and> schedule_Advance spec (sub_NextRun x) now = Some n
        \<and> x' = x\<lparr>sub_NextRun := n, sub_Version := sub_Version x + 1, sub_UpdatedAt := t\<rparr>)"

definition subscription_fires :: "SchedulePorts \<Rightarrow> time \<Rightarrow> Subscription \<Rightarrow> bool" where
  "subscription_fires p now x \<longleftrightarrow>
     (case schedule_Parse p (sub_Cron x) (sub_Timezone x) (sub_Interval x) of Inl _ \<Rightarrow> False | Inr spec \<Rightarrow> fires_after now spec)"

lemma moved_not_due: "subscription_moved p now x x' \<Longrightarrow> subscription_fires p now x \<Longrightarrow> \<not> subscription_due now x'"
proof -
  assume moved: "subscription_moved p now x x'" and f: "subscription_fires p now x"
  then obtain spec n t where s: "schedule_Parse p (sub_Cron x) (sub_Timezone x) (sub_Interval x) = Inr spec"
    "schedule_Advance spec (sub_NextRun x) now = Some n"
    "x' = x\<lparr>sub_NextRun := n, sub_Version := sub_Version x + 1, sub_UpdatedAt := t\<rparr>"
    by (auto simp: subscription_moved_def)
  obtain n' where "schedule_Advance spec (sub_NextRun x) now = Some n'" "fires_after now spec \<longrightarrow> now < n'"
    by (rule advance_returns [OF s(1), where current = "sub_NextRun x" and now = now]) auto
  with s f show ?thesis by (simp add: subscription_fires_def subscription_due_def)
qed

definition fires :: "TriggerPorts \<Rightarrow> Subscription \<Rightarrow> bool" where
  "fires p x \<longleftrightarrow> tp_authorize p x \<and> gate_passes p x"

lemma run_subscription_round:
  assumes "s (key_of_subscription x) = Some x" "subscription_valid (tp_schedule p) x" "index_ok q" "q_jobs q i = None"
  shows "\<exists>x' q'. run_subscription p now i t x (s, q) = Some (Inr (), (s(key_of_subscription x \<mapsto> x'), q'))
    \<and> subscription_moved (tp_schedule p) now x x' \<and> index_ok q'
    \<and> gains_job (fires p x) (trigger_job_key x) (trigger_job x) q q'
    \<and> (\<forall>j. j \<noteq> i \<longrightarrow> q_jobs q' j = q_jobs q j)"
proof -
  obtain spec where spec: "schedule_Parse (tp_schedule p) (sub_Cron x) (sub_Timezone x) (sub_Interval x) = Inr spec"
    using assms(2) by (auto simp: subscription_valid_def)
  obtain n where n: "schedule_Advance spec (sub_NextRun x) now = Some n"
    by (rule advance_returns [OF spec])
  define x' where "x' = x\<lparr>sub_NextRun := n, sub_Version := sub_Version x + 1, sub_UpdatedAt := t\<rparr>"
  have moved: "subscription_moved (tp_schedule p) now x x'" using n spec by (auto simp: subscription_moved_def x'_def)
  have adv: "triggers_AdvanceContext (tp_schedule p) (sub_OrganizationID x) (sub_WorkspaceID x) (sub_ChannelID x) (sub_ID x) now t s
      = Some (Inr (), s(key_of_subscription x \<mapsto> x'))"
    using assms(1) spec n by (simp add: triggers_AdvanceContext_def key_of_subscription_def x'_def)
  show ?thesis
  proof (cases "fires p x")
    case False
    then have "run_subscription p now i t x (s, q) = Some (Inr (), (s(key_of_subscription x \<mapsto> x'), q))"
      using adv by (simp add: run_subscription_def fires_def)
    with False moved assms(3) show ?thesis by auto
  next
    case True
    define sp where "sp = trigger_spec x (now + schedule_Window spec (sub_NextRun x))"
    have valid: "jobs_ValidateSpec sp = Inr ()"
      using assms(2) by (simp add: sp_def trigger_spec_def subscription_valid_def jobs_ValidateSpec_def)
    have key: "spec_key sp = trigger_job_key x"
      by (simp add: sp_def trigger_job_key_def spec_key_def trigger_spec_def)
    have made: "trigger_job x (job_of_spec sp i t)"
      by (simp add: trigger_job_def sp_def job_of_spec_def trigger_spec_def)
    obtain j created q' where e: "jobs_Enqueue sp i t q = (Inr (j, created), q')" "index_ok q'"
      "gains_job True (trigger_job_key x) (trigger_job x) q q'" "\<And>k. k \<noteq> i \<Longrightarrow> q_jobs q' k = q_jobs q k"
      using enqueue_gains [of q i sp "trigger_job x" t, OF assms(3,4) valid made] key by metis
    have "run_subscription p now i t x (s, q) = Some (Inr (), (s(key_of_subscription x \<mapsto> x'), q'))"
      using True spec e(1) adv by (simp add: run_subscription_def fires_def sp_def [symmetric])
    with True moved e show ?thesis by auto
  qed
qed

interpretation trigger_rounds: occurrence_round key_of_subscription "subscription_valid (tp_schedule p)" "fires p" trigger_job_key
    "subscription_moved (tp_schedule p) now" trigger_job "run_subscription p now"
  for p now
  by unfold_locales (rule run_subscription_round)

text \<open>The subscriptions a pass handles: the first hundred that are due.\<close>

lemma handled_due:
  assumes "triggers_ok p s" "enumerates ord s"
  shows "distinct (map key_of_subscription (triggers_DueContext ord now 100 s))"
    "x \<in> set (triggers_DueContext ord now 100 s) \<Longrightarrow>
       s (key_of_subscription x) = Some x \<and> subscription_valid p x \<and> subscription_due now x"
    "length (filter (subscription_due now) (vals ord s)) \<le> 100 \<Longrightarrow> s k = Some x \<Longrightarrow> subscription_due now x \<Longrightarrow>
       x \<in> set (triggers_DueContext ord now 100 s)"
proof -
  have keys: "\<forall>k x. s k = Some x \<longrightarrow> key_of_subscription x = k" using triggers_okD [OF assms(1)] by blast
  let ?all = "sortSubscriptions (filter (subscription_due now) (vals ord s))"
  have due: "distinct (map key_of_subscription ?all)" "set ?all = {x \<in> ran s. subscription_due now x}"
    unfolding sortSubscriptions_def by (rule sorted_due [OF keys assms(2)])+
  have t: "triggers_DueContext ord now 100 s = take (nat 100) ?all"
    by (simp add: triggers_DueContext_def Let_def)
  show "distinct (map key_of_subscription (triggers_DueContext ord now 100 s))"
    unfolding t using due(1) by (simp add: take_map [symmetric])
  show "s (key_of_subscription x) = Some x \<and> subscription_valid p x \<and> subscription_due now x"
    if "x \<in> set (triggers_DueContext ord now 100 s)"
  proof -
    from that have "x \<in> ran s" "subscription_due now x" unfolding t using due(2) by (auto dest: in_set_takeD)
    then show ?thesis using triggers_okD [OF assms(1)] by (auto simp: ran_def)
  qed
  show "x \<in> set (triggers_DueContext ord now 100 s)"
    if "length (filter (subscription_due now) (vals ord s)) \<le> 100" "s k = Some x" "subscription_due now x"
    using that due(2) by (auto simp: t sortSubscriptions_def ran_def)
qed


text \<open>
  Three due subscriptions: one every minute, one by a cron expression that fires every ten
  minutes, and one on 30 February, for which the cron library answers the zero time.
\<close>

definition sample_subscription :: Subscription where
  "sample_subscription = \<lparr>sub_ID = ''r'', sub_OrganizationID = ''o'', sub_WorkspaceID = ''w'', sub_ChannelID = ''c'', sub_RootThreadTS = '''',
     sub_SessionID = ''s'', sub_Generation = 1, sub_OwnerID = ''u'', sub_Kind = KindHeartbeat, sub_Instruction = ''check'', sub_Cron = '''',
     sub_Timezone = ''UTC'', sub_Interval = Minute, sub_NextRun = 5, sub_ClassifierGate = True, sub_MinConfidence = 1 / 2,
     sub_Enabled = True, sub_Version = 1, sub_CreatedAt = 1, sub_UpdatedAt = 1\<rparr>"

definition sample_cron :: "string \<Rightarrow> string \<Rightarrow> Subscription" where
  "sample_cron i expression = sample_subscription\<lparr>sub_ID := i, sub_Cron := expression, sub_Interval := 0\<rparr>"

definition sample_trigger_ports :: TriggerPorts where
  "sample_trigger_ports = \<lparr>tp_schedule = \<lparr>sp_LoadLocation = (\<lambda>tz. True),
       sp_ParseStandard = (\<lambda>e tz. Some (\<lambda>t. if e = ''0 0 30 2 *'' then zero_time else t + 10 * Minute))\<rparr>,
     tp_authorize = (\<lambda>_. True), tp_gate = (\<lambda>_ _. Inr \<lparr>gate_Accepted = True, gate_Confidence = 3 / 4, gate_PackID = ''''\<rparr>)\<rparr>"

definition sample_triggers :: TriggerStore where
  "sample_triggers = [''o/w/c/r'' \<mapsto> sample_subscription, ''o/w/c/t'' \<mapsto> sample_cron ''t'' ''*/10 * * * *'',
     ''o/w/c/z'' \<mapsto> sample_cron ''z'' ''0 0 30 2 *'']"

lemma sample_keys:
  "key_of_subscription sample_subscription = ''o/w/c/r''" "key_of_subscription (sample_cron ''t'' ''*/10 * * * *'') = ''o/w/c/t''"
  "key_of_subscription (sample_cron ''z'' ''0 0 30 2 *'') = ''o/w/c/z''"
  by code_simp+

lemma sample_schedules:
  "\<not> isl (schedule_Parse (tp_schedule sample_trigger_ports) '''' ''UTC'' Minute)"
  "\<not> isl (schedule_Parse (tp_schedule sample_trigger_ports) ''*/10 * * * *'' ''UTC'' 0)"
  "\<not> isl (schedule_Parse (tp_schedule sample_trigger_ports) ''0 0 30 2 *'' ''UTC'' 0)"
  by code_simp+

lemma sample_fire:
  "subscription_fires (tp_schedule sample_trigger_ports) (7 + Hour) (sample_cron ''t'' ''*/10 * * * *'')"
  "subscription_fires (tp_schedule sample_trigger_ports) (7 + Hour) sample_subscription"
  "\<not> subscription_fires (tp_schedule sample_trigger_ports) (7 + Hour) (sample_cron ''z'' ''0 0 30 2 *'')"
  by code_simp+

lemma sample_triggers_ok: "triggers_ok (tp_schedule sample_trigger_ports) sample_triggers"
proof -
  have parsed: "\<exists>spec. x = Inr spec" if "\<not> isl x" for x :: "schedule_error + ScheduleSpec"
    using that by (cases x) simp_all
  have valid: "subscription_valid (tp_schedule sample_trigger_ports) x"
    if "x \<in> {sample_subscription, sample_cron ''t'' ''*/10 * * * *'', sample_cron ''z'' ''0 0 30 2 *''}" for x
    using that sample_schedules [THEN parsed] by (auto simp: subscription_valid_def sample_cron_def sample_subscription_def)
  show ?thesis
    using valid sample_keys by (simp add: triggers_ok_def sample_triggers_def split: if_splits)
qed


end

