(* ===== verification/Memory.thy ===== *)
theory Memory
  imports Types GoText
begin

text \<open>
  The memory records of \<^verbatim>\<open>core/memory\<close> (\<^verbatim>\<open>store.go\<close>, \<^verbatim>\<open>memory_store.go\<close>) and the part of the curator
  (\<^verbatim>\<open>curator.go\<close>) that turns a model summary into a record: which facts are kept, how long they
  live, and when a generated update is skipped.  The summarizer and the query that collects
  the batches are outside the model.
\<close>

section \<open>Records\<close>

datatype memory_error = ErrMemoryNotFound | InvalidMemoryText

datatype MemoryStatus = StatusActive | StatusForgotten | MemoryStatusOther string

datatype MemoryScope = ScopeChannel | ScopeThread | ScopeOther string

record Fact =
  fact_Text :: string
  fact_Confidence :: rat
  fact_SourceIDs :: "string list"
  fact_ExpiresAt :: time

record MemoryRecord =
  mem_ID :: string
  mem_OrganizationID :: string
  mem_ChannelID :: string
  mem_RootThreadTS :: string
  mem_Scope :: MemoryScope
  mem_ScopeKey :: string
  mem_Restricted :: bool
  mem_Text :: string
  mem_Facts :: "Fact list"
  mem_Confidence :: rat
  mem_SourceIDs :: "string list"
  mem_SourceHash :: string
  mem_Origin :: string
  mem_Model :: string
  mem_ReasoningEffort :: string
  mem_Pinned :: bool
  mem_Status :: MemoryStatus
  mem_Revision :: int
  mem_CreatedAt :: time
  mem_UpdatedAt :: time
  mem_NaturalExpiresAt :: time
  mem_ExpiresAt :: time

record MemoryStore =
  ms_byID :: "string \<rightharpoonup> MemoryRecord"
  ms_byScope :: "string \<rightharpoonup> string"

definition NewMemoryStore :: MemoryStore where
  "NewMemoryStore = \<lparr>ms_byID = Map.empty, ms_byScope = Map.empty\<rparr>"

definition memory_validateText :: "string \<Rightarrow> memory_error + string" where
  "memory_validateText value =
     (let v = TrimSpace value
      in if v = '''' \<or> 12000 < RuneCountInString v then Inl InvalidMemoryText else Inr v)"

definition scope_index :: "string \<Rightarrow> string \<Rightarrow> string" where
  "scope_index org scopeKey = org @ ''/'' @ scopeKey"

section \<open>The store (memory_store.go)\<close>

definition limited :: "int \<Rightarrow> 'a list \<Rightarrow> 'a list" where
  "limited limit xs = (if 0 < limit \<and> limit < int (length xs) then take (nat limit) xs else xs)"

definition memory_List :: "string list \<Rightarrow> string \<Rightarrow> int \<Rightarrow> MemoryStore \<Rightarrow> MemoryRecord list" where
  "memory_List ord org limit s =
     limited limit (sort_key (\<lambda>r. - mem_UpdatedAt r) (filter (\<lambda>r. mem_OrganizationID r = org) (vals ord (ms_byID s))))"

definition recallable :: "string \<Rightarrow> string \<Rightarrow> string \<Rightarrow> time \<Rightarrow> MemoryRecord \<Rightarrow> bool" where
  "recallable org channel rootTS now r \<longleftrightarrow>
     \<not> (mem_OrganizationID r \<noteq> org \<or> mem_Status r \<noteq> StatusActive
        \<or> (mem_Origin r \<noteq> ''operator'' \<and> mem_Facts r = [])
        \<or> (\<not> mem_Pinned r \<and> \<not> After (mem_ExpiresAt r) now)
        \<or> (mem_Restricted r \<and> mem_ChannelID r \<noteq> channel)
        \<or> (mem_Scope r = ScopeThread \<and> (mem_ChannelID r \<noteq> channel \<or> mem_RootThreadTS r \<noteq> rootTS)))"

definition memory_Recall ::
  "string list \<Rightarrow> string \<Rightarrow> string \<Rightarrow> string \<Rightarrow> time \<Rightarrow> int \<Rightarrow> MemoryStore \<Rightarrow> MemoryRecord list" where
  "memory_Recall ord org channel rootTS now limit s =
     limited limit (sort_key (\<lambda>r. - mem_UpdatedAt r) (filter (recallable org channel rootTS now) (vals ord (ms_byID s))))"

definition memory_FindScope :: "string \<Rightarrow> string \<Rightarrow> MemoryStore \<Rightarrow> memory_error + MemoryRecord" where
  "memory_FindScope org scopeKey s =
     (case ms_byID s (lookup_zero '''' (ms_byScope s) (scope_index org scopeKey)) of
        None \<Rightarrow> Inl ErrMemoryNotFound | Some r \<Rightarrow> Inr r)"

definition zero_MemoryRecord :: MemoryRecord where
  "zero_MemoryRecord =
     \<lparr>mem_ID = '''', mem_OrganizationID = '''', mem_ChannelID = '''', mem_RootThreadTS = '''', mem_Scope = ScopeOther '''',
      mem_ScopeKey = '''', mem_Restricted = False, mem_Text = '''', mem_Facts = [], mem_Confidence = 0, mem_SourceIDs = [],
      mem_SourceHash = '''', mem_Origin = '''', mem_Model = '''', mem_ReasoningEffort = '''', mem_Pinned = False,
      mem_Status = MemoryStatusOther '''', mem_Revision = 0, mem_CreatedAt = 0, mem_UpdatedAt = 0, mem_NaturalExpiresAt = 0,
      mem_ExpiresAt = 0\<rparr>"

text \<open>A record an operator wrote or pinned is not replaced by a generated one (also \<^verbatim>\<open>skipGeneratedUpdate\<close>).\<close>

definition skipGeneratedUpdate :: "MemoryRecord \<Rightarrow> string \<Rightarrow> bool" where
  "skipGeneratedUpdate current sourceHash \<longleftrightarrow>
     mem_SourceHash current = sourceHash
     \<or> (mem_Status current = StatusActive \<and> (mem_Pinned current \<or> mem_Origin current = ''operator''))"

definition memory_PutGenerated ::
  "MemoryRecord \<Rightarrow> string \<Rightarrow> time \<Rightarrow> MemoryStore \<Rightarrow> (memory_error, MemoryRecord \<times> bool, MemoryStore) outcome" where
  "memory_PutGenerated record i now s =
     (case memory_validateText (mem_Text record) of
        Inl e \<Rightarrow> (Inl e, s)
      | Inr text \<Rightarrow>
          let key = scope_index (mem_OrganizationID record) (mem_ScopeKey record);
              known = lookup_zero '''' (ms_byScope s) key;
              existing = lookup_zero zero_MemoryRecord (ms_byID s) known
          in if known \<noteq> '''' \<and> skipGeneratedUpdate existing (mem_SourceHash record) then (Inr (existing, False), s)
             else
               let r1 = (if known \<noteq> '''' then record\<lparr>mem_ID := mem_ID existing, mem_CreatedAt := mem_CreatedAt existing,
                                                   mem_Revision := mem_Revision existing + 1\<rparr> else record);
                   r2 = (if mem_ID r1 = '''' then r1\<lparr>mem_ID := i, mem_CreatedAt := now, mem_Revision := 1\<rparr> else r1);
                   r3 = r2\<lparr>mem_Text := text, mem_UpdatedAt := now, mem_Origin := ''model''\<rparr>
               in (Inr (r3, True), s\<lparr>ms_byID := (ms_byID s)(mem_ID r3 \<mapsto> r3), ms_byScope := (ms_byScope s)(key \<mapsto> mem_ID r3)\<rparr>))"

definition update_memory ::
  "string \<Rightarrow> string \<Rightarrow> string \<Rightarrow> (MemoryRecord \<Rightarrow> MemoryRecord) \<Rightarrow> MemoryStore \<Rightarrow> (memory_error, MemoryRecord, MemoryStore) outcome" where
  "update_memory org i actor f s =
     (case ms_byID s i of
        None \<Rightarrow> (Inl ErrMemoryNotFound, s)
      | Some r \<Rightarrow>
          if mem_OrganizationID r \<noteq> org \<or> actor = '''' then (Inl ErrMemoryNotFound, s)
          else let r' = (f r)\<lparr>mem_Revision := mem_Revision r + 1\<rparr> in (Inr r', s\<lparr>ms_byID := (ms_byID s)(i \<mapsto> r')\<rparr>))"

definition memory_Correct ::
  "string \<Rightarrow> string \<Rightarrow> string \<Rightarrow> string \<Rightarrow> time \<Rightarrow> MemoryStore \<Rightarrow> (memory_error, MemoryRecord, MemoryStore) outcome" where
  "memory_Correct org i text actor now s =
     (case memory_validateText text of
        Inl e \<Rightarrow> (Inl e, s)
      | Inr t \<Rightarrow>
          update_memory org i actor
            (\<lambda>r. r\<lparr>mem_Text := t, mem_Origin := ''operator'', mem_Status := StatusActive, mem_Pinned := True,
                   mem_ExpiresAt := zero_time, mem_UpdatedAt := now\<rparr>) s)"

definition memory_SetPinned ::
  "string \<Rightarrow> string \<Rightarrow> bool \<Rightarrow> string \<Rightarrow> time \<Rightarrow> MemoryStore \<Rightarrow> (memory_error, MemoryRecord, MemoryStore) outcome" where
  "memory_SetPinned org i pinned actor now s =
     update_memory org i actor
       (\<lambda>r. r\<lparr>mem_Pinned := pinned, mem_UpdatedAt := now,
              mem_ExpiresAt := (if pinned then zero_time else mem_NaturalExpiresAt r)\<rparr>) s"

definition memory_Forget ::
  "string \<Rightarrow> string \<Rightarrow> string \<Rightarrow> time \<Rightarrow> MemoryStore \<Rightarrow> (memory_error, MemoryRecord, MemoryStore) outcome" where
  "memory_Forget org i actor now s =
     update_memory org i actor
       (\<lambda>r. r\<lparr>mem_Text := '''', mem_Facts := [], mem_SourceIDs := [], mem_Model := '''', mem_ReasoningEffort := '''',
              mem_Status := StatusForgotten, mem_Origin := ''operator'', mem_Pinned := False, mem_ExpiresAt := zero_time,
              mem_NaturalExpiresAt := zero_time, mem_UpdatedAt := now\<rparr>) s"

section \<open>From a summary to a record (curator.go)\<close>

record SourceMessage =
  sm_ID :: string
  sm_AuthorID :: string
  sm_Text :: string
  sm_ObservedAt :: time
  sm_ExpiresAt :: time

record MemoryBatch =
  mb_OrganizationID :: string
  mb_ChannelID :: string
  mb_RootThreadTS :: string
  mb_Scope :: MemoryScope
  mb_ScopeKey :: string
  mb_Restricted :: bool
  mb_SourceHash :: string
  mb_Messages :: "SourceMessage list"

record SummaryFact =
  sf_Text :: string
  sf_Confidence :: rat
  sf_SourceIDs :: "string list"
  sf_ValidForHours :: int

record SummaryResult =
  sr_Summary :: string
  sr_Confidence :: rat
  sr_Facts :: "SummaryFact list"

text \<open>The earliest expiry of the sources.\<close>

definition natural_expiry :: "SourceMessage list \<Rightarrow> time" where
  "natural_expiry ms = fold (\<lambda>m e. if IsZero e \<or> Before (sm_ExpiresAt m) e then sm_ExpiresAt m else e) ms zero_time"

text \<open>One candidate fact; \<open>now\<close> is the clock reading of its round.\<close>

definition keep_fact :: "rat \<Rightarrow> string list \<Rightarrow> time \<Rightarrow> time \<Rightarrow> SummaryFact \<Rightarrow> Fact option" where
  "keep_fact minConfidence sources expiry now c =
     (if sf_Confidence c < minConfidence \<or> TrimSpace (sf_Text c) = '''' then None
      else if list_ex (\<lambda>i. i \<notin> set sources) (sf_SourceIDs c) \<or> sf_SourceIDs c = [] then None
      else
        let e = now + sf_ValidForHours c * Hour
        in Some \<lparr>fact_Text = TrimSpace (sf_Text c), fact_Confidence = sf_Confidence c, fact_SourceIDs = sf_SourceIDs c,
                 fact_ExpiresAt = (if \<not> IsZero expiry \<and> Before expiry e then expiry else e)\<rparr>)"

definition curated_record :: "rat \<Rightarrow> string \<Rightarrow> string \<Rightarrow> time \<Rightarrow> MemoryBatch \<Rightarrow> SummaryResult \<Rightarrow> MemoryRecord option" where
  "curated_record minConfidence model effort now b r =
     (if TrimSpace (sr_Summary r) = '''' \<or> sr_Confidence r < minConfidence then None
      else
        let sources = map sm_ID (mb_Messages b); expiry = natural_expiry (mb_Messages b);
            facts = List.map_filter (keep_fact minConfidence sources expiry now) (sr_Facts r)
        in if facts = [] then None
           else Some (zero_MemoryRecord\<lparr>mem_OrganizationID := mb_OrganizationID b, mem_ChannelID := mb_ChannelID b,
                  mem_RootThreadTS := mb_RootThreadTS b, mem_Scope := mb_Scope b, mem_ScopeKey := mb_ScopeKey b,
                  mem_Restricted := mb_Restricted b, mem_Text := sr_Summary r, mem_Facts := facts,
                  mem_Confidence := sr_Confidence r, mem_SourceIDs := sources, mem_SourceHash := mb_SourceHash b,
                  mem_Model := model, mem_ReasoningEffort := effort, mem_Status := StatusActive,
                  mem_NaturalExpiresAt := expiry, mem_ExpiresAt := expiry\<rparr>))"

text \<open>
  One batch of \<^verbatim>\<open>RunOnce\<close>; \<open>summarize\<close> is the answer of the summarizer (\<open>None\<close>: its request failed),
  the result says whether the memory changed.
\<close>

definition curate_batch ::
  "(MemoryBatch \<Rightarrow> SummaryResult option) \<Rightarrow> rat \<Rightarrow> string \<Rightarrow> string \<Rightarrow> string \<Rightarrow> time \<Rightarrow> MemoryBatch \<Rightarrow> MemoryStore
     \<Rightarrow> (memory_error, bool, MemoryStore) outcome" where
  "curate_batch summarize minConfidence model effort i now b s =
     (if (case memory_FindScope (mb_OrganizationID b) (mb_ScopeKey b) s of
            Inl _ \<Rightarrow> False | Inr current \<Rightarrow> skipGeneratedUpdate current (mb_SourceHash b))
      then (Inr False, s)
      else case summarize b of
             None \<Rightarrow> (Inr False, s)
           | Some r \<Rightarrow>
               (case curated_record minConfidence model effort now b r of
                  None \<Rightarrow> (Inr False, s)
                | Some record \<Rightarrow> apfst (map_sum id snd) (memory_PutGenerated record i now s)))"

section \<open>What an operator wrote stays\<close>

datatype MemoryCall =
    CallGenerated MemoryRecord string time
  | CallCorrect string string string string time
  | CallSetPinned string string bool string time
  | CallForget string string string time

fun memory_call :: "MemoryCall \<Rightarrow> MemoryStore \<Rightarrow> MemoryStore" where
  "memory_call (CallGenerated r i now) s = snd (memory_PutGenerated r i now s)"
| "memory_call (CallCorrect org i text actor now) s = snd (memory_Correct org i text actor now s)"
| "memory_call (CallSetPinned org i pinned actor now) s = snd (memory_SetPinned org i pinned actor now s)"
| "memory_call (CallForget org i actor now) s = snd (memory_Forget org i actor now s)"

definition memory_run :: "MemoryCall list \<Rightarrow> MemoryStore \<Rightarrow> MemoryStore" where
  "memory_run calls s = fold memory_call calls s"

text \<open>The calls that may run besides: no operator rewrites the record, and generated records are new ones.\<close>

fun leaves_record :: "string \<Rightarrow> MemoryCall \<Rightarrow> bool" where
  "leaves_record i (CallGenerated r j now) \<longleftrightarrow> mem_ID r = '''' \<and> j \<noteq> i"
| "leaves_record i (CallCorrect org j text actor now) \<longleftrightarrow> j \<noteq> i"
| "leaves_record i (CallSetPinned org j pinned actor now) \<longleftrightarrow> True"
| "leaves_record i (CallForget org j actor now) \<longleftrightarrow> j \<noteq> i"

text \<open>Every record is stored under its own identifier.\<close>

definition ids_ok :: "MemoryStore \<Rightarrow> bool" where
  "ids_ok s \<longleftrightarrow> (\<forall>i r. ms_byID s i = Some r \<longrightarrow> mem_ID r = i) \<and> ms_byID s '''' = None
     \<and> (\<forall>k i. ms_byScope s k = Some i \<longrightarrow> ms_byID s i \<noteq> None)"

definition operator_text :: "string \<Rightarrow> string \<Rightarrow> MemoryStore \<Rightarrow> bool" where
  "operator_text i text s \<longleftrightarrow>
     (\<exists>r. ms_byID s i = Some r \<and> mem_Text r = text \<and> mem_Origin r = ''operator'' \<and> mem_Status r = StatusActive)"

lemma update_memory_keeps_ids:
  assumes "ids_ok s" "\<And>r. mem_ID (f r) = mem_ID r"
  shows "ids_ok (snd (update_memory org i actor f s))"
  using assms by (auto simp: update_memory_def ids_ok_def Let_def split: option.splits)

lemma put_generated_ids:
  assumes "ids_ok s" "mem_ID r = ''''" "i \<noteq> ''''"
  shows "ids_ok (snd (memory_PutGenerated r i now s))"
proof -
  define known where "known = lookup_zero '''' (ms_byScope s) (scope_index (mem_OrganizationID r) (mem_ScopeKey r))"
  show ?thesis
  proof (cases "known = ''''")
    case True
    then show ?thesis using assms
      by (auto simp: memory_PutGenerated_def known_def [symmetric] Let_def ids_ok_def split: sum.splits)
  next
    case False
    then obtain e where e: "ms_byID s known = Some e" "mem_ID e = known"
      using assms(1) by (auto simp: ids_ok_def known_def lookup_zero_def split: option.splits) fastforce
    then show ?thesis using assms False
      by (auto simp: memory_PutGenerated_def known_def [symmetric] Let_def ids_ok_def split: sum.splits)
  qed
qed

lemma put_generated_protects:
  assumes "ids_ok s" "operator_text i text s" "mem_ID r = ''''" "j \<noteq> i"
  shows "operator_text i text (snd (memory_PutGenerated r j now s))"
proof -
  define known where "known = lookup_zero '''' (ms_byScope s) (scope_index (mem_OrganizationID r) (mem_ScopeKey r))"
  obtain x where x: "ms_byID s i = Some x" "mem_Text x = text" "mem_Origin x = ''operator''" "mem_Status x = StatusActive"
    using assms(2) by (auto simp: operator_text_def)
  show ?thesis
  proof (cases "known = ''''")
    case True
    then show ?thesis using assms x
      by (auto simp: memory_PutGenerated_def known_def [symmetric] Let_def operator_text_def split: sum.splits)
  next
    case False
    then obtain e where e: "ms_byID s known = Some e" "mem_ID e = known"
      using assms(1) by (auto simp: ids_ok_def known_def lookup_zero_def split: option.splits) fastforce
    show ?thesis
    proof (cases "known = i")
      case True
      then have "skipGeneratedUpdate e h" for h using e x by (simp add: skipGeneratedUpdate_def)
      then show ?thesis using assms(2) False e
        by (auto simp: memory_PutGenerated_def known_def [symmetric] Let_def split: sum.splits)
    next
      case other: False
      then show ?thesis using x False e
        by (auto simp: memory_PutGenerated_def known_def [symmetric] Let_def operator_text_def split: sum.splits)
    qed
  qed
qed

fun fresh_ids :: "MemoryCall \<Rightarrow> bool" where
  "fresh_ids (CallGenerated r j now) \<longleftrightarrow> mem_ID r = '''' \<and> j \<noteq> ''''"
| "fresh_ids _ \<longleftrightarrow> True"

lemma memory_call_ids: "ids_ok s \<Longrightarrow> fresh_ids c \<Longrightarrow> ids_ok (memory_call c s)"
  by (cases c) (auto simp: put_generated_ids memory_Correct_def memory_SetPinned_def memory_Forget_def
      intro!: update_memory_keeps_ids split: sum.split)

lemma memory_call_protects:
  assumes "ids_ok s" "operator_text i text s" "leaves_record i c"
  shows "operator_text i text (memory_call c s)"
proof (cases c)
  case (CallGenerated r j now)
  then show ?thesis using put_generated_protects [OF assms(1,2)] assms(3) by simp
qed (use assms(2,3) in \<open>auto simp: memory_Correct_def memory_SetPinned_def memory_Forget_def update_memory_def
      Let_def operator_text_def split: sum.split option.split\<close>)

lemma memory_run_protects:
  assumes "ids_ok s" "operator_text i text s" "\<forall>c \<in> set calls. leaves_record i c \<and> fresh_ids c"
  shows "operator_text i text (memory_run calls s)"
  using assms
  by (induction calls arbitrary: s) (auto simp: memory_run_def memory_call_protects memory_call_ids)

text \<open>
  What an operator wrote stays.  After an operator corrects a memory record, no sequence of
  curation runs, pinnings and changes of other records replaces the text: it stays the active
  operator text until an operator corrects or forgets that record.
\<close>
theorem corrected_memory_stays:
  assumes "ids_ok s" "memory_Correct org i text actor now s = (Inr r, s')"
    and "\<forall>c \<in> set calls. leaves_record i c \<and> fresh_ids c"
  shows "\<exists>x. ms_byID (memory_run calls s') i = Some x \<and> mem_Text x = TrimSpace text
    \<and> mem_Origin x = ''operator'' \<and> mem_Status x = StatusActive"
proof -
  have "operator_text i (TrimSpace text) s'"
    using assms(2)
    by (auto simp: memory_Correct_def memory_validateText_def update_memory_def operator_text_def Let_def
        split: if_splits option.splits sum.splits)
  moreover have "ids_ok s'" using memory_call_ids [OF assms(1), of "CallCorrect org i text actor now"] assms(2) by simp
  ultimately show ?thesis using memory_run_protects [of s' i "TrimSpace text" calls] assms(3) by (simp add: operator_text_def)
qed

text \<open>A kept fact cites only messages of its batch and does not outlive them.\<close>

lemma curated_facts_linked:
  assumes "curated_record m model effort now b r = Some record" "f \<in> set (mem_Facts record)"
  shows "fact_SourceIDs f \<noteq> [] \<and> set (fact_SourceIDs f) \<subseteq> sm_ID ` set (mb_Messages b)
    \<and> (IsZero (mem_ExpiresAt record) \<or> fact_ExpiresAt f \<le> mem_ExpiresAt record) \<and> m \<le> fact_Confidence f"
  using assms
  by (auto simp: curated_record_def keep_fact_def Let_def List.map_filter_def list_ex_iff split: if_splits option.splits)


definition example_generated :: "string \<Rightarrow> MemoryRecord" where
  "example_generated h = zero_MemoryRecord\<lparr>mem_OrganizationID := ''o'', mem_ScopeKey := ''k'', mem_Text := ''guess'',
     mem_SourceHash := h, mem_Status := StatusActive\<rparr>"

definition example_store :: MemoryStore where
  "example_store = snd (memory_PutGenerated (example_generated ''h1'') ''mem_1'' 5 NewMemoryStore)"

lemma example_store_ids: "ids_ok example_store"
  unfolding example_store_def
  by (rule put_generated_ids) (simp_all add: NewMemoryStore_def ids_ok_def example_generated_def zero_MemoryRecord_def)

definition example_correction :: "(memory_error, MemoryRecord, MemoryStore) outcome" where
  "example_correction = memory_Correct ''o'' ''mem_1'' '' so '' ''u'' 6 example_store"

lemma example_correction_made: "\<not> Option.is_none (case fst example_correction of Inl e \<Rightarrow> None | Inr r \<Rightarrow> Some r)"
  by code_simp

lemma corrected_memory_stays_witness:
  "\<exists>x. ms_byID (memory_run [CallSetPinned ''o'' ''mem_1'' False ''u'' 7, CallGenerated (example_generated ''h2'') ''mem_2'' 8]
      (snd example_correction)) ''mem_1'' = Some x \<and> mem_Text x = TrimSpace '' so '' \<and> mem_Origin x = ''operator''
      \<and> mem_Status x = StatusActive"
proof -
  obtain r where "example_correction = (Inr r, snd example_correction)"
    using example_correction_made by (cases "fst example_correction") (auto simp: prod_eq_iff)
  then have "memory_Correct ''o'' ''mem_1'' '' so '' ''u'' 6 example_store = (Inr r, snd example_correction)"
    by (simp only: example_correction_def)
  then show ?thesis
    by (rule corrected_memory_stays [OF example_store_ids])
       (simp add: example_generated_def zero_MemoryRecord_def)
qed

end
