(* ===== verification/Curator.thy ===== *)
theory Curator
  imports Memory Observer OrgConfig
begin

text \<open>
  The curation pass of \<^verbatim>\<open>core/memory/curator.go\<close>: which messages are grouped into which batches
  (\<^verbatim>\<open>candidates\<close>) and the round over the batches (\<^verbatim>\<open>RunOnce\<close>).  The collections the two queries of
  \<^verbatim>\<open>candidates\<close> read are arguments, the stored channels and the stored messages, and the queries
  are evaluated on them: the channels whose history mode is session only, and the recent human
  messages.  The summarizer and SHA-256 are parameters.
\<close>

section \<open>Grouping the messages\<close>

record CuratorOptions =
  co_Lookback :: duration
  co_SourceValidity :: duration
  co_MinMessages :: int
  co_MaxMessages :: int
  co_MaxScopesPerRun :: int
  co_MinConfidence :: rat

definition curator_options_ok :: "CuratorOptions \<Rightarrow> bool" where
  "curator_options_ok c \<longleftrightarrow> 0 < co_Lookback c \<and> 0 < co_SourceValidity c \<and> 2 \<le> co_MinMessages c \<and> co_MinMessages c \<le> co_MaxMessages c
     \<and> 0 < co_MaxScopesPerRun c \<and> 0 \<le> co_MinConfidence c \<and> co_MinConfidence c \<le> 1"

record MemoryGroup =
  mg_OrganizationID :: string
  mg_ChannelID :: string
  mg_RootThreadTS :: string
  mg_Scope :: MemoryScope
  mg_Restricted :: bool
  mg_messages :: "ChannelMessage list"

definition channel_path :: "string \<Rightarrow> string \<Rightarrow> string" where
  "channel_path org channel = org @ ''/'' @ channel"

definition session_only_paths :: "ChannelPolicy list \<Rightarrow> string set" where
  "session_only_paths channels =
     set (map (\<lambda>p. channel_path (cp_OrganizationID p) (cp_ChannelID p))
       (filter (\<lambda>p. cp_ContextHistoryMode p = ContextHistorySessionOnly) channels))"

definition remembered_message :: "duration \<Rightarrow> time \<Rightarrow> ChannelMessage \<Rightarrow> bool" where
  "remembered_message lookback now m \<longleftrightarrow>
     \<not> cm_Deleted m \<and> cm_BotID m = '''' \<and> cm_Subtype m \<notin> {''bot_message'', ''assistant_app_thread''}
     \<and> cm_Text m \<noteq> '''' \<and> now - lookback \<le> cm_OriginalAt m"

text \<open>The newest 5000 messages of the query, the last updated first.\<close>

definition recent_messages :: "duration \<Rightarrow> time \<Rightarrow> ChannelMessage list \<Rightarrow> ChannelMessage list" where
  "recent_messages lookback now docs =
     take 5000 (sort_key (\<lambda>m. - cm_UpdatedAt m) (filter (remembered_message lookback now) docs))"

definition group_of :: "ChannelMessage \<Rightarrow> MemoryScope \<Rightarrow> string \<Rightarrow> MemoryGroup" where
  "group_of m scope rootTS =
     \<lparr>mg_OrganizationID = cm_OrganizationID m, mg_ChannelID = cm_ChannelID m, mg_RootThreadTS = rootTS,
      mg_Scope = scope, mg_Restricted = cm_Restricted m, mg_messages = []\<rparr>"

definition join_group ::
  "string \<Rightarrow> MemoryScope \<Rightarrow> string \<Rightarrow> ChannelMessage \<Rightarrow> (string \<rightharpoonup> MemoryGroup) \<Rightarrow> (string \<rightharpoonup> MemoryGroup)" where
  "join_group key scope rootTS m groups =
     (let g = lookup_zero (group_of m scope rootTS) groups key
      in groups(key \<mapsto> g\<lparr>mg_messages := mg_messages g @ [m]\<rparr>))"

definition group_message :: "string set \<Rightarrow> ChannelMessage \<Rightarrow> (string \<rightharpoonup> MemoryGroup) \<Rightarrow> (string \<rightharpoonup> MemoryGroup)" where
  "group_message excluded m groups =
     (let path = channel_path (cm_OrganizationID m) (cm_ChannelID m)
      in if path \<in> excluded then groups
         else
           let groups1 = join_group (path @ ''/channel'') ScopeChannel '''' m groups
           in if cm_RootThreadTS m \<noteq> '''' \<and> cm_RootThreadTS m \<noteq> cm_MessageTS m
              then join_group (path @ ''/thread/'' @ cm_RootThreadTS m) ScopeThread (cm_RootThreadTS m) m groups1
              else groups1)"

definition by_message :: "string set \<Rightarrow> ChannelMessage list \<Rightarrow> (string \<rightharpoonup> ChannelMessage)" where
  "by_message excluded ms =
     map_of (rev (map (\<lambda>m. (channel_path (cm_OrganizationID m) (cm_ChannelID m) @ ''/'' @ cm_MessageTS m, m))
       (filter (\<lambda>m. channel_path (cm_OrganizationID m) (cm_ChannelID m) \<notin> excluded) ms)))"

definition add_root :: "(string \<rightharpoonup> ChannelMessage) \<Rightarrow> MemoryGroup \<Rightarrow> MemoryGroup" where
  "add_root messages g =
     (if mg_Scope g \<noteq> ScopeThread then g
      else case messages (channel_path (mg_OrganizationID g) (mg_ChannelID g) @ ''/'' @ mg_RootThreadTS g) of
             None \<Rightarrow> g | Some m \<Rightarrow> g\<lparr>mg_messages := mg_messages g @ [m]\<rparr>)"

section \<open>From groups to batches\<close>

definition source_message :: "duration \<Rightarrow> ChannelMessage \<Rightarrow> SourceMessage" where
  "source_message validity m =
     \<lparr>sm_ID = cm_ChannelID m @ ''/'' @ cm_MessageTS m, sm_AuthorID = cm_AuthorID m, sm_Text = cm_Text m,
      sm_ObservedAt = cm_OriginalAt m, sm_ExpiresAt = cm_OriginalAt m + validity\<rparr>"

definition hash_input :: "ChannelMessage \<Rightarrow> string" where
  "hash_input m = cm_ChannelID m @ ''/'' @ cm_MessageTS m @ [CHR 0x00] @ format_int (cm_ProjectionVersion m) @ [CHR 0x00]
     @ cm_Text m @ [CHR 0x00]"

definition group_batch :: "(string \<Rightarrow> string) \<Rightarrow> CuratorOptions \<Rightarrow> string \<Rightarrow> MemoryGroup \<Rightarrow> MemoryBatch option" where
  "group_batch sha c key g =
     (if int (length (mg_messages g)) < co_MinMessages c then None
      else
        let ordered = sort_key cm_OriginalAt (mg_messages g);
            kept = (if co_MaxMessages c < int (length ordered)
                    then drop (nat (int (length ordered) - co_MaxMessages c)) ordered else ordered)
        in Some \<lparr>mb_OrganizationID = mg_OrganizationID g, mb_ChannelID = mg_ChannelID g,
             mb_RootThreadTS = mg_RootThreadTS g, mb_Scope = mg_Scope g, mb_ScopeKey = key,
             mb_Restricted = mg_Restricted g, mb_SourceHash = hex_encode (sha (concat (map hash_input kept))),
             mb_Messages = map (source_message (co_SourceValidity c)) kept\<rparr>)"

definition group_messages :: "string set \<Rightarrow> ChannelMessage list \<Rightarrow> (string \<rightharpoonup> MemoryGroup)" where
  "group_messages excluded ms = fold (group_message excluded) ms Map.empty"

text \<open>\<open>ord\<close> is the order in which Go visits the groups.\<close>

definition curator_candidates ::
  "(string \<Rightarrow> string) \<Rightarrow> CuratorOptions \<Rightarrow> string list \<Rightarrow> time \<Rightarrow> ChannelPolicy list \<Rightarrow> ChannelMessage list \<Rightarrow> MemoryBatch list" where
  "curator_candidates sha c ord now channels docs =
     (let excluded = session_only_paths channels; ms = recent_messages (co_Lookback c) now docs;
          groups = group_messages excluded ms; messages = by_message excluded ms;
          batches = List.map_filter (\<lambda>key. Option.bind (groups key) (\<lambda>g. group_batch sha c key (add_root messages g))) ord
      in take (nat (co_MaxScopesPerRun c)) (sort_key (\<lambda>b. - sm_ObservedAt (last (mb_Messages b))) batches))"

text \<open>
  The round over the batches.  Each batch comes with a fresh identifier and the clock reading of its turn;
  an error of the store ends the round.
\<close>

fun curator_rounds ::
  "(MemoryBatch \<Rightarrow> SummaryResult option) \<Rightarrow> rat \<Rightarrow> string \<Rightarrow> string \<Rightarrow> (string \<times> time \<times> MemoryBatch) list \<Rightarrow> MemoryStore
     \<Rightarrow> (memory_error, int, MemoryStore) outcome" where
  "curator_rounds summarize m model effort [] s = (Inr 0, s)"
| "curator_rounds summarize m model effort ((i, now, b) # rest) s =
     (case curate_batch summarize m model effort i now b s of
        (Inl e, s1) \<Rightarrow> (Inl e, s1)
      | (Inr changed, s1) \<Rightarrow>
          (case curator_rounds summarize m model effort rest s1 of
             (Inl e, s2) \<Rightarrow> (Inl e, s2)
           | (Inr n, s2) \<Rightarrow> (Inr (if changed then n + 1 else n), s2)))"

definition curator_RunOnce ::
  "(string \<Rightarrow> string) \<Rightarrow> (MemoryBatch \<Rightarrow> SummaryResult option) \<Rightarrow> CuratorOptions \<Rightarrow> string \<Rightarrow> string \<Rightarrow> (nat \<Rightarrow> string) \<Rightarrow> (nat \<Rightarrow> time)
     \<Rightarrow> string list \<Rightarrow> ChannelPolicy list \<Rightarrow> ChannelMessage list \<Rightarrow> MemoryStore \<Rightarrow> (memory_error, int, MemoryStore) outcome" where
  "curator_RunOnce sha summarize c model effort ids clock ord channels docs s =
     curator_rounds summarize (co_MinConfidence c) model effort
       (map (\<lambda>(n, b). (ids n, clock (n + 1), b)) (List.enumerate 0 (curator_candidates sha c ord (clock 0) channels docs))) s"

section \<open>Nothing is remembered of an excluded channel\<close>

definition open_channel :: "string set \<Rightarrow> ChannelMessage \<Rightarrow> bool" where
  "open_channel excluded m \<longleftrightarrow> channel_path (cm_OrganizationID m) (cm_ChannelID m) \<notin> excluded"

definition group_ok :: "string set \<Rightarrow> ChannelMessage list \<Rightarrow> MemoryGroup \<Rightarrow> bool" where
  "group_ok excluded ms g \<longleftrightarrow>
     channel_path (mg_OrganizationID g) (mg_ChannelID g) \<notin> excluded
     \<and> (\<forall>m \<in> set (mg_messages g). m \<in> set ms \<and> open_channel excluded m)"

definition groups_ok :: "string set \<Rightarrow> ChannelMessage list \<Rightarrow> (string \<rightharpoonup> MemoryGroup) \<Rightarrow> bool" where
  "groups_ok excluded ms groups \<longleftrightarrow> (\<forall>key g. groups key = Some g \<longrightarrow> group_ok excluded ms g)"

lemma join_group_ok:
  assumes "groups_ok excluded ms groups" "m \<in> set ms" "open_channel excluded m"
  shows "groups_ok excluded ms (join_group key scope rootTS m groups)"
proof -
  have "group_ok excluded ms (lookup_zero (group_of m scope rootTS) groups key)"
    using assms by (auto simp: groups_ok_def group_ok_def group_of_def open_channel_def lookup_zero_def split: option.split)
  then show ?thesis using assms by (auto simp: join_group_def groups_ok_def group_ok_def Let_def)
qed

lemma group_messages_ok: "groups_ok excluded ms (group_messages excluded ms)"
proof -
  have "groups_ok excluded ms groups \<Longrightarrow> set xs \<subseteq> set ms \<Longrightarrow> groups_ok excluded ms (fold (group_message excluded) xs groups)" for xs groups
  proof (induction xs arbitrary: groups)
    case (Cons m xs)
    have "groups_ok excluded ms (group_message excluded m groups)"
      using Cons.prems by (auto simp: group_message_def Let_def open_channel_def intro!: join_group_ok)
    then show ?case using Cons by simp
  qed simp
  from this [of Map.empty ms] show ?thesis by (simp add: group_messages_def groups_ok_def)
qed

lemma by_message_open: "by_message excluded ms k = Some m \<Longrightarrow> m \<in> set ms \<and> open_channel excluded m"
  by (auto simp: by_message_def open_channel_def dest!: map_of_SomeD)

lemma add_root_ok: "group_ok excluded ms g \<Longrightarrow> group_ok excluded ms (add_root (by_message excluded ms) g)"
  by (auto simp: add_root_def group_ok_def dest: by_message_open split: option.splits)

definition open_source :: "string set \<Rightarrow> ChannelMessage list \<Rightarrow> string \<Rightarrow> bool" where
  "open_source excluded ms i \<longleftrightarrow>
     (\<exists>m \<in> set ms. open_channel excluded m \<and> i = cm_ChannelID m @ ''/'' @ cm_MessageTS m)"

definition batch_ok :: "string set \<Rightarrow> ChannelMessage list \<Rightarrow> MemoryBatch \<Rightarrow> bool" where
  "batch_ok excluded ms b \<longleftrightarrow> channel_path (mb_OrganizationID b) (mb_ChannelID b) \<notin> excluded
     \<and> (\<forall>x \<in> set (mb_Messages b). open_source excluded ms (sm_ID x))"

lemma group_batch_ok:
  assumes "group_ok excluded ms g" "group_batch sha c key g = Some b"
  shows "batch_ok excluded ms b"
proof -
  have "open_source excluded ms (sm_ID (source_message d m))" if "m \<in> set (mg_messages g)" for m d
    using assms(1) that by (auto simp: group_ok_def open_source_def source_message_def)
  then show ?thesis using assms
    by (auto simp: group_batch_def batch_ok_def group_ok_def Let_def dest!: in_set_dropD split: if_splits)
qed

lemma candidates_ok:
  assumes "b \<in> set (curator_candidates sha c ord now channels docs)"
  shows "batch_ok (session_only_paths channels) (recent_messages (co_Lookback c) now docs) b"
proof -
  let ?excluded = "session_only_paths channels" and ?ms = "recent_messages (co_Lookback c) now docs"
  from assms obtain key g where g: "group_messages ?excluded ?ms key = Some g"
    "group_batch sha c key (add_root (by_message ?excluded ?ms) g) = Some b"
    by (auto simp: curator_candidates_def List.map_filter_def bind_eq_Some_conv Let_def dest!: in_set_takeD)
  then have "group_ok ?excluded ?ms g" using group_messages_ok [of ?excluded ?ms] by (simp add: groups_ok_def)
  then show ?thesis using group_batch_ok [OF add_root_ok g(2)] by simp
qed

definition record_ok :: "string set \<Rightarrow> ChannelMessage list \<Rightarrow> MemoryRecord \<Rightarrow> bool" where
  "record_ok excluded ms r \<longleftrightarrow> channel_path (mem_OrganizationID r) (mem_ChannelID r) \<notin> excluded
     \<and> (\<forall>i \<in> set (mem_SourceIDs r). open_source excluded ms i)
     \<and> (\<forall>f \<in> set (mem_Facts r). fact_SourceIDs f \<noteq> [] \<and> set (fact_SourceIDs f) \<subseteq> set (mem_SourceIDs r))"

lemma curate_batch_ok:
  assumes "batch_ok excluded ms b" "ms_byID (snd (curate_batch summarize m model effort i now b s)) k = Some r"
    "ms_byID s k \<noteq> Some r"
  shows "record_ok excluded ms r"
proof -
  obtain x result where x: "curated_record m model effort now b result = Some x"
    "ms_byID (snd (memory_PutGenerated x i now s)) k = Some r"
    using assms(2,3) by (auto simp: curate_batch_def split: if_splits option.splits)
  have "\<forall>f \<in> set (mem_Facts x). fact_SourceIDs f \<noteq> [] \<and> set (fact_SourceIDs f) \<subseteq> set (mem_SourceIDs x)"
  proof -
    have "set (mem_SourceIDs x) = sm_ID ` set (mb_Messages b)"
      using x(1) by (auto simp: curated_record_def Let_def split: if_splits)
    then show ?thesis using curated_facts_linked [OF x(1)] by simp
  qed
  then have "record_ok excluded ms x" using x(1) assms(1)
    by (auto simp: curated_record_def record_ok_def batch_ok_def Let_def split: if_splits)
  then show ?thesis using x(2) assms(3)
    by (auto simp: memory_PutGenerated_def record_ok_def Let_def subset_iff split: sum.splits if_splits)
qed

lemma rounds_ok:
  assumes "\<forall>(i, now, b) \<in> set bs. batch_ok excluded ms b"
    "ms_byID (snd (curator_rounds summarize m model effort bs s)) k = Some r" "ms_byID s k \<noteq> Some r"
  shows "record_ok excluded ms r"
  using assms
proof (induction bs arbitrary: s)
  case (Cons x bs)
  obtain i now b where x: "x = (i, now, b)" by (cases x)
  define s1 where "s1 = snd (curate_batch summarize m model effort i now b s)"
  show ?case
  proof (cases "ms_byID s1 k = Some r")
    case True
    then show ?thesis using curate_batch_ok Cons.prems x s1_def by fastforce
  next
    case False
    have "ms_byID (snd (curator_rounds summarize m model effort bs s1)) k = Some r"
      using Cons.prems(2) False x s1_def by (auto split: prod.splits sum.splits)
    then show ?thesis using Cons.IH [of s1] Cons.prems(1) False by simp
  qed
qed simp

text \<open>A message of a stored channel whose history may be remembered, within the reach of the pass.\<close>

definition durable_source :: "CuratorOptions \<Rightarrow> time \<Rightarrow> ChannelPolicy list \<Rightarrow> ChannelMessage list \<Rightarrow> string \<Rightarrow> bool" where
  "durable_source c now channels docs i \<longleftrightarrow>
     (\<exists>m \<in> set docs. i = cm_ChannelID m @ ''/'' @ cm_MessageTS m \<and> remembered_message (co_Lookback c) now m
        \<and> \<not> (\<exists>p \<in> set channels. cp_ContextHistoryMode p = ContextHistorySessionOnly
                \<and> cp_OrganizationID p = cm_OrganizationID m \<and> cp_ChannelID p = cm_ChannelID m))"

lemma session_only_pathsI:
  "p \<in> set channels \<Longrightarrow> cp_ContextHistoryMode p = ContextHistorySessionOnly \<Longrightarrow> cp_OrganizationID p = org \<Longrightarrow>
     cp_ChannelID p = channel \<Longrightarrow> channel_path org channel \<in> session_only_paths channels"
  by (auto simp: session_only_paths_def)

lemma durable_sourceI:
  assumes "open_source (session_only_paths channels) (recent_messages (co_Lookback c) now docs) i"
  shows "durable_source c now channels docs i"
proof -
  from assms obtain m where m: "m \<in> set (recent_messages (co_Lookback c) now docs)"
    "open_channel (session_only_paths channels) m" "i = cm_ChannelID m @ ''/'' @ cm_MessageTS m"
    by (auto simp: open_source_def)
  from m(1) have "m \<in> set docs" "remembered_message (co_Lookback c) now m"
    by (auto simp: recent_messages_def dest!: in_set_takeD)
  then show ?thesis using m(2,3)
    unfolding durable_source_def by (intro bexI [of _ m]) (auto simp: open_channel_def dest: session_only_pathsI)
qed

text \<open>
  C36. Session-only channels leave no durable memory.  Whatever the summarizer answers, a record that
  a curation pass wrote or changed is not about a stored channel whose history mode is session only;
  every source it names is a stored message of a channel that is not, written by a human, not
  deleted and within the lookback of the pass; and every fact in it names sources, all of them among
  these.
\<close>
theorem session_only_never_remembered:
  assumes "curator_RunOnce sha summarize c model effort ids clock ord channels docs s = (res, s')"
    and "ms_byID s' k = Some r" "ms_byID s k \<noteq> Some r"
  shows "\<not> (\<exists>p \<in> set channels. cp_ContextHistoryMode p = ContextHistorySessionOnly
           \<and> cp_OrganizationID p = mem_OrganizationID r \<and> cp_ChannelID p = mem_ChannelID r)
    \<and> (\<forall>i \<in> set (mem_SourceIDs r). durable_source c (clock 0) channels docs i)
    \<and> (\<forall>f \<in> set (mem_Facts r). fact_SourceIDs f \<noteq> [] \<and> (\<forall>i \<in> set (fact_SourceIDs f). durable_source c (clock 0) channels docs i))"
proof -
  let ?excluded = "session_only_paths channels" and ?ms = "recent_messages (co_Lookback c) (clock 0) docs"
  have "\<forall>(i, now, b) \<in> set (map (\<lambda>(n, b). (ids n, clock (n + 1), b)) (List.enumerate 0 (curator_candidates sha c ord (clock 0) channels docs))).
      batch_ok ?excluded ?ms b"
    by (auto simp: in_set_enumerate_eq intro!: candidates_ok [OF nth_mem])
  from rounds_ok [OF this, of summarize "co_MinConfidence c" model effort s k r] have "record_ok ?excluded ?ms r"
    using assms by (simp add: curator_RunOnce_def)
  then show ?thesis
    using durable_sourceI [of channels c "clock 0" docs] by (auto simp: record_ok_def subset_iff dest: session_only_pathsI)
qed

text \<open>A pass over one open and one excluded channel writes a record of the open one.\<close>

definition example_message :: "string \<Rightarrow> string \<Rightarrow> time \<Rightarrow> ChannelMessage" where
  "example_message channel ts t =
     \<lparr>cm_OrganizationID = ''o'', cm_TeamID = ''t'', cm_ChannelID = channel, cm_MessageTS = ts, cm_RootThreadTS = '''',
      cm_AuthorID = ''u'', cm_BotID = '''', cm_Subtype = '''', cm_Text = ''hi'', cm_Images = [], cm_Deleted = False,
      cm_Restricted = False, cm_SourceEventID = '''', cm_SourceEventAt = 0, cm_SourceEventRank = 0,
      cm_ProjectionVersion = 1, cm_OriginalAt = t, cm_UpdatedAt = t\<rparr>"

definition example_messages :: "ChannelMessage list" where
  "example_messages = [example_message ''C'' ''1'' 1, example_message ''S'' ''1'' 1, example_message ''C'' ''2'' 2,
     example_message ''S'' ''2'' 2]"

definition example_summary :: "MemoryBatch \<Rightarrow> SummaryResult option" where
  "example_summary b = Some \<lparr>sr_Summary = ''plan'', sr_Confidence = 1,
     sr_Facts = [\<lparr>sf_Text = ''fact'', sf_Confidence = 1, sf_SourceIDs = [''C/1''], sf_ValidForHours = 24\<rparr>]\<rparr>"

definition example_options :: CuratorOptions where
  "example_options = \<lparr>co_Lookback = 10, co_SourceValidity = Hour, co_MinMessages = 2, co_MaxMessages = 10, co_MaxScopesPerRun = 4,
     co_MinConfidence = 1 / 2\<rparr>"

definition example_channel :: "string \<Rightarrow> ContextHistoryMode \<Rightarrow> ChannelPolicy" where
  "example_channel channel history = \<lparr>cp_OrganizationID = ''o'', cp_TeamID = ''t'', cp_ChannelID = channel, cp_Name = '''',
     cp_Enrolled = True, cp_Restricted = False, cp_ParticipationMode = ModeAssist, cp_KillSwitch = False, cp_Cooldown = 0,
     cp_MaxResponsesPerHour = 5, cp_MaxConcurrentJobs = 1, cp_DefaultModelProfile = '''', cp_ContextHistoryMode = history,
     cp_ApproverUserIDs = [], cp_TrustedIntegrationBotIDs = [], cp_BotIsMember = True, cp_BotMembershipKnown = True,
     cp_ParticipationManagedByMembership = False, cp_WorkspaceEnabled = True, cp_MembershipRevision = '''',
     cp_MembershipRefreshedAt = 1, cp_Version = 1\<rparr>"

definition example_channels :: "ChannelPolicy list" where
  "example_channels = [example_channel ''C'' ContextHistoryDurable, example_channel ''S'' ContextHistorySessionOnly]"

definition example_pass :: "(memory_error, int, MemoryStore) outcome" where
  "example_pass = curator_RunOnce (\<lambda>x. x) example_summary example_options ''m'' ''low'' (\<lambda>n. ''mem_1'') (\<lambda>n. 5)
     [''o/C/channel'', ''o/S/channel''] example_channels example_messages NewMemoryStore"

definition example_record :: MemoryRecord where
  "example_record = the (ms_byID (snd example_pass) ''mem_1'')"

lemma example_pass_runs:
  "\<not> Option.is_none (ms_byID (snd example_pass) ''mem_1'')" "mem_ChannelID example_record = ''C''"
  "mem_SourceIDs example_record = [''C/1'', ''C/2'']" "map fact_SourceIDs (mem_Facts example_record) = [[''C/1'']]"
  by code_simp+

theorem session_only_never_remembered_witness:
  "durable_source example_options 5 example_channels example_messages ''C/1''
   \<and> durable_source example_options 5 example_channels example_messages ''C/2''
   \<and> \<not> durable_source example_options 5 example_channels example_messages ''S/1''
   \<and> \<not> (\<exists>p \<in> set example_channels. cp_ContextHistoryMode p = ContextHistorySessionOnly \<and> cp_ChannelID p = mem_ChannelID example_record)"
proof -
  have "curator_RunOnce (\<lambda>x. x) example_summary example_options ''m'' ''low'' (\<lambda>n. ''mem_1'') (\<lambda>n. 5)
     [''o/C/channel'', ''o/S/channel''] example_channels example_messages NewMemoryStore = (fst example_pass, snd example_pass)"
    by (simp add: example_pass_def)
  moreover have "ms_byID (snd example_pass) ''mem_1'' = Some example_record"
    using example_pass_runs(1) by (simp add: example_record_def Option.is_none_def)
  moreover have "ms_byID NewMemoryStore ''mem_1'' \<noteq> Some example_record" by (simp add: NewMemoryStore_def)
  ultimately have "\<forall>i \<in> set (mem_SourceIDs example_record). durable_source example_options 5 example_channels example_messages i"
    using session_only_never_remembered [of "\<lambda>x. x" example_summary example_options] by fastforce
  then show ?thesis
    using example_pass_runs(2,3)
    by (auto simp: example_channels_def example_channel_def durable_source_def example_messages_def example_message_def)
qed

end

