(* ===== verification/GoRegexp.thy ===== *)
theory GoRegexp
  imports GoText
begin

text \<open>
  The regular expressions of Go's \<^verbatim>\<open>regexp\<close> that the classifier, the pipeline and the renderer use.  A
  position in a text is the pair of the bytes before it, nearest first, and the bytes after
  it.  \<open>rx_ends\<close> lists where a match starting at a position may end, the preferred end first: the
  order in which a backtracking matcher finds them, which is the leftmost-first order of the
  package.  Classes read one code point; \<^verbatim>\<open>\s\<close>, \<^verbatim>\<open>\b\<close> and \<^verbatim>\<open>\w\<close> are the ASCII ones.
\<close>

type_synonym position = "string \<times> string"

datatype regex =
    RxRune "string \<Rightarrow> bool"
  | RxLit string
  | RxEps
  | RxSeq regex regex
  | RxAlt regex regex
  | RxStar regex
  | RxRep nat regex
  | RxBegin
  | RxEnd
  | RxWordB

definition word_byte :: "string \<Rightarrow> bool" where
  "word_byte s \<longleftrightarrow>
     (case s of [] \<Rightarrow> False
      | c # _ \<Rightarrow> (CHR ''0'' \<le> c \<and> c \<le> CHR ''9'') \<or> (CHR ''A'' \<le> c \<and> c \<le> CHR ''Z'') \<or> (CHR ''a'' \<le> c \<and> c \<le> CHR ''z'') \<or> c = CHR ''_'')"

definition advance_by :: "nat \<Rightarrow> position \<Rightarrow> position" where
  "advance_by n p = (rev (take n (snd p)) @ fst p, drop n (snd p))"

text \<open>A greedy repetition: as often as it goes, each time forward, at most \<open>n\<close> times.\<close>

fun star_ends :: "nat \<Rightarrow> (position \<Rightarrow> position list) \<Rightarrow> position \<Rightarrow> position list" where
  "star_ends 0 f p = [p]"
| "star_ends (Suc n) f p =
     concat (map (star_ends n f) (filter (\<lambda>q. length (snd q) < length (snd p)) (f p))) @ [p]"

primrec rx_ends :: "regex \<Rightarrow> position \<Rightarrow> position list" where
  "rx_ends (RxRune P) p =
     (if snd p \<noteq> [] \<and> P (take (rune_len (snd p)) (snd p)) then [advance_by (rune_len (snd p)) p] else [])"
| "rx_ends (RxLit l) p = (if HasPrefix (snd p) l then [advance_by (length l) p] else [])"
| "rx_ends RxEps p = [p]"
| "rx_ends (RxSeq r s) p = concat (map (rx_ends s) (rx_ends r p))"
| "rx_ends (RxAlt r s) p = rx_ends r p @ rx_ends s p"
| "rx_ends (RxStar r) p = star_ends (Suc (length (snd p))) (rx_ends r) p"
| "rx_ends (RxRep n r) p = star_ends n (rx_ends r) p"
| "rx_ends RxBegin p = (if fst p = [] then [p] else [])"
| "rx_ends RxEnd p = (if snd p = [] then [p] else [])"
| "rx_ends RxWordB p = (if word_byte (fst p) \<noteq> word_byte (snd p) then [p] else [])"

section \<open>Building expressions\<close>

definition rx_seq :: "regex list \<Rightarrow> regex" where "rx_seq rs = foldr RxSeq rs RxEps"
definition rx_alt :: "regex list \<Rightarrow> regex" where "rx_alt rs = foldr RxAlt (butlast rs) (last rs)"
definition rx_plus :: "regex \<Rightarrow> regex" where "rx_plus r = RxSeq r (RxStar r)"
definition rx_opt :: "regex \<Rightarrow> regex" where "rx_opt r = RxAlt r RxEps"

text \<open>The code points of a class: single bytes of ASCII, or longer encodings.\<close>

definition rx_in :: "string \<Rightarrow> regex" where "rx_in cs = RxRune (\<lambda>r. \<exists>c \<in> set cs. r = [c])"
definition rx_not_in :: "string \<Rightarrow> regex" where "rx_not_in cs = RxRune (\<lambda>r. \<forall>c \<in> set cs. r \<noteq> [c])"
definition rx_any :: regex where "rx_any = RxRune (\<lambda>r. True)"
definition rx_range :: "char \<Rightarrow> char \<Rightarrow> regex" where "rx_range a b = RxRune (\<lambda>r. case r of [c] \<Rightarrow> a \<le> c \<and> c \<le> b | _ \<Rightarrow> False)"

definition space_bytes :: string where "space_bytes = [CHR 0x09, CHR 0x0A, CHR 0x0C, CHR 0x0D, CHR 0x20]"
definition rx_space :: regex where "rx_space = rx_in space_bytes"
definition rx_nonspace :: regex where "rx_nonspace = rx_not_in space_bytes"

text \<open>
  Under \<^verbatim>\<open>(?i)\<close> a letter matches the code points of its folding orbit: both cases, and the
  long s (U+017F) or the Kelvin sign (U+212A) for s and k.
\<close>

definition fold_byte :: "char \<Rightarrow> string list" where
  "fold_byte c =
     (let u = (if CHR ''a'' \<le> c \<and> c \<le> CHR ''z'' then char_of (of_char c - 32 :: nat) else c)
      in [c] # [u] # (if c = CHR ''s'' then [[CHR 0xC5, CHR 0xBF]] else if c = CHR ''k'' then [[CHR 0xE2, CHR 0x84, CHR 0xAA]] else []))"

definition rx_fold :: "string \<Rightarrow> regex" where
  "rx_fold s = rx_seq (map (\<lambda>c. RxRune (\<lambda>r. r \<in> set (fold_byte c))) s)"

text \<open>The class \<^verbatim>\<open>[A-Z0-9]\<close>, plain and under \<^verbatim>\<open>(?i)\<close>.\<close>

definition rx_upper_digit :: regex where
  "rx_upper_digit = RxRune (\<lambda>r. case r of [c] \<Rightarrow> (CHR ''A'' \<le> c \<and> c \<le> CHR ''Z'') \<or> (CHR ''0'' \<le> c \<and> c \<le> CHR ''9'') | _ \<Rightarrow> False)"

definition rx_upper_digit_fold :: regex where
  "rx_upper_digit_fold =
     RxRune (\<lambda>r. case r of
         [c] \<Rightarrow> (CHR ''A'' \<le> c \<and> c \<le> CHR ''Z'') \<or> (CHR ''a'' \<le> c \<and> c \<le> CHR ''z'') \<or> (CHR ''0'' \<le> c \<and> c \<le> CHR ''9'')
       | _ \<Rightarrow> r = [CHR 0xC5, CHR 0xBF] \<or> r = [CHR 0xE2, CHR 0x84, CHR 0xAA])"

section \<open>Searching\<close>

text \<open>
  The leftmost match from a position on: the position it starts at and its preferred end.
  \<open>next_rune\<close> is where the next attempt starts.
\<close>

definition next_rune :: "position \<Rightarrow> position" where
  "next_rune p = advance_by (rune_len (snd p)) p"

function rx_find :: "regex \<Rightarrow> position \<Rightarrow> (position \<times> position) option" where
  "rx_find r p =
     (case rx_ends r p of
        q # _ \<Rightarrow> Some (p, q)
      | [] \<Rightarrow> if snd p = [] then None else rx_find r (next_rune p))"
  by pat_completeness auto
termination
  by (relation "measure (\<lambda>(r, p). length (snd p))") (auto simp: next_rune_def advance_by_def rune_len_def)

declare rx_find.simps [simp del]

definition MatchString :: "regex \<Rightarrow> string \<Rightarrow> bool" where
  "MatchString r s \<longleftrightarrow> rx_find r ([], s) \<noteq> None"

text \<open>The matched texts from left to right; the expressions used here never match the empty text.\<close>

function rx_pieces :: "regex \<Rightarrow> position \<Rightarrow> (string \<times> string) list \<times> string" where
  "rx_pieces r p =
     (case rx_find r p of
        None \<Rightarrow> ([], snd p)
      | Some (a, b) \<Rightarrow>
          if length (snd b) < length (snd p)
          then let (ps, rest) = rx_pieces r b
               in ((take (length (snd p) - length (snd a)) (snd p), take (length (snd a) - length (snd b)) (snd a)) # ps, rest)
          else ([], snd p))"
  by pat_completeness auto
termination
  by (relation "measure (\<lambda>(r, p). length (snd p))") auto

declare rx_pieces.simps [simp del]

definition FindAllString :: "regex \<Rightarrow> string \<Rightarrow> string list" where
  "FindAllString r s = map snd (fst (rx_pieces r ([], s)))"

definition ReplaceAllStringFunc :: "regex \<Rightarrow> string \<Rightarrow> (string \<Rightarrow> string) \<Rightarrow> string" where
  "ReplaceAllStringFunc r s f =
     (case rx_pieces r ([], s) of (ps, rest) \<Rightarrow> concat (map (\<lambda>(before, m). before @ f m) ps) @ rest)"

definition ReplaceAllString :: "regex \<Rightarrow> string \<Rightarrow> string \<Rightarrow> string" where
  "ReplaceAllString r s new = ReplaceAllStringFunc r s (\<lambda>_. new)"

section \<open>Matches are stretches of the text\<close>

definition text_of :: "position \<Rightarrow> string" where
  "text_of p = rev (fst p) @ snd p"

definition reaches :: "position \<Rightarrow> position \<Rightarrow> bool" where
  "reaches p q \<longleftrightarrow> (\<exists>m. snd p = m @ snd q \<and> fst q = rev m @ fst p)"

lemma reaches_refl [simp]: "reaches p p"
  by (simp add: reaches_def)

lemma reaches_trans: "reaches p q \<Longrightarrow> reaches q r \<Longrightarrow> reaches p r"
  by (auto simp: reaches_def)

lemma reaches_advance [simp]: "reaches p (advance_by n p)"
  unfolding reaches_def advance_by_def by (intro exI [of _ "take n (snd p)"]) simp

lemma star_ends_reaches:
  assumes "\<And>p q. q \<in> set (f p) \<Longrightarrow> reaches p q"
  shows "q \<in> set (star_ends n f p) \<Longrightarrow> reaches p q"
proof (induction n arbitrary: p)
  case (Suc n)
  then consider "q = p" | p' where "p' \<in> set (f p)" "q \<in> set (star_ends n f p')" by (auto simp del: split_paired_All)
  then show ?case
  proof cases
    case 2
    then show ?thesis using Suc.IH [OF 2(2)] assms [OF 2(1)] reaches_trans by blast
  qed simp
qed simp

lemma rx_ends_reaches: "q \<in> set (rx_ends r p) \<Longrightarrow> reaches p q"
proof (induction r arbitrary: p q)
  case (RxSeq r s)
  then obtain p' where p': "p' \<in> set (rx_ends r p)" "q \<in> set (rx_ends s p')" by auto
  show ?case using RxSeq.IH(1) [OF p'(1)] RxSeq.IH(2) [OF p'(2)] reaches_trans by blast
next
  case (RxStar r)
  show ?case by (rule star_ends_reaches [OF RxStar.IH RxStar.prems [unfolded rx_ends.simps]])
next
  case (RxRep n r)
  show ?case by (rule star_ends_reaches [OF RxRep.IH RxRep.prems [unfolded rx_ends.simps]])
qed (auto split: if_splits)

lemma rx_find_reaches: "rx_find r p = Some (a, b) \<Longrightarrow> reaches p a \<and> reaches a b \<and> b \<in> set (rx_ends r a)"
proof (induction r p rule: rx_find.induct)
  case (1 r p)
  show ?case
  proof (cases "rx_ends r p")
    case Nil
    then have "snd p \<noteq> []" "rx_find r (next_rune p) = Some (a, b)"
      using 1(2) by (auto simp: rx_find.simps [of r p] split: if_splits)
    then show ?thesis using 1(1) Nil reaches_trans [OF reaches_advance] unfolding next_rune_def by blast
  next
    case (Cons q qs)
    then have "a = p" "b = q" using 1(2) by (auto simp: rx_find.simps [of r p])
    then show ?thesis using Cons rx_ends_reaches [of b r a] by auto
  qed
qed

text \<open>The pieces and the rest are the whole text, and every piece's match is one the expression allows.\<close>

lemma reaches_suffix: "reaches p q \<Longrightarrow> snd p = take (length (snd p) - length (snd q)) (snd p) @ snd q"
  by (auto simp: reaches_def)

lemma rx_pieces_whole: "rx_pieces r p = (ps, rest) \<Longrightarrow> concat (map (\<lambda>(b, m). b @ m) ps) @ rest = snd p"
proof (induction r p arbitrary: ps rule: rx_pieces.induct)
  case (1 r p)
  show ?case
  proof (cases "\<exists>a b. rx_find r p = Some (a, b) \<and> length (snd b) < length (snd p)")
    case True
    then obtain a b where ab: "rx_find r p = Some (a, b)" "length (snd b) < length (snd p)" by blast
    obtain ps' where ps': "rx_pieces r b = (ps', rest)"
      "ps = (take (length (snd p) - length (snd a)) (snd p), take (length (snd a) - length (snd b)) (snd a)) # ps'"
      using 1(2) ab by (auto simp: rx_pieces.simps [of r p] split: prod.splits)
    have "concat (map (\<lambda>(b, m). b @ m) ps') @ rest = snd b" using 1(1) [OF ab(1) _ ab(2)] ps'(1) by simp
    moreover have "snd a = take (length (snd a) - length (snd b)) (snd a) @ snd b"
      "snd p = take (length (snd p) - length (snd a)) (snd p) @ snd a"
      using rx_find_reaches [OF ab(1)] reaches_suffix by blast+
    ultimately show ?thesis using ps'(2) by (metis (no_types, lifting) append.assoc concat.simps(2) list.simps(9) old.prod.case)
  next
    case False
    then show ?thesis using 1(2) by (auto simp: rx_pieces.simps [of r p] split: option.splits prod.splits if_splits)
  qed
qed

end
