(* ===== verification/ClassifierText.thy ===== *)
theory ClassifierText
  imports Types GoRegexp
begin

text \<open>
  The text predicates of \<^verbatim>\<open>core/classifier\<close> (\<^verbatim>\<open>service.go\<close>, \<^verbatim>\<open>openai_classifier.go\<close>): the word lists and
  regular expressions by which the deterministic policy reads a Slack message.
\<close>

section \<open>Go helpers\<close>

definition containsAny :: "string \<Rightarrow> string list \<Rightarrow> bool" where
  "containsAny text markers \<longleftrightarrow> list_ex (Contains text) markers"

definition has_any_prefix :: "string \<Rightarrow> string list \<Rightarrow> bool" where
  "has_any_prefix text prefixes \<longleftrightarrow> list_ex (HasPrefix text) prefixes"

text \<open>\<^verbatim>\<open>strings.TrimRight\<close> and \<^verbatim>\<open>strings.Trim\<close> with an ASCII cut set.\<close>

definition TrimRight :: "string \<Rightarrow> string \<Rightarrow> string" where
  "TrimRight s cutset = rev (dropWhile (\<lambda>c. c \<in> set cutset) (rev s))"

definition Trim :: "string \<Rightarrow> string \<Rightarrow> string" where
  "Trim s cutset = TrimRight (dropWhile (\<lambda>c. c \<in> set cutset) s) cutset"

text \<open>
  \<^verbatim>\<open>strings.FieldsFunc\<close>.  \<open>alnum\<close> is \<^verbatim>\<open>unicode.IsLetter || unicode.IsNumber\<close>; its tables for code
  points outside ASCII are the parameter \<open>uc\<close>.
\<close>

fun fields_func :: "(string \<Rightarrow> bool) \<Rightarrow> string \<Rightarrow> string list \<Rightarrow> string list" where
  "fields_func sep acc [] = (if acc = [] then [] else [acc])"
| "fields_func sep acc (r # rs) =
     (if sep r then (if acc = [] then [] else [acc]) @ fields_func sep [] rs else fields_func sep (acc @ r) rs)"

definition FieldsFunc :: "(string \<Rightarrow> bool) \<Rightarrow> string \<Rightarrow> string list" where
  "FieldsFunc sep s = fields_func sep [] (runes s)"

definition alnum :: "(string \<Rightarrow> bool) \<Rightarrow> string \<Rightarrow> bool" where
  "alnum uc r \<longleftrightarrow>
     (case r of
        [c] \<Rightarrow> (CHR ''0'' \<le> c \<and> c \<le> CHR ''9'') \<or> (CHR ''A'' \<le> c \<and> c \<le> CHR ''Z'') \<or> (CHR ''a'' \<le> c \<and> c \<le> CHR ''z'')
      | _ \<Rightarrow> valid_rune_len r = length r \<and> uc r)"

definition word_tokens :: "(string \<Rightarrow> bool) \<Rightarrow> string \<Rightarrow> string list" where
  "word_tokens uc s = FieldsFunc (\<lambda>r. \<not> alnum uc r) s"

definition em_dash :: string where "em_dash = [CHR 0xE2, CHR 0x80, CHR 0x94]"
definition en_dash :: string where "en_dash = [CHR 0xE2, CHR 0x80, CHR 0x93]"
definition thumbs_up :: string where "thumbs_up = [CHR 0xF0, CHR 0x9F, CHR 0x91, CHR 0x8D]"
definition folded_hands :: string where "folded_hands = [CHR 0xF0, CHR 0x9F, CHR 0x99, CHR 0x8F]"
definition tears_of_joy :: string where "tears_of_joy = [CHR 0xF0, CHR 0x9F, CHR 0x98, CHR 0x82]"
definition smiling_face :: string where "smiling_face = [CHR 0xF0, CHR 0x9F, CHR 0x98, CHR 0x84]"
definition quote_char :: string where "quote_char = [CHR 0x22]"
definition open_quote :: string where "open_quote = [CHR 0xE2, CHR 0x80, CHR 0x9C]"

section \<open>Patterns (service.go)\<close>

definition rx_label :: regex where
  "rx_label = rx_opt (rx_seq [RxLit ''|'', rx_plus (rx_not_in [CHR ''>'', CHR 0x0D, CHR 0x0A])])"

definition leadingSlackUserAddressPattern :: regex where
  "leadingSlackUserAddressPattern =
     rx_seq [RxBegin, RxStar rx_space, RxLit ''<@U'', rx_plus rx_upper_digit, rx_label, RxLit ''>'',
       rx_alt [rx_space, rx_in '',;:!?.'', RxEnd]]"

definition rx_url_scheme_fold :: regex where
  "rx_url_scheme_fold = rx_seq [rx_fold ''http'', rx_opt (rx_fold ''s''), RxLit ''://'']"

definition questionURLPattern :: regex where
  "questionURLPattern =
     rx_alt [rx_seq [RxLit ''<'', rx_url_scheme_fold, rx_plus (rx_not_in (CHR ''>'' # space_bytes)),
                rx_opt (rx_seq [RxLit ''|'', RxStar (rx_not_in ''>'')]), RxLit ''>''],
             rx_seq [rx_url_scheme_fold, rx_plus (rx_not_in (CHR ''>'' # space_bytes))]]"

definition coAddressedTagPattern :: regex where
  "coAddressedTagPattern =
     rx_seq [RxBegin, RxStar rx_space, RxLit ''<@'', rx_fold ''u'', rx_plus rx_upper_digit_fold, rx_label, RxLit ''>'',
       RxStar rx_space, RxLit '','', RxStar rx_space, rx_fold ''tag'', RxStar rx_space, rx_in '',;:'']"

definition trailingTagAddressPattern :: regex where
  "trailingTagAddressPattern =
     rx_seq [RxLit '','', RxStar rx_space, rx_fold ''tag'', RxStar rx_space, RxStar (rx_in ''!?.''), RxStar rx_space, RxEnd]"

definition socialTagTokenPattern :: regex where
  "socialTagTokenPattern =
     rx_seq [rx_alt [RxBegin, rx_space, RxLit '',''], rx_fold ''tag'',
       rx_alt [RxEnd, rx_space, rx_in '',;:!?.-'', RxLit em_dash, RxLit en_dash]]"

section \<open>Questions, requests and addresses (service.go)\<close>

definition looksLikeQuestion :: "string \<Rightarrow> bool" where
  "looksLikeQuestion text \<longleftrightarrow>
     (let normalized = ToLower (TrimSpace (ReplaceAllString questionURLPattern text '' ''))
      in if normalized = '''' then False
         else has_any_prefix normalized
           [''what '', ''why '', ''how '', ''when '', ''where '', ''who '', ''which '',
            ''is '', ''are '', ''am '', ''do '', ''does '', ''did '', ''can '', ''could '',
            ''would '', ''should '', ''will '', ''has '', ''have '']
         \<or> (HasSuffix normalized ''?'' \<and> \<not> HasSuffix normalized ''??''))"

definition looksLikeExplicitRequest :: "string \<Rightarrow> bool" where
  "looksLikeExplicitRequest text \<longleftrightarrow>
     has_any_prefix (ToLower (TrimSpace text))
       [''please '', ''tell me'', ''show me'', ''give me'', ''help me'', ''check '', ''investigate '',
        ''look into '', ''look at '', ''take a look'', ''have a look'', ''review '', ''explain '', ''compare '', ''summarize '', ''find '',
        ''create '', ''update '', ''edit '', ''add '', ''remove '', ''delete '', ''run '']"

text \<open>Removing every mention \<^verbatim>\<open><@...>\<close>; an unclosed one ends the loop.\<close>

function drop_mentions :: "string \<Rightarrow> string" where
  "drop_mentions text =
     (case Index text ''<@'' of
        None \<Rightarrow> text
      | Some start \<Rightarrow>
          (case Index (drop start text) ''>'' of
             None \<Rightarrow> text
           | Some e \<Rightarrow> if e < 2 then text else drop_mentions (take start text @ '' '' @ drop (start + e + 1) text)))"
  by pat_completeness auto
termination
proof (relation "measure length")
  fix s :: string and i e :: nat
  assume "Index s ''<@'' = Some i" "Index (drop i s) ''>'' = Some e" "\<not> e < 2"
  then have "i + 2 \<le> length s" "e + 1 \<le> length (drop i s)" "\<not> e < 2"
    using Index_Some [of s "''<@''" i] Index_Some [of "drop i s" "''>''" e] by auto
  then show "(take i s @ '' '' @ drop (i + e + 1) s, s) \<in> measure length" by auto
qed simp

declare drop_mentions.simps [simp del]

definition normalizedSocialText :: "string \<Rightarrow> string" where
  "normalizedSocialText text =
     Trim (TrimSpace (TrimPrefix (TrimSpace (drop_mentions (ToLower (TrimSpace text)))) ''tag''))
       ([CHR '' '', CHR 0x09, CHR 0x0D, CHR 0x0A] @ ''.!?,;:'')"

definition isSocialAcknowledgement :: "string \<Rightarrow> bool" where
  "isSocialAcknowledgement text \<longleftrightarrow>
     normalizedSocialText text \<in> set
       [''thanks'', ''thanks again'', ''thank you'', ''thank you!'', ''thx'', ''ty'',
        ''perfect'', ''great'', ''awesome'', ''cool'', ''nice'', ''cheers'',
        ''appreciate it'', ''much appreciated'', ''sounds good'', ''makes sense'',
        ''got it'', ''all good'', '':thumbsup:'', '':+1:'', thumbs_up, folded_hands]"

text \<open>The tail after a greeting; \<open>None\<close> where the greeting is all there is.\<close>

fun social_tail :: "string list \<Rightarrow> string \<Rightarrow> string option" where
  "social_tail [] tail = Some tail"
| "social_tail (p # ps) tail =
     (if tail = p then None
      else if HasPrefix tail (p @ '' '') then Some (TrimSpace (TrimPrefix tail p))
      else social_tail ps tail)"

definition hasSubstantiveSocialTail :: "string \<Rightarrow> bool" where
  "hasSubstantiveSocialTail text \<longleftrightarrow>
     (case social_tail
        [''good afternoon tag'', ''good morning tag'', ''good evening tag'',
         ''afternoon tag'', ''morning tag'', ''evening tag'', ''hello tag'', ''hey tag'', ''hi tag'',
         ''thanks again'', ''thank you'', ''thanks'', ''appreciate'', ''great work'', ''nice work'', ''good work'', ''well done''] (TrimSpace text) of
        None \<Rightarrow> False
      | Some t0 \<Rightarrow>
          if t0 = ''tag'' then False
          else
            let tail = (if HasPrefix t0 ''tag '' then TrimSpace (TrimPrefix t0 ''tag'') else t0)
            in has_any_prefix tail
                 [''please '', ''tell me'', ''give me'', ''name the'', ''state the'', ''identify the'', ''confirm the'',
                  ''can you'', ''could you'', ''would you'', ''check '', ''investigate'', ''update '', ''create '', ''delete '',
                  ''run '', ''compare '', ''explain '', ''summarize '', ''what '', ''why '', ''how '', ''which '', ''when '', ''where '']
               \<or> containsAny tail
                 ['' is down'', '' error'', '' failed'', '' failing'', '' outage'', '' incident'', '' exposed'', '' leaked'',
                  '' broken'', '' blocked'', '' need attention'', '' needs attention''])"

definition social_space :: "string \<Rightarrow> string" where
  "social_space r = (if r \<in> set ([em_dash, en_dash] @ map (\<lambda>c. [c]) '',.!;:-'') then '' '' else rune_string r)"

definition isDirectSocialCandidate :: "string \<Rightarrow> bool" where
  "isDirectSocialCandidate text \<longleftrightarrow>
     (let normalized = normalizedSocialText text;
          natural = Join (Fields (concat (map social_space (runes normalized)))) '' ''
      in if CHR ''?'' \<in> set text then False
         else if normalized = '''' \<or> 120 < RuneCountInString normalized then False
         else if isSocialAcknowledgement normalized then True
         else if has_any_prefix natural
                   [''morning tag'', ''good morning tag'', ''hello tag'', ''hi tag'', ''hey tag'', ''afternoon tag'',
                    ''good afternoon tag'', ''evening tag'', ''good evening tag'']
                 \<and> \<not> hasSubstantiveSocialTail natural then True
         else if has_any_prefix natural
                   [''thanks '', ''thank you '', ''appreciate '', ''great work '', ''nice work '', ''good work '', ''well done '']
                 \<and> \<not> hasSubstantiveSocialTail natural then True
         else normalized \<in> set
           [''hi'', ''hello'', ''hey'', ''hiya'', ''morning'', ''good morning'', ''afternoon'', ''good afternoon'',
            ''evening'', ''good evening'', ''how are you'', ''how are you doing'', ''how's it going'', ''whats up'', ''what's up'',
            ''bye'', ''goodbye'', ''see you'', ''see you later'', ''later'', ''good bot'', ''nice work'', ''well done'',
            ''you're great'', ''you are great'', ''love it'', ''lol'', ''lmao'', ''haha'', ''hahaha'', tears_of_joy, smiling_face])"

definition isDirectMessageSocialCandidate :: "string \<Rightarrow> bool" where
  "isDirectMessageSocialCandidate text \<longleftrightarrow>
     isDirectSocialCandidate text
     \<or> (length (Fields (normalizedSocialText text)) \<le> 6
        \<and> has_any_prefix (normalizedSocialText text) [''how are you '', ''how's it going ''])"

definition drop_greeting :: "string \<Rightarrow> string" where
  "drop_greeting s =
     (case find (HasPrefix s) [''hey '', ''hi '', ''hello ''] of
        None \<Rightarrow> s | Some g \<Rightarrow> TrimSpace (TrimPrefix s g))"

definition explicitlyAddressesTag :: "string \<Rightarrow> bool" where
  "explicitlyAddressesTag text \<longleftrightarrow>
     (let normalized = TrimSpace (ToLower text)
      in if normalized = '''' then False
         else if TrimRight normalized ([CHR '' '', CHR 0x09, CHR 0x0D, CHR 0x0A] @ ''.!?'') \<in> set
             [''thanks tag'', ''thank you tag'', ''nice work tag'', ''great work tag'',
              ''good work tag'', ''well done tag'', ''appreciate it tag'',
              ''morning tag'', ''good morning tag'', ''afternoon tag'', ''good afternoon tag'',
              ''evening tag'', ''good evening tag''] then True
         else if MatchString socialTagTokenPattern normalized \<and> isDirectSocialCandidate normalized then True
         else if MatchString coAddressedTagPattern normalized \<or> MatchString trailingTagAddressPattern normalized then True
         else
           let n = drop_greeting normalized
           in if n = ''tag'' then True
              else if \<not> HasPrefix n ''tag'' then False
              else
                let remainder = TrimSpace (drop 3 n); first = take (rune_len remainder) remainder
                in if remainder = '''' then True
                   else if first \<in> set ([em_dash, en_dash] @ map (\<lambda>c. [c]) '',!-'') then True
                   else
                     let rest = (if first \<in> {'':'', '';''} then TrimSpace (drop (length first) remainder) else remainder)
                     in looksLikeQuestion rest \<or> looksLikeExplicitRequest rest)"

end
