(* ===== verification/ClassifierSignals.thy ===== *)
theory ClassifierSignals
  imports ClassifierText
begin

text \<open>
  The word lists of \<^verbatim>\<open>core/classifier\<close> that decide where an answer goes, whether a message asks for a
  source change, code analysis or product knowledge, and how it reads operationally.
\<close>

section \<open>Placement (service.go)\<close>

definition planning_phrases :: "string list" where
  "planning_phrases =
     [''what would we need to change'', ''what do we need to change'', ''what changes would be needed'',
      ''how would we change'', ''how should we change'', ''how would we implement'', ''what would it take to'',
      ''implementation plan'', ''migration plan'']"

definition requestedReplyPlacement :: "string \<Rightarrow> (ClassificationOutcome \<times> string) option" where
  "requestedReplyPlacement text =
     (let normalized = ToLower (TrimSpace text);
          threadRequested = containsAny normalized
            [''reply in a thread'', ''reply in thread'', ''answer in a thread'', ''answer in thread'',
             ''respond in a thread'', ''respond in thread'', ''put the answer in a thread'', ''start a thread''];
          channelRequested =
            containsAny normalized
              [''reply in the channel'', ''reply in channel'', ''answer in the channel'', ''answer in channel'',
               ''respond in the channel'', ''respond in channel'', ''post in the channel'', ''post in channel'',
               ''reply at channel level'', ''answer at channel level'', ''in-channel'', ''channel-level'']
            \<or> (containsAny normalized [''in the channel'', ''in channel'']
               \<and> containsAny normalized [''not a thread'', ''rather than a thread'', ''instead of a thread''])
      in if threadRequested = channelRequested then None
         else if threadRequested then Some (OutcomeReplyInThread, ''hard.explicit_thread_request'')
         else Some (OutcomeReplyInChannel, ''hard.explicit_channel_request''))"

definition requiresThreadSurface :: "string \<Rightarrow> bool" where
  "requiresThreadSurface text \<longleftrightarrow>
     containsAny (ToLower text)
       ([''analyze'', ''debug'', ''deep dive'', ''explain in detail'', ''figure out'', ''implement'',
         ''investigate'', ''look into'', ''review'', ''step by step'', ''walk me through''] @ planning_phrases @
        [''compare'', ''comparison'', ''native table'', ''table with'', ''structured report'', ''artifact'',
         ''research'', ''multiple sections'', ''code sample'', ''code block'', ''long-form'',
         ''architecture document'', ''design document'', ''reference guide'', ''white paper''])"

definition isImplementationPlanningRequest :: "string \<Rightarrow> bool" where
  "isImplementationPlanningRequest text \<longleftrightarrow> containsAny (ToLower (TrimSpace text)) planning_phrases"

definition briefSelfContainedMention :: "string \<Rightarrow> bool" where
  "briefSelfContainedMention text \<longleftrightarrow>
     (let normalized = ToLower (TrimSpace text)
      in if 180 < RuneCountInString normalized \<or> 1 < Count normalized ''?'' \<or> requiresThreadSurface normalized then False
         else Count normalized ''?'' = 1
              \<or> containsAny normalized [''tell me'', ''give me'', ''name the'', ''state the'', ''identify the'', ''confirm the'',
                                        ''convert '', ''define ''])"

definition validateDirectReplyText :: "string \<Rightarrow> bool" where
  "validateDirectReplyText reply \<longleftrightarrow>
     \<not> (reply \<noteq> TrimSpace reply \<or> reply = '''' \<or> 240 < RuneCountInString reply
        \<or> list_ex (\<lambda>c. c \<in> set [CHR 0x0D, CHR 0x0A, CHR 0x09]) reply)
     \<and> \<not> containsAny (ToLower reply) [''http://'', ''https://'', ''www.'', ''<'', ''>'', ''`'', ''*'', ''_'', ''~'', ''@'', ''#'']"

definition validEmojiName :: "string \<Rightarrow> bool" where
  "validEmojiName value \<longleftrightarrow>
     value \<noteq> ''''
     \<and> list_all (\<lambda>c. (CHR ''a'' \<le> c \<and> c \<le> CHR ''z'') \<or> (CHR ''0'' \<le> c \<and> c \<le> CHR ''9'') \<or> c \<in> set ''_-+'') value"

section \<open>Operations (service.go)\<close>

definition operationalStance :: "string \<Rightarrow> int" where
  "operationalStance text =
     (let lower = ToLower text
      in if containsAny lower [''healthy'', ''working again'', ''back up'', ''recovered'', ''resolved'', ''all clear'', ''stable again'', ''fine now'']
         then 1
         else if containsAny lower [''incident'', ''outage'', '' is down'', '' unavailable'', ''degraded'', ''failing'', '' failed'', ''timeout'',
                                    ''timing out'', '' errors'']
         then - 1 else 0)"

definition sharesOperationalSubject :: "string \<Rightarrow> string \<Rightarrow> bool" where
  "sharesOperationalSubject l r \<longleftrightarrow>
     list_ex (\<lambda>subject. Contains (ToLower l) subject \<and> Contains (ToLower r) subject)
       [''checkout'', ''login'', ''sign-in'', ''signin'', ''api'', ''server'', ''gateway'', ''database'', ''deploy'', ''production'',
        ''prod'', ''staging'', ''build'']"

definition containsActionableSignal :: "string \<Rightarrow> bool" where
  "containsActionableSignal text \<longleftrightarrow>
     containsAny text [''incident'', ''outage'', '' is down'', '' failed'', '' failure'', '' error'', '' blocked'', ''needs attention'']"

definition classifier_containsIncident :: "string \<Rightarrow> bool" where
  "classifier_containsIncident text \<longleftrightarrow>
     containsAny (ToLower text) [''incident'', ''outage'', '' down'', ''failure'', ''failing'', ''failed'', ''error'', ''degraded'',
       ''unavailable'', ''timeout'']"

definition asksOperationalStatus :: "string \<Rightarrow> bool" where
  "asksOperationalStatus text \<longleftrightarrow>
     (let trimmed = TrimSpace (ToLower text)
      in HasSuffix trimmed ''?''
         \<and> containsAny trimmed
           [''is the system down'', ''is it down'', ''is it working'', ''is this working'',
            ''still able to'', ''anyone else seeing'', ''anybody else seeing'',
            ''seeing errors'', ''seeing failures'', ''seeing timeouts'', ''having trouble'',
            ''is production healthy'', ''is prod healthy'', ''is the api healthy'',
            ''is checkout failing'', ''is login failing'', ''is sign-in failing'',
            ''is signin failing'', ''is it offline'', ''is it unavailable''])"

section \<open>References and clarifications (openai_classifier.go)\<close>

definition isConversationalReferenceQuestion :: "string \<Rightarrow> bool" where
  "isConversationalReferenceQuestion text \<longleftrightarrow>
     (let normalized = ToLower (TrimSpace text)
      in normalized \<noteq> '''' \<and> Contains normalized ''?'' \<and> length (Fields normalized) \<le> 14
         \<and> containsAny normalized ['' it?'', '' that?'', '' this?'', '' those?'', '' them?'', '' on it'', '' using it'', '' use it'',
                                   '' using that'', '' use that'']
         \<and> containsAny normalized [''are we '', ''do we '', ''did we '', ''have we '', ''can we '', ''should we '', ''is it '', ''is that '',
                                   ''does it '', ''does that '', ''what about '', ''how about ''])"

definition looksLikeClarificationQuestion :: "string \<Rightarrow> bool" where
  "looksLikeClarificationQuestion text \<longleftrightarrow>
     (let normalized = ToLower (TrimSpace text)
      in Contains normalized ''?''
         \<and> containsAny normalized [''what does'', ''what do you mean'', ''which '', ''do you mean'', ''could you clarify'',
                                   ''can you clarify'', ''what is '' @ open_quote, ''what is '' @ quote_char])"

definition isMissingLocationWeatherQuestion :: "string \<Rightarrow> bool" where
  "isMissingLocationWeatherQuestion text \<longleftrightarrow>
     (let normalized = ToLower (TrimSpace text)
      in if \<not> Contains normalized ''?'' \<or> \<not> containsAny normalized [''weather'', ''forecast'', ''temperature''] then False
         else if containsAny normalized ['' in '', '' at '', '' near '', '' around ''] then False
         else case Index normalized '' for '' of
                None \<Rightarrow> True
              | Some i \<Rightarrow>
                  let tail = Trim (drop (i + 5) normalized) '' .?!''
                  in tail = '''' \<or> containsAny tail [''today'', ''tomorrow'', ''tonight'', ''this morning'', ''this afternoon'',
                                                     ''this evening'', ''this week'', ''now'', ''currently''])"

section \<open>Source changes and code analysis\<close>

definition source_surfaces :: "string list" where
  "source_surfaces = [''code'', ''codebase'', ''source'', ''sources'', ''repo'', ''repos'', ''repository'', ''repositories'', ''branch'',
     ''branches'', ''commit'']"

definition containsAnyWholeWord :: "(string \<Rightarrow> bool) \<Rightarrow> string \<Rightarrow> string list \<Rightarrow> bool" where
  "containsAnyWholeWord uc text words \<longleftrightarrow> list_ex (\<lambda>w. w \<in> set (word_tokens uc text)) words"

text \<open>The tokens from four before to four after an index.\<close>

definition token_window :: "string list \<Rightarrow> nat \<Rightarrow> string list" where
  "token_window tokens i = take (i + 5 - (i - 4)) (drop (i - 4) tokens)"

definition hasNearbySourceMutationAction :: "(string \<Rightarrow> bool) \<Rightarrow> string \<Rightarrow> bool" where
  "hasNearbySourceMutationAction uc text \<longleftrightarrow>
     (let tokens = word_tokens uc text
      in list_ex (\<lambda>i. tokens ! i \<in> set [''edit'', ''change'', ''modify'', ''update'', ''write'', ''fix'', ''add'', ''remove'', ''rename'', ''delete'']
                   \<and> list_ex (\<lambda>near. near \<in> set source_surfaces) (token_window tokens i)) [0..<length tokens])"

definition isObviousSourceWriteRequest :: "(string \<Rightarrow> bool) \<Rightarrow> string \<Rightarrow> bool" where
  "isObviousSourceWriteRequest uc text \<longleftrightarrow>
     (let lower = ToLower (TrimSpace text)
      in if lower = '''' then False
         else if containsAny lower [''read the code'', ''inspect the code'', ''review the code'', ''explain the code'', ''show me the code'',
                                    ''code sample'', ''code example'', ''pseudocode'']
                 \<and> \<not> containsAny lower [''then fix'', ''and fix'', ''then change'', ''and change'', ''then implement'', ''and implement'']
         then False
         else
           containsAny lower
             [''edit the code'', ''change the code'', ''modify the code'', ''update the code'', ''write the code'',
              ''edit the source'', ''change the source'', ''modify the source'', ''patch the source'',
              ''commit the '', ''commit this'', ''please commit '',
              ''push the '', ''push this'', ''please push '', ''open a pull request'', ''open a pr'',
              ''merge the '', ''merge this'', ''please merge '',
              ''deploy the '', ''deploy this'', ''please deploy '', ''ship the '', ''ship this'']
           \<or> containsAny lower
             [''implement '', ''refactor '', ''patch '', ''fix the bug'', ''fix this bug'', ''fix that bug'', ''fix the regression'',
              ''build the feature'', ''add support for '', ''remove support for '']
           \<or> containsAny lower
             [''change tos-tag'', ''edit tos-tag'', ''modify tos-tag'', ''update tos-tag'', ''write tos-tag'',
              ''fix tos-tag'', ''patch tos-tag'', ''refactor tos-tag'', ''add to tos-tag'', ''remove from tos-tag'']
           \<or> ((containsAnyWholeWord uc lower source_surfaces \<or> Contains lower ''pull request'')
              \<and> hasNearbySourceMutationAction uc lower))"

definition isExplicitSeparateSourceMutationRequest :: "string \<Rightarrow> bool" where
  "isExplicitSeparateSourceMutationRequest text \<longleftrightarrow>
     (let lower = ToLower (TrimSpace text)
      in lower \<noteq> '''' \<and> containsAny lower
           [''then edit the code'', ''and edit the code'', ''then change the code'', ''and change the code'',
            ''then modify the code'', ''and modify the code'', ''then patch the source'', ''and patch the source'',
            ''then implement the code'', ''and implement the code'', ''then commit'', ''and commit'',
            ''then push'', ''and push'', ''then merge'', ''and merge'', ''then deploy'', ''and deploy''])"

definition isObviousWikiPageCRUDRequest :: "string \<Rightarrow> bool" where
  "isObviousWikiPageCRUDRequest text \<longleftrightarrow>
     (let lower = ToLower (TrimSpace text)
      in lower \<noteq> ''''
         \<and> containsAny lower
           [''agent wiki'', '' wiki '', ''wiki page'', ''wiki artifact'', ''architecture reference'',
            ''durable document'', ''durable documentation'', ''document you just published'',
            ''page you just published'', ''reference you just published'', ''published artifact'']
         \<and> containsAny lower
           [''create '', ''write '', ''publish '', ''edit '', ''update '', ''append '', ''add '',
            ''revise '', ''change '', ''delete '', ''remove ''])"

definition isObviousReadOnlyCodeAnalysisRequest :: "(string \<Rightarrow> bool) \<Rightarrow> string \<Rightarrow> bool" where
  "isObviousReadOnlyCodeAnalysisRequest uc text \<longleftrightarrow>
     (let lower = ToLower (TrimSpace text);
          readOnlyAction = containsAny lower [''read '', ''inspect '', ''review '', ''explain '', ''analyze '', ''investigate'', ''trace '', ''show me ''];
          codeSurface = containsAny lower ['' code'', ''codebase'', '' source'', '' repository'', '' repo'', ''package'', ''module'', ''component'',
            ''service'', ''authentication'', ''handler'', ''implementation'', ''classifier'', ''classification'', ''admission gate'',
            ''context boundary'', ''context construction'', ''privacy boundary'', ''security boundary'', ''delivery reconciliation''];
          ownershipQuestion =
            containsAny lower [''which package'', ''what package'', ''which module'', ''what module'', ''which component'', ''what component'',
              ''which repository'', ''what repository'', ''which repo'', ''what repo'', ''where in the code'']
            \<or> (containsAny lower ['' owns '', ''owned by'', ''responsibilities''] \<and> codeSurface)
      in if lower = '''' \<or> isObviousSourceWriteRequest uc lower then False
         else (readOnlyAction \<and> codeSurface) \<or> ownershipQuestion)"

definition isSecuritySensitiveCodeAnalysis :: "(string \<Rightarrow> bool) \<Rightarrow> string \<Rightarrow> bool" where
  "isSecuritySensitiveCodeAnalysis uc text \<longleftrightarrow>
     (let lower = ToLower (TrimSpace text)
      in isObviousReadOnlyCodeAnalysisRequest uc lower
         \<and> containsAny lower [''security'', ''privacy'', '' private '', ''leak'', ''threat'', ''attack'', ''exposure'', ''cross-channel'',
                              ''cross channel''])"

section \<open>Operations and product knowledge (openai_classifier.go)\<close>

definition isBroadOperationalStatusQuestion :: "string \<Rightarrow> bool" where
  "isBroadOperationalStatusQuestion text \<longleftrightarrow>
     (let lower = ToLower (TrimSpace text)
      in Contains lower ''?''
         \<and> containsAny lower
           [''operational issues'', ''operational concerns'', ''any incidents'', ''current incidents'', ''open incidents'',
            ''anything broken'', ''what is broken'', ''what's broken''])"

definition isClearlyOperationalSchedulingQuestion :: "string \<Rightarrow> bool" where
  "isClearlyOperationalSchedulingQuestion text \<longleftrightarrow>
     (let lower = ToLower (TrimSpace text)
      in \<not> containsAny lower [''premium'', ''enterprise'', ''billing'', ''pricing'', ''trial'', ''node pro'', ''node mini'', ''telemetryos'',
                             ''telemetry os'', ''product'', ''subscription'', ''device tier'']
         \<and> containsAny lower
           [''deploy window'', ''deployment window'', ''release window'', ''maintenance window'',
            ''operational issues'', ''operational concerns'', ''any incidents'', ''current incidents'', ''open incidents'',
            ''anything broken'', ''what is broken'', ''what's broken''])"

definition commercial_words :: "string list" where
  "commercial_words = [''pricing'', ''price'', ''prices'', ''cost'', ''costs'', ''billing'', ''rate'', ''rates'']"

definition generic_words :: "string list" where
  "generic_words =
     [''a'', ''about'', ''an'', ''and'', ''are'', ''at'', ''can'', ''current'', ''do'', ''does'',
      ''for'', ''from'', ''how'', ''i'', ''in'', ''is'', ''latest'', ''look'', ''me'', ''of'',
      ''official'', ''on'', ''our'', ''page'', ''pages'', ''plan'', ''plans'', ''pricing'', ''price'',
      ''prices'', ''cost'', ''costs'', ''billing'', ''rate'', ''rates'', ''option'', ''options'', ''product'', ''provider'',
      ''public'', ''site'', ''subscription'', ''the'', ''their'', ''this'', ''token'', ''tokens'',
      ''vendor'', ''web'', ''website'', ''what'', ''where'', ''which'', ''with'', ''your'']"

definition isClearlyExternalPublicSourceQuestion :: "(string \<Rightarrow> bool) \<Rightarrow> string \<Rightarrow> bool" where
  "isClearlyExternalPublicSourceQuestion uc text \<longleftrightarrow>
     (let lower = ToLower (TrimSpace text);
          tokens = FieldsFunc (\<lambda>r. \<not> alnum uc r \<and> r \<noteq> ''.'' \<and> r \<noteq> ''-'') lower
      in if containsAny lower
           [''telemetryos'', ''telemetry os'', ''premium trial'', ''premium plan'', ''enterprise plan'', ''billing plan'',
            ''subscription plan'', ''subscription tier'', ''node pro'', ''node mini'', ''tos node'', ''device tier'', ''product tier'']
         then False
         else list_ex (\<lambda>i. tokens ! i \<in> set commercial_words
                       \<and> list_ex (\<lambda>c. c \<notin> set generic_words \<and> 1 < length c) (token_window tokens i)) [0..<length tokens])"

definition isBriefProductDefinitionQuestion :: "string \<Rightarrow> bool" where
  "isBriefProductDefinitionQuestion text \<longleftrightarrow>
     (let lower = ToLower (TrimSpace text)
      in if lower = '''' \<or> 18 < length (Fields lower) \<or> list_ex (\<lambda>c. c = CHR 0x0A \<or> c = CHR '';'') lower then False
         else if containsAny lower [''compare'', ''comparison'', ''difference'', '' versus '', '' vs '', ''trade-off'', ''tradeoff'', ''what changes'',
                                    ''how does'', ''how do'', ''why '', ''which '']
         then False
         else has_any_prefix lower [''what is '', ''what's '', ''does '', ''can '', ''is ''])"

definition isObviousProductKnowledgeQuestion :: "string \<Rightarrow> string list \<Rightarrow> string \<Rightarrow> bool" where
  "isObviousProductKnowledgeQuestion text topicIDs responseIntent \<longleftrightarrow>
     (let lower = ToLower (TrimSpace text)
      in (Contains lower ''?''
          \<or> containsAny lower [''what is'', ''what's'', ''what are'', ''how does'', ''how do'', ''does the'', ''can the'', ''tell me about'',
                              ''explain the'', ''compare '', ''difference between''])
         \<and> (list_ex (\<lambda>topic. containsAny (ToLower topic) [''product'', ''pricing'', ''billing'', ''trial'', ''plan'', ''hardware'', ''device'',
                                                     ''compatibility'', ''feature'']) topicIDs
            \<or> containsAny (ToLower responseIntent) [''authoritative product'', ''primer wiki'', ''product documentation'', ''public documentation'']
            \<or> (Contains lower ''premium'' \<and> Contains lower ''enterprise'')
            \<or> containsAny lower
              [''telemetryos'', ''telemetry os'', ''premium trial'', ''premium plan'', ''enterprise plan'', ''billing plan'', ''pricing plan'',
               ''subscription plan'', ''subscription tier'', ''node pro'', ''node mini'', ''tos node'', ''device tier'', ''product tier'']))"

section \<open>Disclosure and ambient chatter\<close>

definition requestsCrossDestinationPrivateDisclosure :: "string \<Rightarrow> bool" where
  "requestsCrossDestinationPrivateDisclosure text \<longleftrightarrow>
     (let lower = ToLower text
      in containsAny lower [''private channel'', ''private-channel'', ''private conversation'', ''direct message'', ''group dm'', ''group-dm'',
                            '' dm '', '' dms '']
         \<and> containsAny lower [''quote'', ''paste'', ''show'', ''share'', ''summarize'', ''repeat'', ''copy'', ''tell me what'', ''what did''])"

definition isUndirectedAmbientQuestion :: "string \<Rightarrow> bool" where
  "isUndirectedAmbientQuestion text \<longleftrightarrow>
     (let normalized = ToLower (TrimSpace text)
      in Contains normalized ''?''
         \<and> has_any_prefix normalized [''does anyone know'', ''does anybody know'', ''anyone know'', ''anybody know'', ''can anyone tell'',
                                     ''can anybody tell''])"

definition isStableNonUrgentMetricObservation :: "string \<Rightarrow> bool" where
  "isStableNonUrgentMetricObservation text \<longleftrightarrow>
     (let lower = ToLower text
      in Contains lower ''%'' \<and> containsAny lower [''stable'', ''steady'', ''held'', ''holding'']
         \<and> containsAny lower [''no errors'', ''without errors'', ''without any errors'', ''no failures'', ''without failures'',
                             ''without any failures'', ''nothing failing'']
         \<and> \<not> containsAny lower [''urgent'', ''critical'', ''paging'', ''page fired'', ''failing'', ''failed'', ''outage'', ''needs attention'',
                               ''investigate''])"

definition isUndirectedGroupGreeting :: "string \<Rightarrow> bool" where
  "isUndirectedGroupGreeting text \<longleftrightarrow>
     (let lower = ToLower (TrimSpace text)
      in containsAny lower [''everyone'', ''everybody'', ''team'', ''folks'']
         \<and> containsAny lower [''morning'', ''afternoon'', ''evening'', ''hello'', ''hi '', ''hey '']
         \<and> \<not> Contains lower ''tag'' \<and> \<not> Contains lower ''?'')"

end
