(* ===== verification/ClassifierPolicy.thy ===== *)
theory ClassifierPolicy
  imports ClassifierSignals Registry
begin

text \<open>
  The deterministic policy that corrects the answer of the classification model
  (\<^verbatim>\<open>core/classifier/openai_classifier.go\<close>, with the helpers of \<^verbatim>\<open>service.go\<close> it calls).  The request over
  HTTP and the decoding of the answer are the parameter \<open>oc_provider\<close>; Unicode's tables of letters,
  numbers and printable characters outside ASCII are \<open>TextTables\<close>.
\<close>

section \<open>Targets and profiles\<close>

record TextTables =
  tt_alnum :: "string \<Rightarrow> bool"
  tt_print :: "string \<Rightarrow> bool"

record Target =
  tg_ObservationID :: string
  tg_Envelope :: SlackEnvelope
  tg_Mode :: ParticipationMode
  tg_ActiveThread :: bool
  tg_AuthorizedTrigger :: bool
  tg_KillSwitched :: bool
  tg_WorkflowLoop :: bool
  tg_Unsupported :: bool
  tg_Deleted :: bool
  tg_AmbientLinkOnly :: bool
  tg_SelfAuthored :: bool

abbreviation tg_Text :: "Target \<Rightarrow> string" where "tg_Text t \<equiv> env_Text (tg_Envelope t)"

definition zero_ClassificationDecision :: ClassificationDecision where
  "zero_ClassificationDecision =
     \<lparr>cd_Outcome = OutcomeOther '''', cd_Confidence = 0, cd_ReasonCodes = [], cd_TopicIDs = [], cd_ReleasableEvidenceIDs = [],
      cd_RestrictedSignalIDs = [], cd_ResponseIntent = '''', cd_DirectReply = '''', cd_SourceWriteRequested = False,
      cd_ProductRetrievalRequired = False, cd_DisclosureClass = DisclosureOther '''', cd_RequiresFullAgent = False,
      cd_Reaction = '''', cd_AgentModelProfile = '''', cd_AgentModelStrength = '''', cd_AgentReasoningEffort = '''',
      cd_ClassifierModel = '''', cd_ClassifierReasoningEffort = '''', cd_ClassifierResponseID = '''',
      cd_ClassifierInputTokens = 0, cd_ClassifierOutputTokens = 0\<rparr>"

definition outcomeNeedsAgent :: "ClassificationOutcome \<Rightarrow> bool" where
  "outcomeNeedsAgent out \<longleftrightarrow>
     out \<in> {OutcomeReplyInThread, OutcomeReplyInChannel, OutcomeStartBackgroundJob, OutcomeEscalateForApproval}"

definition add_reason :: "string \<Rightarrow> ClassificationDecision \<Rightarrow> ClassificationDecision" where
  "add_reason r d = d\<lparr>cd_ReasonCodes := cd_ReasonCodes d @ [r]\<rparr>"

definition appendUnique :: "string list \<Rightarrow> string \<Rightarrow> string list" where
  "appendUnique values v = (if v = '''' \<or> v \<in> set values then values else values @ [v])"

record AgentProfile =
  ap_ID :: string
  ap_Provider :: string
  ap_Model :: string
  ap_Strength :: string
  ap_ReasoningEffort :: string

definition strengths :: "string list" where "strengths = [''light'', ''standard'', ''strong'']"

definition modelStrength :: "ModelProfile \<Rightarrow> string" where
  "modelStrength p =
     (case map_of (prof_ProviderOptions p) ''strength'' of
        Some (JString configured) \<Rightarrow>
          if configured \<in> set strengths then configured
          else if prof_Variant p \<in> {''none'', ''minimal'', ''low''} then ''light''
          else if prof_Variant p = ''medium'' then ''standard'' else ''strong''
      | _ \<Rightarrow>
          if prof_Variant p \<in> {''none'', ''minimal'', ''low''} then ''light''
          else if prof_Variant p = ''medium'' then ''standard'' else ''strong'')"

definition advertise :: "RegistrySnapshot \<Rightarrow> ModelProfile \<Rightarrow> (string \<rightharpoonup> AgentProfile) \<Rightarrow> (string \<rightharpoonup> AgentProfile)" where
  "advertise s p canonical =
     (if \<not> prof_Enabled p then canonical
      else if canonical (modelStrength p) = None \<or> prof_ID p = sn_DeploymentDefault s
      then canonical(modelStrength p \<mapsto>
             \<lparr>ap_ID = prof_ID p, ap_Provider = prof_ProviderID p, ap_Model = prof_ModelID p, ap_Strength = modelStrength p,
              ap_ReasoningEffort = prof_Variant p\<rparr>)
      else canonical)"

definition advertisedProfiles :: "RegistrySnapshot \<Rightarrow> AgentProfile list" where
  "advertisedProfiles s = List.map_filter (fold (advertise s) (sn_Profiles s) Map.empty) strengths"

definition use_profile :: "AgentProfile \<Rightarrow> ClassificationDecision \<Rightarrow> ClassificationDecision" where
  "use_profile p d = d\<lparr>cd_AgentModelProfile := ap_ID p, cd_AgentModelStrength := ap_Strength p,
                       cd_AgentReasoningEffort := ap_ReasoningEffort p\<rparr>"

definition withLightestProfile :: "ClassificationDecision \<Rightarrow> AgentProfile list \<Rightarrow> ClassificationDecision" where
  "withLightestProfile d profiles =
     (case profiles of
        [] \<Rightarrow> d
      | first # _ \<Rightarrow>
          use_profile (case find (\<lambda>p. ap_Strength p = ''light'') profiles of None \<Rightarrow> first | Some p \<Rightarrow> p) d)"

definition profile_matches :: "ClassificationDecision \<Rightarrow> AgentProfile \<Rightarrow> bool" where
  "profile_matches d p \<longleftrightarrow>
     ap_ID p = cd_AgentModelProfile d \<and> ap_Strength p = cd_AgentModelStrength d \<and> ap_ReasoningEffort p = cd_AgentReasoningEffort d"

definition clear_silent :: "ClassificationDecision \<Rightarrow> ClassificationDecision" where
  "clear_silent d = d\<lparr>cd_Reaction := '''', cd_DirectReply := '''', cd_RequiresFullAgent := False, cd_AgentModelProfile := '''',
     cd_AgentModelStrength := ''none'', cd_AgentReasoningEffort := '''', cd_ReleasableEvidenceIDs := [], cd_RestrictedSignalIDs := []\<rparr>"

definition names_agent :: "ClassificationDecision \<Rightarrow> bool" where
  "names_agent d \<longleftrightarrow> cd_AgentModelProfile d \<noteq> ''''
     \<or> (cd_AgentModelStrength d \<noteq> '''' \<and> cd_AgentModelStrength d \<noteq> ''none'') \<or> cd_AgentReasoningEffort d \<noteq> ''''"

definition wanted_strength :: "ClassificationDecision \<Rightarrow> string" where
  "wanted_strength d =
     (if cd_AgentModelStrength d \<in> set strengths then cd_AgentModelStrength d
      else if cd_AgentReasoningEffort d \<in> {''max'', ''high'', ''xhigh''} then ''strong''
      else if cd_AgentReasoningEffort d = ''medium'' then ''standard'' else ''light'')"

definition agent_profile_for :: "ClassificationDecision \<Rightarrow> AgentProfile list \<Rightarrow> ClassificationDecision" where
  "agent_profile_for d profiles =
     (let d1 = (if cd_DirectReply d \<noteq> '''' then add_reason ''policy.agent_direct_reply_cleared'' (d\<lparr>cd_DirectReply := ''''\<rparr>) else d)
      in if list_ex (profile_matches d1) profiles then d1
         else case find (\<lambda>p. ap_Strength p = wanted_strength d1) profiles of
                None \<Rightarrow> d1
              | Some p \<Rightarrow> add_reason ''policy.canonical_agent_profile'' (use_profile p d1))"

definition withCanonicalAgentProfile :: "ClassificationDecision \<Rightarrow> AgentProfile list \<Rightarrow> ClassificationDecision" where
  "withCanonicalAgentProfile d profiles =
     (if cd_Outcome d = OutcomeSilent
      then clear_silent
             (if cd_Reaction d \<noteq> '''' \<or> cd_DirectReply d \<noteq> '''' \<or> cd_RequiresFullAgent d \<or> names_agent d
                 \<or> cd_ReleasableEvidenceIDs d \<noteq> [] \<or> cd_RestrictedSignalIDs d \<noteq> []
              then add_reason ''policy.silent_action_cleared'' d else d)
      else
        let d1 = (if outcomeNeedsAgent (cd_Outcome d) \<and> cd_DirectReply d = '''' \<and> \<not> cd_RequiresFullAgent d
                  then add_reason ''policy.agent_requirement_inferred'' (d\<lparr>cd_RequiresFullAgent := True\<rparr>) else d)
        in if \<not> cd_RequiresFullAgent d1
           then if cd_Outcome d1 = OutcomeReact \<or> cd_DirectReply d1 \<noteq> ''''
                then (if names_agent d1 then add_reason ''policy.non_agent_profile_cleared'' d1 else d1)
                       \<lparr>cd_AgentModelProfile := '''', cd_AgentModelStrength := ''none'', cd_AgentReasoningEffort := ''''\<rparr>
                else d1
           else agent_profile_for d1 profiles)"

definition withBackgroundProfileFloor :: "ClassificationDecision \<Rightarrow> Target \<Rightarrow> AgentProfile list \<Rightarrow> ClassificationDecision" where
  "withBackgroundProfileFloor d t profiles =
     (if cd_Outcome d \<noteq> OutcomeStartBackgroundJob then d
      else
        let want = (if containsAny (ToLower (tg_Text t)) [''security'', ''token exposure'', ''credential exposure'', ''breach'', ''production systems'']
                    then ''strong'' else ''standard'')
        in if cd_AgentModelStrength d = want \<or> (want = ''standard'' \<and> cd_AgentModelStrength d = ''strong'') then d
           else case find (\<lambda>p. ap_Strength p = want) profiles of
                  None \<Rightarrow> d
                | Some p \<Rightarrow> add_reason ''policy.background_profile_floor'' (use_profile p d))"

section \<open>Who the message speaks to\<close>

definition isDirectMessageTarget :: "Target \<Rightarrow> bool" where
  "isDirectMessageTarget t \<longleftrightarrow> env_ChannelKind (tg_Envelope t) = ''im'' \<or> HasPrefix (env_ChannelID (tg_Envelope t)) ''D''"

definition thirdPartyAddressedTurn :: "Target \<Rightarrow> bool" where
  "thirdPartyAddressedTurn t \<longleftrightarrow>
     (if \<not> tg_ActiveThread t \<or> env_IsMention (tg_Envelope t) \<or> isDirectMessageTarget t then False
      else if explicitlyAddressesTag (tg_Text t) then False
      else MatchString leadingSlackUserAddressPattern (tg_Text t))"

definition destinationRecentParticipantIDs :: "string \<Rightarrow> ContextSource list \<Rightarrow> string list" where
  "destinationRecentParticipantIDs channelID sources =
     fold (\<lambda>s ps. if src_AuthorID s \<in> set ps then ps else ps @ [src_AuthorID s])
       (filter (\<lambda>s. src_ChannelID s = channelID \<and> src_AuthorID s \<noteq> '''' \<and> src_Provenance s = ''human_message'') sources) []"

definition conversational :: "ContextSource \<Rightarrow> bool" where
  "conversational s \<longleftrightarrow> src_Provenance s = ''human_message'' \<or> src_Provenance s = ''agent_output_unverified''"

definition destinationConversationFocus :: "Target \<Rightarrow> ContextSource list \<Rightarrow> nat \<Rightarrow> ContextSource list" where
  "destinationConversationFocus t sources limit =
     (let e = tg_Envelope t
      in if env_ChannelID e = '''' \<or> limit = 0 then []
         else
           let focus = sort_key src_ObservedAt (filter (\<lambda>s.
                 \<not> (tg_ActiveThread t \<and> src_Partition s \<noteq> PartitionThread)
                 \<and> src_ChannelID s = env_ChannelID e \<and> src_ID s \<noteq> env_ChannelID e @ ''/'' @ env_MessageTS e
                 \<and> src_DisclosureClass s = DisclosureDestinationSafe \<and> conversational s) sources)
           in drop (length focus - limit) focus)"

definition previousDestinationConversationSource :: "Target \<Rightarrow> ContextPackRevision \<Rightarrow> ContextSource option" where
  "previousDestinationConversationSource t p =
     (case destinationConversationFocus t (pack_Sources p) 1 of [s] \<Rightarrow> Some s | _ \<Rightarrow> None)"

text \<open>The newest human source with the text of the message itself; no identifier yet is empty.\<close>

definition fallback_target :: "Target \<Rightarrow> ContextSource list \<Rightarrow> string" where
  "fallback_target t sources =
     fst (fold (\<lambda>s (i, seen).
       if src_ChannelID s = env_ChannelID (tg_Envelope t) \<and> src_Provenance s = ''human_message''
          \<and> src_AuthorID s = env_UserID (tg_Envelope t) \<and> TrimSpace (src_Text s) = TrimSpace (tg_Text t)
          \<and> (i = '''' \<or> After (src_ObservedAt s) seen)
       then (src_ID s, src_ObservedAt s) else (i, seen)) sources ('''', zero_time))"

definition previousDestinationMessageFromAgent :: "Target \<Rightarrow> ContextPackRevision \<Rightarrow> bool" where
  "previousDestinationMessageFromAgent t p \<longleftrightarrow>
     (let e = tg_Envelope t;
          targetSourceID = (if env_ChannelID e \<noteq> '''' \<and> env_MessageTS e \<noteq> '''' then env_ChannelID e @ ''/'' @ env_MessageTS e else '''');
          fallback = fallback_target t (pack_Sources p);
          previous = fold (\<lambda>s prev.
            if src_ChannelID s \<noteq> env_ChannelID e \<or> \<not> conversational s \<or> src_ID s = targetSourceID \<or> src_ID s = fallback then prev
            else case prev of
                   None \<Rightarrow> Some s
                 | Some q \<Rightarrow> if After (src_ObservedAt s) (src_ObservedAt q) then Some s else Some q) (pack_Sources p) None;
          targetAt = (if IsZero (env_EventTime e) then env_ReceivedAt e else env_EventTime e)
      in case previous of
           None \<Rightarrow> False
         | Some q \<Rightarrow>
             src_Provenance q = ''agent_output_unverified''
             \<and> \<not> (\<not> IsZero targetAt \<and> \<not> IsZero (src_ObservedAt q)
                  \<and> (Sub targetAt (src_ObservedAt q) < 0 \<or> 15 * Minute < Sub targetAt (src_ObservedAt q))))"

definition likelyConversationallyAddressedToAgent :: "Target \<Rightarrow> ContextPackRevision \<Rightarrow> bool" where
  "likelyConversationallyAddressedToAgent t p \<longleftrightarrow>
     (let e = tg_Envelope t
      in env_UserID e \<noteq> '''' \<and> env_ChannelID e \<noteq> ''''
         \<and> destinationRecentParticipantIDs (env_ChannelID e) (pack_Sources p) = [env_UserID e]
         \<and> previousDestinationMessageFromAgent t p)"

section \<open>Conflicting reports (service.go)\<close>

definition sourceAuthorRecentlyParticipated :: "string \<Rightarrow> string \<Rightarrow> ContextSource list \<Rightarrow> bool" where
  "sourceAuthorRecentlyParticipated authorID channelID sources \<longleftrightarrow>
     list_ex (\<lambda>s. src_ChannelID s = channelID \<and> src_AuthorID s = authorID \<and> src_Provenance s = ''human_message'') sources"

definition conflicting_report :: "Target \<Rightarrow> ContextPackRevision \<Rightarrow> ContextSource \<Rightarrow> bool" where
  "conflicting_report t p s \<longleftrightarrow>
     (let e = tg_Envelope t; now = env_EventTime e
      in \<not> (src_DisclosureClass s \<noteq> DisclosureDestinationSafe \<or> src_Provenance s \<noteq> ''human_message'' \<or> src_AuthorID s = ''''
            \<or> src_AuthorID s = env_UserID e \<or> src_ChannelID s = '''' \<or> src_ChannelID s = env_ChannelID e)
         \<and> \<not> (\<not> IsZero now \<and> \<not> IsZero (src_ObservedAt s) \<and> Before (src_ObservedAt s) (now - 48 * Hour))
         \<and> \<not> sourceAuthorRecentlyParticipated (src_AuthorID s) (env_ChannelID e) (pack_Sources p)
         \<and> \<not> (operationalStance (src_Text s) = 0 \<or> operationalStance (src_Text s) = operationalStance (env_Text e))
         \<and> sharesOperationalSubject (env_Text e) (src_Text s))"

definition alignmentConflict :: "Target \<Rightarrow> ContextPackRevision \<Rightarrow> ContextSource option" where
  "alignmentConflict t p =
     (if operationalStance (tg_Text t) = 0 \<or> env_ChannelID (tg_Envelope t) = '''' \<or> env_UserID (tg_Envelope t) = '''' then None
      else find (conflicting_report t p) (pack_Sources p))"

section \<open>Social messages\<close>

definition ascii_apostrophe_reply :: string where "ascii_apostrophe_reply = ''You're welcome!''"

definition social_reply :: "string \<Rightarrow> string \<times> string" where
  "social_reply normalized =
     (if containsAny normalized [''morning''] then (''Morning!'', ''speech_balloon'')
      else if containsAny normalized [''afternoon''] then (''Good afternoon!'', ''speech_balloon'')
      else if containsAny normalized [''evening''] then (''Good evening!'', ''speech_balloon'')
      else if containsAny normalized [''hello'', ''hey'', ''hiya'', ''how are you'', ''how's it going'', ''whats up'', ''what's up'']
      then (''Hey!'', ''speech_balloon'')
      else if containsAny normalized [''bye'', ''goodbye'', ''see you'', ''later''] then (''See you!'', ''speech_balloon'')
      else if containsAny normalized [''nice work'', ''great work'', ''good work'', ''well done'', ''good bot'', ''you're great'', ''you are great'']
      then (''Thanks!'', ''white_check_mark'')
      else if containsAny normalized [''lol'', ''lmao'', ''haha'', tears_of_joy, smiling_face] then (smiling_face, ''speech_balloon'')
      else if containsAny normalized [''thanks'', ''thank you'', ''thx'', ''ty'', ''appreciate'', ''cheers'']
      then (ascii_apostrophe_reply, ''white_check_mark'')
      else (''Happy to help!'', ''white_check_mark''))"

definition directSocialFallback :: "string \<Rightarrow> bool \<Rightarrow> ClassificationDecision" where
  "directSocialFallback text activeThread =
     (let (reply, reaction) = social_reply (normalizedSocialText text)
      in zero_ClassificationDecision
           \<lparr>cd_Outcome := (if activeThread then OutcomeReplyInThread else OutcomeReplyInChannel), cd_Confidence := 1,
            cd_ReasonCodes := [''policy.social_direct_reply_fallback''], cd_ResponseIntent := ''brief social acknowledgement'',
            cd_DirectReply := reply, cd_DisclosureClass := DisclosureDestinationSafe, cd_Reaction := reaction,
            cd_AgentModelStrength := ''none''\<rparr>)"

definition withAddressedSocialPolicyCorrections :: "ClassificationDecision \<Rightarrow> Target \<Rightarrow> ClassificationDecision" where
  "withAddressedSocialPolicyCorrections d t =
     (if tg_ActiveThread t \<and> isDirectSocialCandidate (tg_Text t)
      then (directSocialFallback (tg_Text t) True)
             \<lparr>cd_Confidence := max (cd_Confidence d) (99 / 100),
              cd_ReasonCodes := cd_ReasonCodes d @ [''policy.thread_social_reply'', ''policy.social_direct_reply_fallback'']\<rparr>
      else if tg_ActiveThread t \<or> env_IsMention (tg_Envelope t) \<or> \<not> explicitlyAddressesTag (tg_Text t)
              \<or> \<not> isDirectSocialCandidate (tg_Text t) then d
      else (directSocialFallback (tg_Text t) False)
             \<lparr>cd_Confidence := max (cd_Confidence d) (99 / 100),
              cd_ReasonCodes := cd_ReasonCodes d @ [''policy.addressed_social_reply'', ''policy.social_direct_reply_fallback'']\<rparr>)"

section \<open>Conversations\<close>

definition weatherLocationClarificationReply :: string where
  "weatherLocationClarificationReply = ''I can check'' @ em_dash @ ''what location should I use?''"

definition withConversationalAddressPolicyCorrections ::
  "ClassificationDecision \<Rightarrow> Target \<Rightarrow> ContextPackRevision \<Rightarrow> ClassificationDecision" where
  "withConversationalAddressPolicyCorrections d t p =
     (if tg_ActiveThread t \<or> env_IsMention (tg_Envelope t) \<or> \<not> likelyConversationallyAddressedToAgent t p
         \<or> \<not> isMissingLocationWeatherQuestion (tg_Text t) then d
      else zero_ClassificationDecision
        \<lparr>cd_Outcome := OutcomeReplyInChannel, cd_Confidence := max (cd_Confidence d) (99 / 100),
         cd_ReasonCodes := cd_ReasonCodes d @ [''policy.conversational_address'', ''policy.weather_location_clarification''],
         cd_ResponseIntent := ''ask one brief location clarification before checking current weather'',
         cd_DirectReply := weatherLocationClarificationReply, cd_DisclosureClass := DisclosureDestinationSafe,
         cd_Reaction := ''speech_balloon'', cd_AgentModelStrength := ''none''\<rparr>)"

definition withConversationalReferencePolicyCorrections ::
  "TextTables \<Rightarrow> ClassificationDecision \<Rightarrow> Target \<Rightarrow> ContextPackRevision \<Rightarrow> AgentProfile list \<Rightarrow> ClassificationDecision" where
  "withConversationalReferencePolicyCorrections tt d t p profiles =
     (if tg_ActiveThread t \<or> env_IsMention (tg_Envelope t) \<or> \<not> likelyConversationallyAddressedToAgent t p
         \<or> \<not> isConversationalReferenceQuestion (tg_Text t) then d
      else case previousDestinationConversationSource t p of
        None \<Rightarrow> d
      | Some previous \<Rightarrow>
          if src_Provenance previous \<noteq> ''agent_output_unverified'' then d
          else withCanonicalAgentProfile (zero_ClassificationDecision
            \<lparr>cd_Outcome := OutcomeReplyInChannel, cd_Confidence := max (cd_Confidence d) (99 / 100),
             cd_ReasonCodes := cd_ReasonCodes d @ [''policy.conversational_reference'', ''policy.prior_tag_turn_focus''],
             cd_ResponseIntent :=
               ''Resolve the current message's reference against the immediately preceding Tag turn in conversation_focus source ''
               @ Quote (tt_print tt) (src_ID previous)
               @ '', then answer the underlying question itself. Do not merely describe the referent or ask what it means when that turn supplies one clear referent. If the question asks whether we use a version or technology, follow the injected codebase-read skill's bounded version workflow: inspect the repository manifest/toolchain, container/build pins, and relevant CI or deployment configuration before comparing current usage with the referenced version. Do not infer that a patch is unpinned from the manifest alone.'',
             cd_DisclosureClass := DisclosureDestinationSafe, cd_RequiresFullAgent := True, cd_Reaction := ''thinking_face'',
             cd_AgentModelStrength := ''standard'', cd_AgentReasoningEffort := ''medium''\<rparr>) profiles)"

definition withClarificationFollowupPolicyCorrections ::
  "TextTables \<Rightarrow> ClassificationDecision \<Rightarrow> Target \<Rightarrow> ContextPackRevision \<Rightarrow> AgentProfile list \<Rightarrow> ClassificationDecision" where
  "withClarificationFollowupPolicyCorrections tt d t p profiles =
     (let focus = destinationConversationFocus t (pack_Sources p) 8
      in if \<not> tg_ActiveThread t \<or> 12 < length (Fields (TrimSpace (tg_Text t))) \<or> length focus < 2 then d
         else
           let previous = last focus;
               unresolved = find (\<lambda>s. src_Provenance s = ''human_message'') (rev (butlast focus))
           in if src_Provenance previous \<noteq> ''agent_output_unverified'' \<or> \<not> looksLikeClarificationQuestion (src_Text previous) then d
              else case unresolved of
                None \<Rightarrow> d
              | Some u \<Rightarrow>
                  if src_ID u = '''' then d
                  else withCanonicalAgentProfile (d
                    \<lparr>cd_Outcome := OutcomeReplyInThread, cd_Confidence := max (cd_Confidence d) (99 / 100),
                     cd_ReasonCodes := cd_ReasonCodes d @ [''policy.clarification_followup_composition''],
                     cd_ResponseIntent :=
                       ''Treat the current short message as the answer to Tag's clarification in conversation_focus source ''
                       @ Quote (tt_print tt) (src_ID previous)
                       @ ''. Apply it to the unresolved human request in source '' @ Quote (tt_print tt) (src_ID u)
                       @ '' and answer that composed request; do not answer or explain the clarification fragment by itself.'',
                     cd_DirectReply := '''', cd_RequiresFullAgent := True, cd_Reaction := ''thinking_face'',
                     cd_AgentModelProfile := '''', cd_AgentModelStrength := ''standard'', cd_AgentReasoningEffort := ''medium''\<rparr>) profiles)"

section \<open>Placement and private content\<close>

definition withDirectMentionPolicyCorrections :: "ClassificationDecision \<Rightarrow> Target \<Rightarrow> AgentProfile list \<Rightarrow> ClassificationDecision" where
  "withDirectMentionPolicyCorrections d t profiles =
     (if \<not> env_IsMention (tg_Envelope t) \<or> tg_ActiveThread t \<or> \<not> requestsCrossDestinationPrivateDisclosure (tg_Text t) then d
      else withLightestProfile (zero_ClassificationDecision
        \<lparr>cd_Outcome := OutcomeReplyInChannel, cd_Confidence := max (cd_Confidence d) (99 / 100),
         cd_ReasonCodes := cd_ReasonCodes d @ [''policy.cross_destination_private_refusal''],
         cd_ResponseIntent := ''briefly refuse to disclose private-channel, DM, or group-DM content because it is destination-local; reveal no awareness, source, channel, person, or content'',
         cd_DisclosureClass := DisclosureDestinationSafe, cd_RequiresFullAgent := True, cd_Reaction := ''warning''\<rparr>) profiles)"

definition withBriefMentionPolicyCorrections :: "ClassificationDecision \<Rightarrow> Target \<Rightarrow> AgentProfile list \<Rightarrow> ClassificationDecision" where
  "withBriefMentionPolicyCorrections d t profiles =
     (let d1 = (if env_IsMention (tg_Envelope t) \<and> cd_DirectReply d \<noteq> '''' \<and> \<not> cd_SourceWriteRequested d
                   \<and> \<not> isDirectSocialCandidate (tg_Text t)
                then add_reason ''policy.substantive_direct_reply_rejected''
                       (d\<lparr>cd_DirectReply := '''', cd_RequiresFullAgent := True, cd_AgentModelProfile := '''',
                          cd_AgentModelStrength := '''', cd_AgentReasoningEffort := '''', cd_Reaction := ''thinking_face''\<rparr>)
                else d)
      in if \<not> env_IsMention (tg_Envelope t) \<or> tg_ActiveThread t \<or> cd_SourceWriteRequested d1 \<or> cd_ProductRetrievalRequired d1
            \<or> cd_DirectReply d1 \<noteq> '''' \<or> cd_ReleasableEvidenceIDs d1 \<noteq> [] \<or> cd_Reaction d1 = ''warning''
            \<or> cd_Reaction d1 = ''rotating_light'' \<or> \<not> briefSelfContainedMention (tg_Text t) then d1
         else withLightestProfile
                (add_reason ''policy.brief_surface_channel''
                   (d1\<lparr>cd_Outcome := OutcomeReplyInChannel, cd_Confidence := max (cd_Confidence d1) (99 / 100),
                       cd_RequiresFullAgent := True\<rparr>)) profiles)"

section \<open>Product knowledge\<close>

definition withProductKnowledgePolicyCorrections ::
  "TextTables \<Rightarrow> ClassificationDecision \<Rightarrow> Target \<Rightarrow> AgentProfile list \<Rightarrow> ClassificationDecision" where
  "withProductKnowledgePolicyCorrections tt d t profiles =
     (let text = tg_Text t;
          productQuestion = (cd_ProductRetrievalRequired d \<or> isObviousProductKnowledgeQuestion text (cd_TopicIDs d) (cd_ResponseIntent d))
      in if isClearlyExternalPublicSourceQuestion (tt_alnum tt) text
         then (if productQuestion then add_reason ''policy.external_public_source'' (d\<lparr>cd_ProductRetrievalRequired := False\<rparr>) else d)
         else if isClearlyOperationalSchedulingQuestion text
         then (if productQuestion then add_reason ''policy.non_product_operational_question'' (d\<lparr>cd_ProductRetrievalRequired := False\<rparr>)
               else d)
         else
           let d1 = (if cd_SourceWriteRequested d \<and> productQuestion \<and> \<not> isObviousSourceWriteRequest (tt_alnum tt) text
                     then add_reason ''policy.product_question_not_source_write'' (d\<lparr>cd_SourceWriteRequested := False\<rparr>) else d)
           in if cd_SourceWriteRequested d1 \<or> \<not> productQuestion then d1
              else withCanonicalAgentProfile (zero_ClassificationDecision
                \<lparr>cd_Outcome := (if tg_ActiveThread t then OutcomeReplyInThread
                                else if \<not> cd_SourceWriteRequested d
                                        \<and> (cd_Outcome d1 = OutcomeReplyInChannel \<or> isBriefProductDefinitionQuestion text)
                                then OutcomeReplyInChannel else OutcomeReplyInThread),
                 cd_Confidence := max (cd_Confidence d1) (99 / 100),
                 cd_ReasonCodes := cd_ReasonCodes d1 @ [''policy.authoritative_product_retrieval''],
                 cd_TopicIDs := cd_TopicIDs d1, cd_ReleasableEvidenceIDs := cd_ReleasableEvidenceIDs d1,
                 cd_ResponseIntent := ''retrieve authoritative TelemetryOS product evidence from the Agent Wiki Primer and/or official product documentation before answering; do not answer from model memory or Slack context alone'',
                 cd_ProductRetrievalRequired := True, cd_DisclosureClass := DisclosureDestinationSafe,
                 cd_RequiresFullAgent := True, cd_Reaction := ''thinking_face'', cd_AgentModelStrength := ''standard'',
                 cd_AgentReasoningEffort := ''medium''\<rparr>) profiles)"

end
