(* ===== verification/ClassifierModel.thy ===== *)
theory ClassifierModel
  imports ClassifierPolicy
begin

text \<open>
  The second half of the corrections of \<^verbatim>\<open>core/classifier/openai_classifier.go\<close> (source changes, code
  analysis, operations, ambient chatter, reactions), the final check of the recommendation, and
  \<^verbatim>\<open>OpenAIClassifier.Decide\<close>, which chains them.
\<close>

section \<open>Source changes, plans and code analysis\<close>

definition withSourceWritePolicyCorrections :: "TextTables \<Rightarrow> ClassificationDecision \<Rightarrow> Target \<Rightarrow> ClassificationDecision" where
  "withSourceWritePolicyCorrections tt d t =
     (if isObviousWikiPageCRUDRequest (tg_Text t) \<and> \<not> isExplicitSeparateSourceMutationRequest (tg_Text t)
      then
        let d1 = (add_reason ''policy.wiki_page_crud_not_source_write'' d)
              \<lparr>cd_Outcome := OutcomeReplyInThread, cd_Confidence := max (cd_Confidence d) (99 / 100),
               cd_ResponseIntent := TrimSpace (cd_ResponseIntent d
                 @ '' Perform the requested Agent Wiki page CRUD through the reviewed Wiki capability; this is not a TelemetryOS source-code write.''),
               cd_DirectReply := '''', cd_SourceWriteRequested := False, cd_RequiresFullAgent := True, cd_Reaction := ''eyes''\<rparr>
        in if cd_AgentModelStrength d1 \<noteq> ''standard'' \<and> cd_AgentModelStrength d1 \<noteq> ''strong''
           then d1\<lparr>cd_AgentModelProfile := '''', cd_AgentModelStrength := ''standard'', cd_AgentReasoningEffort := ''medium''\<rparr>
           else d1
      else if \<not> isObviousSourceWriteRequest (tt_alnum tt) (tg_Text t)
      then (if cd_SourceWriteRequested d
            then add_reason ''policy.unconfirmed_source_write_ignored'' (d\<lparr>cd_SourceWriteRequested := False, cd_DirectReply := ''''\<rparr>)
            else d)
      else zero_ClassificationDecision
        \<lparr>cd_Outcome := OutcomeSilent, cd_Confidence := max (cd_Confidence d) (99 / 100),
         cd_ReasonCodes := cd_ReasonCodes d @ [''policy.source_write_silent''],
         cd_ResponseIntent := ''silently suppress the source-write request'', cd_SourceWriteRequested := True,
         cd_DisclosureClass := DisclosureDestinationSafe, cd_AgentModelStrength := ''none''\<rparr>)"

definition withImplementationPlanningPolicyCorrections :: "ClassificationDecision \<Rightarrow> Target \<Rightarrow> AgentProfile list \<Rightarrow> ClassificationDecision" where
  "withImplementationPlanningPolicyCorrections d t profiles =
     (if \<not> env_IsMention (tg_Envelope t) \<or> \<not> isImplementationPlanningRequest (tg_Text t) then d
      else withCanonicalAgentProfile (d
        \<lparr>cd_Outcome := OutcomeReplyInThread, cd_Confidence := max (cd_Confidence d) (99 / 100),
         cd_ReasonCodes := appendUnique (filter (\<lambda>r. r \<noteq> ''policy.source_write_silent'') (cd_ReasonCodes d)) ''policy.implementation_plan_thread'',
         cd_ResponseIntent := ''provide a bounded implementation plan without modifying source; explain the required changes, safety constraints, and verification'',
         cd_DirectReply := '''', cd_SourceWriteRequested := False, cd_RequiresFullAgent := True, cd_AgentModelProfile := '''',
         cd_AgentModelStrength := ''standard'', cd_AgentReasoningEffort := ''medium''\<rparr>) profiles)"

definition withReadOnlyCodeAnalysisPolicyCorrections ::
  "TextTables \<Rightarrow> ClassificationDecision \<Rightarrow> Target \<Rightarrow> AgentProfile list \<Rightarrow> ClassificationDecision" where
  "withReadOnlyCodeAnalysisPolicyCorrections tt d t profiles =
     (if \<not> isObviousReadOnlyCodeAnalysisRequest (tt_alnum tt) (tg_Text t) then d
      else
        let d1 = (add_reason ''policy.read_only_code_analysis_floor'' d)
              \<lparr>cd_Outcome := OutcomeReplyInThread, cd_Confidence := max (cd_Confidence d) (99 / 100), cd_DirectReply := '''',
               cd_SourceWriteRequested := False, cd_RequiresFullAgent := True, cd_AgentModelProfile := ''''\<rparr>
        in withCanonicalAgentProfile
             (if isSecuritySensitiveCodeAnalysis (tt_alnum tt) (tg_Text t)
              then d1\<lparr>cd_AgentModelStrength := ''strong'', cd_AgentReasoningEffort := ''medium'',
                     cd_ResponseIntent := TrimSpace (cd_ResponseIntent d1
                       @ '' Inspect the relevant implementation with the reviewed read-only source capability before reaching security or privacy conclusions; distinguish source evidence from unverified Slack summaries.'')\<rparr>
              else d1\<lparr>cd_AgentModelStrength := ''standard'', cd_AgentReasoningEffort := ''medium''\<rparr>) profiles)"

definition demanding_work :: "string \<Rightarrow> bool" where
  "demanding_work lower \<longleftrightarrow>
     (containsAny lower [''architecture reference'', ''architecture document'', ''design document'', ''design doc'', ''operator runbook'',
        ''operational runbook'', ''durable documentation'', ''comprehensive document'']
      \<and> containsAny lower [''write a '', ''write the '', ''write comprehensive'', ''author a '', ''author the '', ''author comprehensive'',
        ''create a '', ''create the '', ''publish a '', ''publish the '', ''produce a '', ''produce the '',
        ''draft a '', ''draft the '', ''update the '', ''revise the '']
      \<and> \<not> containsAny lower [''short section'', ''brief section'', ''one sentence'', ''single sentence'', ''small edit'', ''minor edit'', ''append one''])
     \<or> (containsAny lower [''root cause'', ''root-cause'', ''race condition'', ''deadlock'', ''intermittent'', ''heisenbug'', ''privacy leak'',
          ''security boundary'']
        \<and> containsAny lower [''debug'', ''investigate'', ''diagnose'', ''trace'', ''find'', ''determine'', ''review''])
     \<or> (containsAny lower [''cross-reference'', ''cross reference'', ''correlate'']
        \<and> containsAny lower [''logs'', ''traces'', ''telemetry'', ''source'', ''wiki'', ''linear'', ''documentation'', ''web''])"

definition withHighIntelligenceProfileCorrections :: "ClassificationDecision \<Rightarrow> Target \<Rightarrow> AgentProfile list \<Rightarrow> ClassificationDecision" where
  "withHighIntelligenceProfileCorrections d t profiles =
     (if \<not> cd_RequiresFullAgent d \<or> \<not> outcomeNeedsAgent (cd_Outcome d) then d
      else if \<not> demanding_work (ToLower (tg_Text t)) then d
      else withCanonicalAgentProfile (d
        \<lparr>cd_AgentModelProfile := '''', cd_AgentModelStrength := ''strong'', cd_AgentReasoningEffort := ''medium'',
         cd_ReasonCodes := appendUnique (cd_ReasonCodes d) ''policy.high_intelligence_profile''\<rparr>) profiles)"

section \<open>Operations\<close>

definition operational_report :: "ContextSource \<Rightarrow> bool" where
  "operational_report s \<longleftrightarrow>
     src_ID s \<noteq> '''' \<and> src_ChannelID s \<noteq> '''' \<and> src_Provenance s = ''human_message'' \<and> src_DisclosureClass s = DisclosureDestinationSafe
     \<and> (classifier_containsIncident (ToLower (src_Text s))
        \<or> containsAny (ToLower (src_Text s)) ['' blocked'', '' blocking'', ''regression'', ''needs triage'', ''root cause'', ''unconfirmed''])"

text \<open>The first report of every channel.\<close>

definition operationalSynthesisEvidenceIDs :: "ContextPackRevision \<Rightarrow> string list" where
  "operationalSynthesisEvidenceIDs p =
     snd (fold (\<lambda>s (channels, ids). if src_ChannelID s \<in> set channels \<or> \<not> operational_report s then (channels, ids)
                                   else (src_ChannelID s # channels, ids @ [src_ID s])) (pack_Sources p) ([], []))"

definition withOperationalSynthesisPolicyCorrections ::
  "ClassificationDecision \<Rightarrow> Target \<Rightarrow> ContextPackRevision \<Rightarrow> AgentProfile list \<Rightarrow> ClassificationDecision" where
  "withOperationalSynthesisPolicyCorrections d t p profiles =
     (let evidenceIDs = operationalSynthesisEvidenceIDs p
      in if \<not> env_IsMention (tg_Envelope t) \<or> tg_ActiveThread t \<or> \<not> isBroadOperationalStatusQuestion (tg_Text t)
            \<or> length evidenceIDs < 2 then d
         else withCanonicalAgentProfile (d
           \<lparr>cd_Outcome := (case requestedReplyPlacement (tg_Text t) of None \<Rightarrow> OutcomeReplyInThread | Some (requested, _) \<Rightarrow> requested),
            cd_Confidence := max (cd_Confidence d) (99 / 100),
            cd_ReasonCodes := appendUnique (cd_ReasonCodes d) ''policy.multi_issue_operational_synthesis'',
            cd_ResponseIntent := ''synthesize the multiple current destination-safe human operational reports in a focused response; attribute them as reports, distinguish separate issues, and do not present unverified status or root cause as confirmed'',
            cd_DirectReply := '''', cd_ProductRetrievalRequired := False, cd_RequiresFullAgent := True,
            cd_ReleasableEvidenceIDs := fold (\<lambda>i ids. appendUnique ids i) evidenceIDs [],
            cd_Reaction := (if cd_Reaction d \<noteq> ''warning'' \<and> cd_Reaction d \<noteq> ''rotating_light'' then ''thinking_face'' else cd_Reaction d),
            cd_AgentModelProfile := '''', cd_AgentModelStrength := ''strong'', cd_AgentReasoningEffort := ''medium''\<rparr>) profiles)"

section \<open>Ambient messages\<close>

definition incident_evidence :: "ContextSource \<Rightarrow> bool" where
  "incident_evidence s \<longleftrightarrow>
     src_DisclosureClass s = DisclosureDestinationSafe \<and> (src_Partition s = PartitionEvidence \<or> src_Partition s = PartitionSituation)
     \<and> classifier_containsIncident (src_Text s)"

text \<open>An operational question with evidence at hand; \<open>None\<close> is the early return of the code.\<close>

definition answer_operational ::
  "ClassificationDecision \<Rightarrow> Target \<Rightarrow> ContextPackRevision \<Rightarrow> AgentProfile list \<Rightarrow> ClassificationDecision option" where
  "answer_operational d t p profiles =
     (if \<not> asksOperationalStatus (tg_Text t) then Some d
      else case find incident_evidence (pack_Sources p) of
        None \<Rightarrow> Some d
      | Some s \<Rightarrow>
          if cd_Outcome d \<notin> {OutcomeSilent, OutcomeReact, OutcomeReplyInChannel, OutcomeReplyInThread} then None
          else
            let d1 = d\<lparr>cd_Outcome := (if cd_Outcome d \<in> {OutcomeSilent, OutcomeReact} then OutcomeReplyInThread else cd_Outcome d),
                       cd_RequiresFullAgent := True,
                       cd_ReleasableEvidenceIDs := appendUnique (cd_ReleasableEvidenceIDs d) (src_ID s)\<rparr>;
                d2 = (if cd_AgentModelProfile d1 = '''' \<or> cd_AgentModelStrength d1 = '''' \<or> cd_AgentModelStrength d1 = ''none''
                      then withLightestProfile d1 profiles else d1)
            in Some (add_reason ''policy.operational_question_requires_answer'' d2))"

definition surface_conflict :: "ClassificationDecision \<Rightarrow> ContextSource \<Rightarrow> AgentProfile list \<Rightarrow> ClassificationDecision" where
  "surface_conflict d s profiles =
     (let d1 = (if cd_Reaction d \<notin> {''speech_balloon'', ''warning'', ''rotating_light''}
                then add_reason ''policy.alignment_reaction'' (d\<lparr>cd_Reaction := ''speech_balloon''\<rparr>) else d);
          raised = d1\<lparr>cd_Outcome := OutcomeReplyInChannel, cd_Confidence := max (cd_Confidence d1) (99 / 100)\<rparr>;
          worked = raised\<lparr>cd_RequiresFullAgent := True,
                          cd_ReleasableEvidenceIDs := appendUnique (cd_ReleasableEvidenceIDs d1) (src_ID s)\<rparr>;
          intent = ''briefly surface and reconcile the conflicting public report from <@'' @ src_AuthorID s @ ''> in <#'' @ src_ChannelID s
                   @ ''> without assigning blame or treating the report as verified fact''
      in case cd_Outcome d1 of
           OutcomeSilent \<Rightarrow>
             add_reason ''policy.alignment_requires_message'' (withLightestProfile (worked\<lparr>cd_ResponseIntent := intent\<rparr>) profiles)
         | OutcomeReact \<Rightarrow> add_reason ''policy.alignment_requires_message'' (withLightestProfile worked profiles)
         | OutcomeReplyInChannel \<Rightarrow> add_reason ''policy.brief_alignment_in_channel'' raised
         | OutcomeReplyInThread \<Rightarrow> add_reason ''policy.brief_alignment_in_channel'' raised
         | _ \<Rightarrow> d1)"

definition silence :: "ClassificationDecision \<Rightarrow> string \<Rightarrow> ClassificationDecision" where
  "silence d reason = zero_ClassificationDecision
     \<lparr>cd_Outcome := OutcomeSilent, cd_Confidence := max (cd_Confidence d) (99 / 100), cd_ReasonCodes := cd_ReasonCodes d @ [reason],
      cd_DisclosureClass := DisclosureDestinationSafe, cd_AgentModelStrength := ''none''\<rparr>"

definition withAmbientPolicyCorrections ::
  "ClassificationDecision \<Rightarrow> Target \<Rightarrow> ContextPackRevision \<Rightarrow> AgentProfile list \<Rightarrow> ClassificationDecision" where
  "withAmbientPolicyCorrections d t p profiles =
     (if cd_DirectReply d \<noteq> '''' \<or> env_IsMention (tg_Envelope t) \<or> isDirectMessageTarget t \<or> tg_ActiveThread t then d
      else if tg_Mode t = ModeAssist \<and> isUndirectedAmbientQuestion (tg_Text t) \<and> \<not> cd_ProductRetrievalRequired d
              \<and> cd_ReleasableEvidenceIDs d = [] \<and> cd_RestrictedSignalIDs d = []
      then silence d ''policy.undirected_ambient_question''
      else if cd_Outcome d = OutcomeReact \<and> isUndirectedGroupGreeting (tg_Text t)
      then silence d ''policy.undirected_group_greeting''
      else case answer_operational d t p profiles of
        None \<Rightarrow> d
      | Some d1 \<Rightarrow>
          (case alignmentConflict t p of
             Some s \<Rightarrow> surface_conflict d1 s profiles
           | None \<Rightarrow>
               if cd_Outcome d1 = OutcomeSilent then d1
               else if isStableNonUrgentMetricObservation (tg_Text t) \<and> cd_Outcome d1 \<noteq> OutcomeReact
               then zero_ClassificationDecision
                 \<lparr>cd_Outcome := OutcomeReact, cd_Confidence := max (cd_Confidence d1) (99 / 100),
                  cd_ReasonCodes := cd_ReasonCodes d1 @ [''policy.stable_metric_reaction_only''],
                  cd_DisclosureClass := DisclosureDestinationSafe, cd_Reaction := ''warning'', cd_AgentModelStrength := ''none''\<rparr>
               else d1))"

section \<open>Reactions and reason codes\<close>

definition withPolicyReactionAllowlist :: "ClassificationDecision \<Rightarrow> string \<Rightarrow> string list \<Rightarrow> ClassificationDecision" where
  "withPolicyReactionAllowlist d providerReaction reactions =
     (if cd_Outcome d = OutcomeSilent \<or> cd_Reaction d = '''' \<or> cd_Reaction d = providerReaction \<or> cd_Reaction d \<in> set reactions then d
      else add_reason ''policy.reaction_allowlist_fallback'' (d\<lparr>cd_Reaction := ''''\<rparr>))"

definition preferred_reactions :: "ClassificationDecision \<Rightarrow> string list" where
  "preferred_reactions d =
     (if cd_DirectReply d \<noteq> '''' then [''white_check_mark'', ''speech_balloon'']
      else if cd_Outcome d = OutcomeStartBackgroundJob \<or> cd_Outcome d = OutcomeEscalateForApproval then [''eyes'', ''thinking_face'']
      else [''speech_balloon'', ''eyes''])"

definition withDefaultReaction :: "ClassificationDecision \<Rightarrow> string list \<Rightarrow> ClassificationDecision" where
  "withDefaultReaction d reactions =
     (if cd_Outcome d = OutcomeSilent \<or> cd_Reaction d \<noteq> '''' \<or> reactions = [] then d
      else add_reason ''policy.default_reaction''
             (d\<lparr>cd_Reaction := (case find (\<lambda>r. r \<in> set reactions) (preferred_reactions d) of None \<Rightarrow> hd reactions | Some r \<Rightarrow> r)\<rparr>))"

definition contradicts :: "Target \<Rightarrow> string \<Rightarrow> bool" where
  "contradicts t reason \<longleftrightarrow>
     (let n = map (\<lambda>c. if c \<in> set ''-. '' then CHR ''_'' else c) (ToLower (TrimSpace reason));
          mention = env_IsMention (tg_Envelope t);
          negativeMention = containsAny n [''no_direct_mention'', ''not_directed_to_agent'', ''not_likely_addressed'', ''no_likely_address'',
            ''not_addressed_to_agent'', ''no_address_signal'', ''likely_addressed_false'', ''direct_mention_false''];
          positiveMention = (\<not> negativeMention \<and> (n = ''direct_mention'' \<or> HasSuffix n ''_direct_mention'' \<or> n = ''likely_addressed_to_agent''));
          negativeThread = containsAny n [''no_active_thread'', ''not_active_thread'', ''active_thread_false''];
          positiveThread = (\<not> negativeThread \<and> (n = ''active_thread'' \<or> HasSuffix n ''_active_thread'' \<or> n = ''active_thread_true''))
      in (mention \<and> HasPrefix n ''ambient_'') \<or> (mention \<and> negativeMention) \<or> (\<not> mention \<and> positiveMention)
         \<or> (tg_ActiveThread t \<and> negativeThread) \<or> (\<not> tg_ActiveThread t \<and> positiveThread))"

definition withConsistentAuditReasonCodes :: "ClassificationDecision \<Rightarrow> Target \<Rightarrow> ClassificationDecision" where
  "withConsistentAuditReasonCodes d t =
     (let kept = filter (\<lambda>r. \<not> contradicts t r) (cd_ReasonCodes d)
      in d\<lparr>cd_ReasonCodes := (if list_ex (contradicts t) (cd_ReasonCodes d)
                             then appendUnique kept ''policy.audit_reason_codes_corrected'' else kept)\<rparr>)"

section \<open>The final check\<close>

datatype recommendation_error =
    SilentWithAction
  | ReactionNotAllowlisted
  | DirectReplyOutcome
  | DirectReplyWithAgent
  | AgentRequired
  | NonAgentWithModel
  | AgentProfileUnavailable

definition validateRecommendation :: "ClassificationDecision \<Rightarrow> AgentProfile list \<Rightarrow> string list \<Rightarrow> recommendation_error + unit" where
  "validateRecommendation d profiles reactions =
     (let agent = (cd_AgentModelProfile d \<noteq> '''' \<or> cd_AgentModelStrength d \<noteq> ''none'' \<or> cd_AgentReasoningEffort d \<noteq> '''')
      in if cd_Outcome d = OutcomeSilent
         then (if cd_Reaction d \<noteq> '''' \<or> cd_DirectReply d \<noteq> '''' \<or> cd_RequiresFullAgent d \<or> agent then Inl SilentWithAction else Inr ())
         else if cd_Reaction d \<notin> set reactions then Inl ReactionNotAllowlisted
         else if cd_DirectReply d \<noteq> ''''
         then (if cd_Outcome d \<noteq> OutcomeReplyInChannel \<and> cd_Outcome d \<noteq> OutcomeReplyInThread then Inl DirectReplyOutcome
               else if cd_RequiresFullAgent d \<or> agent then Inl DirectReplyWithAgent else Inr ())
         else if outcomeNeedsAgent (cd_Outcome d) \<and> \<not> cd_RequiresFullAgent d then Inl AgentRequired
         else if \<not> cd_RequiresFullAgent d then (if agent then Inl NonAgentWithModel else Inr ())
         else if list_ex (profile_matches d) profiles then Inr () else Inl AgentProfileUnavailable)"

fun recommendationErrorCode :: "recommendation_error \<Rightarrow> string" where
  "recommendationErrorCode SilentWithAction = ''silent_with_action''"
| "recommendationErrorCode ReactionNotAllowlisted = ''reaction_not_allowlisted''"
| "recommendationErrorCode AgentRequired = ''agent_required''"
| "recommendationErrorCode DirectReplyOutcome = ''direct_reply_outcome''"
| "recommendationErrorCode DirectReplyWithAgent = ''direct_reply_with_agent''"
| "recommendationErrorCode NonAgentWithModel = ''non_agent_with_model''"
| "recommendationErrorCode AgentProfileUnavailable = ''agent_profile_unavailable''"

section \<open>The call (OpenAIClassifier.Decide)\<close>

record ClassifierInput =
  ci_Message :: string
  ci_ImageAttachmentCount :: nat
  ci_MessageAuthorID :: string
  ci_DestinationChannelID :: string
  ci_Mode :: ParticipationMode
  ci_DirectMention :: bool
  ci_DirectMessage :: bool
  ci_ActiveThread :: bool
  ci_Sources :: "ContextSource list"
  ci_DestinationRecentParticipantIDs :: "string list"
  ci_DestinationRecentHumanCount :: nat
  ci_PreviousDestinationMessageFromAgent :: bool
  ci_LikelyAddressedToAgent :: bool
  ci_ConversationFocus :: "ContextSource list"
  ci_AgentProfiles :: "AgentProfile list"
  ci_ReactionEmojis :: "string list"

record ClassifierError =
  ce_Stage :: string
  ce_Code :: string

record ProviderReply =
  prv_Decision :: ClassificationDecision
  prv_ID :: string
  prv_InputTokens :: int
  prv_OutputTokens :: int

text \<open>\<open>oc_provider\<close> is what the request and the decoding of its answer give: an error or a decision.\<close>

record OpenAIClassifier =
  oc_tables :: TextTables
  oc_model :: string
  oc_reasoningEffort :: string
  oc_reactionEmojis :: "string list"
  oc_agentProfiles :: RegistrySnapshot
  oc_provider :: "ClassifierInput \<Rightarrow> ClassifierError + ProviderReply"

definition classifier_input :: "OpenAIClassifier \<Rightarrow> AgentProfile list \<Rightarrow> Target \<Rightarrow> ContextPackRevision \<Rightarrow> ClassifierInput" where
  "classifier_input c profiles t p =
     (let e = tg_Envelope t; recent = destinationRecentParticipantIDs (env_ChannelID e) (pack_Sources p)
      in \<lparr>ci_Message = (if TrimSpace (env_Text e) = '''' \<and> env_Images e \<noteq> [] then ''[image attachment]'' else env_Text e),
          ci_ImageAttachmentCount = length (env_Images e), ci_MessageAuthorID = env_UserID e,
          ci_DestinationChannelID = env_ChannelID e, ci_Mode = tg_Mode t, ci_DirectMention = env_IsMention e,
          ci_DirectMessage = isDirectMessageTarget t, ci_ActiveThread = tg_ActiveThread t, ci_Sources = pack_Sources p,
          ci_DestinationRecentParticipantIDs = recent, ci_DestinationRecentHumanCount = length recent,
          ci_PreviousDestinationMessageFromAgent = previousDestinationMessageFromAgent t p,
          ci_LikelyAddressedToAgent = likelyConversationallyAddressedToAgent t p,
          ci_ConversationFocus = destinationConversationFocus t (pack_Sources p) 8, ci_AgentProfiles = profiles,
          ci_ReactionEmojis = oc_reactionEmojis c\<rparr>)"

text \<open>The corrections before the profile is settled, and those after it.\<close>

definition correct_content ::
  "TextTables \<Rightarrow> ClassificationDecision \<Rightarrow> Target \<Rightarrow> ContextPackRevision \<Rightarrow> AgentProfile list \<Rightarrow> ClassificationDecision" where
  "correct_content tt d0 t p profiles =
     (let d1 = withDirectMentionPolicyCorrections d0 t profiles;
          d2 = withAddressedSocialPolicyCorrections d1 t;
          d3 = withConversationalAddressPolicyCorrections d2 t p;
          d4 = withConversationalReferencePolicyCorrections tt d3 t p profiles;
          d5 = withClarificationFollowupPolicyCorrections tt d4 t p profiles;
          d6 = withProductKnowledgePolicyCorrections tt d5 t profiles;
          d7 = withSourceWritePolicyCorrections tt d6 t;
          d8 = withImplementationPlanningPolicyCorrections d7 t profiles;
          d9 = withReadOnlyCodeAnalysisPolicyCorrections tt d8 t profiles;
          d10 = withOperationalSynthesisPolicyCorrections d9 t p profiles;
          d11 = withHighIntelligenceProfileCorrections d10 t profiles;
          d12 = withBriefMentionPolicyCorrections d11 t profiles
      in withAmbientPolicyCorrections d12 t p profiles)"

definition settle :: "ClassificationDecision \<Rightarrow> string \<Rightarrow> Target \<Rightarrow> AgentProfile list \<Rightarrow> string list \<Rightarrow> ClassificationDecision" where
  "settle d providerReaction t profiles reactions =
     (let d1 = withCanonicalAgentProfile d profiles;
          d2 = withBackgroundProfileFloor d1 t profiles;
          d3 = withPolicyReactionAllowlist d2 providerReaction reactions;
          d4 = withDefaultReaction d3 reactions
      in withConsistentAuditReasonCodes d4 t)"

definition openai_Decide :: "OpenAIClassifier \<Rightarrow> Target \<Rightarrow> ContextPackRevision \<Rightarrow> ClassifierError + ClassificationDecision" where
  "openai_Decide c t p =
     (let profiles = advertisedProfiles (oc_agentProfiles c)
      in if profiles = [] then Inl \<lparr>ce_Stage = ''profiles'', ce_Code = ''no_agent_profiles''\<rparr>
         else case oc_provider c (classifier_input c profiles t p) of
           Inl e \<Rightarrow> Inl e
         | Inr reply \<Rightarrow>
             let d = settle (correct_content (oc_tables c) (prv_Decision reply) t p profiles) (cd_Reaction (prv_Decision reply)) t
                       profiles (oc_reactionEmojis c)
             in case validateRecommendation d profiles (oc_reactionEmojis c) of
                  Inl e \<Rightarrow> Inl \<lparr>ce_Stage = ''recommendation'', ce_Code = recommendationErrorCode e\<rparr>
                | Inr _ \<Rightarrow> Inr (d\<lparr>cd_ClassifierModel := oc_model c, cd_ClassifierReasoningEffort := oc_reasoningEffort c,
                                cd_ClassifierResponseID := prv_ID reply, cd_ClassifierInputTokens := prv_InputTokens reply,
                                cd_ClassifierOutputTokens := prv_OutputTokens reply\<rparr>))"

end
