(* ===== verification/Classifier.thy ===== *)
theory Classifier
  imports ClassifierModel
begin

text \<open>
  The classification service of \<^verbatim>\<open>core/classifier/service.go\<close>: the hard suppressions, the fallbacks for
  mentions, direct messages and active threads, the checks of a prediction, the participation
  boundary, and \<^verbatim>\<open>Service.Decide\<close>.  The classification model is the field \<open>sv_classifier\<close>:
  \<^verbatim>\<open>OpenAIClassifier.Decide\<close>, the deterministic classifier of the stub, or any other.
\<close>

section \<open>Silence\<close>

record ClassifierResult =
  clr_Predicted :: ClassificationDecision
  clr_Effective :: ClassificationDecision
  clr_Shadowed :: bool

definition silent :: "string \<Rightarrow> ClassificationDecision" where
  "silent reason = zero_ClassificationDecision
     \<lparr>cd_Outcome := OutcomeSilent, cd_Confidence := 1, cd_ReasonCodes := [reason], cd_DisclosureClass := DisclosureDestinationSafe\<rparr>"

definition SilentResult :: "string \<Rightarrow> ClassifierResult" where
  "SilentResult reason = \<lparr>clr_Predicted = silent reason, clr_Effective = silent reason, clr_Shadowed = False\<rparr>"

definition Suppress :: "ClassifierResult \<Rightarrow> string \<Rightarrow> ClassifierResult" where
  "Suppress r reason = r\<lparr>clr_Effective := silent reason, clr_Shadowed := (cd_Outcome (clr_Predicted r) \<noteq> OutcomeSilent)\<rparr>"

definition hardSuppression :: "Target \<Rightarrow> string" where
  "hardSuppression t =
     (if tg_KillSwitched t then ''suppress.kill_switch''
      else if tg_SelfAuthored t then ''suppress.self_message''
      else if tg_WorkflowLoop t then ''suppress.workflow_loop''
      else if tg_Deleted t \<or> env_Kind (tg_Envelope t) = SlackEventDelete then ''suppress.deleted''
      else if tg_AmbientLinkOnly t then ''suppress.ambient_link_only''
      else if tg_Unsupported t then ''suppress.unsupported_subtype''
      else if IntegrationAuthored (tg_Envelope t) \<and> \<not> tg_AuthorizedTrigger t then ''suppress.integration_message''
      else if thirdPartyAddressedTurn t then ''suppress.third_party_address''
      else '''')"

section \<open>Participation\<close>

definition assistInitiativeAuthorized :: "Target \<Rightarrow> ContextPackRevision \<Rightarrow> ClassificationDecision \<Rightarrow> bool" where
  "assistInitiativeAuthorized t p d \<longleftrightarrow>
     (let e = tg_Envelope t; question = looksLikeQuestion (env_Text e);
          questionOrRequest = (question \<or> looksLikeExplicitRequest (env_Text e))
      in if thirdPartyAddressedTurn t then False
         else if env_IsMention e \<or> isDirectMessageTarget t \<or> tg_ActiveThread t \<or> tg_AuthorizedTrigger t \<or> explicitlyAddressesTag (env_Text e)
         then True
         else if question then True
         else if likelyConversationallyAddressedToAgent t p \<and> questionOrRequest then True
         else if cd_ProductRetrievalRequired d \<and> questionOrRequest then True
         else if asksOperationalStatus (env_Text e) \<and> cd_ReleasableEvidenceIDs d \<noteq> [] then True
         else alignmentConflict t p \<noteq> None)"

definition EnforceParticipation :: "ClassifierResult \<Rightarrow> Target \<Rightarrow> ContextPackRevision \<Rightarrow> ClassifierResult" where
  "EnforceParticipation r t p =
     (if tg_Mode t \<noteq> ModeAssist \<or> \<not> outcomeNeedsAgent (cd_Outcome (clr_Effective r)) then r
      else if assistInitiativeAuthorized t p (clr_Effective r) then r
      else Suppress r ''policy.unsolicited_assist_work'')"

section \<open>Checking a prediction\<close>

definition disclosure_of :: "ContextPackRevision \<Rightarrow> string \<rightharpoonup> DisclosureClass" where
  "disclosure_of p = map_of (rev (map (\<lambda>s. (src_ID s, src_DisclosureClass s)) (pack_Sources p)))"

definition releasable :: "ContextPackRevision \<Rightarrow> string \<Rightarrow> bool" where
  "releasable p i \<longleftrightarrow> disclosure_of p i = Some DisclosureDestinationSafe"

definition restricted_signal :: "ContextPackRevision \<Rightarrow> string \<Rightarrow> bool" where
  "restricted_signal p i \<longleftrightarrow> disclosure_of p i = Some DisclosureRestrictedAwareness"

definition sanitizeEvidenceReferences :: "ClassificationDecision \<Rightarrow> ContextPackRevision \<Rightarrow> ClassificationDecision" where
  "sanitizeEvidenceReferences d p =
     (let d1 = d\<lparr>cd_ReleasableEvidenceIDs := filter (releasable p) (cd_ReleasableEvidenceIDs d),
                cd_RestrictedSignalIDs := filter (restricted_signal p) (cd_RestrictedSignalIDs d)\<rparr>
      in if list_all (releasable p) (cd_ReleasableEvidenceIDs d) \<and> list_all (restricted_signal p) (cd_RestrictedSignalIDs d)
         then d1 else add_reason ''policy.invalid_evidence_pruned'' d1)"

definition enforceDirectReplyPlacement :: "ClassificationDecision \<Rightarrow> Target \<Rightarrow> ClassificationDecision" where
  "enforceDirectReplyPlacement d t =
     (let want = (if tg_ActiveThread t then OutcomeReplyInThread else OutcomeReplyInChannel)
      in if cd_DirectReply d = '''' then d
         else if cd_Outcome d \<noteq> want then add_reason ''policy.direct_reply_placement'' (d\<lparr>cd_Outcome := want\<rparr>)
         else d)"

text \<open>The error is its text, which \<^verbatim>\<open>decisionValidationReason\<close> searches; \<open>None\<close> is a valid decision.\<close>

definition validateDecision :: "ClassificationDecision \<Rightarrow> ContextPackRevision \<Rightarrow> string option" where
  "validateDecision d p =
     (let bad = (\<lambda>m. Some (''invalid classifier decision: '' @ m));
          evidence = (case find (\<lambda>i. \<not> releasable p i) (cd_ReleasableEvidenceIDs d) of
             Some i \<Rightarrow> bad (''releasable evidence '' @ i)
           | None \<Rightarrow> (case find (\<lambda>i. \<not> restricted_signal p i) (cd_RestrictedSignalIDs d) of
                        Some i \<Rightarrow> bad (''restricted signal '' @ i) | None \<Rightarrow> None))
      in if cd_Confidence d < 0 \<or> 1 < cd_Confidence d then bad ''confidence''
         else if cd_Outcome d \<notin> {OutcomeSilent, OutcomeReact, OutcomeReplyInThread, OutcomeReplyInChannel, OutcomeStartBackgroundJob,
                                OutcomeEscalateForApproval} then bad ''outcome''
         else if cd_ReasonCodes d = [] then bad ''reason code''
         else if cd_Outcome d \<noteq> OutcomeSilent \<and> \<not> validEmojiName (cd_Reaction d) then bad ''reaction''
         else if cd_DirectReply d \<noteq> ''''
         then (if cd_Outcome d \<noteq> OutcomeReplyInThread \<and> cd_Outcome d \<noteq> OutcomeReplyInChannel then bad ''direct reply outcome''
               else if cd_RequiresFullAgent d \<or> names_agent d then bad ''direct reply agent recommendation''
               else if \<not> validateDirectReplyText (cd_DirectReply d) then bad ''direct reply text''
               else evidence)
         else if outcomeNeedsAgent (cd_Outcome d) \<and> \<not> cd_RequiresFullAgent d then bad ''full agent required''
         else evidence)"

definition validation_words :: "string list" where
  "validation_words = [''confidence'', ''outcome'', ''reason code'', ''reaction'', ''direct reply outcome'',
     ''direct reply agent recommendation'', ''direct reply text'', ''full agent required'',
     ''releasable evidence'', ''restricted signal'']"

definition decisionValidationReason :: "string \<Rightarrow> string" where
  "decisionValidationReason message =
     (case find (Contains message) validation_words of
        None \<Rightarrow> ''classifier.invalid_decision_fallback''
      | Some w \<Rightarrow> ''classifier.invalid_'' @ ReplaceAll w '' '' ''_'' @ ''_fallback'')"

definition directMessageClarificationReply :: string where
  "directMessageClarificationReply = ''I'm here'' @ em_dash @ ''what would you like me to help with?''"

definition directMessageSourceWriteReply :: string where
  "directMessageSourceWriteReply = ''I can't make source-code changes from Slack, but I can help investigate or plan the work.''"

definition validateDirectReplyForTarget :: "ClassificationDecision \<Rightarrow> Target \<Rightarrow> ContextPackRevision \<Rightarrow> bool" where
  "validateDirectReplyForTarget d t p \<longleftrightarrow>
     cd_DirectReply d \<noteq> ''''
     \<and> ((likelyConversationallyAddressedToAgent t p \<and> isMissingLocationWeatherQuestion (tg_Text t)
          \<and> cd_DirectReply d = weatherLocationClarificationReply)
        \<or> (isDirectMessageTarget t \<and> cd_DirectReply d = directMessageClarificationReply)
        \<or> isDirectSocialCandidate (tg_Text t)
        \<or> (isDirectMessageTarget t \<and> isDirectMessageSocialCandidate (tg_Text t)))
     \<and> \<not> (cd_RequiresFullAgent d \<or> cd_ReleasableEvidenceIDs d \<noteq> [] \<or> cd_RestrictedSignalIDs d \<noteq> [])
     \<and> cd_DisclosureClass d = DisclosureDestinationSafe
     \<and> cd_Outcome d = (if tg_ActiveThread t then OutcomeReplyInThread else OutcomeReplyInChannel)
     \<and> validateDirectReplyText (cd_DirectReply d)"

definition isSourceWriteSilentDecision :: "ClassificationDecision \<Rightarrow> bool" where
  "isSourceWriteSilentDecision d \<longleftrightarrow>
     cd_Outcome d = OutcomeSilent \<and> cd_SourceWriteRequested d \<and> ''policy.source_write_silent'' \<in> set (cd_ReasonCodes d)"

section \<open>Placement and fallbacks\<close>

definition substantialAgentRecommendation :: "ClassificationDecision \<Rightarrow> bool" where
  "substantialAgentRecommendation d \<longleftrightarrow>
     cd_RequiresFullAgent d
     \<and> (cd_AgentModelStrength d = ''strong'' \<or> cd_AgentReasoningEffort d \<in> {''high'', ''xhigh'', ''max''})"

definition enforceDirectMentionPlacement :: "ClassificationDecision \<Rightarrow> string \<Rightarrow> ClassificationDecision" where
  "enforceDirectMentionPlacement d text =
     (if cd_SourceWriteRequested d then d
      else case requestedReplyPlacement text of
        Some (requested, reason) \<Rightarrow> (if cd_Outcome d \<noteq> requested then add_reason reason (d\<lparr>cd_Outcome := requested\<rparr>) else d)
      | None \<Rightarrow>
          if substantialAgentRecommendation d \<and> (cd_Outcome d = OutcomeReplyInChannel \<or> cd_Outcome d = OutcomeReplyInThread)
          then (if cd_Outcome d \<noteq> OutcomeReplyInThread
                then add_reason ''policy.substantial_agent_thread'' (d\<lparr>cd_Outcome := OutcomeReplyInThread\<rparr>) else d)
          else if cd_ProductRetrievalRequired d then d
          else if cd_Outcome d = OutcomeReplyInThread \<and> briefSelfContainedMention text
          then add_reason ''policy.brief_surface_channel'' (d\<lparr>cd_Outcome := OutcomeReplyInChannel\<rparr>)
          else if cd_Outcome d = OutcomeReplyInChannel \<and> requiresThreadSurface text
          then add_reason ''policy.deep_surface_thread'' (d\<lparr>cd_Outcome := OutcomeReplyInThread\<rparr>)
          else d)"

definition agent_reply :: "ClassificationOutcome \<Rightarrow> string \<Rightarrow> string \<Rightarrow> ClassificationDecision" where
  "agent_reply out reason intent = zero_ClassificationDecision
     \<lparr>cd_Outcome := out, cd_Confidence := 1, cd_ReasonCodes := [reason], cd_ResponseIntent := intent,
      cd_DisclosureClass := DisclosureDestinationSafe, cd_RequiresFullAgent := True, cd_Reaction := ''eyes''\<rparr>"

definition directMentionFallback :: "string \<Rightarrow> ClassificationDecision" where
  "directMentionFallback text =
     (case requestedReplyPlacement text of
        Some (requested, reason) \<Rightarrow>
          agent_reply requested reason
            (if requested = OutcomeReplyInChannel then ''honor the explicit request for a channel-level answer''
             else ''honor the explicit request for a threaded answer'')
      | None \<Rightarrow>
          if briefSelfContainedMention text
          then agent_reply OutcomeReplyInChannel ''hard.direct_mention_brief_reply'' ''give a brief self-contained answer in the channel''
          else agent_reply OutcomeReplyInThread ''hard.direct_mention_deeper_reply'' ''respond to the explicit request in a focused thread'')"

text \<open>\<^verbatim>\<open>strings.Replace\<close> of the first occurrence.\<close>

definition replace_first :: "string \<Rightarrow> string \<Rightarrow> string \<Rightarrow> string" where
  "replace_first s old new = (case Index s old of None \<Rightarrow> s | Some i \<Rightarrow> take i s @ new @ drop (i + length old) s)"

definition directMessageAgentFallback :: "string \<Rightarrow> ClassificationDecision" where
  "directMessageAgentFallback text =
     (let f = directMentionFallback text
      in f\<lparr>cd_ReasonCodes := map (\<lambda>r. replace_first r ''direct_mention'' ''direct_message'') (cd_ReasonCodes f),
           cd_ResponseIntent :=
             (if cd_Outcome f = OutcomeReplyInChannel then ''give a brief self-contained answer in the direct message''
              else if cd_Outcome f = OutcomeReplyInThread then ''respond to the direct-message request in a focused thread''
              else cd_ResponseIntent f)\<rparr>)"

definition direct_reply :: "ClassificationOutcome \<Rightarrow> string \<Rightarrow> string \<Rightarrow> string \<Rightarrow> ClassificationDecision" where
  "direct_reply out reason intent reply = zero_ClassificationDecision
     \<lparr>cd_Outcome := out, cd_Confidence := 1, cd_ReasonCodes := [reason], cd_ResponseIntent := intent, cd_DirectReply := reply,
      cd_DisclosureClass := DisclosureDestinationSafe, cd_Reaction := ''speech_balloon'', cd_AgentModelStrength := ''none''\<rparr>"

definition directMessageReplyFallback :: ClassificationDecision where
  "directMessageReplyFallback =
     direct_reply OutcomeReplyInChannel ''policy.direct_message_reply_fallback''
       ''acknowledge the direct message and ask what help is wanted'' directMessageClarificationReply"

definition directMessageSourceWriteFallback :: "bool \<Rightarrow> ClassificationDecision" where
  "directMessageSourceWriteFallback threaded =
     direct_reply (if threaded then OutcomeReplyInThread else OutcomeReplyInChannel) ''policy.source_write_dm_reply''
       ''decline source changes from Slack and offer safe assistance'' directMessageSourceWriteReply"

definition outcomeNeedsEvidence :: "ClassificationOutcome \<Rightarrow> bool" where
  "outcomeNeedsEvidence out \<longleftrightarrow> out \<in> {OutcomeReplyInThread, OutcomeReplyInChannel, OutcomeStartBackgroundJob}"

section \<open>Prediction (Service.predict)\<close>

record ClassifierService =
  sv_classifier :: "Target \<Rightarrow> ContextPackRevision \<Rightarrow> ClassifierError + ClassificationDecision"
  sv_shadow :: bool
  sv_assistThreshold :: rat
  sv_channelReplyThreshold :: rat

datatype service_error = ClassifierRequired | InvalidThresholds

definition classifier_New ::
  "(Target \<Rightarrow> ContextPackRevision \<Rightarrow> ClassifierError + ClassificationDecision) option \<Rightarrow> bool \<Rightarrow> rat \<Rightarrow> rat \<Rightarrow> service_error + ClassifierService" where
  "classifier_New c shadow assist channelReply =
     (case c of
        None \<Rightarrow> Inl ClassifierRequired
      | Some f \<Rightarrow>
          if assist < 0 \<or> 1 < assist \<or> channelReply < assist \<or> 1 < channelReply then Inl InvalidThresholds
          else Inr \<lparr>sv_classifier = f, sv_shadow = shadow, sv_assistThreshold = assist, sv_channelReplyThreshold = channelReply\<rparr>)"

text \<open>What the provider said, with unauthorized evidence removed and a direct reply put where it belongs.\<close>

definition prepared :: "ClassifierService \<Rightarrow> Target \<Rightarrow> ContextPackRevision \<Rightarrow> ClassifierError + ClassificationDecision" where
  "prepared s t p =
     map_sum id (\<lambda>d. enforceDirectReplyPlacement (sanitizeEvidenceReferences d p) t) (sv_classifier s t p)"

definition acts :: "ClassificationDecision \<Rightarrow> bool" where
  "acts d \<longleftrightarrow> cd_Outcome d \<noteq> OutcomeSilent \<and> cd_Outcome d \<noteq> OutcomeReact"

definition thread_fallback :: "Target \<Rightarrow> ClassificationDecision" where
  "thread_fallback t =
     (if isDirectSocialCandidate (tg_Text t) then directSocialFallback (tg_Text t) True
      else agent_reply OutcomeReplyInThread ''hard.active_thread_reply'' ''continue the active thread'')"

definition predict_thread :: "ClassifierService \<Rightarrow> Target \<Rightarrow> ContextPackRevision \<Rightarrow> ClassificationDecision" where
  "predict_thread s t p =
     (case prepared s t p of
        Inl _ \<Rightarrow> thread_fallback t
      | Inr d \<Rightarrow>
          if validateDecision d p \<noteq> None then thread_fallback t
          else if isSourceWriteSilentDecision d
          then (if isDirectMessageTarget t then directMessageSourceWriteFallback True else d)
          else if acts d
          then (if cd_DirectReply d \<noteq> ''''
                then (if sv_assistThreshold s \<le> cd_Confidence d \<and> validateDirectReplyForTarget d t p then d else thread_fallback t)
                else if cd_Outcome d = OutcomeReplyInChannel
                then add_reason ''policy.active_thread_placement'' (d\<lparr>cd_Outcome := OutcomeReplyInThread\<rparr>)
                else d)
          else thread_fallback t)"

text \<open>The reason a mention or direct message falls back: a provider error, an invalid decision, or neither.\<close>

definition fallback_reason ::
  "ClassifierService \<Rightarrow> Target \<Rightarrow> ContextPackRevision \<Rightarrow> ClassifierError + ClassificationDecision \<Rightarrow> bool \<Rightarrow> string" where
  "fallback_reason s t p answer agent =
     (case answer of
        Inl _ \<Rightarrow> ''classifier.provider_error_fallback''
      | Inr d \<Rightarrow>
          (case validateDecision d p of
             Some e \<Rightarrow> decisionValidationReason e
           | None \<Rightarrow>
               if agent \<and> cd_DirectReply d \<noteq> '''' \<and> cd_Confidence d < sv_channelReplyThreshold s
               then ''classifier.direct_reply_threshold_fallback''
               else if agent \<and> cd_DirectReply d \<noteq> '''' \<and> \<not> validateDirectReplyForTarget d t p
               then ''classifier.invalid_direct_reply_fallback''
               else ''classifier.non_action_fallback''))"

definition addressed_fallback ::
  "ClassifierService \<Rightarrow> Target \<Rightarrow> ContextPackRevision \<Rightarrow> ClassifierError + ClassificationDecision \<Rightarrow> ClassificationDecision" where
  "addressed_fallback s t p answer =
     (let text = tg_Text t; dm = isDirectMessageTarget t
      in if isDirectSocialCandidate text \<or> (dm \<and> isDirectMessageSocialCandidate text) then directSocialFallback text False
         else if dm \<and> \<not> looksLikeQuestion text \<and> \<not> looksLikeExplicitRequest text
         then add_reason (fallback_reason s t p answer False) directMessageReplyFallback
         else add_reason (fallback_reason s t p answer True)
                (if dm then directMessageAgentFallback text else directMentionFallback text))"

definition predict_addressed :: "ClassifierService \<Rightarrow> Target \<Rightarrow> ContextPackRevision \<Rightarrow> ClassificationDecision" where
  "predict_addressed s t p =
     (let answer = map_sum id (\<lambda>d. if env_IsMention (tg_Envelope t) then enforceDirectMentionPlacement d (tg_Text t) else d)
                     (prepared s t p)
      in case answer of
           Inl _ \<Rightarrow> addressed_fallback s t p answer
         | Inr d \<Rightarrow>
             if validateDecision d p \<noteq> None then addressed_fallback s t p answer
             else if isSourceWriteSilentDecision d
             then (if isDirectMessageTarget t then directMessageSourceWriteFallback False else d)
             else if acts d \<and> (cd_DirectReply d = '''' \<or> sv_channelReplyThreshold s \<le> cd_Confidence d)
                     \<and> (cd_DirectReply d = '''' \<or> validateDirectReplyForTarget d t p)
             then d
             else addressed_fallback s t p answer)"

text \<open>An ambient message, by the thresholds of the service.\<close>

definition threshold_placement :: "ClassifierService \<Rightarrow> ClassificationDecision \<Rightarrow> ClassificationDecision" where
  "threshold_placement s d0 =
     (let d = (if cd_Outcome d0 \<noteq> OutcomeSilent \<and> cd_Confidence d0 < sv_assistThreshold s then silent ''admission.low_confidence'' else d0)
      in if cd_Outcome d = OutcomeReplyInChannel \<and> cd_DirectReply d \<noteq> '''' \<and> cd_Confidence d < sv_channelReplyThreshold s
         then silent ''admission.direct_reply_threshold''
         else if cd_Outcome d = OutcomeReplyInChannel \<and> cd_Confidence d < sv_channelReplyThreshold s
         then add_reason ''admission.channel_reply_threshold'' (d\<lparr>cd_Outcome := OutcomeReplyInThread\<rparr>)
         else d)"

definition predict_ambient :: "ClassifierService \<Rightarrow> Target \<Rightarrow> ContextPackRevision \<Rightarrow> ClassificationDecision" where
  "predict_ambient s t p =
     (case prepared s t p of
        Inl _ \<Rightarrow> silent ''classifier.error''
      | Inr d0 \<Rightarrow>
          if validateDecision d0 p \<noteq> None then silent ''classifier.invalid''
          else if cd_DirectReply d0 \<noteq> '''' \<and> \<not> validateDirectReplyForTarget d0 t p then silent ''classifier.invalid_direct_reply''
          else
            let d = threshold_placement s d0
            in if cd_DirectReply d = '''' \<and> outcomeNeedsEvidence (cd_Outcome d) \<and> cd_ReleasableEvidenceIDs d = []
                  \<and> cd_RestrictedSignalIDs d \<noteq> []
               then silent ''admission.destination_disclosure_denied'' else d)"

definition predict :: "ClassifierService \<Rightarrow> Target \<Rightarrow> ContextPackRevision \<Rightarrow> ClassificationDecision" where
  "predict s t p =
     (if tg_ActiveThread t then predict_thread s t p
      else if env_IsMention (tg_Envelope t) \<or> isDirectMessageTarget t then predict_addressed s t p
      else if tg_Mode t = ModeMention then silent ''admission.channel_mode''
      else predict_ambient s t p)"

section \<open>Deciding (Service.Decide)\<close>

definition classifier_Decide :: "ClassifierService \<Rightarrow> Target \<Rightarrow> ContextPackRevision \<Rightarrow> ClassifierResult" where
  "classifier_Decide s t p =
     (if hardSuppression t \<noteq> '''' then SilentResult (hardSuppression t)
      else if tg_Mode t = ModeObserve
      then (if sv_shadow s
            then (let predicted = predict s (t\<lparr>tg_Mode := ModeAssist\<rparr>) p
                  in \<lparr>clr_Predicted = predicted, clr_Effective = silent ''admission.channel_mode'',
                      clr_Shadowed = (cd_Outcome predicted \<noteq> OutcomeSilent)\<rparr>)
            else SilentResult ''admission.channel_mode'')
      else
        let predicted = predict s t p
        in if env_IsMention (tg_Envelope t) \<or> isDirectMessageTarget t \<or> tg_ActiveThread t \<or> cd_Outcome predicted = OutcomeSilent
           then \<lparr>clr_Predicted = predicted, clr_Effective = predicted, clr_Shadowed = False\<rparr>
           else if sv_shadow s
           then \<lparr>clr_Predicted = predicted, clr_Effective = silent ''admission.shadow_mode'', clr_Shadowed = True\<rparr>
           else EnforceParticipation \<lparr>clr_Predicted = predicted, clr_Effective = predicted, clr_Shadowed = False\<rparr> t p)"

definition RequiresProviderCall :: "ClassifierService \<Rightarrow> Target \<Rightarrow> bool" where
  "RequiresProviderCall s t \<longleftrightarrow> hardSuppression t = '''' \<and> (tg_Mode t \<noteq> ModeObserve \<or> sv_shadow s)"

section \<open>The deterministic classifier\<close>

definition quiet_ambient :: ClassificationDecision where
  "quiet_ambient = zero_ClassificationDecision\<lparr>cd_Outcome := OutcomeSilent, cd_ReasonCodes := [''deterministic.ambient'']\<rparr>"

definition incident_answer :: "ContextSource \<Rightarrow> ClassificationDecision" where
  "incident_answer s =
     (if src_DisclosureClass s = DisclosureDestinationSafe
      then zero_ClassificationDecision
        \<lparr>cd_Outcome := OutcomeReplyInThread, cd_Confidence := 99 / 100, cd_ReasonCodes := [''ambient.cross_channel_incident_match''],
         cd_ReleasableEvidenceIDs := [src_ID s], cd_ResponseIntent := ''answer with the current incident evidence'',
         cd_DisclosureClass := DisclosureDestinationSafe, cd_RequiresFullAgent := True, cd_Reaction := ''rotating_light''\<rparr>
      else zero_ClassificationDecision
        \<lparr>cd_Outcome := OutcomeReplyInThread, cd_Confidence := 99 / 100, cd_ReasonCodes := [''ambient.cross_channel_incident_match''],
         cd_RestrictedSignalIDs := [src_ID s], cd_ResponseIntent := ''incident awareness exists but is not disclosable'',
         cd_DisclosureClass := DisclosureRestrictedAwareness, cd_RequiresFullAgent := True, cd_Reaction := ''warning''\<rparr>)"

definition incident_source :: "ContextSource \<Rightarrow> bool" where
  "incident_source s \<longleftrightarrow> (src_Partition s = PartitionEvidence \<or> src_Partition s = PartitionSituation)
     \<and> src_DisclosureClass s \<in> {DisclosureDestinationSafe, DisclosureRestrictedAwareness} \<and> classifier_containsIncident (src_Text s)"

text \<open>The ambient end of the classifier, after its exits for requests, mentions and alignment.\<close>

definition deterministic_ambient :: "Target \<Rightarrow> ContextPackRevision \<Rightarrow> ClassificationDecision" where
  "deterministic_ambient t p =
     (let lower = ToLower (tg_Text t)
      in case (if asksOperationalStatus lower then find incident_source (pack_Sources p) else None) of
           Some s \<Rightarrow> incident_answer s
         | None \<Rightarrow>
             if HasSuffix (TrimSpace lower) ''?''
             then zero_ClassificationDecision
               \<lparr>cd_Outcome := OutcomeReplyInThread, cd_Confidence := 91 / 100, cd_ReasonCodes := [''ambient.clear_unanswered_question''],
                cd_ResponseIntent := ''answer the clear unresolved question'', cd_DisclosureClass := DisclosureDestinationSafe,
                cd_RequiresFullAgent := True, cd_Reaction := ''thinking_face''\<rparr>
             else silent ''ambient.social_chatter'')"

definition deterministic_initiative :: "Target \<Rightarrow> ContextPackRevision \<Rightarrow> ClassificationDecision" where
  "deterministic_initiative t p =
     (let assist = (tg_Mode t = ModeAssist \<or> tg_Mode t = ModeProactive)
      in if assist \<and> isStableNonUrgentMetricObservation (tg_Text t)
         then zero_ClassificationDecision
           \<lparr>cd_Outcome := OutcomeReact, cd_Confidence := 99 / 100, cd_ReasonCodes := [''ambient.stable_metric_reaction_only''],
            cd_DisclosureClass := DisclosureDestinationSafe, cd_Reaction := ''warning'', cd_AgentModelStrength := ''none''\<rparr>
         else case (if assist then alignmentConflict t p else None) of
           Some s \<Rightarrow> zero_ClassificationDecision
             \<lparr>cd_Outcome := OutcomeReplyInChannel, cd_Confidence := 995 / 1000,
              cd_ReasonCodes := [''ambient.cross_channel_alignment_conflict''], cd_ReleasableEvidenceIDs := [src_ID s],
              cd_ResponseIntent := ''briefly surface and reconcile the conflicting public report from <@'' @ src_AuthorID s @ ''> in <#''
                @ src_ChannelID s @ ''> without assigning blame or treating the report as verified fact'',
              cd_DisclosureClass := DisclosureDestinationSafe, cd_RequiresFullAgent := True,
              cd_Reaction := (if operationalStance (src_Text s) < 0 \<or> operationalStance (tg_Text t) < 0 then ''warning'' else ''speech_balloon'')\<rparr>
         | None \<Rightarrow>
             if tg_Mode t = ModeProactive \<and> containsActionableSignal (ToLower (tg_Text t))
             then zero_ClassificationDecision
               \<lparr>cd_Outcome := OutcomeReplyInChannel, cd_Confidence := 99 / 100, cd_ReasonCodes := [''ambient.proactive_actionable_signal''],
                cd_ResponseIntent := ''offer help on the actionable channel signal'', cd_DisclosureClass := DisclosureDestinationSafe,
                cd_RequiresFullAgent := True, cd_Reaction := ''eyes''\<rparr>
             else deterministic_ambient t p)"

definition deterministic_Decide :: "TextTables \<Rightarrow> Target \<Rightarrow> ContextPackRevision \<Rightarrow> ClassificationDecision" where
  "deterministic_Decide tt t p =
     (let text = tg_Text t;
          addressed = withConversationalAddressPolicyCorrections quiet_ambient t p;
          referenced = withConversationalReferencePolicyCorrections tt quiet_ambient t p [];
          followed = withClarificationFollowupPolicyCorrections tt quiet_ambient t p []
      in if cd_Outcome addressed \<noteq> OutcomeSilent then addressed
         else if cd_Outcome referenced \<noteq> OutcomeSilent then referenced
         else if cd_Outcome followed \<noteq> OutcomeSilent then followed
         else if isObviousWikiPageCRUDRequest text
         then zero_ClassificationDecision
           \<lparr>cd_Outcome := OutcomeReplyInThread, cd_Confidence := 99 / 100, cd_ReasonCodes := [''deterministic.wiki_page_crud''],
            cd_ResponseIntent := ''perform the requested Agent Wiki page CRUD through the reviewed Wiki capability'',
            cd_DisclosureClass := DisclosureDestinationSafe, cd_RequiresFullAgent := True, cd_Reaction := ''eyes'',
            cd_AgentModelStrength := ''standard'', cd_AgentReasoningEffort := ''medium''\<rparr>
         else if isObviousSourceWriteRequest (tt_alnum tt) text
         then withSourceWritePolicyCorrections tt (zero_ClassificationDecision\<lparr>cd_ReasonCodes := [''deterministic.source_write'']\<rparr>) t
         else if isObviousProductKnowledgeQuestion text [] ''''
         then zero_ClassificationDecision
           \<lparr>cd_Outcome := OutcomeReplyInThread, cd_Confidence := 99 / 100, cd_ReasonCodes := [''deterministic.product_knowledge''],
            cd_ResponseIntent := ''retrieve authoritative TelemetryOS product evidence before answering'',
            cd_ProductRetrievalRequired := True, cd_DisclosureClass := DisclosureDestinationSafe, cd_RequiresFullAgent := True,
            cd_Reaction := ''thinking_face''\<rparr>
         else if isDirectSocialCandidate text
         then zero_ClassificationDecision
           \<lparr>cd_Outcome := (if tg_ActiveThread t then OutcomeReplyInThread else OutcomeReplyInChannel), cd_Confidence := 99 / 100,
            cd_ReasonCodes := [''social.direct_reply''], cd_ResponseIntent := ''brief social acknowledgement'',
            cd_DirectReply := ascii_apostrophe_reply, cd_DisclosureClass := DisclosureDestinationSafe, cd_Reaction := ''white_check_mark''\<rparr>
         else if env_IsMention (tg_Envelope t) then directMentionFallback text
         else deterministic_initiative t p)"

end
