(* ===== verification/ClassifierProperties.thy ===== *)
theory ClassifierProperties
  imports Classifier
begin

text \<open>
  What \<^verbatim>\<open>classifier.Service.Decide\<close> guarantees whatever the classification model answers: a decision to
  act is admitted by the channel's mode, initiative in assist mode is authorized, evidence is
  releasable in the destination, direct replies are short plain text that no agent is run for.
\<close>

section \<open>Sound decisions\<close>

definition sound_reply :: "ClassificationDecision \<Rightarrow> bool" where
  "sound_reply d \<longleftrightarrow> (cd_DirectReply d \<noteq> '''' \<longrightarrow>
     validateDirectReplyText (cd_DirectReply d) \<and> \<not> cd_RequiresFullAgent d
     \<and> cd_Outcome d \<in> {OutcomeReplyInThread, OutcomeReplyInChannel}
     \<and> cd_ReleasableEvidenceIDs d = [] \<and> cd_RestrictedSignalIDs d = [] \<and> cd_DisclosureClass d = DisclosureDestinationSafe)"

definition sound_evidence :: "ContextPackRevision \<Rightarrow> ClassificationDecision \<Rightarrow> bool" where
  "sound_evidence p d \<longleftrightarrow> (\<forall>i \<in> set (cd_ReleasableEvidenceIDs d). releasable p i)
     \<and> (\<forall>i \<in> set (cd_RestrictedSignalIDs d). restricted_signal p i) \<and> 0 \<le> cd_Confidence d \<and> cd_Confidence d \<le> 1"

definition sound_decision :: "ContextPackRevision \<Rightarrow> ClassificationDecision \<Rightarrow> bool" where
  "sound_decision p d \<longleftrightarrow> sound_evidence p d \<and> sound_reply d"

lemma find_None_all: "find P xs = None \<longleftrightarrow> (\<forall>x \<in> set xs. \<not> P x)"
  by (induction xs) auto

lemma validateDecision_sound:
  assumes "validateDecision d p = None"
  shows "sound_evidence p d"
proof -
  have "find (\<lambda>i. \<not> releasable p i) (cd_ReleasableEvidenceIDs d) = None"
    and "find (\<lambda>i. \<not> restricted_signal p i) (cd_RestrictedSignalIDs d) = None"
    and "\<not> (cd_Confidence d < 0 \<or> 1 < cd_Confidence d)"
    using assms by (auto simp: validateDecision_def Let_def split: if_splits option.splits)
  then show ?thesis by (auto simp: sound_evidence_def find_None_all)
qed

lemma validateDirectReply_sound: "validateDirectReplyForTarget d t p \<Longrightarrow> sound_reply d"
  by (auto simp: validateDirectReplyForTarget_def sound_reply_def split: if_splits)

lemma no_reply_sound: "cd_DirectReply d = '''' \<Longrightarrow> sound_reply d"
  by (simp add: sound_reply_def)

lemma add_reason_fields [simp]:
  "cd_Outcome (add_reason r d) = cd_Outcome d" "cd_Confidence (add_reason r d) = cd_Confidence d"
  "cd_ReleasableEvidenceIDs (add_reason r d) = cd_ReleasableEvidenceIDs d" "cd_DirectReply (add_reason r d) = cd_DirectReply d"
  "cd_RestrictedSignalIDs (add_reason r d) = cd_RestrictedSignalIDs d" "cd_Reaction (add_reason r d) = cd_Reaction d"
  "cd_RequiresFullAgent (add_reason r d) = cd_RequiresFullAgent d" "cd_DisclosureClass (add_reason r d) = cd_DisclosureClass d"
  "cd_AgentModelProfile (add_reason r d) = cd_AgentModelProfile d" "cd_AgentModelStrength (add_reason r d) = cd_AgentModelStrength d"
  "cd_AgentReasoningEffort (add_reason r d) = cd_AgentReasoningEffort d"
  "cd_SourceWriteRequested (add_reason r d) = cd_SourceWriteRequested d"
  by (simp_all add: add_reason_def)

lemma sound_add_reason [simp]: "sound_decision p (add_reason r d) = sound_decision p d"
  by (simp add: sound_decision_def sound_evidence_def sound_reply_def)

lemma silent_fields [simp]:
  "cd_Outcome (silent r) = OutcomeSilent" "cd_DirectReply (silent r) = ''''" "cd_Confidence (silent r) = 1"
  "cd_ReleasableEvidenceIDs (silent r) = []" "cd_RestrictedSignalIDs (silent r) = []" "cd_RequiresFullAgent (silent r) = False"
  by (simp_all add: silent_def zero_ClassificationDecision_def)

lemma sound_silent [simp]: "sound_decision p (silent r)"
  by (simp add: sound_decision_def sound_evidence_def sound_reply_def)

lemma sound_agent_reply [simp]: "sound_decision p (agent_reply out r i)"
  by (simp add: agent_reply_def sound_decision_def sound_evidence_def sound_reply_def zero_ClassificationDecision_def)

lemma sound_directMentionFallback [simp]: "sound_decision p (directMentionFallback x)"
  by (auto simp: directMentionFallback_def split: option.splits)

lemma sound_directMessageAgentFallback [simp]: "sound_decision p (directMessageAgentFallback x)"
  using sound_directMentionFallback [of p x]
  by (simp add: directMessageAgentFallback_def Let_def sound_decision_def sound_evidence_def sound_reply_def)

section \<open>The canned replies\<close>

lemma social_replies_valid: "validateDirectReplyText (fst (social_reply n))"
proof -
  have "list_all validateDirectReplyText
    [''Morning!'', ''Good afternoon!'', ''Good evening!'', ''Hey!'', ''See you!'', ''Thanks!'', smiling_face, ascii_apostrophe_reply,
     ''Happy to help!'']"
    by code_simp
  then show ?thesis by (auto simp: social_reply_def)
qed

lemma fixed_replies_valid:
  "validateDirectReplyText directMessageClarificationReply" "validateDirectReplyText directMessageSourceWriteReply"
  by code_simp+

lemma sound_directSocialFallback [simp]: "sound_decision p (directSocialFallback x b)"
  using social_replies_valid [of "normalizedSocialText x"]
  by (auto simp: directSocialFallback_def sound_decision_def sound_evidence_def sound_reply_def zero_ClassificationDecision_def
      split: prod.splits)

lemma sound_direct_reply:
  "validateDirectReplyText r \<Longrightarrow> out \<in> {OutcomeReplyInThread, OutcomeReplyInChannel} \<Longrightarrow> sound_decision p (direct_reply out c i r)"
  by (auto simp: direct_reply_def sound_decision_def sound_evidence_def sound_reply_def zero_ClassificationDecision_def)

lemma sound_canned [simp]:
  "sound_decision p directMessageReplyFallback" "sound_decision p (directMessageSourceWriteFallback b)"
  by (auto simp: directMessageReplyFallback_def directMessageSourceWriteFallback_def intro!: sound_direct_reply fixed_replies_valid)

section \<open>Every prediction is sound\<close>

lemma sound_placed:
  "sound_decision p d \<Longrightarrow> cd_DirectReply d = '''' \<Longrightarrow> sound_decision p (d\<lparr>cd_Outcome := out\<rparr>)"
  by (simp add: sound_decision_def sound_evidence_def sound_reply_def)

lemma sound_thread: "sound_decision p (predict_thread s t p)"
proof -
  have fb: "sound_decision p (thread_fallback t)" by (simp add: thread_fallback_def)
  show ?thesis
  proof (cases "prepared s t p")
    case (Inl e) then show ?thesis using fb by (simp add: predict_thread_def)
  next
    case (Inr d)
    show ?thesis
    proof (cases "validateDecision d p = None")
      case False then show ?thesis using Inr fb by (simp add: predict_thread_def)
    next
      case True
      have sw: "isSourceWriteSilentDecision d \<Longrightarrow> cd_DirectReply d = ''''"
        using True by (auto simp: isSourceWriteSilentDecision_def validateDecision_def Let_def split: if_splits)
      show ?thesis
      proof -
        have empty: "sound_decision p d" if "cd_DirectReply d = '''' \<or> validateDirectReplyForTarget d t p"
          using that validateDecision_sound [OF True] validateDirectReply_sound [of d t p] no_reply_sound [of d]
          by (auto simp: sound_decision_def)
        show ?thesis
          using Inr fb True sw by (auto simp: predict_thread_def intro: empty sound_placed)
      qed
    qed
  qed
qed

lemma sound_addressed_fallback [simp]: "sound_decision p (addressed_fallback s t p a)"
  by (simp add: addressed_fallback_def Let_def)

lemma sound_addressed: "sound_decision p (predict_addressed s t p)"
proof -
  have key: "sound_decision p d"
    if v: "validateDecision d p = None"
      and c: "isSourceWriteSilentDecision d \<or> cd_DirectReply d = '''' \<or> validateDirectReplyForTarget d t p" for d
  proof -
    have "isSourceWriteSilentDecision d \<Longrightarrow> cd_DirectReply d = ''''"
      using v by (auto simp: isSourceWriteSilentDecision_def validateDecision_def Let_def split: if_splits)
    then show ?thesis
      using c validateDecision_sound [OF v] validateDirectReply_sound [of d t p] no_reply_sound [of d]
      by (auto simp: sound_decision_def)
  qed
  show ?thesis
    unfolding predict_addressed_def Let_def by (auto split: sum.splits intro!: key)
qed

lemma sound_threshold:
  assumes "sound_decision p d"
  shows "sound_decision p (threshold_placement s d)"
  using assms by (auto simp: threshold_placement_def Let_def sound_decision_def sound_evidence_def sound_reply_def)

lemma sound_ambient: "sound_decision p (predict_ambient s t p)"
proof (cases "prepared s t p")
  case (Inl e) then show ?thesis by (simp add: predict_ambient_def)
next
  case (Inr d)
  have "sound_decision p d" if "validateDecision d p = None" "cd_DirectReply d \<noteq> '''' \<longrightarrow> validateDirectReplyForTarget d t p"
    using that validateDecision_sound [of d p] validateDirectReply_sound [of d t p] no_reply_sound [of d]
    by (auto simp: sound_decision_def)
  then show ?thesis
    using Inr by (auto simp: predict_ambient_def Let_def intro: sound_threshold)
qed

lemma sound_predict: "sound_decision p (predict s t p)"
  by (simp add: predict_def sound_thread sound_addressed sound_ambient)

lemma sound_results:
  "sound_decision p (clr_Effective (classifier_Decide s t p))" "sound_decision p (clr_Predicted (classifier_Decide s t p))"
  by (simp_all add: classifier_Decide_def SilentResult_def EnforceParticipation_def Suppress_def Let_def sound_predict)


section \<open>Who may act\<close>

lemma effective_predicted:
  "hardSuppression t = '''' \<Longrightarrow> tg_Mode t \<noteq> ModeObserve \<Longrightarrow>
   env_IsMention (tg_Envelope t) \<or> isDirectMessageTarget t \<or> tg_ActiveThread t \<Longrightarrow>
   clr_Effective (classifier_Decide s t p) = predict s t p"
  by (auto simp: classifier_Decide_def Let_def)

lemma assist_addressed:
  assumes "hardSuppression t = ''''"
    and "env_IsMention (tg_Envelope t) \<or> isDirectMessageTarget t \<or> tg_ActiveThread t"
  shows "assistInitiativeAuthorized t p d"
proof -
  have "\<not> thirdPartyAddressedTurn t" using assms(1) by (auto simp: hardSuppression_def split: if_splits)
  then show ?thesis using assms(2) by (auto simp: assistInitiativeAuthorized_def Let_def)
qed

lemma predict_mention_silent:
  "tg_Mode t = ModeMention \<Longrightarrow> \<not> (env_IsMention (tg_Envelope t) \<or> isDirectMessageTarget t \<or> tg_ActiveThread t) \<Longrightarrow>
   cd_Outcome (predict s t p) = OutcomeSilent"
  by (simp add: predict_def)

text \<open>C8. Nothing acts where it is not admitted: when the effective decision of the classifier is not
  silence, no hard suppression holds (kill switch, own message, workflow loop, deletion, link-only
  chatter, unsupported subtype, integration, third-party address), the channel is not in observe
  mode, and in mention mode or with the service in shadow the message is a mention, a direct
  message or in an active thread; work in assist mode is authorized initiative.\<close>

theorem decide_acts_only_where_admitted:
  assumes "cd_Outcome (clr_Effective (classifier_Decide s t p)) \<noteq> OutcomeSilent"
  shows "hardSuppression t = '''' \<and> tg_Mode t \<noteq> ModeObserve
    \<and> (tg_Mode t = ModeMention \<or> sv_shadow s \<longrightarrow>
         env_IsMention (tg_Envelope t) \<or> isDirectMessageTarget t \<or> tg_ActiveThread t)
    \<and> (tg_Mode t = ModeAssist \<and> outcomeNeedsAgent (cd_Outcome (clr_Effective (classifier_Decide s t p))) \<longrightarrow>
         assistInitiativeAuthorized t p (clr_Effective (classifier_Decide s t p)))"
proof -
  have hard: "hardSuppression t = ''''"
    using assms by (auto simp: classifier_Decide_def SilentResult_def split: if_splits)
  have mode: "tg_Mode t \<noteq> ModeObserve"
    using assms hard by (auto simp: classifier_Decide_def SilentResult_def Let_def split: if_splits)
  show ?thesis
  proof (cases "env_IsMention (tg_Envelope t) \<or> isDirectMessageTarget t \<or> tg_ActiveThread t")
    case True then show ?thesis using hard mode assist_addressed [OF hard True] by simp
  next
    case False
    have run: "cd_Outcome (predict s t p) \<noteq> OutcomeSilent" "\<not> sv_shadow s"
      "clr_Effective (classifier_Decide s t p)
        = clr_Effective (EnforceParticipation \<lparr>clr_Predicted = predict s t p, clr_Effective = predict s t p, clr_Shadowed = False\<rparr> t p)"
      using assms hard mode False by (auto simp: classifier_Decide_def Let_def split: if_splits)
    have "tg_Mode t \<noteq> ModeMention" using run(1) predict_mention_silent [OF _ False] by blast
    moreover have "tg_Mode t = ModeAssist \<and> outcomeNeedsAgent (cd_Outcome (clr_Effective (classifier_Decide s t p))) \<longrightarrow>
         assistInitiativeAuthorized t p (clr_Effective (classifier_Decide s t p))"
      by (auto simp: run(3) EnforceParticipation_def Suppress_def outcomeNeedsAgent_def)
    ultimately show ?thesis using hard mode run(2) by simp
  qed
qed

text \<open>C9. Whatever the classification model answers, an effective decision only releases evidence that
  the context pack marks safe for the destination and only refers to restricted signals that the
  pack holds as restricted, its confidence is a probability, and a direct reply is a short single
  line without markup or links, for which no agent runs and no evidence is cited.\<close>

theorem decide_releases_only_safe_evidence:
  "(\<forall>i \<in> set (cd_ReleasableEvidenceIDs (clr_Effective (classifier_Decide s t p))).
      \<exists>c \<in> set (pack_Sources p). src_ID c = i \<and> src_DisclosureClass c = DisclosureDestinationSafe)
   \<and> (\<forall>i \<in> set (cd_RestrictedSignalIDs (clr_Effective (classifier_Decide s t p))).
      \<exists>c \<in> set (pack_Sources p). src_ID c = i \<and> src_DisclosureClass c = DisclosureRestrictedAwareness)
   \<and> 0 \<le> cd_Confidence (clr_Effective (classifier_Decide s t p)) \<and> cd_Confidence (clr_Effective (classifier_Decide s t p)) \<le> 1
   \<and> sound_reply (clr_Effective (classifier_Decide s t p))"
proof -
  have src: "\<exists>c \<in> set (pack_Sources p). src_ID c = i \<and> src_DisclosureClass c = k" if "disclosure_of p i = Some k" for i k
    using map_of_SomeD [OF that [unfolded disclosure_of_def]] by auto
  have ok: "sound_evidence p (clr_Effective (classifier_Decide s t p))" "sound_reply (clr_Effective (classifier_Decide s t p))"
    using sound_results(1) [of p s t] by (simp_all add: sound_decision_def)
  show ?thesis
    using ok(1) by (intro conjI ok(2)) (auto simp: sound_evidence_def releasable_def restricted_signal_def intro!: src)
qed

lemma suppressed_not_asked:
  "\<not> RequiresProviderCall s t \<Longrightarrow> classifier_Decide s t p =
     SilentResult (if hardSuppression t \<noteq> '''' then hardSuppression t else ''admission.channel_mode'')"
  by (auto simp: RequiresProviderCall_def classifier_Decide_def)

text \<open>\<^verbatim>\<open>RequiresProviderCall\<close> is the test the pipeline makes before it spends provider budget: when it is
  false, the decision is the same silence whatever the provider would answer.\<close>

theorem no_call_no_provider:
  assumes "\<not> RequiresProviderCall s t"
  shows "classifier_Decide (s\<lparr>sv_classifier := f\<rparr>) t p = classifier_Decide s t p
    \<and> cd_Outcome (clr_Effective (classifier_Decide s t p)) = OutcomeSilent"
proof -
  have "\<not> RequiresProviderCall (s\<lparr>sv_classifier := f\<rparr>) t" using assms by (simp add: RequiresProviderCall_def)
  from suppressed_not_asked [OF this] suppressed_not_asked [OF assms] show ?thesis by (simp add: SilentResult_def)
qed

section \<open>The recommendation that leaves the corrections\<close>

definition schema_outcome :: "ClassificationOutcome \<Rightarrow> bool" where
  "schema_outcome out \<longleftrightarrow> out \<in> {OutcomeSilent, OutcomeReact, OutcomeReplyInThread, OutcomeReplyInChannel, OutcomeStartBackgroundJob,
     OutcomeEscalateForApproval}"

definition all_strengths :: "AgentProfile list \<Rightarrow> bool" where
  "all_strengths profiles \<longleftrightarrow> (\<forall>st \<in> set strengths. \<exists>p \<in> set profiles. ap_Strength p = st)"

lemma find_profile:
  "all_strengths profiles \<Longrightarrow> st \<in> set strengths \<Longrightarrow>
   \<exists>p \<in> set profiles. find (\<lambda>p. ap_Strength p = st) profiles = Some p \<and> ap_Strength p = st"
  unfolding all_strengths_def
  by (cases "find (\<lambda>p. ap_Strength p = st) profiles") (auto simp: find_None_iff dest: find_Some_iff [THEN iffD1])

text \<open>What a decision looks like once its profile is settled.\<close>

definition profiled :: "AgentProfile list \<Rightarrow> ClassificationDecision \<Rightarrow> bool" where
  "profiled profiles d \<longleftrightarrow>
     (if cd_Outcome d = OutcomeSilent
      then cd_Reaction d = '''' \<and> cd_DirectReply d = '''' \<and> \<not> cd_RequiresFullAgent d
        \<and> cd_AgentModelProfile d = '''' \<and> cd_AgentModelStrength d = ''none'' \<and> cd_AgentReasoningEffort d = ''''
      else if cd_RequiresFullAgent d then cd_DirectReply d = '''' \<and> list_ex (profile_matches d) profiles
      else (outcomeNeedsAgent (cd_Outcome d) \<longrightarrow> cd_DirectReply d \<noteq> '''')
        \<and> (cd_Outcome d \<noteq> OutcomeStartBackgroundJob \<longrightarrow>
             cd_AgentModelProfile d = '''' \<and> cd_AgentModelStrength d = ''none'' \<and> cd_AgentReasoningEffort d = ''''))"

lemma wanted_strength_known: "wanted_strength d \<in> set strengths"
  by (simp add: wanted_strength_def strengths_def)

lemma use_profile_fields [simp]:
  "cd_Outcome (use_profile q d) = cd_Outcome d" "cd_DirectReply (use_profile q d) = cd_DirectReply d"
  "cd_RequiresFullAgent (use_profile q d) = cd_RequiresFullAgent d" "cd_Reaction (use_profile q d) = cd_Reaction d"
  "profile_matches (use_profile q d) q"
  by (simp_all add: use_profile_def profile_matches_def)

lemma profile_matches_add_reason [simp]: "profile_matches (add_reason r d) = profile_matches d"
  by (rule ext) (simp add: profile_matches_def)

lemma agent_profile_for_profiled:
  assumes "all_strengths profiles"
  shows "list_ex (profile_matches (agent_profile_for d profiles)) profiles
    \<and> cd_DirectReply (agent_profile_for d profiles) = '''' \<and> cd_Outcome (agent_profile_for d profiles) = cd_Outcome d
    \<and> cd_RequiresFullAgent (agent_profile_for d profiles) = cd_RequiresFullAgent d"
proof -
  define d1 where "d1 = (if cd_DirectReply d \<noteq> '''' then add_reason ''policy.agent_direct_reply_cleared'' (d\<lparr>cd_DirectReply := ''''\<rparr>) else d)"
  have d1: "cd_DirectReply d1 = ''''" "cd_Outcome d1 = cd_Outcome d" "cd_RequiresFullAgent d1 = cd_RequiresFullAgent d"
    by (simp_all add: d1_def)
  obtain q where q: "q \<in> set profiles" "find (\<lambda>p. ap_Strength p = wanted_strength d1) profiles = Some q"
    using find_profile [OF assms wanted_strength_known [of d1]] by blast
  have "agent_profile_for d profiles =
    (if list_ex (profile_matches d1) profiles then d1 else add_reason ''policy.canonical_agent_profile'' (use_profile q d1))"
    by (simp add: agent_profile_for_def d1_def [symmetric] Let_def q(2))
  then show ?thesis using d1 q(1) use_profile_fields(5) by (auto simp: list_ex_iff simp del: use_profile_fields(5))
qed

lemma canonical_profiled:
  assumes all: "all_strengths profiles" and ok: "schema_outcome (cd_Outcome d)"
  shows "profiled profiles (withCanonicalAgentProfile d profiles)
    \<and> cd_Outcome (withCanonicalAgentProfile d profiles) = cd_Outcome d
    \<and> (cd_Outcome d = OutcomeStartBackgroundJob \<longrightarrow>
        cd_RequiresFullAgent (withCanonicalAgentProfile d profiles) \<or> cd_DirectReply (withCanonicalAgentProfile d profiles) \<noteq> '''')"
proof -
  define d1 where "d1 = (if outcomeNeedsAgent (cd_Outcome d) \<and> cd_DirectReply d = '''' \<and> \<not> cd_RequiresFullAgent d
                  then add_reason ''policy.agent_requirement_inferred'' (d\<lparr>cd_RequiresFullAgent := True\<rparr>) else d)"
  have d1: "cd_Outcome d1 = cd_Outcome d" "outcomeNeedsAgent (cd_Outcome d) \<Longrightarrow> \<not> cd_RequiresFullAgent d1 \<Longrightarrow> cd_DirectReply d1 \<noteq> ''''"
    by (auto simp: d1_def split: if_splits)
  show ?thesis
  proof (cases "cd_Outcome d = OutcomeSilent")
    case True then show ?thesis by (simp add: withCanonicalAgentProfile_def profiled_def clear_silent_def)
  next
    case False
    then have eq: "withCanonicalAgentProfile d profiles =
      (if \<not> cd_RequiresFullAgent d1
       then if cd_Outcome d1 = OutcomeReact \<or> cd_DirectReply d1 \<noteq> ''''
            then (if names_agent d1 then add_reason ''policy.non_agent_profile_cleared'' d1 else d1)
                   \<lparr>cd_AgentModelProfile := '''', cd_AgentModelStrength := ''none'', cd_AgentReasoningEffort := ''''\<rparr>
            else d1
       else agent_profile_for d1 profiles)"
      by (simp only: withCanonicalAgentProfile_def Let_def d1_def if_False)
    show ?thesis
    proof (cases "cd_RequiresFullAgent d1")
      case True
      then show ?thesis using agent_profile_for_profiled [OF all, of d1] d1(1) False by (simp add: eq profiled_def)
    next
      case nofull: False
      have acts: "cd_Outcome d1 = OutcomeReact \<or> cd_DirectReply d1 \<noteq> ''''"
        using d1 ok nofull False by (auto simp: schema_outcome_def outcomeNeedsAgent_def)
      define d2 where "d2 = (if names_agent d1 then add_reason ''policy.non_agent_profile_cleared'' d1 else d1)"
      have d2: "cd_Outcome d2 = cd_Outcome d" "\<not> cd_RequiresFullAgent d2" "cd_DirectReply d2 = cd_DirectReply d1"
        using d1(1) nofull by (simp_all add: d2_def)
      have eq2: "withCanonicalAgentProfile d profiles =
          d2\<lparr>cd_AgentModelProfile := '''', cd_AgentModelStrength := ''none'', cd_AgentReasoningEffort := ''''\<rparr>"
        using nofull acts by (simp only: eq d2_def) simp
      show ?thesis
        using d1(2) nofull d2 False by (auto simp: eq2 profiled_def outcomeNeedsAgent_def)
    qed
  qed
qed


text \<open>Two decisions that agree on everything \<open>profiled\<close> reads.\<close>

definition same_action :: "ClassificationDecision \<Rightarrow> ClassificationDecision \<Rightarrow> bool" where
  "same_action d e \<longleftrightarrow> cd_Outcome d = cd_Outcome e \<and> cd_DirectReply d = cd_DirectReply e
     \<and> cd_RequiresFullAgent d = cd_RequiresFullAgent e \<and> cd_AgentModelProfile d = cd_AgentModelProfile e
     \<and> cd_AgentModelStrength d = cd_AgentModelStrength e \<and> cd_AgentReasoningEffort d = cd_AgentReasoningEffort e"

lemma same_action_matches: "same_action d e \<Longrightarrow> profile_matches d = profile_matches e"
  by (rule ext) (simp add: same_action_def profile_matches_def)

lemma same_action_profiled:
  assumes "same_action d e" "profiled profiles e" "cd_Outcome e = OutcomeSilent \<Longrightarrow> cd_Reaction d = ''''"
  shows "profiled profiles d"
  using assms same_action_matches [OF assms(1)] by (auto simp: profiled_def same_action_def)

lemma background_profiled:
  assumes "profiled profiles d"
  shows "profiled profiles (withBackgroundProfileFloor d t profiles)
    \<and> cd_Outcome (withBackgroundProfileFloor d t profiles) = cd_Outcome d
    \<and> cd_DirectReply (withBackgroundProfileFloor d t profiles) = cd_DirectReply d
    \<and> cd_RequiresFullAgent (withBackgroundProfileFloor d t profiles) = cd_RequiresFullAgent d
    \<and> cd_Reaction (withBackgroundProfileFloor d t profiles) = cd_Reaction d"
proof (cases "cd_Outcome d = OutcomeStartBackgroundJob")
  case False then show ?thesis using assms by (simp add: withBackgroundProfileFloor_def)
next
  case True
  define b where "b = withBackgroundProfileFloor d t profiles"
  consider (same) "b = d"
    | (floor) q where "b = add_reason ''policy.background_profile_floor'' (use_profile q d)" "q \<in> set profiles"
  proof -
    define want where "want = (if containsAny (ToLower (tg_Text t)) [''security'', ''token exposure'', ''credential exposure'', ''breach'',
      ''production systems''] then ''strong'' else ''standard'')"
    have "b = (if cd_AgentModelStrength d = want \<or> (want = ''standard'' \<and> cd_AgentModelStrength d = ''strong'') then d
       else case find (\<lambda>p. ap_Strength p = want) profiles of
         None \<Rightarrow> d | Some q \<Rightarrow> add_reason ''policy.background_profile_floor'' (use_profile q d))"
      using True unfolding b_def withBackgroundProfileFloor_def Let_def want_def by simp
    moreover have "q \<in> set profiles" if "find (\<lambda>p. ap_Strength p = want) profiles = Some q" for q
      using that by (auto simp: find_Some_iff)
    ultimately show ?thesis
      using that by (cases "find (\<lambda>p. ap_Strength p = want) profiles") (auto split: if_splits)
  qed
  then show ?thesis
  proof cases
    case same then show ?thesis using assms by (simp add: b_def [symmetric])
  next
    case floor
    have "list_ex (profile_matches (use_profile q d)) profiles"
      unfolding list_ex_iff using floor(2) use_profile_fields(5) by blast
    then show ?thesis using assms True floor(1) by (simp add: b_def [symmetric] profiled_def)
  qed
qed

lemma reaction_step:
  "same_action (withPolicyReactionAllowlist d r reactions) d" "same_action (withDefaultReaction d reactions) d"
  "same_action (withConsistentAuditReasonCodes d t) d"
  "cd_Reaction (withConsistentAuditReasonCodes d t) = cd_Reaction d"
  by (simp_all add: withPolicyReactionAllowlist_def withDefaultReaction_def withConsistentAuditReasonCodes_def Let_def same_action_def)

lemma same_action_trans: "same_action a b \<Longrightarrow> same_action b c \<Longrightarrow> same_action a c"
  by (simp add: same_action_def)

lemma allowed_reaction:
  assumes "cd_Outcome d \<noteq> OutcomeSilent" "reactions \<noteq> []"
    "cd_Reaction (withDefaultReaction (withPolicyReactionAllowlist d r reactions) reactions) \<notin> set reactions"
  shows "cd_Reaction (withDefaultReaction (withPolicyReactionAllowlist d r reactions) reactions) = r"
proof -
  define e where "e = withPolicyReactionAllowlist d r reactions"
  have e: "cd_Outcome e \<noteq> OutcomeSilent" "cd_Reaction e = '''' \<or> cd_Reaction e = r \<or> cd_Reaction e \<in> set reactions"
    using assms(1) by (auto simp: e_def withPolicyReactionAllowlist_def)
  have "cd_Reaction (withDefaultReaction e reactions) \<in> set reactions" if "cd_Reaction e = ''''"
    using that e(1) assms(2)
    by (auto simp: withDefaultReaction_def dest: find_Some_iff [THEN iffD1] split: option.splits)
  moreover have "withDefaultReaction e reactions = e" if "cd_Reaction e \<noteq> ''''"
    using that by (simp add: withDefaultReaction_def)
  ultimately show ?thesis using e(2) assms(3) unfolding e_def [symmetric] by metis
qed

lemma settle_profiled:
  assumes "all_strengths profiles" "schema_outcome (cd_Outcome d)" "reactions \<noteq> []"
  shows "profiled profiles (settle d r t profiles reactions) \<and> cd_Outcome (settle d r t profiles reactions) = cd_Outcome d
    \<and> (cd_Outcome d \<noteq> OutcomeSilent \<longrightarrow> cd_Reaction (settle d r t profiles reactions) \<in> insert r (set reactions))
    \<and> (cd_Outcome d = OutcomeStartBackgroundJob \<longrightarrow>
        cd_RequiresFullAgent (settle d r t profiles reactions) \<or> cd_DirectReply (settle d r t profiles reactions) \<noteq> '''')"
proof -
  define d2 where "d2 = withBackgroundProfileFloor (withCanonicalAgentProfile d profiles) t profiles"
  define d3 where "d3 = withPolicyReactionAllowlist d2 r reactions"
  define d4 where "d4 = withDefaultReaction d3 reactions"
  define d5 where "d5 = withConsistentAuditReasonCodes d4 t"
  have s: "settle d r t profiles reactions = d5"
    by (simp add: settle_def Let_def d2_def d3_def d4_def d5_def)
  have d2: "profiled profiles d2" "cd_Outcome d2 = cd_Outcome d"
    "cd_Outcome d = OutcomeStartBackgroundJob \<longrightarrow> cd_RequiresFullAgent d2 \<or> cd_DirectReply d2 \<noteq> ''''"
    using background_profiled [of profiles "withCanonicalAgentProfile d profiles" t] canonical_profiled [OF assms(1,2)]
    by (simp_all add: d2_def)
  have same: "same_action d5 d2"
    unfolding d3_def d4_def d5_def
    by (rule same_action_trans [OF reaction_step(3) same_action_trans [OF reaction_step(2) reaction_step(1)]])
  have react: "cd_Reaction d5 = cd_Reaction d4" by (simp add: d5_def reaction_step)
  have quiet: "cd_Reaction d4 = ''''" if "cd_Outcome d2 = OutcomeSilent"
    using that d2(1) by (simp add: d4_def d3_def withDefaultReaction_def withPolicyReactionAllowlist_def profiled_def)
  have "profiled profiles d5" using same_action_profiled [OF same d2(1)] quiet react by simp
  moreover have "cd_Outcome d \<noteq> OutcomeSilent \<longrightarrow> cd_Reaction d5 \<in> insert r (set reactions)"
    using allowed_reaction [of d2 reactions r] assms(3) d2(2) unfolding react d3_def d4_def by fastforce
  ultimately show ?thesis using same d2 unfolding s by (simp add: same_action_def)
qed

section \<open>Outcomes of the corrections\<close>

lemma schema_outcomes [simp]:
  "schema_outcome OutcomeSilent" "schema_outcome OutcomeReact" "schema_outcome OutcomeReplyInThread"
  "schema_outcome OutcomeReplyInChannel" "schema_outcome OutcomeStartBackgroundJob" "schema_outcome OutcomeEscalateForApproval"
  by (simp_all add: schema_outcome_def)

lemma outcome_of_profiles [simp]:
  "cd_Outcome (withLightestProfile d profiles) = cd_Outcome d" "cd_Outcome (withCanonicalAgentProfile d profiles) = cd_Outcome d"
  by (simp_all add: withLightestProfile_def withCanonicalAgentProfile_def agent_profile_for_def clear_silent_def Let_def
      split: list.splits option.splits)


lemma schema_intent_corrections:
  assumes "schema_outcome (cd_Outcome d)"
  shows "schema_outcome (cd_Outcome (withDirectMentionPolicyCorrections d t profiles))"
    "schema_outcome (cd_Outcome (withAddressedSocialPolicyCorrections d t))"
    "schema_outcome (cd_Outcome (withConversationalAddressPolicyCorrections d t p))"
    "schema_outcome (cd_Outcome (withConversationalReferencePolicyCorrections tt d t p profiles))"
    "schema_outcome (cd_Outcome (withClarificationFollowupPolicyCorrections tt d t p profiles))"
    "schema_outcome (cd_Outcome (withBriefMentionPolicyCorrections d t profiles))"
    "schema_outcome (cd_Outcome (withProductKnowledgePolicyCorrections tt d t profiles))"
  subgoal using assms by (simp add: withDirectMentionPolicyCorrections_def)
  subgoal using assms by (simp add: withAddressedSocialPolicyCorrections_def directSocialFallback_def split: prod.splits)
  subgoal using assms by (simp add: withConversationalAddressPolicyCorrections_def)
  subgoal using assms by (simp add: withConversationalReferencePolicyCorrections_def split: option.splits)
  subgoal using assms by (simp add: withClarificationFollowupPolicyCorrections_def Let_def split: option.splits)
  subgoal using assms by (simp add: withBriefMentionPolicyCorrections_def Let_def)
  subgoal using assms by (simp add: withProductKnowledgePolicyCorrections_def Let_def)
  done

lemma schema_work_corrections:
  assumes "schema_outcome (cd_Outcome d)"
  shows "schema_outcome (cd_Outcome (withSourceWritePolicyCorrections tt d t))"
    "schema_outcome (cd_Outcome (withImplementationPlanningPolicyCorrections d t profiles))"
    "schema_outcome (cd_Outcome (withReadOnlyCodeAnalysisPolicyCorrections tt d t profiles))"
    "schema_outcome (cd_Outcome (withHighIntelligenceProfileCorrections d t profiles))"
  subgoal using assms by (simp add: withSourceWritePolicyCorrections_def Let_def)
  subgoal using assms by (simp add: withImplementationPlanningPolicyCorrections_def)
  subgoal using assms by (simp add: withReadOnlyCodeAnalysisPolicyCorrections_def Let_def)
  subgoal using assms by (simp add: withHighIntelligenceProfileCorrections_def)
  done

lemma placement_schema: "requestedReplyPlacement x = Some (out, r) \<Longrightarrow> schema_outcome out"
  by (auto simp: requestedReplyPlacement_def Let_def split: if_splits)

lemma schema_synthesis:
  "schema_outcome (cd_Outcome d) \<Longrightarrow> schema_outcome (cd_Outcome (withOperationalSynthesisPolicyCorrections d t p profiles))"
  using placement_schema [of "tg_Text t"]
  by (auto simp: withOperationalSynthesisPolicyCorrections_def Let_def split: option.splits)

lemma schema_answer:
  assumes "schema_outcome (cd_Outcome d)" "answer_operational d t p profiles = Some e"
  shows "schema_outcome (cd_Outcome e)"
  using assms by (auto simp: answer_operational_def Let_def split: if_splits option.splits)

lemma schema_conflict: "schema_outcome (cd_Outcome d) \<Longrightarrow> schema_outcome (cd_Outcome (surface_conflict d s profiles))"
  by (cases "cd_Outcome d") (simp_all add: surface_conflict_def Let_def)

lemma schema_ambient:
  assumes "schema_outcome (cd_Outcome d)"
  shows "schema_outcome (cd_Outcome (withAmbientPolicyCorrections d t p profiles))"
  using assms schema_answer [OF assms, of t p profiles]
  by (auto simp: withAmbientPolicyCorrections_def silence_def intro: schema_conflict split: option.splits)

lemma schema_correct_content:
  "schema_outcome (cd_Outcome d) \<Longrightarrow> schema_outcome (cd_Outcome (correct_content tt d t p profiles))"
  unfolding correct_content_def Let_def
  by (intro schema_ambient schema_intent_corrections schema_synthesis schema_work_corrections)

section \<open>What can still be refused\<close>

lemma validate_profiled:
  assumes "profiled profiles d" "schema_outcome (cd_Outcome d)"
    "cd_Outcome d \<noteq> OutcomeSilent \<Longrightarrow> cd_Reaction d \<in> insert r (set reactions)"
    "cd_Outcome d = OutcomeStartBackgroundJob \<Longrightarrow> cd_RequiresFullAgent d \<or> cd_DirectReply d \<noteq> ''''"
    "validateRecommendation d profiles reactions = Inl e"
  shows "(e = ReactionNotAllowlisted \<and> r \<notin> set reactions)
    \<or> (e = DirectReplyOutcome \<and> cd_DirectReply d \<noteq> '''' \<and> cd_Outcome d \<notin> {OutcomeReplyInChannel, OutcomeReplyInThread})"
proof (cases "cd_Outcome d = OutcomeSilent")
  case True then show ?thesis using assms(1,5) by (simp add: profiled_def validateRecommendation_def)
next
  case acts: False
  show ?thesis
  proof (cases "cd_Reaction d \<in> set reactions")
    case False then show ?thesis using assms(3,5) acts by (auto simp: validateRecommendation_def)
  next
    case allowed: True
    show ?thesis
    proof (cases "cd_RequiresFullAgent d")
      case True
      then have "cd_DirectReply d = ''''" "list_ex (profile_matches d) profiles" using assms(1) acts by (simp_all add: profiled_def)
      then have "validateRecommendation d profiles reactions = Inr ()"
        using True acts allowed by (simp add: validateRecommendation_def)
      then show ?thesis using assms(5) by simp
    next
      case nofull: False
      then have free: "cd_Outcome d \<noteq> OutcomeStartBackgroundJob \<longrightarrow>
          cd_AgentModelProfile d = '''' \<and> cd_AgentModelStrength d = ''none'' \<and> cd_AgentReasoningEffort d = ''''"
        and reply: "outcomeNeedsAgent (cd_Outcome d) \<longrightarrow> cd_DirectReply d \<noteq> ''''"
        using assms(1) acts by (simp_all add: profiled_def)
      show ?thesis
      proof (cases "cd_DirectReply d = ''''")
        case True
        then have "\<not> outcomeNeedsAgent (cd_Outcome d)" using reply by blast
        moreover from this have "cd_Outcome d \<noteq> OutcomeStartBackgroundJob" by (auto simp: outcomeNeedsAgent_def)
        ultimately have "validateRecommendation d profiles reactions = Inr ()"
          using True nofull free acts allowed by (simp add: validateRecommendation_def)
        then show ?thesis using assms(5) by simp
      next
        case False
        show ?thesis
        proof (cases "cd_Outcome d \<in> {OutcomeReplyInChannel, OutcomeReplyInThread}")
          case True
          then have "validateRecommendation d profiles reactions = Inr ()"
            using False nofull free acts allowed by (auto simp: validateRecommendation_def)
          then show ?thesis using assms(5) by simp
        next
          case other: False
          then have "e = DirectReplyOutcome" using assms(5) False acts allowed by (simp add: validateRecommendation_def)
          then show ?thesis using False other by blast
        qed
      qed
    qed
  qed
qed

text \<open>The corrections repair the model's recommendation: with an enabled profile of each strength and a
  reaction allowlist, an answer of the provider whose outcome is in the schema can only be refused for
  a reaction of the provider's own that is not allowed, or for a direct reply under an outcome that
  cannot carry one.  The other five error codes of the final check (silence with an action, a missing
  agent, a missing profile, an agent without need of one, a direct reply with an agent) never occur.\<close>

theorem recommendation_refused_only:
  assumes "oc_provider c (classifier_input c (advertisedProfiles (oc_agentProfiles c)) t p) = Inr reply"
    and "schema_outcome (cd_Outcome (prv_Decision reply))"
    and "all_strengths (advertisedProfiles (oc_agentProfiles c))" and "oc_reactionEmojis c \<noteq> []"
    and "openai_Decide c t p = Inl e"
  shows "e = \<lparr>ce_Stage = ''recommendation'', ce_Code = ''reaction_not_allowlisted''\<rparr>
      \<and> cd_Reaction (prv_Decision reply) \<notin> set (oc_reactionEmojis c)
    \<or> e = \<lparr>ce_Stage = ''recommendation'', ce_Code = ''direct_reply_outcome''\<rparr>"
proof -
  define profiles where "profiles = advertisedProfiles (oc_agentProfiles c)"
  define d where "d = correct_content (oc_tables c) (prv_Decision reply) t p profiles"
  define q where "q = settle d (cd_Reaction (prv_Decision reply)) t profiles (oc_reactionEmojis c)"
  have some: "profiles \<noteq> []" using assms(3) by (auto simp: profiles_def all_strengths_def strengths_def)
  have schema: "schema_outcome (cd_Outcome d)" unfolding d_def by (rule schema_correct_content [OF assms(2)])
  note settled = settle_profiled [OF assms(3) [folded profiles_def] schema assms(4), where r = "cd_Reaction (prv_Decision reply)" and t = t,
      folded q_def]
  have "openai_Decide c t p = (case validateRecommendation q profiles (oc_reactionEmojis c) of
      Inl e \<Rightarrow> Inl \<lparr>ce_Stage = ''recommendation'', ce_Code = recommendationErrorCode e\<rparr>
    | Inr _ \<Rightarrow> Inr (q\<lparr>cd_ClassifierModel := oc_model c, cd_ClassifierReasoningEffort := oc_reasoningEffort c,
                     cd_ClassifierResponseID := prv_ID reply, cd_ClassifierInputTokens := prv_InputTokens reply,
                     cd_ClassifierOutputTokens := prv_OutputTokens reply\<rparr>))"
    using some unfolding openai_Decide_def profiles_def [symmetric] Let_def
    by (simp add: assms(1) [folded profiles_def] d_def q_def split: sum.splits)
  then obtain x where x: "validateRecommendation q profiles (oc_reactionEmojis c) = Inl x"
      "e = \<lparr>ce_Stage = ''recommendation'', ce_Code = recommendationErrorCode x\<rparr>"
    using assms(5) by (auto split: sum.splits)
  have "schema_outcome (cd_Outcome q)" using settled schema by simp
  from validate_profiled [OF _ this _ _ x(1), of "cd_Reaction (prv_Decision reply)"] settled x(2)
  show ?thesis by auto
qed


section \<open>Witnesses\<close>

definition sample_message :: "string \<Rightarrow> string \<Rightarrow> bool \<Rightarrow> SlackEnvelope" where
  "sample_message channel body mention =
     \<lparr>env_OrganizationID = ''org'', env_EnvelopeID = ''env-1'', env_EventID = ''event-1'', env_TeamID = ''team'', env_ChannelID = channel,
      env_ChannelKind = ''channel'', env_MessageTS = ''100.1'', env_ThreadTS = '''', env_UserID = ''U1'', env_BotID = '''',
      env_Kind = SlackEventMessage, env_Subtype = '''', env_Text = body, env_Images = [], env_TargetTS = '''', env_EventTime = 1000,
      env_ReceivedAt = 1000, env_IsMention = mention, env_OriginTag = '''', env_Restricted = False\<rparr>"

definition sample_target :: "ParticipationMode \<Rightarrow> SlackEnvelope \<Rightarrow> Target" where
  "sample_target mode e =
     \<lparr>tg_ObservationID = ''obs-1'', tg_Envelope = e, tg_Mode = mode, tg_ActiveThread = False, tg_AuthorizedTrigger = False,
      tg_KillSwitched = False, tg_WorkflowLoop = False, tg_Unsupported = False, tg_Deleted = False, tg_AmbientLinkOnly = False,
      tg_SelfAuthored = False\<rparr>"

definition sample_source :: "string \<Rightarrow> string \<Rightarrow> string \<Rightarrow> ContextSource" where
  "sample_source i channel body =
     \<lparr>src_ID = i, src_Version = 1, src_ChannelID = channel, src_ChannelName = channel, src_AuthorID = ''U2'',
      src_Partition = PartitionEvidence, src_Provenance = ''human_message'', src_TokenCount = 5,
      src_DisclosureClass = DisclosureDestinationSafe, src_Text = body, src_ObservedAt = 900\<rparr>"

definition sample_context :: "ContextSource list \<Rightarrow> ContextPackRevision" where
  "sample_context sources =
     \<lparr>pack_ID = ''pack'', pack_OrganizationID = ''org'', pack_TargetObservationID = ''obs-1'', pack_OrganizationWatermark = 1,
      pack_PolicyRevision = ''p1'', pack_MembershipRevision = ''m1'', pack_TokenizerRevision = ''t1'', pack_Sources = sources,
      pack_PartitionTokens = (\<lambda>_. 0), pack_TotalTokens = 5, pack_ContentHash = ''h'', pack_CreatedAt = 1000, pack_ExpiresAt = 2000\<rparr>"

definition sample_service :: "(Target \<Rightarrow> ContextPackRevision \<Rightarrow> ClassifierError + ClassificationDecision) \<Rightarrow> ClassifierService" where
  "sample_service f = \<lparr>sv_classifier = f, sv_shadow = False, sv_assistThreshold = 9 / 10, sv_channelReplyThreshold = 95 / 100\<rparr>"

definition sample_classifier :: "(ClassifierInput \<Rightarrow> ClassifierError + ProviderReply) \<Rightarrow> OpenAIClassifier" where
  "sample_classifier provider =
     (let p = (\<lambda>i v. \<lparr>prof_ID = i, prof_ProviderID = ''openai'', prof_ModelID = i, prof_Variant = v, prof_ProviderOptions = [],
                     prof_RequiredCapabilities = [], prof_AllowedDataClasses = [], prof_FallbackProfileIDs = [],
                     prof_MaxInputTokens = 1000, prof_MaxOutputTokens = 100, prof_Enabled = True\<rparr>)
      in \<lparr>oc_tables = \<lparr>tt_alnum = (\<lambda>_. False), tt_print = (\<lambda>_. True)\<rparr>, oc_model = ''mini'', oc_reasoningEffort = ''low'',
          oc_reactionEmojis = [''eyes'', ''speech_balloon''],
          oc_agentProfiles = \<lparr>sn_PolicyRevision = ''r1'', sn_DeploymentDefault = ''small'',
            sn_Profiles = [p ''small'' ''low'', p ''middle'' ''medium'', p ''large'' ''high''], sn_Rules = []\<rparr>,
          oc_provider = provider\<rparr>)"

definition sample_reply :: "ClassificationOutcome \<Rightarrow> string \<Rightarrow> ProviderReply" where
  "sample_reply out reaction = \<lparr>prv_Decision = zero_ClassificationDecision
     \<lparr>cd_Outcome := out, cd_Confidence := 97 / 100, cd_ReasonCodes := [''model.reason''], cd_DisclosureClass := DisclosureDestinationSafe,
      cd_Reaction := reaction\<rparr>, prv_ID = ''resp'', prv_InputTokens = 10, prv_OutputTokens = 5\<rparr>"


definition sample_mention :: Target where
  "sample_mention = sample_target ModeMention (sample_message ''C1'' ''what changed in the build?'' True)"

definition failing_service :: ClassifierService where
  "failing_service = sample_service (\<lambda>_ _. Inl \<lparr>ce_Stage = ''request'', ce_Code = ''timeout''\<rparr>)"

lemma decide_acts_only_where_admitted_witness:
  "hardSuppression sample_mention = '''' \<and> tg_Mode sample_mention = ModeMention
   \<and> cd_Outcome (clr_Effective (classifier_Decide failing_service sample_mention (sample_context []))) = OutcomeReplyInChannel"
proof -
  have out: "cd_Outcome (clr_Effective (classifier_Decide failing_service sample_mention (sample_context []))) = OutcomeReplyInChannel"
    by code_simp
  then have "cd_Outcome (clr_Effective (classifier_Decide failing_service sample_mention (sample_context []))) \<noteq> OutcomeSilent"
    by simp
  from decide_acts_only_where_admitted [OF this] out show ?thesis
    by (simp add: sample_mention_def sample_target_def)
qed

lemma no_call_no_provider_witness:
  "classifier_Decide (failing_service\<lparr>sv_classifier := openai_Decide (sample_classifier (\<lambda>_. Inr (sample_reply OutcomeSilent '''')))\<rparr>) (sample_mention\<lparr>tg_Mode := ModeObserve\<rparr>)
     (sample_context []) = classifier_Decide failing_service (sample_mention\<lparr>tg_Mode := ModeObserve\<rparr>) (sample_context [])"
proof -
  have "\<not> RequiresProviderCall failing_service (sample_mention\<lparr>tg_Mode := ModeObserve\<rparr>)" by code_simp
  from no_call_no_provider [OF this] show ?thesis by blast
qed

section \<open>A source write that is not silenced\<close>

definition sample_conflict :: Target where
  "sample_conflict = sample_target ModeAssist (sample_message ''C1'' ''api is down, edit the code'' False)"

definition conflict_context :: ContextPackRevision where
  "conflict_context = sample_context [sample_source ''s1'' ''C2'' ''api healthy'']"

definition answering :: "ProviderReply \<Rightarrow> OpenAIClassifier" where
  "answering r = sample_classifier (\<lambda>_. Inr r)"

abbreviation quiet_reply :: ProviderReply where "quiet_reply \<equiv> sample_reply OutcomeSilent ''''"

definition sample_advertised :: "AgentProfile list" where
  "sample_advertised = [\<lparr>ap_ID = ''small'', ap_Provider = ''openai'', ap_Model = ''small'', ap_Strength = ''light'', ap_ReasoningEffort = ''low''\<rparr>,
     \<lparr>ap_ID = ''middle'', ap_Provider = ''openai'', ap_Model = ''middle'', ap_Strength = ''standard'', ap_ReasoningEffort = ''medium''\<rparr>,
     \<lparr>ap_ID = ''large'', ap_Provider = ''openai'', ap_Model = ''large'', ap_Strength = ''strong'', ap_ReasoningEffort = ''high''\<rparr>]"

lemma advertised: "advertisedProfiles (oc_agentProfiles (answering r)) = sample_advertised"
proof -
  have "advertisedProfiles (oc_agentProfiles (sample_classifier (\<lambda>_. Inr quiet_reply))) = sample_advertised" by code_simp
  then show ?thesis by (simp add: answering_def sample_classifier_def Let_def)
qed

lemma sample_tables: "oc_tables (answering r) = \<lparr>tt_alnum = (\<lambda>_. False), tt_print = (\<lambda>_. True)\<rparr>"
  "oc_reactionEmojis (answering r) = [''eyes'', ''speech_balloon'']" "oc_provider (answering r) i = Inr r"
  by (simp_all add: answering_def sample_classifier_def Let_def)

lemma answered: "oc_model (answering r) = ''mini''" "oc_reasoningEffort (answering r) = ''low''"
  "prv_ID (sample_reply out k) = ''resp''" "prv_InputTokens (sample_reply out k) = 10" "prv_OutputTokens (sample_reply out k) = 5"
  by (simp_all add: answering_def sample_classifier_def sample_reply_def Let_def)

lemma correct_ambient:
  assumes "\<not> env_IsMention (tg_Envelope t)" "\<not> tg_ActiveThread t" "\<not> explicitlyAddressesTag (tg_Text t)"
    "\<not> likelyConversationallyAddressedToAgent t p"
  shows "correct_content tt d t p profiles =
    (let d1 = withProductKnowledgePolicyCorrections tt d t profiles; d2 = withSourceWritePolicyCorrections tt d1 t;
         d3 = withReadOnlyCodeAnalysisPolicyCorrections tt d2 t profiles
     in withAmbientPolicyCorrections (withHighIntelligenceProfileCorrections d3 t profiles) t p profiles)"
  using assms
  by (simp add: correct_content_def Let_def withDirectMentionPolicyCorrections_def withAddressedSocialPolicyCorrections_def
      withConversationalAddressPolicyCorrections_def withConversationalReferencePolicyCorrections_def
      withClarificationFollowupPolicyCorrections_def withImplementationPlanningPolicyCorrections_def
      withOperationalSynthesisPolicyCorrections_def withBriefMentionPolicyCorrections_def)

definition conflict_decision :: ClassificationDecision where
  "conflict_decision = zero_ClassificationDecision
     \<lparr>cd_Outcome := OutcomeReplyInChannel, cd_Confidence := 99 / 100,
      cd_ReasonCodes := [''model.reason'', ''policy.source_write_silent'', ''policy.alignment_reaction'', ''policy.alignment_requires_message''],
      cd_ReleasableEvidenceIDs := [''s1''],
      cd_ResponseIntent := ''briefly surface and reconcile the conflicting public report from <@U2> in <#C2> without assigning blame or treating the report as verified fact'',
      cd_SourceWriteRequested := True, cd_DisclosureClass := DisclosureDestinationSafe, cd_RequiresFullAgent := True,
      cd_Reaction := ''speech_balloon'', cd_AgentModelProfile := ''small'', cd_AgentModelStrength := ''light'',
      cd_AgentReasoningEffort := ''low'', cd_ClassifierModel := ''mini'', cd_ClassifierReasoningEffort := ''low'',
      cd_ClassifierResponseID := ''resp'', cd_ClassifierInputTokens := 10, cd_ClassifierOutputTokens := 5\<rparr>"

lemma conflict_answer:
  "openai_Decide (answering quiet_reply) sample_conflict conflict_context = Inr conflict_decision"
proof -
  define tt where "tt = \<lparr>tt_alnum = (\<lambda>_::string. False), tt_print = (\<lambda>_::string. True)\<rparr>"
  define d0 where "d0 = prv_Decision quiet_reply"
  define d1 where "d1 = withSourceWritePolicyCorrections tt d0 sample_conflict"
  have ambient: "\<not> env_IsMention (tg_Envelope sample_conflict)" "\<not> tg_ActiveThread sample_conflict"
    "\<not> explicitlyAddressesTag (tg_Text sample_conflict)" "\<not> likelyConversationallyAddressedToAgent sample_conflict conflict_context"
    by code_simp+
  have product: "withProductKnowledgePolicyCorrections tt d0 sample_conflict sample_advertised = d0"
    unfolding tt_def d0_def by code_simp
  have d1: "d1 = silence d0 ''policy.source_write_silent''\<lparr>cd_ResponseIntent := ''silently suppress the source-write request'',
      cd_SourceWriteRequested := True\<rparr>"
    unfolding d1_def tt_def d0_def by code_simp
  have read: "withReadOnlyCodeAnalysisPolicyCorrections tt d1 sample_conflict sample_advertised = d1"
    unfolding tt_def by (simp add: withReadOnlyCodeAnalysisPolicyCorrections_def) code_simp
  have high: "withHighIntelligenceProfileCorrections d1 sample_conflict sample_advertised = d1"
    by (simp add: d1 withHighIntelligenceProfileCorrections_def silence_def zero_ClassificationDecision_def)
  have amb: "withAmbientPolicyCorrections d1 sample_conflict conflict_context sample_advertised
      = surface_conflict d1 (sample_source ''s1'' ''C2'' ''api healthy'') sample_advertised"
    unfolding d1 d0_def by code_simp
  have quiet: "cd_Reaction d0 = ''''" "sample_advertised \<noteq> []"
    by (simp_all add: d0_def sample_reply_def zero_ClassificationDecision_def sample_advertised_def)
  have "openai_Decide (answering quiet_reply) sample_conflict conflict_context =
    (let d = settle (surface_conflict d1 (sample_source ''s1'' ''C2'' ''api healthy'') sample_advertised) '''' sample_conflict sample_advertised
             [''eyes'', ''speech_balloon'']
     in case validateRecommendation d sample_advertised [''eyes'', ''speech_balloon''] of
          Inl e \<Rightarrow> Inl \<lparr>ce_Stage = ''recommendation'', ce_Code = recommendationErrorCode e\<rparr>
        | Inr _ \<Rightarrow> Inr (d\<lparr>cd_ClassifierModel := ''mini'', cd_ClassifierReasoningEffort := ''low'', cd_ClassifierResponseID := ''resp'',
                        cd_ClassifierInputTokens := 10, cd_ClassifierOutputTokens := 5\<rparr>))"
    using product d1_def read high amb
    by (simp add: openai_Decide_def advertised sample_tables answered quiet correct_ambient [OF ambient] tt_def [symmetric]
        d0_def [symmetric] Let_def split: sum.splits)
  also have "\<dots> = Inr conflict_decision" unfolding d1 d0_def by code_simp
  finally show ?thesis .
qed

lemma sample_thresholds:
  "sv_assistThreshold (sample_service f) = 9 / 10" "sv_channelReplyThreshold (sample_service f) = 95 / 100"
  "sv_shadow (sample_service f) = False"
  by (simp_all add: sample_service_def)

lemma decide_answer:
  assumes "tg_Mode t \<noteq> ModeObserve"
  shows "classifier_Decide (sample_service f) t p = classifier_Decide (sample_service (\<lambda>_ _. f t p)) t p"
proof -
  have "prepared (sample_service f) t p = prepared (sample_service (\<lambda>_ _. f t p)) t p"
    by (simp add: prepared_def sample_service_def)
  note prepared_same = this
  have "predict (sample_service f) t p = predict (sample_service (\<lambda>_ _. f t p)) t p"
    unfolding predict_def predict_thread_def predict_addressed_def predict_ambient_def addressed_fallback_def fallback_reason_def
      threshold_placement_def sample_thresholds prepared_same ..
  then show ?thesis using assms by (simp add: classifier_Decide_def sample_thresholds Let_def)
qed

lemma conflict_effective:
  "clr_Effective (classifier_Decide (sample_service (openai_Decide (answering quiet_reply))) sample_conflict conflict_context)
     = conflict_decision"
proof -
  have mode: "tg_Mode sample_conflict \<noteq> ModeObserve" by (simp add: sample_conflict_def sample_target_def)
  let ?s = "sample_service (\<lambda>_ _. Inr conflict_decision)"
  have pre: "prepared ?s sample_conflict conflict_context = Inr conflict_decision" by code_simp
  have ok: "validateDecision conflict_decision conflict_context = None" by code_simp
  have place: "threshold_placement ?s conflict_decision = conflict_decision" by code_simp
  have fields: "cd_DirectReply conflict_decision = ''''" "cd_Outcome conflict_decision = OutcomeReplyInChannel"
    "cd_ReleasableEvidenceIDs conflict_decision \<noteq> []"
    by (simp_all add: conflict_decision_def zero_ClassificationDecision_def)
  have t: "\<not> tg_ActiveThread sample_conflict" "\<not> env_IsMention (tg_Envelope sample_conflict)" "\<not> isDirectMessageTarget sample_conflict"
    "tg_Mode sample_conflict = ModeAssist" "hardSuppression sample_conflict = ''''"
    by code_simp+
  have "predict ?s sample_conflict conflict_context = conflict_decision"
    by (simp add: predict_def t predict_ambient_def pre ok place fields Let_def)
  moreover have "alignmentConflict sample_conflict conflict_context \<noteq> None" by code_simp
  then have "assistInitiativeAuthorized sample_conflict conflict_context conflict_decision"
    using t by (auto simp: assistInitiativeAuthorized_def Let_def thirdPartyAddressedTurn_def)
  ultimately have "clr_Effective (classifier_Decide ?s sample_conflict conflict_context) = conflict_decision"
    by (simp add: classifier_Decide_def t EnforceParticipation_def Let_def fields sample_thresholds)
  then show ?thesis by (subst decide_answer [OF mode]) (simp only: conflict_answer)
qed

text \<open>A request to change source code is meant to be suppressed silently, before any worker is
  admitted, but the correction for conflicting reports comes after that one and speaks up: with a
  healthy report of another channel at hand, a message that reports an outage and asks for a change
  of the code is answered by a full agent although it is marked as a source write.\<close>

theorem source_write_not_silenced:
  "isObviousSourceWriteRequest (\<lambda>_. False) (tg_Text sample_conflict)
   \<and> cd_SourceWriteRequested (clr_Effective (classifier_Decide (sample_service (openai_Decide (answering quiet_reply))) sample_conflict
        conflict_context))
   \<and> cd_RequiresFullAgent (clr_Effective (classifier_Decide (sample_service (openai_Decide (answering quiet_reply))) sample_conflict
        conflict_context))
   \<and> cd_Outcome (clr_Effective (classifier_Decide (sample_service (openai_Decide (answering quiet_reply))) sample_conflict
        conflict_context)) = OutcomeReplyInChannel"
  unfolding conflict_effective by (intro conjI) (code_simp, simp_all add: conflict_decision_def)

lemma decide_releases_only_safe_evidence_witness:
  "cd_ReleasableEvidenceIDs (clr_Effective (classifier_Decide (sample_service (openai_Decide (answering quiet_reply))) sample_conflict
      conflict_context)) = [''s1'']
   \<and> (\<exists>c \<in> set (pack_Sources conflict_context). src_ID c = ''s1'' \<and> src_DisclosureClass c = DisclosureDestinationSafe)"
proof -
  have ids: "cd_ReleasableEvidenceIDs (clr_Effective (classifier_Decide (sample_service (openai_Decide (answering quiet_reply)))
      sample_conflict conflict_context)) = [''s1'']"
    by (simp add: conflict_effective conflict_decision_def)
  then have "''s1'' \<in> set (cd_ReleasableEvidenceIDs (clr_Effective (classifier_Decide
      (sample_service (openai_Decide (answering quiet_reply))) sample_conflict conflict_context)))" by simp
  with decide_releases_only_safe_evidence [of "sample_service (openai_Decide (answering quiet_reply))" sample_conflict conflict_context] ids
  show ?thesis by blast
qed

section \<open>A recommendation that is refused\<close>

definition sample_chatter :: Target where
  "sample_chatter = sample_target ModeAssist (sample_message ''C1'' ''lunch was great'' False)"

abbreviation tada_reply :: ProviderReply where "tada_reply \<equiv> sample_reply OutcomeReact ''tada''"

lemma recommendation_refused_only_witness:
  "openai_Decide (answering tada_reply) sample_chatter (sample_context [])
     = Inl \<lparr>ce_Stage = ''recommendation'', ce_Code = ''reaction_not_allowlisted''\<rparr>
   \<and> cd_Reaction (prv_Decision tada_reply) \<notin> set (oc_reactionEmojis (answering tada_reply))"
proof -
  define tt where "tt = \<lparr>tt_alnum = (\<lambda>_::string. False), tt_print = (\<lambda>_::string. True)\<rparr>"
  define d0 where "d0 = prv_Decision tada_reply"
  have ambient: "\<not> env_IsMention (tg_Envelope sample_chatter)" "\<not> tg_ActiveThread sample_chatter"
    "\<not> explicitlyAddressesTag (tg_Text sample_chatter)" "\<not> likelyConversationallyAddressedToAgent sample_chatter (sample_context [])"
    by code_simp+
  have same: "withProductKnowledgePolicyCorrections tt d0 sample_chatter sample_advertised = d0"
    "withSourceWritePolicyCorrections tt d0 sample_chatter = d0"
    "withReadOnlyCodeAnalysisPolicyCorrections tt d0 sample_chatter sample_advertised = d0"
    "withHighIntelligenceProfileCorrections d0 sample_chatter sample_advertised = d0"
    "withAmbientPolicyCorrections d0 sample_chatter (sample_context []) sample_advertised = d0"
    unfolding tt_def d0_def by code_simp+
  have step: "openai_Decide (answering tada_reply) sample_chatter (sample_context []) =
    (let d = settle d0 ''tada'' sample_chatter sample_advertised [''eyes'', ''speech_balloon'']
     in case validateRecommendation d sample_advertised [''eyes'', ''speech_balloon''] of
          Inl e \<Rightarrow> Inl \<lparr>ce_Stage = ''recommendation'', ce_Code = recommendationErrorCode e\<rparr>
        | Inr _ \<Rightarrow> Inr (d\<lparr>cd_ClassifierModel := ''mini'', cd_ClassifierReasoningEffort := ''low'', cd_ClassifierResponseID := ''resp'',
                        cd_ClassifierInputTokens := 10, cd_ClassifierOutputTokens := 5\<rparr>))"
  proof -
    have "cd_Reaction d0 = ''tada''" "sample_advertised \<noteq> []"
      by (simp_all add: d0_def sample_reply_def zero_ClassificationDecision_def sample_advertised_def)
    then show ?thesis
      by (simp add: openai_Decide_def advertised sample_tables answered correct_ambient [OF ambient] tt_def [symmetric]
          d0_def [symmetric] same Let_def split: sum.splits)
  qed
  have e: "openai_Decide (answering tada_reply) sample_chatter (sample_context [])
      = Inl \<lparr>ce_Stage = ''recommendation'', ce_Code = ''reaction_not_allowlisted''\<rparr>"
    unfolding step d0_def by code_simp
  have strength: "all_strengths (advertisedProfiles (oc_agentProfiles (answering tada_reply)))"
    unfolding advertised by code_simp
  have out: "schema_outcome (cd_Outcome (prv_Decision tada_reply))" by code_simp
  from recommendation_refused_only [OF sample_tables(3) out strength _ e] e show ?thesis
    by (simp add: sample_tables(2) sample_reply_def)
qed

end
