(* ===== verification/ChannelConfig.thy ===== *)
theory ChannelConfig
  imports Coordinator OrgConfig GoText
begin

text \<open>
  The revisioned channel directives and reviewed notes of \<^verbatim>\<open>core/channelconfig\<close> (\<^verbatim>\<open>store.go\<close>) and the
  directive editor behind the Slack modal (\<^verbatim>\<open>editor.go\<close>).  A channel's revisions are a list in
  the order of their numbers; an index into it is a position of that list.
\<close>

section \<open>Revisions\<close>

datatype channelconfig_error =
    ErrDirectiveScope
  | ErrDirectiveTooLong
  | ErrDirectiveSource
  | ErrDirectiveNotFound
  | ErrNoActiveDirective
  | ErrNoteScope
  | ErrDuplicateNoteSource
  | ErrReviewerRequired
  | ErrNoteNotPending
  | ErrIndependentReviewer
  | ErrNoteNotFound

record DirectiveRevision =
  dir_ID :: string
  dir_OrganizationID :: string
  dir_ChannelID :: string
  dir_Revision :: int
  dir_Prompt :: string
  dir_CreatedBy :: string
  dir_CreatedAt :: time
  dir_SourceID :: string
  dir_Active :: bool

datatype NoteState = NotePending | NoteActive | NoteRejected

record NoteRevision =
  note_ID :: string
  note_OrganizationID :: string
  note_ChannelID :: string
  note_Revision :: int
  note_Text :: string
  note_SourceIDs :: "string list"
  note_State :: NoteState
  note_CreatedBy :: string
  note_ReviewedBy :: string
  note_CreatedAt :: time

record ConfigStore =
  cc_directives :: "string \<rightharpoonup> DirectiveRevision list"
  cc_notes :: "string \<rightharpoonup> NoteRevision list"

definition NewConfigStore :: ConfigStore where
  "NewConfigStore = \<lparr>cc_directives = Map.empty, cc_notes = Map.empty\<rparr>"

definition config_key :: "string \<Rightarrow> string \<Rightarrow> string" where
  "config_key org channel = org @ ''/'' @ channel"

definition directives_of :: "ConfigStore \<Rightarrow> string \<Rightarrow> DirectiveRevision list" where
  "directives_of s k = lookup_zero [] (cc_directives s) k"

definition notes_of :: "ConfigStore \<Rightarrow> string \<Rightarrow> NoteRevision list" where
  "notes_of s k = lookup_zero [] (cc_notes s) k"

definition put_directives :: "string \<Rightarrow> DirectiveRevision list \<Rightarrow> ConfigStore \<Rightarrow> ConfigStore" where
  "put_directives k rs s = s\<lparr>cc_directives := (cc_directives s)(k \<mapsto> rs)\<rparr>"

definition put_notes :: "string \<Rightarrow> NoteRevision list \<Rightarrow> ConfigStore \<Rightarrow> ConfigStore" where
  "put_notes k rs s = s\<lparr>cc_notes := (cc_notes s)(k \<mapsto> rs)\<rparr>"

section \<open>Directives\<close>

definition validateDirective :: "string \<Rightarrow> string \<Rightarrow> string \<Rightarrow> string \<Rightarrow> channelconfig_error + string" where
  "validateDirective org channel prompt actor =
     (let p = TrimSpace prompt
      in if org = '''' \<or> channel = '''' \<or> p = '''' \<or> actor = '''' then Inl ErrDirectiveScope
         else if 3000 < length (runes p) then Inl ErrDirectiveTooLong
         else Inr p)"

definition new_directive ::
  "string \<Rightarrow> string \<Rightarrow> string \<Rightarrow> string \<Rightarrow> string \<Rightarrow> bool \<Rightarrow> DirectiveRevision list \<Rightarrow> string \<Rightarrow> time \<Rightarrow> DirectiveRevision" where
  "new_directive org channel prompt actor source active rs i now =
     \<lparr>dir_ID = i, dir_OrganizationID = org, dir_ChannelID = channel, dir_Revision = int (length rs) + 1, dir_Prompt = prompt,
      dir_CreatedBy = actor, dir_CreatedAt = now, dir_SourceID = source, dir_Active = active\<rparr>"

definition DraftDirective ::
  "string \<Rightarrow> string \<Rightarrow> string \<Rightarrow> string \<Rightarrow> string \<Rightarrow> time \<Rightarrow> ConfigStore \<Rightarrow> (channelconfig_error, DirectiveRevision, ConfigStore) outcome" where
  "DraftDirective org channel prompt actor i now s =
     (case validateDirective org channel prompt actor of
        Inl e \<Rightarrow> (Inl e, s)
      | Inr p \<Rightarrow>
          let k = config_key org channel; r = new_directive org channel p actor '''' False (directives_of s k) i now
          in (Inr r, put_directives k (directives_of s k @ [r]) s))"

text \<open>The position of the first element with a property.\<close>

fun position :: "('a \<Rightarrow> bool) \<Rightarrow> 'a list \<Rightarrow> nat option" where
  "position P [] = None"
| "position P (x # xs) = (if P x then Some 0 else map_option Suc (position P xs))"

definition activate_only :: "nat \<Rightarrow> DirectiveRevision list \<Rightarrow> DirectiveRevision list" where
  "activate_only n rs = map (\<lambda>(i, r). r\<lparr>dir_Active := (i = n)\<rparr>) (enumerate 0 rs)"

definition PublishDirective ::
  "string \<Rightarrow> string \<Rightarrow> string \<Rightarrow> string \<Rightarrow> string \<Rightarrow> string \<Rightarrow> time \<Rightarrow> ConfigStore
     \<Rightarrow> (channelconfig_error, DirectiveRevision, ConfigStore) outcome" where
  "PublishDirective org channel prompt actor source i now s =
     (case validateDirective org channel prompt actor of
        Inl e \<Rightarrow> (Inl e, s)
      | Inr p \<Rightarrow>
          if TrimSpace source = '''' then (Inl ErrDirectiveSource, s)
          else
            let k = config_key org channel; rs = directives_of s k
            in case position (\<lambda>r. dir_SourceID r = source) rs of
                 Some n \<Rightarrow> (Inr (activate_only n rs ! n), put_directives k (activate_only n rs) s)
               | None \<Rightarrow>
                   let r = new_directive org channel p actor source True rs i now
                   in (Inr r, put_directives k (map (\<lambda>r. r\<lparr>dir_Active := False\<rparr>) rs @ [r]) s))"

definition ActivateDirective ::
  "string \<Rightarrow> string \<Rightarrow> string \<Rightarrow> ConfigStore \<Rightarrow> (channelconfig_error, DirectiveRevision, ConfigStore) outcome" where
  "ActivateDirective org channel i s =
     (let k = config_key org channel; rs = directives_of s k
      in case position (\<lambda>r. dir_ID r = i) rs of
           None \<Rightarrow> (Inl ErrDirectiveNotFound, s)
         | Some n \<Rightarrow> (Inr (activate_only n rs ! n), put_directives k (activate_only n rs) s))"

definition ActiveDirective :: "string \<Rightarrow> string \<Rightarrow> ConfigStore \<Rightarrow> channelconfig_error + DirectiveRevision" where
  "ActiveDirective org channel s =
     (case find dir_Active (directives_of s (config_key org channel)) of None \<Rightarrow> Inl ErrNoActiveDirective | Some r \<Rightarrow> Inr r)"

definition ListDirectives :: "string list \<Rightarrow> string \<Rightarrow> string \<Rightarrow> ConfigStore \<Rightarrow> DirectiveRevision list" where
  "ListDirectives ord org channel s =
     (if channel = ''''
      then sort_key (\<lambda>r. (dir_ChannelID r, dir_Revision r)) (concat (map (directives_of s) (filter (\<lambda>k. HasPrefix k (org @ ''/'')) ord)))
      else directives_of s (config_key org channel))"

section \<open>Notes\<close>

definition ListNotes :: "string list \<Rightarrow> string \<Rightarrow> string \<Rightarrow> ConfigStore \<Rightarrow> NoteRevision list" where
  "ListNotes ord org channel s =
     (if channel = ''''
      then sort_key (\<lambda>r. (note_ChannelID r, note_Revision r)) (concat (map (notes_of s) (filter (\<lambda>k. HasPrefix k (org @ ''/'')) ord)))
      else notes_of s (config_key org channel))"

definition ActiveNotes :: "string \<Rightarrow> string \<Rightarrow> ConfigStore \<Rightarrow> NoteRevision list" where
  "ActiveNotes org channel s = filter (\<lambda>n. note_State n = NoteActive) (notes_of s (config_key org channel))"

definition ProposeNote ::
  "string \<Rightarrow> string \<Rightarrow> string \<Rightarrow> string list \<Rightarrow> string \<Rightarrow> string \<Rightarrow> time \<Rightarrow> ConfigStore
     \<Rightarrow> (channelconfig_error, NoteRevision, ConfigStore) outcome" where
  "ProposeNote org channel body sources actor i now s =
     (if org = '''' \<or> channel = '''' \<or> TrimSpace body = '''' \<or> sources = [] \<or> actor = '''' then (Inl ErrNoteScope, s)
      else if \<not> distinct sources then (Inl ErrDuplicateNoteSource, s)
      else
        let k = config_key org channel;
            n = \<lparr>note_ID = i, note_OrganizationID = org, note_ChannelID = channel, note_Revision = int (length (notes_of s k)) + 1,
                 note_Text = body, note_SourceIDs = sort sources, note_State = NotePending, note_CreatedBy = actor,
                 note_ReviewedBy = '''', note_CreatedAt = now\<rparr>
        in (Inr n, put_notes k (notes_of s k @ [n]) s))"

definition ReviewNote ::
  "string \<Rightarrow> string \<Rightarrow> string \<Rightarrow> string \<Rightarrow> bool \<Rightarrow> ConfigStore \<Rightarrow> (channelconfig_error, NoteRevision, ConfigStore) outcome" where
  "ReviewNote org channel i reviewer approve s =
     (if reviewer = '''' then (Inl ErrReviewerRequired, s)
      else
        let k = config_key org channel; ns = notes_of s k
        in case position (\<lambda>n. note_ID n = i) ns of
             None \<Rightarrow> (Inl ErrNoteNotFound, s)
           | Some j \<Rightarrow>
               let n = ns ! j; n' = n\<lparr>note_ReviewedBy := reviewer, note_State := (if approve then NoteActive else NoteRejected)\<rparr>
               in if note_State n \<noteq> NotePending then (Inl ErrNoteNotPending, s)
                  else if note_CreatedBy n = reviewer then (Inl ErrIndependentReviewer, s)
                  else (Inr n', put_notes k (ns[j := n']) s))"

fun note_state_text :: "NoteState \<Rightarrow> string" where
  "note_state_text NotePending = ''pending_review''"
| "note_state_text NoteActive = ''active''"
| "note_state_text NoteRejected = ''rejected''"

definition DelimitedNoteData :: "(string \<Rightarrow> bool) \<Rightarrow> NoteRevision \<Rightarrow> string" where
  "DelimitedNoteData printable n =
     ''<channel-note id='' @ Quote printable (note_ID n) @ '' state='' @ Quote printable (note_state_text (note_State n))
     @ ''>'' @ [CHR 0x0A] @ note_Text n @ [CHR 0x0A] @ ''</channel-note>''"

section \<open>The editor (editor.go)\<close>

datatype editor_error = ErrDirectiveForbidden | ErrDirectiveInvalid | ErrDirectiveReceipt

record EditRequest =
  ed_OrganizationID :: string
  ed_WorkspaceID :: string
  ed_ChannelID :: string
  ed_ActorID :: string
  ed_Prompt :: string
  ed_SourceID :: string

record EditResult =
  er_Prompt :: string
  er_Revision :: int
  er_ID :: string

definition editor_authorize :: "OrgStore \<Rightarrow> EditRequest \<Rightarrow> bool" where
  "editor_authorize scopes r \<longleftrightarrow>
     \<not> (ed_OrganizationID r = '''' \<or> ed_WorkspaceID r = '''' \<or> ed_ChannelID r = '''' \<or> ed_ActorID r = '''')
     \<and> (case orgconfig_Resolve (ed_OrganizationID r) (ed_WorkspaceID r) (ed_ChannelID r) scopes of
          Inl _ \<Rightarrow> False
        | Inr p \<Rightarrow> cp_Enrolled p \<and> \<not> cp_KillSwitch p)"

definition editor_Load :: "OrgStore \<Rightarrow> EditRequest \<Rightarrow> ConfigStore \<Rightarrow> editor_error + EditResult" where
  "editor_Load scopes r s =
     (if \<not> editor_authorize scopes r then Inl ErrDirectiveForbidden
      else case ActiveDirective (ed_OrganizationID r) (ed_ChannelID r) s of
        Inl _ \<Rightarrow> Inr \<lparr>er_Prompt = '''', er_Revision = 0, er_ID = ''''\<rparr>
      | Inr d \<Rightarrow> Inr \<lparr>er_Prompt = dir_Prompt d, er_Revision = dir_Revision d, er_ID = dir_ID d\<rparr>)"

definition directive_receipt :: "EditRequest \<Rightarrow> DirectiveRevision \<Rightarrow> time \<Rightarrow> AppendRequest" where
  "directive_receipt r d now =
     \<lparr>ap_OrganizationID = ed_OrganizationID r, ap_Type = ''directive.activated'', ap_ActorID = ed_ActorID r, ap_ResourceID = dir_ID d,
      ap_Metadata = [(''channel_id'', MetaString (ed_ChannelID r)), (''revision'', MetaNumber (of_int (dir_Revision d))),
                     (''source'', MetaString ''slack_modal'')],
      ap_RetentionEpoch = format_month now, ap_IdempotencyKey = ''directive/'' @ dir_ID d @ ''/activated'', ap_Content = dir_Prompt d\<rparr>"

definition editor_Save ::
  "Ports \<Rightarrow> OrgStore \<Rightarrow> EditRequest \<Rightarrow> (nat \<Rightarrow> string) \<Rightarrow> (nat \<Rightarrow> time) \<Rightarrow> ConfigStore \<times> Chain
     \<Rightarrow> (editor_error, EditResult, ConfigStore \<times> Chain) outcome" where
  "editor_Save p scopes r ids clock st =
     (case st of (s, chain) \<Rightarrow>
        if \<not> editor_authorize scopes r then (Inl ErrDirectiveForbidden, st)
        else if ed_SourceID r = '''' then (Inl ErrDirectiveInvalid, st)
        else case PublishDirective (ed_OrganizationID r) (ed_ChannelID r) (ed_Prompt r) (ed_ActorID r) (ed_SourceID r) (ids 0) (clock 0) s of
          (Inl _, s') \<Rightarrow> (Inl ErrDirectiveInvalid, (s', chain))
        | (Inr d, s') \<Rightarrow>
            (case audit_Append (port_marshal p) (port_sha p) (port_mac p) (directive_receipt r d (clock 1)) (ids 1) (clock 2) chain of
               (Inl _, chain') \<Rightarrow> (Inl ErrDirectiveReceipt, (s', chain'))
             | (Inr _, chain') \<Rightarrow> (Inr \<lparr>er_Prompt = dir_Prompt d, er_Revision = dir_Revision d, er_ID = dir_ID d\<rparr>, (s', chain'))))"


section \<open>Invariant\<close>

text \<open>Revisions count from one, belong to their channel, and at most one directive is active; an active or
  rejected note has a reviewer other than its author.\<close>

definition directives_ok :: "string \<Rightarrow> DirectiveRevision list \<Rightarrow> bool" where
  "directives_ok k rs \<longleftrightarrow>
     (\<forall>i < length rs. dir_Revision (rs ! i) = int i + 1 \<and> config_key (dir_OrganizationID (rs ! i)) (dir_ChannelID (rs ! i)) = k)
     \<and> (\<forall>i < length rs. \<forall>j < length rs. dir_Active (rs ! i) \<longrightarrow> dir_Active (rs ! j) \<longrightarrow> i = j)"

definition notes_ok :: "string \<Rightarrow> NoteRevision list \<Rightarrow> bool" where
  "notes_ok k ns \<longleftrightarrow>
     (\<forall>i < length ns. note_Revision (ns ! i) = int i + 1 \<and> config_key (note_OrganizationID (ns ! i)) (note_ChannelID (ns ! i)) = k
        \<and> (note_State (ns ! i) \<noteq> NotePending \<longrightarrow> note_ReviewedBy (ns ! i) \<noteq> '''' \<and> note_ReviewedBy (ns ! i) \<noteq> note_CreatedBy (ns ! i)))"

definition config_store_ok :: "ConfigStore \<Rightarrow> bool" where
  "config_store_ok s \<longleftrightarrow> (\<forall>k. directives_ok k (directives_of s k) \<and> notes_ok k (notes_of s k))"

lemma of_put [simp]:
  "directives_of (put_directives k rs s) k' = (if k' = k then rs else directives_of s k')"
  "notes_of (put_directives k rs s) k' = notes_of s k'"
  "notes_of (put_notes k ns s) k' = (if k' = k then ns else notes_of s k')"
  "directives_of (put_notes k ns s) k' = directives_of s k'"
  by (simp_all add: directives_of_def notes_of_def put_directives_def put_notes_def lookup_zero_def)

lemma config_store_okI_directives:
  "config_store_ok s \<Longrightarrow> directives_ok k rs \<Longrightarrow> config_store_ok (put_directives k rs s)"
  by (simp add: config_store_ok_def)

lemma config_store_okI_notes: "config_store_ok s \<Longrightarrow> notes_ok k ns \<Longrightarrow> config_store_ok (put_notes k ns s)"
  by (simp add: config_store_ok_def)

lemma config_store_okD: "config_store_ok s \<Longrightarrow> directives_ok k (directives_of s k)" "config_store_ok s \<Longrightarrow> notes_ok k (notes_of s k)"
  by (simp_all add: config_store_ok_def)

lemma position_Some: "position P xs = Some n \<Longrightarrow> n < length xs \<and> P (xs ! n)"
proof (induction xs arbitrary: n)
  case (Cons x xs)
  then show ?case by (cases n) (auto split: if_splits)
qed simp

lemma activate_only_nth [simp]:
  "length (activate_only n rs) = length rs"
  "i < length rs \<Longrightarrow> activate_only n rs ! i = (rs ! i)\<lparr>dir_Active := (i = n)\<rparr>"
  by (simp_all add: activate_only_def nth_enumerate_eq)

lemma directives_ok_activate: "directives_ok k rs \<Longrightarrow> directives_ok k (activate_only n rs)"
  by (simp add: directives_ok_def)

lemma directives_ok_publish:
  assumes "directives_ok k rs" "dir_Revision r = int (length rs) + 1" "config_key (dir_OrganizationID r) (dir_ChannelID r) = k"
  shows "directives_ok k (map (\<lambda>r. r\<lparr>dir_Active := False\<rparr>) rs @ [r])"
  using assms by (auto simp: directives_ok_def nth_append less_Suc_eq)

lemma directives_ok_draft:
  assumes "directives_ok k rs" "dir_Revision r = int (length rs) + 1" "config_key (dir_OrganizationID r) (dir_ChannelID r) = k"
    "\<not> dir_Active r"
  shows "directives_ok k (rs @ [r])"
  using assms by (auto simp: directives_ok_def nth_append less_Suc_eq)

lemma new_directive_fields [simp]:
  "dir_Revision (new_directive org channel p actor source active rs i now) = int (length rs) + 1"
  "dir_OrganizationID (new_directive org channel p actor source active rs i now) = org"
  "dir_ChannelID (new_directive org channel p actor source active rs i now) = channel"
  "dir_Active (new_directive org channel p actor source active rs i now) = active"
  by (simp_all add: new_directive_def)

lemma Draft_ok: "config_store_ok s \<Longrightarrow> config_store_ok (snd (DraftDirective org channel prompt actor i now s))"
  by (auto simp: DraftDirective_def Let_def split: sum.splits intro!: config_store_okI_directives directives_ok_draft config_store_okD)

lemma Publish_ok: "config_store_ok s \<Longrightarrow> config_store_ok (snd (PublishDirective org channel prompt actor source i now s))"
  by (auto simp: PublishDirective_def Let_def split: sum.splits option.splits
      intro!: config_store_okI_directives directives_ok_publish directives_ok_activate config_store_okD)

lemma Activate_ok: "config_store_ok s \<Longrightarrow> config_store_ok (snd (ActivateDirective org channel i s))"
  by (auto simp: ActivateDirective_def Let_def split: option.splits
      intro!: config_store_okI_directives directives_ok_activate config_store_okD)

lemma Propose_ok: "config_store_ok s \<Longrightarrow> config_store_ok (snd (ProposeNote org channel body sources actor i now s))"
  using config_store_okD(2) [of s "config_key org channel"]
  by (auto simp: ProposeNote_def Let_def notes_ok_def nth_append less_Suc_eq intro!: config_store_okI_notes)

lemma Review_ok: "config_store_ok s \<Longrightarrow> config_store_ok (snd (ReviewNote org channel i reviewer approve s))"
  using config_store_okD(2) [of s "config_key org channel"]
  by (auto simp: ReviewNote_def Let_def notes_ok_def nth_list_update split: option.splits
      intro!: config_store_okI_notes dest: position_Some)

section \<open>Runs\<close>

datatype ConfigCall =
    CallDraft string string string string string time
  | CallPublish string string string string string string time
  | CallActivate string string string
  | CallPropose string string string "string list" string string time
  | CallReview string string string string bool

fun config_call :: "ConfigCall \<Rightarrow> ConfigStore \<Rightarrow> ConfigStore" where
  "config_call (CallDraft org channel prompt actor i now) s = snd (DraftDirective org channel prompt actor i now s)"
| "config_call (CallPublish org channel prompt actor source i now) s = snd (PublishDirective org channel prompt actor source i now s)"
| "config_call (CallActivate org channel i) s = snd (ActivateDirective org channel i s)"
| "config_call (CallPropose org channel body sources actor i now) s = snd (ProposeNote org channel body sources actor i now s)"
| "config_call (CallReview org channel i reviewer approve) s = snd (ReviewNote org channel i reviewer approve s)"

definition config_run :: "ConfigCall list \<Rightarrow> ConfigStore" where
  "config_run calls = fold config_call calls NewConfigStore"

lemma config_run_simps [simp]:
  "config_run [] = NewConfigStore" "config_run (calls @ [c]) = config_call c (config_run calls)"
  by (simp_all add: config_run_def)

lemma config_call_ok: "config_store_ok s \<Longrightarrow> config_store_ok (config_call c s)"
  by (cases c) (simp_all add: Draft_ok Publish_ok Activate_ok Propose_ok Review_ok)

lemma config_run_ok: "config_store_ok (config_run calls)"
proof (induction calls rule: rev_induct)
  case Nil
  then show ?case
    by (simp add: config_store_ok_def directives_ok_def notes_ok_def NewConfigStore_def directives_of_def notes_of_def lookup_zero_def)
qed (simp add: config_call_ok)

lemma directive_calls_notes [simp]:
  "notes_of (snd (DraftDirective org channel prompt actor i now s)) k = notes_of s k"
  "notes_of (snd (PublishDirective org channel prompt actor source i now s)) k = notes_of s k"
  "notes_of (snd (ActivateDirective org channel i s)) k = notes_of s k"
  by (simp_all add: DraftDirective_def PublishDirective_def ActivateDirective_def Let_def split: sum.split option.split)

text \<open>The review that gave a note its state.\<close>

definition reviewed_in :: "ConfigCall \<Rightarrow> ConfigStore \<Rightarrow> string \<Rightarrow> NoteRevision \<Rightarrow> bool \<Rightarrow> bool" where
  "reviewed_in c s k n approve \<longleftrightarrow>
     (\<exists>org channel reviewer. c = CallReview org channel (note_ID n) reviewer approve \<and> config_key org channel = k
        \<and> fst (ReviewNote org channel (note_ID n) reviewer approve s) = Inr n
        \<and> reviewer \<noteq> '''' \<and> reviewer \<noteq> note_CreatedBy n \<and> note_ReviewedBy n = reviewer)"

lemma ReviewNote_Inr:
  assumes "ReviewNote org channel i reviewer approve s = (Inr n, s')"
  shows "\<exists>j. j < length (notes_of s (config_key org channel)) \<and> note_State (notes_of s (config_key org channel) ! j) = NotePending
     \<and> note_ID n = i \<and> note_ReviewedBy n = reviewer \<and> reviewer \<noteq> '''' \<and> reviewer \<noteq> note_CreatedBy n
     \<and> note_State n = (if approve then NoteActive else NoteRejected)
     \<and> s' = put_notes (config_key org channel) ((notes_of s (config_key org channel))[j := n]) s"
  using assms by (auto simp: ReviewNote_def Let_def split: if_splits option.splits dest!: position_Some)

lemma note_step:
  assumes "p < length (notes_of (config_call c s) k)" "notes_of (config_call c s) k ! p = n"
  shows "(p < length (notes_of s k) \<and> notes_of s k ! p = n)
    \<or> (p = length (notes_of s k) \<and> note_State n = NotePending)
    \<or> (p < length (notes_of s k) \<and> note_State (notes_of s k ! p) = NotePending
        \<and> (\<exists>approve. reviewed_in c s k n approve \<and> note_State n = (if approve then NoteActive else NoteRejected)))"
proof (cases c)
  case (CallPropose org channel body sources actor i now)
  then show ?thesis
    using assms by (auto simp: ProposeNote_def Let_def nth_append less_Suc_eq split: if_splits)
next
  case (CallReview org channel i reviewer approve)
  obtain r s' where run: "ReviewNote org channel i reviewer approve s = (r, s')" by (rule prod.exhaust)
  show ?thesis
  proof (cases r)
    case (Inl e)
    then have "s' = s" using run by (auto simp: ReviewNote_def Let_def split: if_splits option.splits)
    then show ?thesis using assms run CallReview by simp
  next
    case (Inr m)
    from ReviewNote_Inr [OF run [unfolded Inr]] obtain j where
      j: "j < length (notes_of s (config_key org channel))" "note_State (notes_of s (config_key org channel) ! j) = NotePending"
        "s' = put_notes (config_key org channel) ((notes_of s (config_key org channel))[j := m]) s"
      and m: "note_ID m = i" "note_ReviewedBy m = reviewer" "reviewer \<noteq> ''''" "reviewer \<noteq> note_CreatedBy m"
        "note_State m = (if approve then NoteActive else NoteRejected)" by blast
    have reviewed: "reviewed_in c s (config_key org channel) m approve"
      using run Inr CallReview m by (simp add: reviewed_in_def)
    show ?thesis
    proof (cases "k = config_key org channel \<and> p = j")
      case True
      then have "n = m" using assms run CallReview j by simp
      then show ?thesis using True j reviewed m(5) by blast
    next
      case False
      then show ?thesis using assms run CallReview j by (auto simp: nth_list_update split: if_splits)
    qed
  qed
qed (use assms in simp_all)

lemma note_length: "length (notes_of s k) \<le> length (notes_of (config_call c s) k)"
  by (cases c) (auto simp: ProposeNote_def ReviewNote_def Let_def split: option.split)

text \<open>A note that was reviewed stays as it is.\<close>

lemma reviewed_stays:
  assumes "p < length (notes_of s k)" "note_State (notes_of s k ! p) \<noteq> NotePending"
  shows "p < length (notes_of (fold config_call calls s) k) \<and> notes_of (fold config_call calls s) k ! p = notes_of s k ! p"
  using assms
proof (induction calls arbitrary: s)
  case (Cons c calls)
  have "p < length (notes_of (config_call c s) k)" using Cons.prems(1) note_length [of s k c] by simp
  moreover from note_step [OF this refl] Cons.prems have "notes_of (config_call c s) k ! p = notes_of s k ! p" by auto
  ultimately show ?case using Cons.IH [of "config_call c s"] Cons.prems by simp
qed simp

lemma active_was_approved:
  assumes "p < length (notes_of (config_run calls) k)" "notes_of (config_run calls) k ! p = n" "note_State n = NoteActive"
  shows "\<exists>pre c post. calls = pre @ c # post \<and> reviewed_in c (config_run pre) k n True"
  using assms
proof (induction calls rule: rev_induct)
  case Nil
  then show ?case by (simp add: NewConfigStore_def notes_of_def lookup_zero_def)
next
  case (snoc c calls)
  from note_step [OF snoc.prems(1,2) [unfolded config_run_simps]] snoc.prems(3)
  consider (old) "p < length (notes_of (config_run calls) k)" "notes_of (config_run calls) k ! p = n"
    | (now) "reviewed_in c (config_run calls) k n True"
    by (auto split: if_splits)
  then show ?case
  proof cases
    case old
    with snoc.IH snoc.prems(3) obtain pre d post where "calls = pre @ d # post" "reviewed_in d (config_run pre) k n True" by blast
    then show ?thesis by (intro exI [of _ pre] exI [of _ d] exI [of _ "post @ [c]"]) simp
  next
    case now
    then show ?thesis by blast
  qed
qed

lemma config_run_split: "config_run (pre @ c # post) = fold config_call post (config_call c (config_run pre))"
  by (simp add: config_run_def)

lemma review_is_final:
  assumes "ReviewNote org channel i reviewer approve (config_run pre) = (Inr m, s')"
  shows "m \<in> set (notes_of (config_run (pre @ CallReview org channel i reviewer approve # post)) (config_key org channel))
     \<and> note_State m = (if approve then NoteActive else NoteRejected)"
proof -
  from ReviewNote_Inr [OF assms] obtain j where j: "j < length (notes_of (config_run pre) (config_key org channel))"
    "s' = put_notes (config_key org channel) ((notes_of (config_run pre) (config_key org channel))[j := m]) (config_run pre)"
    and state: "note_State m = (if approve then NoteActive else NoteRejected)" by blast
  have "j < length (notes_of s' (config_key org channel))" "notes_of s' (config_key org channel) ! j = m" using j by simp_all
  with reviewed_stays [of j s' "config_key org channel" post] state
  have "j < length (notes_of (fold config_call post s') (config_key org channel))"
    "notes_of (fold config_call post s') (config_key org channel) ! j = m" by (simp_all split: if_splits)
  then have "m \<in> set (notes_of (fold config_call post s') (config_key org channel))" by (metis nth_mem)
  with state assms show ?thesis by (simp add: config_run_split)
qed

lemma same_revision:
  "config_store_ok s \<Longrightarrow> n \<in> set (notes_of s k) \<Longrightarrow> m \<in> set (notes_of s k) \<Longrightarrow> note_Revision n = note_Revision m \<Longrightarrow> n = m"
  using config_store_okD(2) [of s k] by (auto simp: notes_ok_def in_set_conv_nth)

section \<open>Properties\<close>

text \<open>C38. After any sequence of calls a channel has at most one active directive; a note that reaches the
  context of the classifier (an active one) was approved by a review among these calls, by a named reviewer who is
  not its author; and a review that was recorded is final, so a note that was rejected never becomes active.\<close>

theorem notes_need_independent_review:
  "(\<forall>r \<in> set (directives_of (config_run calls) (config_key org channel)). dir_Active r \<longrightarrow> ActiveDirective org channel (config_run calls) = Inr r)
   \<and> (\<forall>n \<in> set (ActiveNotes org channel (config_run calls)). \<exists>pre c post. calls = pre @ c # post
        \<and> reviewed_in c (config_run pre) (config_key org channel) n True)
   \<and> (\<forall>pre post i reviewer m. calls = pre @ CallReview org channel i reviewer False # post
        \<and> fst (ReviewNote org channel i reviewer False (config_run pre)) = Inr m \<longrightarrow>
        (\<forall>n \<in> set (ActiveNotes org channel (config_run calls)). note_Revision n \<noteq> note_Revision m))"
proof (intro conjI ballI allI impI)
  note ok = config_store_okD [OF config_run_ok [of calls], of "config_key org channel"]
  fix r assume r: "r \<in> set (directives_of (config_run calls) (config_key org channel))" "dir_Active r"
  show "ActiveDirective org channel (config_run calls) = Inr r"
  proof (cases "find dir_Active (directives_of (config_run calls) (config_key org channel))")
    case None then show ?thesis using r by (auto simp: find_None_iff)
  next
    case (Some r')
    then have "r' \<in> set (directives_of (config_run calls) (config_key org channel))" "dir_Active r'" by (auto simp: find_Some_iff)
    with r ok(1) have "r' = r" unfolding directives_ok_def in_set_conv_nth by blast
    then show ?thesis using Some by (simp add: ActiveDirective_def)
  qed
next
  fix n assume "n \<in> set (ActiveNotes org channel (config_run calls))"
  then obtain p where "p < length (notes_of (config_run calls) (config_key org channel))"
    "notes_of (config_run calls) (config_key org channel) ! p = n" "note_State n = NoteActive"
    by (auto simp: ActiveNotes_def in_set_conv_nth)
  from active_was_approved [OF this] show "\<exists>pre c post. calls = pre @ c # post
      \<and> reviewed_in c (config_run pre) (config_key org channel) n True" .
next
  fix pre post i reviewer m n
  assume run: "calls = pre @ CallReview org channel i reviewer False # post
      \<and> fst (ReviewNote org channel i reviewer False (config_run pre)) = Inr m"
    and n: "n \<in> set (ActiveNotes org channel (config_run calls))"
  from run have "ReviewNote org channel i reviewer False (config_run pre) = (Inr m, snd (ReviewNote org channel i reviewer False (config_run pre)))"
    by (simp add: prod_eq_iff)
  from review_is_final [OF this, of post] run
  have m: "m \<in> set (notes_of (config_run calls) (config_key org channel))" "note_State m = NoteRejected" by simp_all
  show "note_Revision n \<noteq> note_Revision m"
    using same_revision [OF config_run_ok _ m(1), of n] n m(2) by (auto simp: ActiveNotes_def)
qed

text \<open>Two proposals, the first approved and the second rejected.\<close>

definition sample_calls :: "ConfigCall list" where
  "sample_calls = [CallPropose ''org'' ''C1'' ''deploys are on Friday'' [''m1''] ''alice'' ''n1'' 5,
     CallPropose ''org'' ''C1'' ''deploys are never'' [''m2''] ''alice'' ''n2'' 6,
     CallReview ''org'' ''C1'' ''n1'' ''bob'' True, CallReview ''org'' ''C1'' ''n2'' ''bob'' False]"

lemma sample_calls_run:
  "map note_ID (ActiveNotes ''org'' ''C1'' (config_run sample_calls)) = [''n1'']"
  "map note_CreatedBy (ActiveNotes ''org'' ''C1'' (config_run sample_calls)) = [''alice'']"
  "map_sum (\<lambda>_. ()) note_Revision (fst (ReviewNote ''org'' ''C1'' ''n2'' ''bob'' False (config_run (take 3 sample_calls)))) = Inr 2"
  by code_simp+

lemma notes_need_independent_review_witness:
  "(\<exists>n pre c post. ActiveNotes ''org'' ''C1'' (config_run sample_calls) = [n] \<and> note_ID n = ''n1'' \<and> sample_calls = pre @ c # post
       \<and> reviewed_in c (config_run pre) ''org/C1'' n True)
   \<and> list_all (\<lambda>n. note_Revision n \<noteq> 2) (ActiveNotes ''org'' ''C1'' (config_run sample_calls))"
proof
  note independent = notes_need_independent_review [of sample_calls "''org''" "''C1''"]
  have k: "config_key ''org'' ''C1'' = ''org/C1''" by (simp add: config_key_def)
  obtain n where "ActiveNotes ''org'' ''C1'' (config_run sample_calls) = [n]" "note_ID n = ''n1''"
    using sample_calls_run(1) by (cases "ActiveNotes ''org'' ''C1'' (config_run sample_calls)") auto
  moreover from this independent k obtain pre c post where "sample_calls = pre @ c # post" "reviewed_in c (config_run pre) ''org/C1'' n True"
    by auto
  ultimately show "\<exists>n pre c post. ActiveNotes ''org'' ''C1'' (config_run sample_calls) = [n] \<and> note_ID n = ''n1'' \<and> sample_calls = pre @ c # post
       \<and> reviewed_in c (config_run pre) ''org/C1'' n True" by blast
  obtain m where m: "fst (ReviewNote ''org'' ''C1'' ''n2'' ''bob'' False (config_run (take 3 sample_calls))) = Inr m" "note_Revision m = 2"
    using sample_calls_run(3) by (cases "fst (ReviewNote ''org'' ''C1'' ''n2'' ''bob'' False (config_run (take 3 sample_calls)))") auto
  have "sample_calls = take 3 sample_calls @ CallReview ''org'' ''C1'' ''n2'' ''bob'' False # []" by (simp add: sample_calls_def)
  from conjunct2 [OF conjunct2 [OF independent], rule_format, OF conjI [OF this m(1)]] m(2) show "list_all (\<lambda>n. note_Revision n \<noteq> 2) (ActiveNotes ''org'' ''C1'' (config_run sample_calls))"
    by (auto simp: list_all_iff)
qed

end

