(* ===== verification/SyncState.thy ===== *)
theory SyncState
  imports Prelude
begin

text \<open>
  The progress of the Slack history synchronisation of each channel, \<^verbatim>\<open>MemoryContextSyncStateStore\<close>
  of \<^verbatim>\<open>core/slack/context_sync_state.go\<close>: the point through which a channel is synchronised, the
  catch-up window that repairs a gap, and the live messages that arrive while one is open. The Mongo store
  of the same interface is modelled for \<^verbatim>\<open>CompleteBootstrap\<close> only, where it differs.
\<close>

section \<open>State\<close>

datatype sync_error = ErrSyncInvalid | ErrSyncStale

record ThreadCatchUp =
  tc_RootThreadTS :: string
  tc_SyncedThrough :: time

record SyncRecord =
  sy_OrganizationID :: string
  sy_TeamID :: string
  sy_ChannelID :: string
  sy_BootstrapCompleted :: bool
  sy_BootstrapCompletedAt :: time
  sy_SyncedThrough :: time
  sy_CatchUpThrough :: time
  sy_CatchUpLatest :: time
  sy_CatchUpThreads :: "ThreadCatchUp list"
  sy_LiveThrough :: time
  sy_UpdatedAt :: time

definition zero_SyncRecord :: SyncRecord where
  "zero_SyncRecord =
     \<lparr>sy_OrganizationID = '''', sy_TeamID = '''', sy_ChannelID = '''', sy_BootstrapCompleted = False,
      sy_BootstrapCompletedAt = zero_time, sy_SyncedThrough = zero_time, sy_CatchUpThrough = zero_time,
      sy_CatchUpLatest = zero_time, sy_CatchUpThreads = [], sy_LiveThrough = zero_time, sy_UpdatedAt = zero_time\<rparr>"

type_synonym SyncStore = "string \<rightharpoonup> SyncRecord"

definition NewSyncStore :: SyncStore where "NewSyncStore = Map.empty"

definition contextSyncStateKey :: "string \<Rightarrow> string \<Rightarrow> string \<Rightarrow> string" where
  "contextSyncStateKey org team channel = org @ ''/'' @ team @ ''/'' @ channel"

definition sync_of :: "SyncStore \<Rightarrow> string \<Rightarrow> SyncRecord" where
  "sync_of s k = lookup_zero zero_SyncRecord s k"

definition sync_args_ok :: "string \<Rightarrow> string \<Rightarrow> string \<Rightarrow> time \<Rightarrow> bool" where
  "sync_args_ok org team channel through \<longleftrightarrow> org \<noteq> '''' \<and> team \<noteq> '''' \<and> channel \<noteq> '''' \<and> \<not> IsZero through"

definition sync_named :: "string \<Rightarrow> string \<Rightarrow> string \<Rightarrow> SyncRecord \<Rightarrow> SyncRecord" where
  "sync_named org team channel r = r\<lparr>sy_OrganizationID := org, sy_TeamID := team, sy_ChannelID := channel\<rparr>"

definition end_catch_up :: "SyncRecord \<Rightarrow> SyncRecord" where
  "end_catch_up r = r\<lparr>sy_CatchUpThrough := zero_time, sy_CatchUpLatest := zero_time, sy_CatchUpThreads := [], sy_LiveThrough := zero_time\<rparr>"

section \<open>Operations\<close>

definition sync_List :: "string list \<Rightarrow> string \<Rightarrow> string \<Rightarrow> SyncStore \<Rightarrow> (string \<rightharpoonup> SyncRecord)" where
  "sync_List ord org team s =
     map_of (rev (map (\<lambda>r. (sy_ChannelID r, r)) (filter (\<lambda>r. sy_OrganizationID r = org \<and> sy_TeamID r = team) (vals ord s))))"

definition sync_Advance ::
  "string \<Rightarrow> string \<Rightarrow> string \<Rightarrow> time \<Rightarrow> time \<Rightarrow> SyncStore \<Rightarrow> (sync_error, unit, SyncStore) outcome" where
  "sync_Advance org team channel through now s =
     (if \<not> sync_args_ok org team channel through then (Inl ErrSyncInvalid, s)
      else
        let k = contextSyncStateKey org team channel; r = sync_named org team channel (sync_of s k);
            r1 = (if \<not> IsZero (sy_CatchUpThrough r) \<and> After through (sy_LiveThrough r) then r\<lparr>sy_LiveThrough := through\<rparr>
                  else if IsZero (sy_CatchUpThrough r) \<and> After through (sy_SyncedThrough r) then r\<lparr>sy_SyncedThrough := through\<rparr>
                  else r)
        in (Inr (), s(k \<mapsto> r1\<lparr>sy_UpdatedAt := now\<rparr>)))"

definition sync_BeginCatchUp ::
  "string \<Rightarrow> string \<Rightarrow> string \<Rightarrow> time \<Rightarrow> time \<Rightarrow> SyncStore \<Rightarrow> (sync_error, unit, SyncStore) outcome" where
  "sync_BeginCatchUp org team channel through now s =
     (if \<not> sync_args_ok org team channel through then (Inl ErrSyncInvalid, s)
      else
        let k = contextSyncStateKey org team channel; r = sync_of s k
        in if \<not> sy_BootstrapCompleted r \<or> (\<not> IsZero (sy_CatchUpThrough r) \<and> \<not> After through (sy_CatchUpThrough r)) then (Inr (), s)
           else (Inr (), s(k \<mapsto> (sync_named org team channel r)
                  \<lparr>sy_CatchUpThrough := through, sy_CatchUpLatest := through, sy_CatchUpThreads := [], sy_UpdatedAt := now\<rparr>)))"

definition sync_CancelCatchUp ::
  "string \<Rightarrow> string \<Rightarrow> string \<Rightarrow> time \<Rightarrow> time \<Rightarrow> SyncStore \<Rightarrow> (sync_error, unit, SyncStore) outcome" where
  "sync_CancelCatchUp org team channel through now s =
     (if \<not> sync_args_ok org team channel through then (Inl ErrSyncInvalid, s)
      else
        let k = contextSyncStateKey org team channel; r = sync_of s k
        in if sy_CatchUpThrough r \<noteq> through then (Inr (), s)
           else (Inr (), s(k \<mapsto> (end_catch_up r)\<lparr>sy_UpdatedAt := now\<rparr>)))"

definition sync_CheckpointCatchUp ::
  "string \<Rightarrow> string \<Rightarrow> string \<Rightarrow> time \<Rightarrow> time \<Rightarrow> time \<Rightarrow> SyncStore \<Rightarrow> (sync_error, unit, SyncStore) outcome" where
  "sync_CheckpointCatchUp org team channel through latest now s =
     (if \<not> sync_args_ok org team channel through \<or> IsZero latest \<or> \<not> Before latest through then (Inl ErrSyncInvalid, s)
      else
        let k = contextSyncStateKey org team channel; r = sync_of s k
        in if sy_CatchUpThrough r \<noteq> through then (Inl ErrSyncStale, s)
           else (Inr (), s(k \<mapsto> r\<lparr>sy_CatchUpLatest := latest, sy_UpdatedAt := now\<rparr>)))"

fun checkpoint_thread :: "string \<Rightarrow> time \<Rightarrow> ThreadCatchUp list \<Rightarrow> ThreadCatchUp list" where
  "checkpoint_thread rootTS through [] = [\<lparr>tc_RootThreadTS = rootTS, tc_SyncedThrough = through\<rparr>]"
| "checkpoint_thread rootTS through (t # ts) =
     (if tc_RootThreadTS t = rootTS
      then (if After through (tc_SyncedThrough t) then t\<lparr>tc_SyncedThrough := through\<rparr> else t) # ts
      else t # checkpoint_thread rootTS through ts)"

definition sync_CheckpointThreadCatchUp ::
  "string \<Rightarrow> string \<Rightarrow> string \<Rightarrow> time \<Rightarrow> string \<Rightarrow> time \<Rightarrow> time \<Rightarrow> SyncStore \<Rightarrow> (sync_error, unit, SyncStore) outcome" where
  "sync_CheckpointThreadCatchUp org team channel through rootTS synced now s =
     (if \<not> sync_args_ok org team channel through \<or> rootTS = '''' \<or> IsZero synced then (Inl ErrSyncInvalid, s)
      else
        let k = contextSyncStateKey org team channel; r = sync_of s k
        in if sy_CatchUpThrough r \<noteq> through then (Inl ErrSyncStale, s)
           else (Inr (), s(k \<mapsto> r\<lparr>sy_CatchUpThreads := checkpoint_thread rootTS synced (sy_CatchUpThreads r), sy_UpdatedAt := now\<rparr>)))"

definition sync_CompleteCatchUp ::
  "string \<Rightarrow> string \<Rightarrow> string \<Rightarrow> time \<Rightarrow> time \<Rightarrow> SyncStore \<Rightarrow> (sync_error, unit, SyncStore) outcome" where
  "sync_CompleteCatchUp org team channel through now s =
     (if \<not> sync_args_ok org team channel through then (Inl ErrSyncInvalid, s)
      else
        let k = contextSyncStateKey org team channel; r = sync_of s k
        in if sy_CatchUpThrough r \<noteq> through then (Inl ErrSyncStale, s)
           else
             let completed = (if After (sy_LiveThrough r) through then sy_LiveThrough r else through)
             in (Inr (), s(k \<mapsto> (end_catch_up r)
                  \<lparr>sy_SyncedThrough := (if After completed (sy_SyncedThrough r) then completed else sy_SyncedThrough r),
                   sy_UpdatedAt := now\<rparr>)))"

definition sync_CompleteBootstrap ::
  "string \<Rightarrow> string \<Rightarrow> string \<Rightarrow> time \<Rightarrow> (nat \<Rightarrow> time) \<Rightarrow> SyncStore \<Rightarrow> (sync_error, unit, SyncStore) outcome" where
  "sync_CompleteBootstrap org team channel through clock s =
     (case sync_Advance org team channel through (clock 0) s of
        (Inl e, s') \<Rightarrow> (Inl e, s')
      | (Inr _, s') \<Rightarrow>
          let k = contextSyncStateKey org team channel; r = sync_of s' k
          in (Inr (), s'(k \<mapsto> r\<lparr>sy_BootstrapCompleted := True, sy_BootstrapCompletedAt := clock 1, sy_UpdatedAt := clock 1\<rparr>)))"

text \<open>
  \<open>MongoContextSyncStateStore.CompleteBootstrap\<close>, on the one document its filter selects (or none): the
  upsert raises the synchronised point (\<open>$max\<close>) without asking for an open catch-up window, where the
  memory store above goes through \<open>Advance\<close>, which then only raises the point of the live messages.
\<close>

definition mongo_CompleteBootstrap ::
  "string \<Rightarrow> string \<Rightarrow> string \<Rightarrow> time \<Rightarrow> time \<Rightarrow> SyncRecord option \<Rightarrow> (sync_error, unit, SyncRecord option) outcome" where
  "mongo_CompleteBootstrap org team channel through now d =
     (if \<not> sync_args_ok org team channel through then (Inl ErrSyncInvalid, d)
      else
        let r = (case d of Some r \<Rightarrow> r | None \<Rightarrow> sync_named org team channel zero_SyncRecord)
        in (Inr (), Some (r\<lparr>sy_BootstrapCompleted := True, sy_BootstrapCompletedAt := now,
              sy_SyncedThrough := max (sy_SyncedThrough r) through, sy_UpdatedAt := now\<rparr>)))"

text \<open>The two stores agree on the synchronised point of a channel exactly when no window is open or the call
  does not pass that point.\<close>

lemma complete_bootstrap_stores_agree:
  assumes "sync_args_ok org team channel through" "s (contextSyncStateKey org team channel) = Some r"
    "snd (mongo_CompleteBootstrap org team channel through now (Some r)) = Some r'"
  shows "sy_SyncedThrough r'
      = sy_SyncedThrough (sync_of (snd (sync_CompleteBootstrap org team channel through clock s)) (contextSyncStateKey org team channel))
    \<longleftrightarrow> IsZero (sy_CatchUpThrough r) \<or> through \<le> sy_SyncedThrough r"
  using assms
  by (auto simp: mongo_CompleteBootstrap_def sync_CompleteBootstrap_def sync_Advance_def sync_named_def sync_of_def
      lookup_zero_def Let_def max_def)

section \<open>Runs\<close>

datatype SyncCall =
    Advance string string string time
  | BeginCatchUp string string string time
  | CancelCatchUp string string string time
  | CheckpointCatchUp string string string time time
  | CheckpointThread string string string time string time
  | CompleteCatchUp string string string time
  | CompleteBootstrap string string string time

fun sync_call :: "(nat \<Rightarrow> time) \<Rightarrow> SyncCall \<Rightarrow> SyncStore \<Rightarrow> SyncStore" where
  "sync_call clock (Advance o1 t c th) s = snd (sync_Advance o1 t c th (clock 0) s)"
| "sync_call clock (BeginCatchUp o1 t c th) s = snd (sync_BeginCatchUp o1 t c th (clock 0) s)"
| "sync_call clock (CancelCatchUp o1 t c th) s = snd (sync_CancelCatchUp o1 t c th (clock 0) s)"
| "sync_call clock (CheckpointCatchUp o1 t c th l) s = snd (sync_CheckpointCatchUp o1 t c th l (clock 0) s)"
| "sync_call clock (CheckpointThread o1 t c th r th2) s = snd (sync_CheckpointThreadCatchUp o1 t c th r th2 (clock 0) s)"
| "sync_call clock (CompleteCatchUp o1 t c th) s = snd (sync_CompleteCatchUp o1 t c th (clock 0) s)"
| "sync_call clock (CompleteBootstrap o1 t c th) s = snd (sync_CompleteBootstrap o1 t c th clock s)"

definition sync_run :: "((nat \<Rightarrow> time) \<times> SyncCall) list \<Rightarrow> SyncStore \<Rightarrow> SyncStore" where
  "sync_run calls s = fold (\<lambda>(clock, c). sync_call clock c) calls s"

fun completes :: "string \<Rightarrow> SyncCall \<Rightarrow> bool" where
  "completes k (CompleteCatchUp o1 t c th) = (contextSyncStateKey o1 t c = k)"
| "completes k (CancelCatchUp o1 t c th) = (contextSyncStateKey o1 t c = k)"
| "completes k _ = False"

lemma sync_of_upd [simp]: "sync_of (s(k \<mapsto> r)) k' = (if k' = k then r else sync_of s k')"
  by (simp add: sync_of_def lookup_zero_def)

lemmas sync_defs = sync_Advance_def sync_BeginCatchUp_def sync_CancelCatchUp_def sync_CheckpointCatchUp_def
  sync_CheckpointThreadCatchUp_def sync_CompleteCatchUp_def sync_CompleteBootstrap_def sync_named_def end_catch_up_def Let_def

lemma synced_monotone: "sy_SyncedThrough (sync_of s k) \<le> sy_SyncedThrough (sync_of (sync_call clock c s) k)"
  by (cases c) (auto simp: sync_defs split: prod.splits sum.splits if_splits)

lemma window_open:
  assumes "\<not> IsZero (sy_CatchUpThrough (sync_of s k))" "\<not> completes k c"
  shows "sy_SyncedThrough (sync_of (sync_call clock c s) k) = sy_SyncedThrough (sync_of s k)
    \<and> sy_CatchUpThrough (sync_of s k) \<le> sy_CatchUpThrough (sync_of (sync_call clock c s) k)
    \<and> \<not> IsZero (sy_CatchUpThrough (sync_of (sync_call clock c s) k))"
  using assms by (cases c) (auto simp: sync_defs sync_args_ok_def split: prod.splits sum.splits if_splits)

text \<open>C39. In the memory store, while the catch-up window of a channel is open, no live message, checkpoint or
  completed bootstrap moves the point through which the channel counts as synchronised: only completing or
  cancelling the window ends it, so an interrupted repair is taken up again from the same point and the gap is
  not skipped. (The \<open>CompleteBootstrap\<close> of the Mongo store does move it; see above.)\<close>

theorem open_gap_never_skipped:
  assumes "\<not> IsZero (sy_CatchUpThrough (sync_of s k))" "\<forall>(clock, c) \<in> set calls. \<not> completes k c"
  shows "sy_SyncedThrough (sync_of (sync_run calls s) k) = sy_SyncedThrough (sync_of s k)
    \<and> sy_CatchUpThrough (sync_of s k) \<le> sy_CatchUpThrough (sync_of (sync_run calls s) k)"
  using assms
proof (induction calls arbitrary: s)
  case Nil then show ?case by (simp add: sync_run_def)
next
  case (Cons x calls)
  obtain clock c where x: "x = (clock, c)" by fastforce
  note step = window_open [OF Cons.prems(1), of c clock]
  have "\<not> completes k c" using Cons.prems(2) x by auto
  with step Cons.IH [of "sync_call clock c s"] Cons.prems(2) x show ?case
    by (auto simp: sync_run_def)
qed

lemma open_gap_never_skipped_witness:
  "sy_SyncedThrough (sync_of (sync_run [(\<lambda>_. 50, Advance ''o'' ''t'' ''c'' 40)]
     (sync_run [(\<lambda>_. 10, CompleteBootstrap ''o'' ''t'' ''c'' 10), (\<lambda>_. 30, BeginCatchUp ''o'' ''t'' ''c'' 30)] NewSyncStore))
     ''o/t/c'') = 10"
proof -
  define s where "s = sync_run [(\<lambda>_. 10, CompleteBootstrap ''o'' ''t'' ''c'' 10), (\<lambda>_. 30, BeginCatchUp ''o'' ''t'' ''c'' 30)] NewSyncStore"
  have "\<not> IsZero (sy_CatchUpThrough (sync_of s ''o/t/c''))" "sy_SyncedThrough (sync_of s ''o/t/c'') = 10"
    unfolding s_def by code_simp+
  with open_gap_never_skipped [of s "''o/t/c''" "[(\<lambda>_. 50, Advance ''o'' ''t'' ''c'' 40)]"]
  show ?thesis unfolding s_def [symmetric] by simp
qed

end
