(* ===== verification/Decisions.thy ===== *)
theory Decisions
  imports Classifier
begin

text \<open>
  The store of classification decisions, \<^verbatim>\<open>MemoryDecisionStore\<close> of \<^verbatim>\<open>core/classifier/store.go\<close>: a
  decision is recorded once per observation and revision.
\<close>

record DecisionRecord =
  dec_ID :: string
  dec_OrganizationID :: string
  dec_ObservationID :: string
  dec_DecisionRevision :: int
  dec_ContextPackRevisionID :: string
  dec_OrganizationWatermark :: int
  dec_Result :: ClassifierResult
  dec_CreatedAt :: time

type_synonym DecisionStore = "string \<rightharpoonup> DecisionRecord"

datatype decision_error = ErrInvalidDecision | ErrDecisionOrganization

definition NewDecisionStore :: DecisionStore where "NewDecisionStore = Map.empty"

definition decisionListLimit :: nat where "decisionListLimit = 500"

definition decision_key :: "string \<Rightarrow> string \<Rightarrow> int \<Rightarrow> string" where
  "decision_key org observation revision = org @ ''/'' @ observation @ ''/'' @ format_int revision"

definition decisions_Record ::
  "DecisionRecord \<Rightarrow> string \<Rightarrow> time \<Rightarrow> DecisionStore \<Rightarrow> (decision_error, DecisionRecord \<times> bool, DecisionStore) outcome" where
  "decisions_Record r i now s =
     (if dec_OrganizationID r = '''' \<or> dec_ObservationID r = '''' \<or> dec_DecisionRevision r \<le> 0 then (Inl ErrInvalidDecision, s)
      else
        let k = decision_key (dec_OrganizationID r) (dec_ObservationID r) (dec_DecisionRevision r)
        in case s k of
             Some existing \<Rightarrow> (Inr (existing, False), s)
           | None \<Rightarrow>
               let r' = r\<lparr>dec_ID := (if dec_ID r = '''' then i else dec_ID r),
                         dec_CreatedAt := (if IsZero (dec_CreatedAt r) then now else dec_CreatedAt r)\<rparr>
               in (Inr (r', True), s(k \<mapsto> r')))"

definition decisions_List :: "string list \<Rightarrow> DecisionStore \<Rightarrow> DecisionRecord list" where
  "decisions_List ord s = take decisionListLimit (sort_key dec_CreatedAt (vals ord s))"

definition decisions_Count :: "string list \<Rightarrow> DecisionStore \<Rightarrow> nat" where
  "decisions_Count ord s = length (vals ord s)"

definition decisions_ListOrganization :: "string list \<Rightarrow> string \<Rightarrow> DecisionStore \<Rightarrow> decision_error + DecisionRecord list" where
  "decisions_ListOrganization ord org s =
     (if org = '''' then Inl ErrDecisionOrganization
      else Inr (take decisionListLimit (sort_key (\<lambda>r. - dec_CreatedAt r) (filter (\<lambda>r. dec_OrganizationID r = org) (vals ord s)))))"

lemma recorded_stays:
  "s k = Some r \<Longrightarrow> snd (decisions_Record x i now s) k = Some r"
  by (auto simp: decisions_Record_def Let_def split: option.splits)

end
