(* ===== verification/Intake.thy ===== *)
theory Intake
  imports Pipeline Sessions Observer Flood SyncState Decisions ChannelConfig Memory
begin

text \<open>
  The ingress half of \<^verbatim>\<open>core/pipeline/pipeline.go\<close>: what an event from Slack, a history import
  or a membership change does to the stores, before any decision is taken.  \<open>World\<close> holds the
  stores the pipeline is wired to; the optional ones may be nil.  The receipts of the audit chain
  live in its \<open>System\<close>.  Log lines are left out.
\<close>

section \<open>Configuration and stores\<close>

text \<open>The fields of \<^verbatim>\<open>config.Config\<close> the pipeline reads besides those of \<open>PipelineDeps\<close>.\<close>

record TagConfig =
  tc_LiveEnabled :: bool
  tc_OrganizationID :: string
  tc_TeamID :: string
  tc_BotUserID :: string
  tc_ContextSyncEnabled :: bool
  tc_AutoAssistJoinedChannels :: bool
  tc_MaxResponsesPerHour :: int
  tc_MaxConcurrentJobs :: int
  tc_FloodProtectionEnabled :: bool
  tc_DefaultProfile :: string
  tc_Lookback :: duration
  tc_PromptRetention :: duration

record World =
  w_system :: System
  w_observations :: ObserverStore
  w_sessions :: SessionStore
  w_decisions :: DecisionStore
  w_flood :: FloodMemory
  w_scopes :: "OrgStore option"
  w_sync :: "SyncStore option"
  w_config :: "ConfigStore option"
  w_memory :: "MemoryStore option"

text \<open>
  \<open>ErrNilScopes\<close> stands for the nil dereference of \<^verbatim>\<open>HandleEnvelope\<close> when context sync is on
  and no policy store is wired.
\<close>

datatype intake_error =
    ErrScopeDenied
  | ErrRestrictionUnknown
  | ErrContextSyncDisabled
  | ErrNilScopes
  | IntakeOrg orgconfig_error
  | IntakeObserver observer_error
  | IntakeSync sync_error

record AcceptResult =
  acc_Duplicate :: bool
  acc_Ignored :: bool
  acc_ResolvedContext :: bool

record BotMembershipChange =
  bm_OrganizationID :: string
  bm_WorkspaceID :: string
  bm_ChannelID :: string
  bm_Joined :: bool

section \<open>Discovering channels (ensureContextChannel)\<close>

definition contextChannelPolicyCurrent :: "ChannelPolicy \<Rightarrow> SlackContextChannel \<Rightarrow> bool \<Rightarrow> time \<Rightarrow> bool" where
  "contextChannelPolicyCurrent current ch autoAssist now =
     (if \<not> scc_RestrictionKnown ch \<or> \<not> After (cp_MembershipRefreshedAt current) (now - 6 * Hour) then False
      else if scc_Name ch \<noteq> '''' \<and> cp_Name current \<noteq> scc_Name ch then False
      else if scc_Restricted ch \<and> \<not> cp_Restricted current then False
      else if \<not> scc_BotMembershipKnown ch then True
      else if \<not> cp_BotMembershipKnown current \<or> cp_BotIsMember current \<noteq> scc_BotIsMember ch then False
      else if \<not> cp_ParticipationManagedByMembership current then True
      else autoAssist
           \<and> cp_ParticipationMode current
             = (if autoAssist \<and> scc_IsChannel ch \<and> scc_BotIsMember ch then ModeAssist else ModeObserve))"

definition is_dm :: "string \<Rightarrow> bool" where "is_dm channel \<longleftrightarrow> HasPrefix channel ''D''"

text \<open>
  Whether a channel that has no policy yet may get one: \<open>Inl\<close> is an error, \<open>Inr False\<close> the
  silent refusal.
\<close>

definition may_discover :: "OrgStore \<Rightarrow> SlackContextChannel \<Rightarrow> intake_error + bool" where
  "may_discover st ch =
     (if \<not> scc_RestrictionKnown ch then Inl ErrRestrictionUnknown
      else case orgconfig_GetOrganization (scc_OrganizationID ch) st of
        Inl e \<Rightarrow> Inl (IntakeOrg e)
      | Inr organization \<Rightarrow>
          (case orgconfig_GetWorkspace (scc_OrganizationID ch) (scc_TeamID ch) st of
             Inl e \<Rightarrow> Inl (IntakeOrg e)
           | Inr workspace \<Rightarrow>
               Inr (\<not> (org_KillSwitch organization \<or> \<not> ws_Enabled workspace
                       \<or> (\<not> is_dm (scc_ChannelID ch) \<and> org_EnrollmentMode organization \<noteq> ''all_observable_channels''
                          \<and> org_EnrollmentMode organization \<noteq> ''all_joined'')))))"

text \<open>The participation mode a report of Slack asks for, and whether membership manages it.\<close>

definition discovered_mode :: "TagConfig \<Rightarrow> ChannelPolicy option \<Rightarrow> SlackContextChannel \<Rightarrow> ParticipationMode \<times> bool" where
  "discovered_mode cfg current ch =
     (let managed = (tc_AutoAssistJoinedChannels cfg \<and> scc_BotMembershipKnown ch)
      in if is_dm (scc_ChannelID ch) then (ModeAssist, False)
         else case current of
           Some c \<Rightarrow>
             if \<not> cp_ParticipationManagedByMembership c then (cp_ParticipationMode c, False)
             else (if managed \<and> scc_IsChannel ch \<and> scc_BotMembershipKnown ch \<and> scc_BotIsMember ch then ModeAssist else ModeObserve, managed)
         | None \<Rightarrow> (if managed \<and> scc_IsChannel ch \<and> scc_BotMembershipKnown ch \<and> scc_BotIsMember ch then ModeAssist else ModeObserve, managed))"

definition membership_revision :: string where "membership_revision = ''slack-user+bot-context/v2''"

definition discovered_policy :: "TagConfig \<Rightarrow> ChannelPolicy option \<Rightarrow> SlackContextChannel \<Rightarrow> time \<Rightarrow> ChannelPolicy" where
  "discovered_policy cfg current ch now =
     \<lparr>cp_OrganizationID = scc_OrganizationID ch, cp_TeamID = scc_TeamID ch, cp_ChannelID = scc_ChannelID ch, cp_Name = scc_Name ch,
      cp_Enrolled = True, cp_Restricted = scc_Restricted ch, cp_ParticipationMode = fst (discovered_mode cfg current ch),
      cp_KillSwitch = False, cp_Cooldown = 30 * Second, cp_MaxResponsesPerHour = tc_MaxResponsesPerHour cfg,
      cp_MaxConcurrentJobs = tc_MaxConcurrentJobs cfg, cp_DefaultModelProfile = tc_DefaultProfile cfg,
      cp_ContextHistoryMode = HistoryUnset, cp_ApproverUserIDs = [], cp_TrustedIntegrationBotIDs = [],
      cp_BotIsMember = scc_BotIsMember ch, cp_BotMembershipKnown = scc_BotMembershipKnown ch,
      cp_ParticipationManagedByMembership = snd (discovered_mode cfg current ch), cp_WorkspaceEnabled = False,
      cp_MembershipRevision = membership_revision, cp_MembershipRefreshedAt = now, cp_Version = 0\<rparr>"

text \<open>A known direct message is enabled on the policy that was resolved for it.\<close>

definition enabled_dm :: "ChannelPolicy \<Rightarrow> SlackContextChannel \<Rightarrow> time \<Rightarrow> ChannelPolicy" where
  "enabled_dm current ch now =
     (let p = current\<lparr>cp_Enrolled := True, cp_ParticipationMode := ModeAssist, cp_ParticipationManagedByMembership := False,
                      cp_Restricted := cp_Restricted current \<or> scc_Restricted ch\<rparr>;
          p1 = (if scc_Name ch \<noteq> '''' then p\<lparr>cp_Name := scc_Name ch\<rparr> else p);
          p2 = (if scc_BotMembershipKnown ch then p1\<lparr>cp_BotIsMember := scc_BotIsMember ch, cp_BotMembershipKnown := True\<rparr> else p1)
      in p2\<lparr>cp_MembershipRevision := membership_revision, cp_MembershipRefreshedAt := now\<rparr>)"

definition save_channel ::
  "(orgconfig_error, ChannelPolicy, OrgStore) outcome \<Rightarrow> (intake_error, unit, OrgStore) outcome" where
  "save_channel r = (case r of (Inl e, st) \<Rightarrow> (Inl (IntakeOrg e), st) | (Inr _, st) \<Rightarrow> (Inr (), st))"

text \<open>\<open>ensureContextChannel\<close> with context sync on and the policy store \<open>st\<close>.\<close>

definition ensure_channel ::
  "TagConfig \<Rightarrow> SlackContextChannel \<Rightarrow> time \<Rightarrow> OrgStore \<Rightarrow> (intake_error, unit, OrgStore) outcome" where
  "ensure_channel cfg ch now st =
     (if scc_OrganizationID ch \<noteq> tc_OrganizationID cfg \<or> scc_TeamID ch \<noteq> tc_TeamID cfg \<or> scc_ChannelID ch = ''''
      then (Inl ErrScopeDenied, st)
      else case orgconfig_Resolve (scc_OrganizationID ch) (scc_TeamID ch) (scc_ChannelID ch) st of
        Inr current \<Rightarrow>
          if contextChannelPolicyCurrent current ch (tc_AutoAssistJoinedChannels cfg) now
             \<and> (\<not> is_dm (scc_ChannelID ch) \<or> (cp_Enrolled current \<and> cp_ParticipationMode current = ModeAssist))
          then (Inr (), st)
          else if is_dm (scc_ChannelID ch) then save_channel (orgconfig_PutChannel (enabled_dm current ch now) st)
          else save_channel (orgconfig_UpsertContextChannel (discovered_policy cfg (Some current) ch now) st)
      | Inl e \<Rightarrow>
          if e \<noteq> OrgErrNotFound then (Inl (IntakeOrg e), st)
          else case may_discover st ch of
                 Inl e' \<Rightarrow> (Inl e', st)
               | Inr False \<Rightarrow> (Inr (), st)
               | Inr True \<Rightarrow> save_channel (orgconfig_UpsertContextChannel (discovered_policy cfg None ch now) st))"

definition ensureContextChannel ::
  "TagConfig \<Rightarrow> SlackContextChannel \<Rightarrow> time \<Rightarrow> World \<Rightarrow> (intake_error, unit, World) outcome" where
  "ensureContextChannel cfg ch now w =
     (case w_scopes w of
        None \<Rightarrow> (Inr (), w)
      | Some st \<Rightarrow>
          if \<not> tc_ContextSyncEnabled cfg then (Inr (), w)
          else case ensure_channel cfg ch now st of (r, st') \<Rightarrow> (r, w\<lparr>w_scopes := Some st'\<rparr>))"

definition RegisterContextChannel ::
  "TagConfig \<Rightarrow> (nat \<Rightarrow> time) \<Rightarrow> SlackContextChannel \<Rightarrow> World \<Rightarrow> (intake_error, bool, World) outcome" where
  "RegisterContextChannel cfg clock ch w =
     (case ensureContextChannel cfg (ch\<lparr>scc_RestrictionKnown := True\<rparr>) (clock 0) w of
        (Inl e, w') \<Rightarrow> (Inl e, w')
      | (Inr _, w') \<Rightarrow>
          (case w_scopes w' of
             None \<Rightarrow> (Inr False, w')
           | Some st \<Rightarrow>
               if \<not> tc_ContextSyncEnabled cfg then (Inr False, w')
               else case orgconfig_Resolve (scc_OrganizationID ch) (scc_TeamID ch) (scc_ChannelID ch) st of
                      Inl e \<Rightarrow> (if e = OrgErrNotFound then Inr False else Inl (IntakeOrg e), w')
                    | Inr p \<Rightarrow> (Inr (authorizedPolicy p (clock 1)), w')))"

definition UpdateBotMembership ::
  "TagConfig \<Rightarrow> time \<Rightarrow> BotMembershipChange \<Rightarrow> World \<Rightarrow> (intake_error, unit, World) outcome" where
  "UpdateBotMembership cfg now c w =
     (case w_scopes w of
        None \<Rightarrow> (Inr (), w)
      | Some st \<Rightarrow>
          if \<not> tc_ContextSyncEnabled cfg then (Inr (), w)
          else if bm_OrganizationID c \<noteq> tc_OrganizationID cfg \<or> bm_WorkspaceID c \<noteq> tc_TeamID cfg \<or> bm_ChannelID c = ''''
          then (Inl ErrScopeDenied, w)
          else case orgconfig_Resolve (bm_OrganizationID c) (bm_WorkspaceID c) (bm_ChannelID c) st of
                 Inl e \<Rightarrow> (if e = OrgErrNotFound then Inr () else Inl (IntakeOrg e), w)
               | Inr current \<Rightarrow>
                   ensureContextChannel cfg
                     \<lparr>scc_OrganizationID = bm_OrganizationID c, scc_TeamID = bm_WorkspaceID c, scc_ChannelID = bm_ChannelID c,
                      scc_Name = cp_Name current, scc_Restricted = cp_Restricted current, scc_RestrictionKnown = True,
                      scc_IsChannel = True, scc_BotIsMember = bm_Joined c, scc_BotMembershipKnown = True\<rparr> now w)"

section \<open>Recording envelopes\<close>

definition selfAuthoredEnvelope :: "TagConfig \<Rightarrow> SlackEnvelope \<Rightarrow> bool" where
  "selfAuthoredEnvelope cfg v \<longleftrightarrow>
     tc_BotUserID cfg \<noteq> '''' \<and> env_OrganizationID v = tc_OrganizationID cfg \<and> env_TeamID v = tc_TeamID cfg
     \<and> env_UserID v = tc_BotUserID cfg"

text \<open>The clock is read for an event without times (\<open>t1\<close>) and by the store (\<open>t2\<close>).\<close>

definition advanceContextSyncWatermark ::
  "TagConfig \<Rightarrow> SlackEnvelope \<Rightarrow> time \<Rightarrow> time \<Rightarrow> World \<Rightarrow> (intake_error, unit, World) outcome" where
  "advanceContextSyncWatermark cfg v t1 t2 w =
     (case w_sync w of
        None \<Rightarrow> (Inr (), w)
      | Some s \<Rightarrow>
          if \<not> tc_ContextSyncEnabled cfg then (Inr (), w)
          else
            let through = (if \<not> IsZero (env_EventTime v) then env_EventTime v
                           else if \<not> IsZero (env_ReceivedAt v) then env_ReceivedAt v else t1)
            in case sync_Advance (env_OrganizationID v) (env_TeamID v) (env_ChannelID v) through t2 s of
                 (Inl e, s') \<Rightarrow> (Inl (IntakeSync e), w\<lparr>w_sync := Some s'\<rparr>)
               | (Inr _, s') \<Rightarrow> (Inr (), w\<lparr>w_sync := Some s'\<rparr>))"

definition world_import ::
  "SlackEnvelope \<Rightarrow> string \<Rightarrow> time \<Rightarrow> time \<Rightarrow> World \<Rightarrow> (intake_error, Observation \<times> bool, World) outcome" where
  "world_import v i t1 t2 w =
     (case observer_Import v i t1 t2 (w_observations w) of
        (Inl e, s) \<Rightarrow> (Inl (IntakeObserver e), w\<lparr>w_observations := s\<rparr>)
      | (Inr r, s) \<Rightarrow> (Inr r, w\<lparr>w_observations := s\<rparr>))"

definition world_accept ::
  "SlackEnvelope \<Rightarrow> string \<Rightarrow> time \<Rightarrow> time \<Rightarrow> World \<Rightarrow> (intake_error, Observation \<times> bool, World) outcome" where
  "world_accept v i t1 t2 w =
     (case observer_Accept v i t1 t2 (w_observations w) of
        (Inl e, s) \<Rightarrow> (Inl (IntakeObserver e), w\<lparr>w_observations := s\<rparr>)
      | (Inr r, s) \<Rightarrow> (Inr r, w\<lparr>w_observations := s\<rparr>))"

text \<open>The three branches of \<^verbatim>\<open>HandleEnvelope\<close> that keep a message as context only.\<close>

definition retain_context ::
  "TagConfig \<Rightarrow> (nat \<Rightarrow> time) \<Rightarrow> string \<Rightarrow> SlackEnvelope \<Rightarrow> World \<Rightarrow> (intake_error, AcceptResult, World) outcome" where
  "retain_context cfg clock i v w =
     (case world_import v i (clock 3) (clock 4) w of
        (Inl e, w1) \<Rightarrow> (Inl e, w1)
      | (Inr (ob, duplicate), w1) \<Rightarrow>
          (case advanceContextSyncWatermark cfg v (clock 5) (clock 6) w1 of
             (Inl e, w2) \<Rightarrow> (Inl e, w2)
           | (Inr _, w2) \<Rightarrow> (Inr \<lparr>acc_Duplicate = duplicate, acc_Ignored = True, acc_ResolvedContext = True\<rparr>, w2)))"

definition channelPolicyTrustsIntegration :: "ChannelPolicy \<Rightarrow> SlackEnvelope \<Rightarrow> bool" where
  "channelPolicyTrustsIntegration p v =
     (if env_Kind v \<noteq> SlackEventMessage \<or> env_BotID v = '''' \<or> \<not> IntegrationAuthored v \<or> MembershipEvent v then False
      else env_BotID v \<in> set (cp_TrustedIntegrationBotIDs p))"

text \<open>A failing resolution counts as not authorized: the caller only logs it.\<close>

definition resolveAuthorizedSlackIntegrationTrigger :: "SlackEnvelope \<Rightarrow> time \<Rightarrow> World \<Rightarrow> bool" where
  "resolveAuthorizedSlackIntegrationTrigger v now w =
     (case w_scopes w of
        None \<Rightarrow> False
      | Some st \<Rightarrow>
          if env_Kind v \<noteq> SlackEventMessage \<or> env_BotID v = '''' \<or> \<not> IntegrationAuthored v \<or> MembershipEvent v then False
          else case orgconfig_Resolve (env_OrganizationID v) (env_TeamID v) (env_ChannelID v) st of
                 Inl _ \<Rightarrow> False
               | Inr p \<Rightarrow> authorizedOutputPolicy p now \<and> channelPolicyTrustsIntegration p v)"

fun event_kind_text :: "SlackEventKind \<Rightarrow> string" where
  "event_kind_text SlackEventMessage = ''message''"
| "event_kind_text SlackEventEdit = ''message_edit''"
| "event_kind_text SlackEventDelete = ''message_delete''"
| "event_kind_text (SlackEventOther k) = k"

definition observation_receipt :: "string \<Rightarrow> SlackEnvelope \<Rightarrow> Observation \<Rightarrow> time \<Rightarrow> AppendRequest" where
  "observation_receipt event v ob now =
     \<lparr>ap_OrganizationID = env_OrganizationID v, ap_Type = ''observation.'' @ event, ap_ActorID = '''', ap_ResourceID = ob_PublicID ob,
      ap_Metadata = [(''channel_id'', MetaString (env_ChannelID v)), (''event_type'', MetaString (event_kind_text (env_Kind v)))],
      ap_RetentionEpoch = retentionEpoch (ob_ExpiresAt ob) now,
      ap_IdempotencyKey = ''observation/'' @ ob_PublicID ob @ ''/'' @ event, ap_Content = env_Text v\<rparr>"

definition world_receipt :: "Ports \<Rightarrow> AppendRequest \<Rightarrow> string \<Rightarrow> time \<Rightarrow> World \<Rightarrow> World" where
  "world_receipt p r i now w = w\<lparr>w_system := appendReceipt p r i now (w_system w)\<rparr>"

definition queue_envelope ::
  "PipelineDeps \<Rightarrow> TagConfig \<Rightarrow> (nat \<Rightarrow> time) \<Rightarrow> (nat \<Rightarrow> string) \<Rightarrow> SlackEnvelope \<Rightarrow> World \<Rightarrow> (intake_error, AcceptResult, World) outcome" where
  "queue_envelope d cfg clock ids v w =
     (case world_accept v (ids 0) (clock 3) (clock 4) w of
        (Inl e, w1) \<Rightarrow> (Inl e, w1)
      | (Inr (ob, duplicate), w1) \<Rightarrow>
          (case advanceContextSyncWatermark cfg v (clock 5) (clock 6) w1 of
             (Inl e, w2) \<Rightarrow> (Inl e, w2)
           | (Inr _, w2) \<Rightarrow>
               (Inr \<lparr>acc_Duplicate = duplicate, acc_Ignored = False, acc_ResolvedContext = False\<rparr>,
                world_receipt (pd_Ports d) (observation_receipt ''accepted'' v ob (clock 7)) (ids 1) (clock 8) w2)))"

definition integration_trigger_tag :: string where "integration_trigger_tag = ''slack_authorized_integration_trigger''"

text \<open>What happens to an envelope the channel policy lets in.\<close>

definition admit_envelope ::
  "PipelineDeps \<Rightarrow> TagConfig \<Rightarrow> (nat \<Rightarrow> time) \<Rightarrow> (nat \<Rightarrow> string) \<Rightarrow> SlackEnvelope \<Rightarrow> World \<Rightarrow> (intake_error, AcceptResult, World) outcome" where
  "admit_envelope d cfg clock ids v w =
     (if selfAuthoredEnvelope cfg v then retain_context cfg clock (ids 0) v w
      else if MembershipEvent v then retain_context cfg clock (ids 0) v w
      else
        let authorized = IntegrationAuthored v \<and> resolveAuthorizedSlackIntegrationTrigger v (clock 2) w
        in if IntegrationAuthored v \<and> \<not> authorized then retain_context cfg clock (ids 0) v w
           else queue_envelope d cfg clock ids (if authorized then v\<lparr>env_OriginTag := integration_trigger_tag\<rparr> else v) w)"

definition ignored :: AcceptResult where
  "ignored = \<lparr>acc_Duplicate = False, acc_Ignored = True, acc_ResolvedContext = False\<rparr>"

definition group_dm :: string where "group_dm = ''mpim''"
definition direct_message :: string where "direct_message = ''im''"

definition HandleEnvelope ::
  "PipelineDeps \<Rightarrow> TagConfig \<Rightarrow> (nat \<Rightarrow> time) \<Rightarrow> (nat \<Rightarrow> string) \<Rightarrow> SlackEnvelope \<Rightarrow> World \<Rightarrow> (intake_error, AcceptResult, World) outcome" where
  "HandleEnvelope d cfg clock ids v w =
     (if env_ChannelKind v = group_dm then (Inr ignored, w)
      else if tc_ContextSyncEnabled cfg \<and> env_OrganizationID v = tc_OrganizationID cfg \<and> env_TeamID v = tc_TeamID cfg
      then (case ensureContextChannel cfg
                   \<lparr>scc_OrganizationID = env_OrganizationID v, scc_TeamID = env_TeamID v, scc_ChannelID = env_ChannelID v, scc_Name = '''',
                    scc_Restricted = env_Restricted v, scc_RestrictionKnown = (env_OriginTag v \<noteq> ''slack_app_mention''),
                    scc_IsChannel = False, scc_BotIsMember = False, scc_BotMembershipKnown = False\<rparr> (clock 0) w of
              (Inl e, w1) \<Rightarrow> (if e = ErrRestrictionUnknown then (Inr ignored, w1) else (Inl e, w1))
            | (Inr _, w1) \<Rightarrow>
                (case w_scopes w1 of
                   None \<Rightarrow> (Inl ErrNilScopes, w1)
                 | Some st \<Rightarrow>
                     (case orgconfig_Resolve (env_OrganizationID v) (env_TeamID v) (env_ChannelID v) st of
                        Inl _ \<Rightarrow> (Inr ignored, w1)
                      | Inr p \<Rightarrow> if authorizedPolicy p (clock 1) then admit_envelope d cfg clock ids v w1 else (Inr ignored, w1))))
      else admit_envelope d cfg clock ids v w)"

section \<open>History (ImportContextEnvelope, RecoverContextEnvelope)\<close>

text \<open>
  The gate both share: \<open>Inl\<close> is the early return with its error or success, \<open>Inr\<close> the policy
  under which the history may be kept.
\<close>

definition history_policy :: "TagConfig \<Rightarrow> SlackEnvelope \<Rightarrow> time \<Rightarrow> World \<Rightarrow> (intake_error option) + ChannelPolicy" where
  "history_policy cfg v now w =
     (case w_scopes w of
        None \<Rightarrow> Inl (Some ErrContextSyncDisabled)
      | Some st \<Rightarrow>
          if \<not> tc_ContextSyncEnabled cfg then Inl (Some ErrContextSyncDisabled)
          else if env_OrganizationID v \<noteq> tc_OrganizationID cfg \<or> env_TeamID v \<noteq> tc_TeamID cfg then Inl (Some ErrScopeDenied)
          else case orgconfig_Resolve (env_OrganizationID v) (env_TeamID v) (env_ChannelID v) st of
                 Inl _ \<Rightarrow> Inl None
               | Inr p \<Rightarrow>
                   if \<not> authorizedPolicy p now \<or> cp_ContextHistoryMode p = ContextHistorySessionOnly then Inl None else Inr p)"

definition early_return :: "intake_error option \<Rightarrow> intake_error + unit" where
  "early_return r = (case r of None \<Rightarrow> Inr () | Some e \<Rightarrow> Inl e)"

definition ImportContextEnvelope ::
  "TagConfig \<Rightarrow> (nat \<Rightarrow> time) \<Rightarrow> string \<Rightarrow> SlackEnvelope \<Rightarrow> World \<Rightarrow> (intake_error, unit, World) outcome" where
  "ImportContextEnvelope cfg clock i v w =
     (case history_policy cfg v (clock 0) w of
        Inl r \<Rightarrow> (early_return r, w)
      | Inr p \<Rightarrow>
          (case world_import (v\<lparr>env_Restricted := env_Restricted v \<or> cp_Restricted p\<rparr>) i (clock 1) (clock 2) w of
             (Inl e, w1) \<Rightarrow> (Inl e, w1)
           | (Inr _, w1) \<Rightarrow> (Inr (), w1)))"

definition thread_active :: "SlackEnvelope \<Rightarrow> World \<Rightarrow> bool" where
  "thread_active v w \<longleftrightarrow>
     env_ThreadTS v \<noteq> ''''
     \<and> (case sessions_Find (env_OrganizationID v) (env_TeamID v) (env_ChannelID v) (RootThreadTS v) (w_sessions w) of
          Inl _ \<Rightarrow> False | Inr _ \<Rightarrow> True)"

definition recovered_direct :: "PipelineDeps \<Rightarrow> TagConfig \<Rightarrow> ChannelPolicy \<Rightarrow> SlackEnvelope \<Rightarrow> World \<Rightarrow> bool" where
  "recovered_direct d cfg p v w \<longleftrightarrow>
     (let human = (\<not> IntegrationAuthored v \<and> (tc_BotUserID cfg = '''' \<or> env_UserID v \<noteq> tc_BotUserID cfg));
          direct = (human \<and> (env_ChannelKind v = direct_message \<or> env_IsMention v \<or> thread_active v w));
          canRespond = ((cp_ParticipationMode p \<noteq> ModeObserve \<or> env_ChannelKind v = direct_message \<or> HasPrefix (env_ChannelID v) ''D'')
                        \<and> slackOutputChannelAllowed d (env_ChannelID v))
      in direct \<and> canRespond)"

definition RecoverContextEnvelope ::
  "PipelineDeps \<Rightarrow> TagConfig \<Rightarrow> (nat \<Rightarrow> time) \<Rightarrow> (nat \<Rightarrow> string) \<Rightarrow> SlackEnvelope \<Rightarrow> World \<Rightarrow> (intake_error, unit, World) outcome" where
  "RecoverContextEnvelope d cfg clock ids v w =
     (case history_policy cfg v (clock 0) w of
        Inl r \<Rightarrow> (early_return r, w)
      | Inr p \<Rightarrow>
          let v' = v\<lparr>env_Restricted := env_Restricted v \<or> cp_Restricted p\<rparr>
          in if \<not> recovered_direct d cfg p v' w
             then (case world_import v' (ids 0) (clock 1) (clock 2) w of
                     (Inl e, w1) \<Rightarrow> (Inl e, w1)
                   | (Inr _, w1) \<Rightarrow> (Inr (), w1))
             else (case world_accept v' (ids 0) (clock 1) (clock 2) w of
                     (Inl e, w1) \<Rightarrow> (Inl e, w1)
                   | (Inr (ob, duplicate), w1) \<Rightarrow>
                       (Inr (), world_receipt (pd_Ports d) (observation_receipt ''recovered'' v' ob (clock 3)) (ids 1) (clock 4) w1)))"

end
