(* ===== verification/IntakeProperties.thy ===== *)
theory IntakeProperties
  imports Intake PipelineProperties
begin

text \<open>
  What the ingress promises: nothing of an excluded conversation is kept, only turns that may be
  answered reach the decision queue, and the report of a channel by Slack opens no more than the
  organization allows.
\<close>

section \<open>Frames\<close>

lemma ensure_frame [simp]:
  "w_observations (snd (ensureContextChannel cfg ch now w)) = w_observations w"
  "w_system (snd (ensureContextChannel cfg ch now w)) = w_system w"
  "w_sync (snd (ensureContextChannel cfg ch now w)) = w_sync w"
  by (simp_all add: ensureContextChannel_def split: option.splits prod.splits)

lemma watermark_frame [simp]:
  "w_observations (snd (advanceContextSyncWatermark cfg v t1 t2 w)) = w_observations w"
  "w_scopes (snd (advanceContextSyncWatermark cfg v t1 t2 w)) = w_scopes w"
  by (simp_all add: advanceContextSyncWatermark_def Let_def split: option.splits prod.splits sum.splits)

lemma store_frame [simp]:
  "w_scopes (snd (world_import v i t1 t2 w)) = w_scopes w"
  "w_scopes (snd (world_accept v i t1 t2 w)) = w_scopes w"
  "w_observations (snd (world_import v i t1 t2 w)) = snd (observer_Import v i t1 t2 (w_observations w))"
  "w_observations (snd (world_accept v i t1 t2 w)) = snd (observer_Accept v i t1 t2 (w_observations w))"
  by (simp_all add: world_import_def world_accept_def split: prod.splits sum.splits)

lemma receipt_frame [simp]:
  "w_observations (world_receipt p a i now w) = w_observations w" "w_scopes (world_receipt p a i now w) = w_scopes w"
  "w_sessions (world_receipt p a i now w) = w_sessions w" "w_decisions (world_receipt p a i now w) = w_decisions w"
  "sys_jobs (w_system (world_receipt p a i now w)) = sys_jobs (w_system w)"
  "sys_deliveries (w_system (world_receipt p a i now w)) = sys_deliveries (w_system w)"
  "sys_admissions (w_system (world_receipt p a i now w)) = sys_admissions (w_system w)"
  by (simp_all add: world_receipt_def appendReceipt_def)

lemma import_eq:
  "world_import v i t1 t2 w = (r, w') \<Longrightarrow>
     w_scopes w' = w_scopes w \<and> w_observations w' = snd (observer_Import v i t1 t2 (w_observations w))"
  using store_frame [of v i t1 t2 w] by simp

lemma accept_eq:
  "world_accept v i t1 t2 w = (r, w') \<Longrightarrow>
     w_scopes w' = w_scopes w \<and> w_observations w' = snd (observer_Accept v i t1 t2 (w_observations w))"
  using store_frame [of v i t1 t2 w] by simp

lemma watermark_eq:
  "advanceContextSyncWatermark cfg v t1 t2 w = (r, w') \<Longrightarrow> w_scopes w' = w_scopes w \<and> w_observations w' = w_observations w"
  using watermark_frame [of cfg v t1 t2 w] by simp

lemmas frame_eqs = import_eq accept_eq watermark_eq

lemma retain_frame:
  "w_observations (snd (retain_context cfg clock i v w)) = snd (observer_Import v i (clock 3) (clock 4) (w_observations w))"
  "w_scopes (snd (retain_context cfg clock i v w)) = w_scopes w"
  by (auto simp: retain_context_def split: prod.splits sum.splits dest!: frame_eqs)

lemma queue_frame:
  "w_observations (snd (queue_envelope d cfg clock ids v w)) = snd (observer_Accept v (ids 0) (clock 3) (clock 4) (w_observations w))"
  "w_scopes (snd (queue_envelope d cfg clock ids v w)) = w_scopes w"
  by (auto simp: queue_envelope_def split: prod.splits sum.splits dest!: frame_eqs)

section \<open>The observations an envelope adds\<close>

lemma accept_adds:
  assumes "os_observations (snd (observer_accept sc dc v i t1 t2 s)) k = Some ob" "os_observations s k \<noteq> Some ob"
  shows "\<exists>c n ret. ob = new_observation sc dc v i t1 c n ret"
  using assms by (auto simp: observer_accept_def applyProjection_def Let_def split: option.splits if_splits)

lemma new_observation_fields [simp]:
  "ob_DecisionState (new_observation sc dc v i t c n ret) = dc" "ob_Text (new_observation sc dc v i t c n ret) = env_Text v"
  "ob_OriginTag (new_observation sc dc v i t c n ret) = env_OriginTag v"
  "ob_ChannelID (new_observation sc dc v i t c n ret) = env_ChannelID v"
  by (simp_all add: new_observation_def)

lemma import_adds_resolved:
  assumes "os_observations (snd (observer_Import v i t1 t2 s)) k = Some ob" "ob_DecisionState ob = ''pending''"
  shows "os_observations s k = Some ob"
proof (rule ccontr)
  assume "os_observations s k \<noteq> Some ob"
  from accept_adds [OF _ this] assms(1) obtain c n ret where "ob = new_observation ''authorized'' ''resolved'' v i t1 c n ret"
    unfolding observer_Import_def by blast
  then show False using assms(2) by simp
qed

lemma accept_adds_pending:
  assumes "os_observations (snd (observer_Accept v i t1 t2 s)) k = Some ob" "os_observations s k \<noteq> Some ob"
  shows "ob_Text ob = env_Text v \<and> ob_OriginTag ob = env_OriginTag v \<and> ob_ChannelID ob = env_ChannelID v"
  using accept_adds [of "''pending''" "''pending''" v i t1 t2 s k ob] assms by (auto simp: observer_Accept_def)

section \<open>Ingress\<close>

definition in_sync_scope :: "TagConfig \<Rightarrow> SlackEnvelope \<Rightarrow> bool" where
  "in_sync_scope cfg v \<longleftrightarrow> tc_ContextSyncEnabled cfg \<and> env_OrganizationID v = tc_OrganizationID cfg \<and> env_TeamID v = tc_TeamID cfg"

definition channel_authorized :: "SlackEnvelope \<Rightarrow> time \<Rightarrow> World \<Rightarrow> bool" where
  "channel_authorized v now w \<longleftrightarrow>
     (\<exists>st p. w_scopes w = Some st \<and> orgconfig_Resolve (env_OrganizationID v) (env_TeamID v) (env_ChannelID v) st = Inr p
       \<and> authorizedPolicy p now)"

lemma HandleEnvelope_cases:
  "w_observations (snd (HandleEnvelope d cfg clock ids v w)) = w_observations w
   \<or> (\<exists>w1. HandleEnvelope d cfg clock ids v w = admit_envelope d cfg clock ids v w1 \<and> w_observations w1 = w_observations w
        \<and> env_ChannelKind v \<noteq> group_dm \<and> (in_sync_scope cfg v \<longrightarrow> channel_authorized v (clock 1) w1))"
proof (cases "env_ChannelKind v = group_dm \<or> \<not> in_sync_scope cfg v")
  case True
  then show ?thesis by (auto simp: HandleEnvelope_def in_sync_scope_def)
next
  case False
  define ch where "ch = \<lparr>scc_OrganizationID = env_OrganizationID v, scc_TeamID = env_TeamID v, scc_ChannelID = env_ChannelID v, scc_Name = '''',
                    scc_Restricted = env_Restricted v, scc_RestrictionKnown = (env_OriginTag v \<noteq> ''slack_app_mention''),
                    scc_IsChannel = False, scc_BotIsMember = False, scc_BotMembershipKnown = False\<rparr>"
  obtain r1 w1 where e: "ensureContextChannel cfg ch (clock 0) w = (r1, w1)" by fastforce
  then have w1: "w_observations w1 = w_observations w" using ensure_frame(1) [of cfg ch "clock 0" w] by simp
  show ?thesis
    using False w1 e unfolding HandleEnvelope_def in_sync_scope_def ch_def [symmetric] channel_authorized_def
    by (auto split: sum.splits option.splits)
qed

lemma admit_frame: "w_scopes (snd (admit_envelope d cfg clock ids v w)) = w_scopes w"
  by (simp add: admit_envelope_def retain_frame queue_frame Let_def)

text \<open>C12. Of a conversation that is excluded nothing is kept: when an event changes the recorded observations or
  messages, it is no group message, and where context sync governs the workspace the channel's policy
  resolves and authorizes it at that moment.\<close>

theorem retained_only_when_authorized:
  assumes "HandleEnvelope d cfg clock ids v w = (r, w')" "w_observations w' \<noteq> w_observations w"
  shows "env_ChannelKind v \<noteq> group_dm \<and> (in_sync_scope cfg v \<longrightarrow> channel_authorized v (clock 1) w')"
proof -
  from HandleEnvelope_cases [of d cfg clock ids v w] assms obtain w1 where
    "admit_envelope d cfg clock ids v w1 = (r, w')" "env_ChannelKind v \<noteq> group_dm"
    and auth: "in_sync_scope cfg v \<longrightarrow> channel_authorized v (clock 1) w1" by auto
  moreover from this(1) have "w_scopes w' = w_scopes w1" using admit_frame [of d cfg clock ids v w1] by simp
  ultimately show ?thesis by (simp add: channel_authorized_def)
qed

definition trusted_trigger :: "SlackEnvelope \<Rightarrow> time \<Rightarrow> World \<Rightarrow> bool" where
  "trusted_trigger v now w \<longleftrightarrow>
     (\<exists>st p. w_scopes w = Some st \<and> orgconfig_Resolve (env_OrganizationID v) (env_TeamID v) (env_ChannelID v) st = Inr p
       \<and> authorizedOutputPolicy p now \<and> env_BotID v \<in> set (cp_TrustedIntegrationBotIDs p))"

lemma trigger_trusted: "resolveAuthorizedSlackIntegrationTrigger v now w \<Longrightarrow> trusted_trigger v now w"
  by (auto simp: resolveAuthorizedSlackIntegrationTrigger_def trusted_trigger_def channelPolicyTrustsIntegration_def
      split: option.splits sum.splits if_splits)

lemma admit_adds_pending:
  assumes "os_observations (w_observations (snd (admit_envelope d cfg clock ids v w))) k = Some ob" "ob_DecisionState ob = ''pending''"
    "os_observations (w_observations w) k \<noteq> Some ob"
  shows "\<not> selfAuthoredEnvelope cfg v \<and> \<not> MembershipEvent v \<and> ob_Text ob = env_Text v
    \<and> (IntegrationAuthored v \<longrightarrow> trusted_trigger v (clock 2) w \<and> ob_OriginTag ob = integration_trigger_tag)"
proof -
  have no_retain: "snd (admit_envelope d cfg clock ids v w) \<noteq> snd (retain_context cfg clock (ids 0) v w)"
    using assms import_adds_resolved [of v "ids 0" "clock 3" "clock 4" "w_observations w" k ob] by (auto simp: retain_frame)
  define auth where "auth \<longleftrightarrow> IntegrationAuthored v \<and> resolveAuthorizedSlackIntegrationTrigger v (clock 2) w"
  define v' where "v' = (if auth then v\<lparr>env_OriginTag := integration_trigger_tag\<rparr> else v)"
  from no_retain have human: "\<not> selfAuthoredEnvelope cfg v" "\<not> MembershipEvent v" "IntegrationAuthored v \<longrightarrow> auth"
    and q: "admit_envelope d cfg clock ids v w = queue_envelope d cfg clock ids v' w"
    by (auto simp: admit_envelope_def auth_def v'_def Let_def split: if_splits)
  have "ob_Text ob = env_Text v' \<and> ob_OriginTag ob = env_OriginTag v'"
    using assms accept_adds_pending [of v' "ids 0" "clock 3" "clock 4" "w_observations w" k ob] by (auto simp: q queue_frame)
  then show ?thesis using human by (auto simp: v'_def auth_def trigger_trusted)
qed

text \<open>C13. An event adds an observation to the decision queue only when it is a turn Tag may answer: not its
  own message, not a membership notice and, when an integration wrote it, one the channel trusts under an
  output policy in force; such a turn is marked by its origin.\<close>

theorem only_conversation_is_queued:
  assumes "HandleEnvelope d cfg clock ids v w = (r, w')"
    "os_observations (w_observations w') k = Some ob" "ob_DecisionState ob = ''pending''" "os_observations (w_observations w) k \<noteq> Some ob"
  shows "\<not> selfAuthoredEnvelope cfg v \<and> \<not> MembershipEvent v \<and> ob_Text ob = env_Text v
    \<and> (IntegrationAuthored v \<longrightarrow> trusted_trigger v (clock 2) w' \<and> ob_OriginTag ob = integration_trigger_tag)"
proof -
  have "w_observations w' \<noteq> w_observations w" using assms by auto
  with HandleEnvelope_cases [of d cfg clock ids v w] assms obtain w1 where
    w1: "admit_envelope d cfg clock ids v w1 = (r, w')" "w_observations w1 = w_observations w" by auto
  then have "w_scopes w' = w_scopes w1" using admit_frame [of d cfg clock ids v w1] by simp
  with admit_adds_pending [of d cfg clock ids v w1 k ob] w1 assms show ?thesis by (simp add: trusted_trigger_def)
qed

section \<open>Recovered history\<close>

text \<open>C14. Replaying a gap of the history keeps anything at all only where the channel's policy resolves,
  authorizes the channel now and does not keep its history to sessions; and a message it queues for a decision
  was written by a human other than Tag, addresses Tag (a direct message, a mention, or a reply in a thread Tag
  is in), and its channel may be answered: it is a direct message or its policy does more than observe, and the
  output allowlist admits it.\<close>

theorem recovery_queues_direct_turns:
  assumes "RecoverContextEnvelope d cfg clock ids v w = (r, w')"
  shows "w' = w \<or> (\<exists>st p. w_scopes w = Some st
    \<and> orgconfig_Resolve (env_OrganizationID v) (env_TeamID v) (env_ChannelID v) st = Inr p
    \<and> authorizedPolicy p (clock 0) \<and> cp_ContextHistoryMode p \<noteq> ContextHistorySessionOnly
    \<and> (\<forall>k ob. os_observations (w_observations w') k = Some ob \<and> os_observations (w_observations w) k \<noteq> Some ob
          \<and> ob_DecisionState ob = ''pending'' \<longrightarrow>
         \<not> IntegrationAuthored v \<and> \<not> selfAuthoredEnvelope cfg v
         \<and> (env_ChannelKind v = direct_message \<or> env_IsMention v \<or> thread_active v w)
         \<and> (cp_ParticipationMode p \<noteq> ModeObserve \<or> env_ChannelKind v = direct_message \<or> HasPrefix (env_ChannelID v) ''D'')
         \<and> slackOutputChannelAllowed d (env_ChannelID v)))"
proof (cases "history_policy cfg v (clock 0) w")
  case (Inl e)
  then show ?thesis using assms by (simp add: RecoverContextEnvelope_def)
next
  case (Inr p)
  then obtain st where st: "w_scopes w = Some st"
    "orgconfig_Resolve (env_OrganizationID v) (env_TeamID v) (env_ChannelID v) st = Inr p"
    "authorizedPolicy p (clock 0)" "cp_ContextHistoryMode p \<noteq> ContextHistorySessionOnly"
    by (auto simp: history_policy_def split: option.splits sum.splits if_splits)
  define v' where "v' = v\<lparr>env_Restricted := env_Restricted v \<or> cp_Restricted p\<rparr>"
  have same: "IntegrationAuthored v' = IntegrationAuthored v" "thread_active v' w = thread_active v w"
    by (simp_all add: v'_def IntegrationAuthored_def thread_active_def RootThreadTS_def)
  have "recovered_direct d cfg p v' w"
    if fresh: "os_observations (w_observations w') k = Some ob \<and> os_observations (w_observations w) k \<noteq> Some ob
          \<and> ob_DecisionState ob = ''pending''" for k ob
  proof (rule ccontr)
    assume "\<not> recovered_direct d cfg p v' w"
    then have "w_observations w' = snd (observer_Import v' (ids 0) (clock 1) (clock 2) (w_observations w))"
      using assms(1) Inr by (auto simp: RecoverContextEnvelope_def Let_def v'_def split: prod.splits sum.splits dest!: import_eq)
    then show False using import_adds_resolved fresh by metis
  qed
  then show ?thesis
    using st same by (auto simp: recovered_direct_def Let_def v'_def selfAuthoredEnvelope_def)
qed

section \<open>Discovery\<close>

definition channel_key_of :: "SlackContextChannel \<Rightarrow> string" where
  "channel_key_of ch = scopeKey (scc_OrganizationID ch) (scc_TeamID ch) (scc_ChannelID ch)"

lemma discovered_key [simp]: "channelKey (discovered_policy cfg c ch now) = channel_key_of ch"
  by (simp add: discovered_policy_def channelKey_def channel_key_of_def)

lemma save_upsert:
  assumes "save_channel (orgconfig_UpsertContextChannel q st) = (Inr (), st')"
  shows "os_channels st' (channelKey q) = Some (case os_channels st (channelKey q) of Some c \<Rightarrow> refreshed_channel q c | None \<Rightarrow> q\<lparr>cp_Version := 1\<rparr>)"
  using assms by (auto simp: save_channel_def orgconfig_UpsertContextChannel_def Let_def split: sum.splits option.splits)

lemma resolved_stored:
  assumes "orgconfig_Resolve org team channel st = Inr current"
  obtains p where "os_channels st (scopeKey org team channel) = Some p" "cp_ParticipationManagedByMembership current = cp_ParticipationManagedByMembership p"
    "cp_ParticipationMode current = cp_ParticipationMode p"
  using assms by (auto simp: orgconfig_Resolve_def Let_def split: option.splits if_splits)

text \<open>The organization and the workspace a channel may be discovered in.\<close>

definition open_to_discovery :: "OrgStore \<Rightarrow> SlackContextChannel \<Rightarrow> bool" where
  "open_to_discovery st ch \<longleftrightarrow>
     (\<exists>og ws. os_organizations st (scc_OrganizationID ch) = Some og \<and> \<not> org_KillSwitch og
        \<and> (is_dm (scc_ChannelID ch) \<or> org_EnrollmentMode og \<in> {''all_observable_channels'', ''all_joined''})
        \<and> os_workspaces st (workspaceKey (scc_OrganizationID ch) (scc_TeamID ch)) = Some ws \<and> ws_Enabled ws)"

lemma may_discover_open: "may_discover st ch = Inr True \<Longrightarrow> open_to_discovery st ch"
  by (auto simp: may_discover_def open_to_discovery_def orgconfig_GetOrganization_def orgconfig_GetWorkspace_def
      split: option.splits if_splits sum.splits)

text \<open>What the report of a channel may turn its stored policy into.\<close>

definition discovery_ok :: "TagConfig \<Rightarrow> SlackContextChannel \<Rightarrow> OrgStore \<Rightarrow> ChannelPolicy option \<Rightarrow> ChannelPolicy \<Rightarrow> bool" where
  "discovery_ok cfg ch st old new \<longleftrightarrow>
     (case old of
        None \<Rightarrow> open_to_discovery st ch \<and> scc_RestrictionKnown ch \<and> cp_ParticipationMode new \<in> {ModeObserve, ModeAssist}
          \<and> (cp_ParticipationMode new = ModeAssist \<longrightarrow> is_dm (scc_ChannelID ch) \<or> tc_AutoAssistJoinedChannels cfg \<and> scc_BotIsMember ch)
      | Some p \<Rightarrow>
          (cp_Restricted p \<longrightarrow> cp_Restricted new)
          \<and> (\<not> is_dm (scc_ChannelID ch) \<longrightarrow> cp_Enrolled new = cp_Enrolled p \<and> cp_KillSwitch new = cp_KillSwitch p
               \<and> (\<not> cp_ParticipationManagedByMembership p \<longrightarrow> cp_ParticipationMode new = cp_ParticipationMode p)))"

lemma enabled_dm_fields [simp]:
  "channelKey (enabled_dm c ch now) = channelKey c" "cp_Restricted (enabled_dm c ch now) = (cp_Restricted c \<or> scc_Restricted ch)"
  "cp_KillSwitch (enabled_dm c ch now) = cp_KillSwitch c"
  by (simp_all add: enabled_dm_def Let_def channelKey_def)

lemma save_put:
  assumes "save_channel (orgconfig_PutChannel q st) = (Inr (), st')"
  obtains q' where "os_channels st' = (os_channels st)(channelKey q \<mapsto> q')" "os_workspaces st' = os_workspaces st"
    "cp_Restricted q' = cp_Restricted q" "cp_KillSwitch q' = cp_KillSwitch q"
  using assms by (auto simp: save_channel_def orgconfig_PutChannel_def Let_def split: sum.splits)


lemma discovered_fields [simp]:
  "cp_ParticipationMode (discovered_policy cfg c ch now) = fst (discovered_mode cfg c ch)"
  "cp_ParticipationManagedByMembership (discovered_policy cfg c ch now) = snd (discovered_mode cfg c ch)"
  by (simp_all add: discovered_policy_def)

lemma discovered_mode_unmanaged:
  "\<not> is_dm (scc_ChannelID ch) \<Longrightarrow> \<not> cp_ParticipationManagedByMembership c \<Longrightarrow> \<not> snd (discovered_mode cfg (Some c) ch)"
  by (simp add: discovered_mode_def Let_def)

lemma discovered_mode_new:
  "fst (discovered_mode cfg None ch) \<in> {ModeObserve, ModeAssist}
   \<and> (fst (discovered_mode cfg None ch) = ModeAssist \<longrightarrow> is_dm (scc_ChannelID ch) \<or> tc_AutoAssistJoinedChannels cfg \<and> scc_BotIsMember ch)"
  by (simp add: discovered_mode_def Let_def)

lemma unresolved_channel:
  assumes "orgconfig_Resolve org team channel st = Inl OrgErrNotFound" "os_workspaces st (workspaceKey org team) = Some ws"
  shows "os_channels st (scopeKey org team channel) = None"
  using assms by (auto simp: orgconfig_Resolve_def Let_def split: option.splits if_splits)

lemma known_dm_ok:
  assumes "channels_ok st" "orgconfig_Resolve (scc_OrganizationID ch) (scc_TeamID ch) (scc_ChannelID ch) st = Inr current"
    "save_channel (orgconfig_PutChannel (enabled_dm current ch now) st) = (Inr (), st')" "is_dm (scc_ChannelID ch)"
    "os_channels st' (channel_key_of ch) = Some new"
  shows "discovery_ok cfg ch st (os_channels st (channel_key_of ch)) new \<and> cp_KillSwitch new = cp_KillSwitch current
    \<and> os_workspaces st' = os_workspaces st"
proof -
  from assms(2) obtain p where p: "os_channels st (channel_key_of ch) = Some p" "channelKey current = channelKey p"
    "cp_Restricted current = cp_Restricted p"
    by (auto simp: orgconfig_Resolve_def channel_key_of_def channelKey_def Let_def split: option.splits if_splits)
  then have key: "channelKey current = channel_key_of ch" using channels_okD [OF assms(1) p(1)] by simp
  from save_put [OF assms(3)] obtain q' where "os_channels st' = (os_channels st)(channelKey current \<mapsto> q')"
    "os_workspaces st' = os_workspaces st" "cp_Restricted q' = (cp_Restricted current \<or> scc_Restricted ch)" "cp_KillSwitch q' = cp_KillSwitch current"
    by auto
  then show ?thesis using assms(4,5) p key by (auto simp: discovery_ok_def)
qed

text \<open>The report of a channel by Slack creates a policy only in an enabled workspace of an organization
  that is open to discovery, observing unless Tag was made a member or it is a direct message; for a known
  channel it never loosens the restriction, and outside direct messages it leaves enrolment, kill switch
  and a mode chosen by an operator as they are.\<close>

theorem discovery_opens_no_more:
  assumes "channels_ok st" "ensure_channel cfg ch now st = (Inr (), st')"
    "os_channels st' (channel_key_of ch) = Some new" "os_channels st (channel_key_of ch) \<noteq> Some new"
  shows "discovery_ok cfg ch st (os_channels st (channel_key_of ch)) new"
proof (cases "orgconfig_Resolve (scc_OrganizationID ch) (scc_TeamID ch) (scc_ChannelID ch) st")
  case (Inr current)
  from Inr obtain p where p: "os_channels st (channel_key_of ch) = Some p"
    "cp_ParticipationManagedByMembership current = cp_ParticipationManagedByMembership p"
    unfolding channel_key_of_def by (rule resolved_stored)
  show ?thesis
  proof (cases "is_dm (scc_ChannelID ch)")
    case True
    then have "save_channel (orgconfig_PutChannel (enabled_dm current ch now) st) = (Inr (), st')"
      using assms Inr by (auto simp: ensure_channel_def split: if_splits)
    then show ?thesis using known_dm_ok [OF assms(1) Inr _ True assms(3)] by blast
  next
    case False
    then have "save_channel (orgconfig_UpsertContextChannel (discovered_policy cfg (Some current) ch now) st) = (Inr (), st')"
      using assms Inr by (auto simp: ensure_channel_def split: if_splits)
    from save_upsert [OF this] have "new = refreshed_channel (discovered_policy cfg (Some current) ch now) p"
      using p assms(3) by simp
    then show ?thesis
      using False p discovered_mode_unmanaged [OF False, of current cfg] by (auto simp: discovery_ok_def refreshed_channel_fields)
  qed
next
  case (Inl e)
  then have m: "may_discover st ch = Inr True" and nf: "e = OrgErrNotFound"
    and s: "save_channel (orgconfig_UpsertContextChannel (discovered_policy cfg None ch now) st) = (Inr (), st')"
    using assms by (auto simp: ensure_channel_def split: if_splits sum.splits bool.splits)
  from may_discover_open [OF m] obtain ws where "os_workspaces st (workspaceKey (scc_OrganizationID ch) (scc_TeamID ch)) = Some ws"
    by (auto simp: open_to_discovery_def)
  then have none: "os_channels st (channel_key_of ch) = None"
    using unresolved_channel Inl nf unfolding channel_key_of_def by metis
  have "new = (discovered_policy cfg None ch now)\<lparr>cp_Version := 1\<rparr>" using save_upsert [OF s] assms(3) none by simp
  moreover have "scc_RestrictionKnown ch" using m by (auto simp: may_discover_def split: if_splits)
  ultimately show ?thesis
    using may_discover_open [OF m] none discovered_mode_new [of cfg ch] by (simp add: discovery_ok_def)
qed

text \<open>Refreshing a known direct message while its organization or workspace is killed writes the switch
  into the channel itself: the message stays killed for every later setting of the organization.\<close>

theorem dm_refresh_makes_kill_switch_permanent:
  assumes "channels_ok st" "orgconfig_Resolve (scc_OrganizationID ch) (scc_TeamID ch) (scc_ChannelID ch) st = Inr current"
    "is_dm (scc_ChannelID ch)" "cp_KillSwitch current"
    "\<not> contextChannelPolicyCurrent current ch (tc_AutoAssistJoinedChannels cfg) now"
    "ensure_channel cfg ch now st = (Inr (), st')"
  shows "\<exists>q. orgconfig_Resolve (scc_OrganizationID ch) (scc_TeamID ch) (scc_ChannelID ch) (st'\<lparr>os_organizations := m\<rparr>) = Inr q \<and> cp_KillSwitch q"
proof -
  have s: "save_channel (orgconfig_PutChannel (enabled_dm current ch now) st) = (Inr (), st')"
    using assms by (auto simp: ensure_channel_def split: if_splits)
  have ck: "channelKey current = channel_key_of ch"
    using assms(1,2) channels_okD by (fastforce simp: orgconfig_Resolve_def channel_key_of_def channelKey_def Let_def split: option.splits if_splits)
  from save_put [OF s] obtain q' where "os_channels st' (channel_key_of ch) = Some q'" "cp_KillSwitch q'"
    "os_workspaces st' = os_workspaces st"
    using ck assms(4) by (metis enabled_dm_fields(1,3) fun_upd_same)
  moreover from assms(2) obtain ws where "os_workspaces st (workspaceKey (scc_OrganizationID ch) (scc_TeamID ch)) = Some ws"
    by (auto simp: orgconfig_Resolve_def Let_def split: option.splits if_splits)
  ultimately show ?thesis by (auto simp: orgconfig_Resolve_def channel_key_of_def Let_def)
qed


lemma ensure_keeps_ok: "channels_ok st \<Longrightarrow> channels_ok (snd (ensure_channel cfg ch now st))"
  using channels_ok_step [OF org_step.intros(3), of st] channels_ok_step [OF org_step.intros(4), of st]
  by (auto simp: ensure_channel_def save_channel_def split: sum.splits bool.splits prod.splits) (metis snd_conv)+

section \<open>Witnesses\<close>

definition sample_tag_config :: TagConfig where
  "sample_tag_config =
     \<lparr>tc_LiveEnabled = True, tc_OrganizationID = ''o'', tc_TeamID = ''T'', tc_BotUserID = ''UTAG'', tc_ContextSyncEnabled = True,
      tc_AutoAssistJoinedChannels = True, tc_MaxResponsesPerHour = 6, tc_MaxConcurrentJobs = 2, tc_FloodProtectionEnabled = False,
      tc_DefaultProfile = ''standard'', tc_Lookback = 100 * Hour, tc_PromptRetention = 24 * Hour\<rparr>"

definition sample_open_store :: OrgStore where
  "sample_open_store =
     \<lparr>os_organizations = [''o'' \<mapsto> \<lparr>org_PublicID = ''o'', org_Name = ''Org'', org_EnrollmentMode = ''all_joined'', org_KillSwitch = False,
        org_DefaultModelProfile = '''', org_CreatedAt = 1, org_UpdatedAt = 1, org_Version = 1\<rparr>],
      os_workspaces = [''o/T'' \<mapsto> \<lparr>ws_PublicID = ''w'', ws_OrganizationID = ''o'', ws_TeamID = ''T'', ws_Name = ''Team'', ws_Enabled = True,
        ws_CreatedAt = 1, ws_UpdatedAt = 1, ws_Version = 1\<rparr>],
      os_channels = Map.empty\<rparr>"

definition sample_report :: "string \<Rightarrow> SlackContextChannel" where
  "sample_report channel =
     \<lparr>scc_OrganizationID = ''o'', scc_TeamID = ''T'', scc_ChannelID = channel, scc_Name = ''general'', scc_Restricted = False,
      scc_RestrictionKnown = True, scc_IsChannel = True, scc_BotIsMember = True, scc_BotMembershipKnown = True\<rparr>"

lemma sample_open_ok: "channels_ok sample_open_store"
  by (simp add: channels_ok_def sample_open_store_def)

lemma discovery_opens_no_more_witness:
  "\<exists>new. os_channels (snd (ensure_channel sample_tag_config (sample_report ''C'') 100 sample_open_store)) ''o/T/C'' = Some new
     \<and> discovery_ok sample_tag_config (sample_report ''C'') sample_open_store None new"
proof -
  define st' where "st' = snd (ensure_channel sample_tag_config (sample_report ''C'') 100 sample_open_store)"
  have "os_channels st' ''o/T/C'' \<noteq> None" "isl (fst (ensure_channel sample_tag_config (sample_report ''C'') 100 sample_open_store)) = False"
    unfolding st'_def by code_simp+
  then obtain new where new: "os_channels st' ''o/T/C'' = Some new" by blast
  have "ensure_channel sample_tag_config (sample_report ''C'') 100 sample_open_store = (Inr (), st')"
    using \<open>isl _ = False\<close> by (cases "fst (ensure_channel sample_tag_config (sample_report ''C'') 100 sample_open_store)")
      (auto simp: st'_def intro: prod_eqI)
  moreover have "channel_key_of (sample_report ''C'') = ''o/T/C''" by code_simp
  moreover have "os_channels sample_open_store ''o/T/C'' = None" by code_simp
  ultimately show ?thesis
    using discovery_opens_no_more [OF sample_open_ok, of sample_tag_config "sample_report ''C''" 100 st' new] new
    by (simp add: st'_def)
qed

definition killed :: "OrgStore \<Rightarrow> OrgStore" where
  "killed st = st\<lparr>os_organizations := map_option (\<lambda>og. og\<lparr>org_KillSwitch := True\<rparr>) \<circ> os_organizations st\<rparr>"

definition sample_dm_store :: OrgStore where
  "sample_dm_store = killed (snd (ensure_channel sample_tag_config (sample_report ''D1'') 100 sample_open_store))"

lemma killed_ok: "channels_ok st \<Longrightarrow> channels_ok (killed st)"
  by (simp add: channels_ok_def killed_def)

lemma dm_refresh_makes_kill_switch_permanent_witness:
  "\<exists>q. orgconfig_Resolve ''o'' ''T'' ''D1''
       ((snd (ensure_channel sample_tag_config (sample_report ''D1'') (100 + 7 * Hour) sample_dm_store))
          \<lparr>os_organizations := os_organizations sample_open_store\<rparr>) = Inr q \<and> cp_KillSwitch q"
proof -
  define now where "now = 100 + 7 * Hour"
  define r where "r = ensure_channel sample_tag_config (sample_report ''D1'') now sample_dm_store"
  have ok: "channels_ok sample_dm_store"
    unfolding sample_dm_store_def by (intro killed_ok ensure_keeps_ok sample_open_ok)
  have ids: "scc_OrganizationID (sample_report ''D1'') = ''o''" "scc_TeamID (sample_report ''D1'') = ''T''"
    "scc_ChannelID (sample_report ''D1'') = ''D1''" by code_simp+
  have "case orgconfig_Resolve ''o'' ''T'' ''D1'' sample_dm_store of
          Inl e \<Rightarrow> False
        | Inr c \<Rightarrow> cp_KillSwitch c \<and> \<not> contextChannelPolicyCurrent c (sample_report ''D1'') (tc_AutoAssistJoinedChannels sample_tag_config) now"
    unfolding now_def by code_simp
  then obtain c where c: "orgconfig_Resolve ''o'' ''T'' ''D1'' sample_dm_store = Inr c" "cp_KillSwitch c"
    "\<not> contextChannelPolicyCurrent c (sample_report ''D1'') (tc_AutoAssistJoinedChannels sample_tag_config) now"
    by (auto split: sum.splits)
  have "\<not> isl (fst r)" "is_dm ''D1''" unfolding r_def now_def by code_simp+
  then have "r = (Inr (), snd r)" by (cases r, cases "fst r") auto
  then show ?thesis
    using dm_refresh_makes_kill_switch_permanent [OF ok, of "sample_report ''D1''" c sample_tag_config now "snd r" "os_organizations sample_open_store"]
      c \<open>is_dm ''D1''\<close> by (simp add: ids r_def now_def)
qed

definition sample_system :: System where
  "sample_system = \<lparr>sys_jobs = NewJobQueue, sys_deliveries = NewDeliveryQueue, sys_approvals = NewApprovalStore,
     sys_audit = sample_chain0, sys_admissions = NewAdmission\<rparr>"

definition sample_world :: World where
  "sample_world =
     \<lparr>w_system = sample_system, w_observations = NewObserverStore (100 * Hour), w_sessions = NewSessionStore,
      w_decisions = NewDecisionStore, w_flood = \<lparr>fm_limit = 5, fm_window = Hour, fm_counts = Map.empty\<rparr>,
      w_scopes = Some sample_open_store, w_sync = Some NewSyncStore, w_config = None, w_memory = None\<rparr>"

definition sample_turn :: "string \<Rightarrow> SlackEnvelope" where
  "sample_turn body =
     \<lparr>env_OrganizationID = ''o'', env_EnvelopeID = ''e'', env_EventID = ''E1'', env_TeamID = ''T'', env_ChannelID = ''C'',
      env_ChannelKind = ''channel'', env_MessageTS = ''1.0'', env_ThreadTS = '''', env_UserID = ''U1'', env_BotID = '''',
      env_Kind = SlackEventMessage, env_Subtype = '''', env_Text = body, env_Images = [], env_TargetTS = '''', env_EventTime = 90,
      env_ReceivedAt = 95, env_IsMention = True, env_OriginTag = ''slack_message'', env_Restricted = False\<rparr>"

definition sample_handled :: "(intake_error, AcceptResult, World) outcome" where
  "sample_handled = HandleEnvelope sample_deps sample_tag_config (\<lambda>n. 100 + int n) (\<lambda>n. if n = 0 then ''obs'' else ''rcpt'')
     (sample_turn ''<@UTAG> hello'') sample_world"

lemma sample_handled_facts:
  "map_option ob_DecisionState (os_observations (w_observations (snd sample_handled)) ''T/E1'') = Some ''pending''"
  "os_observations (w_observations sample_world) ''T/E1'' = None"
  by code_simp+

lemma retained_only_when_authorized_witness:
  "channel_authorized (sample_turn ''<@UTAG> hello'') 101 (snd sample_handled)"
proof -
  have "w_observations (snd sample_handled) \<noteq> w_observations sample_world" using sample_handled_facts by auto
  moreover have "in_sync_scope sample_tag_config (sample_turn ''<@UTAG> hello'')" by code_simp
  ultimately show ?thesis
    using retained_only_when_authorized [of sample_deps sample_tag_config "\<lambda>n. 100 + int n" "\<lambda>n. if n = 0 then ''obs'' else ''rcpt''"
        "sample_turn ''<@UTAG> hello''" sample_world "fst sample_handled" "snd sample_handled"]
    by (simp add: sample_handled_def)
qed

lemma only_conversation_is_queued_witness:
  "\<exists>ob. os_observations (w_observations (snd sample_handled)) ''T/E1'' = Some ob \<and> ob_Text ob = ''<@UTAG> hello''
     \<and> \<not> selfAuthoredEnvelope sample_tag_config (sample_turn ''<@UTAG> hello'')"
proof -
  from sample_handled_facts obtain ob where ob: "os_observations (w_observations (snd sample_handled)) ''T/E1'' = Some ob"
    "ob_DecisionState ob = ''pending''" by auto
  have "env_Text (sample_turn ''<@UTAG> hello'') = ''<@UTAG> hello''" by (simp add: sample_turn_def)
  then show ?thesis
    using only_conversation_is_queued [of sample_deps sample_tag_config "\<lambda>n. 100 + int n" "\<lambda>n. if n = 0 then ''obs'' else ''rcpt''"
        "sample_turn ''<@UTAG> hello''" sample_world "fst sample_handled" "snd sample_handled" "''T/E1''" ob] ob sample_handled_facts(2)
    by (simp add: sample_handled_def)
qed

definition sample_recovered :: "(intake_error, unit, World) outcome" where
  "sample_recovered = RecoverContextEnvelope sample_deps sample_tag_config (\<lambda>n. 200 + int n) (\<lambda>n. if n = 0 then ''obs2'' else ''rcpt2'')
     ((sample_turn ''<@UTAG> missed'')\<lparr>env_EventID := ''E2'', env_MessageTS := ''2.0'', env_ChannelKind := ''im''\<rparr>) (snd sample_handled)"

lemma sample_recovered_facts:
  "map_option ob_DecisionState (os_observations (w_observations (snd sample_recovered)) ''T/E2'') = Some ''pending''"
  "os_observations (w_observations (snd sample_handled)) ''T/E2'' = None"
  by code_simp+

lemma recovery_queues_direct_turns_witness:
  "\<exists>st p. orgconfig_Resolve ''o'' ''T'' ''C'' st = Inr p \<and> authorizedPolicy p 200 \<and> cp_ContextHistoryMode p \<noteq> ContextHistorySessionOnly
     \<and> slackOutputChannelAllowed sample_deps ''C''
     \<and> map_option ob_DecisionState (os_observations (w_observations (snd sample_recovered)) ''T/E2'') = Some ''pending''"
proof -
  let ?v = "(sample_turn ''<@UTAG> missed'')\<lparr>env_EventID := ''E2'', env_MessageTS := ''2.0'', env_ChannelKind := ''im''\<rparr>"
  from sample_recovered_facts(1) obtain ob where ob: "os_observations (w_observations (snd sample_recovered)) ''T/E2'' = Some ob"
    "ob_DecisionState ob = ''pending''" by auto
  have ids: "env_OrganizationID ?v = ''o''" "env_TeamID ?v = ''T''" "env_ChannelID ?v = ''C''" by (simp_all add: sample_turn_def)
  have "RecoverContextEnvelope sample_deps sample_tag_config (\<lambda>n. 200 + int n) (\<lambda>n. if n = 0 then ''obs2'' else ''rcpt2'') ?v (snd sample_handled)
      = (fst sample_recovered, snd sample_recovered)"
    by (simp add: sample_recovered_def)
  from recovery_queues_direct_turns [OF this, unfolded ids] ob sample_recovered_facts obtain st p
    where "orgconfig_Resolve ''o'' ''T'' ''C'' st = Inr p" "authorizedPolicy p 200" "cp_ContextHistoryMode p \<noteq> ContextHistorySessionOnly"
      "slackOutputChannelAllowed sample_deps ''C''" by fastforce
  with sample_recovered_facts(1) show ?thesis by blast
qed

end

