(* ===== verification/PipelineText.thy ===== *)
theory PipelineText
  imports ContextPacks ClassifierPolicy
begin

text \<open>
  The textual judgements of \<^verbatim>\<open>core/pipeline/pipeline.go\<close> and \<^verbatim>\<open>thread_title.go\<close>: which messages are
  links or deletions, what a request asks of the presentation, whom it mentions, which sources
  the agent gets as the focus of the conversation, and the titles and summaries shown to people.
\<close>

section \<open>Patterns\<close>

definition rx_words :: "string list \<Rightarrow> regex" where
  "rx_words ws = rx_seq [RxWordB, rx_alt (map rx_fold ws), RxWordB]"

definition rx_at_least :: "nat \<Rightarrow> regex \<Rightarrow> regex" where
  "rx_at_least n r = rx_seq (replicate n r @ [RxStar r])"

definition rx_http :: regex where
  "rx_http = rx_seq [RxLit ''http'', rx_opt (RxLit ''s''), RxLit ''://'']"

definition slackLinkOnlyPattern :: regex where
  "slackLinkOnlyPattern =
     rx_seq [RxBegin,
       rx_plus (rx_seq [RxStar rx_space,
         rx_alt [rx_seq [RxLit ''<'', rx_http, rx_plus (rx_not_in (CHR ''>'' # space_bytes)),
                         rx_opt (rx_seq [RxLit ''|'', RxStar (rx_not_in ''>'')]), RxLit ''>''],
                 rx_seq [rx_http, rx_plus rx_nonspace]],
         RxStar rx_space]),
       RxEnd]"

definition incidentTermPattern :: regex where
  "incidentTermPattern = rx_words [''incident'', ''outage'', ''down'']"

definition picture_words :: "string list" where
  "picture_words = [''image'', ''picture'', ''illustration'', ''graphic'', ''logo'', ''artwork'', ''photo'']"

definition imageGenerationIntentPattern :: regex where
  "imageGenerationIntentPattern =
     rx_alt [rx_seq [rx_words [''generate'', ''create'', ''make'', ''design'', ''draw'', ''render'', ''produce''],
               RxRep 80 rx_any, rx_words picture_words],
             rx_seq [rx_words picture_words, RxRep 80 rx_any,
               rx_words [''generate'', ''create'', ''make'', ''draw'', ''render'', ''produce'']]]"

definition slackUserIDPattern :: regex where
  "slackUserIDPattern = rx_seq [RxBegin, RxLit ''U'', rx_plus rx_upper_digit, RxEnd]"

definition slackUserMentionPattern :: regex where
  "slackUserMentionPattern = rx_seq [RxLit ''<@U'', rx_plus rx_upper_digit, RxLit ''>'']"

definition containsIncident :: "string \<Rightarrow> bool" where
  "containsIncident text = MatchString incidentTermPattern text"

definition explicitImageGenerationRequested :: "string \<Rightarrow> bool" where
  "explicitImageGenerationRequested text = MatchString imageGenerationIntentPattern (TrimSpace text)"

section \<open>Turns that are not worth a decision\<close>

text \<open>\<^verbatim>\<open>strings.EqualFold\<close> with the tombstone text of Slack.\<close>

definition tombstone :: "string \<Rightarrow> bool" where
  "tombstone text = MatchString (rx_seq [RxBegin, rx_fold ''this message was deleted.'', RxEnd]) text"

definition isDeletedSlackTurn :: "SlackEnvelope \<Rightarrow> bool \<Rightarrow> bool" where
  "isDeletedSlackTurn v activeThread \<longleftrightarrow>
     (if env_Kind v = SlackEventDelete \<or> env_Subtype v = ''message_deleted'' then True
      else
        let t = TrimSpace (env_Text v)
        in env_Kind v = SlackEventEdit \<and> (t = '''' \<or> tombstone t) \<and> \<not> env_IsMention v \<and> \<not> activeThread)"

definition isAmbientLinkOnlySlackTurn :: "SlackEnvelope \<Rightarrow> bool \<Rightarrow> bool" where
  "isAmbientLinkOnlySlackTurn v activeThread \<longleftrightarrow>
     (if env_IsMention v \<or> activeThread \<or> env_ChannelKind v = ''im'' \<or> HasPrefix (env_ChannelID v) ''D'' then False
      else MatchString slackLinkOnlyPattern (env_Text v))"

text \<open>Every origin but the three known ones counts as a loop of workflows.\<close>

definition isWorkflowLoopOrigin :: "string \<Rightarrow> bool" where
  "isWorkflowLoopOrigin tag \<longleftrightarrow> tag \<notin> {'''', ''slack_message'', ''slack_app_mention''}"

section \<open>What a decision calls for\<close>

definition createsJob :: "ClassificationDecision \<Rightarrow> bool" where
  "createsJob d \<longleftrightarrow>
     (if cd_DirectReply d \<noteq> '''' \<or> \<not> cd_RequiresFullAgent d then False
      else cd_Outcome d \<in> {OutcomeReplyInThread, OutcomeReplyInChannel, OutcomeStartBackgroundJob, OutcomeEscalateForApproval})"

definition hasDirectReply :: "ClassificationDecision \<Rightarrow> bool" where
  "hasDirectReply d \<longleftrightarrow>
     cd_DirectReply d \<noteq> '''' \<and> cd_Outcome d \<in> {OutcomeReplyInThread, OutcomeReplyInChannel} \<and> \<not> cd_RequiresFullAgent d"

definition directReplyThreadTS :: "SlackEnvelope \<Rightarrow> ClassificationDecision \<Rightarrow> string" where
  "directReplyThreadTS v d = (if cd_Outcome d = OutcomeReplyInThread then RootThreadTS v else '''')"

lemma creates_job_or_reply: "\<not> (createsJob d \<and> hasDirectReply d)"
  by (simp add: createsJob_def hasDirectReply_def)

section \<open>The input of the agent (buildAgentInput)\<close>

definition presentationRequirements :: "string \<Rightarrow> string list" where
  "presentationRequirements request =
     (let l = ToLower request;
          explicitTable = containsAny l [''table'', ''matrix'', ''tabular'', ''columns''];
          repeatedComparison = containsAny l [''compare'', ''comparison'', ''difference between'', ''differ''];
          choiceVerb = containsAny l [''choose'', ''pick'', ''select''];
          choiceComparison = (choiceVerb \<and> containsAny l ['' instead of '', '' versus '', '' vs '', '' over ''])
      in if explicitTable \<or> repeatedComparison \<or> choiceComparison then [''native_table''] else [])"

text \<open>The distinct users a text mentions, in their order and without Tag itself; at most ten of them.\<close>

definition mention_user :: "string \<Rightarrow> string" where
  "mention_user m = butlast (drop 2 m)"

fun collect_users :: "string \<Rightarrow> string list \<Rightarrow> string list \<Rightarrow> string list" where
  "collect_users tagID [] acc = acc"
| "collect_users tagID (u # us) acc =
     (if u = tagID \<or> u \<in> set acc then collect_users tagID us acc
      else if length acc + 1 = 10 then acc @ [u]
      else collect_users tagID us (acc @ [u]))"

definition requestedUserMentionIDs :: "string \<Rightarrow> string \<Rightarrow> string list" where
  "requestedUserMentionIDs text tagID = collect_users tagID (map mention_user (FindAllString slackUserMentionPattern text)) []"

lemma collect_users_bounded:
  "distinct acc \<Longrightarrow> tagID \<notin> set acc \<Longrightarrow> length acc < 10 \<Longrightarrow>
     distinct (collect_users tagID us acc) \<and> tagID \<notin> set (collect_users tagID us acc) \<and> length (collect_users tagID us acc) \<le> 10
     \<and> set (collect_users tagID us acc) \<subseteq> set acc \<union> set us"
proof (induction us arbitrary: acc)
  case (Cons u us)
  then show ?case
  proof (cases "u = tagID \<or> u \<in> set acc \<or> length acc + 1 = 10")
    case False
    then have "distinct (acc @ [u])" "tagID \<notin> set (acc @ [u])" "length (acc @ [u]) < 10" using Cons.prems by auto
    from Cons.IH [OF this] False show ?thesis by auto
  qed (use Cons in auto)
qed auto

definition conversational :: "SlackEnvelope \<Rightarrow> ContextSource \<Rightarrow> bool" where
  "conversational v s \<longleftrightarrow>
     \<not> (src_ChannelID s \<noteq> env_ChannelID v \<or> src_ID s = env_ChannelID v @ ''/'' @ env_MessageTS v
        \<or> src_DisclosureClass s \<noteq> DisclosureDestinationSafe
        \<or> (src_Provenance s \<noteq> ''human_message'' \<and> src_Provenance s \<noteq> ''agent_output_unverified''))"

definition agentConversationFocus :: "SlackEnvelope \<Rightarrow> ContextSource list \<Rightarrow> nat \<Rightarrow> ContextSource list" where
  "agentConversationFocus v sources limit =
     (if env_ChannelID v = '''' \<or> limit = 0 then []
      else let focus = sort_key src_ObservedAt (filter (conversational v) sources)
           in drop (length focus - limit) focus)"

text \<open>The payload that is encoded as JSON for the worker.\<close>

record InputSource =
  is_ID :: string
  is_ChannelID :: string
  is_ChannelName :: string
  is_AuthorID :: string
  is_Partition :: ContextPartition
  is_Provenance :: string
  is_Text :: string
  is_ObservedAt :: time

record AgentInput =
  ai_Request :: string
  ai_ImageAttachmentCount :: int
  ai_ImageGenerationRequested :: bool
  ai_AllowedUserMentionIDs :: "string list"
  ai_ResponseIntent :: string
  ai_ReleasableEvidenceIDs :: "string list"
  ai_SourceWriteRequested :: bool
  ai_ProductRetrievalRequired :: bool
  ai_PresentationRequirements :: "string list"
  ai_ConversationFocus :: "InputSource list"
  ai_AuthorizedContext :: "InputSource list"

definition input_source :: "ContextSource \<Rightarrow> InputSource" where
  "input_source s =
     \<lparr>is_ID = src_ID s, is_ChannelID = src_ChannelID s, is_ChannelName = src_ChannelName s, is_AuthorID = src_AuthorID s,
      is_Partition = src_Partition s, is_Provenance = src_Provenance s, is_Text = src_Text s, is_ObservedAt = src_ObservedAt s\<rparr>"

definition authorized_source :: "ContextSource \<Rightarrow> bool" where
  "authorized_source s \<longleftrightarrow> src_DisclosureClass s = DisclosureDestinationSafe \<and> src_ID s \<noteq> ''system/classifier''"

definition agent_input :: "SlackEnvelope \<Rightarrow> ContextPackRevision \<Rightarrow> ClassificationDecision \<Rightarrow> string \<Rightarrow> AgentInput" where
  "agent_input v p d tagID =
     \<lparr>ai_Request = env_Text v, ai_ImageAttachmentCount = int (length (env_Images v)),
      ai_ImageGenerationRequested = explicitImageGenerationRequested (env_Text v),
      ai_AllowedUserMentionIDs = requestedUserMentionIDs (env_Text v) tagID, ai_ResponseIntent = cd_ResponseIntent d,
      ai_ReleasableEvidenceIDs = cd_ReleasableEvidenceIDs d, ai_SourceWriteRequested = cd_SourceWriteRequested d,
      ai_ProductRetrievalRequired = cd_ProductRetrievalRequired d, ai_PresentationRequirements = presentationRequirements (env_Text v),
      ai_ConversationFocus = map input_source (agentConversationFocus v (pack_Sources p) 8),
      ai_AuthorizedContext = map input_source (filter authorized_source (pack_Sources p))\<rparr>"

text \<open>
  \<open>marshal\<close> is \<^verbatim>\<open>json.Marshal\<close> of the payload, \<open>None\<close> its error; \<open>unmarshal\<close> is the decoding the
  worker applies to the input of a job.
\<close>

definition buildAgentInput ::
  "(AgentInput \<Rightarrow> string option) \<Rightarrow> SlackEnvelope \<Rightarrow> ContextPackRevision \<Rightarrow> ClassificationDecision \<Rightarrow> string \<Rightarrow> string" where
  "buildAgentInput marshal v p d tagID =
     (case marshal (agent_input v p d tagID) of
        Some s \<Rightarrow> s
      | None \<Rightarrow> ''{\"request\":\"unable to encode authorized context\",\"authorized_context\":[]}'')"

record AgentPolicyFlags =
  pf_SourceWriteRequested :: bool
  pf_ProductRetrievalRequired :: bool
  pf_ImageGenerationRequested :: bool

definition agentInputPolicyFlags :: "(string \<Rightarrow> AgentInput option) \<Rightarrow> string \<Rightarrow> AgentPolicyFlags" where
  "agentInputPolicyFlags unmarshal input =
     (case unmarshal input of
        None \<Rightarrow> \<lparr>pf_SourceWriteRequested = False, pf_ProductRetrievalRequired = False, pf_ImageGenerationRequested = False\<rparr>
      | Some a \<Rightarrow> \<lparr>pf_SourceWriteRequested = ai_SourceWriteRequested a, pf_ProductRetrievalRequired = ai_ProductRetrievalRequired a,
                    pf_ImageGenerationRequested = ai_ImageGenerationRequested a\<rparr>)"

definition authoritativeProductRetrievalCompleted :: "string set \<Rightarrow> bool" where
  "authoritativeProductRetrievalCompleted operations \<longleftrightarrow>
     (\<exists>op \<in> set [''telemetryos.wiki/read/get'', ''telemetryos.product-docs/read/docs-page'', ''telemetryos.product-docs/read/corporate-full''].
        op \<in> operations)"

text \<open>
  The mentions a result may contain: users the request named, and the authors and channels of the
  evidence the decision released.  \<open>add_new\<close> appends what is not listed yet.
\<close>

definition add_new :: "string \<Rightarrow> string list \<Rightarrow> string list" where
  "add_new x xs = (if x \<in> set xs then xs else xs @ [x])"

definition named_user :: "string \<Rightarrow> string \<Rightarrow> bool" where
  "named_user request u \<longleftrightarrow> MatchString slackUserIDPattern u \<and> Contains request (''<@'' @ u @ ''>'')"

definition allow_source :: "string list \<Rightarrow> InputSource \<Rightarrow> string list \<times> string list \<Rightarrow> string list \<times> string list" where
  "allow_source selected s acc =
     (if is_ID s \<notin> set selected then acc
      else case acc of (users, channels) \<Rightarrow>
        (if is_AuthorID s \<noteq> '''' then add_new (is_AuthorID s) users else users,
         if is_ChannelID s \<noteq> '''' then add_new (is_ChannelID s) channels else channels))"

definition trustedMentionAllowlist :: "(string \<Rightarrow> AgentInput option) \<Rightarrow> string \<Rightarrow> SlackMentionAllowlist" where
  "trustedMentionAllowlist unmarshal input =
     (case unmarshal input of
        None \<Rightarrow> \<lparr>allow_UserIDs = [], allow_ChannelIDs = []\<rparr>
      | Some a \<Rightarrow>
          let named = fold add_new (filter (named_user (ai_Request a)) (ai_AllowedUserMentionIDs a)) [];
              (users, channels) = fold (allow_source (ai_ReleasableEvidenceIDs a)) (ai_AuthorizedContext a) (named, [])
          in \<lparr>allow_UserIDs = users, allow_ChannelIDs = channels\<rparr>)"

section \<open>Shown to people\<close>

definition ellipsis :: string where "ellipsis = [CHR 0xE2, CHR 0x80, CHR 0xA6]"

definition boundedActivityText :: "string \<Rightarrow> nat \<Rightarrow> string" where
  "boundedActivityText value maximum =
     (let v = Join (Fields value) '' ''
      in if length (runes v) \<le> maximum then v else TrimSpace (rune_slice v 0 (maximum - 1)) @ ellipsis)"

fun outcome_text :: "ClassificationOutcome \<Rightarrow> string" where
  "outcome_text OutcomeSilent = ''silent''"
| "outcome_text OutcomeReact = ''react''"
| "outcome_text OutcomeReplyInThread = ''reply_in_thread''"
| "outcome_text OutcomeReplyInChannel = ''reply_in_channel''"
| "outcome_text OutcomeStartBackgroundJob = ''start_background_job''"
| "outcome_text OutcomeEscalateForApproval = ''escalate_for_approval''"
| "outcome_text (OutcomeOther x) = x"

fun humanizeOutcome :: "ClassificationOutcome \<Rightarrow> string" where
  "humanizeOutcome OutcomeReplyInChannel = ''Reply in channel''"
| "humanizeOutcome OutcomeReplyInThread = ''Reply in thread''"
| "humanizeOutcome OutcomeReact = ''Reaction only''"
| "humanizeOutcome OutcomeStartBackgroundJob = ''Background work''"
| "humanizeOutcome OutcomeEscalateForApproval = ''Approval required''"
| "humanizeOutcome OutcomeSilent = ''Stayed silent''"
| "humanizeOutcome (OutcomeOther x) = x"

section \<open>Thread titles (thread\_title.go)\<close>

definition defaultSlackThreadTitle :: string where "defaultSlackThreadTitle = ''Tag request''"
definition maxSlackThreadTitleRunes :: nat where "maxSlackThreadTitleRunes = 80"

definition slackThreadTitleMarkupPattern :: regex where
  "slackThreadTitleMarkupPattern = rx_seq [RxLit ''<'', RxStar (rx_not_in [CHR ''>'', CHR 0x0D, CHR 0x0A]), RxLit ''>'']"

definition slackThreadTitleURLPattern :: regex where
  "slackThreadTitleURLPattern = rx_seq [RxWordB, rx_url_scheme_fold, rx_plus rx_nonspace]"

definition slackThreadTitleCodePattern :: regex where
  "slackThreadTitleCodePattern = rx_seq [RxLit [CHR 0x60], RxStar (rx_not_in [CHR 0x60]), RxLit [CHR 0x60]]"

definition slackThreadTitleSecretPattern :: regex where
  "slackThreadTitleSecretPattern =
     rx_seq [RxWordB,
       rx_alt [rx_seq [rx_fold ''api'', rx_opt (rx_in ''_-''), rx_fold ''key''],
               rx_seq [rx_fold ''access'', rx_opt (rx_in ''_-''), rx_fold ''token''],
               rx_seq [rx_fold ''auth'', rx_opt (rx_fold ''orization'')],
               rx_fold ''bearer'', rx_fold ''password'', rx_fold ''passwd'', rx_fold ''secret'', rx_fold ''token''],
       RxWordB, RxStar rx_space, rx_opt (rx_in '':=''), RxStar rx_space, rx_plus rx_nonspace]"

definition rx_opaque :: regex where
  "rx_opaque =
     RxRune (\<lambda>r. case r of
         [c] \<Rightarrow> (CHR ''A'' \<le> c \<and> c \<le> CHR ''Z'') \<or> (CHR ''a'' \<le> c \<and> c \<le> CHR ''z'') \<or> (CHR ''0'' \<le> c \<and> c \<le> CHR ''9'')
                \<or> c \<in> set ''_+/=-''
       | _ \<Rightarrow> False)"

definition slackThreadTitleOpaquePattern :: regex where
  "slackThreadTitleOpaquePattern =
     rx_seq [RxWordB, rx_alt [rx_at_least 25 rx_opaque, rx_at_least 12 (rx_range CHR ''0'' CHR ''9'')], RxWordB]"

text \<open>\<^verbatim>\<open>unicode.IsControl\<close>: U+0000 to U+001F and U+007F to U+009F.\<close>

definition is_control :: "string \<Rightarrow> bool" where
  "is_control r \<longleftrightarrow> valid_rune_len r = length r \<and> (rune_value r < 0x20 \<or> (0x7F \<le> rune_value r \<and> rune_value r < 0xA0))"

definition title_rune :: "string \<Rightarrow> string" where
  "title_rune r =
     (if is_control r then '' ''
      else if r = ''<'' \<or> r = ''>'' \<or> r = [CHR 0x60] then ''''
      else rune_string r)"

text \<open>\<^verbatim>\<open>strings.Trim\<close> and \<^verbatim>\<open>TrimRight\<close> with a set of code points.\<close>

definition trim_right_runes :: "string list \<Rightarrow> string \<Rightarrow> string" where
  "trim_right_runes cutset s = concat (rev (dropWhile (\<lambda>r. r \<in> set cutset) (rev (runes s))))"

definition trim_runes :: "string list \<Rightarrow> string \<Rightarrow> string" where
  "trim_runes cutset s = trim_right_runes cutset (concat (dropWhile (\<lambda>r. r \<in> set cutset) (runes s)))"

definition title_punctuation :: "string list" where
  "title_punctuation = map (\<lambda>c. [c]) '' .,;:!?-'' @ [em_dash, en_dash, ''_'']"

text \<open>\<open>upper\<close> is \<^verbatim>\<open>unicode.ToUpper\<close> of a code point outside ASCII.\<close>

definition upper_rune :: "(string \<Rightarrow> string) \<Rightarrow> string \<Rightarrow> string" where
  "upper_rune upper r =
     (case r of
        [c] \<Rightarrow> (if CHR ''a'' \<le> c \<and> c \<le> CHR ''z'' then [char_of (of_char c - 32 :: nat)] else r)
      | _ \<Rightarrow> upper r)"

definition title_words :: "string \<Rightarrow> string" where
  "title_words value =
     trim_runes (title_punctuation @ [[CHR 0x09], [CHR 0x0D], [CHR 0x0A], [CHR 0x22], [CHR 0x27]])
       (Join (Fields (concat (map title_rune (runes value)))) '' '')"

definition shorten_title :: "string list \<Rightarrow> string" where
  "shorten_title rs =
     (let short = TrimSpace (concat (take (maxSlackThreadTitleRunes - 1) rs));
          short1 = (case LastIndex short '' '' of
                      Some b \<Rightarrow> if maxSlackThreadTitleRunes div 2 \<le> b then take b short else short
                    | None \<Rightarrow> short);
          short2 = trim_right_runes title_punctuation short1
      in if short2 = '''' then defaultSlackThreadTitle else short2 @ ellipsis)"

definition safeSlackThreadTitle :: "(string \<Rightarrow> string) \<Rightarrow> string \<Rightarrow> string" where
  "safeSlackThreadTitle upper value =
     (let v = ReplaceAllString slackThreadTitleURLPattern
                (ReplaceAllString slackThreadTitleMarkupPattern (ReplaceAllString slackThreadTitleCodePattern value '' '') '' '') '' ''
      in if MatchString slackThreadTitleSecretPattern v \<or> MatchString slackThreadTitleOpaquePattern v then defaultSlackThreadTitle
         else
           let words = title_words v
           in if words = '''' then defaultSlackThreadTitle
              else let rs = upper_rune upper (hd (runes words)) # tl (runes words)
                   in if length rs \<le> maxSlackThreadTitleRunes then concat rs else shorten_title rs)"

end
