(* ===== verification/Decide.thy ===== *)
theory Decide
  imports Intake PipelineText Triggers
begin

text \<open>
  The deciding half of \<^verbatim>\<open>core/pipeline/pipeline.go\<close>: how the context of an observation is assembled
  (\<^verbatim>\<open>buildContextPack\<close>), how the decision is taken, recorded and acted on (\<^verbatim>\<open>decideObservation\<close>), the
  worker that claims observations (\<^verbatim>\<open>processOneDecision\<close>) and the gate of the heartbeats
  (\<^verbatim>\<open>EvaluateHeartbeat\<close>).  The activity feed, the usage counters and the log leave no trace in the
  stores and are left out.
\<close>

section \<open>Collaborators\<close>

record SituationFact =
  sf_PublicID :: string
  sf_ChannelID :: string
  sf_Summary :: string
  sf_UpdatedAt :: time
  sf_ExpiresAt :: time

record SlackReactionRequest =
  rq_IdempotencyKey :: string
  rq_TeamID :: string
  rq_ChannelID :: string
  rq_MessageTS :: string
  rq_Emoji :: string

text \<open>
  \<open>dd_Project\<close> is the organization projector (its success), \<open>dd_Facts\<close> its recall, \<open>dd_SavePack\<close> the
  store of context packs (its success) and \<open>dd_React\<close> the Slack call for a reaction, answered by
  whether it was a duplicate; the first three may be nil.  \<open>dd_Marshal\<close> and \<open>dd_Canonical\<close> are
  \<^verbatim>\<open>json.Marshal\<close>, \<open>dd_Printable\<close> is \<^verbatim>\<open>unicode.IsPrint\<close>.  \<open>dd_StartedAt\<close> is when the pipeline was
  created.
\<close>

record DecideDeps =
  dd_Pipeline :: PipelineDeps
  dd_Config :: TagConfig
  dd_Classifier :: ClassifierService
  dd_Builder :: PackBuilder
  dd_Canonical :: "PackCanonical \<Rightarrow> string"
  dd_Marshal :: "AgentInput \<Rightarrow> string option"
  dd_Printable :: "string \<Rightarrow> bool"
  dd_StartedAt :: time
  dd_Project :: "(Observation \<Rightarrow> bool) option"
  dd_Facts :: "(string \<Rightarrow> time \<Rightarrow> int \<Rightarrow> SituationFact list option) option"
  dd_SavePack :: "(ContextPackRevision \<Rightarrow> int \<Rightarrow> bool) option"
  dd_React :: "SlackReactionRequest \<Rightarrow> string + bool"

text \<open>One call's clock, fresh identifiers and map orders.\<close>

record Env =
  en_clock :: "nat \<Rightarrow> time"
  en_ids :: "nat \<Rightarrow> string"
  en_messages :: "string list"
  en_channels :: "string list"
  en_memories :: "string list"

datatype decide_error =
    DecideScopeDenied
  | DecideObserver observer_error
  | DecideRestricted observer_error
  | DecideProject
  | DecideRecall
  | DecidePack pack_error
  | DecideSavePack
  | DecideRecord decision_error
  | DecideOutput observer_error
  | DecideDelivery coordinator_error
  | DecideRoute
  | DecideReasoning
  | DecideSession session_error
  | DecideJob job_error

section \<open>Context (buildContextPack)\<close>

text \<open>What the loop over the channel policies collects.\<close>

record ChannelScan =
  sn_channels :: "string list"
  sn_restricted :: "string \<rightharpoonup> bool"
  sn_names :: "string \<rightharpoonup> string"
  sn_membership :: string
  sn_sessionOnly :: bool

definition start_scan :: ChannelScan where
  "start_scan = \<lparr>sn_channels = [], sn_restricted = Map.empty, sn_names = Map.empty,
                sn_membership = ''stub-membership/v1'', sn_sessionOnly = False\<rparr>"

definition scan_policy :: "string \<Rightarrow> time \<Rightarrow> ChannelPolicy \<Rightarrow> ChannelScan \<Rightarrow> ChannelScan" where
  "scan_policy target now p sn =
     (if \<not> authorizedPolicy p now then sn
      else
        let s1 = sn\<lparr>sn_restricted := (sn_restricted sn)(cp_ChannelID p \<mapsto> cp_Restricted p),
                    sn_names := (sn_names sn)(cp_ChannelID p \<mapsto> cp_Name p)\<rparr>;
            s2 = (if cp_ChannelID p = target
                  then s1\<lparr>sn_membership := cp_MembershipRevision p,
                          sn_sessionOnly := (cp_ContextHistoryMode p = ContextHistorySessionOnly)\<rparr> else s1)
        in if (sn_sessionOnly s2 \<and> cp_ChannelID p \<noteq> target) \<or> (cp_Restricted p \<and> cp_ChannelID p \<noteq> target) then s2
           else s2\<lparr>sn_channels := sn_channels s2 @ [cp_ChannelID p]\<rparr>)"

definition scan_channels :: "Env \<Rightarrow> SlackEnvelope \<Rightarrow> time \<Rightarrow> World \<Rightarrow> ChannelScan" where
  "scan_channels e v now w =
     (case w_scopes w of
        Some st \<Rightarrow> fold (scan_policy (env_ChannelID v) now) (orgconfig_ListChannels (en_channels e) (env_OrganizationID v) st) start_scan
      | None \<Rightarrow> start_scan\<lparr>sn_channels := observer_Channels (en_messages e) (env_OrganizationID v) (w_observations w)\<rparr>)"

definition candidate :: "string \<Rightarrow> string \<Rightarrow> string \<Rightarrow> int \<Rightarrow> ContextPartition \<Rightarrow> string \<Rightarrow> string \<Rightarrow> int \<Rightarrow> time \<Rightarrow> ContextCandidate" where
  "candidate org channel i version part provenance text priority observed =
     \<lparr>cand_ID = i, cand_Version = version, cand_OrganizationID = org, cand_ChannelID = channel, cand_ChannelName = '''',
      cand_AuthorID = '''', cand_Partition = part, cand_Provenance = provenance, cand_Text = text, cand_Priority = priority,
      cand_ObservedAt = observed, cand_DisclosureClass = DisclosureDestinationSafe, cand_Required = False,
      cand_SourceExpiresAt = zero_time\<rparr>"

definition classifier_directive :: string where
  "classifier_directive =
     ''Tool-free Slack classification. Select action, placement, reaction, agent profile, reasoning effort, and evidence IDs. '' @
     ''Restricted signals and agent-generated outputs cannot ground factual claims. '' @
     ''Source-linked model memory is derived context and needs corroboration for conflicts or consequential claims; '' @
     ''operator memory is reviewed data.''"

definition system_candidate :: "SlackEnvelope \<Rightarrow> time \<Rightarrow> ContextCandidate" where
  "system_candidate v now =
     (candidate (env_OrganizationID v) '''' ''system/classifier'' 1 PartitionSystem ''operator_directive'' classifier_directive 100 now)
       \<lparr>cand_Required := True\<rparr>"

definition directive_candidates :: "SlackEnvelope \<Rightarrow> ConfigStore \<Rightarrow> ContextCandidate list" where
  "directive_candidates v s =
     (case ActiveDirective (env_OrganizationID v) (env_ChannelID v) s of
        Inl _ \<Rightarrow> []
      | Inr r \<Rightarrow> [(candidate (env_OrganizationID v) (env_ChannelID v) (''directive/'' @ dir_ID r) (dir_Revision r) PartitionSystem
                    ''operator_directive'' (dir_Prompt r) 99 (dir_CreatedAt r))\<lparr>cand_Required := True\<rparr>])"

definition note_candidate :: "(string \<Rightarrow> bool) \<Rightarrow> SlackEnvelope \<Rightarrow> NoteRevision \<Rightarrow> ContextCandidate" where
  "note_candidate printable v n =
     candidate (env_OrganizationID v) (env_ChannelID v) (''note/'' @ note_ID n) (note_Revision n) PartitionSituation
       ''operator_note'' (DelimitedNoteData printable n) 60 (note_CreatedAt n)"

definition config_candidates :: "(string \<Rightarrow> bool) \<Rightarrow> SlackEnvelope \<Rightarrow> ConfigStore option \<Rightarrow> ContextCandidate list" where
  "config_candidates printable v c =
     (case c of
        None \<Rightarrow> []
      | Some s \<Rightarrow> directive_candidates v s @ map (note_candidate printable v) (ActiveNotes (env_OrganizationID v) (env_ChannelID v) s))"

text \<open>The verb \<^verbatim>\<open>%.2f\<close>: the nearest multiple of 0.01, the even one of two.\<close>

definition fixed2 :: "rat \<Rightarrow> string" where
  "fixed2 x =
     (let y = \<bar>x\<bar> * 100; n = floor y; frac = y - of_int n;
          m = (if 1 / 2 < frac \<or> (frac = 1 / 2 \<and> odd n) then n + 1 else n)
      in (if x < 0 then ''-'' else '''') @ format_int (m div 100) @ ''.'' @ pad_left 2 (format_int (m mod 100)))"

fun memory_scope_text :: "MemoryScope \<Rightarrow> string" where
  "memory_scope_text ScopeChannel = ''channel''"
| "memory_scope_text ScopeThread = ''thread''"
| "memory_scope_text (ScopeOther x) = x"

definition memory_text :: "(string \<Rightarrow> bool) \<Rightarrow> time \<Rightarrow> MemoryRecord \<Rightarrow> string" where
  "memory_text printable now m =
     ''<durable-memory id='' @ Quote printable (mem_ID m) @ '' scope='' @ Quote printable (memory_scope_text (mem_Scope m))
     @ '' confidence='' @ fixed2 (mem_Confidence m) @ '' origin='' @ Quote printable (mem_Origin m) @ ''>'' @ [CHR 0x0A] @ mem_Text m
     @ concat (map (\<lambda>f. [CHR 0x0A] @ ''- fact (confidence '' @ fixed2 (fact_Confidence f) @ ''): '' @ fact_Text f)
                (filter (\<lambda>f. After (fact_ExpiresAt f) now) (mem_Facts m)))
     @ [CHR 0x0A] @ ''</durable-memory>''"

definition memory_candidate :: "(string \<Rightarrow> bool) \<Rightarrow> SlackEnvelope \<Rightarrow> time \<Rightarrow> MemoryRecord \<Rightarrow> ContextCandidate" where
  "memory_candidate printable v now m =
     (let thread = (mem_ChannelID m = env_ChannelID v \<and> mem_RootThreadTS m \<noteq> '''' \<and> mem_RootThreadTS m = RootThreadTS v)
      in (candidate (env_OrganizationID v) (mem_ChannelID m) (''memory/'' @ mem_ID m) (mem_Revision m)
            (if thread then PartitionThread else PartitionSituation)
            (if mem_Origin m = ''operator'' then ''operator_memory'' else ''source_linked_memory'')
            (memory_text printable now m) (if thread then 85 else 65) (mem_UpdatedAt m))
           \<lparr>cand_SourceExpiresAt := mem_ExpiresAt m\<rparr>)"

definition memory_candidates :: "DecideDeps \<Rightarrow> Env \<Rightarrow> SlackEnvelope \<Rightarrow> time \<Rightarrow> World \<Rightarrow> ContextCandidate list" where
  "memory_candidates d e v now w =
     (case w_memory w of
        None \<Rightarrow> []
      | Some s \<Rightarrow>
          map (memory_candidate (dd_Printable d) v now)
            (filter (\<lambda>m. \<not> (mem_Restricted m \<and> mem_ChannelID m \<noteq> env_ChannelID v))
              (memory_Recall (en_memories e) (env_OrganizationID v) (env_ChannelID v) (RootThreadTS v) now 40 s)))"

definition fact_candidate :: "SlackEnvelope \<Rightarrow> ChannelScan \<Rightarrow> SituationFact \<Rightarrow> ContextCandidate" where
  "fact_candidate v sn f =
     (candidate (env_OrganizationID v) (sf_ChannelID f) (''fact/'' @ sf_PublicID f) 1 PartitionEvidence ''source_linked_fact''
        (sf_Summary f) 90 (sf_UpdatedAt f))
       \<lparr>cand_ChannelName := lookup_zero '''' (sn_names sn) (sf_ChannelID f), cand_SourceExpiresAt := sf_ExpiresAt f\<rparr>"

definition usable_message :: "SlackEnvelope \<Rightarrow> ChannelScan \<Rightarrow> ChannelMessage \<Rightarrow> bool" where
  "usable_message v sn m \<longleftrightarrow>
     \<not> (cm_ChannelID m \<noteq> env_ChannelID v \<and> (cm_Restricted m \<or> lookup_zero False (sn_restricted sn) (cm_ChannelID m)))"

definition message_partition :: "SlackEnvelope \<Rightarrow> ChannelMessage \<Rightarrow> ContextPartition \<times> int" where
  "message_partition v m =
     (if cm_ChannelID m = env_ChannelID v \<and> cm_RootThreadTS m = RootThreadTS v then (PartitionThread, 100)
      else if cm_ChannelID m = env_ChannelID v then (PartitionChannel, 50)
      else if containsIncident (cm_Text m) then (PartitionEvidence, 90)
      else (PartitionRecentOrg, 10))"

definition message_candidate :: "TagConfig \<Rightarrow> SlackEnvelope \<Rightarrow> ChannelScan \<Rightarrow> ChannelMessage \<Rightarrow> ContextCandidate" where
  "message_candidate cfg v sn m =
     (candidate (cm_OrganizationID m) (cm_ChannelID m) (cm_ChannelID m @ ''/'' @ cm_MessageTS m) (cm_ProjectionVersion m)
        (fst (message_partition v m))
        (if IsSlackIntegrationMessage (cm_BotID m) (cm_Subtype m) \<or> (cm_AuthorID m \<noteq> '''' \<and> cm_AuthorID m = tc_BotUserID cfg)
         then ''agent_output_unverified'' else ''human_message'')
        (cm_Text m) (snd (message_partition v m)) (cm_OriginalAt m))
       \<lparr>cand_ChannelName := lookup_zero '''' (sn_names sn) (cm_ChannelID m), cand_AuthorID := cm_AuthorID m,
        cand_Required := (cm_ChannelID m = env_ChannelID v \<and> cm_MessageTS m = env_MessageTS v)\<rparr>"

definition message_candidates :: "TagConfig \<Rightarrow> SlackEnvelope \<Rightarrow> ChannelScan \<Rightarrow> ChannelMessage list \<Rightarrow> ContextCandidate list" where
  "message_candidates cfg v sn ms = map (message_candidate cfg v sn) (filter (usable_message v sn) ms)"

text \<open>The messages a pack is built from.\<close>

definition context_messages :: "DecideDeps \<Rightarrow> Env \<Rightarrow> SlackEnvelope \<Rightarrow> time \<Rightarrow> World \<Rightarrow> ChannelMessage list" where
  "context_messages d e v now w =
     (let sn = scan_channels e v now w;
          channels = (if sn_sessionOnly sn then [env_ChannelID v] else sn_channels sn);
          lookback = now - tc_Lookback (dd_Config d);
          started = (if IsZero (dd_StartedAt d) then now else dd_StartedAt d);
          since = (if sn_sessionOnly sn \<and> After started lookback then started else lookback)
      in observer_Recent (en_messages e) (env_OrganizationID v) channels since 500 (w_observations w))"

definition fact_candidates :: "DecideDeps \<Rightarrow> SlackEnvelope \<Rightarrow> ChannelScan \<Rightarrow> time \<Rightarrow> decide_error + ContextCandidate list" where
  "fact_candidates d v sn now =
     (case dd_Facts d of
        None \<Rightarrow> Inr []
      | Some recall \<Rightarrow>
          if sn_sessionOnly sn then Inr []
          else case recall (env_OrganizationID v) now 40 of
                 None \<Rightarrow> Inl DecideRecall
               | Some facts \<Rightarrow> Inr (map (fact_candidate v sn) facts))"

definition context_candidates :: "DecideDeps \<Rightarrow> Env \<Rightarrow> SlackEnvelope \<Rightarrow> time \<Rightarrow> World \<Rightarrow> decide_error + ContextCandidate list" where
  "context_candidates d e v now w =
     (let sn = scan_channels e v now w
      in case fact_candidates d v sn now of
           Inl err \<Rightarrow> Inl err
         | Inr facts \<Rightarrow>
             Inr (system_candidate v now # config_candidates (dd_Printable d) v (w_config w)
                  @ (if sn_sessionOnly sn then [] else memory_candidates d e v now w)
                  @ facts @ message_candidates (dd_Config d) v sn (context_messages d e v now w)))"

definition buildContextPack ::
  "DecideDeps \<Rightarrow> Env \<Rightarrow> SlackEnvelope \<Rightarrow> string \<Rightarrow> int \<Rightarrow> World \<Rightarrow> decide_error + ContextPackRevision" where
  "buildContextPack d e v target watermark w =
     (let now = en_clock e 20; sn = scan_channels e v now w
      in if sn_channels sn = [] then Inl DecideScopeDenied
         else case context_candidates d e v now w of
                Inl err \<Rightarrow> Inl err
              | Inr cands \<Rightarrow>
                  (case packs_Build (dd_Canonical d) (port_sha (pd_Ports (dd_Pipeline d))) (dd_Builder d)
                          \<lparr>pr_OrganizationID = env_OrganizationID v, pr_TargetObservationID = target, pr_OrganizationWatermark = watermark,
                           pr_PolicyRevision = ''policy/v1'', pr_MembershipRevision = sn_membership sn, pr_Candidates = cands,
                           pr_CreatedAt = now, pr_ExpiresAt = now + tc_PromptRetention (dd_Config d)\<rparr> (en_ids e 20) (en_clock e 21) of
                     Inl err \<Rightarrow> Inl (DecidePack err)
                   | Inr pack \<Rightarrow> Inr pack))"


section \<open>Recording a decision\<close>

definition envelopeFromObservation :: "Observation \<Rightarrow> SlackEnvelope" where
  "envelopeFromObservation ob =
     \<lparr>env_OrganizationID = ob_OrganizationID ob, env_EnvelopeID = ob_EnvelopeID ob, env_EventID = ob_EventID ob,
      env_TeamID = ob_TeamID ob, env_ChannelID = ob_ChannelID ob, env_ChannelKind = '''', env_MessageTS = ob_MessageTS ob,
      env_ThreadTS = ob_RootThreadTS ob, env_UserID = ob_UserID ob, env_BotID = ob_BotID ob, env_Kind = ob_EventType ob,
      env_Subtype = ob_Subtype ob, env_Text = ob_Text ob, env_Images = ob_Images ob, env_TargetTS = ob_MutationTargetTS ob,
      env_EventTime = ob_SlackEventTime ob, env_ReceivedAt = ob_ReceivedAt ob, env_IsMention = ob_IsMention ob,
      env_OriginTag = ob_OriginTag ob, env_Restricted = ob_Restricted ob\<rparr>"

abbreviation ports_of :: "DecideDeps \<Rightarrow> Ports" where "ports_of d \<equiv> pd_Ports (dd_Pipeline d)"

definition record_decision :: "DecisionRecord \<Rightarrow> Env \<Rightarrow> World \<Rightarrow> (decide_error, DecisionRecord, World) outcome" where
  "record_decision r e w =
     (case decisions_Record r (en_ids e 21) (en_clock e 22) (w_decisions w) of
        (Inl err, s) \<Rightarrow> (Inl (DecideRecord err), w\<lparr>w_decisions := s\<rparr>)
      | (Inr (rec, _), s) \<Rightarrow> (Inr rec, w\<lparr>w_decisions := s\<rparr>))"

definition new_decision :: "string \<Rightarrow> string \<Rightarrow> int \<Rightarrow> string \<Rightarrow> int \<Rightarrow> ClassifierResult \<Rightarrow> DecisionRecord" where
  "new_decision org observation revision pack watermark r =
     \<lparr>dec_ID = '''', dec_OrganizationID = org, dec_ObservationID = observation, dec_DecisionRevision = revision,
      dec_ContextPackRevisionID = pack, dec_OrganizationWatermark = watermark, dec_Result = r, dec_CreatedAt = zero_time\<rparr>"

definition decision_path :: "string \<Rightarrow> int \<Rightarrow> string" where
  "decision_path observation revision = ''decision/'' @ observation @ ''/'' @ format_int revision"

definition decision_receipt :: "string \<Rightarrow> DecisionRecord \<Rightarrow> string \<Rightarrow> int \<Rightarrow> string \<Rightarrow> string \<Rightarrow> AppendRequest" where
  "decision_receipt org rec observation revision outcome epoch =
     \<lparr>ap_OrganizationID = org, ap_Type = ''decision.recorded'', ap_ActorID = '''', ap_ResourceID = dec_ID rec,
      ap_Metadata = [(''outcome'', MetaString outcome), (''revision'', MetaNumber (of_int revision))],
      ap_RetentionEpoch = epoch, ap_IdempotencyKey = decision_path observation revision, ap_Content = ''''\<rparr>"

text \<open>A decision taken without context; the pack only carries the life cycle of the observation.\<close>

definition bare_pack :: "string \<Rightarrow> string \<Rightarrow> string \<Rightarrow> int \<Rightarrow> time \<Rightarrow> time \<Rightarrow> ContextPackRevision" where
  "bare_pack i org target watermark created expires =
     \<lparr>pack_ID = i, pack_OrganizationID = org, pack_TargetObservationID = target, pack_OrganizationWatermark = watermark,
      pack_PolicyRevision = '''', pack_MembershipRevision = '''', pack_TokenizerRevision = '''', pack_Sources = [],
      pack_PartitionTokens = (\<lambda>_. 0), pack_TotalTokens = 0, pack_ContentHash = '''', pack_CreatedAt = created,
      pack_ExpiresAt = expires\<rparr>"

definition recordPreclassificationSuppression ::
  "DecideDeps \<Rightarrow> Env \<Rightarrow> Observation \<Rightarrow> Target \<Rightarrow> int \<Rightarrow> World \<Rightarrow> (decide_error, unit, World) outcome" where
  "recordPreclassificationSuppression d e ob t revision w =
     (let org = env_OrganizationID (tg_Envelope t);
          pack = bare_pack '''' org (ob_PublicID ob) (ob_OrganizationReceivedSeq ob) (en_clock e 23) (ob_ExpiresAt ob);
          r = classifier_Decide (dd_Classifier d) t pack
      in case record_decision (new_decision org (ob_PublicID ob) revision '''' (ob_OrganizationReceivedSeq ob) r) e w of
           (Inl err, w1) \<Rightarrow> (Inl err, w1)
         | (Inr rec, w1) \<Rightarrow>
             (Inr (), world_receipt (ports_of d)
                (decision_receipt org rec (ob_PublicID ob) revision ''silent'' (retentionEpoch (ob_ExpiresAt ob) (en_clock e 24)))
                (en_ids e 22) (en_clock e 25) w1))"

text \<open>The two bounds of the window are values of \<^verbatim>\<open>time.Time\<close>.\<close>

definition flood_metadata :: "string \<Rightarrow> FloodResult \<Rightarrow> (string \<times> meta) list" where
  "flood_metadata reason budget =
     [(''reason'', MetaString reason), (''bucket_count'', MetaNumber (of_int (fr_Count budget))),
      (''bucket_limit'', MetaNumber (of_int (fr_Limit budget))), (''window_start'', MetaOther), (''window_end'', MetaOther)]"

definition zero_FloodResult :: FloodResult where
  "zero_FloodResult = \<lparr>fr_Allowed = False, fr_Count = 0, fr_Limit = 0, fr_WindowStart = zero_time, fr_WindowEnd = zero_time\<rparr>"

definition recordFloodDrop ::
  "DecideDeps \<Rightarrow> Env \<Rightarrow> Observation \<Rightarrow> SlackEnvelope \<Rightarrow> int \<Rightarrow> FloodResult \<Rightarrow> string \<Rightarrow> World \<Rightarrow> (decide_error, unit, World) outcome" where
  "recordFloodDrop d e ob v revision budget reason w =
     (case record_decision (new_decision (env_OrganizationID v) (ob_PublicID ob) revision '''' (ob_OrganizationReceivedSeq ob)
              (SilentResult reason)) e w of
        (Inl err, w1) \<Rightarrow> (Inl err, w1)
      | (Inr rec, w1) \<Rightarrow>
          (Inr (), world_receipt (ports_of d)
             \<lparr>ap_OrganizationID = env_OrganizationID v, ap_Type = ''decision.flood_dropped'', ap_ActorID = '''', ap_ResourceID = dec_ID rec,
              ap_Metadata = (''outcome'', MetaString ''silent'') # flood_metadata reason budget,
              ap_RetentionEpoch = retentionEpoch (ob_ExpiresAt ob) (en_clock e 24),
              ap_IdempotencyKey = decision_path (ob_PublicID ob) revision @ ''/flood-drop'', ap_Content = ''''\<rparr>
             (en_ids e 22) (en_clock e 25) w1))"

section \<open>Acting on a decision\<close>

definition reaction_receipt :: "string \<Rightarrow> (string \<times> meta) list \<Rightarrow> SlackEnvelope \<Rightarrow> int \<Rightarrow> DecisionRecord \<Rightarrow> string \<Rightarrow> AppendRequest" where
  "reaction_receipt event extra v revision rec epoch =
     \<lparr>ap_OrganizationID = env_OrganizationID v, ap_Type = ''reaction.'' @ event, ap_ActorID = '''', ap_ResourceID = dec_ID rec,
      ap_Metadata = [(''channel_id'', MetaString (env_ChannelID v)), (''emoji'', MetaString (cd_Reaction (clr_Effective (dec_Result rec))))] @ extra,
      ap_RetentionEpoch = epoch, ap_IdempotencyKey = decision_path (dec_ObservationID rec) revision @ ''/reaction-'' @ event,
      ap_Content = ''''\<rparr>"

definition applyClassifierReaction :: "DecideDeps \<Rightarrow> Env \<Rightarrow> SlackEnvelope \<Rightarrow> int \<Rightarrow> DecisionRecord \<Rightarrow> World \<Rightarrow> World" where
  "applyClassifierReaction d e v revision rec w =
     (let emoji = cd_Reaction (clr_Effective (dec_Result rec));
          expires = (if IsZero (dec_CreatedAt rec) then en_clock e 26 else dec_CreatedAt rec) + tc_PromptRetention (dd_Config d);
          epoch = retentionEpoch expires (en_clock e 27)
      in case dd_React d \<lparr>rq_IdempotencyKey = decision_path (dec_ObservationID rec) revision @ ''/reaction/'' @ emoji,
                          rq_TeamID = env_TeamID v, rq_ChannelID = env_ChannelID v, rq_MessageTS = env_MessageTS v, rq_Emoji = emoji\<rparr> of
           Inl _ \<Rightarrow> world_receipt (ports_of d) (reaction_receipt ''failed'' [] v revision rec epoch) (en_ids e 24) (en_clock e 28) w
         | Inr duplicate \<Rightarrow>
             world_receipt (ports_of d) (reaction_receipt ''completed'' [(''duplicate'', MetaBool duplicate)] v revision rec epoch)
               (en_ids e 24) (en_clock e 28) w)"

definition release_reservation :: "string \<Rightarrow> World \<Rightarrow> World" where
  "release_reservation reservation w = (if reservation = '''' then w else w\<lparr>w_system := sys_release reservation (w_system w)\<rparr>)"

definition output_reservation :: "Observation \<Rightarrow> string" where
  "output_reservation ob = ''observation/'' @ ob_PublicID ob @ ''/output''"

definition reserve_output :: "Observation \<Rightarrow> World \<Rightarrow> (observer_error, bool, World) outcome" where
  "reserve_output ob w =
     (case observer_ReserveOutput (ob_PublicID ob) (output_reservation ob) (w_observations w) of
        (r, s) \<Rightarrow> (r, w\<lparr>w_observations := s\<rparr>))"

definition finalize_output :: "Observation \<Rightarrow> string \<Rightarrow> string \<Rightarrow> World \<Rightarrow> (observer_error, unit, World) outcome" where
  "finalize_output ob job delivery w =
     (case observer_FinalizeOutput (ob_PublicID ob) (output_reservation ob) job delivery (w_observations w) of
        (r, s) \<Rightarrow> (r, w\<lparr>w_observations := s\<rparr>))"

definition direct_reply_spec :: "DecideDeps \<Rightarrow> Observation \<Rightarrow> SlackEnvelope \<Rightarrow> ContextPackRevision \<Rightarrow> DecisionRecord \<Rightarrow> DeliverySpec" where
  "direct_reply_spec d ob v pack rec =
     \<lparr>ds_OrganizationID = env_OrganizationID v, ds_JobID = '''', ds_DecisionID = dec_ID rec, ds_IdempotencyKey = output_reservation ob,
      ds_Destination = \<lparr>dest_TeamID = env_TeamID v, dest_ChannelID = env_ChannelID v,
                        dest_ThreadTS = directReplyThreadTS v (clr_Effective (dec_Result rec)), dest_UpdateTS = '''', dest_StreamTS = ''''\<rparr>,
      ds_Result = zero_SlackResult\<lparr>res_Segments :=
        [zero_SlackSegment\<lparr>seg_Kind := SlackSegmentMRKDWN, seg_Text := cd_DirectReply (clr_Effective (dec_Result rec))\<rparr>]\<rparr>,
      ds_MaxAttempts = pd_MaxAttempts (dd_Pipeline d), ds_ExpiresAt = pack_ExpiresAt pack\<rparr>"

definition enqueue_delivery :: "DeliverySpec \<Rightarrow> string \<Rightarrow> time \<Rightarrow> World \<Rightarrow> (delivery_error, DeliveryRecord, World) outcome" where
  "enqueue_delivery spec i now w =
     (case deliveries_Enqueue spec i now (sys_deliveries (w_system w)) of
        (Inl e, q) \<Rightarrow> (Inl e, w\<lparr>w_system := (w_system w)\<lparr>sys_deliveries := q\<rparr>\<rparr>)
      | (Inr (r, _), q) \<Rightarrow> (Inr r, w\<lparr>w_system := (w_system w)\<lparr>sys_deliveries := q\<rparr>\<rparr>))"

definition reply_receipt :: "SlackEnvelope \<Rightarrow> DecisionRecord \<Rightarrow> DeliveryRecord \<Rightarrow> time \<Rightarrow> AppendRequest" where
  "reply_receipt v rec r now =
     \<lparr>ap_OrganizationID = env_OrganizationID v, ap_Type = ''classifier_reply.enqueued'', ap_ActorID = '''', ap_ResourceID = dr_ID r,
      ap_Metadata = [(''channel_id'', MetaString (env_ChannelID v)), (''decision_id'', MetaString (dec_ID rec)),
                     (''threaded'', MetaBool (dest_ThreadTS (dr_Destination r) \<noteq> ''''))],
      ap_RetentionEpoch = retentionEpoch (dr_ExpiresAt r) now,
      ap_IdempotencyKey = ''delivery/'' @ dr_ID r @ ''/classifier-reply-enqueued'', ap_Content = ''''\<rparr>"

text \<open>The reply the classifier wrote itself, enqueued as a delivery.\<close>

definition send_direct_reply ::
  "DecideDeps \<Rightarrow> Env \<Rightarrow> Observation \<Rightarrow> SlackEnvelope \<Rightarrow> ContextPackRevision \<Rightarrow> string \<Rightarrow> DecisionRecord \<Rightarrow> World
     \<Rightarrow> (decide_error, unit, World) outcome" where
  "send_direct_reply d e ob v pack reservation rec w =
     (case reserve_output ob w of
        (Inl err, w1) \<Rightarrow> (Inl (DecideOutput err), w1)
      | (Inr False, w1) \<Rightarrow> (Inr (), release_reservation reservation w1)
      | (Inr True, w1) \<Rightarrow>
          (case enqueue_delivery (direct_reply_spec d ob v pack rec) (en_ids e 25) (en_clock e 29) w1 of
             (Inl err, w2) \<Rightarrow> (Inl (DecideDelivery (ErrStoreDelivery err)), release_reservation reservation w2)
           | (Inr r, w2) \<Rightarrow>
               (case finalize_output ob '''' (dr_ID r) (release_reservation reservation w2) of
                  (Inl err, w3) \<Rightarrow> (Inl (DecideOutput err), w3)
                | (Inr _, w3) \<Rightarrow>
                    (Inr (), world_receipt (ports_of d) (reply_receipt v rec r (en_clock e 30)) (en_ids e 26) (en_clock e 31) w3))))"

text \<open>The model of the response; without a router the built-in one.\<close>

definition stub_model :: ResolvedModel where
  "stub_model = \<lparr>rm_ProfileID = ''stub'', rm_ProviderID = ''fake'', rm_ModelID = ''deterministic'', rm_Variant = '''', rm_PolicyRev = ''stub/v1''\<rparr>"

definition response_route :: "SlackEnvelope \<Rightarrow> ChannelPolicy option \<Rightarrow> ContextPackRevision \<Rightarrow> ClassificationDecision \<Rightarrow> ModelRouteContext" where
  "response_route v policy pack dec =
     \<lparr>route_OrganizationID = env_OrganizationID v, route_WorkspaceID = env_TeamID v, route_ChannelID = env_ChannelID v,
      route_RoutineID = '''', route_SkillName = '''', route_Phase = ''response'', route_Override = cd_AgentModelProfile dec,
      route_ChannelDefault = (case policy of None \<Rightarrow> '''' | Some p \<Rightarrow> cp_DefaultModelProfile p), route_DataClasses = [''internal''],
      route_Capabilities = [''structured''], route_InputTokens = pack_TotalTokens pack\<rparr>"

definition response_model ::
  "DecideDeps \<Rightarrow> SlackEnvelope \<Rightarrow> ChannelPolicy option \<Rightarrow> ContextPackRevision \<Rightarrow> ClassificationDecision
     \<Rightarrow> decide_error + ResolvedModel \<times> DecisionTrace" where
  "response_model d v policy pack dec =
     (case pd_ModelRouter (dd_Pipeline d) of
        None \<Rightarrow> Inr (stub_model, zero_DecisionTrace)
      | Some reg \<Rightarrow>
          (case registry_Resolve reg (response_route v policy pack dec) no_constraints of
             Some (Inr m, trace) \<Rightarrow>
               (if cd_AgentReasoningEffort dec \<noteq> '''' \<and> rm_Variant m \<noteq> cd_AgentReasoningEffort dec then Inl DecideReasoning
                else Inr (m, trace))
           | _ \<Rightarrow> Inl DecideRoute))"

definition agent_job_spec ::
  "DecideDeps \<Rightarrow> Observation \<Rightarrow> Target \<Rightarrow> ContextPackRevision \<Rightarrow> ClassificationDecision \<Rightarrow> string \<Rightarrow> Session
     \<Rightarrow> ResolvedModel \<times> DecisionTrace \<Rightarrow> JobSpec" where
  "agent_job_spec d ob t pack dec reservation session model =
     (let v = tg_Envelope t
      in \<lparr>spec_OrganizationID = env_OrganizationID v, spec_WorkspaceID = env_TeamID v, spec_ChannelID = env_ChannelID v,
          spec_RootThreadTS = RootThreadTS v, spec_ReplyInChannel = (cd_Outcome dec = OutcomeReplyInChannel),
          spec_SessionID = ses_ID session, spec_Generation = ses_CurrentGeneration session, spec_ObservationID = ob_PublicID ob,
          spec_RequesterID = (if tg_AuthorizedTrigger t \<and> IntegrationAuthored v then '''' else env_UserID v),
          spec_IdempotencyKey = output_reservation ob, spec_Kind = ''agent_response'',
          spec_Input = buildAgentInput (dd_Marshal d) v pack dec (tc_BotUserID (dd_Config d)), spec_Images = env_Images v,
          spec_MaxAttempts = pd_MaxAttempts (dd_Pipeline d), spec_AdmissionReservationID = reservation,
          spec_ResolvedModel = fst model, spec_RouteTrace = snd model, spec_ExpiresAt = pack_ExpiresAt pack\<rparr>)"

definition enqueue_job :: "JobSpec \<Rightarrow> string \<Rightarrow> time \<Rightarrow> World \<Rightarrow> (job_error, Job, World) outcome" where
  "enqueue_job spec i now w =
     (case jobs_Enqueue spec i now (sys_jobs (w_system w)) of
        (Inl e, q) \<Rightarrow> (Inl e, w\<lparr>w_system := (w_system w)\<lparr>sys_jobs := q\<rparr>\<rparr>)
      | (Inr (j, _), q) \<Rightarrow> (Inr j, w\<lparr>w_system := (w_system w)\<lparr>sys_jobs := q\<rparr>\<rparr>))"

definition job_receipt :: "SlackEnvelope \<Rightarrow> Job \<Rightarrow> time \<Rightarrow> AppendRequest" where
  "job_receipt v j now =
     \<lparr>ap_OrganizationID = env_OrganizationID v, ap_Type = ''job.enqueued'', ap_ActorID = '''', ap_ResourceID = job_ID j,
      ap_Metadata = [(''channel_id'', MetaString (job_ChannelID j)), (''kind'', MetaString (job_Kind j))],
      ap_RetentionEpoch = retentionEpoch (job_ExpiresAt j) now,
      ap_IdempotencyKey = ''job/'' @ job_ID j @ ''/enqueued'', ap_Content = ''''\<rparr>"

text \<open>
  The job of an agent.  A failing session resolution returns without releasing the reservation,
  as in the code.
\<close>

definition start_agent ::
  "DecideDeps \<Rightarrow> Env \<Rightarrow> Observation \<Rightarrow> Target \<Rightarrow> ChannelPolicy option \<Rightarrow> ContextPackRevision \<Rightarrow> ClassificationDecision \<Rightarrow> string \<Rightarrow> World
     \<Rightarrow> (decide_error, unit, World) outcome" where
  "start_agent d e ob t policy pack dec reservation w =
     (let v = tg_Envelope t
      in case response_model d v policy pack dec of
           Inl err \<Rightarrow> (Inl err, release_reservation reservation w)
         | Inr model \<Rightarrow>
             (case sessions_Resolve (env_OrganizationID v) (env_TeamID v) (env_ChannelID v) (RootThreadTS v) (en_ids e 27) (en_clock e 32)
                     (w_sessions w) of
                (Inl err, s) \<Rightarrow> (Inl (DecideSession err), w\<lparr>w_sessions := s\<rparr>)
              | (Inr (session, _), s) \<Rightarrow>
                  (case reserve_output ob (w\<lparr>w_sessions := s\<rparr>) of
                     (Inl err, w1) \<Rightarrow> (Inl (DecideOutput err), release_reservation reservation w1)
                   | (Inr False, w1) \<Rightarrow> (Inr (), release_reservation reservation w1)
                   | (Inr True, w1) \<Rightarrow>
                       (case enqueue_job (agent_job_spec d ob t pack dec reservation session model) (en_ids e 28) (en_clock e 33) w1 of
                          (Inl err, w2) \<Rightarrow> (Inl (DecideJob err), release_reservation reservation w2)
                        | (Inr j, w2) \<Rightarrow>
                            (case finalize_output ob (job_ID j) ''''
                                    (world_receipt (ports_of d) (job_receipt v j (en_clock e 34)) (en_ids e 29) (en_clock e 35) w2) of
                               (Inl err, w3) \<Rightarrow> (Inl (DecideOutput err), w3)
                             | (Inr _, w3) \<Rightarrow> (Inr (), w3))))))"

section \<open>Deciding (decideObservation)\<close>

fun admissionReason :: "admission_error \<Rightarrow> string" where
  "admissionReason ErrKillSwitch = ''admission.kill_switch''"
| "admissionReason ErrCooldown = ''admission.cooldown''"
| "admissionReason ErrBudget = ''admission.response_budget''"
| "admissionReason ErrConcurrency = ''admission.concurrency''"
| "admissionReason (ErrPolicy _) = ''admission.unavailable''"

definition admissionPolicyForTarget :: "ChannelPolicy \<Rightarrow> Target \<Rightarrow> ChannelPolicy" where
  "admissionPolicyForTarget p t =
     (if env_IsMention (tg_Envelope t) \<or> tg_ActiveThread t then p\<lparr>cp_Cooldown := 0\<rparr> else p)"

text \<open>
  Admission of a decision that produces output: the decision, suppressed when the controller
  refuses, and the reservation it holds (\<open>''''\<close> is none).
\<close>

definition admit_decision ::
  "Env \<Rightarrow> Target \<Rightarrow> ChannelPolicy option \<Rightarrow> ClassifierResult \<Rightarrow> World \<Rightarrow> (ClassifierResult \<times> string) \<times> World" where
  "admit_decision e t policy r w =
     (case policy of
        None \<Rightarrow> ((r, ''''), w)
      | Some p \<Rightarrow>
          if \<not> createsJob (clr_Effective r) \<and> \<not> hasDirectReply (clr_Effective r) then ((r, ''''), w)
          else case admission_Admit (admissionPolicyForTarget p t) (en_ids e 23) (en_clock e 36) (sys_admissions (w_system w)) of
                 (Inl err, m) \<Rightarrow> ((Suppress r (admissionReason err), ''''), w\<lparr>w_system := (w_system w)\<lparr>sys_admissions := m\<rparr>\<rparr>)
               | (Inr i, m) \<Rightarrow> ((r, i), w\<lparr>w_system := (w_system w)\<lparr>sys_admissions := m\<rparr>\<rparr>))"

text \<open>
  Acting on the recorded decision: the reaction and a direct reply follow the record, which is the
  older one when the observation was decided before; the job follows the fresh decision.
\<close>

definition act_on_decision ::
  "DecideDeps \<Rightarrow> Env \<Rightarrow> Observation \<Rightarrow> Target \<Rightarrow> int \<Rightarrow> ChannelPolicy option \<Rightarrow> ContextPackRevision \<Rightarrow> ClassifierResult \<Rightarrow> string
     \<Rightarrow> DecisionRecord \<Rightarrow> World \<Rightarrow> (decide_error, unit, World) outcome" where
  "act_on_decision d e ob t revision policy pack r reservation rec w =
     (let v = tg_Envelope t; effective = clr_Effective (dec_Result rec);
          w1 = (if cd_Reaction effective \<noteq> '''' then applyClassifierReaction d e v revision rec w else w)
      in if hasDirectReply effective then send_direct_reply d e ob v pack reservation rec w1
         else if \<not> createsJob (clr_Effective r) then (Inr (), w1)
         else start_agent d e ob t policy pack (clr_Effective r) reservation w1)"

text \<open>Classifying, admitting, recording and acting with the context in hand.\<close>

definition decide_with_pack ::
  "DecideDeps \<Rightarrow> Env \<Rightarrow> Observation \<Rightarrow> Target \<Rightarrow> int \<Rightarrow> ChannelPolicy option \<Rightarrow> ContextPackRevision \<Rightarrow> World
     \<Rightarrow> (decide_error, unit, World) outcome" where
  "decide_with_pack d e ob t revision policy pack w =
     (let v = tg_Envelope t;
          ((r, reservation), w1) =
            admit_decision e t policy (EnforceParticipation (classifier_Decide (dd_Classifier d) t pack) t pack) w
      in case record_decision (new_decision (env_OrganizationID v) (ob_PublicID ob) revision (pack_ID pack)
                (pack_OrganizationWatermark pack) r) e w1 of
           (Inl err, w2) \<Rightarrow> (Inl err, w2)
         | (Inr rec, w2) \<Rightarrow>
             act_on_decision d e ob t revision policy pack r reservation rec
               (world_receipt (ports_of d)
                  (decision_receipt (env_OrganizationID v) rec (ob_PublicID ob) revision (outcome_text (cd_Outcome (clr_Effective (dec_Result rec))))
                     (retentionEpoch (pack_ExpiresAt pack) (en_clock e 24)))
                  (en_ids e 22) (en_clock e 25) w2))"

definition save_pack :: "DecideDeps \<Rightarrow> ContextPackRevision \<Rightarrow> int \<Rightarrow> bool" where
  "save_pack d pack revision = (case dd_SavePack d of None \<Rightarrow> True | Some save \<Rightarrow> save pack revision)"

text \<open>Projecting the observation and assembling its context; a mention or an active thread does without.\<close>

definition classify_observation ::
  "DecideDeps \<Rightarrow> Env \<Rightarrow> Observation \<Rightarrow> Target \<Rightarrow> int \<Rightarrow> ChannelPolicy option \<Rightarrow> World \<Rightarrow> (decide_error, unit, World) outcome" where
  "classify_observation d e ob t revision policy w =
     (let v = tg_Envelope t
      in if revision = 1 \<and> \<not> IntegrationAuthored v \<and> (case dd_Project d of None \<Rightarrow> False | Some project \<Rightarrow> \<not> project ob)
         then (Inl DecideProject, w)
         else case buildContextPack d e v (ob_PublicID ob) (ob_OrganizationReceivedSeq ob) w of
                Inr pack \<Rightarrow>
                  if save_pack d pack revision then decide_with_pack d e ob t revision policy pack w else (Inl DecideSavePack, w)
              | Inl err \<Rightarrow>
                  if \<not> env_IsMention v \<and> \<not> tg_ActiveThread t then (Inl err, w)
                  else
                    let pack = bare_pack (en_ids e 20) (env_OrganizationID v) (ob_PublicID ob) (ob_OrganizationReceivedSeq ob) (en_clock e 23)
                                 (en_clock e 37 + tc_PromptRetention (dd_Config d))
                    in if save_pack d pack revision then decide_with_pack d e ob t revision policy pack w else (Inl DecideSavePack, w))"

definition observation_target ::
  "DecideDeps \<Rightarrow> Env \<Rightarrow> Observation \<Rightarrow> SlackEnvelope \<Rightarrow> ParticipationMode \<Rightarrow> ChannelPolicy option \<Rightarrow> World \<Rightarrow> Target" where
  "observation_target d e ob v mode policy w =
     (let active = thread_active v w
      in \<lparr>tg_ObservationID = ob_PublicID ob, tg_Envelope = v, tg_Mode = mode, tg_ActiveThread = active,
          tg_AuthorizedTrigger = (case policy of None \<Rightarrow> False
             | Some p \<Rightarrow> authorizedOutputPolicy p (en_clock e 38) \<and> channelPolicyTrustsIntegration p v),
          tg_KillSwitched = False, tg_WorkflowLoop = isWorkflowLoopOrigin (env_OriginTag v), tg_Unsupported = MembershipEvent v,
          tg_Deleted = isDeletedSlackTurn v active, tg_AmbientLinkOnly = isAmbientLinkOnlySlackTurn v active,
          tg_SelfAuthored = (env_BotID v = ''tos-tag-stub'' \<or> selfAuthoredEnvelope (dd_Config d) v)\<rparr>)"

definition decide_target ::
  "DecideDeps \<Rightarrow> Env \<Rightarrow> Observation \<Rightarrow> Target \<Rightarrow> int \<Rightarrow> ChannelPolicy option \<Rightarrow> World \<Rightarrow> (decide_error, unit, World) outcome" where
  "decide_target d e ob t revision policy w =
     (if tg_Deleted t \<or> tg_AmbientLinkOnly t then recordPreclassificationSuppression d e ob t revision w
      else if \<not> tc_FloodProtectionEnabled (dd_Config d) \<or> \<not> RequiresProviderCall (dd_Classifier d) t
      then classify_observation d e ob t revision policy w
      else
        let v = tg_Envelope t
        in case flood_Admit \<lparr>fs_OrganizationID = env_OrganizationID v, fs_TeamID = env_TeamID v\<rparr> (en_clock e 39) (w_flood w) of
             (Inl _, m) \<Rightarrow>
               recordFloodDrop d e ob v revision zero_FloodResult ''safety.classifier_flood_gate_unavailable'' (w\<lparr>w_flood := m\<rparr>)
           | (Inr budget, m) \<Rightarrow>
               if \<not> fr_Allowed budget then recordFloodDrop d e ob v revision budget ''safety.classifier_flood_limit'' (w\<lparr>w_flood := m\<rparr>)
               else classify_observation d e ob t revision policy (w\<lparr>w_flood := m\<rparr>))"

definition complete_decision :: "Observation \<Rightarrow> string \<Rightarrow> string \<Rightarrow> time \<Rightarrow> World \<Rightarrow> (observer_error, unit, World) outcome" where
  "complete_decision ob scope state now w =
     (case observer_CompleteDecision (ob_PublicID ob) (ob_DecisionLeaseToken ob) scope state now (w_observations w) of
        (r, s) \<Rightarrow> (r, w\<lparr>w_observations := s\<rparr>))"

text \<open>A denied observation is completed as such, unless it is only reconsidered.\<close>

definition deny_scope :: "Env \<Rightarrow> Observation \<Rightarrow> int \<Rightarrow> World \<Rightarrow> (decide_error, unit, World) outcome" where
  "deny_scope e ob revision w =
     (if 1 < revision then (Inl DecideScopeDenied, w)
      else case complete_decision ob ''denied'' ''suppressed'' (en_clock e 40) w of
             (Inl err, w1) \<Rightarrow> (Inl (DecideObserver err), w1)
           | (Inr _, w1) \<Rightarrow> (Inl DecideScopeDenied, w1))"

definition observation_mode :: "PipelineDeps \<Rightarrow> ChannelPolicy \<Rightarrow> SlackEnvelope \<Rightarrow> ParticipationMode" where
  "observation_mode d p v =
     (if \<not> slackOutputChannelAllowed d (env_ChannelID v) then ModeObserve
      else if env_ChannelKind v = direct_message \<or> HasPrefix (env_ChannelID v) ''D'' then ModeAssist
      else cp_ParticipationMode p)"

definition decideObservation :: "DecideDeps \<Rightarrow> Env \<Rightarrow> Observation \<Rightarrow> int \<Rightarrow> World \<Rightarrow> (decide_error, unit, World) outcome" where
  "decideObservation d e ob revision w =
     (let v = envelopeFromObservation ob; cfg = dd_Config d
      in if tc_LiveEnabled cfg \<and> (env_OrganizationID v \<noteq> tc_OrganizationID cfg \<or> env_TeamID v \<noteq> tc_TeamID cfg)
         then deny_scope e ob revision w
         else case w_scopes w of
           None \<Rightarrow> decide_target d e ob (observation_target d e ob v ModeAssist None w) revision None w
         | Some st \<Rightarrow>
             (case orgconfig_Resolve (env_OrganizationID v) (env_TeamID v) (env_ChannelID v) st of
                Inl _ \<Rightarrow> deny_scope e ob revision w
              | Inr p \<Rightarrow>
                  if \<not> authorizedPolicy p (en_clock e 41) then deny_scope e ob revision w
                  else
                    let restricted = (env_Restricted v \<or> cp_Restricted p);
                        v' = v\<lparr>env_Restricted := restricted\<rparr>; ob' = ob\<lparr>ob_Restricted := restricted\<rparr>
                    in case observer_SetRestricted (ob_PublicID ob) restricted (en_clock e 42) (w_observations w) of
                         (Inl err, s) \<Rightarrow> (Inl (DecideRestricted err), w\<lparr>w_observations := s\<rparr>)
                       | (Inr _, s) \<Rightarrow>
                           let w1 = w\<lparr>w_observations := s\<rparr>
                           in decide_target d e ob'
                                (observation_target d e ob' v' (observation_mode (dd_Pipeline d) p v) (Some p) w1) revision (Some p) w1))"

section \<open>The worker (processOneDecision)\<close>

text \<open>
  Every later answer to a status question that arrived before the incident signal is decided again;
  errors are only logged.  \<open>None\<close> is the panic of \<^verbatim>\<open>LateCandidates\<close>, which a limit of 10 cannot reach.
\<close>

fun reconsider_all :: "DecideDeps \<Rightarrow> (nat \<Rightarrow> Env) \<Rightarrow> nat \<Rightarrow> string \<Rightarrow> Observation list \<Rightarrow> World \<Rightarrow> World" where
  "reconsider_all d es n channel [] w = w"
| "reconsider_all d es n channel (c # cs) w =
     (if ob_ChannelID c = channel then reconsider_all d es (Suc n) channel cs w
      else reconsider_all d es (Suc n) channel cs (snd (decideObservation d (es n) c 2 w)))"

definition reconsiderLateQuestions :: "DecideDeps \<Rightarrow> (nat \<Rightarrow> Env) \<Rightarrow> string list \<Rightarrow> Observation \<Rightarrow> World \<Rightarrow> World" where
  "reconsiderLateQuestions d es ord signal w =
     (if ob_Restricted signal then w
      else if (case w_scopes w of
                 None \<Rightarrow> False
               | Some st \<Rightarrow> (case orgconfig_Resolve (ob_OrganizationID signal) (ob_TeamID signal) (ob_ChannelID signal) st of
                              Inl _ \<Rightarrow> True | Inr p \<Rightarrow> cp_Restricted p))
      then w
      else case observer_LateCandidates ord (ob_OrganizationID signal) (ob_SlackEventTime signal - 15 * Minute) (ob_SlackEventTime signal) 10
                  (w_observations w) of
             None \<Rightarrow> w
           | Some cs \<Rightarrow> reconsider_all d es 0 (ob_ChannelID signal) cs w)"

text \<open>
  \<open>False\<close> ends the loop of \<^verbatim>\<open>runDecisions\<close>.  The environment \<open>es 0\<close> is that of the decision, the
  following ones are those of the reconsiderations; \<open>ord\<close> orders the observations.
\<close>

definition processOneDecision :: "DecideDeps \<Rightarrow> (nat \<Rightarrow> Env) \<Rightarrow> string list \<Rightarrow> World \<Rightarrow> bool \<times> World" where
  "processOneDecision d es ord w =
     (case observer_ClaimPending ord ''decision-worker'' (en_ids (es 0) 0) (pd_Lease (dd_Pipeline d)) (en_clock (es 0) 0) (w_observations w) of
        (Inl _, s) \<Rightarrow> (False, w\<lparr>w_observations := s\<rparr>)
      | (Inr ob, s) \<Rightarrow>
          (case decideObservation d (es 0) ob 1 (w\<lparr>w_observations := s\<rparr>) of
             (Inl err, w1) \<Rightarrow> (err = DecideScopeDenied, w1)
           | (Inr _, w1) \<Rightarrow>
               let w2 = snd (complete_decision ob ''resolved'' ''decided'' (en_clock (es 0) 43) w1)
               in (True,
                   if ob_EventType ob = SlackEventMessage \<and> \<not> IsSlackIntegrationMessage (ob_BotID ob) (ob_Subtype ob)
                      \<and> containsIncident (ob_Text ob)
                   then reconsiderLateQuestions d (\<lambda>n. es (Suc n)) ord ob w2 else w2)))"

section \<open>The gate of the heartbeats (EvaluateHeartbeat)\<close>

definition heartbeat_target :: "Subscription \<Rightarrow> string \<Rightarrow> string" where
  "heartbeat_target x window = ''trigger/'' @ sub_ChannelID x @ ''/'' @ sub_ID x @ ''/'' @ window"

definition heartbeat_envelope :: "Subscription \<Rightarrow> string \<Rightarrow> time \<Rightarrow> SlackEnvelope" where
  "heartbeat_envelope x window now =
     (let i = heartbeat_target x window
      in \<lparr>env_OrganizationID = sub_OrganizationID x, env_EnvelopeID = i, env_EventID = i, env_TeamID = sub_WorkspaceID x,
          env_ChannelID = sub_ChannelID x, env_ChannelKind = '''',
          env_MessageTS = (if sub_RootThreadTS x \<noteq> '''' then sub_RootThreadTS x else i), env_ThreadTS = sub_RootThreadTS x,
          env_UserID = sub_OwnerID x, env_BotID = '''', env_Kind = SlackEventMessage, env_Subtype = '''', env_Text = sub_Instruction x,
          env_Images = [], env_TargetTS = '''', env_EventTime = now, env_ReceivedAt = now, env_IsMention = False, env_OriginTag = '''',
          env_Restricted = False\<rparr>)"

definition recordHeartbeatFloodDrop ::
  "DecideDeps \<Rightarrow> Env \<Rightarrow> Subscription \<Rightarrow> string \<Rightarrow> string \<Rightarrow> FloodResult \<Rightarrow> World \<Rightarrow> (decide_error, GateDecision, World) outcome" where
  "recordHeartbeatFloodDrop d e x i reason budget w =
     (case record_decision (new_decision (sub_OrganizationID x) i 1 '''' 0 (SilentResult reason)) e w of
        (Inl err, w1) \<Rightarrow> (Inl err, w1)
      | (Inr rec, w1) \<Rightarrow>
          (Inr \<lparr>gate_Accepted = False, gate_Confidence = 1, gate_PackID = ''''\<rparr>,
           world_receipt (ports_of d)
             \<lparr>ap_OrganizationID = sub_OrganizationID x, ap_Type = ''trigger.heartbeat.flood_dropped'', ap_ActorID = '''',
              ap_ResourceID = sub_ChannelID x @ ''/'' @ sub_ID x,
              ap_Metadata = (''channel_id'', MetaString (sub_ChannelID x)) # flood_metadata reason budget, ap_RetentionEpoch = '''',
              ap_IdempotencyKey = i @ ''/flood-drop'', ap_Content = ''''\<rparr> (en_ids e 22) (en_clock e 25) w1))"

definition heartbeat_receipt :: "Subscription \<Rightarrow> string \<Rightarrow> ClassifierResult \<Rightarrow> string \<Rightarrow> AppendRequest" where
  "heartbeat_receipt x i r epoch =
     \<lparr>ap_OrganizationID = sub_OrganizationID x, ap_Type = ''trigger.heartbeat.classified'', ap_ActorID = '''',
      ap_ResourceID = sub_ChannelID x @ ''/'' @ sub_ID x,
      ap_Metadata = [(''channel_id'', MetaString (sub_ChannelID x)), (''outcome'', MetaString (outcome_text (cd_Outcome (clr_Effective r)))),
                     (''confidence'', MetaNumber (cd_Confidence (clr_Effective r))), (''shadowed'', MetaBool (clr_Shadowed r))],
      ap_RetentionEpoch = epoch, ap_IdempotencyKey = i @ ''/classified'', ap_Content = ''''\<rparr>"

text \<open>Classifying the instruction of a heartbeat in the context of its destination.\<close>

definition classify_heartbeat ::
  "DecideDeps \<Rightarrow> Env \<Rightarrow> Subscription \<Rightarrow> string \<Rightarrow> Target \<Rightarrow> World \<Rightarrow> (decide_error, GateDecision, World) outcome" where
  "classify_heartbeat d e x i t w =
     (case buildContextPack d e (tg_Envelope t) i 0 w of
        Inl err \<Rightarrow> (Inl err, w)
      | Inr pack \<Rightarrow>
          if \<not> save_pack d pack 1 then (Inl DecideSavePack, w)
          else
            let r = EnforceParticipation (classifier_Decide (dd_Classifier d) t pack) t pack
            in case record_decision (new_decision (sub_OrganizationID x) i 1 (pack_ID pack) (pack_OrganizationWatermark pack) r) e w of
                 (Inl err, w1) \<Rightarrow> (Inl err, w1)
               | (Inr rec, w1) \<Rightarrow>
                   (Inr \<lparr>gate_Accepted = createsJob (clr_Effective r), gate_Confidence = cd_Confidence (clr_Effective r),
                         gate_PackID = pack_ID pack\<rparr>,
                    world_receipt (ports_of d) (heartbeat_receipt x i r (retentionEpoch (pack_ExpiresAt pack) (en_clock e 24)))
                      (en_ids e 22) (en_clock e 25) w1))"

definition EvaluateHeartbeat ::
  "DecideDeps \<Rightarrow> Env \<Rightarrow> Subscription \<Rightarrow> string \<Rightarrow> World \<Rightarrow> (decide_error, GateDecision, World) outcome" where
  "EvaluateHeartbeat d e x window w =
     (let now = en_clock e 0; i = heartbeat_target x window;
          policy = (case w_scopes w of
                      None \<Rightarrow> Some ModeAssist
                    | Some st \<Rightarrow>
                        (case orgconfig_Resolve (sub_OrganizationID x) (sub_WorkspaceID x) (sub_ChannelID x) st of
                           Inl _ \<Rightarrow> None
                         | Inr p \<Rightarrow> if authorizedPolicy p now then Some (cp_ParticipationMode p) else None))
      in case policy of
           None \<Rightarrow> (Inl DecideScopeDenied, w)
         | Some mode \<Rightarrow>
             let t = \<lparr>tg_ObservationID = i, tg_Envelope = heartbeat_envelope x window now,
                      tg_Mode = (if slackOutputChannelAllowed (dd_Pipeline d) (sub_ChannelID x) then mode else ModeObserve),
                      tg_ActiveThread = False, tg_AuthorizedTrigger = True, tg_KillSwitched = False, tg_WorkflowLoop = False,
                      tg_Unsupported = False, tg_Deleted = False, tg_AmbientLinkOnly = False, tg_SelfAuthored = False\<rparr>
             in if \<not> tc_FloodProtectionEnabled (dd_Config d) \<or> \<not> RequiresProviderCall (dd_Classifier d) t
                then classify_heartbeat d e x i t w
                else case flood_Admit \<lparr>fs_OrganizationID = sub_OrganizationID x, fs_TeamID = sub_WorkspaceID x\<rparr> (en_clock e 39) (w_flood w) of
                       (Inl _, m) \<Rightarrow>
                         recordHeartbeatFloodDrop d e x i ''safety.classifier_flood_gate_unavailable'' zero_FloodResult (w\<lparr>w_flood := m\<rparr>)
                     | (Inr budget, m) \<Rightarrow>
                         if \<not> fr_Allowed budget
                         then recordHeartbeatFloodDrop d e x i ''safety.classifier_flood_limit'' budget (w\<lparr>w_flood := m\<rparr>)
                         else classify_heartbeat d e x i t (w\<lparr>w_flood := m\<rparr>))"

end
