(* ===== verification/DecideProperties.thy ===== *)
theory DecideProperties
  imports Decide IntakeProperties
begin

text \<open>
  What the deciding half of the pipeline promises: what a context pack may contain, when a decision
  may produce output, what it leaves in the stores, and where the code falls short of its intent.
\<close>

section \<open>The context of a decision\<close>

lemma pack_source_candidate:
  assumes "packs_Build marshal sha b r i now = Inr pack" "x \<in> set (pack_Sources pack)"
  shows "\<exists>c \<in> set (pr_Candidates r). x = source_of (cand_Partition c) (tk_Count (pb_tokenizer b) (cand_Text c)) c"
proof -
  define admitted where "admitted = filter (candidate_admitted (pr_OrganizationID r) (pack_created r now)) (pr_Candidates r)"
  have fold_created: "(if IsZero (pr_CreatedAt r) then now else pr_CreatedAt r) = pack_created r now" by (simp add: pack_created_def)
  have ne: "(pr_OrganizationID r = [] \<or> pr_TargetObservationID r = []) = False"
    using assms(1) unfolding packs_Build_def by (meson sum.distinct(1))
  note built = assms(1) [unfolded packs_Build_def Let_def fold_created admitted_def [symmetric] ne if_False]
  obtain s where s: "select_all b (visiting_order admitted) no_selection = Inr s" using built by (cases "select_all b (visiting_order admitted) no_selection") simp_all
  have "pack_Sources pack = sel_Sources s" using arg_cong [OF built [unfolded s sum.case], of "\<lambda>x. pack_Sources (projr x)"] by simp
  note s = s this
  have ok: "selection_ok b (set (visiting_order admitted)) s"
    using select_all_ok [OF s(1) no_selection_ok subset_refl] by (simp add: no_selection_def)
  note all = conjunct2 [OF conjunct2 [OF conjunct2 [OF conjunct2 [OF ok [unfolded selection_ok_def]]]]]
  have "x \<in> set (sel_Sources s)" using assms(2) s(2) by simp
  from bspec [OF all this] obtain c p where "(p, c) \<in> set (visiting_order admitted)"
    "x = source_of p (tk_Count (pb_tokenizer b) (cand_Text c)) c" by (elim exE conjE)
  then show ?thesis by (auto simp: visiting_order_set admitted_def)
qed

text \<open>The scan of the policies collects authorized channels, and of the restricted ones only the target.\<close>

definition readable_channel :: "ChannelPolicy list \<Rightarrow> string \<Rightarrow> time \<Rightarrow> string \<Rightarrow> bool" where
  "readable_channel ps target now ch \<longleftrightarrow>
     (\<exists>p \<in> set ps. cp_ChannelID p = ch \<and> authorizedPolicy p now \<and> (ch = target \<or> \<not> cp_Restricted p))"

lemma scan_policy_channels:
  "set (sn_channels (scan_policy target now p sn)) \<subseteq> set (sn_channels sn)
     \<union> (if authorizedPolicy p now \<and> (cp_ChannelID p = target \<or> \<not> cp_Restricted p) then {cp_ChannelID p} else {})"
  by (cases "authorizedPolicy p now"; cases "cp_ChannelID p = target"; cases "cp_Restricted p"; cases "sn_sessionOnly sn")
    (simp_all add: scan_policy_def Let_def subset_insertI)

lemma scan_readable:
  assumes "ch \<in> set (sn_channels (fold (scan_policy target now) ps sn))"
  shows "ch \<in> set (sn_channels sn) \<or> readable_channel ps target now ch"
  using assms
proof (induction ps arbitrary: sn)
  case (Cons p ps)
  have step: "ch \<in> set (sn_channels (scan_policy target now p sn)) \<Longrightarrow> ch \<in> set (sn_channels sn) \<or> readable_channel [p] target now ch"
    using scan_policy_channels [of target now p sn] unfolding readable_channel_def by (auto split: if_split_asm)
  have more: "readable_channel qs target now ch \<Longrightarrow> set qs \<subseteq> set (p # ps) \<Longrightarrow> readable_channel (p # ps) target now ch" for qs
    unfolding readable_channel_def by blast
  have "ch \<in> set (sn_channels (fold (scan_policy target now) ps (scan_policy target now p sn)))" using Cons.prems by simp
  from Cons.IH [OF this] show ?case
  proof
    assume "readable_channel ps target now ch"
    from more [OF this] show ?thesis by auto
  next
    assume "ch \<in> set (sn_channels (scan_policy target now p sn))"
    from step [OF this] more [of "[p]"] show ?thesis by auto
  qed
qed simp

lemma scanned_channel:
  assumes "w_scopes w = Some st" "ch \<in> set (sn_channels (scan_channels e v now w))"
  shows "readable_channel (orgconfig_ListChannels (en_channels e) (env_OrganizationID v) st) (env_ChannelID v) now ch"
proof -
  have "ch \<in> set (sn_channels (fold (scan_policy (env_ChannelID v) now) (orgconfig_ListChannels (en_channels e) (env_OrganizationID v) st) start_scan))"
    using assms by (simp add: scan_channels_def)
  from scan_readable [OF this] show ?thesis by (simp add: start_scan_def)
qed

lemma lookup_of_vals: "x \<in> set (vals ord m) \<Longrightarrow> x \<in> ran m"
  by (auto simp: set_vals ran_def)

lemma recent_message:
  assumes "m \<in> set (observer_Recent ord org channels since limit s)"
  shows "m \<in> ran (os_messages s) \<and> cm_OrganizationID m = org \<and> \<not> cm_Deleted m \<and> cm_ChannelID m \<in> set channels"
proof -
  have "m \<in> set (filter (\<lambda>m. cm_OrganizationID m = org \<and> \<not> cm_Deleted m \<and> \<not> Before (cm_OriginalAt m) since \<and> cm_ChannelID m \<in> set channels)
            (vals ord (os_messages s)))"
    using assms by (auto simp: observer_Recent_def Let_def split: if_splits dest: in_set_dropD)
  then show ?thesis using lookup_of_vals by auto
qed

lemma candidate_fields [simp]:
  "cand_Provenance (candidate org ch i n part pr t p ob) = pr" "cand_ChannelID (candidate org ch i n part pr t p ob) = ch"
  "cand_Text (candidate org ch i n part pr t p ob) = t" "cand_ID (candidate org ch i n part pr t p ob) = i"
  "cand_DisclosureClass (candidate org ch i n part pr t p ob) = DisclosureDestinationSafe"
  by (simp_all add: candidate_def)

definition message_provenances :: "string list" where
  "message_provenances = [''human_message'', ''agent_output_unverified'']"

lemma message_candidate_origin:
  assumes "c \<in> set cs" "context_candidates d e v now w = Inr cs" "cand_Provenance c \<in> set message_provenances"
  shows "\<exists>m. m \<in> set (context_messages d e v now w) \<and> usable_message v (scan_channels e v now w) m
    \<and> c = message_candidate (dd_Config d) v (scan_channels e v now w) m"
proof -
  obtain fs where fs: "fact_candidates d v (scan_channels e v now w) now = Inr fs"
    and cs: "cs = system_candidate v now # config_candidates (dd_Printable d) v (w_config w)
                  @ (if sn_sessionOnly (scan_channels e v now w) then [] else memory_candidates d e v now w)
                  @ fs @ message_candidates (dd_Config d) v (scan_channels e v now w) (context_messages d e v now w)"
    using assms(2) by (auto simp: context_candidates_def Let_def split: sum.splits)
  have p: "''operator_directive'' \<notin> set message_provenances" "''operator_note'' \<notin> set message_provenances"
    "''operator_memory'' \<notin> set message_provenances" "''source_linked_memory'' \<notin> set message_provenances"
    "''source_linked_fact'' \<notin> set message_provenances"
    by (simp_all add: message_provenances_def)
  have "c \<noteq> system_candidate v now" using assms(3) p by (auto simp: system_candidate_def)
  moreover have "c \<notin> set (config_candidates (dd_Printable d) v (w_config w))"
    using assms(3) p by (auto simp: config_candidates_def directive_candidates_def note_candidate_def split: option.splits sum.splits)
  moreover have "c \<notin> set (memory_candidates d e v now w)"
    using assms(3) p by (auto simp: memory_candidates_def memory_candidate_def Let_def split: option.splits if_splits)
  moreover have "c \<notin> set fs"
    using assms(3) p fs by (auto simp: fact_candidates_def fact_candidate_def split: option.splits if_splits)
  ultimately have "c \<in> set (message_candidates (dd_Config d) v (scan_channels e v now w) (context_messages d e v now w))"
    using assms(1) cs by (auto split: if_splits)
  then show ?thesis by (auto simp: message_candidates_def)
qed

text \<open>C3. A conversation of another channel enters the context of a decision only from a channel whose policy
  authorizes it at that moment and neither it nor the message is restricted: the source of a pack that
  is a message of another channel is such a stored, undeleted message with its own text.\<close>

theorem context_respects_restriction:
  assumes "buildContextPack d e v target wm w = Inr pack" "w_scopes w = Some st" "s \<in> set (pack_Sources pack)"
    "src_Provenance s \<in> set message_provenances" "src_ChannelID s \<noteq> env_ChannelID v"
  shows "(\<exists>m \<in> ran (os_messages (w_observations w)). cm_OrganizationID m = env_OrganizationID v \<and> cm_ChannelID m = src_ChannelID s
      \<and> cm_Text m = src_Text s \<and> \<not> cm_Deleted m \<and> \<not> cm_Restricted m)
    \<and> (\<exists>p \<in> set (orgconfig_ListChannels (en_channels e) (env_OrganizationID v) st).
         cp_ChannelID p = src_ChannelID s \<and> authorizedPolicy p (en_clock e 20) \<and> \<not> cp_Restricted p)"
proof -
  define now where "now = en_clock e 20"
  define sn where "sn = scan_channels e v now w"
  obtain cs where cs0: "context_candidates d e v now w = Inr cs"
    using assms(1) by (auto simp: buildContextPack_def Let_def now_def split: if_splits sum.splits)
  define r where "r = \<lparr>pr_OrganizationID = env_OrganizationID v, pr_TargetObservationID = target, pr_OrganizationWatermark = wm,
      pr_PolicyRevision = ''policy/v1'', pr_MembershipRevision = sn_membership sn, pr_Candidates = cs, pr_CreatedAt = now,
      pr_ExpiresAt = now + tc_PromptRetention (dd_Config d)\<rparr>"
  have b: "packs_Build (dd_Canonical d) (port_sha (ports_of d)) (dd_Builder d) r (en_ids e 20) (en_clock e 21) = Inr pack"
    using assms(1) cs0 unfolding buildContextPack_def Let_def now_def [symmetric] sn_def [symmetric] r_def
    by (auto split: if_split_asm sum.split_asm)
  have cs: "context_candidates d e v now w = Inr cs" "pr_Candidates r = cs" using cs0 by (simp_all add: r_def)
  from pack_source_candidate [OF b assms(3)] cs(2) obtain c where c: "c \<in> set cs" "src_Provenance s = cand_Provenance c"
    "src_ChannelID s = cand_ChannelID c" "src_Text s = cand_Text c" by (auto simp: source_of_def)
  from message_candidate_origin [OF c(1) cs(1)] assms(4) c(2) obtain m where
    m: "m \<in> set (context_messages d e v now w)" "usable_message v sn m" "c = message_candidate (dd_Config d) v sn m"
    unfolding sn_def by auto
  have f: "cm_ChannelID m = src_ChannelID s" "cm_Text m = src_Text s" using c m(3) by (simp_all add: message_candidate_def)
  define chans where "chans = (if sn_sessionOnly sn then [env_ChannelID v] else sn_channels sn)"
  obtain since where since: "m \<in> set (observer_Recent (en_messages e) (env_OrganizationID v) chans since 500 (w_observations w))"
    using m(1) by (auto simp: context_messages_def Let_def sn_def [symmetric] chans_def)
  note rm = recent_message [OF since]
  then have "cm_ChannelID m \<in> set (sn_channels sn)" using f assms(5) by (auto simp: chans_def split: if_splits)
  from scanned_channel [OF assms(2) this [unfolded sn_def]] f(1) assms(5)
  have "\<exists>p \<in> set (orgconfig_ListChannels (en_channels e) (env_OrganizationID v) st).
         cp_ChannelID p = src_ChannelID s \<and> authorizedPolicy p now \<and> \<not> cp_Restricted p"
    by (auto simp: readable_channel_def)
  moreover have "\<not> cm_Restricted m" using m(2) f(1) assms(5) by (auto simp: usable_message_def)
  ultimately show ?thesis using rm f unfolding now_def by blast
qed

text \<open>The facts of the organization are not checked against the restriction of their channel: a fact
  learned while the channel was open is offered to every other channel as destination-safe context
  after the channel was restricted, where its messages are withheld.\<close>

theorem facts_cross_restriction:
  assumes "context_candidates d e v now w = Inr cs" "dd_Facts d = Some recall" "recall (env_OrganizationID v) now 40 = Some facts"
    "f \<in> set facts" "\<not> sn_sessionOnly (scan_channels e v now w)"
    "sn_restricted (scan_channels e v now w) (sf_ChannelID f) = Some True" "sf_ChannelID f \<noteq> env_ChannelID v"
  shows "(\<exists>c \<in> set cs. cand_ChannelID c = sf_ChannelID f \<and> cand_Text c = sf_Summary f \<and> cand_DisclosureClass c = DisclosureDestinationSafe)
    \<and> (\<forall>m. cm_ChannelID m = sf_ChannelID f \<longrightarrow> \<not> usable_message v (scan_channels e v now w) m)"
proof -
  have "fact_candidate v (scan_channels e v now w) f \<in> set cs"
    using assms by (auto simp: context_candidates_def fact_candidates_def Let_def split: sum.splits if_splits option.splits)
  then have "\<exists>c \<in> set cs. cand_ChannelID c = sf_ChannelID f \<and> cand_Text c = sf_Summary f \<and> cand_DisclosureClass c = DisclosureDestinationSafe"
    by (rule bexI [rotated]) (simp add: fact_candidate_def)
  then show ?thesis using assms(6,7) by (auto simp: usable_message_def lookup_zero_def)
qed


section \<open>When a decision produces output\<close>

definition outputs :: "World \<Rightarrow> JobQueue \<times> DeliveryQueue" where
  "outputs w = (sys_jobs (w_system w), sys_deliveries (w_system w))"

lemma outputs_frame [simp]:
  "outputs (world_receipt p a i now w) = outputs w" "outputs (release_reservation i w) = outputs w"
  "outputs (w\<lparr>w_observations := s\<rparr>) = outputs w" "outputs (w\<lparr>w_decisions := ds\<rparr>) = outputs w"
  "outputs (w\<lparr>w_flood := m\<rparr>) = outputs w" "outputs (w\<lparr>w_sessions := ss\<rparr>) = outputs w"
  "outputs (applyClassifierReaction d e v revision rec w) = outputs w"
  by (simp_all add: outputs_def release_reservation_def sys_release_def applyClassifierReaction_def Let_def split: sum.splits)

lemma record_outputs [simp]: "outputs (snd (record_decision r e w)) = outputs w"
  by (simp add: record_decision_def split: prod.splits sum.splits)

lemma admit_outputs [simp]: "outputs (snd (admit_decision e t policy r w)) = outputs w"
  by (simp add: admit_decision_def outputs_def split: option.splits prod.splits sum.splits)

lemma observed_outputs [simp]:
  "outputs (snd (reserve_output ob w)) = outputs w" "outputs (snd (finalize_output ob j i w)) = outputs w"
  "outputs (snd (complete_decision ob scope state now w)) = outputs w" "outputs (snd (deny_scope e ob revision w)) = outputs w"
proof -
  show "outputs (snd (reserve_output ob w)) = outputs w" "outputs (snd (finalize_output ob j i w)) = outputs w"
    and c: "outputs (snd (complete_decision ob scope state now w)) = outputs w" for scope state now
    by (simp_all add: reserve_output_def finalize_output_def complete_decision_def split: prod.splits)
  show "outputs (snd (deny_scope e ob revision w)) = outputs w"
    using c [of "''denied''" "''suppressed''" "en_clock e 40"] by (auto simp: deny_scope_def split: prod.splits sum.splits)
qed

lemma act_outputs:
  assumes "\<not> hasDirectReply (clr_Effective (dec_Result rec))" "\<not> createsJob (clr_Effective r)"
  shows "outputs (snd (act_on_decision d e ob t revision policy pack r reservation rec w)) = outputs w"
  using assms by (simp add: act_on_decision_def Let_def)

lemma silent_produces_nothing [simp]: "\<not> createsJob (silent reason)" "\<not> hasDirectReply (silent reason)"
  by (simp_all add: silent_def createsJob_def hasDirectReply_def zero_ClassificationDecision_def)

lemma enforced_silent:
  "clr_Effective r = silent reason \<Longrightarrow> \<exists>reason'. clr_Effective (EnforceParticipation r t p) = silent reason'"
  by (auto simp: EnforceParticipation_def Suppress_def)

lemma admitted_silent:
  "clr_Effective r = silent reason \<Longrightarrow> fst (fst (admit_decision e t policy r w)) = r \<and> snd (fst (admit_decision e t policy r w)) = ''''"
  by (auto simp: admit_decision_def split: option.splits)

lemma suppressed_decision:
  assumes "hardSuppression t \<noteq> '''' \<or> tg_Mode t = ModeObserve"
  shows "\<exists>reason. clr_Effective (classifier_Decide s t p) = silent reason"
  using assms by (auto simp: classifier_Decide_def SilentResult_def Let_def)

text \<open>A decision recorded for the first time is the one that was taken.\<close>

lemma fresh_record:
  assumes "record_decision (new_decision org ob revision pack wm r) e w = (Inr rec, w')"
    "w_decisions w (decision_key org ob revision) = None"
  shows "dec_Result rec = r"
  using assms by (auto simp: record_decision_def decisions_Record_def new_decision_def Let_def split: if_splits)

lemma admit_decisions [simp]: "w_decisions (snd (admit_decision e t policy r w)) = w_decisions w"
  by (simp add: admit_decision_def split: option.splits prod.splits sum.splits)

text \<open>
  The one way around a suppression: the decision under this key was recorded before with a direct reply, which is
  delivered again; no job is touched.
\<close>

definition replayed :: "string \<Rightarrow> World \<Rightarrow> World \<Rightarrow> bool" where
  "replayed key w w' \<longleftrightarrow>
     (\<exists>rec. w_decisions w key = Some rec \<and> hasDirectReply (clr_Effective (dec_Result rec))
        \<and> sys_jobs (w_system w') = sys_jobs (w_system w))"

text \<open>What is recorded: the decision, or the one found under its key.\<close>

lemma recorded:
  assumes "record_decision (new_decision org ob revision pack wm r) e w = (Inr rec, w')"
  shows "dec_Result rec = r \<or> w_decisions w (decision_key org ob revision) = Some rec"
  using assms by (auto simp: record_decision_def decisions_Record_def new_decision_def Let_def split: if_splits option.splits)

lemma jobs_frame [simp]:
  "sys_jobs (w_system (applyClassifierReaction d e v revision rec w)) = sys_jobs (w_system w)"
  "sys_jobs (w_system (world_receipt p a i now w)) = sys_jobs (w_system w)"
  "sys_jobs (w_system (release_reservation i w)) = sys_jobs (w_system w)"
  using outputs_frame unfolding outputs_def by simp_all

lemma direct_reply_jobs: "sys_jobs (w_system (snd (send_direct_reply d e ob v pack reservation rec w))) = sys_jobs (w_system w)"
proof -
  have r: "sys_jobs (w_system u') = sys_jobs (w_system u)" if "reserve_output ob u = (x, u')" for u u' x
    using observed_outputs(1) [of ob u] that by (simp add: outputs_def)
  have f: "sys_jobs (w_system u') = sys_jobs (w_system u)" if "finalize_output ob j i u = (x, u')" for u u' x j i
    using observed_outputs(2) [of ob j i u] that by (simp add: outputs_def)
  have q: "sys_jobs (w_system u') = sys_jobs (w_system u)" if "enqueue_delivery spec i now u = (x, u')" for spec i now u u' x
    using that by (auto simp: enqueue_delivery_def split: prod.splits sum.splits)
  show ?thesis by (auto simp: send_direct_reply_def split: prod.splits sum.splits bool.splits dest!: r f q)
qed

lemma decide_with_pack_outputs:
  assumes "outputs (snd (decide_with_pack d e ob t revision policy pack w)) \<noteq> outputs w"
  shows "hardSuppression t = '''' \<and> tg_Mode t \<noteq> ModeObserve
    \<or> replayed (decision_key (env_OrganizationID (tg_Envelope t)) (ob_PublicID ob) revision) w
        (snd (decide_with_pack d e ob t revision policy pack w))"
proof (rule ccontr)
  assume "\<not> ?thesis"
  then have not: "\<not> (hardSuppression t = '''' \<and> tg_Mode t \<noteq> ModeObserve)"
    and new: "\<not> replayed (decision_key (env_OrganizationID (tg_Envelope t)) (ob_PublicID ob) revision) w
        (snd (decide_with_pack d e ob t revision policy pack w))" by blast+
  define r0 where "r0 = EnforceParticipation (classifier_Decide (dd_Classifier d) t pack) t pack"
  obtain reason where silent: "clr_Effective r0 = silent reason"
    using suppressed_decision [of t "dd_Classifier d" pack] enforced_silent not unfolding r0_def by blast
  obtain w1 where adm: "admit_decision e t policy r0 w = ((r0, ''''), w1)"
    using admitted_silent [OF silent, of e t policy w] by (cases "admit_decision e t policy r0 w") (auto simp: prod_eq_iff)
  have w1: "outputs w1 = outputs w" "w_decisions w1 = w_decisions w"
    using admit_outputs [of e t policy r0 w] admit_decisions [of e t policy r0 w] adm by simp_all
  define nd where "nd = new_decision (env_OrganizationID (tg_Envelope t)) (ob_PublicID ob) revision (pack_ID pack) (pack_OrganizationWatermark pack) r0"
  obtain x w2 where rec: "record_decision nd e w1 = (x, w2)" by fastforce
  have w2: "outputs w2 = outputs w" using record_outputs [of nd e w1] rec w1 by simp
  note unfolded = decide_with_pack_def [of d e ob t revision policy pack w, unfolded Let_def r0_def [symmetric] adm prod.case nd_def [symmetric] rec]
  show False
  proof (cases x)
    case (Inl err) then show False using assms(1) w2 unfolding unfolded by simp
  next
    case (Inr rc)
    have quiet: "\<not> createsJob (clr_Effective r0)" using silent by simp
    have jobs: "sys_jobs (w_system w2) = sys_jobs (w_system w)" using w2 by (simp add: outputs_def)
    show False
    proof (cases "hasDirectReply (clr_Effective (dec_Result rc))")
      case False
      show False using assms(1) w2 unfolding unfolded Inr by (simp add: act_outputs [OF False quiet])
    next
      case True
      then have "dec_Result rc \<noteq> r0" using silent by auto
      then have "w_decisions w (decision_key (env_OrganizationID (tg_Envelope t)) (ob_PublicID ob) revision) = Some rc"
        using recorded rec w1(2) unfolding nd_def Inr by metis
      moreover have "sys_jobs (w_system (snd (decide_with_pack d e ob t revision policy pack w))) = sys_jobs (w_system w)"
        using True jobs unfolding unfolded Inr by (simp add: act_on_decision_def Let_def direct_reply_jobs)
      ultimately show False using new True unfolding replayed_def by blast
    qed
  qed
qed


lemma classify_outputs:
  assumes "outputs (snd (classify_observation d e ob t revision policy w)) \<noteq> outputs w"
  shows "hardSuppression t = '''' \<and> tg_Mode t \<noteq> ModeObserve
    \<or> replayed (decision_key (env_OrganizationID (tg_Envelope t)) (ob_PublicID ob) revision) w
        (snd (classify_observation d e ob t revision policy w))"
proof -
  obtain pack where "classify_observation d e ob t revision policy w = decide_with_pack d e ob t revision policy pack w"
    using assms unfolding classify_observation_def Let_def
    by (auto simp del: One_nat_def split: if_split_asm sum.split_asm)
  then show ?thesis using decide_with_pack_outputs assms by metis
qed

lemma suppression_outputs [simp]:
  "outputs (snd (recordPreclassificationSuppression d e ob t revision w)) = outputs w"
  "outputs (snd (recordFloodDrop d e ob v revision budget reason w)) = outputs w"
proof -
  have rec: "outputs w' = outputs w" if "record_decision r e w = (x, w')" for r x w'
    using record_outputs [of r e w] that by simp
  show "outputs (snd (recordPreclassificationSuppression d e ob t revision w)) = outputs w"
    by (auto simp: recordPreclassificationSuppression_def Let_def split: prod.splits sum.splits dest!: rec)
  show "outputs (snd (recordFloodDrop d e ob v revision budget reason w)) = outputs w"
    by (auto simp: recordFloodDrop_def Let_def split: prod.splits sum.splits dest!: rec)
qed

lemma decide_target_outputs:
  assumes "outputs (snd (decide_target d e ob t revision policy w)) \<noteq> outputs w"
  shows "hardSuppression t = '''' \<and> tg_Mode t \<noteq> ModeObserve
    \<or> replayed (decision_key (env_OrganizationID (tg_Envelope t)) (ob_PublicID ob) revision) w
        (snd (decide_target d e ob t revision policy w))"
proof (cases "tg_Deleted t \<or> tg_AmbientLinkOnly t")
  case True then show ?thesis using assms by (simp add: decide_target_def)
next
  case False
  obtain r m where f: "flood_Admit \<lparr>fs_OrganizationID = env_OrganizationID (tg_Envelope t), fs_TeamID = env_TeamID (tg_Envelope t)\<rparr>
      (en_clock e 39) (w_flood w) = (r, m)" by fastforce
  define wm where "wm = w\<lparr>w_flood := m\<rparr>"
  have same: "outputs wm = outputs w" "w_decisions wm = w_decisions w" "w_system wm = w_system w" by (simp_all add: wm_def)
  have dropped: "outputs (snd (recordFloodDrop d e ob v revision budget reason wm)) = outputs w" for v budget reason
    using same by simp
  have "decide_target d e ob t revision policy w = classify_observation d e ob t revision policy w
    \<or> decide_target d e ob t revision policy w = classify_observation d e ob t revision policy wm
    \<or> (\<exists>v budget reason. decide_target d e ob t revision policy w = recordFloodDrop d e ob v revision budget reason wm)"
    using False by (simp add: decide_target_def Let_def f wm_def [symmetric] split: sum.split) blast
  then show ?thesis
  proof (elim disjE exE)
    assume "decide_target d e ob t revision policy w = classify_observation d e ob t revision policy w"
    then show ?thesis using classify_outputs assms by metis
  next
    assume h: "decide_target d e ob t revision policy w = classify_observation d e ob t revision policy wm"
    have "replayed k wm w' = replayed k w w'" for k w' by (simp add: replayed_def same)
    then show ?thesis using classify_outputs [of d e ob t revision policy wm] h assms same(1) by simp
  next
    fix v budget reason assume "decide_target d e ob t revision policy w = recordFloodDrop d e ob v revision budget reason wm"
    then show ?thesis using dropped [of v budget reason] assms by simp
  qed
qed

lemma first_target_outputs:
  assumes "outputs (snd (decide_target d e ob t revision policy w)) \<noteq> outputs w"
    "w_decisions w (decision_key (env_OrganizationID (tg_Envelope t)) (ob_PublicID ob) revision) = None"
  shows "hardSuppression t = '''' \<and> tg_Mode t \<noteq> ModeObserve"
  using decide_target_outputs [OF assms(1)] assms(2) by (auto simp: replayed_def)


text \<open>The turn of an integration the channel trusts is accepted and marked by its origin, and the mark makes
  the classifier treat it as a workflow loop: its first decision never produces work or a reply.\<close>

theorem integration_trigger_never_answered:
  assumes "ob_OriginTag ob = integration_trigger_tag" "w_scopes w = Some st"
    "w_decisions w (decision_key (ob_OrganizationID ob) (ob_PublicID ob) revision) = None"
  shows "outputs (snd (decideObservation d e ob revision w)) = outputs w"
proof (rule ccontr)
  define v where "v = envelopeFromObservation ob"
  have vf: "env_OriginTag v = integration_trigger_tag" "env_OrganizationID v = ob_OrganizationID ob" using assms(1) by (simp_all add: v_def envelopeFromObservation_def)
  assume change: "outputs (snd (decideObservation d e ob revision w)) \<noteq> outputs w"
  have loop: "isWorkflowLoopOrigin integration_trigger_tag" by (simp add: isWorkflowLoopOrigin_def integration_trigger_tag_def)
  have stop: "outputs (snd (decide_target d e ob' (observation_target d e ob' (v\<lparr>env_Restricted := x\<rparr>) mode policy w1) revision policy w1)) = outputs w1"
    if "ob' = ob\<lparr>ob_Restricted := y\<rparr>" "w_decisions w1 = w_decisions w" for ob' x y mode policy w1
  proof (rule ccontr)
    assume "outputs (snd (decide_target d e ob' (observation_target d e ob' (v\<lparr>env_Restricted := x\<rparr>) mode policy w1) revision policy w1)) \<noteq> outputs w1"
    from first_target_outputs [OF this] assms(3) that vf
    have "hardSuppression (observation_target d e ob' (v\<lparr>env_Restricted := x\<rparr>) mode policy w1) = ''''"
      by (simp add: observation_target_def Let_def)
    then show False using loop vf by (auto simp: hardSuppression_def observation_target_def Let_def split: if_split_asm)
  qed
  show False
    using change stop assms(2) observed_outputs(4) [of e ob revision w]
    by (auto simp: decideObservation_def Let_def v_def [symmetric] split: if_split_asm sum.split_asm prod.split_asm)
qed


section \<open>What a decision leaves behind\<close>

definition adm :: "World \<Rightarrow> AdmissionMemory" where "adm w = sys_admissions (w_system w)"

definition released :: "string \<Rightarrow> AdmissionMemory \<Rightarrow> AdmissionMemory" where
  "released i m = (if i = '''' then m else admission_Complete i m)"

lemma adm_frame [simp]:
  "adm (world_receipt p a i now w) = adm w" "adm (release_reservation i w) = released i (adm w)"
  "adm (w\<lparr>w_observations := s\<rparr>) = adm w" "adm (w\<lparr>w_decisions := ds\<rparr>) = adm w"
  "adm (w\<lparr>w_flood := m\<rparr>) = adm w" "adm (w\<lparr>w_sessions := ss\<rparr>) = adm w"
  "adm (applyClassifierReaction d e v revision rec w) = adm w"
  by (simp_all add: adm_def released_def release_reservation_def sys_release_def applyClassifierReaction_def Let_def split: sum.splits)

lemma adm_eqs:
  "record_decision r e w = (x1, w1) \<Longrightarrow> adm w1 = adm w" "reserve_output ob w = (x2, w2) \<Longrightarrow> adm w2 = adm w"
  "finalize_output ob j i w = (x3, w3) \<Longrightarrow> adm w3 = adm w" "complete_decision ob scope state now w = (x4, w4) \<Longrightarrow> adm w4 = adm w"
  "enqueue_delivery spec i now w = (x5, w5) \<Longrightarrow> adm w5 = adm w" "enqueue_job jspec i now w = (x6, w6) \<Longrightarrow> adm w6 = adm w"
  by (auto simp: record_decision_def reserve_output_def finalize_output_def complete_decision_def enqueue_delivery_def enqueue_job_def adm_def
      split: prod.splits sum.splits)

definition open_in :: "AdmissionMemory \<Rightarrow> string \<Rightarrow> bool" where
  "open_in m i \<longleftrightarrow> (\<exists>r. am_reservations m i = Some r \<and> \<not> ar_completed r)"

lemma open_released: "open_in (released i m) k \<Longrightarrow> open_in m k \<and> (k \<noteq> i \<or> i = '''')"
  by (auto simp: open_in_def released_def admission_Complete_def Let_def split: option.splits if_splits)

definition carried :: "World \<Rightarrow> string \<Rightarrow> bool" where
  "carried w i \<longleftrightarrow> (\<exists>k j. q_jobs (sys_jobs (w_system w)) k = Some j \<and> job_AdmissionReservationID j = i)"

lemma carried_outputs: "outputs w' = outputs w \<Longrightarrow> carried w' i = carried w i"
  by (simp add: carried_def outputs_def)

lemma direct_reply_releases:
  assumes "send_direct_reply d e ob v pack reservation rec w = (Inr (), w')"
  shows "adm w' = released reservation (adm w)"
  using assms by (auto simp: send_direct_reply_def split: prod.split_asm sum.split_asm bool.split_asm dest!: adm_eqs)

lemma enqueued_carries:
  assumes "enqueue_job spec i now w = (Inr j, w')"
    "q_byIdempotency (sys_jobs (w_system w)) (idempotency_index (spec_OrganizationID spec) (spec_IdempotencyKey spec)) = None"
  shows "carried w' (spec_AdmissionReservationID spec)"
proof -
  have "q_jobs (sys_jobs (w_system w')) i = Some (job_of_spec spec i now)"
    using assms by (auto simp: enqueue_job_def jobs_Enqueue_def Let_def split: sum.splits prod.splits)
  then show ?thesis unfolding carried_def by (intro exI conjI, assumption) (simp add: job_of_spec_def)
qed

lemma reserve_outputs_eq: "reserve_output ob w = (x, w') \<Longrightarrow> outputs w' = outputs w"
  using observed_outputs(1) [of ob w] by simp

lemma finalize_outputs_eq: "finalize_output ob j i w = (x, w') \<Longrightarrow> outputs w' = outputs w"
  using observed_outputs(2) [of ob j i w] by simp

lemma agent_settles:
  assumes "start_agent d e ob t policy pack dec reservation w = (Inr (), w')"
    "q_byIdempotency (sys_jobs (w_system w)) (idempotency_index (env_OrganizationID (tg_Envelope t)) (output_reservation ob)) = None"
  shows "adm w' = released reservation (adm w) \<or> adm w' = adm w \<and> carried w' reservation"
proof -
  obtain model where m: "response_model d (tg_Envelope t) policy pack dec = Inr model"
    using assms(1) by (auto simp: start_agent_def Let_def split: sum.split_asm)
  obtain session n s where se: "sessions_Resolve (env_OrganizationID (tg_Envelope t)) (env_TeamID (tg_Envelope t)) (env_ChannelID (tg_Envelope t))
      (RootThreadTS (tg_Envelope t)) (en_ids e 27) (en_clock e 32) (w_sessions w) = (Inr (session, n), s)"
    using assms(1) m by (auto simp: start_agent_def Let_def split: sum.split_asm prod.split_asm)
  define ws where "ws = w\<lparr>w_sessions := s\<rparr>"
  define spec where "spec = agent_job_spec d ob t pack dec reservation session model"
  note unfolded = assms(1) [unfolded start_agent_def Let_def m se sum.case prod.case ws_def [symmetric] spec_def [symmetric]]
  obtain won w1 where r: "reserve_output ob ws = (Inr won, w1)"
    using unfolded by (cases "reserve_output ob ws", cases "fst (reserve_output ob ws)") auto
  have w1: "adm w1 = adm w" "outputs w1 = outputs w" using adm_eqs(2) [OF r] reserve_outputs_eq [OF r] by (simp_all add: ws_def)
  show ?thesis
  proof (cases won)
    case False then show ?thesis using unfolded r w1 by auto
  next
    case True
    obtain j w2 where q: "enqueue_job spec (en_ids e 28) (en_clock e 33) w1 = (Inr j, w2)"
      using unfolded r True by (cases "enqueue_job spec (en_ids e 28) (en_clock e 33) w1", cases "fst (enqueue_job spec (en_ids e 28) (en_clock e 33) w1)") auto
    define w3 where "w3 = world_receipt (ports_of d) (job_receipt (tg_Envelope t) j (en_clock e 34)) (en_ids e 29) (en_clock e 35) w2"
    have f: "finalize_output ob (job_ID j) '''' w3 = (Inr (), w')"
      using unfolded r True q by (auto simp: w3_def [symmetric] split: prod.split_asm sum.split_asm)
    have "spec_AdmissionReservationID spec = reservation" "spec_OrganizationID spec = env_OrganizationID (tg_Envelope t)"
      "spec_IdempotencyKey spec = output_reservation ob"
      by (simp_all add: spec_def agent_job_spec_def Let_def)
    then have "carried w2 reservation"
      using enqueued_carries [OF q] assms(2) w1(2) by (simp add: outputs_def)
    moreover have "outputs w3 = outputs w2" by (simp add: w3_def)
    ultimately have "carried w' reservation" using carried_outputs [of w' w2 reservation] finalize_outputs_eq [OF f] by simp
    then show ?thesis using adm_eqs(3) [OF f] adm_eqs(6) [OF q] w1 by (simp add: w3_def)
  qed
qed

lemma admit_refused: "admission_Admit p i now m = (Inl x, m') \<Longrightarrow> m' = m"
  by (auto simp: admission_Admit_def Let_def split: sum.split_asm if_split_asm)

lemma admit_granted:
  assumes "admission_Admit p i now m = (Inr x, m')"
  shows "x = i \<and> (\<forall>k. open_in m' k \<longrightarrow> open_in m k \<or> k = i)"
proof -
  have "x = i \<and> (\<exists>r. am_reservations m' = (am_reservations m)(i \<mapsto> r))"
    using assms by (auto simp: admission_Admit_def Let_def split: sum.split_asm if_split_asm)
  then show ?thesis by (auto simp: open_in_def)
qed

text \<open>Admission opens a reservation only for a decision that produces output.\<close>

lemma admit_reserves:
  assumes "admit_decision e t policy r0 w = ((r, reservation), w')"
  shows "outputs w' = outputs w \<and> (\<forall>i. open_in (adm w') i \<longrightarrow> open_in (adm w) i \<or> i = reservation)
    \<and> (reservation \<noteq> '''' \<longrightarrow> createsJob (clr_Effective r) \<or> hasDirectReply (clr_Effective r))"
proof -
  have o: "outputs w' = outputs w" using admit_outputs [of e t policy r0 w] assms by simp
  show ?thesis
  proof (cases "policy = None \<or> \<not> createsJob (clr_Effective r0) \<and> \<not> hasDirectReply (clr_Effective r0)")
    case True then show ?thesis using assms o by (auto simp: admit_decision_def split: option.splits)
  next
    case False
    then obtain p where p: "policy = Some p" by auto
    obtain x m where a: "admission_Admit (admissionPolicyForTarget p t) (en_ids e 23) (en_clock e 36) (adm w) = (x, m)" by fastforce
    then have a': "admission_Admit (admissionPolicyForTarget p t) (en_ids e 23) (en_clock e 36) (sys_admissions (w_system w)) = (x, m)"
      by (simp add: adm_def)
    show ?thesis
    proof (cases x)
      case (Inl err)
      then have "m = adm w" "reservation = ''''" "w' = w\<lparr>w_system := (w_system w)\<lparr>sys_admissions := m\<rparr>\<rparr>"
        using assms a' False p admit_refused [of _ _ _ _ err m] a by (auto simp: admit_decision_def)
      then show ?thesis using o by (simp add: adm_def)
    next
      case (Inr i)
      then have "reservation = i" "r = r0" "w' = w\<lparr>w_system := (w_system w)\<lparr>sys_admissions := m\<rparr>\<rparr>"
        using assms a' False p by (auto simp: admit_decision_def)
      moreover from this have "adm w' = m" by (simp add: adm_def)
      ultimately show ?thesis using admit_granted [OF a [unfolded Inr]] False p o by auto
    qed
  qed
qed

lemma act_settles:
  assumes "act_on_decision d e ob t revision policy pack r reservation rec w = (Inr (), w')" "dec_Result rec = r"
    "q_byIdempotency (sys_jobs (w_system w)) (idempotency_index (env_OrganizationID (tg_Envelope t)) (output_reservation ob)) = None"
    "reservation \<noteq> '''' \<longrightarrow> createsJob (clr_Effective r) \<or> hasDirectReply (clr_Effective r)" "open_in (adm w') i"
  shows "open_in (adm w) i \<and> (i \<noteq> reservation \<or> reservation = '''' \<or> carried w' i)"
proof -
  define w1 where "w1 = (if cd_Reaction (clr_Effective r) \<noteq> '''' then applyClassifierReaction d e (tg_Envelope t) revision rec w else w)"
  have w1: "adm w1 = adm w" "outputs w1 = outputs w" by (simp_all add: w1_def)
  then have fresh: "q_byIdempotency (sys_jobs (w_system w1)) (idempotency_index (env_OrganizationID (tg_Envelope t)) (output_reservation ob)) = None"
    using assms(3) by (simp add: outputs_def)
  note unfolded = assms(1) [unfolded act_on_decision_def Let_def assms(2) w1_def [symmetric]]
  show ?thesis
  proof (cases "hasDirectReply (clr_Effective r)")
    case True
    then have "adm w' = released reservation (adm w)" using unfolded direct_reply_releases w1 by auto
    then show ?thesis using open_released assms(5) by auto
  next
    case False
    show ?thesis
    proof (cases "createsJob (clr_Effective r)")
      case True
      then have "start_agent d e ob t policy pack (clr_Effective r) reservation w1 = (Inr (), w')" using unfolded False by simp
      from agent_settles [OF this fresh] w1 assms(5) open_released show ?thesis by auto
    next
      case none: False
      then show ?thesis using unfolded False assms(4,5) w1 by auto
    qed
  qed
qed


lemma admit_queue [simp]: "sys_jobs (w_system (snd (admit_decision e t policy r w))) = sys_jobs (w_system w)"
  by (simp add: admit_decision_def split: option.splits prod.splits sum.splits)

lemma record_queue: "record_decision r e w = (x, w') \<Longrightarrow> outputs w' = outputs w"
  using record_outputs [of r e w] by simp

lemma pack_settles:
  assumes "decide_with_pack d e ob t revision policy pack w = (Inr (), w')"
    "w_decisions w (decision_key (env_OrganizationID (tg_Envelope t)) (ob_PublicID ob) revision) = None"
    "q_byIdempotency (sys_jobs (w_system w)) (idempotency_index (env_OrganizationID (tg_Envelope t)) (output_reservation ob)) = None"
    "open_in (adm w') i" "i \<noteq> ''''"
  shows "open_in (adm w) i \<or> carried w' i"
proof -
  define r0 where "r0 = EnforceParticipation (classifier_Decide (dd_Classifier d) t pack) t pack"
  obtain r reservation w1 where ad: "admit_decision e t policy r0 w = ((r, reservation), w1)"
    by (metis prod.exhaust)
  from admit_reserves [OF ad] have w1: "outputs w1 = outputs w" "\<And>k. open_in (adm w1) k \<Longrightarrow> open_in (adm w) k \<or> k = reservation"
    and act: "reservation \<noteq> '''' \<longrightarrow> createsJob (clr_Effective r) \<or> hasDirectReply (clr_Effective r)" by blast+
  have ds: "w_decisions w1 = w_decisions w" using admit_decisions [of e t policy r0 w] ad by simp
  define nd where "nd = new_decision (env_OrganizationID (tg_Envelope t)) (ob_PublicID ob) revision (pack_ID pack) (pack_OrganizationWatermark pack) r"
  obtain x w2 where rec: "record_decision nd e w1 = (x, w2)" by fastforce
  note unfolded = assms(1) [unfolded decide_with_pack_def Let_def r0_def [symmetric] ad prod.case nd_def [symmetric] rec]
  obtain rc where x: "x = Inr rc" using unfolded by (cases x) auto
  have rc: "dec_Result rc = r" using fresh_record [OF rec [unfolded x nd_def]] assms(2) ds by simp
  obtain a n now where "act_on_decision d e ob t revision policy pack r reservation rc (world_receipt (ports_of d) a n now w2) = (Inr (), w')"
    using unfolded unfolding x sum.case by blast
  note acted = act_settles [OF this rc _ act assms(4)]
  have "q_byIdempotency (sys_jobs (w_system (world_receipt (ports_of d) a n now w2)))
      (idempotency_index (env_OrganizationID (tg_Envelope t)) (output_reservation ob)) = None"
    using assms(3) w1(1) record_queue [OF rec] outputs_frame(1) [of "ports_of d" a n now w2] unfolding outputs_def by simp
  from acted [OF this] have "open_in (adm w1) i \<and> (i \<noteq> reservation \<or> carried w' i)"
    using assms(5) adm_eqs(1) [OF rec] by auto
  then show ?thesis using w1(2) by auto
qed

lemma classify_settles:
  assumes "classify_observation d e ob t revision policy w = (Inr (), w')"
    "w_decisions w (decision_key (env_OrganizationID (tg_Envelope t)) (ob_PublicID ob) revision) = None"
    "q_byIdempotency (sys_jobs (w_system w)) (idempotency_index (env_OrganizationID (tg_Envelope t)) (output_reservation ob)) = None"
    "open_in (adm w') i" "i \<noteq> ''''"
  shows "open_in (adm w) i \<or> carried w' i"
proof -
  have "\<exists>pack. decide_with_pack d e ob t revision policy pack w = (Inr (), w')"
    using assms(1) unfolding classify_observation_def Let_def by (auto simp del: One_nat_def split: if_split_asm sum.split_asm)
  then show ?thesis using pack_settles assms(2-5) by blast
qed

lemma suppression_adm:
  "recordPreclassificationSuppression d e ob t revision w = (x, w') \<Longrightarrow> adm w' = adm w"
  "recordFloodDrop d e ob v revision budget reason w = (y, w'') \<Longrightarrow> adm w'' = adm w"
  by (auto simp: recordPreclassificationSuppression_def recordFloodDrop_def Let_def split: prod.split_asm sum.split_asm dest!: adm_eqs(1))

lemma target_settles:
  assumes "decide_target d e ob t revision policy w = (Inr (), w')"
    "w_decisions w (decision_key (env_OrganizationID (tg_Envelope t)) (ob_PublicID ob) revision) = None"
    "q_byIdempotency (sys_jobs (w_system w)) (idempotency_index (env_OrganizationID (tg_Envelope t)) (output_reservation ob)) = None"
    "open_in (adm w') i" "i \<noteq> ''''"
  shows "open_in (adm w) i \<or> carried w' i"
proof -
  have classified: ?thesis if "classify_observation d e ob t revision policy (w\<lparr>w_flood := m\<rparr>) = (Inr (), w')" for m
    using classify_settles [OF that] assms(2-5) by simp
  have direct: ?thesis if "classify_observation d e ob t revision policy w = (Inr (), w')"
    using classify_settles [OF that assms(2-5)] .
  have dropped: ?thesis if "recordFloodDrop d e ob v revision budget reason (w\<lparr>w_flood := m\<rparr>) = (Inr (), w')" for v budget reason m
    using suppression_adm(2) [OF that] assms(4) by simp
  have deleted: ?thesis if "recordPreclassificationSuppression d e ob t revision w = (Inr (), w')"
    using suppression_adm(1) [OF that] assms(4) by simp
  show ?thesis
  proof (cases "tg_Deleted t \<or> tg_AmbientLinkOnly t")
    case True then show ?thesis using assms(1) deleted by (simp add: decide_target_def)
  next
    case False
    show ?thesis
    proof (cases "\<not> tc_FloodProtectionEnabled (dd_Config d) \<or> \<not> RequiresProviderCall (dd_Classifier d) t")
      case True then show ?thesis using assms(1) False direct by (simp add: decide_target_def)
    next
      case counted: False
      obtain x m where f: "flood_Admit \<lparr>fs_OrganizationID = env_OrganizationID (tg_Envelope t), fs_TeamID = env_TeamID (tg_Envelope t)\<rparr>
          (en_clock e 39) (w_flood w) = (x, m)" by fastforce
      show ?thesis
      proof (cases x)
        case (Inl err)
        then show ?thesis using assms(1) False counted f dropped by (simp add: decide_target_def Let_def)
      next
        case (Inr budget)
        then show ?thesis using assms(1) False counted f dropped classified
          by (cases "fr_Allowed budget") (simp_all add: decide_target_def Let_def)
      qed
    qed
  qed
qed



section \<open>Samples\<close>

definition sample_channel_policy :: "string \<Rightarrow> bool \<Rightarrow> ChannelPolicy" where
  "sample_channel_policy channel restricted =
     \<lparr>cp_OrganizationID = ''o'', cp_TeamID = ''T'', cp_ChannelID = channel, cp_Name = channel, cp_Enrolled = True, cp_Restricted = restricted,
      cp_ParticipationMode = ModeAssist, cp_KillSwitch = False, cp_Cooldown = 0, cp_MaxResponsesPerHour = 6, cp_MaxConcurrentJobs = 2,
      cp_DefaultModelProfile = '''', cp_ContextHistoryMode = HistoryUnset, cp_ApproverUserIDs = [],
      cp_TrustedIntegrationBotIDs = [''B1''], cp_BotIsMember = True, cp_BotMembershipKnown = True,
      cp_ParticipationManagedByMembership = False, cp_WorkspaceEnabled = True, cp_MembershipRevision = ''m'',
      cp_MembershipRefreshedAt = 100, cp_Version = 1\<rparr>"

definition sample_chat_store :: OrgStore where
  "sample_chat_store = sample_open_store\<lparr>os_channels :=
     [''o/T/C'' \<mapsto> sample_channel_policy ''C'' False, ''o/T/R'' \<mapsto> sample_channel_policy ''R'' False,
      ''o/T/X'' \<mapsto> sample_channel_policy ''X'' True]\<rparr>"

definition sample_post :: "string \<Rightarrow> string \<Rightarrow> ChannelMessage" where
  "sample_post channel body =
     \<lparr>cm_OrganizationID = ''o'', cm_TeamID = ''T'', cm_ChannelID = channel, cm_MessageTS = ''1.0'', cm_RootThreadTS = ''1.0'',
      cm_AuthorID = ''U1'', cm_BotID = '''', cm_Subtype = '''', cm_Text = body, cm_Images = [], cm_Deleted = False, cm_Restricted = False,
      cm_SourceEventID = ''E'', cm_SourceEventAt = 90, cm_SourceEventRank = 1, cm_ProjectionVersion = 1, cm_OriginalAt = 90, cm_UpdatedAt = 90\<rparr>"

definition sample_observation :: "string \<Rightarrow> Observation" where
  "sample_observation origin =
     \<lparr>ob_PublicID = ''obs'', ob_OrganizationID = ''o'', ob_TeamID = ''T'', ob_ChannelID = ''C'', ob_EventID = ''E1'', ob_EnvelopeID = ''e'',
      ob_ReceivedSeq = 1, ob_OrganizationReceivedSeq = 1, ob_SlackEventTime = 90, ob_ReceivedAt = 103, ob_MessageTS = ''1.0'',
      ob_RootThreadTS = ''1.0'', ob_UserID = ''U1'', ob_BotID = '''', ob_Restricted = False, ob_IsMention = True, ob_OriginTag = origin,
      ob_EventType = SlackEventMessage, ob_Subtype = '''', ob_Text = ''<@UTAG> what changed?'', ob_Images = [], ob_MutationTargetTS = '''',
      ob_ScopeState = ''pending'', ob_DecisionState = ''pending'', ob_DecisionLeaseOwner = '''', ob_DecisionLeaseToken = '''',
      ob_DecisionLeaseExpiresAt = 0, ob_OutputProduced = False, ob_OutputReservationID = '''', ob_OutputJobID = '''',
      ob_OutputDeliveryID = '''', ob_CreatedAt = 103, ob_ExpiresAt = 1000, ob_Version = 1\<rparr>"

definition sample_chat :: World where
  "sample_chat = sample_world\<lparr>w_scopes := Some sample_chat_store,
     w_observations := (NewObserverStore (100 * Hour))
       \<lparr>os_observations := [''T/E1'' \<mapsto> sample_observation ''slack_message''], os_byPublic := [''obs'' \<mapsto> ''T/E1''],
        os_messages := [''o/T/C/1.0'' \<mapsto> sample_post ''C'' ''<@UTAG> what changed?'', ''o/T/R/1.0'' \<mapsto> sample_post ''R'' ''deploy done'',
                        ''o/T/X/1.0'' \<mapsto> sample_post ''X'' ''layoffs'']\<rparr>\<rparr>"

definition sample_decide_deps :: DecideDeps where
  "sample_decide_deps =
     \<lparr>dd_Pipeline = sample_deps, dd_Config = sample_tag_config,
      dd_Classifier = \<lparr>sv_classifier = (\<lambda>_ _. Inl \<lparr>ce_Stage = ''request'', ce_Code = ''timeout''\<rparr>), sv_shadow = False,
        sv_assistThreshold = 6/10, sv_channelReplyThreshold = 8/10\<rparr>,
      dd_Builder = \<lparr>pb_budget = \<lparr>cpc_Lookback = 1, cpc_MaxTokens = 7, cpc_System = 1, cpc_Thread = 1, cpc_Channel = 2, cpc_RecentOrg = 1,
          cpc_Evidence = 1, cpc_Situation = 0, cpc_Headroom = 1\<rparr>, pb_tokenizer = \<lparr>tk_Revision = ''one'', tk_Count = (\<lambda>_. 1)\<rparr>\<rparr>,
      dd_Canonical = (\<lambda>_. ''''), dd_Marshal = (\<lambda>_. Some ''input''), dd_Printable = (\<lambda>_. True), dd_StartedAt = 1,
      dd_Project = None, dd_Facts = Some (\<lambda>_ _ _. Some [\<lparr>sf_PublicID = ''f'', sf_ChannelID = ''X'', sf_Summary = ''cuts'', sf_UpdatedAt = 80, sf_ExpiresAt = 900\<rparr>]),
      dd_SavePack = None, dd_React = (\<lambda>_. Inr False)\<rparr>"

definition sample_env :: Env where
  "sample_env = \<lparr>en_clock = (\<lambda>n. 110 + int n), en_ids = (\<lambda>n. if n = 23 then ''reservation'' else CHR ''i'' # replicate n CHR ''x''),
     en_messages = [''o/T/C/1.0'', ''o/T/R/1.0'', ''o/T/X/1.0''], en_channels = [''o/T/C'', ''o/T/R'', ''o/T/X''], en_memories = []\<rparr>"

text \<open>
  Without the recall of facts the context of a decision cannot be assembled; a mention is decided
  without it.
\<close>

definition fallback_deps :: DecideDeps where
  "fallback_deps = sample_decide_deps\<lparr>dd_Facts := Some (\<lambda>_ _ _. None)\<rparr>"

definition sample_ob :: Observation where "sample_ob = sample_observation ''slack_message''"
definition sample_v :: SlackEnvelope where "sample_v = envelopeFromObservation sample_ob"
definition sample_policy :: ChannelPolicy where "sample_policy = sample_channel_policy ''C'' False"
definition marked_store :: ObserverStore where "marked_store = snd (observer_SetRestricted ''obs'' False 152 (w_observations sample_chat))"
definition marked_chat :: World where "marked_chat = sample_chat\<lparr>w_observations := marked_store\<rparr>"

definition sample_tg :: Target where
  "sample_tg = observation_target fallback_deps sample_env sample_ob sample_v ModeAssist (Some sample_policy) marked_chat"

definition fallback_pack :: ContextPackRevision where
  "fallback_pack = bare_pack (en_ids sample_env 20) ''o'' ''obs'' 1 133 (en_clock sample_env 37 + 24 * Hour)"

definition fallback_result :: ClassifierResult where
  "fallback_result = EnforceParticipation (classifier_Decide (dd_Classifier fallback_deps) sample_tg fallback_pack) sample_tg fallback_pack"

lemma sample_env_fields [simp]: "en_clock sample_env n = 110 + int n"
  "en_ids sample_env n = (if n = 23 then ''reservation'' else CHR ''i'' # replicate n CHR ''x'')"
  by (simp_all add: sample_env_def)

lemma sample_facts:
  "orgconfig_Resolve ''o'' ''T'' ''C'' sample_chat_store = Inr sample_policy"
  "authorizedPolicy sample_policy 151" "cp_Restricted sample_policy = False"
  "fst (observer_SetRestricted ''obs'' False 152 (w_observations sample_chat)) = Inr ()"
  "observation_mode (dd_Pipeline fallback_deps) sample_policy sample_v = ModeAssist"
  "tg_Deleted sample_tg = False" "tg_AmbientLinkOnly sample_tg = False"
  by code_simp+

lemma sample_fields:
  "dd_Config fallback_deps = sample_tag_config" "dd_Pipeline fallback_deps = sample_deps" "dd_SavePack fallback_deps = None"
  "dd_Project fallback_deps = None" "w_scopes sample_chat = Some sample_chat_store" "w_decisions sample_chat = NewDecisionStore"
  "w_system sample_chat = sample_system" "w_sessions sample_chat = NewSessionStore"
  "sample_v\<lparr>env_Restricted := False\<rparr> = sample_v" "sample_ob\<lparr>ob_Restricted := False\<rparr> = sample_ob"
  "ob_PublicID sample_ob = ''obs''" "ob_OrganizationReceivedSeq sample_ob = 1" "ob_OrganizationID sample_ob = ''o''"
  "env_OrganizationID sample_v = ''o''" "env_TeamID sample_v = ''T''" "env_ChannelID sample_v = ''C''" "env_Restricted sample_v = False"
  "env_IsMention sample_v = True" "env_ThreadTS sample_v = ''1.0''" "env_MessageTS sample_v = ''1.0''" "RootThreadTS sample_v = ''1.0''"
  "tg_Envelope sample_tg = sample_v"
  by (simp_all add: fallback_deps_def sample_decide_deps_def sample_chat_def sample_world_def sample_v_def sample_ob_def sample_observation_def
      envelopeFromObservation_def sample_tg_def observation_target_def Let_def RootThreadTS_def)

lemma fallback_context: "buildContextPack fallback_deps sample_env sample_v ''obs'' 1 marked_chat = Inl DecideRecall"
proof -
  have "sn_channels (scan_channels sample_env sample_v 130 marked_chat) \<noteq> []" "\<not> sn_sessionOnly (scan_channels sample_env sample_v 130 marked_chat)"
    by code_simp+
  then show ?thesis
    by (simp add: buildContextPack_def context_candidates_def fact_candidates_def fallback_deps_def Let_def)
qed

lemma sample_reduces:
  "decideObservation fallback_deps sample_env sample_ob 1 sample_chat
     = decide_with_pack fallback_deps sample_env sample_ob sample_tg 1 (Some sample_policy) fallback_pack marked_chat"
proof -
  obtain s where s: "observer_SetRestricted ''obs'' False 152 (w_observations sample_chat) = (Inr (), s)"
    using sample_facts(4) by (cases "observer_SetRestricted ''obs'' False 152 (w_observations sample_chat)") simp
  then have s': "s = marked_store" by (simp add: marked_store_def)
  have "decideObservation fallback_deps sample_env sample_ob 1 sample_chat
      = decide_target fallback_deps sample_env sample_ob sample_tg 1 (Some sample_policy) marked_chat"
    using sample_facts s s' by (simp add: decideObservation_def Let_def sample_v_def [symmetric] sample_fields sample_tag_config_def
        marked_chat_def [symmetric] sample_tg_def)
  also have "\<dots> = classify_observation fallback_deps sample_env sample_ob sample_tg 1 (Some sample_policy) marked_chat"
    using sample_facts by (simp add: decide_target_def sample_fields sample_tag_config_def)
  also have "\<dots> = decide_with_pack fallback_deps sample_env sample_ob sample_tg 1 (Some sample_policy) fallback_pack marked_chat"
    by (simp add: classify_observation_def Let_def sample_fields fallback_context save_pack_def fallback_pack_def sample_tag_config_def)
  finally show ?thesis .
qed

lemma fallback_asks: "createsJob (clr_Effective fallback_result)" "hasDirectReply (clr_Effective fallback_result) = False"
  by code_simp+


definition admitted_memory :: AdmissionMemory where
  "admitted_memory = snd (admission_Admit (admissionPolicyForTarget sample_policy sample_tg) ''reservation'' 146 NewAdmission)"

lemma sample_admitted:
  "admission_Admit (admissionPolicyForTarget sample_policy sample_tg) ''reservation'' 146 NewAdmission = (Inr ''reservation'', admitted_memory)"
  "open_in admitted_memory ''reservation''" "\<not> open_in NewAdmission i"
proof -
  have f: "fst (admission_Admit (admissionPolicyForTarget sample_policy sample_tg) ''reservation'' 146 NewAdmission) = Inr ''reservation''"
    "map_option ar_completed (am_reservations admitted_memory ''reservation'') = Some False"
    by code_simp+
  then show "admission_Admit (admissionPolicyForTarget sample_policy sample_tg) ''reservation'' 146 NewAdmission = (Inr ''reservation'', admitted_memory)"
    "open_in admitted_memory ''reservation''"
    by (auto simp: admitted_memory_def open_in_def prod_eq_iff)
  show "\<not> open_in NewAdmission i" by (simp add: open_in_def NewAdmission_def)
qed

definition produced_store :: ObserverStore where
  "produced_store = snd (observer_ReserveOutput ''obs'' ''observation/obs/output'' marked_store)"

lemma sample_output_facts:
  "fst (observer_ReserveOutput ''obs'' ''observation/obs/output'' marked_store) = Inr True"
  "fst (observer_FinalizeOutput ''obs'' ''observation/obs/output'' (en_ids sample_env 28) '''' produced_store) = Inr ()"
  by code_simp+

lemma sample_agent:
  assumes "w_observations w = marked_store" "w_sessions w = NewSessionStore" "sys_jobs (w_system w) = NewJobQueue"
  shows "\<exists>w'. start_agent fallback_deps sample_env sample_ob sample_tg policy pack dec ''reservation'' w = (Inr (), w')
    \<and> adm w' = adm w \<and> carried w' ''reservation''"
proof -
  define v where "v = sample_v"
  have m: "response_model fallback_deps sample_v policy pack dec = Inr (stub_model, zero_DecisionTrace)"
    by (simp add: response_model_def sample_fields sample_deps_def)
  obtain session s where se: "sessions_Resolve ''o'' ''T'' ''C'' ''1.0'' (en_ids sample_env 27) (en_clock sample_env 32) (w_sessions w)
      = (Inr (session, True), s)" "ses_ID session \<noteq> ''''" "ses_CurrentGeneration session = 1"
    by (simp add: sessions_Resolve_def assms(2) NewSessionStore_def Let_def)
  define spec where "spec = agent_job_spec fallback_deps sample_ob sample_tg pack dec ''reservation'' session (stub_model, zero_DecisionTrace)"
  have valid: "jobs_ValidateSpec spec = Inr ()"
    by (simp add: jobs_ValidateSpec_def spec_def agent_job_spec_def Let_def sample_fields se sample_deps_def output_reservation_def)
  have r: "reserve_output sample_ob (w\<lparr>w_sessions := s\<rparr>) = (Inr True, w\<lparr>w_sessions := s, w_observations := produced_store\<rparr>)"
    using sample_output_facts(1) by (cases "observer_ReserveOutput ''obs'' ''observation/obs/output'' marked_store")
      (simp add: reserve_output_def sample_fields output_reservation_def assms(1) produced_store_def)
  define w1 where "w1 = w\<lparr>w_sessions := s, w_observations := produced_store\<rparr>"
  define j where "j = job_of_spec spec (en_ids sample_env 28) (en_clock sample_env 33)"
  obtain w2 where q: "enqueue_job spec (en_ids sample_env 28) (en_clock sample_env 33) w1 = (Inr j, w2)" "w_observations w2 = produced_store"
    using valid by (simp add: enqueue_job_def jobs_Enqueue_def w1_def assms(3) NewJobQueue_def Let_def j_def)
  define w3 where "w3 = world_receipt (pd_Ports sample_deps) (job_receipt sample_v j (en_clock sample_env 34)) (en_ids sample_env 29) (en_clock sample_env 35) w2"
  have "job_ID j = en_ids sample_env 28" by (simp add: j_def job_of_spec_def)
  then obtain w4 where f: "finalize_output sample_ob (job_ID j) '''' w3 = (Inr (), w4)"
    using sample_output_facts(2) q(2)
    by (cases "observer_FinalizeOutput ''obs'' ''observation/obs/output'' (en_ids sample_env 28) '''' produced_store")
      (simp add: finalize_output_def sample_fields output_reservation_def w3_def world_receipt_def)
  have started: "start_agent fallback_deps sample_env sample_ob sample_tg policy pack dec ''reservation'' w = (Inr (), w4)"
    unfolding start_agent_def Let_def sample_fields m sum.case se(1) prod.case r spec_def [symmetric] w1_def [symmetric]
    by (simp add: q(1) w3_def [symmetric] f del: sample_env_fields)
  have "adm w4 = adm w" using adm_eqs(3) [OF f] adm_eqs(6) [OF q(1)] by (simp add: w3_def w1_def)
  moreover have "carried w2 ''reservation''"
    using enqueued_carries [OF q(1)] by (simp add: w1_def assms(3) NewJobQueue_def spec_def agent_job_spec_def Let_def)
  moreover have "outputs w4 = outputs w2" using finalize_outputs_eq [OF f] by (simp add: w3_def)
  ultimately show ?thesis using started carried_outputs [of w4 w2] by auto
qed

definition sample_decided :: "(decide_error, unit, World) outcome" where
  "sample_decided = decideObservation fallback_deps sample_env sample_ob 1 sample_chat"

lemma sample_decided_facts:
  "fst sample_decided = Inr ()" "open_in (adm (snd sample_decided)) ''reservation''" "carried (snd sample_decided) ''reservation''"
proof -
  define wa where "wa = marked_chat\<lparr>w_system := sample_system\<lparr>sys_admissions := admitted_memory\<rparr>\<rparr>"
  have "hasDirectReply (clr_Effective fallback_result) = False" "createsJob (clr_Effective fallback_result)" by (rule fallback_asks)+
  then have ad: "admit_decision sample_env sample_tg (Some sample_policy) fallback_result marked_chat = ((fallback_result, ''reservation''), wa)"
    using sample_admitted(1) by (simp add: admit_decision_def marked_chat_def sample_fields wa_def sample_system_def)
  define nd where "nd = new_decision ''o'' ''obs'' 1 (pack_ID fallback_pack) (pack_OrganizationWatermark fallback_pack) fallback_result"
  obtain rc wb where rec: "record_decision nd sample_env wa = (Inr rc, wb)" "dec_Result rc = fallback_result"
    "w_observations wb = marked_store" "w_sessions wb = NewSessionStore" "w_system wb = sample_system\<lparr>sys_admissions := admitted_memory\<rparr>"
    by (simp add: record_decision_def decisions_Record_def nd_def new_decision_def wa_def marked_chat_def sample_fields NewDecisionStore_def Let_def)
  define wc where "wc = world_receipt (pd_Ports sample_deps)
      (decision_receipt ''o'' rc ''obs'' 1 (outcome_text (cd_Outcome (clr_Effective fallback_result)))
         (retentionEpoch (pack_ExpiresAt fallback_pack) (en_clock sample_env 24))) (en_ids sample_env 22) (en_clock sample_env 25) wb"
  define wd where "wd = (if cd_Reaction (clr_Effective fallback_result) \<noteq> '''' then applyClassifierReaction fallback_deps sample_env sample_v 1 rc wc else wc)"
  have same: "outputs wd = outputs wb" "adm wd = adm wb" by (simp_all add: wd_def wc_def)
  have "w_observations wd = marked_store" "w_sessions wd = NewSessionStore"
    using rec by (simp_all add: wd_def wc_def applyClassifierReaction_def world_receipt_def Let_def split: sum.split)
  moreover have "sys_jobs (w_system wd) = NewJobQueue" using same(1) rec(5) by (simp add: outputs_def sample_system_def)
  ultimately obtain w' where st: "start_agent fallback_deps sample_env sample_ob sample_tg (Some sample_policy) fallback_pack (clr_Effective fallback_result)
      ''reservation'' wd = (Inr (), w')" "adm w' = adm wd" "carried w' ''reservation''"
    using sample_agent by metis
  have "act_on_decision fallback_deps sample_env sample_ob sample_tg 1 (Some sample_policy) fallback_pack fallback_result ''reservation'' rc wc = (Inr (), w')"
    using fallback_asks st(1) unfolding act_on_decision_def Let_def rec(2) sample_fields wd_def [symmetric] by simp
  then have eq: "sample_decided = (Inr (), w')"
    unfolding sample_decided_def sample_reduces decide_with_pack_def Let_def sample_fields fallback_result_def [symmetric] ad prod.case
      nd_def [symmetric] rec(1) sum.case rec(2) wc_def [symmetric] .
  have "adm w' = admitted_memory" using st(2) same(2) rec(5) by (simp add: adm_def)
  then show "open_in (adm (snd sample_decided)) ''reservation''" unfolding eq snd_conv using sample_admitted(2) by simp
  show "fst sample_decided = Inr ()" by (simp add: eq)
  show "carried (snd sample_decided) ''reservation''" unfolding eq snd_conv by (rule st(3))
qed


definition sample_context_pack :: "decide_error + ContextPackRevision" where
  "sample_context_pack = buildContextPack sample_decide_deps sample_env sample_v ''obs'' 1 sample_chat"

lemma sample_context_sources:
  "(case sample_context_pack of Inr p \<Rightarrow> list_ex (\<lambda>s. src_ChannelID s = ''R'' \<and> src_Provenance s = ''human_message'') (pack_Sources p) | _ \<Rightarrow> False) = True"
  by code_simp

lemma context_respects_restriction_witness:
  "\<exists>p \<in> set (orgconfig_ListChannels (en_channels sample_env) ''o'' sample_chat_store). cp_ChannelID p = ''R'' \<and> \<not> cp_Restricted p"
proof -
  obtain pack where pack: "sample_context_pack = Inr pack"
    and "list_ex (\<lambda>s. src_ChannelID s = ''R'' \<and> src_Provenance s = ''human_message'') (pack_Sources pack)"
    using sample_context_sources by (simp split: sum.split_asm)
  then obtain s where s: "s \<in> set (pack_Sources pack)" "src_ChannelID s = ''R''" "src_Provenance s = ''human_message''"
    by (auto simp: list_ex_iff)
  have "src_Provenance s \<in> set message_provenances" using s(3) by (simp add: message_provenances_def)
  moreover have "src_ChannelID s \<noteq> env_ChannelID sample_v" using s(2) by (simp add: sample_fields)
  ultimately show ?thesis
    using context_respects_restriction [OF pack [unfolded sample_context_pack_def] sample_fields(5) s(1)] s(2) by (auto simp: sample_fields)
qed

lemma facts_cross_restriction_witness:
  "\<exists>c \<in> set (projr (context_candidates sample_decide_deps sample_env sample_v 130 sample_chat)).
     cand_ChannelID c = ''X'' \<and> cand_Text c = ''cuts'' \<and> cand_DisclosureClass c = DisclosureDestinationSafe"
proof -
  define f where "f = \<lparr>sf_PublicID = ''f'', sf_ChannelID = ''X'', sf_Summary = ''cuts'', sf_UpdatedAt = 80, sf_ExpiresAt = 900\<rparr>"
  define recall where "recall = (\<lambda>(_ :: string) (_ :: time) (_ :: int). Some [f])"
  have facts: "dd_Facts sample_decide_deps = Some recall" by (simp add: sample_decide_deps_def recall_def f_def)
  have scan: "\<not> sn_sessionOnly (scan_channels sample_env sample_v 130 sample_chat)"
    "sn_restricted (scan_channels sample_env sample_v 130 sample_chat) ''X'' = Some True"
    by code_simp+
  obtain cs where cs: "context_candidates sample_decide_deps sample_env sample_v 130 sample_chat = Inr cs"
    using scan by (simp add: context_candidates_def fact_candidates_def Let_def facts recall_def)
  show ?thesis
    using facts_cross_restriction [OF cs facts, of "[f]" f] scan by (simp add: cs recall_def f_def sample_fields)
qed


lemma integration_trigger_never_answered_witness:
  "outputs (snd (decideObservation fallback_deps sample_env (sample_observation integration_trigger_tag) 1 sample_chat)) = outputs sample_chat"
  using integration_trigger_never_answered [of "sample_observation integration_trigger_tag" sample_chat sample_chat_store 1 fallback_deps sample_env]
  by (simp add: sample_fields sample_observation_def NewDecisionStore_def)


section \<open>What a flooded organization leaves in the audit log\<close>

lemma other_rejected: "(k, MetaOther) \<in> set es \<Longrightarrow> \<exists>x. validateMetadata es = Inl x"
  by (induction es) (auto split: sum.split)

lemma rejected_receipt:
  assumes "(k, MetaOther) \<in> set (ap_Metadata a)"
  shows "sys_audit (w_system (world_receipt p a i now w)) = sys_audit (w_system w)"
proof -
  obtain x where "validateMetadata (ap_Metadata a) = Inl x" using other_rejected [OF assms] by auto
  then show ?thesis by (simp add: world_receipt_def appendReceipt_def audit_Append_def)
qed

lemma flood_rejected:
  "ap_Metadata a = m # flood_metadata reason budget \<Longrightarrow> sys_audit (w_system (world_receipt p a i now w)) = sys_audit (w_system w)"
  by (rule rejected_receipt [of "''window_start''"]) (simp add: flood_metadata_def)

lemma record_system: "record_decision r e w = (x, w') \<Longrightarrow> w_system w' = w_system w"
  by (auto simp: record_decision_def split: prod.splits sum.splits)

text \<open>A turn dropped by the flood gate leaves no receipt, neither of an observation nor of a heartbeat: the two
  bounds of the window are values of the type time.Time, which the metadata of a receipt may not hold,
  so every append of such a receipt is refused and the refusal only logged.\<close>

theorem flood_drop_leaves_no_receipt:
  "sys_audit (w_system (snd (recordFloodDrop d e ob v revision budget reason w))) = sys_audit (w_system w)
   \<and> sys_audit (w_system (snd (recordHeartbeatFloodDrop d e x i reason budget w))) = sys_audit (w_system w)"
proof
  show "sys_audit (w_system (snd (recordFloodDrop d e ob v revision budget reason w))) = sys_audit (w_system w)"
    by (auto simp: recordFloodDrop_def flood_rejected split: prod.split sum.split dest!: record_system)
  show "sys_audit (w_system (snd (recordHeartbeatFloodDrop d e x i reason budget w))) = sys_audit (w_system w)"
    by (auto simp: recordHeartbeatFloodDrop_def flood_rejected split: prod.split sum.split dest!: record_system)
qed

end
