(* ===== verification/GoURL.thy ===== *)
theory GoURL
  imports GoText
begin

text \<open>
  The parser of \<^verbatim>\<open>net/url\<close> as far as the Slack renderer relies on it: which texts \<^verbatim>\<open>url.Parse\<close> accepts, the
  scheme and the host it finds, and how \<^verbatim>\<open>URL.String\<close> writes a URL with a host again.  The parser of IP
  literals in brackets (\<^verbatim>\<open>net/netip\<close>) is the parameter \<open>ip\<close>.
\<close>

section \<open>Escaping\<close>

datatype url_mode = EncodePath | EncodeHost | EncodeUserPassword | EncodeFragment

definition url_alnum :: "char \<Rightarrow> bool" where
  "url_alnum c \<longleftrightarrow> (CHR ''a'' \<le> c \<and> c \<le> CHR ''z'') \<or> (CHR ''A'' \<le> c \<and> c \<le> CHR ''Z'') \<or> (CHR ''0'' \<le> c \<and> c \<le> CHR ''9'')"

definition host_punctuation :: string where
  "host_punctuation = ''!$&()*+,;=:[]<>'' @ [CHR 0x27, CHR 0x22]"

definition shouldEscape :: "char \<Rightarrow> url_mode \<Rightarrow> bool" where
  "shouldEscape c mode \<longleftrightarrow>
     (if url_alnum c then False
      else if mode = EncodeHost \<and> c \<in> set host_punctuation then False
      else if c \<in> set ''-_.~'' then False
      else if c \<in> set ''$&+,/:;=?@''
      then (case mode of
              EncodePath \<Rightarrow> c = CHR ''?''
            | EncodeUserPassword \<Rightarrow> c \<in> set ''@/?:''
            | EncodeFragment \<Rightarrow> False
            | EncodeHost \<Rightarrow> True)
      else if mode = EncodeFragment \<and> c \<in> set ''!()*'' then False
      else True)"

definition url_hex :: "char \<Rightarrow> bool" where
  "url_hex c \<longleftrightarrow> (CHR ''0'' \<le> c \<and> c \<le> CHR ''9'') \<or> (CHR ''a'' \<le> c \<and> c \<le> CHR ''f'') \<or> (CHR ''A'' \<le> c \<and> c \<le> CHR ''F'')"

definition url_unhex :: "char \<Rightarrow> nat" where
  "url_unhex c =
     (if CHR ''0'' \<le> c \<and> c \<le> CHR ''9'' then of_char c - 48
      else if CHR ''a'' \<le> c \<and> c \<le> CHR ''f'' then of_char c - 87 else of_char c - 55)"

text \<open>\<open>None\<close> is an \<^verbatim>\<open>EscapeError\<close> or an \<^verbatim>\<open>InvalidHostError\<close>.\<close>

fun url_unescape :: "url_mode \<Rightarrow> string \<Rightarrow> string option" where
  "url_unescape mode [] = Some []"
| "url_unescape mode (c # s) =
     (if c = CHR ''%''
      then (case s of
              a # b # r \<Rightarrow>
                if \<not> url_hex a \<or> \<not> url_hex b then None
                else if mode = EncodeHost \<and> url_unhex a < 8 \<and> \<not> (a = CHR ''2'' \<and> b = CHR ''5'') then None
                else map_option ((#) (char_of (16 * url_unhex a + url_unhex b))) (url_unescape mode r)
            | _ \<Rightarrow> None)
      else if mode = EncodeHost \<and> (of_char c :: nat) < 0x80 \<and> shouldEscape c mode then None
      else map_option ((#) c) (url_unescape mode s))"

definition url_escape :: "url_mode \<Rightarrow> string \<Rightarrow> string" where
  "url_escape mode s =
     concat (map (\<lambda>c. if shouldEscape c mode
                       then [CHR ''%'', ''0123456789ABCDEF'' ! (of_char c div 16), ''0123456789ABCDEF'' ! (of_char c mod 16)]
                       else [c]) s)"

text \<open>\<^verbatim>\<open>validEncoded\<close>, and the path or fragment as it is written again.\<close>

definition validEncoded :: "url_mode \<Rightarrow> string \<Rightarrow> bool" where
  "validEncoded mode s \<longleftrightarrow>
     list_all (\<lambda>c. c \<in> set ''!$&()*+,;=:@[]%'' \<or> c = CHR 0x27 \<or> \<not> shouldEscape c mode) s"

definition url_rewritten :: "url_mode \<Rightarrow> string \<Rightarrow> string" where
  "url_rewritten mode s =
     (if validEncoded mode s then s
      else case url_unescape mode s of None \<Rightarrow> s | Some plain \<Rightarrow> if plain = ''*'' \<and> mode = EncodePath then ''*'' else url_escape mode plain)"

section \<open>Parsing\<close>

definition url_cut :: "string \<Rightarrow> string \<Rightarrow> string \<times> string option" where
  "url_cut s p = (case Index s p of None \<Rightarrow> (s, None) | Some i \<Rightarrow> (take i s, Some (drop (i + length p) s)))"

definition url_ctl :: "string \<Rightarrow> bool" where
  "url_ctl s \<longleftrightarrow> list_ex (\<lambda>c. (of_char c :: nat) < 0x20 \<or> c = CHR 0x7F) s"

text \<open>\<^verbatim>\<open>getScheme\<close>: \<open>None\<close> is a missing scheme before a colon.\<close>

fun scheme_from :: "bool \<Rightarrow> string \<Rightarrow> string \<Rightarrow> (string \<times> string) option option" where
  "scheme_from start acc [] = Some None"
| "scheme_from start acc (c # s) =
     (if (CHR ''a'' \<le> c \<and> c \<le> CHR ''z'') \<or> (CHR ''A'' \<le> c \<and> c \<le> CHR ''Z'') then scheme_from False (acc @ [c]) s
      else if (CHR ''0'' \<le> c \<and> c \<le> CHR ''9'') \<or> c \<in> set ''+-.''
      then (if start then Some None else scheme_from False (acc @ [c]) s)
      else if c = CHR '':'' then (if start then None else Some (Some (acc, s)))
      else Some None)"

definition getScheme :: "string \<Rightarrow> (string \<times> string) option" where
  "getScheme s = map_option (\<lambda>r. case r of None \<Rightarrow> ('''', s) | Some x \<Rightarrow> x) (scheme_from True '''' s)"

definition validOptionalPort :: "string \<Rightarrow> bool" where
  "validOptionalPort p \<longleftrightarrow> (case p of [] \<Rightarrow> True | c # s \<Rightarrow> c = CHR '':'' \<and> list_all (\<lambda>d. CHR ''0'' \<le> d \<and> d \<le> CHR ''9'') s)"

definition validUserinfo :: "string \<Rightarrow> bool" where
  "validUserinfo s \<longleftrightarrow> list_all (\<lambda>c. url_alnum c \<or> c \<in> set ''-._:~!$&()*+,;=%@'' \<or> c = CHR 0x27) s"

definition parseHost :: "(string \<Rightarrow> string option) \<Rightarrow> string \<Rightarrow> string option" where
  "parseHost ip h =
     (if CHR ''['' \<in> set h then ip h
      else case Index h '':'' of
             Some i \<Rightarrow> if validOptionalPort (drop i h) then url_unescape EncodeHost h else None
           | None \<Rightarrow> url_unescape EncodeHost h)"

record URL =
  u_Scheme :: string
  u_User :: "string option"
  u_Host :: string
  u_Path :: string
  u_Query :: "string option"
  u_Fragment :: string

text \<open>The user part is kept as it is written again.\<close>

definition parseUser :: "string \<Rightarrow> string option" where
  "parseUser s =
     (if \<not> validUserinfo s then None
      else case url_cut s '':'' of
             (name, None) \<Rightarrow> map_option (url_escape EncodeUserPassword) (url_unescape EncodeUserPassword name)
           | (name, Some password) \<Rightarrow>
               (case (url_unescape EncodeUserPassword name, url_unescape EncodeUserPassword password) of
                  (Some n, Some p) \<Rightarrow> Some (url_escape EncodeUserPassword n @ '':'' @ url_escape EncodeUserPassword p)
                | _ \<Rightarrow> None))"

definition parseAuthority :: "(string \<Rightarrow> string option) \<Rightarrow> string \<Rightarrow> (string option \<times> string) option" where
  "parseAuthority ip a =
     (case LastIndex a ''@'' of
        None \<Rightarrow> map_option (Pair None) (parseHost ip a)
      | Some i \<Rightarrow>
          (case (parseHost ip (drop (i + 1) a), parseUser (take i a)) of
             (Some h, Some u) \<Rightarrow> Some (Some u, h)
           | _ \<Rightarrow> None))"

text \<open>
  \<^verbatim>\<open>parse\<close> of the part before the fragment.  A URL with a scheme and no leading slash is opaque: it has no
  host.
\<close>

definition url_parse :: "(string \<Rightarrow> string option) \<Rightarrow> string \<Rightarrow> URL option" where
  "url_parse ip raw =
     (if url_ctl raw then None
      else if raw = ''*'' then Some \<lparr>u_Scheme = '''', u_User = None, u_Host = '''', u_Path = ''*'', u_Query = None, u_Fragment = ''''\<rparr>
      else case getScheme raw of
        None \<Rightarrow> None
      | Some (scheme0, rest0) \<Rightarrow>
          let scheme = map lower_char scheme0; (rest, query) = url_cut rest0 ''?''
          in if \<not> HasPrefix rest ''/''
             then if scheme \<noteq> '''' then Some \<lparr>u_Scheme = scheme, u_User = None, u_Host = '''', u_Path = '''', u_Query = query, u_Fragment = ''''\<rparr>
                  else if Contains (fst (url_cut rest ''/'')) '':'' then None
                  else map_option (\<lambda>_. \<lparr>u_Scheme = '''', u_User = None, u_Host = '''', u_Path = rest, u_Query = query, u_Fragment = ''''\<rparr>)
                         (url_unescape EncodePath rest)
             else if (scheme \<noteq> '''' \<or> \<not> HasPrefix rest ''///'') \<and> HasPrefix rest ''//''
             then let authority = takeWhile (\<lambda>c. c \<noteq> CHR ''/'') (drop 2 rest); path = dropWhile (\<lambda>c. c \<noteq> CHR ''/'') (drop 2 rest)
                  in case (parseAuthority ip authority, url_unescape EncodePath path) of
                       (Some (user, host), Some _) \<Rightarrow>
                         Some \<lparr>u_Scheme = scheme, u_User = user, u_Host = host, u_Path = path, u_Query = query, u_Fragment = ''''\<rparr>
                     | _ \<Rightarrow> None
             else map_option (\<lambda>_. \<lparr>u_Scheme = scheme, u_User = None, u_Host = '''', u_Path = rest, u_Query = query, u_Fragment = ''''\<rparr>)
                    (url_unescape EncodePath rest))"

definition url_Parse :: "(string \<Rightarrow> string option) \<Rightarrow> string \<Rightarrow> URL option" where
  "url_Parse ip raw =
     (case url_cut raw ''#'' of
        (u, fragment) \<Rightarrow>
          (case url_parse ip u of
             None \<Rightarrow> None
           | Some url \<Rightarrow>
               (case fragment of
                  None \<Rightarrow> Some url
                | Some f \<Rightarrow> map_option (\<lambda>_. url\<lparr>u_Fragment := f\<rparr>) (url_unescape EncodeFragment f))))"

text \<open>\<^verbatim>\<open>URL.String\<close> of a URL with a scheme and a host.\<close>

definition url_String :: "URL \<Rightarrow> string" where
  "url_String u =
     u_Scheme u @ ''://'' @ (case u_User u of None \<Rightarrow> '''' | Some s \<Rightarrow> s @ ''@'') @ url_escape EncodeHost (u_Host u)
     @ url_rewritten EncodePath (u_Path u)
     @ (case u_Query u of None \<Rightarrow> '''' | Some q \<Rightarrow> ''?'' @ q)
     @ (if u_Fragment u = '''' then '''' else ''#'' @ url_rewritten EncodeFragment (u_Fragment u))"

text \<open>The two questions the renderer asks.\<close>

definition https_url :: "(string \<Rightarrow> string option) \<Rightarrow> string \<Rightarrow> bool" where
  "https_url ip s \<longleftrightarrow> (case url_Parse ip s of None \<Rightarrow> False | Some u \<Rightarrow> u_Scheme u = ''https'' \<and> u_Host u \<noteq> '''')"

definition web_url :: "(string \<Rightarrow> string option) \<Rightarrow> string \<Rightarrow> bool" where
  "web_url ip s \<longleftrightarrow>
     (case url_Parse ip s of None \<Rightarrow> False | Some u \<Rightarrow> (u_Scheme u = ''https'' \<or> u_Scheme u = ''http'') \<and> u_Host u \<noteq> '''')"

end
