(* ===== verification/GoRunes.thy ===== *)
theory GoRunes
  imports GoText
begin

text \<open>
  How decoding commutes with putting texts together: a text that starts with a code point is decoded
  independently of what stands before it, decoding is undone by writing the code points, and trimming
  white space removes whole code points.
\<close>

lemma runes_eq_Nil [simp]: "runes s = [] \<longleftrightarrow> s = []"
  by (metis concat.simps(1) concat_runes runes_Nil)

lemma second_byte_cont: "second_byte_ok b (of_char d) \<Longrightarrow> is_cont d"
  by (auto simp: second_byte_ok_def is_cont_def split: if_splits)

text \<open>A text that starts with no continuation byte does not complete the code point before it.\<close>

lemma valid_rune_len_lead:
  assumes "t \<noteq> []" "q \<noteq> []" "\<not> is_cont (hd q)"
  shows "valid_rune_len (t @ q) = valid_rune_len t"
proof (cases "0 < valid_rune_len t")
  case True then show ?thesis by (rule valid_rune_len_append)
next
  case none: False
  obtain c r where t: "t = c # r" using assms(1) by (cases t) auto
  obtain b q' where q: "q = b # q'" "\<not> is_cont b" using assms(2,3) by (cases q) auto
  define n where "n = rune_need (of_char c)"
  have zero: "n = 0 \<or> \<not> (length (take (n - 1) r) = n - 1
      \<and> (case take (n - 1) r of [] \<Rightarrow> True | d # u \<Rightarrow> second_byte_ok (of_char c) (of_char d) \<and> list_all is_cont u))"
    using none by (auto simp: t valid_rune_len_def Let_def n_def [symmetric] split: if_splits)
  have "valid_rune_len (c # r @ q) = 0"
  proof (cases "n - 1 \<le> length r")
    case True
    then have "take (n - 1) (r @ q) = take (n - 1) r" by simp
    then show ?thesis using zero True by (auto simp: valid_rune_len_def Let_def n_def [symmetric])
  next
    case False
    then obtain m where tk: "take (n - 1) (r @ q) = r @ b # take m q'"
      by (cases "n - 1 - length r") (auto simp: q)
    have "\<not> (case take (n - 1) (r @ q) of [] \<Rightarrow> True | d # u \<Rightarrow> second_byte_ok (of_char c) (of_char d) \<and> list_all is_cont u)"
      unfolding tk using q(2) by (cases r) (auto dest: second_byte_cont)
    then show ?thesis by (simp add: valid_rune_len_def Let_def n_def [symmetric])
  qed
  then show ?thesis using none by (simp add: t)
qed

lemma runes_append_lead:
  assumes "q = [] \<or> \<not> is_cont (hd q)"
  shows "runes (t @ q) = runes t @ runes q"
proof (cases "q = []")
  case False
  then have q: "q \<noteq> []" "\<not> is_cont (hd q)" using assms by auto
  show ?thesis
  proof (induction t rule: runes.induct)
    case (1 t)
    show ?case
    proof (cases "t = []")
      case ne: False
      have len: "rune_len (t @ q) = rune_len t" using valid_rune_len_lead [OF ne q] by (simp add: rune_len_def)
      have "rune_len t \<le> length t" using ne valid_rune_len_le [of t] by (cases t) (auto simp: rune_len_def)
      then show ?thesis using 1 [OF ne] ne len by (simp add: runes_not_Nil)
    qed simp
  qed
qed simp

text \<open>A code point and what it is written as.\<close>

definition whole_rune :: "string \<Rightarrow> bool" where
  "whole_rune r \<longleftrightarrow> r \<noteq> [] \<and> valid_rune_len r = length r"

lemma runes_Cons_whole:
  assumes "whole_rune r" shows "runes (r @ s) = r # runes s"
proof -
  have "0 < valid_rune_len r" "valid_rune_len r = length r" using assms by (auto simp: whole_rune_def)
  then have "rune_len (r @ s) = length r" by (simp add: rune_len_def valid_rune_len_append max_absorb2 Suc_leI)
  then show ?thesis using assms by (subst runes_not_Nil) (auto simp: whole_rune_def)
qed

lemma runes_whole: "list_all whole_rune rs \<Longrightarrow> runes (concat rs) = rs"
  by (induction rs) (auto simp: runes_Cons_whole)

lemma runes_element:
  "r \<in> set (runes s) \<Longrightarrow> whole_rune r \<or> (\<exists>c. r = [c] \<and> valid_rune_len r = 0)"
proof (induction s rule: runes.induct)
  case (1 s)
  show ?case
  proof (cases "s = []")
    case False
    have "whole_rune (take (rune_len s) s) \<or> (\<exists>c. take (rune_len s) s = [c] \<and> valid_rune_len (take (rune_len s) s) = 0)"
    proof (cases "0 < valid_rune_len s")
      case True
      then have "rune_len s = valid_rune_len s" by (simp add: rune_len_def)
      moreover have "valid_rune_len (take (valid_rune_len s) s) = length (take (valid_rune_len s) s)"
        using valid_rune_len_le [of s] by (simp add: valid_rune_len_take)
      ultimately show ?thesis using True False by (simp add: whole_rune_def)
    next
      case zero: False
      obtain c t where s: "s = c # t" using False by (cases s) auto
      have "take (rune_len s) s = [c]" using zero by (simp add: s rune_len_def)
      moreover have "valid_rune_len [c] = 0 \<or> valid_rune_len [c] = 1" using valid_rune_len_le [of "[c]"] by auto
      ultimately show ?thesis by (auto simp: whole_rune_def)
    qed
    with 1 False show ?thesis by (auto simp: runes_not_Nil)
  qed (use 1 in simp)
qed

lemma whole_rune_string: "r \<in> set (runes s) \<Longrightarrow> whole_rune (rune_string r)"
proof -
  assume "r \<in> set (runes s)"
  then have "whole_rune r \<or> valid_rune_len r \<noteq> length r" using runes_element by fastforce
  moreover have "whole_rune [CHR 0xEF, CHR 0xBF, CHR 0xBD]"
    by (simp add: whole_rune_def valid_rune_len_def rune_need_def second_byte_ok_def is_cont_def)
  ultimately show ?thesis by (auto simp: rune_string_def whole_rune_def)
qed

lemma runes_written:
  "set rs \<subseteq> set (runes s) \<Longrightarrow> runes (concat (map rune_string rs)) = map rune_string rs"
  by (rule runes_whole) (auto simp: list_all_iff intro: whole_rune_string)

section \<open>Trimming\<close>

lemma space_seq_whole: "q \<in> set space_seqs \<Longrightarrow> whole_rune q \<and> \<not> is_cont (hd q)"
proof -
  have "list_all (\<lambda>q. whole_rune q \<and> \<not> is_cont (hd q)) space_seqs" by code_simp
  then show "q \<in> set space_seqs \<Longrightarrow> whole_rune q \<and> \<not> is_cont (hd q)" by (auto simp: list_all_iff)
qed

lemma space_len_seq: "0 < space_len seqs s \<Longrightarrow> \<exists>q \<in> set seqs. s = q @ drop (space_len seqs s) s"
proof -
  assume pos: "0 < space_len seqs s"
  then obtain q where f: "find (HasPrefix s) seqs = Some q" by (auto simp: space_len_def split: option.splits)
  then have "q \<in> set seqs" "HasPrefix s q" by (auto simp: find_Some_iff)
  moreover have "space_len seqs s = length q" using f by (simp add: space_len_def)
  ultimately show ?thesis by (auto simp: HasPrefix_iff)
qed

lemma trim_front_runes:
  "\<exists>n. runes (trim_front space_seqs s) = drop n (runes s)"
proof (induction space_seqs s rule: trim_front.induct)
  case (1 s)
  show ?case
  proof (cases "s \<noteq> [] \<and> 0 < space_len space_seqs s")
    case True
    then obtain q where q: "q \<in> set space_seqs" "s = q @ drop (space_len space_seqs s) s" using space_len_seq by blast
    have "runes s = q # runes (drop (space_len space_seqs s) s)"
      using runes_Cons_whole [of q "drop (space_len space_seqs s) s"] space_seq_whole [OF q(1)] q(2) by simp
    moreover obtain n where "runes (trim_front space_seqs (drop (space_len space_seqs s) s)) = drop n (runes (drop (space_len space_seqs s) s))"
      using 1 True by auto
    ultimately have "runes (trim_front space_seqs s) = drop (Suc n) (runes s)" using True by (subst trim_front.simps) simp
    then show ?thesis by blast
  next
    case False
    then have "trim_front space_seqs s = s" by (subst trim_front.simps) auto
    then show ?thesis by (intro exI [of _ 0]) simp
  qed
qed

lemma trim_back_runes:
  "\<exists>n. runes (rev (trim_front (map rev space_seqs) s)) = take n (runes (rev s))"
proof (induction "map rev space_seqs" s rule: trim_front.induct)
  case (1 s)
  let ?k = "space_len (map rev space_seqs) s"
  show ?case
  proof (cases "s \<noteq> [] \<and> 0 < ?k")
    case True
    then obtain q where q: "q \<in> set space_seqs" "s = rev q @ drop ?k s" using space_len_seq [of "map rev space_seqs" s] by auto
    have "rev s = rev (drop ?k s) @ q" by (subst q(2)) simp
    then have "runes (rev s) = runes (rev (drop ?k s)) @ runes q" using runes_append_lead space_seq_whole [OF q(1)] by metis
    moreover obtain n where "runes (rev (trim_front (map rev space_seqs) (drop ?k s))) = take n (runes (rev (drop ?k s)))"
      using 1 True by auto
    ultimately have "runes (rev (trim_front (map rev space_seqs) s)) = take (min n (length (runes (rev (drop ?k s))))) (runes (rev s))"
      using True by (subst trim_front.simps) (simp add: min_def)
    then show ?thesis by blast
  next
    case False
    then have "trim_front (map rev space_seqs) s = s" by (subst trim_front.simps) auto
    then show ?thesis by (intro exI [of _ "length (runes (rev s))"]) simp
  qed
qed

text \<open>Trimming leaves a stretch of the code points.\<close>

lemma TrimSpace_runes: "\<exists>m n. runes (TrimSpace s) = take n (drop m (runes s))"
proof -
  obtain m where "runes (trim_front space_seqs s) = drop m (runes s)" using trim_front_runes by blast
  moreover obtain n where "runes (TrimSpace s) = take n (runes (rev (rev (trim_front space_seqs s))))"
    unfolding TrimSpace_def using trim_back_runes by blast
  ultimately show ?thesis by auto
qed

lemma TrimSpace_runes_le: "length (runes (TrimSpace s)) \<le> length (runes s)"
  using TrimSpace_runes [of s] by auto

end
