(* ===== verification/Mrkdwn.thy ===== *)
theory Mrkdwn
  imports GoURL GoRunes GoRegexp Types
begin

text \<open>
  The text rules of Slack's mrkdwn in \<^verbatim>\<open>core/deliveries\<close> (\<^verbatim>\<open>renderer.go\<close>, with the code fragments of
  \<^verbatim>\<open>model_output.go\<close>): what a text may contain, how a long one is split, how it is shown without markup
  and as the elements of a rich text cell.  Errors are the messages of the code.
\<close>

section \<open>Patterns\<close>

definition gfmLinkPattern :: regex where
  "gfmLinkPattern =
     rx_seq [RxLit ''['', rx_plus (rx_not_in [CHR '']'', CHR 0x0A]), RxLit ''](''  , rx_plus (rx_not_in [CHR '')'', CHR 0x0A]), RxLit '')'']"

definition slackLinkPattern :: regex where
  "slackLinkPattern = rx_seq [RxLit ''<'', rx_plus (rx_not_in ''>|''), RxLit ''|'', rx_plus (rx_not_in ''>''), RxLit ''>'']"

definition rx_letter :: regex where
  "rx_letter = RxAlt (rx_range CHR ''A'' CHR ''Z'') (rx_range CHR ''a'' CHR ''z'')"

definition slackBareLinkPattern :: regex where
  "slackBareLinkPattern =
     rx_seq [RxLit ''<'', rx_letter, RxStar (rx_alt [rx_letter, rx_range CHR ''0'' CHR ''9'', rx_in ''+.-'']), RxLit '':'',
       rx_plus (rx_not_in ''>|''), RxLit ''>'']"

definition slackEntityPattern :: regex where
  "slackEntityPattern = rx_seq [RxLit ''<'', rx_in ''@#!'', RxStar (rx_not_in ''>''), RxLit ''>'']"

text \<open>The two groups of a match of \<open>slackLinkPattern\<close> and of \<open>gfmLinkPattern\<close>.\<close>

definition slack_link_parts :: "string \<Rightarrow> string \<times> string" where
  "slack_link_parts m = (let target = takeWhile (\<lambda>c. c \<noteq> CHR ''|'') (tl m) in (target, butlast (drop (length target + 2) m)))"

definition gfm_link_parts :: "string \<Rightarrow> string \<times> string" where
  "gfm_link_parts m = (let label = takeWhile (\<lambda>c. c \<noteq> CHR '']'') (tl m) in (label, butlast (drop (length label + 3) m)))"

section \<open>Text outside code\<close>

definition newline :: string where "newline = [CHR 0x0A]"
definition backquote :: string where "backquote = [CHR 0x60]"
definition fence :: string where "fence = [CHR 0x60, CHR 0x60, CHR 0x60]"

fun alternate :: "bool \<Rightarrow> (string \<Rightarrow> string) \<Rightarrow> string list \<Rightarrow> string list" where
  "alternate out f [] = []"
| "alternate out f (p # ps) = (if out then f p else p) # alternate (\<not> out) f ps"

definition map_line :: "(string \<Rightarrow> string) \<Rightarrow> string \<Rightarrow> string" where
  "map_line f line = Join (alternate True f (Split line backquote)) backquote"

fun map_lines :: "bool \<Rightarrow> (string \<Rightarrow> string) \<Rightarrow> string list \<Rightarrow> string list" where
  "map_lines inFence f [] = []"
| "map_lines inFence f (line # rest) =
     (if HasPrefix (TrimSpace line) fence then line # map_lines (\<not> inFence) f rest
      else if inFence then line # map_lines inFence f rest
      else map_line f line # map_lines inFence f rest)"

definition mapOutsideCode :: "string \<Rightarrow> (string \<Rightarrow> string) \<Rightarrow> string" where
  "mapOutsideCode text f = Join (map_lines False f (Split text newline)) newline"

text \<open>The fragments the transformation is applied to; a search applies it for its effect only.\<close>

fun odd_parts :: "bool \<Rightarrow> string list \<Rightarrow> string list" where
  "odd_parts out [] = []"
| "odd_parts out (p # ps) = (if out then [p] else []) @ odd_parts (\<not> out) ps"

fun outside_lines :: "bool \<Rightarrow> string list \<Rightarrow> string list" where
  "outside_lines inFence [] = []"
| "outside_lines inFence (line # rest) =
     (if HasPrefix (TrimSpace line) fence then outside_lines (\<not> inFence) rest
      else if inFence then outside_lines inFence rest
      else odd_parts True (Split line backquote) @ outside_lines inFence rest)"

definition outside_code :: "string \<Rightarrow> string list" where
  "outside_code text = outside_lines False (Split text newline)"

definition containsDoubleAsteriskOutsideCode :: "string \<Rightarrow> bool" where
  "containsDoubleAsteriskOutsideCode text = list_ex (\<lambda>p. Contains p ''**'') (outside_code text)"

definition containsGFMLinkOutsideCode :: "string \<Rightarrow> bool" where
  "containsGFMLinkOutsideCode text = list_ex (MatchString gfmLinkPattern) (outside_code text)"

section \<open>What a text may contain (validateMRKDWN)\<close>

type_synonym message = string

definition invalid_result :: "string \<Rightarrow> message" where
  "invalid_result m = ''invalid Slack result: '' @ m"

definition allowedSlackEntity :: "string \<Rightarrow> SlackMentionAllowlist \<Rightarrow> bool" where
  "allowedSlackEntity entity allowed \<longleftrightarrow>
     list_ex (\<lambda>i. i \<noteq> '''' \<and> entity = ''<@'' @ i @ ''>'') (allow_UserIDs allowed)
     \<or> list_ex (\<lambda>i. i \<noteq> '''' \<and> entity = ''<#'' @ i @ ''>'') (allow_ChannelIDs allowed)"

definition no_mentions :: SlackMentionAllowlist where
  "no_mentions = \<lparr>allow_UserIDs = [], allow_ChannelIDs = []\<rparr>"

definition validateMRKDWN :: "(string \<Rightarrow> string option) \<Rightarrow> string \<Rightarrow> SlackMentionAllowlist \<Rightarrow> message + unit" where
  "validateMRKDWN ip text allowed =
     (if TrimSpace text = '''' then Inl (invalid_result ''empty mrkdwn'')
      else if \<not> ValidString text \<or> CHR 0x00 \<in> set text then Inl (invalid_result ''invalid text encoding'')
      else if containsGFMLinkOutsideCode text then Inl (invalid_result ''GitHub link syntax is not allowed'')
      else if containsDoubleAsteriskOutsideCode text then Inl (invalid_result ''double-asterisk bold is not Slack mrkdwn'')
      else if list_ex (\<lambda>e. \<not> allowedSlackEntity e allowed) (FindAllString slackEntityPattern text)
      then Inl (invalid_result ''Slack mention lacks admitted source provenance'')
      else if odd (Count text fence) then Inl (invalid_result ''unbalanced fenced code block'')
      else if list_ex (\<lambda>m. \<not> web_url ip (fst (slack_link_parts m))) (FindAllString slackLinkPattern text)
      then Inl (invalid_result ''unsafe Slack link'')
      else if list_ex (\<lambda>m. \<not> web_url ip (butlast (tl m))) (FindAllString slackBareLinkPattern text)
      then Inl (invalid_result ''unsafe Slack link'')
      else Inr ())"
section \<open>Splitting (splitMRKDWN)\<close>

definition maxSectionCharacters :: nat where "maxSectionCharacters = 3000"

definition rune_text :: "string list \<Rightarrow> string" where "rune_text rs = concat (map rune_string rs)"

text \<open>
  Where a text longer than the limit is cut: at the last line end of the first 3000 code points when
  that is far enough (the position is one of bytes).
\<close>

definition split_cut :: "string list \<Rightarrow> nat" where
  "split_cut rs =
     (let prefix = rune_text (take maxSectionCharacters rs)
      in case LastIndex prefix newline of
           Some n \<Rightarrow> if maxSectionCharacters div 2 < n then length (runes (take n prefix)) else maxSectionCharacters
         | None \<Rightarrow> maxSectionCharacters)"

lemma LastIndex_le: "LastIndex s p = Some n \<Longrightarrow> n \<le> length s"
  by (auto simp: LastIndex_def)

lemma split_cut_pos: "0 < split_cut rs"
proof -
  have "runes (take n p) \<noteq> []" if "LastIndex p newline = Some n" "0 < n" for n p
    using LastIndex_le [OF that(1)] that(2) by (cases p) auto
  then show ?thesis by (auto simp: split_cut_def Let_def maxSectionCharacters_def split: option.split)
qed

lemma runes_rune_text: "set rs \<subseteq> set (runes s) \<Longrightarrow> runes (rune_text rs) = map rune_string rs"
  unfolding rune_text_def by (rule runes_written)

lemma rest_shorter:
  "length (runes (TrimSpace (rune_text (drop n (runes s))))) \<le> length (runes s) - n"
proof -
  have "length (runes (rune_text (drop n (runes s)))) = length (runes s) - n"
    by (subst runes_rune_text [of _ s]) (auto dest: in_set_dropD)
  then show ?thesis using TrimSpace_runes_le [of "rune_text (drop n (runes s))"] by simp
qed

function split_rest :: "string \<Rightarrow> string list" where
  "split_rest remaining =
     (let rs = runes remaining
      in if length rs \<le> maxSectionCharacters then (if remaining = '''' then [] else [remaining])
         else
           let n = split_cut rs; chunk = TrimSpace (rune_text (take n rs))
           in (if chunk = '''' then [] else [chunk]) @ split_rest (TrimSpace (rune_text (drop n rs))))"
  by pat_completeness auto
termination
proof (relation "measure (\<lambda>s. length (runes s))")
  fix remaining rs n
  assume "rs = runes remaining" "\<not> length rs \<le> maxSectionCharacters" "n = split_cut rs"
  then show "(TrimSpace (rune_text (drop n rs)), remaining) \<in> measure (\<lambda>s. length (runes s))"
    using rest_shorter [of n remaining] split_cut_pos [of rs] by simp
qed simp

declare split_rest.simps [simp del]

definition splitMRKDWN :: "string \<Rightarrow> message + string list" where
  "splitMRKDWN text =
     (if length (runes text) \<le> maxSectionCharacters then Inr [text]
      else if Contains text fence then Inl (invalid_result ''oversized fenced code requires artifact fallback'')
      else Inr (split_rest text))"

section \<open>Without markup\<close>

text \<open>\<^verbatim>\<open>stripFormatting\<close>: a link becomes its label with the target in parentheses, the style markers go.\<close>

definition stripFormatting :: "string \<Rightarrow> string" where
  "stripFormatting text =
     filter (\<lambda>c. c \<notin> {CHR ''*'', CHR ''_'', CHR ''~'', CHR 0x60})
       (ReplaceAllStringFunc slackLinkPattern text (\<lambda>m. case slack_link_parts m of (target, label) \<Rightarrow> label @ '' ('' @ target @ '')''))"

definition escapeLabel :: "string \<Rightarrow> string" where
  "escapeLabel label =
     concat (map (\<lambda>c. if c = CHR ''&'' then ''&amp;'' else if c = CHR ''<'' then ''&lt;'' else if c = CHR ''>'' then ''&gt;''
                       else if c = CHR ''|'' then ''-'' else [c]) label)"

section \<open>Style markers\<close>

text \<open>
  A code point at the front and the last one; \<open>punct\<close> is \<^verbatim>\<open>unicode.IsPunct\<close> of a code point outside ASCII.
\<close>

definition ascii_punct :: string where
  "ascii_punct = ''!#%&()*,-./:;?@[]_{}'' @ [CHR 0x22, CHR 0x27, CHR 0x5C]"

definition rune_space :: "string \<Rightarrow> bool" where "rune_space r \<longleftrightarrow> r \<in> set space_seqs"

definition rune_punct :: "(string \<Rightarrow> bool) \<Rightarrow> string \<Rightarrow> bool" where
  "rune_punct punct r \<longleftrightarrow>
     (case r of [c] \<Rightarrow> c \<in> set ascii_punct | _ \<Rightarrow> valid_rune_len r = length r \<and> punct r)"

definition first_rune :: "string \<Rightarrow> string" where "first_rune s = take (rune_len s) s"
definition last_rune :: "string \<Rightarrow> string" where "last_rune s = last (runes s)"

definition styleMarkerCanOpen :: "(string \<Rightarrow> bool) \<Rightarrow> string \<Rightarrow> nat \<Rightarrow> bool" where
  "styleMarkerCanOpen punct text i \<longleftrightarrow>
     (if length text \<le> i + 1 then False
      else if rune_space (first_rune (drop (i + 1) text)) then False
      else if i = 0 then True
      else rune_space (last_rune (take i text)) \<or> rune_punct punct (last_rune (take i text)))"

definition styleMarkerCanClose :: "(string \<Rightarrow> bool) \<Rightarrow> string \<Rightarrow> nat \<Rightarrow> bool" where
  "styleMarkerCanClose punct text i \<longleftrightarrow>
     (if i = 0 then False
      else if rune_space (last_rune (take i text)) then False
      else if length text \<le> i + 1 then True
      else rune_space (first_rune (drop (i + 1) text)) \<or> rune_punct punct (first_rune (drop (i + 1) text)))"

definition hasClosingStyleMarker :: "(string \<Rightarrow> bool) \<Rightarrow> string \<Rightarrow> nat \<Rightarrow> char \<Rightarrow> bool" where
  "hasClosingStyleMarker punct text start marker \<longleftrightarrow>
     list_ex (\<lambda>i. text ! i = marker \<and> styleMarkerCanClose punct text i) [start..<length text]"

definition hasDelimitedStyle :: "(string \<Rightarrow> bool) \<Rightarrow> string \<Rightarrow> char \<Rightarrow> bool" where
  "hasDelimitedStyle punct text marker \<longleftrightarrow>
     list_ex (\<lambda>i. text ! i = marker \<and> styleMarkerCanOpen punct text i \<and> hasClosingStyleMarker punct text (i + 1) marker)
       [0..<length text]"

definition hasInlineSlackFormatting :: "(string \<Rightarrow> bool) \<Rightarrow> string \<Rightarrow> bool" where
  "hasInlineSlackFormatting punct text \<longleftrightarrow>
     MatchString slackLinkPattern text
     \<or> (case Index text backquote of Some i \<Rightarrow> Contains (drop (i + 1) text) backquote | None \<Rightarrow> False)
     \<or> list_ex (hasDelimitedStyle punct text) [CHR ''*'', CHR ''_'', CHR ''~'']"

section \<open>Rich text (renderRichTextElements)\<close>

text \<open>The styles in force, the text gathered since the last element and the elements so far.\<close>

record RichText =
  rt_active :: "string list"
  rt_buffer :: string
  rt_elements :: "json list"

definition style_names :: "(char \<times> string) list" where
  "style_names = [(CHR ''*'', ''bold''), (CHR ''_'', ''italic''), (CHR ''~'', ''strike''), (CHR 0x60, ''code'')]"

definition styled :: "string list \<Rightarrow> (string \<times> json) list \<Rightarrow> json" where
  "styled active entries = JObject (entries @ (if active = [] then [] else [(''style'', JObject (map (\<lambda>n. (n, JBool True)) active))]))"

definition rich_flush :: "RichText \<Rightarrow> RichText" where
  "rich_flush r =
     (if rt_buffer r = '''' then r
      else r\<lparr>rt_elements := rt_elements r @ [styled (rt_active r) [(''type'', JString ''text''), (''text'', JString (rt_buffer r))]],
             rt_buffer := ''''\<rparr>)"

definition rich_toggle :: "string \<Rightarrow> RichText \<Rightarrow> RichText" where
  "rich_toggle name r =
     (let f = rich_flush r
      in f\<lparr>rt_active := (if name \<in> set (rt_active f) then filter ((\<noteq>) name) (rt_active f) else rt_active f @ [name])\<rparr>)"

definition can_toggle :: "(string \<Rightarrow> bool) \<Rightarrow> string \<Rightarrow> nat \<Rightarrow> string \<Rightarrow> RichText \<Rightarrow> bool" where
  "can_toggle punct text i name r \<longleftrightarrow>
     (if text ! i = CHR 0x60 then name \<in> set (rt_active r) \<or> Contains (drop (i + 1) text) backquote
      else if ''code'' \<in> set (rt_active r) then False
      else if name \<in> set (rt_active r) then styleMarkerCanClose punct text i
      else styleMarkerCanOpen punct text i \<and> hasClosingStyleMarker punct text (i + 1) (text ! i))"

text \<open>A link at the front of a text: its length and its two parts.\<close>

definition link_at :: "string \<Rightarrow> (nat \<times> string \<times> string) option" where
  "link_at s =
     (case rx_ends slackLinkPattern ([], s) of
        [] \<Rightarrow> None
      | q # _ \<Rightarrow> let n = length s - length (snd q) in Some (n, slack_link_parts (take n s)))"

function rich_elements :: "(string \<Rightarrow> bool) \<Rightarrow> string \<Rightarrow> nat \<Rightarrow> RichText \<Rightarrow> RichText" where
  "rich_elements punct text i r =
     (if length text \<le> i then rich_flush r
      else case (if ''code'' \<in> set (rt_active r) \<or> text ! i \<noteq> CHR ''<'' then None else link_at (drop i text)) of
             Some (n, target, label) \<Rightarrow>
               (let f = rich_flush r
                in rich_elements punct text (i + max 1 n)
                     (f\<lparr>rt_elements := rt_elements f
                          @ [styled (rt_active f) [(''type'', JString ''link''), (''url'', JString target), (''text'', JString label)]]\<rparr>))
           | None \<Rightarrow>
               (case map_of style_names (text ! i) of
                  Some name \<Rightarrow>
                    if can_toggle punct text i name r then rich_elements punct text (i + 1) (rich_toggle name r)
                    else rich_elements punct text (i + 1) (r\<lparr>rt_buffer := rt_buffer r @ [text ! i]\<rparr>)
                | None \<Rightarrow>
                    (let c = first_rune (drop i text)
                     in rich_elements punct text (i + max 1 (length c)) (r\<lparr>rt_buffer := rt_buffer r @ rune_string c\<rparr>))))"
  by pat_completeness auto
termination
  by (relation "measure (\<lambda>(punct, text, i, r). length text - i)") auto

declare rich_elements.simps [simp del]

definition renderRichTextElements :: "(string \<Rightarrow> bool) \<Rightarrow> string \<Rightarrow> json list" where
  "renderRichTextElements punct text =
     (let es = rt_elements (rich_elements punct text 0 \<lparr>rt_active = [], rt_buffer = '''', rt_elements = []\<rparr>)
      in if es = [] then [JObject [(''type'', JString ''text''), (''text'', JString text)]] else es)"

definition renderRichTextCell :: "(string \<Rightarrow> bool) \<Rightarrow> string \<Rightarrow> json" where
  "renderRichTextCell punct text =
     JObject [(''type'', JString ''rich_text''),
       (''elements'', JArray [JObject [(''type'', JString ''rich_text_section''), (''elements'', JArray (renderRichTextElements punct text))]])]"

end
