(* ===== verification/RenderTables.thy ===== *)
theory RenderTables
  imports Mrkdwn ClassifierText
begin

text \<open>
  The blocks \<^verbatim>\<open>core/deliveries/renderer.go\<close> renders from the data of one segment: cards, images, artifacts
  and tables.  A block is a JSON object with its entries in the order the code writes them.

  What the standard library decides by large tables or by decimal conversion is a field of \<open>RenderPorts\<close>: the
  address of a bracketed host (\<open>rp_ip\<close>), punctuation and case of code points outside ASCII (\<open>rp_punct\<close>,
  \<open>rp_lower\<close>, \<open>rp_upper\<close>), what \<^verbatim>\<open>%q\<close> prints as it is (\<open>rp_print\<close>), the two decimal forms of a
  \<^verbatim>\<open>float64\<close> (\<open>rp_float\<close>, \<open>rp_sprint\<close>), whether \<^verbatim>\<open>strconv.ParseFloat\<close> accepts a text
  (\<open>rp_number\<close>), \<^verbatim>\<open>json.Marshal\<close> (\<open>rp_marshal\<close>) and SHA-256 in hexadecimal (\<open>rp_sha\<close>).
\<close>

record RenderPorts =
  rp_ip :: "string \<Rightarrow> string option"
  rp_punct :: "string \<Rightarrow> bool"
  rp_lower :: "string \<Rightarrow> string"
  rp_upper :: "string \<Rightarrow> string"
  rp_print :: "string \<Rightarrow> bool"
  rp_float :: "rat \<Rightarrow> string"
  rp_sprint :: "rat \<Rightarrow> string"
  rp_number :: "string \<Rightarrow> bool"
  rp_marshal :: "json \<Rightarrow> string option"
  rp_sha :: "string \<Rightarrow> string"

section \<open>Running a fallible step over a list\<close>

fun each :: "('a \<Rightarrow> 'e + 'b) \<Rightarrow> 'a list \<Rightarrow> 'e + 'b list" where
  "each f [] = Inr []"
| "each f (x # xs) =
     (case f x of
        Inl e \<Rightarrow> Inl e
      | Inr y \<Rightarrow> (case each f xs of Inl e \<Rightarrow> Inl e | Inr ys \<Rightarrow> Inr (y # ys)))"

lemma each_Cons_Inr: "each f (x # xs) = Inr zs \<longleftrightarrow> (\<exists>y ys. zs = y # ys \<and> f x = Inr y \<and> each f xs = Inr ys)"
  by (auto split: sum.splits)

lemma each_Inr_iff: "each f xs = Inr ys \<longleftrightarrow> list_all2 (\<lambda>x y. f x = Inr y) xs ys"
proof (induction xs arbitrary: ys)
  case (Cons x xs)
  then show ?case by (simp add: each_Cons_Inr list_all2_Cons1 del: each.simps)
qed auto

definition located :: "string \<Rightarrow> message + 'a \<Rightarrow> message + 'a" where
  "located place r = (case r of Inl e \<Rightarrow> Inl (place @ '': '' @ e) | Inr x \<Rightarrow> Inr x)"

lemma located_Inr [simp]: "located place r = Inr x \<longleftrightarrow> r = Inr x"
  by (cases r) (simp_all add: located_def)

section \<open>Limits and small pieces\<close>

definition maxBlocksPerMessage :: nat where "maxBlocksPerMessage = 50"
definition maxHeaderCharacters :: int where "maxHeaderCharacters = 150"
definition maxContextCharacters :: int where "maxContextCharacters = 2000"
definition maxImageCharacters :: int where "maxImageCharacters = 2000"
definition maxTableRows :: nat where "maxTableRows = 100"
definition maxTableColumns :: nat where "maxTableColumns = 20"
definition maxTableCharacters :: int where "maxTableCharacters = 10000"
definition maxCardTextCharacters :: int where "maxCardTextCharacters = 200"
definition maxCardTitleCharacters :: int where "maxCardTitleCharacters = 150"
definition maxCarouselCards :: nat where "maxCarouselCards = 10"

definition clean_text :: "string \<Rightarrow> bool" where
  "clean_text t \<longleftrightarrow> ValidString t \<and> CHR 0x00 \<notin> set t"

definition mrkdwn_object :: "string \<Rightarrow> json" where
  "mrkdwn_object t = JObject [(''type'', JString ''mrkdwn''), (''text'', JString t)]"

definition plain_object :: "string \<Rightarrow> json" where
  "plain_object t = JObject [(''type'', JString ''plain_text''), (''text'', JString t), (''emoji'', JBool True)]"

definition json_int :: "int \<Rightarrow> json" where "json_int n = JNumber (of_int n)"

section \<open>Images and artifacts\<close>

definition validateImage :: "RenderPorts \<Rightarrow> SlackImage \<Rightarrow> message + unit" where
  "validateImage p img =
     (if \<not> https_url (rp_ip p) (image_URL img) then Inl (invalid_result ''image URL must be HTTPS'')
      else if TrimSpace (image_AltText img) = '''' \<or> \<not> clean_text (image_AltText img)
              \<or> maxImageCharacters < RuneCountInString (image_AltText img)
      then Inl (invalid_result ''image alt text is invalid'')
      else if \<not> clean_text (image_Title img) \<or> maxImageCharacters < RuneCountInString (image_Title img)
      then Inl (invalid_result ''image title is invalid'')
      else Inr ())"

definition validateArtifact :: "RenderPorts \<Rightarrow> SlackArtifact \<Rightarrow> message + unit" where
  "validateArtifact p artifact =
     (if TrimSpace (art_Name artifact) = '''' then Inl (invalid_result ''artifact name is required'')
      else if \<not> https_url (rp_ip p) (art_URL artifact) then Inl (invalid_result ''artifact URL must be HTTPS'')
      else Inr ())"

section \<open>Cards\<close>

fun first_error :: "(message + unit) list \<Rightarrow> message + unit" where
  "first_error [] = Inr ()"
| "first_error (r # rs) = (case r of Inl e \<Rightarrow> Inl e | Inr _ \<Rightarrow> first_error rs)"

lemma first_error_Inr: "first_error rs = Inr () \<longleftrightarrow> set rs \<subseteq> {Inr ()}"
  by (induction rs) (auto split: sum.splits)

definition card_texts :: "SlackCard \<Rightarrow> string list" where
  "card_texts c = [card_Title c, card_Subtitle c, card_Body c, card_Subtext c]"

definition validate_card_text :: "RenderPorts \<Rightarrow> string \<Rightarrow> message + unit" where
  "validate_card_text p t =
     (if \<not> clean_text t then Inl (invalid_result ''card body is invalid'')
      else if t = '''' then Inr ()
      else validateMRKDWN (rp_ip p) t no_mentions)"

definition validate_card_image :: "RenderPorts \<Rightarrow> SlackCardImage option \<Rightarrow> message + unit" where
  "validate_card_image p img =
     (case img of
        None \<Rightarrow> Inr ()
      | Some i \<Rightarrow>
          if \<not> https_url (rp_ip p) (cardimg_URL i) then Inl (invalid_result ''card image URL must be HTTPS'')
          else if TrimSpace (cardimg_AltText i) = '''' \<or> \<not> clean_text (cardimg_AltText i)
                  \<or> maxImageCharacters < RuneCountInString (cardimg_AltText i)
          then Inl (invalid_result ''card image alt text is invalid'')
          else Inr ())"

definition validateCard :: "RenderPorts \<Rightarrow> SlackCard \<Rightarrow> message + unit" where
  "validateCard p c =
     (if TrimSpace (card_Title c) = '''' \<or> maxCardTitleCharacters < RuneCountInString (card_Title c)
      then Inl (invalid_result ''card title is invalid'')
      else if TrimSpace (card_Body c) = '''' \<or> maxCardTextCharacters < RuneCountInString (card_Body c)
      then Inl (invalid_result ''card body is invalid'')
      else if maxCardTitleCharacters < RuneCountInString (card_Subtitle c)
      then Inl (invalid_result ''card subtitle is invalid'')
      else if maxCardTextCharacters < RuneCountInString (card_Subtext c)
      then Inl (invalid_result ''card subtext is invalid'')
      else first_error (map (validate_card_text p) (card_texts c)
             @ map (validate_card_image p) [card_Icon c, card_HeroImage c]))"

definition renderCardImage :: "SlackCardImage \<Rightarrow> json" where
  "renderCardImage img =
     JObject [(''type'', JString ''image''), (''image_url'', JString (cardimg_URL img)), (''alt_text'', JString (cardimg_AltText img))]"

definition card_separator :: string where "card_separator = '' '' @ em_dash @ '' ''"

definition card_fallback :: "SlackCard \<Rightarrow> string" where
  "card_fallback c = Join (filter (\<lambda>t. t \<noteq> '''') (map (\<lambda>t. TrimSpace (stripFormatting t)) (card_texts c))) card_separator"

definition unless_empty :: "string \<Rightarrow> string \<Rightarrow> json \<Rightarrow> (string \<times> json) list" where
  "unless_empty t key v = (if t = '''' then [] else [(key, v)])"

definition card_block :: "SlackCard \<Rightarrow> string \<Rightarrow> json" where
  "card_block c blockID =
     JObject ([(''type'', JString ''card''), (''title'', mrkdwn_object (card_Title c)), (''body'', mrkdwn_object (card_Body c))]
       @ unless_empty blockID ''block_id'' (JString blockID)
       @ unless_empty (card_Subtitle c) ''subtitle'' (mrkdwn_object (card_Subtitle c))
       @ unless_empty (card_Subtext c) ''subtext'' (mrkdwn_object (card_Subtext c))
       @ (case card_Icon c of None \<Rightarrow> [] | Some i \<Rightarrow> [(''icon'', renderCardImage i)])
       @ (case card_HeroImage c of None \<Rightarrow> [] | Some i \<Rightarrow> [(''hero_image'', renderCardImage i)]))"

definition renderCard :: "RenderPorts \<Rightarrow> SlackCard \<Rightarrow> string \<Rightarrow> message + (json \<times> string)" where
  "renderCard p c blockID =
     (case validateCard p c of
        Inl e \<Rightarrow> Inl e
      | Inr _ \<Rightarrow> Inr (card_block c blockID, card_fallback c))"

section \<open>Table cells and rows\<close>

definition render_cell :: "RenderPorts \<Rightarrow> SlackTableCell \<Rightarrow> message + json" where
  "render_cell p cell =
     (if cell_Type cell = ''raw_text'' \<or> cell_Type cell = ''''
      then case (if cell_Text cell = '''' then Inr () else validateMRKDWN (rp_ip p) (cell_Text cell) no_mentions) of
             Inl e \<Rightarrow> Inl e
           | Inr _ \<Rightarrow>
               Inr (if hasInlineSlackFormatting (rp_punct p) (cell_Text cell) then renderRichTextCell (rp_punct p) (cell_Text cell)
                    else JObject [(''type'', JString ''raw_text''), (''text'', JString (cell_Text cell))])
      else if cell_Type cell = ''raw_number''
      then Inr (JObject [(''type'', JString ''raw_number''), (''value'', JNumber (cell_Number cell)),
                  (''text'', JString (if cell_Text cell = '''' then rp_float p (cell_Number cell) else cell_Text cell))])
      else if cell_Type cell = ''rich_text''
      then case validateMRKDWN (rp_ip p) (cell_Text cell) no_mentions of
             Inl e \<Rightarrow> Inl e
           | Inr _ \<Rightarrow> Inr (renderRichTextCell (rp_punct p) (cell_Text cell))
      else Inl (invalid_result (''invalid table cell type '' @ Quote (rp_print p) (cell_Type cell))))"

definition renderRow :: "RenderPorts \<Rightarrow> SlackTableCell list \<Rightarrow> message + json" where
  "renderRow p cells = (case each (render_cell p) cells of Inl e \<Rightarrow> Inl e | Inr js \<Rightarrow> Inr (JArray js))"

definition renderHeader :: "SlackTableColumn list \<Rightarrow> json" where
  "renderHeader columns =
     JArray (map (\<lambda>c. JObject [(''type'', JString ''rich_text''),
       (''elements'', JArray [JObject [(''type'', JString ''rich_text_section''),
          (''elements'', JArray [JObject [(''type'', JString ''text''), (''text'', JString (col_Header c)),
             (''style'', JObject [(''bold'', JBool True)])]])]])]) columns)"

definition tableHeaderCharacters :: "SlackTableColumn list \<Rightarrow> int" where
  "tableHeaderCharacters columns = sum_list (map (\<lambda>c. RuneCountInString (col_Header c)) columns)"

definition tableRowCharacters :: "RenderPorts \<Rightarrow> SlackTableCell list \<Rightarrow> int" where
  "tableRowCharacters p row =
     sum_list (map (\<lambda>c. if cell_Type c = ''raw_number'' then int (length (rp_sprint p (cell_Number c)))
                        else RuneCountInString (cell_Text c)) row)"

section \<open>Native tables\<close>

definition column_setting :: "RenderPorts \<Rightarrow> SlackTableColumn \<Rightarrow> message + json" where
  "column_setting p c =
     (if col_Align c \<in> {'''', ''left'', ''center'', ''right''}
      then Inr (JObject ((''is_wrapped'', JBool (col_Wrapped c)) # unless_empty (col_Align c) ''align'' (JString (col_Align c))))
      else Inl (invalid_result (''invalid alignment '' @ Quote (rp_print p) (col_Align c))))"

text \<open>The inner loop: the rows that still fit beside \<open>n\<close> rendered ones of \<open>used\<close> characters, and those left.\<close>

fun fill_rows :: "RenderPorts \<Rightarrow> int \<Rightarrow> nat \<Rightarrow> nat \<Rightarrow> SlackTableCell list list
    \<Rightarrow> message + (json list \<times> SlackTableCell list list)" where
  "fill_rows p used n i [] = Inr ([], [])"
| "fill_rows p used n i (row # rest) =
     (let size = tableRowCharacters p row
      in if maxTableRows \<le> n then Inr ([], row # rest)
         else if maxTableCharacters < size then Inl (invalid_result (''row '' @ format_int (int i) @ '' exceeds table character limit''))
         else if maxTableCharacters < used + size then Inr ([], row # rest)
         else case located (''row '' @ format_int (int i)) (renderRow p row) of
                Inl e \<Rightarrow> Inl e
              | Inr j \<Rightarrow>
                  (case fill_rows p (used + size) (n + 1) (i + 1) rest of
                     Inl e \<Rightarrow> Inl e
                   | Inr (js, left) \<Rightarrow> Inr (j # js, left)))"

lemma fill_rows_parts:
  "fill_rows p used n i rows = Inr (js, left) \<Longrightarrow>
     \<exists>took. rows = took @ left \<and> list_all2 (\<lambda>r j. renderRow p r = Inr j) took js
          \<and> (took \<noteq> [] \<longrightarrow> n + length took \<le> maxTableRows
               \<and> used + sum_list (map (tableRowCharacters p) took) \<le> maxTableCharacters)"
proof (induction p used n i rows arbitrary: js left rule: fill_rows.induct)
  case (1 p used n i)
  then show ?case by simp
next
  case (2 p used n i row rest)
  define size where "size = tableRowCharacters p row"
  show ?case
  proof (cases "maxTableRows \<le> n \<or> maxTableCharacters < used + size")
    case True
    then have "js = [] \<and> left = row # rest" using 2(2)
      by (auto simp: Let_def size_def split: if_splits sum.splits)
    then show ?thesis by simp
  next
    case False
    then obtain j js' where row: "renderRow p row = Inr j" and js: "js = j # js'"
      and rec: "fill_rows p (used + size) (n + 1) (i + 1) rest = Inr (js', left)" and ok: "\<not> maxTableCharacters < size"
      using 2(2) by (auto simp: Let_def size_def located_def split: if_splits sum.splits)
    obtain took where t: "rest = took @ left" "list_all2 (\<lambda>r j. renderRow p r = Inr j) took js'"
      "took \<noteq> [] \<longrightarrow> n + 1 + length took \<le> maxTableRows
         \<and> used + size + sum_list (map (tableRowCharacters p) took) \<le> maxTableCharacters"
      using 2(1) [OF size_def _ _ _ _ rec] False ok row by (auto simp: size_def)
    have "row # rest = (row # took) @ left" "list_all2 (\<lambda>r j. renderRow p r = Inr j) (row # took) js"
      using t row js by simp_all
    moreover have "n + length (row # took) \<le> maxTableRows
      \<and> used + sum_list (map (tableRowCharacters p) (row # took)) \<le> maxTableCharacters"
      using t(3) False by (cases took) (auto simp: size_def)
    ultimately show ?thesis by blast
  qed
qed

lemma fill_rows_shorter: "fill_rows p used n i rows = Inr (js, left) \<Longrightarrow> length left \<le> length rows"
  by (drule fill_rows_parts) auto

declare fill_rows.simps(2) [simp del]

definition table_block :: "json list \<Rightarrow> SlackTableColumn list \<Rightarrow> json list \<Rightarrow> json" where
  "table_block settings columns js =
     JObject [(''type'', JString ''table''), (''column_settings'', JArray settings), (''rows'', JArray (renderHeader columns # js))]"

text \<open>The outer loop: one block after the other until no row is left; a table without rows is one block.\<close>

function table_parts :: "RenderPorts \<Rightarrow> SlackTableColumn list \<Rightarrow> nat \<Rightarrow> SlackTableCell list list \<Rightarrow> message + json list" where
  "table_parts p columns i rows =
     (case fill_rows p (tableHeaderCharacters columns) 1 i rows of
        Inl e \<Rightarrow> Inl e
      | Inr (js, left) \<Rightarrow>
          if rows \<noteq> [] \<and> length left = length rows then Inl (invalid_result ''table header and row exceed character limit'')
          else case each (column_setting p) columns of
                 Inl e \<Rightarrow> Inl e
               | Inr settings \<Rightarrow>
                   if left = [] then Inr [table_block settings columns js]
                   else (case table_parts p columns (i + (length rows - length left)) left of
                           Inl e \<Rightarrow> Inl e
                         | Inr blocks \<Rightarrow> Inr (table_block settings columns js # blocks)))"
  by pat_completeness auto
termination
proof (relation "measure (\<lambda>(p, columns, i, rows). length rows)", goal_cases)
  case (2 p columns i rows x js left settings)
  then show ?case using fill_rows_shorter [of p "tableHeaderCharacters columns" 1 i rows js left] by (cases rows) auto
qed simp

declare table_parts.simps [simp del]

definition data_table_rows :: "RenderPorts \<Rightarrow> int \<Rightarrow> SlackTableCell list list \<Rightarrow> message + json list" where
  "data_table_rows p header rows =
     each (\<lambda>(i, row).
       let size = tableRowCharacters p row; used = header + sum_list (map (tableRowCharacters p) (take i rows))
       in if maxTableCharacters < size \<or> maxTableCharacters < used + size
          then Inl (invalid_result (''row '' @ format_int (int i) @ '' exceeds table character limit''))
          else located (''row '' @ format_int (int i)) (renderRow p row)) (enumerate 0 rows)"

definition renderDataTable :: "RenderPorts \<Rightarrow> SlackTable \<Rightarrow> message + json list" where
  "renderDataTable p table =
     (let header = tableHeaderCharacters (table_Columns table)
      in if TrimSpace (table_Caption table) = '''' \<or> \<not> clean_text (table_Caption table)
            \<or> maxCardTextCharacters < RuneCountInString (table_Caption table)
         then Inl (invalid_result ''data table caption is invalid'')
         else if table_PageSize table < 0 \<or> 100 < table_PageSize table
         then Inl (invalid_result ''data table page size must be 1-100 when set'')
         else if table_RowHeaderColumnIndex table < 0 \<or> int (length (table_Columns table)) \<le> table_RowHeaderColumnIndex table
         then Inl (invalid_result ''data table row header column is invalid'')
         else if maxTableCharacters < header
         then Inl (invalid_result ''table header and row exceed character limit'')
         else case data_table_rows p header (table_Rows table) of
                Inl e \<Rightarrow> Inl e
              | Inr js \<Rightarrow>
                  Inr [JObject ([(''type'', JString ''data_table''), (''block_id'', JString ''tos_tag_data_table''),
                         (''caption'', JString (table_Caption table)),
                         (''row_header_column_index'', json_int (table_RowHeaderColumnIndex table)),
                         (''rows'', JArray (JArray (map (\<lambda>c. JObject [(''type'', JString ''raw_text''), (''text'', JString (col_Header c))])
                                                     (table_Columns table)) # js))]
                       @ (if 0 < table_PageSize table then [(''page_size'', json_int (table_PageSize table))] else []))])"

definition row_shape_error :: "nat \<Rightarrow> nat \<Rightarrow> nat \<Rightarrow> message" where
  "row_shape_error i n k =
     invalid_result (''row '' @ format_int (int i) @ '' has '' @ format_int (int n) @ '' cells for '' @ format_int (int k) @ '' columns'')"

definition renderTables :: "RenderPorts \<Rightarrow> SlackTable \<Rightarrow> message + json list" where
  "renderTables p table =
     (if table_Columns table = [] \<or> maxTableColumns < length (table_Columns table)
      then Inl (invalid_result ''table must have 1-20 columns'')
      else case first_error (map (\<lambda>(i, row). if length row \<noteq> length (table_Columns table)
                                              then Inl (row_shape_error i (length row) (length (table_Columns table))) else Inr ())
                               (enumerate 0 (table_Rows table))) of
             Inl e \<Rightarrow> Inl e
           | Inr _ \<Rightarrow>
               if table_Caption table = '''' \<and> (table_PageSize table \<noteq> 0 \<or> table_RowHeaderColumnIndex table \<noteq> 0)
               then Inl (invalid_result ''data table caption is invalid'')
               else if table_Caption table \<noteq> '''' \<and> table_Rows table = []
               then Inl (invalid_result ''data table caption requires at least one data row'')
               else if table_Caption table \<noteq> '''' then renderDataTable p table
               else table_parts p (table_Columns table) 0 (table_Rows table))"

definition tableFallback :: "SlackTable \<Rightarrow> nat \<Rightarrow> nat \<Rightarrow> string" where
  "tableFallback table part parts =
     (if table_Caption table = '''' then ''Table'' else table_Caption table)
     @ (if table_Columns table = [] then '''' else '': '' @ Join (map col_Header (table_Columns table)) '', '')
     @ (if 1 < parts then '' (part '' @ format_int (int part + 1) @ '' of '' @ format_int (int parts) @ '')'' else '''')"

end
