(* ===== verification/RenderBlocks.thy ===== *)
theory RenderBlocks
  imports RenderTables PipelineText
begin

text \<open>
  The parts of a message the control plane owns (\<^verbatim>\<open>core/deliveries/renderer.go\<close>): the footer of an agent's
  answer, the blocks of an approval request and those of a notice.
\<close>

section \<open>Case and characters\<close>

text \<open>\<^verbatim>\<open>strings.ToLower\<close> and the upper case of one code point; those outside ASCII are the ports'.\<close>

definition lower_rune :: "RenderPorts \<Rightarrow> string \<Rightarrow> string" where
  "lower_rune p r = (case r of [c] \<Rightarrow> [lower_char c] | _ \<Rightarrow> rp_lower p r)"

definition lower_text :: "RenderPorts \<Rightarrow> string \<Rightarrow> string" where
  "lower_text p s = (if list_all (\<lambda>c. c < CHR 0x80) s then map lower_char s
                     else concat (map (\<lambda>r. lower_rune p (rune_string r)) (runes s)))"

definition replacement :: string where "replacement = [CHR 0xEF, CHR 0xBF, CHR 0xBD]"

text \<open>\<^verbatim>\<open>strings.ToValidUTF8\<close> with the replacement character: one for each run of invalid bytes.\<close>

fun valid_runes :: "bool \<Rightarrow> string list \<Rightarrow> string" where
  "valid_runes broken [] = []"
| "valid_runes broken (r # rs) =
     (if valid_rune_len r = length r then r @ valid_runes False rs
      else (if broken then [] else replacement) @ valid_runes True rs)"

definition ToValidUTF8 :: "string \<Rightarrow> string" where "ToValidUTF8 s = valid_runes False (runes s)"

section \<open>Numbers for reading\<close>

definition wrap64 :: "int \<Rightarrow> int" where "wrap64 n = (n + 2 ^ 63) mod 2 ^ 64 - 2 ^ 63"

text \<open>
  \<^verbatim>\<open>float64(n)/1000\<close> for a quotient of at least 1 and below 64 (the nearest double, ties to even), and its form
  with one decimal, which rounds the double, again ties to even.
\<close>

definition round_even :: "rat \<Rightarrow> int" where
  "round_even x =
     (let f = \<lfloor>x\<rfloor>; d = x - of_int f
      in if d < 1/2 then f else if 1/2 < d then f + 1 else if even f then f else f + 1)"

definition binary_exponent :: "rat \<Rightarrow> nat" where
  "binary_exponent x = (if x < 2 then 0 else if x < 4 then 1 else if x < 8 then 2 else if x < 16 then 3 else if x < 32 then 4 else 5)"

definition nearest_double :: "rat \<Rightarrow> rat" where
  "nearest_double x = (let scale = 2 ^ (52 - binary_exponent x) in of_int (round_even (x * scale)) / scale)"

definition one_decimal :: "rat \<Rightarrow> string" where
  "one_decimal x = (let t = round_even (x * 10) in format_int (t div 10) @ ''.'' @ format_int (t mod 10))"

definition thousandths :: "int \<Rightarrow> string" where
  "thousandths n = TrimSuffix (one_decimal (nearest_double (of_int n / 1000))) ''.0''"

definition compactCount :: "int \<Rightarrow> string" where
  "compactCount n =
     (if n < 1000 then format_int n
      else if n < 10000 then thousandths n @ ''k''
      else format_int (go_div (wrap64 (n + 500)) 1000) @ ''k'')"

definition compactDuration :: "int \<Rightarrow> string" where
  "compactDuration ms =
     (if ms < 1000 then format_int ms @ ''ms''
      else if ms < 60000 then thousandths ms @ ''s''
      else let d = wrap64 (ms * Millisecond); minutes = go_div d Minute; seconds = go_div (d - minutes * Minute) Second
           in if seconds = 0 then format_int minutes @ ''m'' else format_int minutes @ ''m '' @ format_int seconds @ ''s'')"

section \<open>The footer of an agent's answer\<close>

definition dash_or_underscore :: "string \<Rightarrow> bool" where
  "dash_or_underscore r \<longleftrightarrow> r = ''-'' \<or> r = ''_''"

definition upper_first_byte :: "string \<Rightarrow> string" where
  "upper_first_byte word =
     (if hd word < CHR 0x80 then upper_rune id [hd word] else replacement) @ tl word"

definition model_word :: "RenderPorts \<Rightarrow> nat \<times> string \<Rightarrow> string" where
  "model_word p iw =
     (case iw of (i, word) \<Rightarrow>
        if i = 0 \<and> map lower_char word = ''chatgpt'' then ''ChatGPT''
        else if rp_number p word then word
        else upper_first_byte word)"

definition humanizeModelID :: "RenderPorts \<Rightarrow> string \<Rightarrow> string" where
  "humanizeModelID p m =
     (let m1 = TrimSpace (TrimPrefix m ''openai/'');
          m2 = (if HasPrefix m1 ''gpt-'' then ''ChatGPT '' @ TrimPrefix m1 ''gpt-'' else m1)
      in Join (map (model_word p) (enumerate 0 (FieldsFunc dash_or_underscore m2))) '' '')"

definition compactAgentActivities :: "RenderPorts \<Rightarrow> string list \<Rightarrow> string" where
  "compactAgentActivities p activities =
     (let named = sort (remdups (filter (\<lambda>a. a \<noteq> '''') (map (\<lambda>a. TrimSpace (lower_text p a)) activities)))
      in Join (if 4 < length named then take 3 named @ [format_int (int (length named - 3)) @ '' more''] else named) '', '')"

definition bullet :: string where "bullet = ''  '' @ [CHR 0xE2, CHR 0x80, CHR 0xA2] @ ''  ''"

definition renderAgentFooter :: "RenderPorts \<Rightarrow> SlackAgentFooter option \<Rightarrow> string" where
  "renderAgentFooter p footer =
     (case footer of
        None \<Rightarrow> ''''
      | Some m \<Rightarrow>
          if TrimSpace (foot_ModelID m) = '''' then ''''
          else
            let effort = TrimSpace (foot_ReasoningEffort m);
                total = (if foot_TotalTokens m \<le> 0 then wrap64 (foot_InputTokens m + foot_OutputTokens m) else foot_TotalTokens m);
                activities = compactAgentActivities p (foot_Activities m)
            in Join ([humanizeModelID p (foot_ModelID m)]
                 @ (if effort = '''' then [] else [lower_text p effort @ '' effort''])
                 @ (if 0 < total then [compactCount total @ '' tokens''] else [])
                 @ (if 0 < foot_DurationMS m then [compactDuration (foot_DurationMS m)] else [])
                 @ (if activities = '''' then [] else [''used '' @ activities])) bullet)"

section \<open>Approvals\<close>

text \<open>
  The arguments of an action are the entries of a map with string keys; a list of strings of the Go program and a
  JSON array of strings are the same value here.
\<close>

definition stringArguments :: "json \<Rightarrow> string list option" where
  "stringArguments v =
     (case v of
        JArray vs \<Rightarrow>
          if list_all (\<lambda>v. case v of JString _ \<Rightarrow> True | _ \<Rightarrow> False) vs
          then Some (map (\<lambda>v. case v of JString s \<Rightarrow> s | _ \<Rightarrow> '''') vs) else None
      | _ \<Rightarrow> None)"

definition inlineBodySummary :: "RenderPorts \<Rightarrow> string \<Rightarrow> string" where
  "inlineBodySummary p body =
     ''<inline body: '' @ format_int (int (length body)) @ '' bytes; sha256:'' @ take 16 (rp_sha p body) @ ''>''"

fun summarize_bodies :: "RenderPorts \<Rightarrow> string list \<Rightarrow> string list" where
  "summarize_bodies p [] = []"
| "summarize_bodies p [a] = [if HasPrefix a ''--body='' then ''--body='' @ inlineBodySummary p (TrimPrefix a ''--body='') else a]"
| "summarize_bodies p (a # b # rest) =
     (if a = ''--body'' then a # inlineBodySummary p b # summarize_bodies p rest
      else (if HasPrefix a ''--body='' then ''--body='' @ inlineBodySummary p (TrimPrefix a ''--body='') else a)
           # summarize_bodies p (b # rest))"

definition approvalDisplayArguments :: "RenderPorts \<Rightarrow> SlackApproval \<Rightarrow> (string \<times> json) list" where
  "approvalDisplayArguments p a =
     (if sap_ToolID a \<noteq> ''telemetryos.wiki'' \<or> sap_OperationID a \<noteq> ''write'' then sap_Arguments a
      else map (\<lambda>(k, v). (k, if k = ''argv'' then (case stringArguments v of
                                                    None \<Rightarrow> v
                                                  | Some argv \<Rightarrow> JArray (map JString (summarize_bodies p argv)))
                              else v)) (sap_Arguments a))"

definition approvalValue :: "RenderPorts \<Rightarrow> json \<Rightarrow> string" where
  "approvalValue p v =
     (case v of
        JString t \<Rightarrow> ToValidUTF8 t
      | _ \<Rightarrow> (case rp_marshal p v of None \<Rightarrow> ''unrenderable value'' | Some t \<Rightarrow> t))"

definition shown_value :: "RenderPorts \<Rightarrow> json \<Rightarrow> string" where
  "shown_value p v = (if approvalValue p v = '''' then ''(empty)'' else approvalValue p v)"

definition approvalFingerprint :: "string \<Rightarrow> string" where
  "approvalFingerprint v = (if length v \<le> 19 then v else take 19 v @ ellipsis)"

definition humanizeApprovalName :: "RenderPorts \<Rightarrow> string \<Rightarrow> string" where
  "humanizeApprovalName p v =
     (let words = FieldsFunc (\<lambda>r. r = ''_'' \<or> r = ''-'' \<or> r = ''.'') (TrimSpace v); rs = runes (lower_text p (Join words '' ''))
      in if words = [] then ''Unknown'' else concat (upper_rune (rp_upper p) (rune_string (hd rs)) # map rune_string (tl rs)))"

definition titleForApprovalStatus :: "string \<Rightarrow> string" where
  "titleForApprovalStatus status =
     (if status = ''approved'' then ''Action approved''
      else if status = ''denied'' then ''Action denied''
      else if status = ''expired'' then ''Approval expired''
      else ''Approval required'')"

definition approvalSubtitle :: "RenderPorts \<Rightarrow> SlackApproval \<Rightarrow> string \<Rightarrow> string" where
  "approvalSubtitle p a status =
     (if status = ''approved'' then ''A fresh agent worker is resuming from this exact action.''
      else if status = ''denied'' then ''The suspended request was cancelled.''
      else if status = ''expired'' then ''The approval window closed and the suspended request was cancelled.''
      else ''Review this '' @ lower_text p (humanizeApprovalName p (sap_Risk a)) @ '' action before it runs.'')"

text \<open>\<^verbatim>\<open>time.RFC3339\<close> of a time in UTC.\<close>

definition civil_day :: "time \<Rightarrow> int" where
  "civil_day t =
     (let z = t div (24 * Hour) + 306; doe = z mod 146097;
          yoe = (doe - doe div 1460 + doe div 36524 - doe div 146096) div 365;
          doy = doe - (365 * yoe + yoe div 4 - yoe div 100); mp = (5 * doy + 2) div 153
      in doy - (153 * mp + 2) div 5 + 1)"

definition two_digits :: "int \<Rightarrow> string" where "two_digits n = pad_left 2 (format_int n)"

definition rfc3339 :: "time \<Rightarrow> string" where
  "rfc3339 t =
     format_month t @ ''-'' @ two_digits (civil_day t) @ ''T'' @ two_digits (t div Hour mod 24) @ '':''
       @ two_digits (t div Minute mod 60) @ '':'' @ two_digits (t div Second mod 60) @ ''Z''"

definition approvalContext :: "SlackApproval \<Rightarrow> string \<Rightarrow> string" where
  "approvalContext a status =
     (if status = ''approved'' then ''Approved '' @ rfc3339 (sap_ResolvedAt a)
      else if status = ''denied'' then ''Denied '' @ rfc3339 (sap_ResolvedAt a)
      else if status = ''expired'' then ''Expired '' @ rfc3339 (sap_ExpiresAt a)
      else ''Expires '' @ rfc3339 (sap_ExpiresAt a))
     @ bullet @ ''Exact-action fingerprint '' @ approvalFingerprint (sap_ActionHash a)"

definition raw_row :: "string \<Rightarrow> string \<Rightarrow> SlackTableCell list" where
  "raw_row k v =
     [\<lparr>cell_Type = ''raw_text'', cell_Text = k, cell_Number = 0\<rparr>, \<lparr>cell_Type = ''raw_text'', cell_Text = v, cell_Number = 0\<rparr>]"

definition sorted_arguments :: "RenderPorts \<Rightarrow> SlackApproval \<Rightarrow> (string \<times> json) list" where
  "sorted_arguments p a = sort_key fst (approvalDisplayArguments p a)"

definition approvalTable :: "RenderPorts \<Rightarrow> SlackApproval \<Rightarrow> SlackTable" where
  "approvalTable p a =
     \<lparr>table_Columns = [\<lparr>col_Header = ''Field'', col_Align = '''', col_Wrapped = True\<rparr>,
                       \<lparr>col_Header = ''Value'', col_Align = '''', col_Wrapped = True\<rparr>],
      table_Rows =
        [raw_row ''Action'' (sap_ToolID a @ ''.'' @ sap_OperationID a), raw_row ''Risk'' (sap_Risk a),
         raw_row ''Destination'' (sap_Destination a)]
        @ map (\<lambda>(k, v). raw_row (humanizeApprovalName p k) (shown_value p v)) (sorted_arguments p a)
        @ (if sorted_arguments p a = [] then [raw_row ''Requested changes'' ''None''] else []),
      table_Caption = '''', table_PageSize = 0, table_RowHeaderColumnIndex = 0\<rparr>"

definition approvalFallback :: "RenderPorts \<Rightarrow> SlackApproval \<Rightarrow> string \<Rightarrow> string" where
  "approvalFallback p a status =
     Join ([titleForApprovalStatus status @ '': '' @ sap_ToolID a @ ''.'' @ sap_OperationID a @ '' ('' @ sap_Risk a @ '')'',
            ''destination='' @ sap_Destination a]
       @ (if sorted_arguments p a = [] then []
          else [''requested changes: '' @ Join (map (\<lambda>(k, v). k @ ''='' @ shown_value p v) (sorted_arguments p a)) '', '']))
       ''; '' @ ''.''"

definition approval_status :: "SlackApproval \<Rightarrow> string" where
  "approval_status a = (if sap_Status a = '''' then ''pending'' else sap_Status a)"

definition plain_short :: "string \<Rightarrow> json" where
  "plain_short t = JObject [(''type'', JString ''plain_text''), (''text'', JString t)]"

definition approval_actions :: "string \<Rightarrow> json" where
  "approval_actions i =
     JObject [(''type'', JString ''actions''), (''block_id'', JString (''tos_tag_approval_actions/'' @ i)),
       (''elements'', JArray
          [JObject [(''type'', JString ''button''), (''action_id'', JString ''tos_tag_approval_approve''),
             (''text'', plain_short ''Approve''), (''style'', JString ''primary''), (''value'', JString i),
             (''confirm'', JObject [(''title'', plain_short ''Approve action?''),
                (''text'', mrkdwn_object ''This authorizes only the exact action summarized in the approval card.''),
                (''confirm'', plain_short ''Approve''), (''deny'', plain_short ''Cancel'')])],
           JObject [(''type'', JString ''button''), (''action_id'', JString ''tos_tag_approval_deny''),
             (''text'', plain_short ''Deny''), (''style'', JString ''danger''), (''value'', JString i)]])]"

definition header_block :: "string \<Rightarrow> string \<Rightarrow> json" where
  "header_block i t = JObject [(''type'', JString ''header''), (''block_id'', JString i), (''text'', plain_object t)]"

definition section_block :: "string \<Rightarrow> string \<Rightarrow> json" where
  "section_block i t = JObject [(''type'', JString ''section''), (''block_id'', JString i), (''text'', mrkdwn_object t)]"

definition context_block :: "string \<Rightarrow> json \<Rightarrow> json" where
  "context_block i e = JObject [(''type'', JString ''context''), (''block_id'', JString i), (''elements'', JArray [e])]"

definition renderApprovalBlocks :: "RenderPorts \<Rightarrow> SlackApproval \<Rightarrow> message + json list" where
  "renderApprovalBlocks p a =
     (let status = approval_status a; too_large = invalid_result ''approval details do not fit one native table''
      in case renderTables p (approvalTable p a) of
           Inl _ \<Rightarrow> Inl too_large
         | Inr tables \<Rightarrow>
             if length tables \<noteq> 1 then Inl too_large
             else Inr ([header_block (''tos_tag_approval_header/'' @ sap_ID a) (titleForApprovalStatus status),
                        section_block (''tos_tag_approval_summary/'' @ sap_ID a) (approvalSubtitle p a status),
                        hd tables,
                        context_block (''tos_tag_approval_context/'' @ sap_ID a) (plain_short (approvalContext a status))]
                    @ (if status = ''pending'' then [approval_actions (sap_ID a)] else [])))"

section \<open>Notices\<close>

definition notice_icon :: "string \<Rightarrow> string" where
  "notice_icon tone =
     (let emoji = [CHR 0xEF, CHR 0xB8, CHR 0x8F]
      in if tone = ''info'' then [CHR 0xE2, CHR 0x84, CHR 0xB9] @ emoji
         else if tone = ''success'' then [CHR 0xE2, CHR 0x9C, CHR 0x85]
         else if tone = ''warning'' \<or> tone = ''error'' then [CHR 0xE2, CHR 0x9A, CHR 0xA0] @ emoji
         else '''')"

definition notice_title :: "SlackNotice \<Rightarrow> string" where
  "notice_title n = notice_icon (notice_Tone n) @ '' '' @ notice_Title n"

definition validateNotice :: "RenderPorts \<Rightarrow> SlackNotice \<Rightarrow> message + unit" where
  "validateNotice p n =
     (if notice_Tone n \<notin> {''info'', ''success'', ''warning'', ''error''} then Inl (invalid_result ''invalid notice tone'')
      else if TrimSpace (notice_Title n) = '''' \<or> 150 < RuneCountInString (notice_title n)
              \<or> TrimSpace (notice_Message n) = '''' \<or> 200 < RuneCountInString (notice_Message n)
              \<or> 200 < RuneCountInString (notice_Context n)
      then Inl (invalid_result ''invalid notice content'')
      else validateMRKDWN (rp_ip p) (notice_Message n) no_mentions)"

definition renderNoticeBlocks :: "SlackNotice \<Rightarrow> nat \<Rightarrow> json list" where
  "renderNoticeBlocks n i =
     [header_block (''tos_tag_notice_header/'' @ format_int (int i)) (notice_title n),
      section_block (''tos_tag_notice_message/'' @ format_int (int i)) (notice_Message n)]
     @ (if notice_Context n = '''' then []
        else [context_block (''tos_tag_notice_context/'' @ format_int (int i)) (plain_short (notice_Context n))])"

end
