(* ===== verification/Renderer.thy ===== *)
theory Renderer
  imports RenderBlocks
begin

text \<open>
  \<^verbatim>\<open>Renderer.Render\<close> (\<^verbatim>\<open>core/deliveries/renderer.go\<close>): the segments of a result become the payloads of one or
  more Slack messages.  What a segment contributes (\<open>emission\<close>) is computed first and then added to the payloads;
  the code does both at once, and returns nothing when a segment is rejected.
\<close>

section \<open>Payloads\<close>

record Payload =
  pay_Text :: string
  pay_Blocks :: "json list"

definition empty_payload :: Payload where "empty_payload = \<lparr>pay_Text = '''', pay_Blocks = []\<rparr>"

text \<open>The payloads before the last one, and the last one.\<close>

record Rendering =
  ren_full :: "Payload list"
  ren_last :: Payload

definition payloads :: "Rendering \<Rightarrow> Payload list" where "payloads r = ren_full r @ [ren_last r]"

definition new_payload :: "Rendering \<Rightarrow> Rendering" where
  "new_payload r = \<lparr>ren_full = payloads r, ren_last = empty_payload\<rparr>"

definition block_type :: "json \<Rightarrow> string" where
  "block_type b = (case b of JObject es \<Rightarrow> (case map_of es ''type'' of Some (JString t) \<Rightarrow> t | _ \<Rightarrow> '''') | _ \<Rightarrow> '''')"

definition table_typed :: "json \<Rightarrow> bool" where
  "table_typed b \<longleftrightarrow> block_type b = ''table'' \<or> block_type b = ''data_table''"

definition containsTable :: "json list \<Rightarrow> bool" where "containsTable bs = list_ex table_typed bs"

definition add_fallback :: "string \<Rightarrow> string \<Rightarrow> string" where
  "add_fallback t fallback = (if fallback = '''' then t else if t = '''' then fallback else t @ newline @ fallback)"

definition add_block :: "json \<Rightarrow> string \<Rightarrow> Payload \<Rightarrow> Payload" where
  "add_block b fallback q = \<lparr>pay_Text = add_fallback (pay_Text q) fallback, pay_Blocks = pay_Blocks q @ [b]\<rparr>"

definition appendBlock :: "nat \<Rightarrow> json \<Rightarrow> string \<Rightarrow> Rendering \<Rightarrow> Rendering" where
  "appendBlock limit b fallback r =
     (let s = (if limit \<le> length (pay_Blocks (ren_last r)) then new_payload r else r)
      in s\<lparr>ren_last := add_block b fallback (ren_last s)\<rparr>)"

fun append_all :: "nat \<Rightarrow> json list \<Rightarrow> string \<Rightarrow> Rendering \<Rightarrow> Rendering" where
  "append_all limit [] fallback r = r"
| "append_all limit (b # bs) fallback r = append_all limit bs '''' (appendBlock limit b fallback r)"

definition appendBlockGroup :: "nat \<Rightarrow> json list \<Rightarrow> string \<Rightarrow> Rendering \<Rightarrow> Rendering" where
  "appendBlockGroup limit bs fallback r =
     (let held = pay_Blocks (ren_last r);
          s = (if held \<noteq> [] \<and> (limit < length held + length bs \<or> (containsTable bs \<and> containsTable held))
               then new_payload r else r)
      in append_all limit bs fallback s)"

definition appendTable :: "nat \<Rightarrow> json \<Rightarrow> string \<Rightarrow> Rendering \<Rightarrow> Rendering" where
  "appendTable limit b fallback r =
     (let held = pay_Blocks (ren_last r)
      in appendBlock limit b fallback (if containsTable held \<or> limit \<le> length held then new_payload r else r))"

datatype emission =
    EmitBlock json string
  | EmitTable json string
  | EmitGroup "json list" string

fun emit :: "nat \<Rightarrow> emission \<Rightarrow> Rendering \<Rightarrow> Rendering" where
  "emit limit (EmitBlock b f) r = appendBlock limit b f r"
| "emit limit (EmitTable b f) r = appendTable limit b f r"
| "emit limit (EmitGroup bs f) r = appendBlockGroup limit bs f r"

fun emitted_blocks :: "emission \<Rightarrow> json list" where
  "emitted_blocks (EmitBlock b f) = [b]"
| "emitted_blocks (EmitTable b f) = [b]"
| "emitted_blocks (EmitGroup bs f) = bs"

section \<open>Segments\<close>

text \<open>The kinds of the payloads a segment carries; a segment must carry those of its own kind and no other.\<close>

definition carried :: "SlackSegment \<Rightarrow> SlackSegmentKind list" where
  "carried seg =
     (if seg_Table seg = None then [] else [SlackSegmentTable])
     @ (if seg_Card seg = None then [] else [SlackSegmentCard])
     @ (if seg_Carousel seg = None then [] else [SlackSegmentCarousel])
     @ (if seg_Image seg = None then [] else [SlackSegmentImage])
     @ (if seg_Artifact seg = None then [] else [SlackSegmentArtifact])
     @ (if seg_Approval seg = None then [] else [SlackSegmentApproval])
     @ (if seg_Notice seg = None then [] else [SlackSegmentNotice])"

definition segment_at :: "nat \<Rightarrow> string" where "segment_at i = ''segment '' @ format_int (int i)"

definition segment_error :: "nat \<Rightarrow> string \<Rightarrow> message" where
  "segment_error i m = invalid_result (segment_at i @ m)"

definition text_section :: "string \<Rightarrow> json" where
  "text_section chunk = JObject [(''type'', JString ''section''), (''text'', mrkdwn_object chunk), (''expand'', JBool True)]"

definition render_header :: "nat \<Rightarrow> SlackSegment \<Rightarrow> message + emission list" where
  "render_header i seg =
     (if carried seg \<noteq> [] \<or> TrimSpace (seg_Text seg) = '''' \<or> \<not> clean_text (seg_Text seg)
         \<or> maxHeaderCharacters < RuneCountInString (seg_Text seg)
      then Inl (segment_error i '' has invalid header payload'')
      else Inr [EmitBlock (JObject [(''type'', JString ''header''), (''text'', plain_object (seg_Text seg))]) (seg_Text seg)])"

definition render_mrkdwn :: "RenderPorts \<Rightarrow> SlackMentionAllowlist \<Rightarrow> nat \<Rightarrow> SlackSegment \<Rightarrow> message + emission list" where
  "render_mrkdwn p allowed i seg =
     (if carried seg \<noteq> [] then Inl (segment_error i '' mixes mrkdwn with another payload'')
      else case located (segment_at i) (validateMRKDWN (rp_ip p) (seg_Text seg) allowed) of
             Inl e \<Rightarrow> Inl e
           | Inr _ \<Rightarrow>
               (case located (segment_at i) (splitMRKDWN (seg_Text seg)) of
                  Inl e \<Rightarrow> Inl e
                | Inr chunks \<Rightarrow> Inr (map (\<lambda>c. EmitBlock (text_section c) (stripFormatting c)) chunks)))"

definition render_context :: "RenderPorts \<Rightarrow> SlackMentionAllowlist \<Rightarrow> nat \<Rightarrow> SlackSegment \<Rightarrow> message + emission list" where
  "render_context p allowed i seg =
     (if carried seg \<noteq> [] \<or> maxContextCharacters < RuneCountInString (seg_Text seg)
      then Inl (segment_error i '' has invalid context payload'')
      else case located (segment_at i) (validateMRKDWN (rp_ip p) (seg_Text seg) allowed) of
             Inl e \<Rightarrow> Inl e
           | Inr _ \<Rightarrow>
               Inr [EmitBlock (JObject [(''type'', JString ''context''), (''elements'', JArray [mrkdwn_object (seg_Text seg)])])
                      (stripFormatting (seg_Text seg))])"

definition render_divider :: "nat \<Rightarrow> SlackSegment \<Rightarrow> message + emission list" where
  "render_divider i seg =
     (if seg_Text seg \<noteq> '''' \<or> carried seg \<noteq> [] then Inl (segment_error i '' has invalid divider payload'')
      else Inr [EmitBlock (JObject [(''type'', JString ''divider'')]) ''''])"

definition render_table :: "RenderPorts \<Rightarrow> nat \<Rightarrow> SlackSegment \<Rightarrow> message + emission list" where
  "render_table p i seg =
     (if carried seg \<noteq> [SlackSegmentTable] \<or> seg_Text seg \<noteq> '''' then Inl (segment_error i '' has invalid table payload'')
      else let table = the (seg_Table seg)
           in case located (segment_at i) (renderTables p table) of
                Inl e \<Rightarrow> Inl e
              | Inr tables \<Rightarrow> Inr (map (\<lambda>(k, b). EmitTable b (tableFallback table k (length tables))) (enumerate 0 tables)))"

definition render_card :: "RenderPorts \<Rightarrow> nat \<Rightarrow> SlackSegment \<Rightarrow> message + emission list" where
  "render_card p i seg =
     (if carried seg \<noteq> [SlackSegmentCard] \<or> seg_Text seg \<noteq> '''' then Inl (segment_error i '' has invalid card payload'')
      else case located (segment_at i) (renderCard p (the (seg_Card seg)) (''tos_tag_card_'' @ format_int (int i))) of
             Inl e \<Rightarrow> Inl e
           | Inr (b, fallback) \<Rightarrow> Inr [EmitBlock b fallback])"

definition render_carousel :: "RenderPorts \<Rightarrow> nat \<Rightarrow> SlackSegment \<Rightarrow> message + emission list" where
  "render_carousel p i seg =
     (if carried seg \<noteq> [SlackSegmentCarousel] \<or> seg_Text seg \<noteq> '''' then Inl (segment_error i '' has invalid carousel payload'')
      else let items = the (seg_Carousel seg)
           in if length items < 1 \<or> maxCarouselCards < length items
              then Inl (invalid_result ''carousel must contain 1-10 cards'')
              else case each (\<lambda>(k, c). located (segment_at i @ '' card '' @ format_int (int k)) (renderCard p c '''')) (enumerate 0 items) of
                     Inl e \<Rightarrow> Inl e
                   | Inr cs \<Rightarrow>
                       Inr [EmitBlock (JObject [(''type'', JString ''carousel''), (''block_id'', JString (''tos_tag_carousel_'' @ format_int (int i))),
                                         (''elements'', JArray (map fst cs))]) (Join (map snd cs) newline)])"

definition image_block :: "SlackImage \<Rightarrow> json" where
  "image_block img =
     JObject ([(''type'', JString ''image''), (''image_url'', JString (image_URL img)), (''alt_text'', JString (image_AltText img))]
       @ unless_empty (image_Title img) ''title'' (plain_object (image_Title img)))"

definition render_image :: "RenderPorts \<Rightarrow> nat \<Rightarrow> SlackSegment \<Rightarrow> message + emission list" where
  "render_image p i seg =
     (if carried seg \<noteq> [SlackSegmentImage] \<or> seg_Text seg \<noteq> '''' then Inl (segment_error i '' has invalid image payload'')
      else let img = the (seg_Image seg)
           in case located (segment_at i) (validateImage p img) of
                Inl e \<Rightarrow> Inl e
              | Inr _ \<Rightarrow> Inr [EmitBlock (image_block img) (''Image: '' @ image_AltText img @ '' ('' @ image_URL img @ '')'')])"

definition artifact_link :: "SlackArtifact \<Rightarrow> string" where
  "artifact_link a = ''<'' @ art_URL a @ ''|'' @ escapeLabel (art_Name a) @ ''>''"

definition render_artifact :: "RenderPorts \<Rightarrow> nat \<Rightarrow> SlackSegment \<Rightarrow> message + emission list" where
  "render_artifact p i seg =
     (if carried seg \<noteq> [SlackSegmentArtifact] \<or> seg_Text seg \<noteq> '''' then Inl (segment_error i '' has invalid artifact payload'')
      else let a = the (seg_Artifact seg)
           in case located (segment_at i) (validateArtifact p a) of
                Inl e \<Rightarrow> Inl e
              | Inr _ \<Rightarrow>
                  Inr [EmitBlock (JObject [(''type'', JString ''section''), (''text'', mrkdwn_object (artifact_link a))])
                         (art_Name a @ '': '' @ art_URL a)])"

definition approval_action :: "RenderPorts \<Rightarrow> SlackApproval \<Rightarrow> json" where
  "approval_action p a =
     JObject [(''tool_id'', JString (sap_ToolID a)), (''operation_id'', JString (sap_OperationID a)),
       (''arguments'', JObject (approvalDisplayArguments p a)), (''destination'', JString (sap_Destination a)),
       (''risk'', JString (sap_Risk a)), (''action_hash'', JString (sap_ActionHash a))]"

definition incomplete_approval :: "time \<Rightarrow> SlackApproval \<Rightarrow> bool" where
  "incomplete_approval now a \<longleftrightarrow>
     (let status = approval_status a
      in sap_ID a = '''' \<or> sap_ActionHash a = '''' \<or> sap_ToolID a = '''' \<or> sap_OperationID a = '''' \<or> sap_Risk a = ''''
         \<or> sap_Destination a = '''' \<or> (status = ''pending'' \<and> sap_ExpiresAt a \<le> now)
         \<or> status \<notin> {''pending'', ''approved'', ''denied'', ''expired''}
         \<or> (status \<noteq> ''pending'' \<and> IsZero (sap_ResolvedAt a)))"

definition render_approval :: "RenderPorts \<Rightarrow> time \<Rightarrow> nat \<Rightarrow> SlackSegment \<Rightarrow> message + emission list" where
  "render_approval p now i seg =
     (if carried seg \<noteq> [SlackSegmentApproval] \<or> seg_Text seg \<noteq> '''' then Inl (segment_error i '' has invalid approval payload'')
      else let a = the (seg_Approval seg)
           in if incomplete_approval now a then Inl (segment_error i '' has incomplete approval payload'')
              else case rp_marshal p (approval_action p a) of
                     None \<Rightarrow> Inl (segment_error i '' approval action is not renderable'')
                   | Some action \<Rightarrow>
                       if 1800 < length action then Inl (segment_error i '' approval action is not renderable'')
                       else case located (segment_at i) (renderApprovalBlocks p a) of
                              Inl e \<Rightarrow> Inl e
                            | Inr bs \<Rightarrow> Inr [EmitGroup bs (approvalFallback p a (approval_status a))])"

definition render_notice :: "RenderPorts \<Rightarrow> nat \<Rightarrow> SlackSegment \<Rightarrow> message + emission list" where
  "render_notice p i seg =
     (if carried seg \<noteq> [SlackSegmentNotice] \<or> seg_Text seg \<noteq> '''' then Inl (segment_error i '' has invalid notice payload'')
      else let n = the (seg_Notice seg)
           in case located (segment_at i) (validateNotice p n) of
                Inl e \<Rightarrow> Inl e
              | Inr _ \<Rightarrow> Inr [EmitGroup (renderNoticeBlocks n i) (notice_Title n @ '': '' @ stripFormatting (notice_Message n))])"

definition render_segment :: "RenderPorts \<Rightarrow> time \<Rightarrow> SlackMentionAllowlist \<Rightarrow> nat \<times> SlackSegment \<Rightarrow> message + emission list" where
  "render_segment p now allowed iseg =
     (case iseg of (i, seg) \<Rightarrow>
        (case seg_Kind seg of
           SlackSegmentHeader \<Rightarrow> render_header i seg
         | SlackSegmentMRKDWN \<Rightarrow> render_mrkdwn p allowed i seg
         | SlackSegmentContext \<Rightarrow> render_context p allowed i seg
         | SlackSegmentDivider \<Rightarrow> render_divider i seg
         | SlackSegmentTable \<Rightarrow> render_table p i seg
         | SlackSegmentCard \<Rightarrow> render_card p i seg
         | SlackSegmentCarousel \<Rightarrow> render_carousel p i seg
         | SlackSegmentImage \<Rightarrow> render_image p i seg
         | SlackSegmentArtifact \<Rightarrow> render_artifact p i seg
         | SlackSegmentApproval \<Rightarrow> render_approval p now i seg
         | SlackSegmentNotice \<Rightarrow> render_notice p i seg
         | SlackSegmentOther k \<Rightarrow> Inl (segment_error i ('' has unknown kind '' @ Quote (rp_print p) k))))"

section \<open>The whole result\<close>

definition block_limit :: "string \<Rightarrow> nat" where
  "block_limit footer = (if footer = '''' then maxBlocksPerMessage else maxBlocksPerMessage - 1)"

definition no_payloads :: Rendering where "no_payloads = \<lparr>ren_full = [], ren_last = empty_payload\<rparr>"

definition footer_block :: "string \<Rightarrow> json" where
  "footer_block footer =
     JObject [(''type'', JString ''context''), (''block_id'', JString ''tos_tag_agent_footer''), (''elements'', JArray [mrkdwn_object footer])]"

definition add_footer :: "string \<Rightarrow> Rendering \<Rightarrow> Rendering" where
  "add_footer footer r =
     (if footer = '''' then r
      else r\<lparr>ren_last := \<lparr>pay_Text = pay_Text (ren_last r) @ newline @ footer, pay_Blocks = pay_Blocks (ren_last r) @ [footer_block footer]\<rparr>\<rparr>)"

definition accessible :: "Payload \<Rightarrow> bool" where
  "accessible q \<longleftrightarrow> pay_Blocks q \<noteq> [] \<and> TrimSpace (pay_Text q) \<noteq> ''''"

definition Render :: "RenderPorts \<Rightarrow> time \<Rightarrow> SlackResult \<Rightarrow> message + Payload list" where
  "Render p now result =
     (if res_Segments result = [] then Inl (invalid_result ''no segments'')
      else let footer = renderAgentFooter p (res_AgentFooter result)
           in case each (render_segment p now (res_AllowedMentions result)) (enumerate 0 (res_Segments result)) of
                Inl e \<Rightarrow> Inl e
              | Inr emissions \<Rightarrow>
                  let r = fold (emit (block_limit footer)) (concat emissions) no_payloads
                  in if list_all accessible (payloads r) then Inr (payloads (add_footer footer r))
                     else Inl (invalid_result ''rendered payload lacks accessible fallback text''))"

section \<open>The code of a rejection (ValidationCode)\<close>

definition validation_checks :: "(string \<times> string) list" where
  "validation_checks =
     [(''no segments'', ''no_segments''), (''invalid header payload'', ''header_payload''), (''mixes mrkdwn'', ''mrkdwn_mixed_payload''),
      (''invalid context payload'', ''context_payload''), (''invalid divider payload'', ''divider_payload''),
      (''invalid table payload'', ''table_payload''), (''invalid card payload'', ''card_payload''),
      (''invalid carousel payload'', ''carousel_payload''), (''card title is invalid'', ''card_title''),
      (''card body is invalid'', ''card_body''), (''card subtitle is invalid'', ''card_subtitle''),
      (''card subtext is invalid'', ''card_subtext''), (''carousel must contain'', ''carousel_cards''),
      (''card image URL must be HTTPS'', ''card_image_url''), (''card image alt text is invalid'', ''card_image_alt_text''),
      (''data table caption is invalid'', ''data_table_caption''), (''data table page size'', ''data_table_page_size''),
      (''data table row header'', ''data_table_row_header''), (''invalid image payload'', ''image_payload''),
      (''invalid artifact payload'', ''artifact_payload''), (''invalid approval payload'', ''approval_payload''),
      (''incomplete approval payload'', ''approval_incomplete''), (''approval action is not renderable'', ''approval_action_size''),
      (''invalid notice payload'', ''notice_payload''), (''unknown kind'', ''unknown_segment_kind''),
      (''lacks accessible fallback text'', ''missing_fallback''), (''GitHub link syntax'', ''mrkdwn_github_link''),
      (''double-asterisk bold'', ''mrkdwn_double_asterisk''),
      (''Slack mention lacks admitted source provenance'', ''mrkdwn_forbidden_mention''),
      (''unbalanced fenced code block'', ''mrkdwn_unbalanced_code''), (''unsafe Slack link'', ''mrkdwn_unsafe_link''),
      (''oversized fenced code'', ''mrkdwn_oversized_code''), (''table must have'', ''table_columns''),
      (''cells for'', ''table_row_shape''), (''exceeds table character limit'', ''table_row_size''),
      (''table header and row exceed'', ''table_total_size''), (''invalid alignment'', ''table_alignment''),
      (''invalid table cell type'', ''table_cell_type''), (''image URL must be HTTPS'', ''image_url''),
      (''image alt text is invalid'', ''image_alt_text''), (''image title is invalid'', ''image_title''),
      (''artifact name is required'', ''artifact_name''), (''artifact URL must be HTTPS'', ''artifact_url''),
      (''artifact URL lacks successful tool provenance'', ''artifact_unverified'')]"

definition ValidationCode :: "message option \<Rightarrow> string" where
  "ValidationCode err =
     (case err of
        None \<Rightarrow> ''''
      | Some m \<Rightarrow>
          (case find (\<lambda>(fragment, code). Contains m fragment) validation_checks of
             Some (fragment, code) \<Rightarrow> code
           | None \<Rightarrow> ''invalid_result''))"

end
