(* ===== verification/RendererProperties.thy ===== *)
theory RendererProperties
  imports Renderer
begin

text \<open>
  What a rendered message satisfies: Slack's limits on a payload, no block lost or moved, and tables cut into parts
  that together hold every row.
\<close>

section \<open>Adding to the payloads\<close>

definition all_blocks :: "Payload list \<Rightarrow> json list" where "all_blocks qs = concat (map pay_Blocks qs)"

definition tables_in :: "json list \<Rightarrow> nat" where "tables_in bs = length (filter table_typed bs)"

definition within_limits :: "nat \<Rightarrow> Payload \<Rightarrow> bool" where
  "within_limits limit q \<longleftrightarrow> length (pay_Blocks q) \<le> limit \<and> tables_in (pay_Blocks q) \<le> 1"

lemmas payload_defs = payloads_def new_payload_def empty_payload_def add_block_def

lemma tables_in_simps [simp]:
  "tables_in [] = 0" "tables_in (b # bs) = (if table_typed b then 1 else 0) + tables_in bs"
  "tables_in (as @ bs) = tables_in as + tables_in bs"
  by (simp_all add: tables_in_def)

lemma tables_in_0: "\<not> containsTable bs \<longleftrightarrow> tables_in bs = 0"
  by (induction bs) (auto simp: containsTable_def)

lemma tables_in_le: "tables_in bs \<le> length bs"
  by (simp add: tables_in_def)

lemma all_blocks_simps [simp]:
  "all_blocks [] = []" "all_blocks (q # qs) = pay_Blocks q @ all_blocks qs" "all_blocks (qs @ rs) = all_blocks qs @ all_blocks rs"
  by (simp_all add: all_blocks_def)

lemma new_payload_blocks [simp]: "all_blocks (payloads (new_payload r)) = all_blocks (payloads r)"
  by (simp add: payload_defs)

lemma appendBlock_blocks [simp]: "all_blocks (payloads (appendBlock limit b f r)) = all_blocks (payloads r) @ [b]"
  by (simp add: appendBlock_def payload_defs)

lemma append_all_blocks [simp]: "all_blocks (payloads (append_all limit bs f r)) = all_blocks (payloads r) @ bs"
  by (induction limit bs f r rule: append_all.induct) simp_all

lemma emit_blocks [simp]: "all_blocks (payloads (emit limit e r)) = all_blocks (payloads r) @ emitted_blocks e"
  by (cases e) (simp_all add: appendTable_def appendBlockGroup_def Let_def)

lemma fold_emit_blocks: "all_blocks (payloads (fold (emit limit) es r)) = all_blocks (payloads r) @ concat (map emitted_blocks es)"
  by (induction es arbitrary: r) simp_all

section \<open>Limits of a payload\<close>

definition bounded :: "nat \<Rightarrow> Rendering \<Rightarrow> bool" where
  "bounded limit r \<longleftrightarrow> list_all (within_limits limit) (payloads r)"

fun emission_ok :: "emission \<Rightarrow> bool" where
  "emission_ok (EmitBlock b f) \<longleftrightarrow> \<not> table_typed b"
| "emission_ok (EmitTable b f) \<longleftrightarrow> True"
| "emission_ok (EmitGroup bs f) \<longleftrightarrow> length bs \<le> 5 \<and> tables_in bs \<le> 1"

lemma bounded_new [simp]: "bounded limit (new_payload r) \<longleftrightarrow> bounded limit r"
  by (simp add: bounded_def payload_defs within_limits_def)

lemma appendBlock_bounded:
  assumes "bounded limit r" "0 < limit" "table_typed b \<Longrightarrow> limit \<le> length (pay_Blocks (ren_last r)) \<or> \<not> containsTable (pay_Blocks (ren_last r))"
  shows "bounded limit (appendBlock limit b f r)"
  using assms by (auto simp: bounded_def appendBlock_def payload_defs within_limits_def tables_in_0)

lemma appendBlock_fits:
  "length (pay_Blocks (ren_last r)) < limit \<Longrightarrow> appendBlock limit b f r = r\<lparr>ren_last := add_block b f (ren_last r)\<rparr>"
  by (simp add: appendBlock_def)

lemma append_all_fits:
  "length (pay_Blocks (ren_last r)) + length bs \<le> limit \<Longrightarrow>
   ren_full (append_all limit bs f r) = ren_full r
   \<and> pay_Blocks (ren_last (append_all limit bs f r)) = pay_Blocks (ren_last r) @ bs"
  by (induction limit bs f r rule: append_all.induct) (simp_all add: appendBlock_fits add_block_def)

lemma group_bounded:
  assumes "bounded limit r" "length bs \<le> limit" "tables_in bs \<le> 1"
  shows "bounded limit (appendBlockGroup limit bs f r)"
proof -
  let ?held = "pay_Blocks (ren_last r)"
  define s where
    "s = (if ?held \<noteq> [] \<and> (limit < length ?held + length bs \<or> (containsTable bs \<and> containsTable ?held)) then new_payload r else r)"
  have s: "bounded limit s" using assms(1) by (simp add: s_def)
  have fits: "length (pay_Blocks (ren_last s)) + length bs \<le> limit"
    using assms(2) by (auto simp: s_def payload_defs)
  have "tables_in (pay_Blocks (ren_last s)) + tables_in bs \<le> 1"
    using assms(1,3) tables_in_0 [of bs] tables_in_0 [of ?held]
    by (auto simp: s_def payload_defs bounded_def within_limits_def)
  then show ?thesis
    using append_all_fits [OF fits, of f] s fits
    by (auto simp: appendBlockGroup_def Let_def s_def [symmetric] bounded_def payloads_def within_limits_def)
qed

lemma table_bounded:
  assumes "bounded limit r" "0 < limit"
  shows "bounded limit (appendTable limit b f r)"
proof -
  let ?s = "if containsTable (pay_Blocks (ren_last r)) \<or> limit \<le> length (pay_Blocks (ren_last r)) then new_payload r else r"
  have "bounded limit ?s" using assms(1) by simp
  moreover have "\<not> containsTable (pay_Blocks (ren_last ?s))"
    by (auto simp: containsTable_def new_payload_def empty_payload_def)
  ultimately show ?thesis
    unfolding appendTable_def Let_def using assms(2) by (intro appendBlock_bounded) auto
qed

lemma emit_bounded:
  assumes "bounded limit r" "5 \<le> limit" "emission_ok e"
  shows "bounded limit (emit limit e r)"
proof (cases e)
  case (EmitBlock b f)
  then have "bounded limit (appendBlock limit b f r)" using assms by (intro appendBlock_bounded) auto
  then show ?thesis using EmitBlock by simp
next
  case (EmitTable b f)
  then show ?thesis using assms by (simp add: table_bounded)
next
  case (EmitGroup bs f)
  then show ?thesis using assms by (simp add: group_bounded)
qed

lemma fold_emit_bounded:
  "bounded limit r \<Longrightarrow> 5 \<le> limit \<Longrightarrow> list_all emission_ok es \<Longrightarrow> bounded limit (fold (emit limit) es r)"
  by (induction es arbitrary: r) (simp_all add: emit_bounded)

section \<open>What a segment contributes\<close>

lemma each_length: "each f xs = Inr ys \<Longrightarrow> length ys = length xs"
  by (simp add: each_Inr_iff list_all2_lengthD)

lemma typed [simp]: "table_typed (JObject ((''type'', JString t) # es)) \<longleftrightarrow> t = ''table'' \<or> t = ''data_table''"
  by (simp add: table_typed_def block_type_def)

lemma located_Inl_iff: "located x r = Inl e \<longleftrightarrow> (\<exists>e'. r = Inl e' \<and> e = x @ '': '' @ e')"
  by (cases r) (auto simp: located_def)


lemma approval_blocks_ok: "renderApprovalBlocks p a = Inr bs \<Longrightarrow> length bs \<le> 5 \<and> tables_in bs \<le> 1"
  by (auto simp: renderApprovalBlocks_def Let_def header_block_def section_block_def context_block_def
      approval_actions_def split: sum.splits if_splits)

lemma notice_blocks_ok: "length (renderNoticeBlocks n i) \<le> 5" "tables_in (renderNoticeBlocks n i) \<le> Suc 0"
  by (simp_all add: renderNoticeBlocks_def header_block_def section_block_def context_block_def)

lemmas segment_defs =
  render_header_def render_mrkdwn_def render_context_def render_divider_def render_table_def render_card_def
  render_carousel_def render_image_def render_artifact_def render_approval_def render_notice_def

lemma render_segment_ok: "render_segment p now allowed (i, seg) = Inr es \<Longrightarrow> list_all emission_ok es"
  by (cases "seg_Kind seg")
     (auto simp: render_segment_def segment_defs Let_def text_section_def image_block_def renderCard_def card_block_def list_all_iff
       dest!: approval_blocks_ok intro!: notice_blocks_ok
       split: sum.splits if_splits option.splits)

lemma segments_ok:
  assumes "each (render_segment p now allowed) (enumerate 0 segs) = Inr emissions"
  shows "list_all emission_ok (concat emissions)"
proof -
  have "list_all emission_ok es" if es: "es \<in> set emissions" for es
  proof -
    obtain k where k: "k < length emissions" "es = emissions ! k" using es by (auto simp: in_set_conv_nth)
    then have "render_segment p now allowed (enumerate 0 segs ! k) = Inr es"
      using assms by (simp add: each_Inr_iff list_all2_conv_all_nth)
    then obtain x where "render_segment p now allowed x = Inr es" by blast
    then show ?thesis by (cases x) (auto dest: render_segment_ok)
  qed
  then show ?thesis by (fastforce simp: list_all_iff)
qed

section \<open>Rendering a result\<close>

lemma Render_cases:
  assumes "Render p now result = Inr qs"
  obtains emissions r where
    "each (render_segment p now (res_AllowedMentions result)) (enumerate 0 (res_Segments result)) = Inr emissions"
    "r = fold (emit (block_limit (renderAgentFooter p (res_AgentFooter result)))) (concat emissions) no_payloads"
    "list_all accessible (payloads r)" "qs = payloads (add_footer (renderAgentFooter p (res_AgentFooter result)) r)"
  using assms by (auto simp: Render_def Let_def split: sum.splits if_splits)

lemma add_footer_payloads:
  "payloads (add_footer footer r) =
     (if footer = '''' then payloads r
      else ren_full r @ [\<lparr>pay_Text = pay_Text (ren_last r) @ newline @ footer, pay_Blocks = pay_Blocks (ren_last r) @ [footer_block footer]\<rparr>])"
  by (simp add: add_footer_def payloads_def)

lemma TrimSpace_empty: "TrimSpace '''' = ''''"
  by code_simp

definition payload_fits :: "Payload \<Rightarrow> bool" where
  "payload_fits q \<longleftrightarrow>
     pay_Blocks q \<noteq> [] \<and> length (pay_Blocks q) \<le> maxBlocksPerMessage \<and> tables_in (pay_Blocks q) \<le> 1 \<and> pay_Text q \<noteq> ''''"

lemma payload_fits_bounded:
  assumes "accessible q" "within_limits limit q" "limit \<le> maxBlocksPerMessage"
  shows "payload_fits q"
  using assms TrimSpace_empty by (auto simp: payload_fits_def accessible_def within_limits_def)

lemma footer_fits:
  assumes "within_limits (maxBlocksPerMessage - 1) q"
  shows "payload_fits \<lparr>pay_Text = pay_Text q @ newline @ footer, pay_Blocks = pay_Blocks q @ [footer_block footer]\<rparr>"
  using assms by (simp add: payload_fits_def within_limits_def footer_block_def newline_def maxBlocksPerMessage_def)

lemma render_payload_limits:
  assumes "Render p now result = Inr qs"
  shows "qs \<noteq> [] \<and> list_all payload_fits qs"
proof -
  let ?footer = "renderAgentFooter p (res_AgentFooter result)"
  obtain emissions r where e: "each (render_segment p now (res_AllowedMentions result)) (enumerate 0 (res_Segments result)) = Inr emissions"
    and r: "r = fold (emit (block_limit ?footer)) (concat emissions) no_payloads"
    and a: "list_all accessible (payloads r)" and qs: "qs = payloads (add_footer ?footer r)"
    using assms by (rule Render_cases)
  have "bounded (block_limit ?footer) r"
    unfolding r by (rule fold_emit_bounded [OF _ _ segments_ok [OF e]])
      (simp_all add: bounded_def payload_defs no_payloads_def within_limits_def block_limit_def maxBlocksPerMessage_def)
  then have b: "\<And>q. q \<in> set (payloads r) \<Longrightarrow> within_limits (block_limit ?footer) q"
    by (simp add: bounded_def list_all_iff)
  have fits: "payload_fits q" if "q \<in> set (payloads r)" for q
    using a that by (intro payload_fits_bounded [OF _ b [OF that]]) (auto simp: list_all_iff block_limit_def)
  show ?thesis
  proof (cases "?footer = ''''")
    case True
    then show ?thesis using fits by (simp add: qs add_footer_payloads list_all_iff) (simp add: payloads_def)
  next
    case False
    have "within_limits (maxBlocksPerMessage - 1) (ren_last r)"
      using b [of "ren_last r"] False by (simp add: payloads_def block_limit_def)
    then have "payload_fits \<lparr>pay_Text = pay_Text (ren_last r) @ newline @ ?footer,
        pay_Blocks = pay_Blocks (ren_last r) @ [footer_block ?footer]\<rparr>"
      by (rule footer_fits)
    moreover have "list_all payload_fits (ren_full r)" using fits by (simp add: list_all_iff payloads_def)
    ultimately show ?thesis unfolding qs add_footer_payloads using False by simp
  qed
qed

lemma rendered_blocks:
  assumes "Render p now result = Inr qs"
  shows "\<exists>emissions. each (render_segment p now (res_AllowedMentions result)) (enumerate 0 (res_Segments result)) = Inr emissions
      \<and> length emissions = length (res_Segments result)
      \<and> all_blocks qs = concat (map emitted_blocks (concat emissions))
          @ (let footer = renderAgentFooter p (res_AgentFooter result) in if footer = '''' then [] else [footer_block footer])"
proof -
  let ?footer = "renderAgentFooter p (res_AgentFooter result)"
  obtain emissions r where e: "each (render_segment p now (res_AllowedMentions result)) (enumerate 0 (res_Segments result)) = Inr emissions"
    and r: "r = fold (emit (block_limit ?footer)) (concat emissions) no_payloads"
    and qs: "qs = payloads (add_footer ?footer r)"
    using assms by (rule Render_cases)
  have "all_blocks (payloads r) = concat (map emitted_blocks (concat emissions))"
    unfolding r by (subst fold_emit_blocks) (simp add: payload_defs no_payloads_def)
  then have "all_blocks qs = concat (map emitted_blocks (concat emissions)) @ (if ?footer = '''' then [] else [footer_block ?footer])"
    unfolding qs add_footer_payloads by (cases "?footer = ''''") (simp, simp add: payloads_def)
  with e show ?thesis by (auto simp: Let_def dest: each_length)
qed

text \<open>
  C32. A rendered result is complete and fits Slack: the blocks of all payloads, in order, are what the segments
  contribute, in order, and then the footer; every payload has at least one block and at most 50, at most one
  table, and a fallback text.
\<close>

theorem render_complete_and_bounded:
  assumes "Render p now result = Inr qs"
  shows "qs \<noteq> [] \<and> list_all payload_fits qs
    \<and> (\<exists>emissions. each (render_segment p now (res_AllowedMentions result)) (enumerate 0 (res_Segments result)) = Inr emissions
        \<and> all_blocks qs = concat (map emitted_blocks (concat emissions))
            @ (let footer = renderAgentFooter p (res_AgentFooter result) in if footer = '''' then [] else [footer_block footer]))"
  using render_payload_limits [OF assms] rendered_blocks [OF assms] by blast

definition sample_ports :: RenderPorts where
  "sample_ports =
     \<lparr>rp_ip = (\<lambda>_. None), rp_punct = (\<lambda>_. False), rp_lower = id, rp_upper = id, rp_print = (\<lambda>_. True), rp_float = (\<lambda>_. ''1''),
      rp_sprint = (\<lambda>_. ''1''), rp_number = (\<lambda>_. False), rp_marshal = (\<lambda>_. Some ''{}''), rp_sha = (\<lambda>_. ''00'')\<rparr>"

definition sample_table :: SlackTable where
  "sample_table =
     \<lparr>table_Columns = [\<lparr>col_Header = ''A'', col_Align = '''', col_Wrapped = False\<rparr>],
      table_Rows = [[\<lparr>cell_Type = ''raw_text'', cell_Text = ''x'', cell_Number = 0\<rparr>]],
      table_Caption = '''', table_PageSize = 0, table_RowHeaderColumnIndex = 0\<rparr>"

definition sample_result :: SlackResult where
  "sample_result = zero_SlackResult
     \<lparr>res_Segments :=
        [zero_SlackSegment\<lparr>seg_Kind := SlackSegmentHeader, seg_Text := ''Hi''\<rparr>,
         zero_SlackSegment\<lparr>seg_Kind := SlackSegmentTable, seg_Table := Some sample_table\<rparr>],
      res_AgentFooter := Some \<lparr>foot_ModelID = ''m'', foot_ReasoningEffort = '''', foot_InputTokens = 0, foot_OutputTokens = 0,
        foot_CachedInputTokens = 0, foot_ReasoningOutputTokens = 0, foot_TotalTokens = 7, foot_DurationMS = 0, foot_Activities = []\<rparr>\<rparr>"

lemma render_complete_and_bounded_witness:
  "\<exists>qs. Render sample_ports 0 sample_result = Inr qs \<and> qs \<noteq> [] \<and> list_all payload_fits qs"
proof -
  have "case Render sample_ports 0 sample_result of Inr _ \<Rightarrow> True | Inl _ \<Rightarrow> False" by code_simp
  then obtain qs where "Render sample_ports 0 sample_result = Inr qs" by (auto split: sum.splits)
  then show ?thesis using render_complete_and_bounded by blast
qed

section \<open>Tables\<close>

definition table_part :: "RenderPorts \<Rightarrow> SlackTableColumn list \<Rightarrow> SlackTableCell list list \<Rightarrow> json \<Rightarrow> bool" where
  "table_part p columns part b \<longleftrightarrow>
     (\<exists>settings js. each (column_setting p) columns = Inr settings \<and> each (renderRow p) part = Inr js
        \<and> b = table_block settings columns js)
     \<and> length part + 1 \<le> maxTableRows
     \<and> (part \<noteq> [] \<longrightarrow> tableHeaderCharacters columns + sum_list (map (tableRowCharacters p) part) \<le> maxTableCharacters)"

lemma filled_part:
  assumes "fill_rows p (tableHeaderCharacters columns) 1 i rows = Inr (js, left)" "each (column_setting p) columns = Inr settings"
  shows "\<exists>part. rows = part @ left \<and> table_part p columns part (table_block settings columns js)"
proof -
  obtain took where t: "rows = took @ left" "list_all2 (\<lambda>r j. renderRow p r = Inr j) took js"
    "took \<noteq> [] \<longrightarrow> 1 + length took \<le> maxTableRows
       \<and> tableHeaderCharacters columns + sum_list (map (tableRowCharacters p) took) \<le> maxTableCharacters"
    using fill_rows_parts [OF assms(1)] by auto
  have "length took + 1 \<le> maxTableRows" using t(3) by (cases took) (auto simp: maxTableRows_def)
  with t assms(2) show ?thesis by (auto simp: table_part_def each_Inr_iff)
qed

lemma table_parts_split:
  "table_parts p columns i rows = Inr blocks \<Longrightarrow>
     \<exists>parts. concat parts = rows \<and> list_all2 (table_part p columns) parts blocks \<and> (rows \<noteq> [] \<longrightarrow> [] \<notin> set parts)"
proof (induction p columns i rows arbitrary: blocks rule: table_parts.induct)
  case (1 p columns i rows)
  note result = 1(2) [unfolded table_parts.simps [of p columns i rows]]
  obtain js left where f: "fill_rows p (tableHeaderCharacters columns) 1 i rows = Inr (js, left)"
    using result by (auto split: sum.splits)
  have progress: "rows = [] \<or> length left \<noteq> length rows" using result f by (auto split: if_splits)
  obtain settings where s: "each (column_setting p) columns = Inr settings"
    using result f progress by (auto split: sum.splits if_splits)
  obtain part where part: "rows = part @ left" "table_part p columns part (table_block settings columns js)"
    using filled_part [OF f s] by blast
  have nonempty: "rows \<noteq> [] \<Longrightarrow> part \<noteq> []" using progress part(1) by auto
  show ?case
  proof (cases "left = []")
    case True
    then have "blocks = [table_block settings columns js]" using result f progress s by auto
    then show ?thesis using part True nonempty by (intro exI [of _ "[part]"]) auto
  next
    case False
    then obtain bs where bs: "table_parts p columns (i + (length rows - length left)) left = Inr bs"
      and blocks: "blocks = table_block settings columns js # bs"
      using result f progress s by (auto split: sum.splits if_splits)
    obtain parts where parts: "concat parts = left" "list_all2 (table_part p columns) parts bs" "[] \<notin> set parts"
      using 1(1) [OF f refl _ s False bs] progress False by auto
    have "concat (part # parts) = rows" "list_all2 (table_part p columns) (part # parts) blocks"
      using part parts blocks by simp_all
    moreover have "rows \<noteq> [] \<longrightarrow> [] \<notin> set (part # parts)" using nonempty parts(3) by auto
    ultimately show ?thesis by blast
  qed
qed

text \<open>
  C33. A table without a caption is cut into tables that together hold every row once and in order, each with the
  header, at most 100 rows and, when it has rows, at most 10,000 characters.
\<close>

theorem native_table_complete:
  assumes "renderTables p table = Inr blocks" "table_Caption table = ''''"
  shows "\<exists>parts. concat parts = table_Rows table \<and> list_all2 (table_part p (table_Columns table)) parts blocks
      \<and> (table_Rows table \<noteq> [] \<longrightarrow> [] \<notin> set parts)"
proof -
  have "table_parts p (table_Columns table) 0 (table_Rows table) = Inr blocks"
    using assms by (auto simp: renderTables_def split: sum.splits if_splits)
  then show ?thesis by (rule table_parts_split)
qed

lemma native_table_complete_witness:
  "\<exists>blocks parts. renderTables sample_ports sample_table = Inr blocks \<and> concat parts = table_Rows sample_table
     \<and> list_all2 (table_part sample_ports (table_Columns sample_table)) parts blocks"
proof -
  have "case renderTables sample_ports sample_table of Inr _ \<Rightarrow> True | Inl _ \<Rightarrow> False" by code_simp
  then obtain blocks where b: "renderTables sample_ports sample_table = Inr blocks" by (auto split: sum.splits)
  have "table_Caption sample_table = ''''" by (simp add: sample_table_def)
  then show ?thesis using native_table_complete [OF b] b by blast
qed

end
