(* ===== verification/MrkdwnProperties.thy ===== *)
theory MrkdwnProperties
  imports Mrkdwn
begin

text \<open>
  What validation and splitting guarantee: a text that passed \<open>validateMRKDWN\<close> mentions nobody and nothing the
  allowlist does not name, wherever the mention stands, and splitting a text drops white space only.
\<close>

section \<open>ASCII bytes are code points of their own\<close>

lemma char_small: "(of_char c :: nat) < 0x80 \<Longrightarrow> \<not> is_cont c"
  by (simp add: is_cont_def)

lemma rune_ascii:
  assumes "c \<in> set (take (rune_len s) s)" "(of_char c :: nat) < 0x80"
  shows "take (rune_len s) s = [c]"
proof (cases s)
  case (Cons d r)
  show ?thesis
  proof (cases "valid_rune_len s \<le> 1")
    case True
    then have "rune_len s = 1" by (simp add: rune_len_def)
    then show ?thesis using assms(1) Cons by simp
  next
    case False
    let ?n = "rune_need (of_char d)" and ?t = "take (rune_need (of_char d) - 1) r"
    have v: "valid_rune_len s = ?n"
      and t: "case ?t of [] \<Rightarrow> True | e # u \<Rightarrow> second_byte_ok (of_char d) (of_char e) \<and> list_all is_cont u"
      using False Cons by (auto simp: valid_rune_len_def Let_def split: if_splits)
    have "\<forall>e \<in> set ?t. is_cont e" using t by (cases ?t) (auto simp: list_all_iff dest: second_byte_cont)
    moreover have "take (rune_len s) s = d # ?t" using False v Cons by (simp add: rune_len_def max_absorb2 take_Cons')
    moreover have "\<not> (of_char d :: nat) < 0x80" using False v by (auto simp: rune_need_def split: if_splits)
    ultimately show ?thesis using assms char_small by auto
  qed
qed (use assms in simp)

lemma rune_within:
  assumes "s = pre @ c # post" "pre \<noteq> []" "(of_char c :: nat) < 0x80"
  shows "rune_len s \<le> length pre"
proof (rule ccontr)
  assume "\<not> rune_len s \<le> length pre"
  then have "c \<in> set (take (rune_len s) s)" using assms(1) by (simp add: take_Cons')
  then have "take (rune_len s) s = [c]" using assms(3) by (rule rune_ascii)
  then have "length (take (rune_len s) s) = 1" by simp
  then have "rune_len s = 1 \<or> length s = 1" by auto
  then show False using assms(1,2) \<open>\<not> rune_len s \<le> length pre\<close> by (cases pre) auto
qed

section \<open>Matches of the entity pattern\<close>

lemma not_in_front: "take (rune_len s) s \<noteq> [c] \<Longrightarrow> (of_char c :: nat) < 0x80 \<Longrightarrow> c \<notin> set (take (rune_len s) s)"
  using rune_ascii by blast

lemma angle_ascii: "(of_char CHR ''>'' :: nat) < 0x80" "(of_char CHR ''<'' :: nat) < 0x80" "(of_char CHR 0x0A :: nat) < 0x80"
  by code_simp+

abbreviation before_gt :: regex where "before_gt \<equiv> rx_not_in [CHR ''>'']"

lemma star_skips:
  "q \<in> set (star_ends n (rx_ends before_gt) p) \<Longrightarrow> \<exists>b. snd p = b @ snd q \<and> CHR ''>'' \<notin> set b"
proof (induction n arbitrary: p)
  case (Suc n)
  show ?case
  proof (cases "q = p")
    case False
    then obtain p' where p': "p' \<in> set (rx_ends before_gt p)" "q \<in> set (star_ends n (rx_ends before_gt) p')"
      using Suc.prems by (auto simp del: split_paired_All)
    have one: "snd p = take (rune_len (snd p)) (snd p) @ snd p'" "CHR ''>'' \<notin> set (take (rune_len (snd p)) (snd p))"
      using p'(1) by (auto simp: rx_not_in_def advance_by_def split: if_splits dest!: not_in_front [OF _ angle_ascii(1)])
    obtain b where "snd p' = b @ snd q" "CHR ''>'' \<notin> set b" using Suc.IH [OF p'(2)] by blast
    then have "snd p = (take (rune_len (snd p)) (snd p) @ b) @ snd q \<and> CHR ''>'' \<notin> set (take (rune_len (snd p)) (snd p) @ b)"
      using one by (metis append.assoc Un_iff set_append)
    then show ?thesis by blast
  qed simp
qed simp

lemma star_arrives:
  "snd p = b @ CHR ''>'' # c \<Longrightarrow> CHR ''>'' \<notin> set b \<Longrightarrow> length b < n \<Longrightarrow>
     \<exists>q \<in> set (star_ends n (rx_ends before_gt) p). snd q = CHR ''>'' # c"
proof (induction n arbitrary: p b)
  case (Suc n)
  show ?case
  proof (cases "b = []")
    case True
    then show ?thesis using Suc.prems by auto
  next
    case False
    let ?k = "rune_len (snd p)"
    have k: "?k \<le> length b" using rune_within [OF Suc.prems(1) False angle_ascii(1)] .
    have pos: "0 < ?k" by (simp add: rune_len_def)
    have "take ?k (snd p) \<noteq> [CHR ''>'']" using Suc.prems(1,2) k False by (cases b; cases ?k) auto
    then have step: "advance_by ?k p \<in> set (rx_ends before_gt p)" using Suc.prems(1) by (simp add: rx_not_in_def)
    have rest: "snd (advance_by ?k p) = drop ?k b @ CHR ''>'' # c" using Suc.prems(1) k by (simp add: advance_by_def)
    have "CHR ''>'' \<notin> set (drop ?k b)" "length (drop ?k b) < n"
      using Suc.prems(2,3) pos k by (auto dest: in_set_dropD)
    then obtain q where q: "q \<in> set (star_ends n (rx_ends before_gt) (advance_by ?k p))" "snd q = CHR ''>'' # c"
      using Suc.IH [OF rest] by blast
    have "length (snd (advance_by ?k p)) < length (snd p)"
      unfolding rest using Suc.prems(1) pos k by (simp only: length_append length_drop)
    then have "advance_by ?k p \<in> set (filter (\<lambda>q. length (snd q) < length (snd p)) (rx_ends before_gt p))" using step by simp
    then have "q \<in> set (star_ends (Suc n) (rx_ends before_gt) p)"
      using q(1) unfolding star_ends.simps set_append set_concat set_map by blast
    then show ?thesis using q(2) by blast
  qed
qed simp

definition entity_text :: "string \<Rightarrow> bool" where
  "entity_text m \<longleftrightarrow> (\<exists>x b. m = [CHR ''<'', x] @ b @ ''>'' \<and> x \<in> set ''@#!'' \<and> CHR ''>'' \<notin> set b)"

lemma entity_ends:
  assumes "q \<in> set (rx_ends slackEntityPattern p)"
  shows "\<exists>e. entity_text e \<and> snd p = e @ snd q"
proof -
  obtain p2 p3 p4 where p2: "HasPrefix (snd p) ''<''" "p2 = advance_by 1 p" and p3: "p3 \<in> set (rx_ends (rx_in ''@#!'') p2)"
    and p4: "p4 \<in> set (rx_ends (RxStar before_gt) p3)" and q: "HasPrefix (snd p4) ''>''" "q = advance_by 1 p4"
  proof -
    have "HasPrefix (snd p) ''<''"
      "\<exists>p3 \<in> set (rx_ends (rx_in ''@#!'') (advance_by 1 p)). \<exists>p4 \<in> set (rx_ends (RxStar before_gt) p3).
         HasPrefix (snd p4) ''>'' \<and> q = advance_by 1 p4"
      using assms unfolding slackEntityPattern_def rx_seq_def
      by (simp_all del: split_paired_All split_paired_Ex rx_ends.simps(6) split: if_splits) (force split: if_splits)
    then show ?thesis using that by blast
  qed
  obtain x where x: "x \<in> set ''@#!''" "snd p2 = x # snd p3"
  proof -
    have "snd p2 \<noteq> []" "take (rune_len (snd p2)) (snd p2) \<in> {''@'', ''#'', ''!''}" "snd p3 = drop (rune_len (snd p2)) (snd p2)"
      using p3 by (auto simp: rx_in_def advance_by_def split: if_splits)
    then show ?thesis using that by (metis append_Cons append_Nil append_take_drop_id insertE insertI1 insertI2 list.simps(15) singletonD)
  qed
  obtain b where b: "snd p3 = b @ snd p4" "CHR ''>'' \<notin> set b" using star_skips p4 by (metis rx_ends.simps(6))
  have front: "s = c # snd (advance_by 1 r)" if "HasPrefix s [c]" "s = snd r" for s c and r :: position
    using that(1) unfolding that(2) by (cases "snd r") (auto simp: HasPrefix_def advance_by_def)
  have "snd p = CHR ''<'' # snd p2" using front [OF p2(1) refl] p2(2) by simp
  moreover have "snd p4 = CHR ''>'' # snd q" using front [OF q(1) refl] q(2) by simp
  ultimately have "snd p = ([CHR ''<'', x] @ b @ ''>'') @ snd q" using x(2) b(1) by simp
  then show ?thesis using x(1) b(2) unfolding entity_text_def by blast
qed

lemma entity_matches:
  assumes "entity_text m" "snd p = m @ post"
  shows "rx_ends slackEntityPattern p \<noteq> []"
proof -
  obtain x b where m: "m = [CHR ''<'', x] @ b @ ''>''" "x \<in> set ''@#!''" "CHR ''>'' \<notin> set b"
    using assms(1) by (auto simp: entity_text_def)
  let ?p2 = "advance_by 1 p"
  have s2: "snd ?p2 = x # b @ CHR ''>'' # post" using assms(2) m(1) by (simp add: advance_by_def)
  have "(of_char x :: nat) < 0x80"
    using m(2) by (auto simp del: of_char_Char) (code_simp+)
  then have x1: "rune_len (snd ?p2) = 1" unfolding s2 by (simp add: rune_len_def valid_rune_len_def Let_def rune_need_def)
  let ?p3 = "advance_by 1 ?p2"
  have "take 1 (snd ?p2) = [x]" unfolding s2 by simp
  then have p3: "?p3 \<in> set (rx_ends (rx_in ''@#!'') ?p2)"
    unfolding rx_in_def rx_ends.simps x1 using m(2) s2 by auto
  have s3: "snd ?p3 = b @ CHR ''>'' # post" using arg_cong [OF s2, of "drop 1"] by (simp add: advance_by_def)
  have "length b < Suc (length (snd ?p3))" unfolding s3 by simp
  then obtain p4 where p4: "p4 \<in> set (rx_ends (RxStar before_gt) ?p3)" "snd p4 = CHR ''>'' # post"
    using star_arrives [OF s3 m(3)] unfolding rx_ends.simps by blast
  have p2: "?p2 \<in> set (rx_ends (RxLit ''<'') p)" using assms(2) m(1) by (simp add: HasPrefix_def)
  have p5: "advance_by 1 p4 \<in> set (rx_ends (RxSeq (RxLit ''>'') RxEps) p4)" using p4(2) by (simp add: HasPrefix_def)
  have seq: "q \<in> set (rx_ends r1 p0) \<Longrightarrow> z \<in> set (rx_ends r2 q) \<Longrightarrow> z \<in> set (rx_ends (RxSeq r1 r2) p0)" for q r1 r2 p0 z
    unfolding rx_ends.simps by auto
  have "advance_by 1 p4 \<in> set (rx_ends slackEntityPattern p)"
    unfolding slackEntityPattern_def rx_seq_def foldr.simps comp_apply id_apply
    by (rule seq [OF p2 seq [OF p3 seq [OF p4(1) p5]]])
  then show ?thesis by auto
qed

text \<open>Every entity of a text is the end of one of the matches found from the left.\<close>

lemma entity_found:
  assumes "entity_text m"
  shows "snd p = pre @ m @ post \<Longrightarrow>
    \<exists>a b pre1 pre2. rx_find slackEntityPattern p = Some (a, b) \<and> snd p = pre1 @ snd a \<and> pre = pre1 @ pre2"
proof (induction "slackEntityPattern" p arbitrary: pre rule: rx_find.induct)
  case (1 p)
  show ?case
  proof (cases "rx_ends slackEntityPattern p")
    case (Cons q qs)
    then have "rx_find slackEntityPattern p = Some (p, q)" by (simp add: rx_find.simps [of _ p])
    then show ?thesis by fastforce
  next
    case Nil
    have pre: "pre \<noteq> []" using entity_matches [OF assms, of p post] 1(2) Nil by auto
    obtain m' where m: "m = CHR ''<'' # m'" using assms by (auto simp: entity_text_def)
    let ?k = "rune_len (snd p)"
    have k: "?k \<le> length pre" by (rule rune_within [OF _ pre angle_ascii(2)]) (simp add: 1(2) m)
    have step: "snd (next_rune p) = drop ?k pre @ m @ post" unfolding next_rune_def using 1(2) k by (simp add: advance_by_def)
    have ne: "snd p \<noteq> []" using 1(2) m by simp
    obtain a b pre1 pre2 where ih: "rx_find slackEntityPattern (next_rune p) = Some (a, b)"
      "snd (next_rune p) = pre1 @ snd a" "drop ?k pre = pre1 @ pre2"
      using 1(1) [OF Nil ne step] by blast
    have "rx_find slackEntityPattern p = Some (a, b)" using Nil ne ih(1) by (simp add: rx_find.simps [of _ p])
    moreover have "snd p = take ?k (snd p) @ snd (next_rune p)" by (simp add: next_rune_def advance_by_def)
    then have "snd p = (take ?k pre @ pre1) @ snd a" using 1(2) ih(2) k by simp
    moreover have "pre = (take ?k pre @ pre1) @ pre2" using ih(3) by (metis append.assoc append_take_drop_id)
    ultimately show ?thesis by blast
  qed
qed

lemma entity_first_gt: "entity_text e \<Longrightarrow> \<exists>e0. e = e0 @ ''>'' \<and> CHR ''>'' \<notin> set e0"
  unfolding entity_text_def
proof (elim exE conjE)
  fix x b assume "e = [CHR ''<'', x] @ b @ ''>''" "x \<in> set ''@#!''" "CHR ''>'' \<notin> set b"
  then show ?thesis by (intro exI [of _ "[CHR ''<'', x] @ b"]) auto
qed

lemma same_end:
  assumes "entity_text e" "entity_text m" "e @ r = pre @ m @ post" "length pre < length e"
  shows "e = pre @ m"
proof -
  obtain e0 where e: "e = e0 @ ''>''" "CHR ''>'' \<notin> set e0" using entity_first_gt [OF assms(1)] by blast
  obtain m0 where m: "m = m0 @ ''>''" "CHR ''>'' \<notin> set m0" using entity_first_gt [OF assms(2)] by blast
  have "pre = take (length pre) (e @ r)" unfolding assms(3) by simp
  also have "\<dots> = take (length pre) e0" using assms(4) e(1) by simp
  finally have "set pre \<subseteq> set e0" by (metis set_take_subset)
  then have none: "CHR ''>'' \<notin> set (pre @ m0)" using e(2) m(2) by auto
  have cut: "takeWhile (\<lambda>c. c \<noteq> CHR ''>'') (s @ CHR ''>'' # t) = s" if "CHR ''>'' \<notin> set s" for s t
    using that by (induction s) auto
  have "e0 @ CHR ''>'' # r = (pre @ m0) @ CHR ''>'' # post" using assms(3) e(1) m(1) by simp
  then have "e0 = pre @ m0" using cut [OF e(2), of r] cut [OF none, of post] by (metis (no_types))
  then show ?thesis using e(1) m(1) by simp
qed

lemma entity_in_pieces:
  assumes "entity_text m"
  shows "snd p = pre @ m @ post \<Longrightarrow> \<exists>u. u @ m \<in> set (map snd (fst (rx_pieces slackEntityPattern p)))"
proof (induction "slackEntityPattern" p arbitrary: pre rule: rx_pieces.induct)
  case (1 p)
  obtain a b pre1 pre2 where f: "rx_find slackEntityPattern p = Some (a, b)" "snd p = pre1 @ snd a" "pre = pre1 @ pre2"
    using entity_found [OF assms 1(2)] by blast
  obtain e where e: "entity_text e" "snd a = e @ snd b" using entity_ends rx_find_reaches [OF f(1)] by blast
  have le: "length (snd b) < length (snd p)" using f(2) e by (auto simp: entity_text_def)
  obtain ps rest where rec: "rx_pieces slackEntityPattern b = (ps, rest)" by fastforce
  have pieces: "map snd (fst (rx_pieces slackEntityPattern p)) = e # map snd ps"
    using f(1) le rec e(2) by (simp add: rx_pieces.simps [of _ p])
  have whole: "e @ snd b = pre2 @ m @ post" using 1(2) f(2,3) e(2) by simp
  show ?case
  proof (cases "length pre2 < length e")
    case True
    then have "e = pre2 @ m" using same_end [OF e(1) assms whole] by simp
    then show ?thesis unfolding pieces by auto
  next
    case False
    then have "snd b = drop (length e) pre2 @ m @ post" using whole by (metis append_eq_append_conv_if leI)
    then have "\<exists>u. u @ m \<in> set (map snd ps)" using 1(1) [OF f(1) refl le, of "drop (length e) pre2"] rec by simp
    then show ?thesis unfolding pieces by auto
  qed
qed

section \<open>Only admitted mentions\<close>

definition plain_ids :: "SlackMentionAllowlist \<Rightarrow> bool" where
  "plain_ids allowed \<longleftrightarrow> list_all (\<lambda>i. CHR ''<'' \<notin> set i) (allow_UserIDs allowed @ allow_ChannelIDs allowed)"

lemma allowed_suffix:
  assumes "allowedSlackEntity (u @ m) allowed" "entity_text m" "plain_ids allowed"
  shows "allowedSlackEntity m allowed"
proof -
  obtain x i where i: "u @ m = [CHR ''<'', x] @ i @ ''>''" "x \<noteq> CHR ''<''" "CHR ''<'' \<notin> set i"
    using assms(1,3) by (auto simp: allowedSlackEntity_def plain_ids_def list_ex_iff list_all_iff)
  obtain m' where m: "m = CHR ''<'' # m'" using assms(2) by (auto simp: entity_text_def)
  have "u = []"
  proof (cases u)
    case (Cons c u')
    then have "u' @ CHR ''<'' # m' = x # i @ ''>''" using i(1) m by simp
    then have "CHR ''<'' \<in> set (x # i @ ''>'')" by (metis in_set_conv_decomp)
    then show ?thesis using i(2,3) by auto
  qed simp
  then show ?thesis using assms(1) by simp
qed

lemma validated_entity:
  assumes "validateMRKDWN ip t allowed = Inr ()" "plain_ids allowed" "t = pre @ m @ post" "entity_text m"
  shows "allowedSlackEntity m allowed"
proof -
  have "\<exists>u. u @ m \<in> set (FindAllString slackEntityPattern t)"
    unfolding FindAllString_def by (rule entity_in_pieces [OF assms(4)]) (simp add: assms(3))
  then obtain u where u: "u @ m \<in> set (FindAllString slackEntityPattern t)" by blast
  have "allowedSlackEntity (u @ m) allowed"
    using assms(1) u by (auto simp: validateMRKDWN_def list_ex_iff split: if_splits)
  then show ?thesis using allowed_suffix assms(2,4) by blast
qed

section \<open>Splitting\<close>

text \<open>
  White space, and a text as pieces with white space before, between and after them.
\<close>

definition blank :: "string \<Rightarrow> bool" where
  "blank s \<longleftrightarrow> (\<exists>ws. set ws \<subseteq> set space_seqs \<and> s = concat ws)"

inductive spaced :: "string list \<Rightarrow> string \<Rightarrow> bool" where
  spaced_Nil: "blank s \<Longrightarrow> spaced [] s"
| spaced_Cons: "blank a \<Longrightarrow> spaced cs s \<Longrightarrow> spaced (c # cs) (a @ c @ s)"

lemma blank_Nil [simp]: "blank ''''"
  unfolding blank_def by (intro exI [of _ "[]"]) simp

lemma blank_append: "blank a \<Longrightarrow> blank b \<Longrightarrow> blank (a @ b)"
  unfolding blank_def by (elim exE conjE) (metis concat_append le_sup_iff set_append)

lemma spaced_blank: "spaced cs s \<Longrightarrow> blank a \<Longrightarrow> spaced cs (a @ s)"
proof (induction rule: spaced.induct)
  case (spaced_Nil s)
  then show ?case by (intro spaced.spaced_Nil blank_append)
next
  case (spaced_Cons a' cs s c)
  then show ?case using spaced.spaced_Cons [OF blank_append [OF spaced_Cons.prems spaced_Cons.hyps(1)] spaced_Cons.hyps(2), of c] by simp
qed

lemma spaced_blank_end: "spaced cs s \<Longrightarrow> blank a \<Longrightarrow> spaced cs (s @ a)"
proof (induction rule: spaced.induct)
  case (spaced_Nil s)
  then show ?case by (intro spaced.spaced_Nil blank_append)
next
  case (spaced_Cons a' cs s c)
  then show ?case using spaced.spaced_Cons [of a' cs "s @ a" c] by simp
qed

lemma trim_front_blank: "\<exists>a. blank a \<and> s = a @ trim_front space_seqs s"
proof (induction space_seqs s rule: trim_front.induct)
  case (1 s)
  show ?case
  proof (cases "s \<noteq> [] \<and> 0 < space_len space_seqs s")
    case True
    let ?r = "drop (space_len space_seqs s) s"
    obtain a where a: "blank a" "?r = a @ trim_front space_seqs ?r" using 1 True by blast
    obtain q where q: "q \<in> set space_seqs" "s = q @ ?r" using space_len_seq True by blast
    have "blank (q @ a)" using q(1) a(1) by (intro blank_append) (auto simp: blank_def intro: exI [of _ "[q]"])
    moreover have "s = (q @ a) @ trim_front space_seqs ?r" using q(2) a(2) by simp
    moreover have "trim_front space_seqs s = trim_front space_seqs ?r" using True by (subst trim_front.simps) simp
    ultimately show ?thesis by (intro exI [of _ "q @ a"]) simp
  next
    case False
    then have "trim_front space_seqs s = s" by (subst trim_front.simps) auto
    then show ?thesis by (intro exI [of _ "[]"]) simp
  qed
qed

lemma trim_back_blank: "\<exists>a. blank (rev a) \<and> s = a @ trim_front (map rev space_seqs) s"
proof (induction "map rev space_seqs" s rule: trim_front.induct)
  case (1 s)
  let ?sp = "map rev space_seqs"
  show ?case
  proof (cases "s \<noteq> [] \<and> 0 < space_len ?sp s")
    case True
    let ?r = "drop (space_len ?sp s) s"
    obtain a where a: "blank (rev a)" "?r = a @ trim_front ?sp ?r" using 1 True by blast
    obtain q where q: "q \<in> set space_seqs" "s = rev q @ ?r" using space_len_seq [of ?sp s] True by auto
    have "blank q" using q(1) by (auto simp: blank_def intro: exI [of _ "[q]"])
    then have "blank (rev (rev q @ a))" using a(1) by (simp add: blank_append)
    moreover have "s = (rev q @ a) @ trim_front ?sp ?r" using q(2) a(2) by simp
    moreover have "trim_front ?sp s = trim_front ?sp ?r" using True by (subst trim_front.simps) simp
    ultimately show ?thesis by (intro exI [of _ "rev q @ a"]) simp
  next
    case False
    then have "trim_front ?sp s = s" by (subst trim_front.simps) auto
    then show ?thesis by (intro exI [of _ "[]"]) simp
  qed
qed

lemma TrimSpace_blank: "\<exists>a b. s = a @ TrimSpace s @ b \<and> blank a \<and> blank b"
proof -
  obtain a where a: "blank a" "s = a @ trim_front space_seqs s" using trim_front_blank by blast
  let ?t = "trim_front space_seqs s"
  obtain b where b: "blank (rev b)" "rev ?t = b @ trim_front (map rev space_seqs) (rev ?t)" using trim_back_blank by blast
  have "?t = TrimSpace s @ rev b" unfolding TrimSpace_def using arg_cong [OF b(2), of rev] by simp
  then have "s = a @ TrimSpace s @ rev b" using a(2) by simp
  then show ?thesis using a(1) b(1) by blast
qed

lemma spaced_trimmed: "spaced cs (TrimSpace s) \<Longrightarrow> spaced cs s"
proof -
  assume s: "spaced cs (TrimSpace s)"
  obtain a b where ab: "s = a @ TrimSpace s @ b" "blank a" "blank b" using TrimSpace_blank by blast
  have "spaced cs (a @ TrimSpace s @ b)" by (rule spaced_blank [OF spaced_blank_end [OF s ab(3)] ab(2)])
  then show ?thesis using ab(1) by simp
qed

lemma blank_trimmed: "TrimSpace s = '''' \<Longrightarrow> blank s"
  using TrimSpace_blank [of s] blank_append by (metis append_Nil)

lemma valid_rune_text: "ValidString s \<Longrightarrow> set rs \<subseteq> set (runes s) \<Longrightarrow> rune_text rs = concat rs"
  unfolding rune_text_def ValidString_def list_all_iff
  by (rule arg_cong [where f = concat], rule map_idI) (auto simp: rune_string_def)

lemma valid_trimmed: "ValidString s \<Longrightarrow> ValidString (TrimSpace s)"
  using TrimSpace_runes [of s] by (auto simp: ValidString_def list_all_iff dest!: in_set_takeD in_set_dropD)

lemma valid_dropped: "ValidString s \<Longrightarrow> ValidString (concat (drop n (runes s)))"
proof -
  assume v: "ValidString s"
  have sub: "set (drop n (runes s)) \<subseteq> set (runes s)" by (rule set_drop_subset)
  have "runes (concat (drop n (runes s))) = map rune_string (drop n (runes s))"
    using runes_rune_text [OF sub] valid_rune_text [OF v sub] by simp
  then show ?thesis using v sub by (auto simp: ValidString_def list_all_iff rune_string_def)
qed

lemma line_end_runes:
  assumes "LastIndex p newline = Some n"
  shows "length (runes (take n p)) \<le> length (runes p)"
proof -
  obtain i where i: "Index (rev p) (rev newline) = Some i" "n = length p - 1 - i"
    using assms by (auto simp: LastIndex_def newline_def)
  have r: "rev p = take i (rev p) @ rev newline @ drop (i + 1) (rev p)" "i + 1 \<le> length p"
    using Index_Some [OF i(1)] by (auto simp: newline_def)
  have "p = rev (drop (i + 1) (rev p)) @ newline @ rev (take i (rev p))"
    using arg_cong [OF r(1), of rev] by (simp add: newline_def)
  moreover have "length (rev (drop (i + 1) (rev p))) = n" using i(2) r(2) by simp
  ultimately have "drop n p = newline @ rev (take i (rev p))" by (metis append_eq_conv_conj)
  then have "drop n p = [] \<or> \<not> is_cont (hd (drop n p))" by (simp add: newline_def char_small angle_ascii)
  then have "runes (take n p @ drop n p) = runes (take n p) @ runes (drop n p)" by (rule runes_append_lead)
  then show ?thesis by simp
qed

lemma split_cut_le: "split_cut (runes s) \<le> maxSectionCharacters"
proof -
  have sub: "set (take maxSectionCharacters (runes s)) \<subseteq> set (runes s)" by (rule set_take_subset)
  have "length (runes (rune_text (take maxSectionCharacters (runes s)))) \<le> maxSectionCharacters"
    by (subst runes_rune_text [OF sub]) simp
  then show ?thesis using line_end_runes
    by (auto simp: split_cut_def Let_def split: option.split intro: order_trans)
qed

lemma split_rest_spaced:
  "ValidString s \<Longrightarrow> spaced (split_rest s) s
     \<and> (\<forall>c \<in> set (split_rest s). c \<noteq> '''' \<and> length (runes c) \<le> maxSectionCharacters)"
proof (induction s rule: split_rest.induct)
  case (1 s)
  let ?rs = "runes s" let ?n = "split_cut ?rs"
  let ?front = "concat (take ?n ?rs)" and ?tail = "concat (drop ?n ?rs)"
  show ?case
  proof (cases "length ?rs \<le> maxSectionCharacters")
    case True
    then show ?thesis
      using spaced.spaced_Cons [OF blank_Nil spaced.spaced_Nil [OF blank_Nil], of s] spaced.spaced_Nil [OF blank_Nil]
      by (auto simp: split_rest.simps [of s])
  next
    case False
    have t: "rune_text (take ?n ?rs) = ?front" "rune_text (drop ?n ?rs) = ?tail"
      using valid_rune_text [OF 1(2)] set_take_subset set_drop_subset by metis+
    have s: "s = ?front @ ?tail" using concat_runes [of s] by (metis append_take_drop_id concat_append)
    have eq: "split_rest s = (if TrimSpace ?front = '''' then [] else [TrimSpace ?front]) @ split_rest (TrimSpace ?tail)"
      using False by (simp add: split_rest.simps [of s] Let_def t)
    have ih: "spaced (split_rest (TrimSpace ?tail)) (TrimSpace ?tail)"
      "\<forall>c \<in> set (split_rest (TrimSpace ?tail)). c \<noteq> '''' \<and> length (runes c) \<le> maxSectionCharacters"
      using 1(1) [OF refl False refl refl] valid_trimmed [OF valid_dropped [OF 1(2)]] unfolding t by blast+
    have rest: "spaced (split_rest (TrimSpace ?tail)) ?tail" using spaced_trimmed [OF ih(1)] .
    have sub: "set (take ?n ?rs) \<subseteq> set ?rs" by (rule set_take_subset)
    have "length (runes ?front) \<le> ?n" using runes_rune_text [OF sub] by (simp add: t)
    then have short: "length (runes (TrimSpace ?front)) \<le> maxSectionCharacters"
      using TrimSpace_runes_le [of ?front] split_cut_le [of s] by linarith
    have "spaced (split_rest s) (?front @ ?tail)"
    proof (cases "TrimSpace ?front = ''''")
      case True
      then show ?thesis using spaced_blank [OF rest blank_trimmed [OF True]] eq by simp
    next
      case False
      obtain a b where ab: "?front = a @ TrimSpace ?front @ b" "blank a" "blank b" using TrimSpace_blank by blast
      have "spaced (TrimSpace ?front # split_rest (TrimSpace ?tail)) (a @ TrimSpace ?front @ b @ ?tail)"
        by (rule spaced.spaced_Cons [OF ab(2) spaced_blank [OF rest ab(3)]])
      moreover have "?front @ ?tail = a @ TrimSpace ?front @ b @ ?tail" using arg_cong [OF ab(1), of "\<lambda>x. x @ ?tail"] by simp
      ultimately have "spaced (TrimSpace ?front # split_rest (TrimSpace ?tail)) (?front @ ?tail)" by (simp only:)
      then show ?thesis using False unfolding eq by simp
    qed
    moreover have "\<forall>c \<in> set (split_rest s). c \<noteq> '''' \<and> length (runes c) \<le> maxSectionCharacters"
      using ih(2) short by (auto simp: eq)
    ultimately show ?thesis using s by metis
  qed
qed

lemma split_spaced:
  assumes "splitMRKDWN t = Inr chunks" "ValidString t"
  shows "spaced chunks t \<and> (\<forall>c \<in> set chunks. length (runes c) \<le> maxSectionCharacters)"
proof (cases "length (runes t) \<le> maxSectionCharacters")
  case True
  then have "chunks = [t]" using assms(1) by (simp add: splitMRKDWN_def)
  then show ?thesis using True spaced.spaced_Cons [OF blank_Nil spaced.spaced_Nil [OF blank_Nil], of t] by simp
next
  case False
  then have "chunks = split_rest t" using assms(1) by (auto simp: splitMRKDWN_def split: if_splits)
  then show ?thesis using split_rest_spaced [OF assms(2)] by blast
qed

text \<open>
  C34. Splitting a valid text gives pieces of at most 3000 code points; what lies before, between and after them
  in the text is white space.
\<close>

theorem split_keeps_text:
  assumes "splitMRKDWN t = Inr chunks" "ValidString t"
  shows "spaced chunks t \<and> (\<forall>c \<in> set chunks. length (runes c) \<le> maxSectionCharacters)"
  by (rule split_spaced [OF assms])

lemma split_keeps_text_witness: "splitMRKDWN ''Hi all'' = Inr [''Hi all''] \<and> spaced [''Hi all''] ''Hi all''"
proof -
  have s: "splitMRKDWN ''Hi all'' = Inr [''Hi all'']" "ValidString ''Hi all''" by code_simp+
  then show ?thesis using split_keeps_text [OF s] by blast
qed

lemma spaced_infix: "spaced cs s \<Longrightarrow> c \<in> set cs \<Longrightarrow> \<exists>a b. s = a @ c @ b"
proof (induction rule: spaced.induct)
  case (spaced_Cons a cs s d)
  then consider "c = d" | a' b' where "s = a' @ c @ b'" by auto
  then show ?case
  proof cases
    case 2
    then show ?thesis by (intro exI [of _ "a @ d @ a'"] exI [of _ b']) simp
  qed blast
qed simp

end
