(* ===== verification/RenderedMentions.thy ===== *)
theory RenderedMentions
  imports RendererProperties MrkdwnProperties
begin

text \<open>
  Which mentions a rendered message can contain.  \<open>mrkdwn_texts\<close> are the texts of a block that Slack interprets
  as mrkdwn, wherever they are in the block.
\<close>

section \<open>The mrkdwn texts of a block\<close>

fun mrkdwn_texts :: "json \<Rightarrow> string list" where
  "mrkdwn_texts (JArray vs) = concat (map mrkdwn_texts vs)"
| "mrkdwn_texts (JObject es) =
     (case (map_of es ''type'', map_of es ''text'') of (Some (JString k), Some (JString t)) \<Rightarrow> (if k = ''mrkdwn'' then [t] else []) | _ \<Rightarrow> [])
     @ concat (map (\<lambda>e. mrkdwn_texts (snd e)) es)"
| "mrkdwn_texts _ = []"

lemma mrkdwn_object_texts [simp]: "mrkdwn_texts (mrkdwn_object t) = [t]"
  by (simp add: mrkdwn_object_def)

lemma plain_object_texts [simp]: "mrkdwn_texts (plain_object t) = []"
  by (simp add: plain_object_def)

lemma unless_empty_texts [simp]:
  "concat (map (\<lambda>e. mrkdwn_texts (snd e)) (unless_empty t k v)) = (if t = '''' then [] else mrkdwn_texts v)"
  by (simp add: unless_empty_def)

lemma style_texts [simp]: "concat (map (\<lambda>e. mrkdwn_texts (snd e)) (map (\<lambda>n. (n, JBool True)) ns)) = []"
  by (induction ns) simp_all

lemma style_no_string [simp]: "map_of (map (\<lambda>n. (n, JBool True)) ns) k = Some (JString t) \<longleftrightarrow> False"
  by (induction ns) auto

lemma style_object_texts [simp]: "mrkdwn_texts (JObject (map (\<lambda>n. (n, JBool True)) ns)) = []"
  by (simp del: map_map split: option.split json.split)

lemma styled_texts:
  assumes "k \<noteq> ''mrkdwn''" "concat (map (\<lambda>e. mrkdwn_texts (snd e)) es) = []"
  shows "mrkdwn_texts (styled active ((''type'', JString k) # es)) = []"
  using assms by (simp add: styled_def split: option.split json.split)

section \<open>Rich text has none\<close>

definition plain_elements :: "RichText \<Rightarrow> bool" where
  "plain_elements r \<longleftrightarrow> list_all (\<lambda>e. mrkdwn_texts e = []) (rt_elements r)"

lemma plain_flush [simp]: "plain_elements r \<Longrightarrow> plain_elements (rich_flush r)"
  by (auto simp: plain_elements_def rich_flush_def styled_texts)

lemma plain_toggle [simp]: "plain_elements r \<Longrightarrow> plain_elements (rich_toggle name r)"
  using plain_flush [of r] by (simp add: plain_elements_def rich_toggle_def Let_def)

lemma plain_rich_elements: "plain_elements r \<Longrightarrow> plain_elements (rich_elements punct t i r)"
proof (induction punct t i r rule: rich_elements.induct)
  case (1 punct t i r)
  show ?case
  proof (cases "length t \<le> i")
    case True
    then show ?thesis using 1(5) by (simp add: rich_elements.simps [of punct t i r])
  next
    case False
    let ?link = "if ''code'' \<in> set (rt_active r) \<or> t ! i \<noteq> CHR ''<'' then None else link_at (drop i t)"
    show ?thesis
    proof (cases ?link)
      case (Some x)
      obtain n target label where x: "x = (n, target, label)" by (cases x)
      have "plain_elements ((rich_flush r)\<lparr>rt_elements := rt_elements (rich_flush r)
          @ [styled (rt_active (rich_flush r)) [(''type'', JString ''link''), (''url'', JString target), (''text'', JString label)]]\<rparr>)"
        using plain_flush [OF 1(5)] by (simp add: plain_elements_def styled_texts)
      then show ?thesis
        using 1(4) [OF False Some x [symmetric] refl refl] False Some x by (simp add: rich_elements.simps [of punct t i r] Let_def)
    next
      case None
      show ?thesis
      proof (cases "map_of style_names (t ! i)")
        case (Some name)
        have "plain_elements (r\<lparr>rt_buffer := rt_buffer r @ [t ! i]\<rparr>)" using 1(5) by (simp add: plain_elements_def)
        then show ?thesis
          using 1(2) [OF False None Some] 1(3) [OF False None Some] plain_toggle [OF 1(5)] False None Some
          by (simp add: rich_elements.simps [of punct t i r])
      next
        case name: None
        have "plain_elements (r\<lparr>rt_buffer := rt_buffer r @ rune_string (first_rune (drop i t))\<rparr>)"
          using 1(5) by (simp add: plain_elements_def)
        then show ?thesis
          using 1(1) [OF False None name refl] False None name by (simp add: rich_elements.simps [of punct t i r] Let_def)
      qed
    qed
  qed
qed

lemma rich_cell_texts [simp]: "mrkdwn_texts (renderRichTextCell punct t) = []"
proof -
  have "plain_elements (rich_elements punct t 0 \<lparr>rt_active = [], rt_buffer = '''', rt_elements = []\<rparr>)"
    by (rule plain_rich_elements) (simp add: plain_elements_def)
  then show ?thesis
    by (auto simp: renderRichTextCell_def renderRichTextElements_def Let_def plain_elements_def list_all_iff)
qed

section \<open>Tables have none\<close>

lemma cell_texts: "render_cell p c = Inr j \<Longrightarrow> mrkdwn_texts j = []"
  by (auto simp: render_cell_def split: if_splits sum.splits)

lemma each_texts:
  assumes "each f xs = Inr js" "\<And>x j. f x = Inr j \<Longrightarrow> mrkdwn_texts j = []"
  shows "concat (map mrkdwn_texts js) = []"
proof -
  have "mrkdwn_texts (js ! i) = []" if "i < length js" for i
    using assms(1) that by (intro assms(2) [of "xs ! i"]) (simp add: each_Inr_iff list_all2_conv_all_nth)
  then show ?thesis by (auto simp: in_set_conv_nth)
qed

lemma row_texts: "renderRow p cells = Inr j \<Longrightarrow> mrkdwn_texts j = []"
proof -
  assume "renderRow p cells = Inr j"
  then obtain js where js: "each (render_cell p) cells = Inr js" "j = JArray js" by (auto simp: renderRow_def split: sum.splits)
  then show ?thesis using each_texts [OF js(1) cell_texts] by simp
qed

lemma header_texts [simp]: "mrkdwn_texts (renderHeader columns) = []"
  by (simp add: renderHeader_def)

lemma settings_texts: "column_setting p c = Inr j \<Longrightarrow> mrkdwn_texts j = []"
  by (auto simp: column_setting_def unless_empty_def split: if_splits)

lemma part_texts: "table_part p columns part b \<Longrightarrow> mrkdwn_texts b = []"
proof -
  assume "table_part p columns part b"
  then obtain settings js where s: "each (column_setting p) columns = Inr settings" and j: "each (renderRow p) part = Inr js"
    and b: "b = table_block settings columns js"
    by (auto simp: table_part_def)
  have "concat (map mrkdwn_texts settings) = []" by (rule each_texts [OF s settings_texts])
  moreover have "concat (map mrkdwn_texts js) = []" by (rule each_texts [OF j row_texts])
  ultimately show ?thesis by (simp add: b table_block_def)
qed

lemma data_row_texts:
  assumes "data_table_rows p header rows = Inr js" shows "concat (map mrkdwn_texts js) = []"
  using assms unfolding data_table_rows_def
  by (rule each_texts) (auto simp: Let_def split: if_splits dest: row_texts)

lemma data_table_texts: "renderDataTable p table = Inr bs \<Longrightarrow> b \<in> set bs \<Longrightarrow> mrkdwn_texts b = []"
  by (auto simp: renderDataTable_def Let_def json_int_def split: if_splits sum.splits dest!: data_row_texts)

lemma tables_texts:
  assumes "renderTables p table = Inr bs" "b \<in> set bs"
  shows "mrkdwn_texts b = []"
proof (cases "table_Caption table = ''''")
  case True
  then have "table_parts p (table_Columns table) 0 (table_Rows table) = Inr bs"
    using assms(1) by (auto simp: renderTables_def split: sum.splits if_splits)
  then obtain parts where "list_all2 (table_part p (table_Columns table)) parts bs" using table_parts_split by blast
  then show ?thesis using assms(2) part_texts by (metis in_set_conv_nth list_all2_conv_all_nth)
next
  case False
  then have "renderDataTable p table = Inr bs"
    using assms(1) by (auto simp: renderTables_def split: sum.splits if_splits)
  then show ?thesis using assms(2) by (rule data_table_texts)
qed

section \<open>Segments of the model\<close>

definition admits :: "SlackMentionAllowlist \<Rightarrow> string \<Rightarrow> bool" where
  "admits allowed t \<longleftrightarrow> (\<forall>pre m post. t = pre @ m @ post \<and> entity_text m \<longrightarrow> allowedSlackEntity m allowed)"

lemma admits_infix: "admits allowed (a @ t @ b) \<Longrightarrow> admits allowed t"
  unfolding admits_def by (metis append.assoc)

lemma admits_none: "admits no_mentions t \<Longrightarrow> admits allowed t"
  by (auto simp: admits_def no_mentions_def allowedSlackEntity_def)

lemma plain_none: "plain_ids no_mentions"
  by (simp add: plain_ids_def no_mentions_def)

lemma validated_admits: "validateMRKDWN ip t allowed = Inr () \<Longrightarrow> plain_ids allowed \<Longrightarrow> admits allowed t"
  unfolding admits_def using validated_entity by blast

lemma empty_admits: "admits allowed ''''"
  by (simp add: admits_def entity_text_def)

lemma chunk_admits:
  assumes "validateMRKDWN ip t allowed = Inr ()" "plain_ids allowed" "splitMRKDWN t = Inr chunks" "c \<in> set chunks"
  shows "admits allowed c"
proof -
  have "ValidString t" using assms(1) by (auto simp: validateMRKDWN_def split: if_splits)
  then have "spaced chunks t" using split_spaced [OF assms(3)] by blast
  then obtain a b where "t = a @ c @ b" using spaced_infix assms(4) by blast
  then show ?thesis using validated_admits [OF assms(1,2)] admits_infix by metis
qed

lemma card_block_texts: "validateCard p c = Inr () \<Longrightarrow> t \<in> set (mrkdwn_texts (card_block c i)) \<Longrightarrow> admits allowed t"
proof -
  assume v: "validateCard p c = Inr ()" and t: "t \<in> set (mrkdwn_texts (card_block c i))"
  have "t \<in> set (card_texts c)"
    using t by (auto simp: card_block_def card_texts_def renderCardImage_def unless_empty_def
        split: option.splits if_splits)
  moreover have "validate_card_text p t = Inr ()" if "t \<in> set (card_texts c)"
    using v that by (auto simp: validateCard_def first_error_Inr split: if_splits)
  ultimately have "t = '''' \<or> validateMRKDWN (rp_ip p) t no_mentions = Inr ()"
    by (auto simp: validate_card_text_def split: if_splits)
  then show ?thesis using validated_admits [OF _ plain_none] admits_none empty_admits by blast
qed

definition control_kinds :: "SlackSegmentKind list" where
  "control_kinds = [SlackSegmentApproval, SlackSegmentNotice]"

definition emits_admitted :: "SlackMentionAllowlist \<Rightarrow> emission list \<Rightarrow> bool" where
  "emits_admitted allowed es \<longleftrightarrow> (\<forall>e \<in> set es. \<forall>b \<in> set (emitted_blocks e). \<forall>t \<in> set (mrkdwn_texts b). admits allowed t)"

lemma mrkdwn_admitted:
  assumes "plain_ids allowed" "render_mrkdwn p allowed i seg = Inr es"
  shows "emits_admitted allowed es"
proof -
  obtain chunks where v: "validateMRKDWN (rp_ip p) (seg_Text seg) allowed = Inr ()" and s: "splitMRKDWN (seg_Text seg) = Inr chunks"
    and es: "es = map (\<lambda>c. EmitBlock (text_section c) (stripFormatting c)) chunks"
    using assms(2) by (auto simp: render_mrkdwn_def split: if_splits sum.splits)
  have "admits allowed c" if "c \<in> set chunks" for c
    by (rule chunk_admits [OF v assms(1) s that])
  then show ?thesis by (auto simp: es emits_admitted_def text_section_def)
qed

lemma context_admitted: "plain_ids allowed \<Longrightarrow> render_context p allowed i seg = Inr es \<Longrightarrow> emits_admitted allowed es"
  by (auto simp: render_context_def emits_admitted_def split: if_splits sum.splits intro: validated_admits)

lemma in_enumerate: "(k, x) \<in> set (enumerate n xs) \<Longrightarrow> x \<in> set xs"
  by (induction xs arbitrary: n) auto

lemma table_admitted:
  assumes "render_table p i seg = Inr es"
  shows "emits_admitted allowed es"
proof -
  let ?table = "the (seg_Table seg)"
  obtain tables where t: "renderTables p ?table = Inr tables"
    and es: "es = map (\<lambda>(k, b). EmitTable b (tableFallback ?table k (length tables))) (enumerate 0 tables)"
    using assms by (auto simp: render_table_def Let_def split: if_splits sum.splits)
  have "mrkdwn_texts b = []" if "(k, b) \<in> set (enumerate 0 tables)" for k b
    by (rule tables_texts [OF t in_enumerate [OF that]])
  then show ?thesis by (auto simp: es emits_admitted_def)
qed

lemma card_admitted: "render_card p i seg = Inr es \<Longrightarrow> emits_admitted allowed es"
  by (auto simp: render_card_def emits_admitted_def renderCard_def split: if_splits sum.splits intro: card_block_texts)

lemma carousel_admitted:
  assumes "render_carousel p i seg = Inr es"
  shows "emits_admitted allowed es"
proof -
  let ?items = "the (seg_Carousel seg)"
  let ?step = "\<lambda>(k, c). located (segment_at i @ '' card '' @ format_int (int k)) (renderCard p c '''')"
  obtain cs fallback where cs: "each ?step (enumerate 0 ?items) = Inr cs"
    and es: "es = [EmitBlock (JObject [(''type'', JString ''carousel''), (''block_id'', JString (''tos_tag_carousel_'' @ format_int (int i))),
                                         (''elements'', JArray (map fst cs))]) fallback]"
    using assms by (auto simp: render_carousel_def Let_def split: if_splits sum.splits)
  have "admits allowed t" if x: "x \<in> set cs" and t: "t \<in> set (mrkdwn_texts (fst x))" for x t
  proof -
    obtain k where k: "k < length cs" "x = cs ! k" using x by (auto simp: in_set_conv_nth)
    then have "?step (enumerate 0 ?items ! k) = Inr x" using cs by (simp add: each_Inr_iff list_all2_conv_all_nth)
    then obtain c where c: "renderCard p c '''' = Inr x" by (auto split: prod.splits)
    then show ?thesis using t by (auto simp: renderCard_def split: sum.splits intro: card_block_texts)
  qed
  then show ?thesis by (auto simp: es emits_admitted_def)
qed

lemma segment_admitted:
  assumes "render_segment p now allowed (i, seg) = Inr es" "plain_ids allowed" "seg_Kind seg \<notin> set control_kinds"
    "seg_Kind seg \<noteq> SlackSegmentArtifact"
  shows "emits_admitted allowed es"
proof (cases "seg_Kind seg")
  case SlackSegmentHeader
  then show ?thesis using assms by (auto simp: render_segment_def render_header_def emits_admitted_def split: if_splits)
next
  case SlackSegmentDivider
  then show ?thesis using assms by (auto simp: render_segment_def render_divider_def emits_admitted_def split: if_splits)
next
  case SlackSegmentImage
  then show ?thesis using assms
    by (auto simp: render_segment_def render_image_def emits_admitted_def image_block_def Let_def split: if_splits sum.splits)
qed (use assms in \<open>simp_all add: render_segment_def control_kinds_def mrkdwn_admitted context_admitted table_admitted
       card_admitted carousel_admitted\<close>)

section \<open>Artifact links\<close>

text \<open>A link whose URL has no \<^verbatim>\<open><\<close> holds no mention: what follows its only \<^verbatim>\<open><\<close> is the scheme.\<close>

lemma scheme_letter:
  assumes "scheme_from True '''' s = Some (Some (scheme, rest))"
  shows "\<exists>c s'. s = c # s' \<and> c \<notin> set ''@#!''"
  using assms by (cases s) (auto split: if_splits)

lemma https_first:
  assumes "https_url ip s"
  shows "\<exists>c s'. s = c # s' \<and> c \<notin> set ''@#!''"
proof -
  from assms obtain u where u: "url_Parse ip s = Some u" "u_Scheme u = ''https''" by (auto simp: https_url_def split: option.splits)
  obtain raw fragment where cut': "url_cut s ''#'' = (raw, fragment)" by (rule prod.exhaust)
  from u cut' obtain v where v: "url_parse ip raw = Some v" "u_Scheme v = ''https''"
    by (auto simp: url_Parse_def split: option.splits)
  then have "getScheme raw \<noteq> None \<and> (\<forall>rest. getScheme raw \<noteq> Some ('''', rest))"
    by (auto simp: url_parse_def Let_def split: if_splits option.splits prod.splits)
  then have "scheme_from True '''' raw \<noteq> None" "scheme_from True '''' raw \<noteq> Some None"
    by (auto simp: getScheme_def)
  then obtain scheme rest where "scheme_from True '''' raw = Some (Some (scheme, rest))" by fastforce
  from scheme_letter [OF this] obtain c raw' where "raw = c # raw'" "c \<notin> set ''@#!''" by blast
  with cut' show ?thesis by (cases s) (auto simp: url_cut_def take_Cons' split: option.splits if_splits)
qed

lemma escapeLabel_no_lt: "CHR ''<'' \<notin> set (escapeLabel label)"
  by (auto simp: escapeLabel_def)

lemma artifact_link_admits:
  assumes "https_url ip (art_URL a)" "CHR ''<'' \<notin> set (art_URL a)"
  shows "admits allowed (artifact_link a)"
proof -
  obtain c s where url: "art_URL a = c # s" "c \<notin> set ''@#!''" using https_first [OF assms(1)] by blast
  have "False" if m: "artifact_link a = pre @ m @ post" "entity_text m" for pre m post
  proof -
    obtain x b where x: "m = [CHR ''<'', x] @ b @ ''>''" "x \<in> set ''@#!''" using m(2) by (auto simp: entity_text_def)
    have rest: "CHR ''<'' \<notin> set (art_URL a @ ''|'' @ escapeLabel (art_Name a) @ ''>'')" using assms(2) escapeLabel_no_lt by simp
    show False
    proof (cases pre)
      case Nil
      then show False using m(1) x url by (simp add: artifact_link_def)
    next
      case (Cons y ys)
      then have "art_URL a @ ''|'' @ escapeLabel (art_Name a) @ ''>'' = ys @ m @ post" using m(1) by (simp add: artifact_link_def)
      then show False using rest x(1) by simp
    qed
  qed
  then show ?thesis by (auto simp: admits_def)
qed

text \<open>The link text of an artifact whose URL holds a \<^verbatim>\<open><\<close>.\<close>

definition broken_link :: "SlackSegment \<Rightarrow> string \<Rightarrow> bool" where
  "broken_link seg t \<longleftrightarrow>
     seg_Kind seg = SlackSegmentArtifact
     \<and> (case seg_Artifact seg of None \<Rightarrow> False | Some a \<Rightarrow> CHR ''<'' \<in> set (art_URL a) \<and> t = artifact_link a)"

lemma artifact_admitted:
  assumes "render_artifact p i seg = Inr es" "seg_Kind seg = SlackSegmentArtifact" "e \<in> set es"
    "b \<in> set (emitted_blocks e)" "t \<in> set (mrkdwn_texts b)"
  shows "admits allowed t \<or> broken_link seg t"
proof -
  obtain a where a: "seg_Artifact seg = Some a"
    using assms(1) by (cases "seg_Artifact seg") (auto simp: render_artifact_def carried_def split: if_splits)
  then have v: "validateArtifact p a = Inr ()" and t: "t = artifact_link a"
    using assms by (auto simp: render_artifact_def Let_def located_def split: if_splits sum.splits)
  from v have "https_url (rp_ip p) (art_URL a)" by (simp add: validateArtifact_def split: if_splits)
  from artifact_link_admits [OF this] show ?thesis using assms(2) a t by (auto simp: broken_link_def)
qed

text \<open>Messages rendered from segments that are neither approvals nor notices.\<close>

lemma rendered_mentions:
  assumes "Render p now result = Inr qs" "plain_ids (res_AllowedMentions result)" "res_AgentFooter result = None"
    "\<forall>seg \<in> set (res_Segments result). seg_Kind seg \<notin> set control_kinds"
    "b \<in> set (all_blocks qs)" "t \<in> set (mrkdwn_texts b)"
  shows "admits (res_AllowedMentions result) t \<or> (\<exists>seg \<in> set (res_Segments result). broken_link seg t)"
proof -
  let ?step = "render_segment p now (res_AllowedMentions result)"
  obtain emissions where e: "each ?step (enumerate 0 (res_Segments result)) = Inr emissions"
    and bs: "all_blocks qs = concat (map emitted_blocks (concat emissions))"
    using rendered_blocks [OF assms(1)] assms(3) by (auto simp: renderAgentFooter_def)
  obtain es x where es: "es \<in> set emissions" "x \<in> set es" "b \<in> set (emitted_blocks x)" using assms(5) bs by auto
  obtain k where k: "k < length emissions" "es = emissions ! k" using es(1) by (auto simp: in_set_conv_nth)
  have len: "length emissions = length (res_Segments result)" using each_length [OF e] by simp
  have "?step (enumerate 0 (res_Segments result) ! k) = Inr es"
    using e k by (simp add: each_Inr_iff list_all2_conv_all_nth)
  then have "?step (k, res_Segments result ! k) = Inr es" using k len by (simp add: nth_enumerate_eq)
  note step = this
  show ?thesis
  proof (cases "seg_Kind (res_Segments result ! k) = SlackSegmentArtifact")
    case True
    from step True have "render_artifact p k (res_Segments result ! k) = Inr es" by (simp add: render_segment_def)
    from artifact_admitted [OF this True es(2,3) assms(6)] k len show ?thesis by auto
  next
    case False
    have "emits_admitted (res_AllowedMentions result) es"
      by (rule segment_admitted [OF step]) (use assms(2,4) k len False in simp_all)
    then show ?thesis using es assms(6) by (auto simp: emits_admitted_def)
  qed
qed

end
