(* ===== verification/ModelOutput.thy ===== *)
theory ModelOutput
  imports Renderer
begin

text \<open>
  The boundary between a model's output and a typed result (\<^verbatim>\<open>core/deliveries/model_output.go\<close>): parsing,
  repairs of markup and tables, and promotion of pipe tables.

  \<^verbatim>\<open>json.Unmarshal\<close> into the three types tried is the parameter \<open>JSONDecoders\<close>: the segments of an object (the
  other fields of a result carry the tag \<^verbatim>\<open>json:"-"\<close>), the single segment of the older form, and a list of
  segments; \<open>None\<close> is an error.
\<close>

record LegacySegment =
  leg_Type :: SlackSegmentKind
  leg_Kind :: SlackSegmentKind
  leg_Text :: string
  leg_Table :: "SlackTable option"
  leg_Card :: "SlackCard option"
  leg_Carousel :: "SlackCard list option"
  leg_Image :: "SlackImage option"
  leg_Artifact :: "SlackArtifact option"
  leg_Notice :: "SlackNotice option"

record JSONDecoders =
  jd_result :: "string \<Rightarrow> SlackSegment list option"
  jd_legacy :: "string \<Rightarrow> LegacySegment option"
  jd_segments :: "string \<Rightarrow> SlackSegment list option"

section \<open>The JSON in an answer\<close>

definition json_like :: "string \<Rightarrow> bool" where
  "json_like s \<longleftrightarrow> HasPrefix s ''{'' \<or> HasPrefix s ''[''"

definition unwrapJSONFence :: "string \<Rightarrow> string" where
  "unwrapJSONFence raw =
     (let trimmed = TrimSpace raw
      in if \<not> HasPrefix trimmed fence then trimmed
         else
           let prefix = (if HasPrefix trimmed (fence @ ''json'') then fence @ ''json'' else fence)
           in if \<not> HasSuffix trimmed fence \<or> length trimmed = length prefix then trimmed
              else let inner = TrimSpace (TrimSuffix (TrimPrefix trimmed prefix) fence)
                   in if json_like inner then inner else trimmed)"

section \<open>Bold and links\<close>

definition normalizeSlackBold :: "string \<Rightarrow> string" where
  "normalizeSlackBold t = mapOutsideCode t (\<lambda>fragment. ReplaceAll fragment ''**'' ''*'')"

definition map_cells :: "(SlackTableCell \<Rightarrow> SlackTableCell) \<Rightarrow> SlackSegment \<Rightarrow> SlackSegment" where
  "map_cells f seg = seg\<lparr>seg_Table := map_option (\<lambda>t. t\<lparr>table_Rows := map (map f) (table_Rows t)\<rparr>) (seg_Table seg)\<rparr>"

definition bold_segment :: "SlackSegment \<Rightarrow> SlackSegment" where
  "bold_segment seg =
     (case seg_Kind seg of
        SlackSegmentMRKDWN \<Rightarrow> seg\<lparr>seg_Text := normalizeSlackBold (seg_Text seg)\<rparr>
      | SlackSegmentContext \<Rightarrow> seg\<lparr>seg_Text := normalizeSlackBold (seg_Text seg)\<rparr>
      | SlackSegmentTable \<Rightarrow>
          map_cells (\<lambda>c. if cell_Type c = ''rich_text'' then c\<lparr>cell_Text := normalizeSlackBold (cell_Text c)\<rparr> else c) seg
      | _ \<Rightarrow> seg)"

definition normalizeModelSlackMarkdown :: "SlackSegment list \<Rightarrow> SlackSegment list" where
  "normalizeModelSlackMarkdown segs = map bold_segment segs"

definition gfm_link :: "RenderPorts \<Rightarrow> string \<Rightarrow> string" where
  "gfm_link p candidate =
     (case gfm_link_parts candidate of (label0, target) \<Rightarrow>
        let label = TrimSpace label0
        in case url_Parse (rp_ip p) (TrimSpace target) of
             Some u \<Rightarrow>
               if (u_Scheme u = ''https'' \<or> u_Scheme u = ''http'') \<and> u_Host u \<noteq> ''''
               then ''<'' @ url_String u @ ''|'' @ escapeLabel label @ ''>'' else label
           | None \<Rightarrow> label)"

definition normalize_gfm :: "RenderPorts \<Rightarrow> string \<Rightarrow> string" where
  "normalize_gfm p t = mapOutsideCode t (\<lambda>fragment. ReplaceAllStringFunc gfmLinkPattern fragment (gfm_link p))"

definition slack_link :: "RenderPorts \<Rightarrow> string \<Rightarrow> string" where
  "slack_link p candidate =
     (case slack_link_parts candidate of (target, label) \<Rightarrow>
        if web_url (rp_ip p) target then candidate
        else if TrimSpace label \<noteq> '''' then TrimSpace label
        else TrimSpace target)"

definition normalize_links :: "RenderPorts \<Rightarrow> string \<Rightarrow> string" where
  "normalize_links p t = ReplaceAllStringFunc slackLinkPattern (normalize_gfm p t) (slack_link p)"

definition link_card :: "RenderPorts \<Rightarrow> SlackCard \<Rightarrow> SlackCard" where
  "link_card p c =
     c\<lparr>card_Title := normalize_links p (card_Title c), card_Subtitle := normalize_links p (card_Subtitle c),
        card_Body := normalize_links p (card_Body c), card_Subtext := normalize_links p (card_Subtext c)\<rparr>"

definition link_segment :: "RenderPorts \<Rightarrow> SlackSegment \<Rightarrow> SlackSegment" where
  "link_segment p seg =
     (map_cells (\<lambda>c. c\<lparr>cell_Text := normalize_links p (cell_Text c)\<rparr>) seg)
       \<lparr>seg_Text := normalize_links p (seg_Text seg), seg_Card := map_option (link_card p) (seg_Card seg),
        seg_Carousel := map_option (map (link_card p)) (seg_Carousel seg)\<rparr>"

definition normalizeModelSlackLinks :: "RenderPorts \<Rightarrow> SlackSegment list \<Rightarrow> SlackSegment list" where
  "normalizeModelSlackLinks p segs = map (link_segment p) segs"

section \<open>Rows of the declared width\<close>

definition zero_cell :: SlackTableCell where "zero_cell = \<lparr>cell_Type = '''', cell_Text = '''', cell_Number = 0\<rparr>"

definition middle_dot :: string where "middle_dot = '' '' @ [CHR 0xC2, CHR 0xB7] @ '' ''"

definition fold_cell :: "SlackTableCell \<Rightarrow> SlackTableCell \<Rightarrow> SlackTableCell" where
  "fold_cell extra kept =
     (if cell_Text extra = '''' then kept
      else kept\<lparr>cell_Text := cell_Text kept @ (if cell_Text kept = '''' then '''' else middle_dot) @ cell_Text extra\<rparr>)"

definition fit_row :: "nat \<Rightarrow> SlackTableCell list \<Rightarrow> SlackTableCell list" where
  "fit_row n row =
     (if length row < n then row @ replicate (n - length row) zero_cell
      else if n < length row then take (n - 1) row @ [fold fold_cell (drop n row) (row ! (n - 1))]
      else row)"

definition fit_segment :: "SlackSegment \<Rightarrow> SlackSegment" where
  "fit_segment seg =
     (case seg_Table seg of
        Some t \<Rightarrow>
          if seg_Kind seg = SlackSegmentTable \<and> table_Columns t \<noteq> []
          then seg\<lparr>seg_Table := Some (t\<lparr>table_Rows := map (fit_row (length (table_Columns t))) (table_Rows t)\<rparr>)\<rparr> else seg
      | None \<Rightarrow> seg)"

definition normalizeModelTableRows :: "SlackSegment list \<Rightarrow> SlackSegment list" where
  "normalizeModelTableRows segs = map fit_segment segs"

section \<open>Pipe tables\<close>

definition backslash :: string where "backslash = [CHR 0x5C]"

fun md_cells :: "bool \<Rightarrow> string \<Rightarrow> string list \<Rightarrow> string list" where
  "md_cells escaped held [] = [TrimSpace (held @ (if escaped then backslash else ''''))]"
| "md_cells escaped held (r # rs) =
     (if escaped then md_cells False (held @ (if r = ''|'' then '''' else backslash) @ rune_string r) rs
      else if r = backslash then md_cells True held rs
      else if r = ''|'' then TrimSpace held # md_cells False '''' rs
      else md_cells False (held @ rune_string r) rs)"

definition splitMarkdownTableRow :: "string \<Rightarrow> string list option" where
  "splitMarkdownTableRow line =
     (let trimmed = TrimSpace line
      in if trimmed = '''' \<or> \<not> Contains trimmed ''|'' then None
         else
           let cells0 = md_cells False '''' (runes trimmed);
               cells1 = (if HasPrefix trimmed ''|'' \<and> cells0 \<noteq> [] \<and> hd cells0 = '''' then tl cells0 else cells0);
               cells2 = (if HasSuffix trimmed ''|'' \<and> cells1 \<noteq> [] \<and> last cells1 = '''' then butlast cells1 else cells1)
           in if 2 \<le> length cells2 then Some cells2 else None)"

definition cell_alignment :: "string \<Rightarrow> string option" where
  "cell_alignment c =
     (let trimmed = TrimSpace c; core = Trim trimmed '':''
      in if length core < 3 \<or> Trim core ''-'' \<noteq> '''' then None
         else if HasPrefix trimmed '':'' \<and> HasSuffix trimmed '':'' then Some ''center''
         else if HasSuffix trimmed '':'' then Some ''right''
         else Some ''left'')"

definition markdownTableAlignments :: "string \<Rightarrow> nat \<Rightarrow> string list option" where
  "markdownTableAlignments line columns =
     (case splitMarkdownTableRow line of
        None \<Rightarrow> None
      | Some cells \<Rightarrow>
          if length cells \<noteq> columns \<or> list_ex (\<lambda>c. cell_alignment c = None) cells then None
          else Some (map (\<lambda>c. the (cell_alignment c)) cells))"

definition promoted_cell :: "string \<Rightarrow> SlackTableCell" where
  "promoted_cell c = \<lparr>cell_Type = ''raw_text'', cell_Text = stripFormatting c, cell_Number = 0\<rparr>"

fun promoted_rows :: "nat \<Rightarrow> string list \<Rightarrow> SlackTableCell list list" where
  "promoted_rows n [] = []"
| "promoted_rows n (line # rest) =
     (case splitMarkdownTableRow line of
        None \<Rightarrow> []
      | Some cells \<Rightarrow> if length cells \<noteq> n then [] else map promoted_cell cells # promoted_rows n rest)"

definition promoted_table :: "string list \<Rightarrow> string list \<Rightarrow> SlackTableCell list list \<Rightarrow> SlackSegment" where
  "promoted_table headers alignments rows =
     zero_SlackSegment
       \<lparr>seg_Kind := SlackSegmentTable,
        seg_Table := Some \<lparr>table_Columns = map2 (\<lambda>h a. \<lparr>col_Header = stripFormatting h, col_Align = a, col_Wrapped = True\<rparr>) headers alignments,
                          table_Rows = rows, table_Caption = '''', table_PageSize = 0, table_RowHeaderColumnIndex = 0\<rparr>\<rparr>"

definition text_segment :: "string \<Rightarrow> SlackSegment" where
  "text_segment t = zero_SlackSegment\<lparr>seg_Kind := SlackSegmentMRKDWN, seg_Text := t\<rparr>"

definition flush_text :: "string list \<Rightarrow> nat \<Rightarrow> nat \<Rightarrow> SlackSegment list" where
  "flush_text lines start stop =
     (let t = TrimSpace (Join (take (stop - start) (drop start lines)) newline) in if t = '''' then [] else [text_segment t])"

text \<open>A table that starts at a line: its headers, alignments and rows.\<close>

definition table_at :: "string list \<Rightarrow> nat \<Rightarrow> (string list \<times> string list \<times> SlackTableCell list list) option" where
  "table_at lines i =
     (case splitMarkdownTableRow (lines ! i) of
        None \<Rightarrow> None
      | Some headers \<Rightarrow>
          (case markdownTableAlignments (lines ! (i + 1)) (length headers) of
             None \<Rightarrow> None
           | Some alignments \<Rightarrow>
               let rows = promoted_rows (length headers) (drop (i + 2) lines)
               in if rows = [] then None else Some (headers, alignments, rows)))"

function promote_from :: "string list \<Rightarrow> nat \<Rightarrow> nat \<Rightarrow> bool \<Rightarrow> SlackSegment list" where
  "promote_from lines start i inFence =
     (if length lines \<le> i + 1 then flush_text lines start (length lines)
      else if HasPrefix (TrimSpace (lines ! i)) fence then promote_from lines start (i + 1) (\<not> inFence)
      else if inFence then promote_from lines start (i + 1) inFence
      else case table_at lines i of
             None \<Rightarrow> promote_from lines start (i + 1) inFence
           | Some (headers, alignments, rows) \<Rightarrow>
               let stop = i + 2 + length rows
               in flush_text lines start i @ [promoted_table headers alignments rows] @ promote_from lines stop stop inFence)"
  by pat_completeness auto
termination
  by (relation "measure (\<lambda>(lines, start, i, inFence). length lines - i)") auto

declare promote_from.simps [simp del]

definition promoteMarkdownTableSegment :: "SlackSegment \<Rightarrow> SlackSegment list" where
  "promoteMarkdownTableSegment seg =
     (let segs = promote_from (Split (seg_Text seg) newline) 0 0 False in if segs = [] then [seg] else segs)"

definition promoteMarkdownTables :: "SlackSegment list \<Rightarrow> SlackSegment list" where
  "promoteMarkdownTables segs =
     concat (map (\<lambda>seg. if seg_Kind seg \<noteq> SlackSegmentMRKDWN \<or> \<not> Contains (seg_Text seg) ''|'' then [seg]
                        else promoteMarkdownTableSegment seg) segs)"

section \<open>Parsing (ParseModelOutput)\<close>

definition modelSegmentsAllowed :: "SlackSegment list \<Rightarrow> bool" where
  "modelSegmentsAllowed segs \<longleftrightarrow>
     list_all (\<lambda>s. seg_Kind s \<noteq> SlackSegmentApproval \<and> seg_Approval s = None \<and> seg_Kind s \<noteq> SlackSegmentNotice \<and> seg_Notice s = None) segs"

definition normalizeModelSlackResult :: "RenderPorts \<Rightarrow> SlackSegment list \<Rightarrow> SlackSegment list" where
  "normalizeModelSlackResult p segs =
     promoteMarkdownTables (normalizeModelTableRows (normalizeModelSlackLinks p (normalizeModelSlackMarkdown segs)))"

definition model_result :: "SlackSegment list \<Rightarrow> SlackResult" where
  "model_result segs = zero_SlackResult\<lparr>res_Segments := segs\<rparr>"

definition legacy_kind :: "LegacySegment \<Rightarrow> SlackSegmentKind" where
  "legacy_kind l = (if leg_Kind l = SlackSegmentOther '''' then leg_Type l else leg_Kind l)"

definition legacy_allowed :: "LegacySegment \<Rightarrow> bool" where
  "legacy_allowed l \<longleftrightarrow>
     legacy_kind l \<notin> {SlackSegmentOther '''', SlackSegmentApproval, SlackSegmentNotice} \<and> leg_Notice l = None"

definition legacy_segment :: "LegacySegment \<Rightarrow> SlackSegment" where
  "legacy_segment l =
     \<lparr>seg_Kind = legacy_kind l, seg_Text = leg_Text l, seg_Table = leg_Table l, seg_Card = leg_Card l,
      seg_Carousel = leg_Carousel l, seg_Image = leg_Image l, seg_Artifact = leg_Artifact l, seg_Approval = None,
      seg_Notice = None\<rparr>"

definition segments_marker :: string where
  "segments_marker = ''{'' @ [CHR 0x22] @ ''segments'' @ [CHR 0x22]"

definition model_json :: "string \<Rightarrow> string" where
  "model_json raw =
     (let r = unwrapJSONFence raw
      in case Index r segments_marker of
           Some i \<Rightarrow> (if 0 < i then TrimSpace (drop i r) else r)
         | None \<Rightarrow> r)"

definition privileged_error :: message where
  "privileged_error = ''model output cannot emit privileged Slack segments''"

text \<open>The three forms, in the order they are tried; \<open>None\<close> when the form does not apply.\<close>

definition parse_object :: "RenderPorts \<Rightarrow> JSONDecoders \<Rightarrow> string \<Rightarrow> (message + SlackSegment list) option" where
  "parse_object p d raw =
     (case jd_result d raw of
        Some (s # segs) \<Rightarrow>
          Some (if modelSegmentsAllowed (s # segs) then Inr (normalizeModelSlackResult p (s # segs)) else Inl privileged_error)
      | _ \<Rightarrow> None)"

definition parse_legacy :: "RenderPorts \<Rightarrow> JSONDecoders \<Rightarrow> string \<Rightarrow> (message + SlackSegment list) option" where
  "parse_legacy p d raw =
     (case jd_legacy d raw of
        Some l \<Rightarrow> if legacy_allowed l then Some (Inr (normalizeModelSlackResult p [legacy_segment l])) else None
      | None \<Rightarrow> None)"

definition parse_list :: "RenderPorts \<Rightarrow> JSONDecoders \<Rightarrow> string \<Rightarrow> (message + SlackSegment list) option" where
  "parse_list p d raw =
     (case jd_segments d raw of
        Some (s # segs) \<Rightarrow>
          Some (if modelSegmentsAllowed (s # segs) then Inr (normalizeModelSlackResult p (s # segs)) else Inl privileged_error)
      | _ \<Rightarrow> None)"

definition SlackOutputContractVersion :: string where "SlackOutputContractVersion = ''slack-output/v3''"

fun first_some :: "'a option list \<Rightarrow> 'a \<Rightarrow> 'a" where
  "first_some [] d = d"
| "first_some (x # xs) d = (case x of Some y \<Rightarrow> y | None \<Rightarrow> first_some xs d)"

definition parse_segments :: "RenderPorts \<Rightarrow> JSONDecoders \<Rightarrow> string \<Rightarrow> message + SlackSegment list" where
  "parse_segments p d raw =
     (if \<not> json_like raw then Inr (promoteMarkdownTables (normalizeModelSlackMarkdown [text_segment raw]))
      else first_some ((if HasPrefix raw ''{'' then [parse_object p d raw, parse_legacy p d raw] else []) @ [parse_list p d raw])
             (Inl (''model output violates '' @ SlackOutputContractVersion)))"

definition ParseModelOutput :: "RenderPorts \<Rightarrow> JSONDecoders \<Rightarrow> string \<Rightarrow> message + SlackResult" where
  "ParseModelOutput p d output =
     (if TrimSpace output = '''' then Inl ''empty model output''
      else case parse_segments p d (model_json (TrimSpace output)) of
             Inl e \<Rightarrow> Inl e
           | Inr segs \<Rightarrow> Inr (model_result segs))"

end
