(* ===== verification/Publication.thy ===== *)
theory Publication
  imports Renderer
begin

text \<open>
  What the pipeline does to a parsed result before it is rendered (\<^verbatim>\<open>core/deliveries/renderer.go\<close>): links for the
  wiki references a tool resolved, provenance of artifact links, and the short summary that stands for a published
  document.  The URLs a worker's tools produced are the list of the keys of the map, in any order.
\<close>

section \<open>Provenance of artifacts\<close>

definition claims_artifact :: "SlackSegment \<Rightarrow> SlackArtifact option" where
  "claims_artifact seg = (if seg_Kind seg = SlackSegmentArtifact then seg_Artifact seg else None)"

definition unproven :: "string list \<Rightarrow> SlackSegment \<Rightarrow> bool" where
  "unproven produced seg \<longleftrightarrow> (case claims_artifact seg of None \<Rightarrow> False | Some a \<Rightarrow> art_URL a \<notin> set produced)"

definition ValidateArtifactProvenance :: "SlackResult \<Rightarrow> string list \<Rightarrow> message + unit" where
  "ValidateArtifactProvenance result produced =
     (case find (\<lambda>(i, seg). unproven produced seg) (enumerate 0 (res_Segments result)) of
        Some (i, seg) \<Rightarrow> Inl (segment_error i '' artifact URL lacks successful tool provenance'')
      | None \<Rightarrow> Inr ())"

section \<open>The summary of a published document\<close>

definition maxArtifactSynopsis :: nat where "maxArtifactSynopsis = 600"

definition rx_blank_line :: regex where
  "rx_blank_line = rx_seq [RxLit newline, RxStar rx_space, RxLit newline]"

definition first_paragraph :: "string \<Rightarrow> string" where
  "first_paragraph t =
     (case rx_find rx_blank_line ([], t) of
        None \<Rightarrow> t
      | Some (a, b) \<Rightarrow> take (length t - length (snd a)) t)"

definition sentence_end :: "string list \<Rightarrow> nat \<Rightarrow> bool" where
  "sentence_end rs i \<longleftrightarrow> rs ! i \<in> {''.'', ''!'', ''?''} \<and> (i + 1 < length rs \<longrightarrow> rune_space (rs ! (i + 1)))"

text \<open>Where the second sentence ends, or the whole text.\<close>

definition two_sentences :: "string list \<Rightarrow> nat" where
  "two_sentences rs =
     (case filter (sentence_end rs) [0..<length rs] of _ # second # _ \<Rightarrow> second + 1 | _ \<Rightarrow> length rs)"

fun back_to_space :: "string list \<Rightarrow> nat \<Rightarrow> nat" where
  "back_to_space rs 0 = 0"
| "back_to_space rs (Suc n) = (if rune_space (rs ! n) then Suc n else back_to_space rs n)"

definition synopsis_cut :: "string list \<Rightarrow> nat" where
  "synopsis_cut rs = (let n = back_to_space rs maxArtifactSynopsis in if n = 0 then maxArtifactSynopsis else n)"

definition compactPublishedArtifactSynopsis :: "string \<Rightarrow> string" where
  "compactPublishedArtifactSynopsis t =
     (let trimmed = TrimSpace t
      in if trimmed = '''' then ''''
         else
           let rs = runes (Join (Fields (first_paragraph trimmed)) '' ''); kept = take (two_sentences rs) rs
           in if maxArtifactSynopsis < length kept
              then TrimSpace (TrimSpace (rune_text (take (synopsis_cut kept) kept)) @ ellipsis)
              else TrimSpace (rune_text kept))"

definition rx_published_link :: "string \<Rightarrow> regex" where
  "rx_published_link url =
     rx_seq [RxLit (''<'' @ url), rx_opt (RxSeq (RxLit ''|'') (RxStar (rx_not_in ''>''))), RxLit ''>'']"

definition strip_url :: "string \<Rightarrow> string \<Rightarrow> string" where
  "strip_url url t = ReplaceAll (ReplaceAllString (rx_published_link url) t '''') url ''''"

fun compact_lines :: "bool \<Rightarrow> string list \<Rightarrow> string list" where
  "compact_lines previousBlank [] = []"
| "compact_lines previousBlank (line # rest) =
     (let is_blank = (TrimSpace line = '''')
      in if is_blank \<and> previousBlank then compact_lines previousBlank rest
         else TrimRight line [CHR 0x20, CHR 0x09] # compact_lines is_blank rest)"

definition stripPublishedArtifactLinks :: "string \<Rightarrow> string list \<Rightarrow> string" where
  "stripPublishedArtifactLinks t urls =
     TrimSpace (Join (compact_lines False (Split (fold strip_url urls t) newline)) newline)"

definition published_name :: string where "published_name = ''Open the published document''"

definition artifact_segment :: "SlackArtifact \<Rightarrow> SlackSegment" where
  "artifact_segment a = zero_SlackSegment\<lparr>seg_Kind := SlackSegmentArtifact, seg_Artifact := Some a\<rparr>"

text \<open>The last artifact of the result with a URL, or a standard one.\<close>

definition published_artifact :: "SlackSegment list \<Rightarrow> string \<Rightarrow> SlackArtifact" where
  "published_artifact segs url =
     (case find (\<lambda>a. art_URL a = url) (rev (List.map_filter claims_artifact segs)) of
        Some a \<Rightarrow> a
      | None \<Rightarrow> \<lparr>art_Name = published_name, art_MediaType = ''text/html'', art_URL = url\<rparr>)"

definition summary_synopsis :: "string list \<Rightarrow> SlackSegment \<Rightarrow> SlackSegment list" where
  "summary_synopsis urls seg =
     (let t = compactPublishedArtifactSynopsis (stripPublishedArtifactLinks (seg_Text seg) urls)
      in if t = '''' then [] else [seg\<lparr>seg_Text := t\<rparr>])"

definition first_of_kind :: "SlackSegmentKind \<Rightarrow> SlackSegment list \<Rightarrow> SlackSegment list" where
  "first_of_kind k segs = take 1 (filter (\<lambda>s. seg_Kind s = k) segs)"

definition CompactPublishedArtifactSummary :: "SlackResult \<Rightarrow> string list \<Rightarrow> SlackResult" where
  "CompactPublishedArtifactSummary result produced =
     (if produced = [] then result
      else let urls = sort produced; segs = res_Segments result
           in result\<lparr>res_Segments :=
                first_of_kind SlackSegmentHeader segs
                @ concat (map (summary_synopsis urls) (first_of_kind SlackSegmentMRKDWN segs))
                @ map (\<lambda>url. artifact_segment (published_artifact segs url)) urls\<rparr>)"

section \<open>Wiki references\<close>

definition rx_slug_letter :: regex where
  "rx_slug_letter =
     RxRune (\<lambda>r. case r of
         [c] \<Rightarrow> (CHR ''A'' \<le> c \<and> c \<le> CHR ''Z'') \<or> (CHR ''a'' \<le> c \<and> c \<le> CHR ''z'')
       | _ \<Rightarrow> r = [CHR 0xC5, CHR 0xBF] \<or> r = [CHR 0xE2, CHR 0x84, CHR 0xAA])"

definition rx_slug_alnum :: regex where "rx_slug_alnum = RxAlt rx_slug_letter (rx_range CHR ''0'' CHR ''9'')"

definition wikiSlugTokenPattern :: regex where
  "wikiSlugTokenPattern =
     rx_seq [rx_opt (RxLit backquote), rx_slug_letter, RxAlt rx_slug_alnum (RxLit ''-''), RxRep 62 (RxAlt rx_slug_alnum (RxLit ''-'')),
       RxLit ''/'', rx_slug_alnum, rx_opt (RxSeq (RxStar (RxAlt rx_slug_alnum (rx_in ''._/-''))) rx_slug_alnum), rx_opt (RxLit backquote)]"

definition before_index :: "nat option \<Rightarrow> nat option \<Rightarrow> bool" where
  "before_index a b \<longleftrightarrow> (case b of None \<Rightarrow> False | Some m \<Rightarrow> (case a of None \<Rightarrow> True | Some n \<Rightarrow> n < m))"

definition insideSlackLink :: "string \<Rightarrow> bool" where
  "insideSlackLink ahead \<longleftrightarrow> before_index (LastIndex ahead ''>'') (LastIndex ahead ''<'')"

definition wiki_token :: "RenderPorts \<Rightarrow> (string \<times> string) list \<Rightarrow> bool \<Rightarrow> string \<Rightarrow> string \<Rightarrow> string" where
  "wiki_token p resolved slackLink ahead token =
     (case map_of resolved (rp_sha p (lower_text p (Trim token backquote))) of
        None \<Rightarrow> token
      | Some url \<Rightarrow>
          if insideSlackLink ahead then token
          else if slackLink then ''<'' @ url @ ''|Agent Wiki source>''
          else url)"

fun wiki_pieces :: "RenderPorts \<Rightarrow> (string \<times> string) list \<Rightarrow> bool \<Rightarrow> string \<Rightarrow> (string \<times> string) list \<Rightarrow> string" where
  "wiki_pieces p resolved slackLink seen [] = ''''"
| "wiki_pieces p resolved slackLink seen ((ahead, token) # rest) =
     ahead @ wiki_token p resolved slackLink (seen @ ahead) token @ wiki_pieces p resolved slackLink (seen @ ahead @ token) rest"

definition resolveWikiReferenceText :: "RenderPorts \<Rightarrow> string \<Rightarrow> (string \<times> string) list \<Rightarrow> bool \<Rightarrow> string" where
  "resolveWikiReferenceText p t resolved slackLink =
     (case rx_pieces wikiSlugTokenPattern ([], t) of (ps, rest) \<Rightarrow> wiki_pieces p resolved slackLink '''' ps @ rest)"

definition resolveCardWikiReferences :: "RenderPorts \<Rightarrow> (string \<times> string) list \<Rightarrow> SlackCard \<Rightarrow> SlackCard" where
  "resolveCardWikiReferences p resolved c =
     (let f = (\<lambda>t. resolveWikiReferenceText p t resolved True)
      in c\<lparr>card_Title := f (card_Title c), card_Subtitle := f (card_Subtitle c), card_Body := f (card_Body c),
           card_Subtext := f (card_Subtext c)\<rparr>)"

definition resolve_segment :: "RenderPorts \<Rightarrow> (string \<times> string) list \<Rightarrow> SlackSegment \<Rightarrow> SlackSegment" where
  "resolve_segment p resolved seg =
     seg\<lparr>seg_Text := resolveWikiReferenceText p (seg_Text seg) resolved True,
         seg_Table := map_option (\<lambda>t. t\<lparr>table_Rows :=
             map (map (\<lambda>c. c\<lparr>cell_Text := resolveWikiReferenceText p (cell_Text c) resolved False\<rparr>)) (table_Rows t)\<rparr>) (seg_Table seg),
         seg_Card := map_option (resolveCardWikiReferences p resolved) (seg_Card seg),
         seg_Carousel := map_option (map (resolveCardWikiReferences p resolved)) (seg_Carousel seg)\<rparr>"

definition ResolveWikiReferenceLinks :: "RenderPorts \<Rightarrow> SlackResult \<Rightarrow> (string \<times> string) list \<Rightarrow> SlackResult" where
  "ResolveWikiReferenceLinks p result resolved =
     (if resolved = [] then result else result\<lparr>res_Segments := map (resolve_segment p resolved) (res_Segments result)\<rparr>)"

end
