(* ===== verification/OutputProperties.thy ===== *)
theory OutputProperties
  imports RenderedMentions ModelOutput Publication
begin

text \<open>
  From a model's output to a message: what parsing never lets through, the shape of the tables it yields, the
  mentions of the message, and the summary of a published document.
\<close>

section \<open>Privileged segments\<close>

definition unprivileged :: "SlackSegment \<Rightarrow> bool" where
  "unprivileged s \<longleftrightarrow>
     seg_Kind s \<noteq> SlackSegmentApproval \<and> seg_Approval s = None \<and> seg_Kind s \<noteq> SlackSegmentNotice \<and> seg_Notice s = None"

lemma modelSegmentsAllowed_iff: "modelSegmentsAllowed segs \<longleftrightarrow> list_all unprivileged segs"
  by (simp add: modelSegmentsAllowed_def unprivileged_def list_all_iff)

named_theorems repairs "the repairs of a segment"

lemma bold_unprivileged [repairs]: "unprivileged (bold_segment s) = unprivileged s"
  by (simp add: bold_segment_def map_cells_def unprivileged_def split: SlackSegmentKind.split)

lemma link_unprivileged [repairs]: "unprivileged (link_segment p s) = unprivileged s"
  by (simp add: link_segment_def map_cells_def unprivileged_def)

lemma fit_unprivileged [repairs]: "unprivileged (fit_segment s) = unprivileged s"
  by (simp add: fit_segment_def unprivileged_def split: option.split)

lemma flush_unprivileged: "list_all unprivileged (flush_text lines start stop)"
  by (simp add: flush_text_def Let_def text_segment_def zero_SlackSegment_def unprivileged_def)

lemma table_unprivileged: "unprivileged (promoted_table headers as rows)"
  by (simp add: promoted_table_def zero_SlackSegment_def unprivileged_def)

lemma promoted_unprivileged: "list_all unprivileged (promote_from lines start i inFence)"
  by (induction lines start i inFence rule: promote_from.induct)
     (subst promote_from.simps, auto simp: Let_def flush_unprivileged table_unprivileged split: option.split)

lemma promote_unprivileged: "list_all unprivileged segs \<Longrightarrow> list_all unprivileged (promoteMarkdownTables segs)"
  using promoted_unprivileged
  by (auto simp: promoteMarkdownTables_def promoteMarkdownTableSegment_def Let_def list_all_iff split: if_splits)

lemma repaired_unprivileged:
  "list_all unprivileged segs \<Longrightarrow> list_all unprivileged (normalizeModelSlackResult p segs)"
  unfolding normalizeModelSlackResult_def normalizeModelTableRows_def normalizeModelSlackLinks_def normalizeModelSlackMarkdown_def
  by (rule promote_unprivileged) (auto simp: list_all_iff repairs)

lemma parse_segments_cases:
  assumes "parse_segments p d raw = Inr segs"
  obtains "segs = promoteMarkdownTables (normalizeModelSlackMarkdown [text_segment raw])"
    | l where "legacy_allowed l" "segs = normalizeModelSlackResult p [legacy_segment l]"
    | ss where "modelSegmentsAllowed ss" "segs = normalizeModelSlackResult p ss"
  using assms
  by (auto simp: parse_segments_def parse_object_def parse_legacy_def parse_list_def
      split: if_splits option.splits list.splits)

lemma parsed_unprivileged:
  assumes "parse_segments p d raw = Inr segs" shows "list_all unprivileged segs"
  using assms
proof (cases rule: parse_segments_cases)
  case 1
  have "list_all unprivileged (map bold_segment [text_segment raw])"
    by (simp add: repairs) (simp add: text_segment_def unprivileged_def zero_SlackSegment_def)
  then show ?thesis unfolding 1 normalizeModelSlackMarkdown_def by (rule promote_unprivileged)
next
  case (2 l)
  then show ?thesis by (auto simp: legacy_allowed_def legacy_segment_def unprivileged_def intro!: repaired_unprivileged)
next
  case (3 ss)
  then show ?thesis by (simp add: modelSegmentsAllowed_iff repaired_unprivileged)
qed

text \<open>
  C11. Whatever a model writes, the parsed result has no approval or notice and none of the fields the control
  plane owns: no files, no admitted mentions, no footer.
\<close>

theorem parsed_output_unprivileged:
  assumes "ParseModelOutput p d output = Inr r"
  shows "list_all unprivileged (res_Segments r) \<and> res_Files r = [] \<and> res_AllowedMentions r = no_mentions \<and> res_AgentFooter r = None"
  using assms parsed_unprivileged
  by (auto simp: ParseModelOutput_def model_result_def zero_SlackResult_def no_mentions_def split: if_splits sum.splits)

section \<open>Tables of the declared width\<close>

definition even_rows :: "SlackSegment \<Rightarrow> bool" where
  "even_rows s \<longleftrightarrow>
     (case seg_Table s of
        None \<Rightarrow> True
      | Some t \<Rightarrow> seg_Kind s = SlackSegmentTable \<and> table_Columns t \<noteq> []
                  \<longrightarrow> list_all (\<lambda>row. length row = length (table_Columns t)) (table_Rows t))"

lemma fit_row_length: "0 < n \<Longrightarrow> length (fit_row n row) = n"
  by (simp add: fit_row_def)

lemma fit_even: "even_rows (fit_segment s)"
  by (auto simp: even_rows_def fit_segment_def list_all_iff fit_row_length split: option.split)

lemma promoted_rows_length: "list_all (\<lambda>row. length row = n) (promoted_rows n lines)"
  by (induction n lines rule: promoted_rows.induct) (auto split: option.split)

lemma alignments_length: "markdownTableAlignments line n = Some as \<Longrightarrow> length as = n"
  by (auto simp: markdownTableAlignments_def split: option.splits if_splits)

lemma table_at_even: "table_at lines i = Some (headers, as, rows) \<Longrightarrow> even_rows (promoted_table headers as rows)"
  using promoted_rows_length alignments_length
  by (auto simp: table_at_def even_rows_def promoted_table_def zero_SlackSegment_def Let_def split: option.splits if_splits)

lemma flush_even: "list_all even_rows (flush_text lines start stop)"
  by (simp add: flush_text_def Let_def text_segment_def even_rows_def zero_SlackSegment_def)

lemma promoted_even: "list_all even_rows (promote_from lines start i inFence)"
  by (induction lines start i inFence rule: promote_from.induct)
     (subst promote_from.simps, auto simp: Let_def flush_even table_at_even split: option.split)

lemma promote_even: "list_all even_rows segs \<Longrightarrow> list_all even_rows (promoteMarkdownTables segs)"
  using promoted_even
  by (auto simp: promoteMarkdownTables_def promoteMarkdownTableSegment_def Let_def list_all_iff split: if_splits)

lemma repaired_even: "list_all even_rows (normalizeModelSlackResult p segs)"
  unfolding normalizeModelSlackResult_def normalizeModelTableRows_def
  by (rule promote_even) (simp add: list_all_iff fit_even)

text \<open>
  Every table of a parsed result has rows of the declared number of cells.
\<close>

theorem parsed_tables_even:
  assumes "ParseModelOutput p d output = Inr r"
  shows "list_all even_rows (res_Segments r)"
proof -
  obtain raw segs where s: "parse_segments p d raw = Inr segs" and r: "r = model_result segs"
    using assms by (auto simp: ParseModelOutput_def split: if_splits sum.splits)
  have "list_all even_rows segs"
    using s
  proof (cases rule: parse_segments_cases)
    case 1
    have "list_all even_rows (map bold_segment [text_segment raw])"
      by (simp add: bold_segment_def text_segment_def even_rows_def zero_SlackSegment_def)
    then show ?thesis unfolding 1 normalizeModelSlackMarkdown_def by (rule promote_even)
  qed (simp_all add: repaired_even)
  then show ?thesis by (simp add: r model_result_def)
qed

section \<open>Mentions in the message of an answer\<close>

text \<open>
  C10. An answer of a model that is parsed, given an allowlist and rendered mentions only what the allowlist
  names, in every mrkdwn text of the message: no \<^verbatim>\<open><!channel>\<close>, no member or channel of the model's choice.  The
  only exception is the link text of an artifact whose URL itself contains a \<^verbatim>\<open><\<close>; every other text of such
  an answer, and every other link to an artifact, is covered.  The identifiers on the allowlist, which come from
  Slack, contain no \<^verbatim>\<open><\<close>.
\<close>

theorem answer_mentions:
  assumes "ParseModelOutput p d output = Inr r" "plain_ids allowed" "Render p now (r\<lparr>res_AllowedMentions := allowed\<rparr>) = Inr qs"
    "b \<in> set (all_blocks qs)" "t \<in> set (mrkdwn_texts b)"
  shows "admits allowed t \<or> (\<exists>seg \<in> set (res_Segments r). broken_link seg t)"
proof -
  obtain raw segs where s: "parse_segments p d raw = Inr segs" and r: "r = model_result segs"
    using assms(1) by (auto simp: ParseModelOutput_def split: if_splits sum.splits)
  have "\<forall>seg \<in> set (res_Segments r). seg_Kind seg \<notin> set control_kinds"
    using parsed_unprivileged [OF s] r by (auto simp: model_result_def list_all_iff unprivileged_def control_kinds_def)
  then show ?thesis
    using rendered_mentions [OF assms(3) _ _ _ assms(4,5)] assms(2) r by (simp add: model_result_def zero_SlackResult_def)
qed

section \<open>Published documents\<close>

definition artifact_urls :: "SlackSegment list \<Rightarrow> string list" where
  "artifact_urls segs = map art_URL (List.map_filter claims_artifact segs)"

lemma artifact_urls_simps [simp]:
  "artifact_urls [] = []"
  "artifact_urls (s # segs) = (case claims_artifact s of None \<Rightarrow> [] | Some a \<Rightarrow> [art_URL a]) @ artifact_urls segs"
  "artifact_urls (as @ bs) = artifact_urls as @ artifact_urls bs"
  by (simp_all add: artifact_urls_def List.map_filter_def split: option.split)

lemma artifact_urls_other: "\<forall>s \<in> set segs. seg_Kind s \<noteq> SlackSegmentArtifact \<Longrightarrow> artifact_urls segs = []"
  by (induction segs) (simp_all add: claims_artifact_def)

lemma published_url [simp]: "art_URL (published_artifact segs url) = url"
  by (auto simp: published_artifact_def find_Some_iff split: option.split)

lemma published_urls: "artifact_urls (map (\<lambda>url. artifact_segment (published_artifact segs url)) urls) = urls"
  by (induction urls) (simp_all add: claims_artifact_def artifact_segment_def)

lemma first_of_kind_kind: "s \<in> set (first_of_kind k segs) \<Longrightarrow> seg_Kind s = k"
  by (auto simp: first_of_kind_def dest!: in_set_takeD)

lemma provenance_iff: "ValidateArtifactProvenance result produced = Inr ()
    \<longleftrightarrow> set (artifact_urls (res_Segments result)) \<subseteq> set produced"
proof -
  have "find (\<lambda>(i, seg). unproven produced seg) (enumerate n segs) = None \<longleftrightarrow> set (artifact_urls segs) \<subseteq> set produced" for n segs
    by (induction segs arbitrary: n) (simp_all add: unproven_def split: option.split)
  note none = this [of 0 "res_Segments result"]
  show ?thesis using none by (cases "find (\<lambda>(i, seg). unproven produced seg) (enumerate 0 (res_Segments result))")
      (auto simp: ValidateArtifactProvenance_def)
qed

lemma compact_urls:
  assumes "produced \<noteq> []"
  shows "artifact_urls (res_Segments (CompactPublishedArtifactSummary result produced)) = sort produced"
proof -
  let ?segs = "res_Segments result"
  have h: "artifact_urls (first_of_kind SlackSegmentHeader ?segs) = []"
    by (rule artifact_urls_other) (auto dest: first_of_kind_kind)
  have m: "artifact_urls (concat (map (summary_synopsis (sort produced)) (first_of_kind SlackSegmentMRKDWN ?segs))) = []"
    by (rule artifact_urls_other) (auto simp: summary_synopsis_def Let_def split: if_splits dest: first_of_kind_kind)
  show ?thesis using assms h m by (simp add: CompactPublishedArtifactSummary_def Let_def published_urls)
qed

text \<open>
  After a publication the summary shows every produced document once, in order of the URLs, after at most one
  header and at most one text, and it passes the check of provenance.
\<close>

theorem published_once:
  assumes "produced \<noteq> []"
  shows "artifact_urls (res_Segments (CompactPublishedArtifactSummary result produced)) = sort produced
    \<and> length (res_Segments (CompactPublishedArtifactSummary result produced)) \<le> length produced + 2
    \<and> ValidateArtifactProvenance (CompactPublishedArtifactSummary result produced) produced = Inr ()"
proof -
  let ?segs = "res_Segments result"
  have one: "length (first_of_kind k ?segs) \<le> 1" for k by (simp add: first_of_kind_def)
  have "length (concat (map (summary_synopsis urls) ss)) \<le> length ss" for urls ss
    by (induction ss) (auto simp: summary_synopsis_def Let_def)
  then have "length (concat (map (summary_synopsis (sort produced)) (first_of_kind SlackSegmentMRKDWN ?segs))) \<le> 1"
    using one order_trans by blast
  then have "length (res_Segments (CompactPublishedArtifactSummary result produced)) \<le> length produced + 2"
    using assms one [of SlackSegmentHeader] by (simp add: CompactPublishedArtifactSummary_def Let_def)
  then show ?thesis using compact_urls [OF assms] provenance_iff by simp
qed

section \<open>Examples\<close>

definition no_json :: JSONDecoders where
  "no_json = \<lparr>jd_result = (\<lambda>_. None), jd_legacy = (\<lambda>_. None), jd_segments = (\<lambda>_. None)\<rparr>"

definition hello :: SlackResult where
  "hello = model_result [text_segment ''Hi <@U1>'']"

lemma parse_hello: "ParseModelOutput sample_ports no_json ''Hi <@U1>'' = Inr hello"
  by code_simp

lemma parsed_output_unprivileged_witness:
  "ParseModelOutput sample_ports no_json ''Hi <@U1>'' = Inr hello \<and> list_all unprivileged (res_Segments hello)"
  using parsed_output_unprivileged [OF parse_hello] parse_hello by blast

text \<open>An answer with a text and a link to an artifact, and its allowlist.\<close>

definition linked_json :: JSONDecoders where
  "linked_json = \<lparr>jd_result = (\<lambda>_. Some [text_segment ''Hi <@U1>'',
       artifact_segment \<lparr>art_Name = ''Plan <!channel>'', art_MediaType = '''', art_URL = ''https://h/p''\<rparr>]),
     jd_legacy = (\<lambda>_. None), jd_segments = (\<lambda>_. None)\<rparr>"

definition linked :: SlackResult where
  "linked = model_result [text_segment ''Hi <@U1>'',
     artifact_segment \<lparr>art_Name = ''Plan <!channel>'', art_MediaType = '''', art_URL = ''https://h/p''\<rparr>]"

lemma parse_linked: "ParseModelOutput sample_ports linked_json ''{}'' = Inr linked"
  by code_simp

definition only_u1 :: SlackMentionAllowlist where
  "only_u1 = \<lparr>allow_UserIDs = [''U1''], allow_ChannelIDs = []\<rparr>"

lemma answer_mentions_witness:
  "\<exists>qs. Render sample_ports 0 (linked\<lparr>res_AllowedMentions := only_u1\<rparr>) = Inr qs
     \<and> (\<exists>b \<in> set (all_blocks qs). ''Hi <@U1>'' \<in> set (mrkdwn_texts b)) \<and> admits only_u1 ''Hi <@U1>''
     \<and> (\<exists>b \<in> set (all_blocks qs). ''<https://h/p|Plan &lt;!channel&gt;>'' \<in> set (mrkdwn_texts b))
     \<and> admits only_u1 ''<https://h/p|Plan &lt;!channel&gt;>''"
proof -
  let ?r = "linked\<lparr>res_AllowedMentions := only_u1\<rparr>" and ?a = "''Hi <@U1>''" and ?b = "''<https://h/p|Plan &lt;!channel&gt;>''"
  have "case Render sample_ports 0 ?r of
      Inr qs \<Rightarrow> list_ex (\<lambda>b. ?a \<in> set (mrkdwn_texts b)) (all_blocks qs) \<and> list_ex (\<lambda>b. ?b \<in> set (mrkdwn_texts b)) (all_blocks qs)
    | Inl _ \<Rightarrow> False"
    by code_simp
  then obtain qs where q: "Render sample_ports 0 ?r = Inr qs" "\<exists>b \<in> set (all_blocks qs). ?a \<in> set (mrkdwn_texts b)"
    "\<exists>b \<in> set (all_blocks qs). ?b \<in> set (mrkdwn_texts b)"
    by (auto simp: list_ex_iff split: sum.splits)
  have sound: "\<not> (\<exists>seg \<in> set (res_Segments linked). broken_link seg t)" for t
    by (simp add: linked_def model_result_def zero_SlackResult_def broken_link_def text_segment_def artifact_segment_def zero_SlackSegment_def)
  have "plain_ids only_u1" by code_simp
  note mentions = answer_mentions [OF parse_linked this q(1)]
  have "admits only_u1 ?a" "admits only_u1 ?b" using mentions q(2,3) sound by blast+
  with q show ?thesis by blast
qed

lemma published_once_witness:
  "artifact_urls (res_Segments (CompactPublishedArtifactSummary hello [''https://b'', ''https://a''])) = [''https://a'', ''https://b'']"
proof -
  have "sort [''https://b'', ''https://a''] = [''https://a'', ''https://b'']" by code_simp
  then show ?thesis using published_once [of "[''https://b'', ''https://a'']" hello] by simp
qed

lemma parsed_tables_even_witness:
  "ParseModelOutput sample_ports no_json ''Hi <@U1>'' = Inr hello \<and> list_all even_rows (res_Segments hello)"
  using parsed_tables_even [OF parse_hello] parse_hello by blast

section \<open>Where the code falls short\<close>

text \<open>An artifact whose URL ends the link it is put into: it passes validation and mentions the channel.\<close>

definition breaking_artifact :: SlackArtifact where
  "breaking_artifact = \<lparr>art_Name = ''n'', art_MediaType = '''', art_URL = ''https://h/><!channel>''\<rparr>"

lemma artifact_url_mentions_channel:
  "validateArtifact sample_ports breaking_artifact = Inr () \<and> \<not> admits allowed (artifact_link breaking_artifact)"
proof -
  have "artifact_link breaking_artifact = ''<https://h/>'' @ ''<!channel>'' @ ''|n>''" by code_simp
  moreover have "entity_text ''<!channel>''"
    unfolding entity_text_def by (intro exI [of _ "CHR ''!''"] exI [of _ "''channel''"]) simp
  moreover have "\<not> allowedSlackEntity ''<!channel>'' allowed" by (auto simp: allowedSlackEntity_def list_ex_iff)
  ultimately have "\<not> admits allowed (artifact_link breaking_artifact)" unfolding admits_def by blast
  moreover have "validateArtifact sample_ports breaking_artifact = Inr ()" by code_simp
  ultimately show ?thesis by blast
qed

text \<open>The repair of bold text leaves what validation rejects.\<close>

lemma bold_italic_rejected:
  "normalizeSlackBold ''***x***'' = ''**x**'' \<and>
   validateMRKDWN ip (normalizeSlackBold ''***x***'') allowed = Inl (invalid_result ''double-asterisk bold is not Slack mrkdwn'')"
proof -
  have n: "normalizeSlackBold ''***x***'' = ''**x**''" by code_simp
  have "TrimSpace ''**x**'' \<noteq> ''''" "ValidString ''**x**''" "\<not> containsGFMLinkOutsideCode ''**x**''"
    "containsDoubleAsteriskOutsideCode ''**x**''"
    by code_simp+
  then show ?thesis unfolding n validateMRKDWN_def by simp
qed

text \<open>A divider after a full payload.\<close>

definition header_hi :: SlackSegment where
  "header_hi = zero_SlackSegment\<lparr>seg_Kind := SlackSegmentHeader, seg_Text := ''Hi''\<rparr>"

lemma trailing_divider_rejected:
  "Render sample_ports now (zero_SlackResult\<lparr>res_Segments := replicate 50 header_hi @ [zero_SlackSegment\<lparr>seg_Kind := SlackSegmentDivider\<rparr>]\<rparr>)
     = Inl (invalid_result ''rendered payload lacks accessible fallback text'')"
  by code_simp

text \<open>An approval of an action with Markdown in an argument.\<close>

definition markdown_approval :: SlackApproval where
  "markdown_approval =
     \<lparr>sap_ID = ''a'', sap_ActionHash = ''h'', sap_ToolID = ''t'', sap_OperationID = ''o'', sap_Risk = ''write'', sap_Destination = ''d'',
      sap_Arguments = [(''note'', JString ''**x**'')], sap_ExpiresAt = 9, sap_Status = '''', sap_ResolvedAt = 0\<rparr>"

lemma approval_markdown_rejected:
  "renderApprovalBlocks sample_ports markdown_approval = Inl (invalid_result ''approval details do not fit one native table'')"
  by code_simp

end
