(* ===== verification/Spec2Isabelle.thy ===== *)
theory Spec2Isabelle
  imports JobProperties CoordinatorProperties Policy Flood Sessions Registry PipelineProperties
    ContextPacks ObserverProperties Routines Triggers Curator ClassifierProperties
    ChannelConfig SyncState Decisions IntakeProperties DecideProperties OutputProperties
begin

text \<open>
  A verification development for TelemetryOS Tag (tos-tag), a Slack agent written in Go.

  \<^bold>\<open>The program.\<close>  Slack events enter through a transport and are handed to the pipeline
  (\<^verbatim>\<open>core/pipeline/pipeline.go\<close>).  \<^verbatim>\<open>HandleEnvelope\<close> asks the channel policy, keeps an authorized
  message in the observation store and queues what people say for a decision.  The decision worker
  claims one observation, assembles the context it may be decided in, asks the classifier, takes an
  admission slot, records the decision and leaves a reaction, a direct reply (a delivery) or an agent
  job behind.  The job workers run agent jobs in a harness, where a tool action may suspend the job
  until a person approves it, and the delivery worker sends results to Slack.  Routines and trigger
  subscriptions enqueue jobs on schedules, the curator turns settled conversations into memory, and
  every step appends a receipt to a tamper-evident chain.

  \<^bold>\<open>The theories, by the part of the program they model.\<close>  A definition is named as in the source
  (\<^verbatim>\<open><package>_<function>\<close> where two packages share a name); a record has the fields of the Go struct
  with a prefix.
  \<^item> Foundations: \<open>Prelude\<close> (times and durations in nanoseconds with the zero time apart, strings as bytes,
    maps with an explicit enumeration for Go's unordered \<^verbatim>\<open>range\<close>, results as \<open>(error + value) \<times> state\<close>),
    \<open>GoText\<close> (\<^verbatim>\<open>strings\<close>, \<^verbatim>\<open>unicode/utf8\<close>), \<open>GoRegexp\<close> (\<^verbatim>\<open>regexp\<close> with leftmost-first matching), \<open>GoRunes\<close>
    (code points and trimming), \<open>GoURL\<close> (\<^verbatim>\<open>net/url\<close>), \<open>Types\<close> (\<^verbatim>\<open>types/\<close>), \<open>Interfaces\<close> and \<open>Versioned\<close> (the contracts of the stores as locales).
  \<^item> Jobs (\<^verbatim>\<open>core/jobs\<close>): \<open>Jobs\<close>, \<open>JobLifecycle\<close>, \<open>JobInvariants\<close>, \<open>JobProperties\<close>.
  \<^item> Deliveries (\<^verbatim>\<open>core/deliveries\<close>): \<open>Deliveries\<close>, \<open>DeliveryInvariants\<close> (the queue); \<open>ModelOutput\<close>
    (\<^verbatim>\<open>model_output.go\<close>), \<open>Mrkdwn\<close>, \<open>RenderTables\<close>, \<open>RenderBlocks\<close>, \<open>Renderer\<close>, \<open>Publication\<close> (\<^verbatim>\<open>renderer.go\<close>:
    the rules of Slack's mrkdwn, tables and cards, approvals, notices and footer, the payloads, the summary of a
    published document), \<open>MrkdwnProperties\<close>, \<open>RendererProperties\<close>, \<open>RenderedMentions\<close>, \<open>OutputProperties\<close>.
  \<^item> Policy and admission: \<open>OrgConfig\<close> (\<^verbatim>\<open>core/orgconfig\<close>), \<open>Policy\<close>, \<open>Admission\<close>, \<open>Flood\<close>, \<open>ChannelConfig\<close>.
  \<^item> Approvals and audit: \<open>Approvals\<close>, \<open>AuditChain\<close>, \<open>Coordinator\<close>, \<open>CoordinatorProperties\<close>.
  \<^item> Models: \<open>Router\<close>, \<open>Registry\<close> (\<^verbatim>\<open>core/modelrouter\<close>).
  \<^item> Observations and context: \<open>Observer\<close>, \<open>ObserverProperties\<close>, \<open>Sessions\<close>, \<open>SyncState\<close>, \<open>ContextPacks\<close>,
    \<open>Memory\<close>, \<open>Curator\<close>.
  \<^item> Classification (\<^verbatim>\<open>core/classifier\<close>): \<open>ClassifierText\<close>, \<open>ClassifierSignals\<close>, \<open>ClassifierPolicy\<close>,
    \<open>ClassifierModel\<close>, \<open>Classifier\<close>, \<open>ClassifierProperties\<close>, \<open>Decisions\<close>.
  \<^item> Schedules: \<open>Schedule\<close>, \<open>Scheduler\<close>, \<open>Routines\<close>, \<open>Triggers\<close>.
  \<^item> The pipeline: \<open>Pipeline\<close>, \<open>SystemSteps\<close>, \<open>PipelineProperties\<close> (workers), \<open>Intake\<close>, \<open>IntakeProperties\<close>
    (ingress), \<open>PipelineText\<close>, \<open>Decide\<close>, \<open>DecideProperties\<close> (decisions).

  \<^bold>\<open>How state and effects are modelled.\<close>  Every store is a record or a map; an operation takes the readings
  of the clock and the fresh identifiers it uses as arguments (a composed operation takes streams of
  them) and returns its result and the store.  \<open>System\<close> holds the stores of the worker side and \<open>World\<close>
  those of the whole pipeline.  Mutexes make each operation atomic, so concurrent workers are sequences
  of operations: the step relations \<open>job_step\<close>, \<open>approval_step\<close>, \<open>system_moves\<close> and their reachable
  states.  A \<^verbatim>\<open>range\<close> over a Go map takes an enumeration as an argument and the theorems hold for every
  one.  Counters are unbounded integers and \<^verbatim>\<open>float64\<close> values rationals; times are integers.  SHA-256,
  HMAC, JSON encoders and decoders, the decimal forms of a \<^verbatim>\<open>float64\<close>, the Unicode tables, the HTTP call to the classification model, the harness and
  Slack itself are parameters, without hypotheses unless a theorem states one.

  \<^bold>\<open>What the theorems show.\<close>
  \<^item> Safety of the queues: one writer per session generation, fenced leases, final states that stay final,
    one record per idempotency key, one output per observation (\<open>JobProperties\<close>, \<open>DeliveryInvariants\<close>,
    \<open>ObserverProperties\<close>); \<open>PipelineProperties\<close> lifts the invariants to the composed system.
  \<^item> Authorization at the moment of the effect: of a run, of a send (\<open>PipelineProperties\<close>), of retention and
    of queueing (\<open>IntakeProperties\<close>), of output and of context (\<open>DecideProperties\<close>), of an approval and its
    single use (\<open>Coordinator\<close>, \<open>Approvals\<close>, refined to a machine of four states).
  \<^item> Bounds: admissions per hour and at once, tokens of a context pack, and that every reservation a
    decision opens is settled.
  \<^item> The classifier: whatever the model answers, a decision acts only where it is admitted, releases only safe
    evidence, and asks no provider where none is needed.
  \<^item> From a model's answer to a message: no answer yields an approval, a notice or a field of the control plane;
    what is rendered mentions only what the allowlist names; a message keeps every block in order within
    Slack's limits (50 blocks, one table, 100 rows and 10,000 characters of a table, 3000 code points of a
    section), and cutting a table or a text loses no row and no word (\<open>OutputProperties\<close>,
    \<open>RendererProperties\<close>, \<open>MrkdwnProperties\<close>).  A block is a JSON object with its entries in the order the code
    writes them.
  \<^item> Totality: the router and the loops return; a loop that may not return is an option value (\<open>Schedule\<close>,
    \<open>Scheduler\<close>) and the fuel of the regular expressions is the length of the remaining text plus one,
    which \<open>star_ends\<close> cannot exhaust because every round consumes a rune.
  \<^item> Where the code falls short of its intent the theorem says what it does (a cancelled job that stays in
    \<^verbatim>\<open>cancelling\<close>, integration triggers that are never answered, flood drops without a receipt, facts
    that cross a restriction, an artifact URL that mentions the channel, bold italics and trailing dividers that
    discard an answer); each has a concrete witness.

  \<^bold>\<open>Not modelled.\<close>  The MongoDB stores (queries of a third-party driver), the HTTP server, the live Slack
  transport and its history crawler, the Codex harness and its containers, the tool gateway and
  marketplace, configuration loading, logging, metrics and usage accounting, the activity feed, the
  situation-fact projector, retention sweeps, command lines and evaluation programs: they are input and output
  around the operations above, and where the pipeline calls one of them it is a parameter.
\<close>

end
